(* ===== verification/PyString.thy ===== *)
theory PyString
  imports Prelude
begin

text \<open>
  The part of Python's \<^verbatim>\<open>str\<close> type that the program uses. A Python string is a
  \<^typ>\<open>string\<close>, one \<^typ>\<open>char\<close> per code point; the code points modelled are
  0 to 255 (Latin-1), on which \<^verbatim>\<open>isspace\<close>, \<^verbatim>\<open>isalnum\<close>,
  \<^verbatim>\<open>lower\<close>, \<^verbatim>\<open>splitlines\<close> and the UTF-8 encoding below are those of
  Python. The two letters whose upper case lies outside Latin-1 (code points 181 and 255) are
  left unchanged by \<^verbatim>\<open>py_upper\<close>.
\<close>

abbreviation (input) bslash :: char where "bslash \<equiv> CHR 0x5C"
abbreviation (input) dquote :: char where "dquote \<equiv> CHR 0x22"
abbreviation (input) squote :: char where "squote \<equiv> CHR 0x27"
abbreviation (input) star_c :: char where "star_c \<equiv> CHR 0x2A"
abbreviation (input) qmark_c :: char where "qmark_c \<equiv> CHR 0x3F"

section \<open>Character classes\<close>

definition ord_c :: "char \<Rightarrow> nat" where
  "ord_c c = of_char c"

definition chr_c :: "nat \<Rightarrow> char" where
  "chr_c n = char_of n"

lemma chr_ord [simp]: "chr_c (ord_c c) = c"
  by (simp add: chr_c_def ord_c_def)

lemma ord_chr: "n < 256 \<Longrightarrow> ord_c (chr_c n) = n"
  by (simp add: chr_c_def ord_c_def)

lemma ord_c_less: "ord_c c < 256"
  by (simp add: ord_c_def)

definition is_space :: "char \<Rightarrow> bool" where
  "is_space c = (let n = ord_c c in
     (9 \<le> n \<and> n \<le> 13) \<or> (28 \<le> n \<and> n \<le> 32) \<or> n = 133 \<or> n = 160)"

definition is_digit :: "char \<Rightarrow> bool" where
  "is_digit c = (let n = ord_c c in 48 \<le> n \<and> n \<le> 57)"

definition is_ascii_alpha :: "char \<Rightarrow> bool" where
  "is_ascii_alpha c = (let n = ord_c c in (65 \<le> n \<and> n \<le> 90) \<or> (97 \<le> n \<and> n \<le> 122))"

definition is_ascii_alnum :: "char \<Rightarrow> bool" where
  "is_ascii_alnum c = (is_ascii_alpha c \<or> is_digit c)"

definition is_alnum :: "char \<Rightarrow> bool" where
  "is_alnum c = (is_ascii_alnum c \<or> (let n = ord_c c in
     n \<in> set [170, 178, 179, 181, 185, 186, 188, 189, 190] \<or>
     (192 \<le> n \<and> n \<noteq> 215 \<and> n \<noteq> 247)))"

definition is_word_char :: "char \<Rightarrow> bool" where
  "is_word_char c = (is_alnum c \<or> c = CHR ''_'')"

definition is_hex :: "char \<Rightarrow> bool" where
  "is_hex c = (let n = ord_c c in
     (48 \<le> n \<and> n \<le> 57) \<or> (65 \<le> n \<and> n \<le> 70) \<or> (97 \<le> n \<and> n \<le> 102))"

definition hex_val :: "char \<Rightarrow> nat" where
  "hex_val c = (let n = ord_c c in
     if n \<le> 57 then n - 48 else if n \<le> 70 then n - 55 else n - 87)"

definition lower_c :: "char \<Rightarrow> char" where
  "lower_c c = (let n = ord_c c in
     if (65 \<le> n \<and> n \<le> 90) \<or> (192 \<le> n \<and> n \<le> 222 \<and> n \<noteq> 215) then chr_c (n + 32) else c)"

definition upper_c :: "char \<Rightarrow> string" where
  "upper_c c = (let n = ord_c c in
     if (97 \<le> n \<and> n \<le> 122) \<or> (224 \<le> n \<and> n \<le> 254 \<and> n \<noteq> 247) then [chr_c (n - 32)]
     else if n = 223 then ''SS'' else [c])"

definition py_lower :: "string \<Rightarrow> string" where
  "py_lower s = map lower_c s"

definition py_upper :: "string \<Rightarrow> string" where
  "py_upper s = concat (map upper_c s)"

section \<open>Prefixes, suffixes, stripping\<close>

fun starts_with :: "string \<Rightarrow> string \<Rightarrow> bool" where
  "starts_with s [] = True"
| "starts_with [] (p # ps) = False"
| "starts_with (c # cs) (p # ps) = (c = p \<and> starts_with cs ps)"

definition ends_with :: "string \<Rightarrow> string \<Rightarrow> bool" where
  "ends_with s p = starts_with (rev s) (rev p)"

definition removeprefix :: "string \<Rightarrow> string \<Rightarrow> string" where
  "removeprefix s p = (if starts_with s p then drop (length p) s else s)"

definition removesuffix :: "string \<Rightarrow> string \<Rightarrow> string" where
  "removesuffix s p = (if p \<noteq> [] \<and> ends_with s p then take (length s - length p) s else s)"

definition lstrip_by :: "(char \<Rightarrow> bool) \<Rightarrow> string \<Rightarrow> string" where
  "lstrip_by P s = dropWhile P s"

definition rstrip_by :: "(char \<Rightarrow> bool) \<Rightarrow> string \<Rightarrow> string" where
  "rstrip_by P s = rev (dropWhile P (rev s))"

definition strip_by :: "(char \<Rightarrow> bool) \<Rightarrow> string \<Rightarrow> string" where
  "strip_by P s = rstrip_by P (lstrip_by P s)"

abbreviation lstrip :: "string \<Rightarrow> string" where "lstrip \<equiv> lstrip_by is_space"
abbreviation rstrip :: "string \<Rightarrow> string" where "rstrip \<equiv> rstrip_by is_space"
abbreviation strip :: "string \<Rightarrow> string" where "strip \<equiv> strip_by is_space"

fun contains :: "string \<Rightarrow> string \<Rightarrow> bool" where
  "contains [] p = (p = [])"
| "contains (c # cs) p = (starts_with (c # cs) p \<or> contains cs p)"

section \<open>Splitting and joining\<close>

fun split_on :: "char \<Rightarrow> string \<Rightarrow> string \<Rightarrow> string list" where
  "split_on d [] cur = [rev cur]"
| "split_on d (c # cs) cur = (if c = d then rev cur # split_on d cs [] else split_on d cs (c # cur))"

definition py_split :: "string \<Rightarrow> char \<Rightarrow> string list" where
  "py_split s d = split_on d s []"

text \<open>\<^verbatim>\<open>s.partition(d)\<close> without the separator: what precedes and what follows it.\<close>

definition partition_c :: "string \<Rightarrow> char \<Rightarrow> string \<times> string" where
  "partition_c s d = (takeWhile (\<lambda>c. c \<noteq> d) s, drop 1 (dropWhile (\<lambda>c. c \<noteq> d) s))"

text \<open>Maximal runs of characters outside \<open>P\<close>: \<^verbatim>\<open>s.split()\<close> for whitespace.\<close>

fun fields_by :: "(char \<Rightarrow> bool) \<Rightarrow> string \<Rightarrow> string \<Rightarrow> string list" where
  "fields_by P [] cur = (if cur = [] then [] else [rev cur])"
| "fields_by P (c # cs) cur =
     (if P c then (if cur = [] then fields_by P cs [] else rev cur # fields_by P cs [])
      else fields_by P cs (c # cur))"

definition split_ws :: "string \<Rightarrow> string list" where
  "split_ws s = fields_by is_space s []"

fun join :: "string \<Rightarrow> string list \<Rightarrow> string" where
  "join sep [] = []"
| "join sep [x] = x"
| "join sep (x # y # ys) = x @ sep @ join sep (y # ys)"

text \<open>\<^verbatim>\<open>str.splitlines\<close>: a carriage return followed by a line feed is one boundary.\<close>

definition is_line_break :: "char \<Rightarrow> bool" where
  "is_line_break c = (let n = ord_c c in
     (10 \<le> n \<and> n \<le> 13) \<or> (28 \<le> n \<and> n \<le> 30) \<or> n = 133)"

fun lines_from :: "string \<Rightarrow> string \<Rightarrow> string list" where
  "lines_from [] cur = (if cur = [] then [] else [rev cur])"
| "lines_from (c # cs) cur =
     (if c = CHR 0x0D \<and> cs \<noteq> [] \<and> hd cs = CHR 0x0A then rev cur # lines_from (tl cs) []
      else if is_line_break c then rev cur # lines_from cs []
      else lines_from cs (c # cur))"

definition splitlines :: "string \<Rightarrow> string list" where
  "splitlines s = lines_from s []"

section \<open>Decimal and hexadecimal text\<close>

fun nat_of_digits :: "nat \<Rightarrow> string \<Rightarrow> nat" where
  "nat_of_digits acc [] = acc"
| "nat_of_digits acc (c # cs) = nat_of_digits (10 * acc + (ord_c c - 48)) cs"

definition hex_digit_upper :: "nat \<Rightarrow> char" where
  "hex_digit_upper n = chr_c (if n < 10 then n + 48 else n + 55)"

definition hex_digit_lower :: "nat \<Rightarrow> char" where
  "hex_digit_lower n = chr_c (if n < 10 then n + 48 else n + 87)"

text \<open>The UTF-8 bytes of one code point below 256, and \<^verbatim>\<open>s.encode().hex()\<close>.\<close>

definition utf8_bytes :: "char \<Rightarrow> nat list" where
  "utf8_bytes c = (let n = ord_c c in if n < 128 then [n] else [192 + n div 64, 128 + n mod 64])"

definition hex_of_byte :: "nat \<Rightarrow> string" where
  "hex_of_byte b = [hex_digit_lower (b div 16), hex_digit_lower (b mod 16)]"

definition encode_hex :: "string \<Rightarrow> string" where
  "encode_hex s = concat (map hex_of_byte (concat (map utf8_bytes s)))"

section \<open>urllib.parse.quote and quote_plus with no extra safe characters\<close>

definition quote_safe :: "char \<Rightarrow> bool" where
  "quote_safe c = (is_ascii_alnum c \<or> c \<in> set ''_.-~'')"

definition pct_byte :: "nat \<Rightarrow> string" where
  "pct_byte b = [CHR ''%'', hex_digit_upper (b div 16), hex_digit_upper (b mod 16)]"

definition quote_c :: "char \<Rightarrow> string" where
  "quote_c c = (if quote_safe c then [c] else concat (map pct_byte (utf8_bytes c)))"

definition quote :: "string \<Rightarrow> string" where
  "quote s = concat (map quote_c s)"

definition quote_plus :: "string \<Rightarrow> string" where
  "quote_plus s = concat (map (\<lambda>c. if c = CHR '' '' then ''+'' else quote_c c) s)"

end
