(* ===== verification/SecRule.thy ===== *)
theory SecRule
  imports PyString
begin

text \<open>
  The ModSecurity front end of \<^verbatim>\<open>translation/modsec_akamai.py\<close>: joining line
  continuations into directives, tokenising a directive, splitting its action list, parsing its
  variables, and the parsed form of one directive.
  The exception \<^verbatim>\<open>_Unsupported\<close> is the left injection of the result, carrying its message.
\<close>

datatype exn = Unsupported string | OutOfFuel

type_synonym 'a res = "exn + 'a"

abbreviation raise :: "string \<Rightarrow> 'a res" where "raise m \<equiv> Inl (Unsupported m)"

section \<open>Bounds\<close>

definition MAX_RULES :: nat where "MAX_RULES = 8"
definition MAX_VALUES :: nat where "MAX_VALUES = 32"
definition MAX_CLASS_MEMBERS :: nat where "MAX_CLASS_MEMBERS = 8"
definition MAX_REGEX_LENGTH :: nat where "MAX_REGEX_LENGTH = 4096"
definition MAX_ARGUMENT_LENGTH :: nat where "MAX_ARGUMENT_LENGTH = 4096"

section \<open>Parsed directives\<close>

record variable =
  collection :: string
  selector :: "string option"

record sec_rule =
  variables :: "variable list"
  negated :: bool
  operator :: string
  argument :: string
  transformations :: "string list"
  message :: "string option"
  tags :: "string list"
  chained :: bool

section \<open>Directive splitting\<close>

text \<open>The pattern \<^verbatim>\<open>^\s*SecRule\b\<close>, ignoring case.\<close>

definition secrule_line :: "string \<Rightarrow> bool" where
  "secrule_line line = (let rest = dropWhile is_space line in
     py_lower (take 7 rest) = ''secrule'' \<and>
     (case drop 7 rest of [] \<Rightarrow> True | c # _ \<Rightarrow> \<not> is_word_char c))"

fun join_continuations :: "string list \<Rightarrow> string \<Rightarrow> string list \<Rightarrow> string list" where
  "join_continuations [] buffer joined =
     (if strip buffer \<noteq> [] then joined @ [strip buffer] else joined)"
| "join_continuations (raw_line # ls) buffer joined =
     (let line = rstrip raw_line in
      if ends_with line [bslash]
      then join_continuations ls (buffer @ rstrip (butlast line) @ '' '') joined
      else (let buffer = buffer @ line in
            join_continuations ls [] (if strip buffer \<noteq> [] then joined @ [strip buffer] else joined)))"

definition split_directives :: "string \<Rightarrow> string list" where
  "split_directives text = filter secrule_line (join_continuations (splitlines text) [] [])"

section \<open>Tokens\<close>

text \<open>
  The inner loop of \<^verbatim>\<open>_tokenize\<close> on a quoted token: the characters up to the closing quote,
  and the input after it. A backslash before a quote or a backslash is dropped, any other
  backslash is kept. No closing quote is an error.
\<close>

fun quoted_token :: "string \<Rightarrow> string \<Rightarrow> (string \<times> string) res" where
  "quoted_token [] chunk = raise ''unterminated quoted token''"
| "quoted_token (c # cs) chunk =
     (if c = dquote then Inr (rev chunk, cs)
      else if c = bslash \<and> cs \<noteq> [] \<and> hd cs \<in> set [dquote, bslash]
      then quoted_token (tl cs) (hd cs # chunk)
      else quoted_token cs (c # chunk))"

lemma quoted_token_length: "quoted_token cs chunk = Inr (t, rest) \<Longrightarrow> length rest < length cs"
proof (induction cs chunk rule: quoted_token.induct)
  case (1 chunk)
  then show ?case by simp
next
  case (2 c cs chunk)
  show ?case
  proof (cases "c = dquote")
    case True
    with "2.prems" show ?thesis by simp
  next
    case nq: False
    show ?thesis
    proof (cases "c = bslash \<and> cs \<noteq> [] \<and> hd cs \<in> set [dquote, bslash]")
      case True
      with nq "2.prems" have "quoted_token (tl cs) (hd cs # chunk) = Inr (t, rest)"
        by (auto split: if_splits)
      with True nq "2.IH"(1) have "length rest < length (tl cs)" by blast
      then show ?thesis by simp
    next
      case False
      with nq "2.prems" have "quoted_token cs (c # chunk) = Inr (t, rest)"
        by (auto split: if_splits)
      with False nq "2.IH"(2) show ?thesis by simp
    qed
  qed
qed

function tokens_of :: "string \<Rightarrow> string list res" where
  "tokens_of body =
     (case dropWhile is_space body of
        [] \<Rightarrow> Inr []
      | c # cs \<Rightarrow>
          if c = dquote
          then (case quoted_token cs [] of
                  Inl e \<Rightarrow> Inl e
                | Inr tr \<Rightarrow> bindR (tokens_of (snd tr)) (\<lambda>ts. Inr (fst tr # ts)))
          else bindR (tokens_of (dropWhile (\<lambda>x. \<not> is_space x) cs))
                 (\<lambda>ts. Inr ((c # takeWhile (\<lambda>x. \<not> is_space x) cs) # ts)))"
  by pat_completeness auto
termination
proof (relation "measure length")
  show "wf (measure (length :: string \<Rightarrow> nat))" by simp
next
  fix body c cs tr
  assume "dropWhile is_space body = c # cs" and "quoted_token cs [] = Inr tr"
  then show "(snd tr, body) \<in> measure length"
    using quoted_token_length [of cs "[]" "fst tr" "snd tr"] length_dropWhile_Cons [of is_space body c cs]
    by simp
next
  fix body c cs
  assume "dropWhile is_space body = c # cs"
  then show "(dropWhile (\<lambda>x. \<not> is_space x) cs, body) \<in> measure length"
    using length_dropWhile_le [of "\<lambda>x. \<not> is_space x" cs] length_dropWhile_Cons [of is_space body c cs]
    by simp
qed

declare tokens_of.simps [simp del]

definition tokenize :: "string \<Rightarrow> string list res" where
  "tokenize directive = tokens_of (drop (length ''SecRule'') (strip directive))"

section \<open>Actions\<close>

fun split_actions_loop :: "string \<Rightarrow> string \<Rightarrow> char option \<Rightarrow> string list" where
  "split_actions_loop [] current quote_char = [strip (rev current)]"
| "split_actions_loop (c # cs) current (Some q) =
     (if c = q then split_actions_loop cs current None
      else split_actions_loop cs (c # current) (Some q))"
| "split_actions_loop (c # cs) current None =
     (if c = squote \<or> c = dquote then split_actions_loop cs current (Some c)
      else if c = CHR '','' then strip (rev current) # split_actions_loop cs [] None
      else split_actions_loop cs (c # current) None)"

definition split_actions :: "string \<Rightarrow> string list" where
  "split_actions actions = filter (\<lambda>part. part \<noteq> []) (split_actions_loop actions [] None)"

section \<open>Variables\<close>

definition header_name_char :: "char \<Rightarrow> bool" where
  "header_name_char c = (is_ascii_alnum c \<or> c \<in> set (''!#$%&*+-.^_`|~'' @ [squote]))"

definition valid_header_name :: "string \<Rightarrow> bool" where
  "valid_header_name s = (s \<noteq> [] \<and> list_all header_name_char s)"

definition parse_variable :: "string \<Rightarrow> variable res" where
  "parse_variable raw =
     (let item = strip raw in
      if item = [] then raise ''empty variable''
      else if starts_with item ''!'' then raise ''variable exclusions are not expressible''
      else
        (let coll = py_upper (strip (fst (partition_c item (CHR '':''))));
             sel = strip_by (\<lambda>c. c = squote \<or> c = dquote) (strip (snd (partition_c item (CHR '':''))))
         in if starts_with sel ''/'' \<or> CHR ''*'' \<in> set sel
            then raise ''regex variable selectors are not expressible''
            else if coll = ''REQUEST_HEADERS'' \<and> sel \<noteq> [] \<and> \<not> valid_header_name sel
            then raise ''request header selector is not a valid field name''
            else Inr \<lparr>collection = coll, selector = (if sel = [] then None else Some sel)\<rparr>))"

definition parse_variables :: "string \<Rightarrow> variable list res" where
  "parse_variables token =
     bindR (mapR parse_variable (py_split token (CHR ''|'')))
       (\<lambda>vs. if vs = [] then raise ''no variables'' else Inr vs)"

section \<open>Directives\<close>

text \<open>One action of the action list folded into the fields of the rule.\<close>

definition apply_action :: "sec_rule \<Rightarrow> string \<Rightarrow> sec_rule" where
  "apply_action r action =
     (let name = py_lower (strip (fst (partition_c action (CHR '':''))));
          val = strip (snd (partition_c action (CHR '':'')))
      in if name = ''t'' then r\<lparr>transformations := transformations r @ [py_lower val]\<rparr>
         else if name = ''msg'' then r\<lparr>message := (if val = [] then None else Some val)\<rparr>
         else if name = ''tag'' then (if val = [] then r else r\<lparr>tags := tags r @ [val]\<rparr>)
         else if name = ''chain'' then r\<lparr>chained := True\<rparr>
         else r)"

definition parse_operator :: "string \<Rightarrow> (bool \<times> string \<times> string) res" where
  "parse_operator tok =
     (let token = strip tok;
          neg = starts_with token ''!'';
          token = (if neg then lstrip (drop 1 token) else token)
      in if \<not> starts_with token ''@''
         then raise ''SecRule operator must be explicit (@rx, @contains, ...)''
         else (let op = strip (fst (partition_c (drop 1 token) (CHR '' '')));
                   arg = strip (snd (partition_c (drop 1 token) (CHR '' '')))
               in if length arg > MAX_ARGUMENT_LENGTH then raise ''operator argument is too large''
                  else Inr (neg, op, arg)))"

definition parse_secrule :: "string \<Rightarrow> sec_rule res" where
  "parse_secrule directive =
     bindR (tokenize directive) (\<lambda>tokens.
       if length tokens < 2 then raise ''SecRule needs a variable and an operator''
       else bindR (parse_variables (tokens ! 0)) (\<lambda>vs.
         bindR (parse_operator (tokens ! 1)) (\<lambda>(neg, op, arg).
           Inr (foldl apply_action
             \<lparr>variables = vs, negated = neg, operator = op, argument = arg,
              transformations = [], message = None, tags = [], chained = False\<rparr>
             (split_actions (if length tokens > 2 then tokens ! 2 else []))))))"

end
