(* ===== verification/Regex.thy ===== *)
theory Regex
  imports SecRule
begin

text \<open>
  The regex translator of \<^verbatim>\<open>translation/modsec_akamai.py\<close> (class
  \<^verbatim>\<open>_RegexTranslator\<close> and its helpers): a recursive-descent parser that expands a bounded
  regex subset into lists of wildcard parts, and the rendering of those lists into Akamai match
  values. The parser's mutable fields are the record \<open>tstate\<close>; \<open>rest\<close> is the source from the
  current index on. The descent is written with fuel, and \<open>parse_fuel_enough\<close> shows that the fuel
  \<open>translate\<close> supplies is never exhausted.
\<close>

section \<open>Parts and the parser's state\<close>

datatype part = PLit char | PAny | POne | PLadder "string list list"

type_synonym alts = "part list list"

record tstate =
  rest :: string
  lossy :: bool
  narrowed :: bool

record regex_result =
  r_values :: "string list"
  r_wildcard :: bool
  r_case_insensitive :: bool
  r_lossy :: bool
  r_narrowed :: bool

definition class_shorthand :: "char \<Rightarrow> bool" where
  "class_shorthand c = (c \<in> set ''sSdDwW'')"

fun escape_literal :: "char \<Rightarrow> char option" where
  "escape_literal c =
     (if c = CHR ''n'' then Some (CHR 0x0A) else if c = CHR ''r'' then Some (CHR 0x0D)
      else if c = CHR ''t'' then Some (CHR 0x09) else if c = CHR ''f'' then Some (CHR 0x0C)
      else if c = CHR ''v'' then Some (CHR 0x0B) else None)"

declare escape_literal.simps [simp del]

section \<open>Character classes\<close>

text \<open>The members of a class body, or \<open>None\<close> when they are not enumerable.\<close>

fun class_members :: "string \<Rightarrow> char list \<Rightarrow> char list option" where
  "class_members [] members = (if members = [] then None else Some (unique_list members))"
| "class_members (c # cs) members =
     (if c = bslash then
        (case cs of
           [] \<Rightarrow> None
         | following # cs' \<Rightarrow>
             if class_shorthand following \<or> is_alnum following then
               (case escape_literal following of
                  None \<Rightarrow> None
                | Some l \<Rightarrow> class_members cs' (members @ [l]))
             else class_members cs' (members @ [following]))
      else
        (case cs of
           dash # stop # cs' \<Rightarrow>
             if dash = CHR ''-'' then
               (if ord_c stop < ord_c c \<or> ord_c stop - ord_c c \<ge> MAX_CLASS_MEMBERS then None
                else class_members cs' (members @ map chr_c [ord_c c ..< Suc (ord_c stop)]))
             else class_members cs (members @ [c])
         | _ \<Rightarrow> class_members cs (members @ [c])))"

definition enumerate_class :: "string \<Rightarrow> char list option" where
  "enumerate_class body = class_members body []"

text \<open>\<^verbatim>\<open>_parse_class\<close>, called with the input after the opening bracket.\<close>

definition parse_class :: "tstate \<Rightarrow> (alts \<times> tstate) res" where
  "parse_class st =
     (let body = takeWhile (\<lambda>c. c \<noteq> CHR '']'') (rest st);
          after = dropWhile (\<lambda>c. c \<noteq> CHR '']'') (rest st)
      in if after = [] then raise ''unterminated character class''
         else (let st = st\<lparr>rest := tl after\<rparr> in
           if starts_with body ''^'' \<or> body = [] then Inr ([[POne]], st\<lparr>lossy := True\<rparr>)
           else (case enumerate_class body of
                   None \<Rightarrow> Inr ([[POne]], st\<lparr>lossy := True\<rparr>)
                 | Some members \<Rightarrow>
                     if length members > MAX_CLASS_MEMBERS then Inr ([[POne]], st\<lparr>lossy := True\<rparr>)
                     else Inr (map (\<lambda>m. [PLit m]) members, st))))"

section \<open>Escapes\<close>

text \<open>\<^verbatim>\<open>_parse_escape\<close>, called with the input after the backslash.\<close>

definition parse_escape :: "tstate \<Rightarrow> ((alts \<times> bool) \<times> tstate) res" where
  "parse_escape st =
     (case rest st of
        [] \<Rightarrow> raise ''dangling escape''
      | c # cs \<Rightarrow>
          (let st = st\<lparr>rest := cs\<rparr> in
           if class_shorthand c then Inr (([[POne]], True), st\<lparr>lossy := True\<rparr>)
           else if c \<in> set ''bB'' then Inr (([[]], False), st\<lparr>lossy := True\<rparr>)
           else (case escape_literal c of
             Some l \<Rightarrow> Inr (([[PLit l]], True), st)
           | None \<Rightarrow>
             if c = CHR ''x'' then
               (case cs of
                  h1 # h2 # cs' \<Rightarrow>
                    if is_hex h1 \<and> is_hex h2
                    then Inr (([[PLit (chr_c (16 * hex_val h1 + hex_val h2))]], True), st\<lparr>rest := cs'\<rparr>)
                    else raise ''unsupported hexadecimal escape''
                | _ \<Rightarrow> raise ''unsupported hexadecimal escape'')
             else if is_alnum c then raise (''unsupported regex escape: '' @ [bslash, c])
             else Inr (([[PLit c]], True), st))))"

section \<open>Encoding ladders\<close>

definition lit_of :: "part \<Rightarrow> char option" where
  "lit_of p = (case p of PLit c \<Rightarrow> Some c | _ \<Rightarrow> None)"

definition is_ladder :: "part \<Rightarrow> bool" where
  "is_ladder p = (case p of PLadder _ \<Rightarrow> True | _ \<Rightarrow> False)"

text \<open>The text of a branch made of literals only.\<close>

definition branch_text :: "part list \<Rightarrow> string option" where
  "branch_text parts =
     (if parts = [] \<or> (\<exists>p \<in> set parts. lit_of p = None) then None
      else Some (map (\<lambda>p. the (lit_of p)) parts))"

text \<open>Each string is the percent-encoding of the one before it.\<close>

fun quote_chain :: "string list \<Rightarrow> bool" where
  "quote_chain (a # b # bs) = (b = quote a \<and> quote_chain (b # bs))"
| "quote_chain _ = True"

definition as_encoding_ladder :: "alts \<Rightarrow> string list list option" where
  "as_encoding_ladder alternatives =
     (if length alternatives < 2 then None
      else if \<exists>parts \<in> set alternatives. branch_text parts = None then None
      else (let branches = map (\<lambda>parts. the (branch_text parts)) alternatives in
        if quote_chain branches then Some (map (\<lambda>b. [b]) branches)
        else if length branches \<ge> 3 \<and> take 3 branches = ['' '', ''+'', ''%20'']
                \<and> quote_chain (drop 2 branches)
        then Some ([branches ! 0] # [branches ! 1, branches ! 2] # map (\<lambda>b. [b]) (drop 3 branches))
        else None))"

section \<open>Quantifiers\<close>

text \<open>The pattern \<^verbatim>\<open>\{(\d+)(?:,(\d+))?\}\<close>, called with the input after the opening brace.\<close>

definition match_braces :: "string \<Rightarrow> (string \<times> string option \<times> string) option" where
  "match_braces s =
     (let d1 = takeWhile is_digit s; r1 = dropWhile is_digit s in
      if d1 = [] then None
      else (case r1 of
              [] \<Rightarrow> None
            | c # r2 \<Rightarrow>
                if c = CHR ''}'' then Some (d1, None, r2)
                else if c = CHR '','' then
                  (let d2 = takeWhile is_digit r2; r3 = dropWhile is_digit r2 in
                   if d2 = [] then None
                   else (case r3 of
                           [] \<Rightarrow> None
                         | c' # r4 \<Rightarrow> if c' = CHR ''}'' then Some (d1, Some d2, r4) else None))
                else None))"

definition cross :: "alts \<Rightarrow> alts \<Rightarrow> alts" where
  "cross prefixes suffixes = concat (map (\<lambda>p. map (\<lambda>s. p @ s) suffixes) prefixes)"

fun repeat_alts :: "nat \<Rightarrow> alts \<Rightarrow> alts \<Rightarrow> alts res" where
  "repeat_alts 0 alternatives repeated = Inr repeated"
| "repeat_alts (Suc n) alternatives repeated =
     (let repeated = cross repeated alternatives in
      if length repeated > MAX_VALUES then raise ''counted repetition expands to too many values''
      else repeat_alts n alternatives repeated)"

definition counted_repetition :: "alts \<Rightarrow> tstate \<Rightarrow> (alts \<times> tstate) res" where
  "counted_repetition alternatives st =
     (case match_braces (rest st) of
        None \<Rightarrow> raise ''unbounded or malformed counted repetition''
      | Some (d1, d2, after) \<Rightarrow>
          (let minimum = nat_of_digits 0 d1;
               maximum = (case d2 of None \<Rightarrow> minimum | Some d \<Rightarrow> nat_of_digits 0 d)
           in if maximum < minimum \<or> maximum < 1 \<or> maximum > 4096
              then raise ''counted repetition bounds are not expressible''
              else (let st = st\<lparr>rest := after\<rparr> in
                if minimum = 0 then Inr ([[PAny]], st\<lparr>lossy := True\<rparr>)
                else if minimum > MAX_VALUES then raise ''counted repetition minimum is too large''
                else bindR (repeat_alts minimum alternatives [[]]) (\<lambda>repeated.
                  if maximum > minimum
                  then Inr (map (\<lambda>parts. parts @ [PAny]) repeated, st\<lparr>lossy := True\<rparr>)
                  else Inr (repeated, st)))))"

text \<open>What \<^verbatim>\<open>_parse_term\<close> does after its atom.\<close>

definition apply_quantifier :: "alts \<Rightarrow> bool \<Rightarrow> tstate \<Rightarrow> (alts \<times> tstate) res" where
  "apply_quantifier alternatives single_char st =
     (case rest st of
        [] \<Rightarrow> Inr (alternatives, st)
      | c # cs \<Rightarrow>
          if c = CHR ''{'' then counted_repetition alternatives (st\<lparr>rest := cs\<rparr>)
          else if c \<notin> set ''*+?'' then Inr (alternatives, st)
          else
            (let st = st\<lparr>rest := (case cs of [] \<Rightarrow> [] | m # cs' \<Rightarrow> if m \<in> set ''?+'' then cs' else cs)\<rparr>
             in if c = CHR ''?'' \<and> \<not> single_char then
                  (if length alternatives + 1 > MAX_VALUES
                   then raise ''optional group expands to too many values''
                   else Inr ([] # alternatives, st))
                else if \<not> single_char then raise ''quantified groups are not expressible''
                else
                  (let expanded = (if c = CHR ''+'' then map (\<lambda>parts. parts @ [PAny]) alternatives
                                   else [[PAny]])
                   in if \<exists>parts \<in> set alternatives. \<exists>p \<in> set parts. is_ladder p
                      then raise ''quantified encoding ladders are not expressible''
                      else Inr (expanded, if alternatives \<noteq> [[POne]] then st\<lparr>lossy := True\<rparr> else st))))"

section \<open>Recursive descent\<close>

text \<open>
  Atoms and terms take the current character \<open>c\<close>; the state's \<open>rest\<close> is what follows it. The
  parser of a nested alternation is the argument \<open>palt\<close>, which \<open>parse_alternation\<close> supplies
  with itself one level deeper. \<open>concat_loop\<close> started with \<open>[[]]\<close> is
  \<^verbatim>\<open>_parse_concat\<close>; \<open>alternation_loop\<close> is the \<^verbatim>\<open>while\<close> loop of
  \<^verbatim>\<open>_parse_alternation\<close>. Each iteration and each nesting spends one unit of fuel.
\<close>

definition parse_group :: "(tstate \<Rightarrow> (alts \<times> tstate) res) \<Rightarrow> tstate \<Rightarrow> ((alts \<times> bool) \<times> tstate) res" where
  "parse_group palt st =
     (if starts_with (rest st) ''?'' \<and> \<not> starts_with (rest st) ''?:''
      then raise ''lookarounds and inline groups are not expressible''
      else
        bindR (palt (if starts_with (rest st) ''?:'' then st\<lparr>rest := drop 2 (rest st)\<rparr> else st))
          (\<lambda>(alternatives, st).
             case rest st of
               [] \<Rightarrow> raise ''unbalanced regex group''
             | c' # cs \<Rightarrow>
                 if c' \<noteq> CHR '')'' then raise ''unbalanced regex group''
                 else
                   (let st = st\<lparr>rest := cs\<rparr> in
                    case as_encoding_ladder alternatives of
                      Some ladder \<Rightarrow> Inr (([[PLadder ladder]], False), st\<lparr>narrowed := True\<rparr>)
                    | None \<Rightarrow> Inr ((alternatives, list_all (\<lambda>parts. length parts = 1) alternatives), st))))"

definition parse_atom ::
  "(tstate \<Rightarrow> (alts \<times> tstate) res) \<Rightarrow> char \<Rightarrow> tstate \<Rightarrow> ((alts \<times> bool) \<times> tstate) res" where
  "parse_atom palt c st =
     (if c = CHR ''('' then parse_group palt st
      else if c = CHR ''['' then
        bindR (parse_class st) (\<lambda>(alternatives, st). Inr ((alternatives, True), st))
      else if c = bslash then parse_escape st
      else if c = CHR ''.'' then Inr (([[POne]], True), st)
      else if c \<in> set ''^$'' then raise ''anchors are only supported at the pattern edges''
      else if c \<in> set ''{}'' then raise ''counted repetition is not expressible''
      else Inr (([[PLit c]], True), st))"

definition parse_term :: "(tstate \<Rightarrow> (alts \<times> tstate) res) \<Rightarrow> char \<Rightarrow> tstate \<Rightarrow> (alts \<times> tstate) res" where
  "parse_term palt c st =
     bindR (parse_atom palt c st) (\<lambda>((alternatives, single_char), st).
       apply_quantifier alternatives single_char st)"

fun concat_loop :: "(tstate \<Rightarrow> (alts \<times> tstate) res) \<Rightarrow> nat \<Rightarrow> alts \<Rightarrow> tstate \<Rightarrow> (alts \<times> tstate) res" where
  "concat_loop palt 0 results st = Inl OutOfFuel"
| "concat_loop palt (Suc n) results st =
     (case rest st of
        [] \<Rightarrow> Inr (results, st)
      | c # cs \<Rightarrow>
          if c = CHR ''|'' \<or> c = CHR '')'' then Inr (results, st)
          else bindR (parse_term palt c (st\<lparr>rest := cs\<rparr>)) (\<lambda>(term, st).
                 let combined = cross results term in
                 if length combined > MAX_VALUES then raise ''regex expands to too many values''
                 else concat_loop palt n combined st))"

fun alternation_loop ::
  "(tstate \<Rightarrow> (alts \<times> tstate) res) \<Rightarrow> nat \<Rightarrow> alts \<Rightarrow> tstate \<Rightarrow> (alts \<times> tstate) res" where
  "alternation_loop palt 0 alternatives st = Inl OutOfFuel"
| "alternation_loop palt (Suc n) alternatives st =
     (case rest st of
        [] \<Rightarrow> Inr (alternatives, st)
      | c # cs \<Rightarrow>
          if c \<noteq> CHR ''|'' then Inr (alternatives, st)
          else bindR (concat_loop palt n [[]] (st\<lparr>rest := cs\<rparr>)) (\<lambda>(more, st).
                 if length (alternatives @ more) > MAX_VALUES
                 then raise ''regex expands to too many values''
                 else alternation_loop palt n (alternatives @ more) st))"

fun parse_alternation :: "nat \<Rightarrow> nat \<Rightarrow> tstate \<Rightarrow> (alts \<times> tstate) res" where
  "parse_alternation 0 depth st = Inl OutOfFuel"
| "parse_alternation (Suc n) depth st =
     (if depth > 8 then raise ''regex nesting is too deep''
      else bindR (concat_loop (parse_alternation n (Suc depth)) n [[]] st) (\<lambda>(alternatives, st).
             alternation_loop (parse_alternation n (Suc depth)) n alternatives st))"

section \<open>Rendering\<close>

fun render_loop :: "nat \<Rightarrow> nat \<Rightarrow> part list \<Rightarrow> string list \<Rightarrow> bool \<Rightarrow> string list \<times> bool" where
  "render_loop depth variant [] rendered used = (rev rendered, used)"
| "render_loop depth variant (p # ps) rendered used =
     (case p of
        PLadder ladder \<Rightarrow>
          (let depth_variants = ladder ! depth in
           render_loop depth variant ps
             ((if variant < length depth_variants then depth_variants ! variant
               else depth_variants ! 0) # rendered) used)
      | PAny \<Rightarrow>
          (if rendered \<noteq> [] \<and> hd rendered = ''*''
           then render_loop depth variant ps rendered True
           else render_loop depth variant ps (''*'' # rendered) True)
      | POne \<Rightarrow> render_loop depth variant ps (''?'' # rendered) True
      | PLit c \<Rightarrow> render_loop depth variant ps ([c] # rendered) used)"

definition render :: "part list \<Rightarrow> nat \<Rightarrow> nat \<Rightarrow> string \<times> bool" where
  "render parts depth variant =
     (case render_loop depth variant parts [] False of (strs, used) \<Rightarrow> (concat strs, used))"

fun ladder_depth_loop :: "part list \<Rightarrow> nat \<Rightarrow> nat option" where
  "ladder_depth_loop [] depth = Some depth"
| "ladder_depth_loop (p # ps) depth =
     (case p of
        PLadder ladder \<Rightarrow>
          (if depth = 0 then ladder_depth_loop ps (length ladder)
           else if depth \<noteq> length ladder then None
           else ladder_depth_loop ps depth)
      | _ \<Rightarrow> ladder_depth_loop ps depth)"

definition ladder_depth :: "alts \<Rightarrow> nat option" where
  "ladder_depth alternatives =
     (case ladder_depth_loop (concat alternatives) 0 of
        None \<Rightarrow> None
      | Some depth \<Rightarrow> Some (if depth = 0 then 1 else depth))"

definition ladder_variants :: "alts \<Rightarrow> nat \<Rightarrow> nat" where
  "ladder_variants alternatives depth =
     (let lens = concat (map (\<lambda>p. case p of PLadder ladder \<Rightarrow> [length (ladder ! depth)] | _ \<Rightarrow> [])
                           (concat alternatives))
      in if lens = [] then 1 else foldl max 0 lens)"

definition has_literal_wildcard :: "part list \<Rightarrow> bool" where
  "has_literal_wildcard parts = (\<exists>p \<in> set parts. p = PLit star_c \<or> p = PLit qmark_c)"

section \<open>Translation\<close>

text \<open>\<^verbatim>\<open>_read_inline_flags\<close>: case insensitivity and the source after the flag group.\<close>

definition read_inline_flags :: "string \<Rightarrow> (bool \<times> string) res" where
  "read_inline_flags source =
     (if starts_with source ''(?'' then
        (let flags = takeWhile is_ascii_alpha (drop 2 source);
             after = dropWhile is_ascii_alpha (drop 2 source)
         in if flags = [] \<or> \<not> starts_with after '')'' then Inr (False, source)
            else if \<not> set flags \<subseteq> set ''is'' then raise (''unsupported inline regex flags: '' @ flags)
            else Inr (CHR ''i'' \<in> set flags, drop 1 after))
      else Inr (False, source))"

text \<open>The pattern edges: whether it is anchored at the start and at the end, and its body.\<close>

definition split_anchors :: "string \<Rightarrow> bool \<times> bool \<times> string" where
  "split_anchors source =
     (let anchored_start = starts_with source ''^'';
          body = (if anchored_start then drop 1 source else source);
          anchored_end = (ends_with body ''$'' \<and> \<not> ends_with body [bslash, CHR ''$''])
      in (anchored_start, anchored_end, if anchored_end then butlast body else body))"

definition parse_fuel :: "string \<Rightarrow> nat" where
  "parse_fuel body = length body + 2"

definition parse_body :: "string \<Rightarrow> (alts \<times> tstate) res" where
  "parse_body body =
     bindR (parse_alternation (parse_fuel body) 0 \<lparr>rest = body, lossy = False, narrowed = False\<rparr>)
       (\<lambda>(alternatives, st). if rest st \<noteq> [] then raise ''unbalanced regex group''
                             else Inr (alternatives, st))"

definition affix :: "bool \<Rightarrow> bool \<Rightarrow> string \<Rightarrow> string" where
  "affix anchored_start anchored_end v =
     (if anchored_start then [] else ''*'') @ v @ (if anchored_end then [] else ''*'')"

text \<open>Every alternative rendered at every depth and variant, in the order of the loops.\<close>

definition renderings :: "alts \<Rightarrow> nat \<Rightarrow> (string \<times> bool) list" where
  "renderings alternatives depths =
     concat (map (\<lambda>depth. concat (map (\<lambda>variant. map (\<lambda>parts. render parts depth variant) alternatives)
                                   [0 ..< ladder_variants alternatives depth]))
               [0 ..< depths])"

definition translate :: "string \<Rightarrow> regex_result res" where
  "translate source =
     (if length source > MAX_REGEX_LENGTH then raise ''regex is too large''
      else bindR (read_inline_flags source) (\<lambda>(ci, source).
        (case split_anchors source of (anchored_start, anchored_end, body) \<Rightarrow>
          bindR (parse_body body) (\<lambda>(alternatives, st).
            case ladder_depth alternatives of
              None \<Rightarrow> raise ''encoding ladders of differing depths cannot be aligned''
            | Some depths \<Rightarrow>
                (let rs = renderings alternatives depths;
                     wc = (\<not> anchored_start \<or> \<not> anchored_end \<or> (\<exists>r \<in> set rs. snd r));
                     vals = unique_list (map (\<lambda>r. affix anchored_start anchored_end (fst r)) rs)
                 in if length vals > MAX_VALUES then raise ''regex expands to too many values''
                    else if vals = [] \<or> (\<exists>v \<in> set vals. v = []) then raise ''regex produced an empty match value''
                    else if wc \<and> (\<exists>parts \<in> set alternatives. has_literal_wildcard parts)
                    then raise (''literal '' @ [squote] @ ''*'' @ [squote] @ '' or '' @ [squote] @ ''?''
                                @ [squote] @ '' cannot coexist with wildcards'')
                    else Inr \<lparr>r_values = vals, r_wildcard = wc, r_case_insensitive = ci,
                              r_lossy = lossy st, r_narrowed = narrowed st\<rparr>)))))"

section \<open>Progress and termination\<close>

text \<open>
  A nested parser \<open>advances\<close> when it never returns more input than it was given, and is
  \<open>fuelled\<close> up to \<open>k\<close> when it never runs out of fuel on an input of at most \<open>k\<close>
  characters.
\<close>

definition advances :: "(tstate \<Rightarrow> ('a \<times> tstate) res) \<Rightarrow> bool" where
  "advances palt \<longleftrightarrow> (\<forall>st a st'. palt st = Inr (a, st') \<longrightarrow> length (rest st') \<le> length (rest st))"

definition fuelled :: "(tstate \<Rightarrow> ('a \<times> tstate) res) \<Rightarrow> nat \<Rightarrow> bool" where
  "fuelled palt k \<longleftrightarrow> (\<forall>st. length (rest st) \<le> k \<longrightarrow> palt st \<noteq> Inl OutOfFuel)"

lemma advancesD: "advances palt \<Longrightarrow> palt st = Inr (a, st') \<Longrightarrow> length (rest st') \<le> length (rest st)"
  by (auto simp: advances_def)

lemma parse_class_advances: "advances parse_class"
  unfolding advances_def parse_class_def Let_def
  using length_dropWhile_le [of "\<lambda>c. c \<noteq> CHR '']''"]
  by (auto split: if_splits option.splits intro: le_trans [OF diff_le_self])

lemma parse_class_fuelled: "parse_class st \<noteq> Inl OutOfFuel"
  by (auto simp: parse_class_def Let_def split: option.splits)

lemma parse_escape_advances: "advances parse_escape"
  unfolding advances_def parse_escape_def Let_def
  by (auto split: list.splits if_splits option.splits)

lemma parse_escape_fuelled: "parse_escape st \<noteq> Inl OutOfFuel"
  by (auto simp: parse_escape_def Let_def split: list.splits option.splits)

lemma match_braces_length: "match_braces s = Some (d1, d2, after) \<Longrightarrow> length after < length s"
proof -
  assume m: "match_braces s = Some (d1, d2, after)"
  then obtain c r2 where r1: "dropWhile is_digit s = c # r2"
    and r2: "after = r2 \<or> length after < length r2"
    using length_dropWhile_Cons [of is_digit]
    by (auto simp: match_braces_def Let_def split: if_splits list.splits)
  with length_dropWhile_Cons [OF r1] show "length after < length s" by auto
qed

lemma repeat_alts_fuelled: "repeat_alts n alternatives repeated \<noteq> Inl OutOfFuel"
  by (induction n arbitrary: repeated) (auto simp: Let_def)

lemma counted_repetition_advances:
  "counted_repetition alternatives st = Inr (a, st') \<Longrightarrow> length (rest st') < length (rest st)"
  by (auto simp: counted_repetition_def Let_def bindR_eq_Inr
      split: option.splits if_splits prod.splits dest: match_braces_length)

lemma counted_repetition_fuelled: "counted_repetition alternatives st \<noteq> Inl OutOfFuel"
  by (auto simp: counted_repetition_def Let_def bindR_eq_Inl repeat_alts_fuelled
      split: option.splits prod.splits)

lemma apply_quantifier_advances: "advances (apply_quantifier alternatives single_char)"
  unfolding advances_def
proof (intro allI impI)
  fix st a st'
  assume q: "apply_quantifier alternatives single_char st = Inr (a, st')"
  show "length (rest st') \<le> length (rest st)"
  proof (cases "\<exists>cs. rest st = CHR ''{'' # cs")
    case True
    then obtain cs where cs: "rest st = CHR ''{'' # cs" by blast
    with q have "counted_repetition alternatives (st\<lparr>rest := cs\<rparr>) = Inr (a, st')"
      by (simp add: apply_quantifier_def)
    then show ?thesis using cs by (auto dest: counted_repetition_advances)
  next
    case False
    with q show ?thesis
      by (auto simp: apply_quantifier_def Let_def split: list.splits if_splits)
  qed
qed

lemma apply_quantifier_fuelled: "apply_quantifier alternatives single_char st \<noteq> Inl OutOfFuel"
  by (auto simp: apply_quantifier_def Let_def counted_repetition_fuelled split: list.splits)

definition open_group :: "tstate \<Rightarrow> tstate" where
  "open_group st = (if starts_with (rest st) ''?:'' then st\<lparr>rest := drop 2 (rest st)\<rparr> else st)"

lemma parse_group_InrE:
  assumes g: "parse_group palt st = Inr ((a, single), st')"
  obtains (Ladder) alternatives st1 cs ladder where
      "palt (open_group st) = Inr (alternatives, st1)" "rest st1 = CHR '')'' # cs"
      "as_encoding_ladder alternatives = Some ladder" "a = [[PLadder ladder]]" "\<not> single"
      "st' = st1\<lparr>rest := cs, narrowed := True\<rparr>"
  | (Plain) alternatives st1 cs where
      "palt (open_group st) = Inr (alternatives, st1)" "rest st1 = CHR '')'' # cs"
      "as_encoding_ladder alternatives = None" "a = alternatives"
      "single = list_all (\<lambda>parts. length parts = 1) alternatives" "st' = st1\<lparr>rest := cs\<rparr>"
proof -
  from g obtain alternatives st1 where p: "palt (open_group st) = Inr (alternatives, st1)"
    by (auto simp: parse_group_def open_group_def bindR_eq_Inr split: if_splits)
  from g p obtain cs where r: "rest st1 = CHR '')'' # cs"
    by (cases "rest st1") (auto simp: parse_group_def open_group_def split: if_splits)
  show thesis
  proof (cases "as_encoding_ladder alternatives")
    case None
    with g p r show ?thesis
      by (intro Plain [OF p r None])
        (auto simp: parse_group_def open_group_def [symmetric] Let_def split: if_splits)
  next
    case (Some ladder)
    with g p r show ?thesis
      by (intro Ladder [OF p r Some])
        (auto simp: parse_group_def open_group_def [symmetric] Let_def split: if_splits)
  qed
qed

lemma open_group_length: "length (rest (open_group st)) \<le> length (rest st)"
  by (simp add: open_group_def)

lemma parse_group_advances:
  assumes adv: "advances palt" shows "advances (parse_group palt)"
  unfolding advances_def
proof (intro allI impI)
  fix st a st'
  assume "parse_group palt st = Inr (a, st')"
  then have g: "parse_group palt st = Inr ((fst a, snd a), st')" by simp
  then show "length (rest st') \<le> length (rest st)"
  proof (cases rule: parse_group_InrE)
    case (Ladder alternatives st1 cs ladder)
    then have "length (rest st1) \<le> length (rest (open_group st))" using adv by (blast dest: advancesD)
    with Ladder open_group_length [of st] show ?thesis by simp
  next
    case (Plain alternatives st1 cs)
    then have "length (rest st1) \<le> length (rest (open_group st))" using adv by (blast dest: advancesD)
    with Plain open_group_length [of st] show ?thesis by simp
  qed
qed

lemma parse_group_fuelled: "fuelled palt k \<Longrightarrow> fuelled (parse_group palt) k"
  by (auto simp: fuelled_def parse_group_def Let_def bindR_eq_Inl
      split: list.splits option.splits)

lemma parse_atom_advances: "advances palt \<Longrightarrow> advances (parse_atom palt c)"
  using parse_group_advances [of palt] parse_class_advances parse_escape_advances
  by (auto simp: parse_atom_def advances_def bindR_eq_Inr)

lemma parse_atom_fuelled: "fuelled palt k \<Longrightarrow> fuelled (parse_atom palt c) k"
  using parse_group_fuelled [of palt k]
  by (auto simp: parse_atom_def fuelled_def bindR_eq_Inl parse_class_fuelled parse_escape_fuelled)

lemma parse_term_advances: "advances palt \<Longrightarrow> advances (parse_term palt c)"
  using parse_atom_advances [of palt c] apply_quantifier_advances
  unfolding parse_term_def advances_def
  by (auto simp: bindR_eq_Inr) (meson le_trans)

lemma parse_term_fuelled: "fuelled palt k \<Longrightarrow> fuelled (parse_term palt c) k"
  using parse_atom_fuelled [of palt k c]
  by (auto simp: parse_term_def fuelled_def bindR_eq_Inl apply_quantifier_fuelled)

lemma concat_loop_advances: "advances palt \<Longrightarrow> advances (concat_loop palt n results)"
proof (induction n arbitrary: results)
  case 0
  then show ?case by (simp add: advances_def)
next
  case (Suc n)
  from Suc have IH: "\<And>results. advances (concat_loop palt n results)" by blast
  show ?case
    unfolding advances_def
  proof (intro allI impI)
    fix st a st'
    assume c: "concat_loop palt (Suc n) results st = Inr (a, st')"
    show "length (rest st') \<le> length (rest st)"
    proof (cases "st' = st")
      case False
      with c obtain x cs t st1 where r: "rest st = x # cs"
        and t: "parse_term palt x (st\<lparr>rest := cs\<rparr>) = Inr (t, st1)"
        and l: "concat_loop palt n (cross results t) st1 = Inr (a, st')"
        by (auto simp: bindR_eq_Inr Let_def split: list.splits if_splits)
      have "length (rest st1) \<le> length cs"
        using parse_term_advances [OF Suc.prems] t by (fastforce simp: advances_def)
      moreover have "length (rest st') \<le> length (rest st1)"
        using IH l by (auto simp: advances_def)
      ultimately show ?thesis using r by simp
    qed simp
  qed
qed

lemma concat_loop_fuelled:
  assumes adv: "advances palt" and fuel: "\<And>j. j < k \<Longrightarrow> fuelled palt j"
  shows "length (rest st) < n \<Longrightarrow> length (rest st) \<le> k \<Longrightarrow>
    concat_loop palt n results st \<noteq> Inl OutOfFuel"
proof (induction n arbitrary: results st)
  case 0
  then show ?case by simp
next
  case (Suc n)
  show ?case
  proof
    assume c: "concat_loop palt (Suc n) results st = Inl OutOfFuel"
    then obtain x cs where r: "rest st = x # cs" by (auto split: list.splits)
    have "parse_term palt x (st\<lparr>rest := cs\<rparr>) \<noteq> Inl OutOfFuel"
      using parse_term_fuelled [OF fuel, of "length cs" x] Suc.prems r by (auto simp: fuelled_def)
    with c r obtain t st1 where t: "parse_term palt x (st\<lparr>rest := cs\<rparr>) = Inr (t, st1)"
      and l: "concat_loop palt n (cross results t) st1 = Inl OutOfFuel"
      by (auto simp: bindR_eq_Inl Let_def split: if_splits)
    have "length (rest st1) \<le> length cs"
      using parse_term_advances [OF adv, of x] t by (fastforce simp: advances_def)
    with Suc.prems r have "length (rest st1) < n" "length (rest st1) \<le> k" by auto
    from Suc.IH [OF this] l show False by blast
  qed
qed

lemma alternation_loop_advances: "advances palt \<Longrightarrow> advances (alternation_loop palt n alternatives)"
proof (induction n arbitrary: alternatives)
  case 0
  then show ?case by (simp add: advances_def)
next
  case (Suc n)
  from Suc have IH: "\<And>a. advances (alternation_loop palt n a)" by blast
  show ?case
    unfolding advances_def
  proof (intro allI impI)
    fix st a st'
    assume c: "alternation_loop palt (Suc n) alternatives st = Inr (a, st')"
    show "length (rest st') \<le> length (rest st)"
    proof (cases "st' = st")
      case False
      with c obtain x cs m st1 where r: "rest st = x # cs"
        and t: "concat_loop palt n [[]] (st\<lparr>rest := cs\<rparr>) = Inr (m, st1)"
        and l: "alternation_loop palt n (alternatives @ m) st1 = Inr (a, st')"
        by (auto simp: bindR_eq_Inr split: list.splits if_splits)
      have "length (rest st1) \<le> length cs"
        using concat_loop_advances [OF Suc.prems] t by (fastforce simp: advances_def)
      moreover have "length (rest st') \<le> length (rest st1)"
        using IH l by (auto simp: advances_def)
      ultimately show ?thesis using r by simp
    qed simp
  qed
qed

lemma alternation_loop_fuelled:
  assumes adv: "advances palt" and fuel: "\<And>j. j < k \<Longrightarrow> fuelled palt j"
  shows "length (rest st) < n \<Longrightarrow> length (rest st) \<le> k \<Longrightarrow>
    alternation_loop palt n alternatives st \<noteq> Inl OutOfFuel"
proof (induction n arbitrary: alternatives st)
  case 0
  then show ?case by simp
next
  case (Suc n)
  show ?case
  proof
    assume c: "alternation_loop palt (Suc n) alternatives st = Inl OutOfFuel"
    then obtain x cs where r: "rest st = x # cs" by (auto split: list.splits)
    have "concat_loop palt n [[]] (st\<lparr>rest := cs\<rparr>) \<noteq> Inl OutOfFuel"
      using concat_loop_fuelled [OF adv fuel] Suc.prems r by simp
    with c r obtain m st1 where t: "concat_loop palt n [[]] (st\<lparr>rest := cs\<rparr>) = Inr (m, st1)"
      and l: "alternation_loop palt n (alternatives @ m) st1 = Inl OutOfFuel"
      by (auto simp: bindR_eq_Inl split: if_splits)
    have "length (rest st1) \<le> length cs"
      using concat_loop_advances [OF adv] t by (fastforce simp: advances_def)
    with Suc.prems r have "length (rest st1) < n" "length (rest st1) \<le> k" by auto
    from Suc.IH [OF this] l show False by blast
  qed
qed

lemma parse_alternation_advances: "advances (parse_alternation n depth)"
proof (induction n arbitrary: depth)
  case 0
  then show ?case by (simp add: advances_def)
next
  case (Suc n)
  show ?case
    unfolding advances_def
    by (auto simp: bindR_eq_Inr dest!: advancesD [OF concat_loop_advances [OF Suc]]
        advancesD [OF alternation_loop_advances [OF Suc]] split: if_splits)
qed

lemma parse_fuel_enough: "k + 2 \<le> n \<Longrightarrow> fuelled (parse_alternation n depth) k"
proof (induction n arbitrary: depth k)
  case 0
  then show ?case by simp
next
  case (Suc n)
  have adv: "advances (parse_alternation n (Suc depth))" by (rule parse_alternation_advances)
  show ?case
    unfolding fuelled_def
  proof (intro allI impI)
    fix st :: tstate assume len: "length (rest st) \<le> k"
    have fuel: "fuelled (parse_alternation n (Suc depth)) j" if "j < k" for j
      using that Suc.prems by (intro Suc.IH) simp
    have c: "concat_loop (parse_alternation n (Suc depth)) n [[]] st \<noteq> Inl OutOfFuel"
      using concat_loop_fuelled [OF adv fuel] len Suc.prems by simp
    have a: "alternation_loop (parse_alternation n (Suc depth)) n alts st1 \<noteq> Inl OutOfFuel"
      if "concat_loop (parse_alternation n (Suc depth)) n [[]] st = Inr (alts, st1)" for alts st1
    proof -
      have "length (rest st1) \<le> length (rest st)"
        using concat_loop_advances [OF adv] that by (auto simp: advances_def)
      then show ?thesis using alternation_loop_fuelled [OF adv fuel] len Suc.prems by simp
    qed
    show "parse_alternation (Suc n) depth st \<noteq> Inl OutOfFuel"
      using c a by (auto simp: bindR_eq_Inl)
  qed
qed

lemma parse_body_total: "parse_body body \<noteq> Inl OutOfFuel"
proof -
  have "fuelled (parse_alternation (parse_fuel body) 0) (length body)"
    by (rule parse_fuel_enough) (simp add: parse_fuel_def)
  then show ?thesis by (auto simp: parse_body_def fuelled_def bindR_eq_Inl)
qed

lemma translate_total: "translate source \<noteq> Inl OutOfFuel"
  by (auto simp: translate_def bindR_eq_Inl read_inline_flags_def Let_def parse_body_total
      split: if_splits prod.splits option.splits)

end
