(* ===== verification/RegexSem.thy ===== *)
theory RegexSem
  imports Regex
begin

text \<open>
  Reference semantics for the regex translator. It has an abstract syntax of the supported regex
  subset with its matching relation, the concrete grammar that relates source text to that
  syntax, the matching relation of Akamai wildcard values, and the proof that the translator's
  expansion simulates the source: it always covers it, and matches nothing else when no
  generalisation was recorded.

  Matching is relative to a character relation \<open>eq\<close>: equality, or equality up to case. The dot
  matches every character and the end anchor only the very end of the subject, as the rule engine
  compiles its patterns.
\<close>

section \<open>Abstract syntax and matching\<close>

datatype rx =
    REps
  | RLit char
  | RDot
  | RClass bool "char \<Rightarrow> bool"
  | RBoundary bool
  | RSeq rx rx
  | RAlt rx rx
  | RStar rx
  | RPlus rx
  | ROpt rx
  | RRep nat nat rx
  | RPoss rx

text \<open>
  \<open>chain M l ss p\<close>: the strings \<open>ss\<close>, one after the other between \<open>l\<close> and \<open>p\<close>, are each
  matched by \<open>M\<close> in their context.
\<close>

fun chain :: "(string \<Rightarrow> string \<Rightarrow> string \<Rightarrow> bool) \<Rightarrow> string \<Rightarrow> string list \<Rightarrow> string \<Rightarrow> bool" where
  "chain M l [] p = True"
| "chain M l (s # ss) p = (M l s (concat ss @ p) \<and> chain M (l @ s) ss p)"

definition at_boundary :: "string \<Rightarrow> string \<Rightarrow> bool" where
  "at_boundary l p = ((l \<noteq> [] \<and> is_word_char (last l)) \<noteq> (p \<noteq> [] \<and> is_word_char (hd p)))"

text \<open>
  \<open>rmatch eq r l s p\<close>: \<open>r\<close> matches \<open>s\<close> in the subject \<open>l @ s @ p\<close>. A possessive
  quantifier only restricts what its expression matches; \<open>RPoss r\<close> has the matches of \<open>r\<close>,
  an upper bound.
\<close>

primrec rmatch :: "(char \<Rightarrow> char \<Rightarrow> bool) \<Rightarrow> rx \<Rightarrow> string \<Rightarrow> string \<Rightarrow> string \<Rightarrow> bool" where
  "rmatch eq REps = (\<lambda>l s p. s = [])"
| "rmatch eq (RLit c) = (\<lambda>l s p. \<exists>x. s = [x] \<and> eq c x)"
| "rmatch eq RDot = (\<lambda>l s p. \<exists>x. s = [x])"
| "rmatch eq (RClass neg P) = (\<lambda>l s p. \<exists>x. s = [x] \<and> (\<exists>m. P m \<and> eq m x) \<noteq> neg)"
| "rmatch eq (RBoundary b) = (\<lambda>l s p. s = [] \<and> at_boundary l p = b)"
| "rmatch eq (RSeq a b) = (\<lambda>l s p. \<exists>u v. s = u @ v \<and> rmatch eq a l u (v @ p) \<and> rmatch eq b (l @ u) v p)"
| "rmatch eq (RAlt a b) = (\<lambda>l s p. rmatch eq a l s p \<or> rmatch eq b l s p)"
| "rmatch eq (RStar r) = (\<lambda>l s p. \<exists>ss. s = concat ss \<and> chain (rmatch eq r) l ss p)"
| "rmatch eq (RPlus r) = (\<lambda>l s p. \<exists>ss. ss \<noteq> [] \<and> s = concat ss \<and> chain (rmatch eq r) l ss p)"
| "rmatch eq (ROpt r) = (\<lambda>l s p. s = [] \<or> rmatch eq r l s p)"
| "rmatch eq (RRep m n r) =
     (\<lambda>l s p. \<exists>ss. m \<le> length ss \<and> length ss \<le> n \<and> s = concat ss \<and> chain (rmatch eq r) l ss p)"
| "rmatch eq (RPoss r) = rmatch eq r"

text \<open>
  The expressions on which an unflagged expansion is claimed to be exact: no possessive
  quantifier, and no optional expression that matches every character.
\<close>

primrec faithful :: "(char \<Rightarrow> char \<Rightarrow> bool) \<Rightarrow> rx \<Rightarrow> bool" where
  "faithful eq REps = True"
| "faithful eq (RLit c) = True"
| "faithful eq RDot = True"
| "faithful eq (RClass neg P) = True"
| "faithful eq (RBoundary b) = True"
| "faithful eq (RSeq a b) = (faithful eq a \<and> faithful eq b)"
| "faithful eq (RAlt a b) = (faithful eq a \<and> faithful eq b)"
| "faithful eq (RStar r) = faithful eq r"
| "faithful eq (RPlus r) = faithful eq r"
| "faithful eq (ROpt r) = (faithful eq r \<and> \<not> (\<forall>c. rmatch eq r [] [c] []))"
| "faithful eq (RRep m n r) = faithful eq r"
| "faithful eq (RPoss r) = False"

section \<open>Concrete syntax\<close>

fun class_escape :: "char \<Rightarrow> (char \<Rightarrow> bool) option" where
  "class_escape e =
     (if e = CHR ''d'' then Some is_digit else if e = CHR ''D'' then Some (\<lambda>x. \<not> is_digit x)
      else if e = CHR ''w'' then Some is_word_char else if e = CHR ''W'' then Some (\<lambda>x. \<not> is_word_char x)
      else if e = CHR ''s'' then Some is_space else if e = CHR ''S'' then Some (\<lambda>x. \<not> is_space x)
      else (case escape_literal e of
              Some l \<Rightarrow> Some (\<lambda>x. x = l)
            | None \<Rightarrow> if is_alnum e then None else Some (\<lambda>x. x = e)))"

declare class_escape.simps [simp del]

text \<open>
  The characters of a class body: escapes, ranges between unescaped characters, and single
  characters. A range with an escaped end is outside the subset.
\<close>

fun class_items :: "string \<Rightarrow> (char \<Rightarrow> bool) option" where
  "class_items [] = Some (\<lambda>x. False)"
| "class_items (c # cs) =
     (if c = bslash then
        (case cs of
           [] \<Rightarrow> None
         | e # cs' \<Rightarrow>
             if starts_with cs' ''-'' \<and> cs' \<noteq> ''-'' then None
             else (case class_escape e of
                     None \<Rightarrow> None
                   | Some P \<Rightarrow> map_option (\<lambda>Q x. P x \<or> Q x) (class_items cs')))
      else
        (case cs of
           dash # stop # cs' \<Rightarrow>
             if dash = CHR ''-'' then
               (if stop = bslash then None
                else map_option (\<lambda>Q x. (ord_c c \<le> ord_c x \<and> ord_c x \<le> ord_c stop) \<or> Q x) (class_items cs'))
             else map_option (\<lambda>Q x. x = c \<or> Q x) (class_items cs)
         | _ \<Rightarrow> map_option (\<lambda>Q x. x = c \<or> Q x) (class_items cs)))"

text \<open>Whether the class is negated, and its listed characters. POSIX classes are outside the subset.\<close>

definition class_sem :: "string \<Rightarrow> (bool \<times> (char \<Rightarrow> bool)) option" where
  "class_sem body =
     (if body = [] \<or> body = ''^'' \<or> contains body ''[:'' then None
      else if starts_with body ''^'' then map_option (Pair True) (class_items (drop 1 body))
      else map_option (Pair False) (class_items body))"

definition special_char :: "char \<Rightarrow> bool" where
  "special_char c = (c \<in> set (''()[.^${}|*+?'' @ [bslash]))"

text \<open>A quantifier's text and what it makes of the expression before it.\<close>

inductive quant_text :: "string \<Rightarrow> (rx \<Rightarrow> rx) \<Rightarrow> bool" where
  star: "quant_text ''*'' RStar"
| star_lazy: "quant_text ''*?'' RStar"
| star_poss: "quant_text ''*+'' (\<lambda>r. RPoss (RStar r))"
| plus: "quant_text ''+'' RPlus"
| plus_lazy: "quant_text ''+?'' RPlus"
| plus_poss: "quant_text ''++'' (\<lambda>r. RPoss (RPlus r))"
| opt: "quant_text ''?'' ROpt"
| opt_lazy: "quant_text ''??'' ROpt"
| opt_poss: "quant_text ''?+'' (\<lambda>r. RPoss (ROpt r))"
| exactly: "d \<noteq> [] \<Longrightarrow> list_all is_digit d \<Longrightarrow>
    quant_text (''{'' @ d @ ''}'') (RRep (nat_of_digits 0 d) (nat_of_digits 0 d))"
| between: "d \<noteq> [] \<Longrightarrow> list_all is_digit d \<Longrightarrow> e \<noteq> [] \<Longrightarrow> list_all is_digit e \<Longrightarrow>
    quant_text (''{'' @ d @ '','' @ e @ ''}'') (RRep (nat_of_digits 0 d) (nat_of_digits 0 e))"

text \<open>
  The grammar: alternations, concatenations, quantified terms and atoms, each with the
  expression it denotes.
\<close>

inductive alt_text :: "string \<Rightarrow> rx \<Rightarrow> bool"
  and cat_text :: "string \<Rightarrow> rx \<Rightarrow> bool"
  and term_text :: "string \<Rightarrow> rx \<Rightarrow> bool"
  and atom_text :: "string \<Rightarrow> rx \<Rightarrow> bool"
where
  alt_one: "cat_text w r \<Longrightarrow> alt_text w r"
| alt_more: "cat_text w r \<Longrightarrow> alt_text v q \<Longrightarrow> alt_text (w @ ''|'' @ v) (RAlt r q)"
| cat_none: "cat_text [] REps"
| cat_more: "term_text w r \<Longrightarrow> cat_text v q \<Longrightarrow> cat_text (w @ v) (RSeq r q)"
| term_plain: "atom_text w r \<Longrightarrow> term_text w r"
| term_quant: "atom_text w r \<Longrightarrow> quant_text q f \<Longrightarrow> term_text (w @ q) (f r)"
| atom_group: "alt_text w r \<Longrightarrow> atom_text (''('' @ w @ '')'') r"
| atom_noncapturing: "alt_text w r \<Longrightarrow> atom_text (''(?:'' @ w @ '')'') r"
| atom_class: "CHR '']'' \<notin> set body \<Longrightarrow> class_sem body = Some (neg, P) \<Longrightarrow>
    atom_text (''['' @ body @ '']'') (RClass neg P)"
| atom_dot: "atom_text ''.'' RDot"
| atom_lit: "\<not> special_char c \<Longrightarrow> atom_text [c] (RLit c)"
| atom_shorthand: "class_shorthand e \<Longrightarrow> class_escape e = Some P \<Longrightarrow>
    atom_text [bslash, e] (RClass False P)"
| atom_boundary: "atom_text [bslash, CHR ''b''] (RBoundary True)"
| atom_no_boundary: "atom_text [bslash, CHR ''B''] (RBoundary False)"
| atom_control: "escape_literal e = Some l \<Longrightarrow> atom_text [bslash, e] (RLit l)"
| atom_hex: "is_hex h \<Longrightarrow> is_hex k \<Longrightarrow>
    atom_text [bslash, CHR ''x'', h, k] (RLit (chr_c (16 * hex_val h + hex_val k)))"
| atom_escaped: "\<not> is_alnum e \<Longrightarrow> atom_text [bslash, e] (RLit e)"

section \<open>Matching of expansions and of wildcard values\<close>

primrec part_match :: "(char \<Rightarrow> char \<Rightarrow> bool) \<Rightarrow> part \<Rightarrow> string \<Rightarrow> bool" where
  "part_match eq (PLit c) = (\<lambda>s. \<exists>x. s = [x] \<and> eq c x)"
| "part_match eq PAny = (\<lambda>s. True)"
| "part_match eq POne = (\<lambda>s. \<exists>x. s = [x])"
| "part_match eq (PLadder ladder) = (\<lambda>s. \<exists>t \<in> set (concat ladder). list_all2 eq t s)"

fun parts_match :: "(char \<Rightarrow> char \<Rightarrow> bool) \<Rightarrow> part list \<Rightarrow> string \<Rightarrow> bool" where
  "parts_match eq [] s = (s = [])"
| "parts_match eq (p # ps) s = (\<exists>a b. s = a @ b \<and> part_match eq p a \<and> parts_match eq ps b)"

definition alts_match :: "(char \<Rightarrow> char \<Rightarrow> bool) \<Rightarrow> alts \<Rightarrow> string \<Rightarrow> bool" where
  "alts_match eq alternatives s = (\<exists>parts \<in> set alternatives. parts_match eq parts s)"

text \<open>
  An Akamai value with wildcards: \<^verbatim>\<open>*\<close> matches any run of characters,
  \<^verbatim>\<open>?\<close> one character, any other character itself.
\<close>

fun glob :: "(char \<Rightarrow> char \<Rightarrow> bool) \<Rightarrow> string \<Rightarrow> string \<Rightarrow> bool" where
  "glob eq [] s = (s = [])"
| "glob eq (c # cs) s =
     (if c = star_c then glob eq cs s \<or> (case s of [] \<Rightarrow> False | x # xs \<Rightarrow> glob eq (c # cs) xs)
      else (case s of [] \<Rightarrow> False | x # xs \<Rightarrow> (c = qmark_c \<or> eq c x) \<and> glob eq cs xs))"

definition value_match :: "(char \<Rightarrow> char \<Rightarrow> bool) \<Rightarrow> bool \<Rightarrow> string \<Rightarrow> string \<Rightarrow> bool" where
  "value_match eq wc v s = (if wc then glob eq v s else list_all2 eq v s)"

definition char_eq :: "bool \<Rightarrow> char \<Rightarrow> char \<Rightarrow> bool" where
  "char_eq ci a b = (if ci then lower_c a = lower_c b else a = b)"

section \<open>Algebra of expansions\<close>

lemma parts_match_append:
  "parts_match eq (xs @ ys) s \<longleftrightarrow> (\<exists>a b. s = a @ b \<and> parts_match eq xs a \<and> parts_match eq ys b)"
proof (induction xs arbitrary: s)
  case Nil
  then show ?case by simp
next
  case (Cons x xs)
  show ?case
  proof
    assume "parts_match eq ((x # xs) @ ys) s"
    then obtain a b c where "s = a @ b @ c" "part_match eq x a" "parts_match eq xs b" "parts_match eq ys c"
      by (auto simp: Cons)
    then show "\<exists>a b. s = a @ b \<and> parts_match eq (x # xs) a \<and> parts_match eq ys b"
      by (intro exI [of _ "a @ b"] exI [of _ c]) auto
  next
    assume "\<exists>a b. s = a @ b \<and> parts_match eq (x # xs) a \<and> parts_match eq ys b"
    then obtain a b c where "s = (a @ b) @ c" "part_match eq x a" "parts_match eq xs b" "parts_match eq ys c"
      by auto
    then show "parts_match eq ((x # xs) @ ys) s"
      using Cons [of "b @ c"] by auto
  qed
qed

lemma alts_match_empty [simp]: "\<not> alts_match eq [] s"
  by (simp add: alts_match_def)

lemma alts_match_append [simp]: "alts_match eq (A @ B) s \<longleftrightarrow> alts_match eq A s \<or> alts_match eq B s"
  by (auto simp: alts_match_def)

lemma alts_match_optional [simp]: "alts_match eq ([] # A) s \<longleftrightarrow> s = [] \<or> alts_match eq A s"
  by (auto simp: alts_match_def)

lemma alts_match_any [simp]: "alts_match eq [[PAny]] s"
  by (simp add: alts_match_def)

lemma alts_match_one [simp]: "alts_match eq [[POne]] s \<longleftrightarrow> (\<exists>x. s = [x])"
  by (auto simp: alts_match_def)

lemma alts_match_cross:
  "alts_match eq (cross A B) s \<longleftrightarrow> (\<exists>a b. s = a @ b \<and> alts_match eq A a \<and> alts_match eq B b)"
  by (fastforce simp: alts_match_def cross_def parts_match_append)

lemma alts_match_then_any:
  "alts_match eq (map (\<lambda>parts. parts @ [PAny]) A) s \<longleftrightarrow> (\<exists>a b. s = a @ b \<and> alts_match eq A a)"
  by (auto simp: alts_match_def parts_match_append)

lemma cross_Nil_left [simp]: "cross [[]] A = A"
  by (simp add: cross_def map_idI)

lemma cross_Nil_right [simp]: "cross A [[]] = A"
  by (simp add: cross_def)

lemma cross_assoc: "cross (cross A B) C = cross A (cross B C)"
proof (induction A)
  case Nil
  then show ?case by (simp add: cross_def)
next
  case (Cons a A)
  have "concat (map (\<lambda>p. map (\<lambda>s. p @ s) C) (map (\<lambda>s. a @ s) B))
      = map (\<lambda>s. a @ s) (concat (map (\<lambda>p. map (\<lambda>s. p @ s) C) B))"
    by (induction B) auto
  with Cons show ?case by (simp add: cross_def)
qed

lemma set_cross: "set (cross A B) = {a @ b | a b. a \<in> set A \<and> b \<in> set B}"
  by (auto simp: cross_def)

text \<open>The expansion of a counted repetition: that many pieces, each an alternative.\<close>

lemma repeat_alts_match:
  "repeat_alts n A R = Inr B \<Longrightarrow>
   alts_match eq B s \<longleftrightarrow> (\<exists>a ss. s = a @ concat ss \<and> alts_match eq R a \<and> length ss = n
                              \<and> list_all (alts_match eq A) ss)"
proof (induction n arbitrary: R s)
  case 0
  then show ?case by auto
next
  case (Suc n)
  from Suc.prems have r: "repeat_alts n A (cross R A) = Inr B"
    by (auto simp: Let_def split: if_splits)
  show ?case
  proof
    assume "alts_match eq B s"
    with Suc.IH [OF r] obtain a ss where "s = a @ concat ss" "alts_match eq (cross R A) a"
      "length ss = n" "list_all (alts_match eq A) ss" by blast
    then obtain b c where "a = b @ c" "alts_match eq R b" "alts_match eq A c"
      by (auto simp: alts_match_cross)
    with \<open>s = a @ concat ss\<close> \<open>length ss = n\<close> \<open>list_all (alts_match eq A) ss\<close>
    show "\<exists>a ss. s = a @ concat ss \<and> alts_match eq R a \<and> length ss = Suc n \<and> list_all (alts_match eq A) ss"
      by (intro exI [of _ b] exI [of _ "c # ss"]) auto
  next
    assume "\<exists>a ss. s = a @ concat ss \<and> alts_match eq R a \<and> length ss = Suc n \<and> list_all (alts_match eq A) ss"
    then obtain a c ss where s: "s = (a @ c) @ concat ss" and ac: "alts_match eq R a" "alts_match eq A c"
      and ss: "length ss = n" "list_all (alts_match eq A) ss"
      by (auto simp: length_Suc_conv)
    from ac have "alts_match eq (cross R A) (a @ c)"
      unfolding alts_match_cross by blast
    with s ss have "\<exists>a' ss'. s = a' @ concat ss' \<and> alts_match eq (cross R A) a' \<and> length ss' = n
        \<and> list_all (alts_match eq A) ss'" by blast
    then show "alts_match eq B s" by (simp only: Suc.IH [OF r])
  qed
qed

section \<open>When an expansion simulates an expression\<close>

definition has_ladder :: "alts \<Rightarrow> bool" where
  "has_ladder A = (\<exists>parts \<in> set A. \<exists>p \<in> set parts. is_ladder p)"

definition ladders_ok :: "alts \<Rightarrow> bool" where
  "ladders_ok A = (\<forall>parts \<in> set A. \<forall>ladder. PLadder ladder \<in> set parts \<longrightarrow> ladder \<noteq> [] \<and> [] \<notin> set ladder)"

definition covers :: "(char \<Rightarrow> char \<Rightarrow> bool) \<Rightarrow> rx \<Rightarrow> alts \<Rightarrow> bool" where
  "covers eq r A \<longleftrightarrow> (\<forall>l s p. rmatch eq r l s p \<longrightarrow> alts_match eq A s)"

definition within :: "(char \<Rightarrow> char \<Rightarrow> bool) \<Rightarrow> rx \<Rightarrow> alts \<Rightarrow> bool" where
  "within eq r A \<longleftrightarrow> (\<forall>l s p. alts_match eq A s \<longrightarrow> rmatch eq r l s p)"

text \<open>
  \<open>expands eq r A st st'\<close>: between the parser states \<open>st\<close> and \<open>st'\<close> the expression \<open>r\<close> was
  expanded to \<open>A\<close>, with the generalisation and alignment flags set as needed.
\<close>

definition expands :: "(char \<Rightarrow> char \<Rightarrow> bool) \<Rightarrow> rx \<Rightarrow> alts \<Rightarrow> tstate \<Rightarrow> tstate \<Rightarrow> bool" where
  "expands eq r A st st' \<longleftrightarrow>
     covers eq r A \<and> (\<not> lossy st' \<longrightarrow> faithful eq r \<longrightarrow> within eq r A) \<and>
     (lossy st \<longrightarrow> lossy st') \<and> (narrowed st \<longrightarrow> narrowed st') \<and>
     (has_ladder A \<longrightarrow> narrowed st') \<and> ladders_ok A"

lemma expands_rest [simp]:
  "expands eq r A st (st'\<lparr>rest := x\<rparr>) = expands eq r A st st'"
  "expands eq r A (st\<lparr>rest := x\<rparr>) st' = expands eq r A st st'"
  by (simp_all add: expands_def)

lemma has_ladder_cross: "has_ladder (cross A B) \<Longrightarrow> has_ladder A \<or> has_ladder B"
  unfolding has_ladder_def set_cross by fastforce

lemma ladders_ok_cross: "ladders_ok A \<Longrightarrow> ladders_ok B \<Longrightarrow> ladders_ok (cross A B)"
  unfolding ladders_ok_def set_cross by fastforce

lemma has_ladder_append [simp]: "has_ladder (A @ B) \<longleftrightarrow> has_ladder A \<or> has_ladder B"
  by (auto simp: has_ladder_def)

lemma ladders_ok_append [simp]: "ladders_ok (A @ B) \<longleftrightarrow> ladders_ok A \<and> ladders_ok B"
  by (auto simp: ladders_ok_def)

lemma ladder_facts_simple [simp]:
  "\<not> has_ladder []" "ladders_ok []"
  "\<not> has_ladder [[PAny]]" "ladders_ok [[PAny]]" "\<not> has_ladder [[POne]]" "ladders_ok [[POne]]"
  "\<not> has_ladder (map (\<lambda>m. [PLit m]) ms)" "ladders_ok (map (\<lambda>m. [PLit m]) ms)"
  "has_ladder ([] # A) = has_ladder A" "ladders_ok ([] # A) = ladders_ok A"
  by (auto simp: has_ladder_def ladders_ok_def is_ladder_def)

lemma ladder_facts_then_any [simp]:
  "has_ladder (map (\<lambda>parts. parts @ [PAny]) A) = has_ladder A"
  "ladders_ok (map (\<lambda>parts. parts @ [PAny]) A) = ladders_ok A"
  by (auto simp: has_ladder_def ladders_ok_def is_ladder_def)

lemma expandsI:
  assumes "covers eq r A" and "\<not> lossy st' \<Longrightarrow> faithful eq r \<Longrightarrow> within eq r A"
    and "lossy st \<Longrightarrow> lossy st'" and "narrowed st \<Longrightarrow> narrowed st'"
    and "has_ladder A \<Longrightarrow> narrowed st'" and "ladders_ok A"
  shows "expands eq r A st st'"
  using assms by (auto simp: expands_def)

lemma expands_eps: "expands eq REps [[]] st st"
  by (auto simp: expands_def covers_def within_def)

lemma expands_seq:
  assumes a: "expands eq r A st st1" and b: "expands eq q B st1 st2"
  shows "expands eq (RSeq r q) (cross A B) st st2"
proof (rule expandsI)
  show "covers eq (RSeq r q) (cross A B)"
    using a b unfolding expands_def covers_def rmatch.simps alts_match_cross by blast
  show "within eq (RSeq r q) (cross A B)" if "\<not> lossy st2" "faithful eq (RSeq r q)"
  proof -
    have "within eq r A" "within eq q B" using a b that by (auto simp: expands_def)
    then show ?thesis unfolding within_def rmatch.simps alts_match_cross by blast
  qed
  show "has_ladder (cross A B) \<Longrightarrow> narrowed st2"
    using a b has_ladder_cross [of A B] by (auto simp: expands_def)
  show "ladders_ok (cross A B)"
    using a b ladders_ok_cross [of A B] by (auto simp: expands_def)
qed (use a b in \<open>auto simp: expands_def\<close>)

lemma expands_alt:
  assumes a: "expands eq r A st st1" and b: "expands eq q B st1 st2"
  shows "expands eq (RAlt r q) (A @ B) st st2"
proof (rule expandsI)
  have "covers eq r A" "covers eq q B" using a b by (simp_all add: expands_def)
  then show "covers eq (RAlt r q) (A @ B)" unfolding covers_def rmatch.simps alts_match_append by blast
  show "within eq (RAlt r q) (A @ B)" if "\<not> lossy st2" "faithful eq (RAlt r q)"
  proof -
    have "within eq r A" "within eq q B" using a b that by (auto simp: expands_def)
    then show ?thesis unfolding within_def by auto
  qed
qed (use a b in \<open>auto simp: expands_def\<close>)

subsection \<open>Repetition\<close>

lemma chain_pieces: "chain M l ss p \<Longrightarrow> (\<And>l s p. M l s p \<Longrightarrow> Q s) \<Longrightarrow> list_all Q ss"
  by (induction M l ss p rule: chain.induct) auto

lemma pieces_chain: "list_all Q ss \<Longrightarrow> (\<And>l s p. Q s \<Longrightarrow> M l s p) \<Longrightarrow> chain M l ss p"
  by (induction ss arbitrary: l) auto

lemma expands_weaken:
  assumes "expands eq r A st st1" "covers eq q B" "has_ladder B \<Longrightarrow> has_ladder A"
    "ladders_ok A \<Longrightarrow> ladders_ok B"
  shows "expands eq q B st (st1\<lparr>lossy := True\<rparr>)"
  using assms by (auto simp: expands_def)

lemma expands_poss: "expands eq r A st st' \<Longrightarrow> expands eq (RPoss r) A st st'"
  by (auto simp: expands_def covers_def)

text \<open>Repetition of an expression that was expanded to the one-character wildcard.\<close>

lemma within_one_star: "within eq r [[POne]] \<Longrightarrow> within eq (RStar r) [[PAny]]"
  unfolding within_def
proof (intro allI impI)
  fix l s p
  assume w: "\<forall>l s p. alts_match eq [[POne]] s \<longrightarrow> rmatch eq r l s p"
  have "chain (rmatch eq r) l (map (\<lambda>x. [x]) s) p"
    by (rule pieces_chain [where Q = "\<lambda>s. \<exists>x. s = [x]"]) (use w in \<open>auto simp: list_all_iff\<close>)
  moreover have "s = concat (map (\<lambda>x. [x]) s)" by simp
  ultimately show "rmatch eq (RStar r) l s p" unfolding rmatch.simps by blast
qed

lemma within_one_plus: "within eq r [[POne]] \<Longrightarrow> within eq (RPlus r) [[POne, PAny]]"
  unfolding within_def
proof (intro allI impI)
  fix l s p
  assume w: "\<forall>l s p. alts_match eq [[POne]] s \<longrightarrow> rmatch eq r l s p"
    and m: "alts_match eq [[POne, PAny]] s"
  have "chain (rmatch eq r) l (map (\<lambda>x. [x]) s) p"
    by (rule pieces_chain [where Q = "\<lambda>s. \<exists>x. s = [x]"]) (use w in \<open>auto simp: list_all_iff\<close>)
  moreover have "s = concat (map (\<lambda>x. [x]) s)" by simp
  moreover have "map (\<lambda>x. [x]) s \<noteq> []" using m by (auto simp: alts_match_def)
  ultimately show "rmatch eq (RPlus r) l s p" unfolding rmatch.simps by blast
qed

lemma covers_plus: "covers eq r A \<Longrightarrow> covers eq (RPlus r) (map (\<lambda>parts. parts @ [PAny]) A)"
  unfolding covers_def alts_match_then_any
proof (intro allI impI)
  fix l s p
  assume c: "\<forall>l s p. rmatch eq r l s p \<longrightarrow> alts_match eq A s" and "rmatch eq (RPlus r) l s p"
  then obtain u us where "s = u @ concat us" "rmatch eq r l u (concat us @ p)"
    by (auto simp: neq_Nil_conv)
  with c show "\<exists>a b. s = a @ b \<and> alts_match eq A a" by blast
qed

lemma covers_any: "covers eq r [[PAny]]"
  by (simp add: covers_def)

lemma repeat_covers:
  assumes rep: "repeat_alts m A [[]] = Inr B" and c: "covers eq r A"
  shows "covers eq (RRep m n r) (map (\<lambda>parts. parts @ [PAny]) B)"
  unfolding covers_def alts_match_then_any
proof (intro allI impI)
  fix l s p
  assume "rmatch eq (RRep m n r) l s p"
  then obtain ss where ss: "m \<le> length ss" "s = concat ss" "chain (rmatch eq r) l ss p" by auto
  then have "list_all (alts_match eq A) ss"
    using chain_pieces [of "rmatch eq r" l ss p "alts_match eq A"] c by (auto simp: covers_def)
  then have "list_all (alts_match eq A) (take m ss)" by (auto simp: list_all_iff dest: in_set_takeD)
  then have "alts_match eq B (concat (take m ss))"
    unfolding repeat_alts_match [OF rep]
    using ss(1) by (intro exI [of _ "[]"] exI [of _ "take m ss"]) auto
  moreover have "s = concat (take m ss) @ concat (drop m ss)"
    using ss(2) by (metis append_take_drop_id concat_append)
  ultimately show "\<exists>a b. s = a @ b \<and> alts_match eq B a" by blast
qed

lemma repeat_exact_covers:
  assumes rep: "repeat_alts m A [[]] = Inr B" and c: "covers eq r A"
  shows "covers eq (RRep m m r) B"
  unfolding covers_def
proof (intro allI impI)
  fix l s p
  assume "rmatch eq (RRep m m r) l s p"
  then obtain ss where ss: "length ss = m" "s = concat ss" "chain (rmatch eq r) l ss p" by auto
  then have "list_all (alts_match eq A) ss"
    using chain_pieces [of "rmatch eq r" l ss p "alts_match eq A"] c by (auto simp: covers_def)
  then show "alts_match eq B s"
    unfolding repeat_alts_match [OF rep] using ss by (intro exI [of _ "[]"] exI [of _ ss]) auto
qed

lemma repeat_exact_within:
  assumes rep: "repeat_alts m A [[]] = Inr B" and w: "within eq r A"
  shows "within eq (RRep m m r) B"
  unfolding within_def
proof (intro allI impI)
  fix l s p
  assume "alts_match eq B s"
  then obtain ss where ss: "s = concat ss" "length ss = m" "list_all (alts_match eq A) ss"
    unfolding repeat_alts_match [OF rep] by auto
  then have "chain (rmatch eq r) l ss p"
    using w by (intro pieces_chain [where Q = "alts_match eq A"]) (auto simp: within_def)
  with ss show "rmatch eq (RRep m m r) l s p" by auto
qed

lemma repeat_ladders:
  "repeat_alts m A R = Inr B \<Longrightarrow>
   (has_ladder B \<longrightarrow> has_ladder A \<or> has_ladder R) \<and> (ladders_ok A \<longrightarrow> ladders_ok R \<longrightarrow> ladders_ok B)"
proof (induction m arbitrary: R)
  case 0
  then show ?case by simp
next
  case (Suc m)
  then have "repeat_alts m A (cross R A) = Inr B" by (auto simp: Let_def split: if_splits)
  from Suc.IH [OF this] show ?case using has_ladder_cross [of R A] ladders_ok_cross [of R A] by blast
qed

end
