(* ===== verification/RegexSound.thy ===== *)
theory RegexSound
  imports RegexSem
begin

text \<open>
  The parser of the regex translator follows the grammar of its source: on the text of an
  expression it consumes exactly that text and returns an expansion that simulates the expression.
\<close>

section \<open>Character classes\<close>

lemma range_chars: "set (map chr_c [ord_c a ..< Suc (ord_c b)]) = {x. ord_c a \<le> ord_c x \<and> ord_c x \<le> ord_c b}"
proof (intro set_eqI iffI)
  fix x assume "x \<in> set (map chr_c [ord_c a ..< Suc (ord_c b)])"
  then obtain n where "x = chr_c n" "ord_c a \<le> n" "n \<le> ord_c b" by auto
  then show "x \<in> {x. ord_c a \<le> ord_c x \<and> ord_c x \<le> ord_c b}"
    using ord_c_less [of b] ord_chr [of n] by simp
next
  fix x assume "x \<in> {x. ord_c a \<le> ord_c x \<and> ord_c x \<le> ord_c b}"
  then have "ord_c x \<in> set [ord_c a ..< Suc (ord_c b)]" by (simp add: less_Suc_eq_le del: upt_Suc)
  then have "chr_c (ord_c x) \<in> chr_c ` set [ord_c a ..< Suc (ord_c b)]" by blast
  then show "x \<in> set (map chr_c [ord_c a ..< Suc (ord_c b)])" by simp
qed

lemma class_escape_literal: "escape_literal e = Some l \<Longrightarrow> class_escape e = Some (\<lambda>x. x = l)"
  by (auto simp: class_escape.simps escape_literal.simps split: if_splits)

lemma alnum_letters [simp]:
  "is_alnum (CHR ''d'')" "is_alnum (CHR ''D'')" "is_alnum (CHR ''w'')" "is_alnum (CHR ''W'')"
  "is_alnum (CHR ''s'')" "is_alnum (CHR ''S'')" "is_alnum (CHR ''n'')" "is_alnum (CHR ''r'')"
  "is_alnum (CHR ''t'')" "is_alnum (CHR ''f'')" "is_alnum (CHR ''v'')" "is_alnum (CHR ''x'')"
  "is_alnum (CHR ''b'')" "is_alnum (CHR ''B'')"
  by (simp_all add: is_alnum_def is_ascii_alnum_def is_ascii_alpha_def ord_c_def)

lemma escape_literal_alnum: "escape_literal e = Some l \<Longrightarrow> is_alnum e"
  by (auto simp: escape_literal.simps split: if_splits)

lemma class_escape_other: "\<not> is_alnum e \<Longrightarrow> class_escape e = Some (\<lambda>x. x = e)"
proof -
  assume n: "\<not> is_alnum e"
  then have "escape_literal e = None" using escape_literal_alnum [of e] by (cases "escape_literal e") auto
  moreover have "e \<noteq> CHR ''d''" "e \<noteq> CHR ''D''" "e \<noteq> CHR ''w''" "e \<noteq> CHR ''W''" "e \<noteq> CHR ''s''" "e \<noteq> CHR ''S''"
    using n by (metis alnum_letters)+
  ultimately show ?thesis using n by (simp add: class_escape.simps)
qed

lemma class_shorthand_no_literal: "class_shorthand e \<Longrightarrow> escape_literal e = None"
  by (auto simp: class_shorthand_def escape_literal.simps)

lemma class_single:
  assumes "c \<noteq> bslash" "\<nexists>stop cs'. cs = CHR ''-'' # stop # cs'"
  shows "class_members (c # cs) acc = class_members cs (acc @ [c])"
    and "class_items (c # cs) = map_option (\<lambda>Q x. x = c \<or> Q x) (class_items cs)"
proof -
  consider "cs = []" | d where "cs = [d]" | d e es where "cs = d # e # es" "d \<noteq> CHR ''-''"
    using assms(2) by (metis list.exhaust)
  then show "class_members (c # cs) acc = class_members cs (acc @ [c])"
    and "class_items (c # cs) = map_option (\<lambda>Q x. x = c \<or> Q x) (class_items cs)"
    using assms(1) by (cases; simp)+
qed

lemma class_members_items:
  "class_members cs acc = Some ms \<Longrightarrow> class_items cs = Some P \<Longrightarrow> set ms = set acc \<union> {x. P x}"
proof (induction "length cs" arbitrary: cs acc P rule: less_induct)
  case less
  show ?case
  proof (cases cs)
    case Nil
    with less.prems show ?thesis by (auto split: if_splits)
  next
    case (Cons c cs0)
    have IH: "set ms = set a \<union> {x. Q x}"
      if "class_members ds a = Some ms" "class_items ds = Some Q" "length ds \<le> length cs0" for ds a Q
      using less.hyps [of ds a Q] that Cons by simp
    consider (esc) e cs' where "c = bslash" "cs0 = e # cs'"
      | (range) stop cs' where "c \<noteq> bslash" "cs0 = CHR ''-'' # stop # cs'"
      | (one) "c \<noteq> bslash" "\<nexists>stop cs'. cs0 = CHR ''-'' # stop # cs'"
      using less.prems Cons by (cases "c = bslash"; cases cs0) auto
    then show ?thesis
    proof cases
      case esc
      from less.prems(2) esc Cons obtain R Q where R: "class_escape e = Some R"
        and Q: "class_items cs' = Some Q" and P: "P = (\<lambda>x. R x \<or> Q x)"
        by (auto split: if_splits option.splits)
      from less.prems(1) esc Cons obtain l where m: "class_members cs' (acc @ [l]) = Some ms"
        and l: "escape_literal e = Some l \<or> \<not> is_alnum e \<and> l = e"
        by (auto split: if_splits option.splits)
      have "R = (\<lambda>x. x = l)" using l R class_escape_literal [of e l] class_escape_other [of e] by auto
      with IH [OF m Q] P esc show ?thesis by auto
    next
      case range
      from less.prems(2) range Cons obtain Q where Q: "class_items cs' = Some Q"
        and P: "P = (\<lambda>x. (ord_c c \<le> ord_c x \<and> ord_c x \<le> ord_c stop) \<or> Q x)"
        by (auto split: if_splits)
      from less.prems(1) range Cons
      have m: "class_members cs' (acc @ map chr_c [ord_c c ..< Suc (ord_c stop)]) = Some ms"
        by (auto split: if_splits simp del: upt_Suc)
      from IH [OF m Q] range
      have "set ms = set acc \<union> {x. ord_c c \<le> ord_c x \<and> ord_c x \<le> ord_c stop} \<union> {x. Q x}"
        by (simp only: set_append range_chars) simp
      with P show ?thesis by blast
    next
      case one
      from less.prems(1) have m: "class_members cs0 (acc @ [c]) = Some ms"
        unfolding Cons class_single(1) [OF one] .
      from less.prems(2) obtain Q where Q: "class_items cs0 = Some Q" and P: "P = (\<lambda>x. x = c \<or> Q x)"
        unfolding Cons class_single(2) [OF one] by auto
      from IH [OF m Q] P show ?thesis by auto
    qed
  qed
qed

lemma takeWhile_until: "x \<notin> set xs \<Longrightarrow> takeWhile (\<lambda>c. c \<noteq> x) (xs @ x # ys) = xs"
  by (induction xs) auto

lemma dropWhile_until: "x \<notin> set xs \<Longrightarrow> dropWhile (\<lambda>c. c \<noteq> x) (xs @ x # ys) = x # ys"
  by (induction xs) auto

lemma covers_class_one: "covers eq (RClass neg P) [[POne]]"
  by (auto simp: covers_def)

lemma parse_class_sound:
  assumes p: "parse_class st = Inr (A, st')" and r: "rest st = body @ CHR '']'' # tail"
    and b: "CHR '']'' \<notin> set body" and sem: "class_sem body = Some (neg, P)"
  shows "rest st' = tail \<and> expands eq (RClass neg P) A st st'"
proof (cases "starts_with body ''^''")
  case True
  with p r b sem have "A = [[POne]]" "st' = st\<lparr>rest := tail, lossy := True\<rparr>"
    by (auto simp: parse_class_def takeWhile_until dropWhile_until)
  then show ?thesis by (auto simp: expands_def covers_class_one)
next
  case False
  from sem False have neg: "\<not> neg" and items: "class_items body = Some P" and ne: "body \<noteq> []"
    by (auto simp: class_sem_def split: if_splits)
  show ?thesis
  proof (cases "\<exists>members. enumerate_class body = Some members \<and> length members \<le> MAX_CLASS_MEMBERS")
    case True
    then obtain ms where ms: "enumerate_class body = Some ms" "length ms \<le> MAX_CLASS_MEMBERS" by blast
    with p r b False ne have A: "A = map (\<lambda>m. [PLit m]) ms" "st' = st\<lparr>rest := tail\<rparr>"
      by (auto simp: parse_class_def takeWhile_until dropWhile_until)
    have set: "set ms = {x. P x}"
      using class_members_items [of body "[]" ms P] ms(1) items by (simp add: enumerate_class_def)
    have "alts_match eq A s \<longleftrightarrow> (\<exists>x. s = [x] \<and> (\<exists>m. P m \<and> eq m x))" for s
      unfolding A alts_match_def using set by auto
    then show ?thesis using A neg by (auto simp: expands_def covers_def within_def)
  next
    case nf: False
    with p r b False ne have "A = [[POne]]" "st' = st\<lparr>rest := tail, lossy := True\<rparr>"
      by (auto simp: parse_class_def takeWhile_until dropWhile_until Let_def split: option.splits if_splits)
    then show ?thesis by (auto simp: expands_def covers_class_one)
  qed
qed

section \<open>Literals and escapes\<close>

lemma expands_lit: "expands eq (RLit c) [[PLit c]] st st"
  using ladder_facts_simple(7,8) [of "[c]"]
  by (auto simp: expands_def covers_def within_def alts_match_def)

lemma expands_dot: "expands eq RDot [[POne]] st st"
  by (auto simp: expands_def covers_def within_def)

lemma expands_shorthand: "expands eq (RClass False P) [[POne]] st (st\<lparr>lossy := True\<rparr>)"
  by (auto simp: expands_def covers_class_one)

lemma expands_boundary: "expands eq (RBoundary b) [[]] st (st\<lparr>lossy := True\<rparr>)"
  by (auto simp: expands_def covers_def)

lemma not_alnum_facts:
  assumes "\<not> is_alnum e"
  shows "\<not> class_shorthand e" "e \<notin> set ''bB''" "escape_literal e = None" "e \<noteq> CHR ''x''"
proof -
  show "\<not> class_shorthand e" using assms by (auto simp: class_shorthand_def)
  show "e \<notin> set ''bB''" using assms by auto
  show "escape_literal e = None" using assms escape_literal_alnum [of e] by (cases "escape_literal e") auto
  show "e \<noteq> CHR ''x''" using assms by auto
qed

lemma escape_literal_facts:
  assumes "escape_literal e = Some l"
  shows "\<not> class_shorthand e" "e \<notin> set ''bB''"
  using assms by (auto simp: class_shorthand_def escape_literal.simps split: if_splits)

lemma escape_literal_x: "escape_literal (CHR ''x'') = None" "\<not> class_shorthand (CHR ''x'')"
  by (auto simp: escape_literal.simps class_shorthand_def)

section \<open>Quantifiers\<close>

lemma apply_simple_quantifier:
  assumes q: "apply_quantifier A single st = Inr (B, st')" and r: "rest st = c # cs"
    and c: "c = CHR ''*'' \<or> c = CHR ''+'' \<or> c = CHR ''?''" and e: "expands eq r A st0 st"
  shows "rest st' = (case cs of [] \<Rightarrow> [] | m # cs' \<Rightarrow> if m \<in> set ''?+'' then cs' else cs)"
    and "expands eq ((if c = CHR ''*'' then RStar else if c = CHR ''+'' then RPlus else ROpt) r) B st0 st'"
proof -
  define st1 where "st1 = st\<lparr>rest := (case cs of [] \<Rightarrow> [] | m # cs' \<Rightarrow> if m \<in> set ''?+'' then cs' else cs)\<rparr>"
  have e1: "expands eq r A st0 st1" using e by (simp add: st1_def)
  let ?f = "if c = CHR ''*'' then RStar else if c = CHR ''+'' then RPlus else ROpt"
  have "rest st' = rest st1 \<and> expands eq (?f r) B st0 st'"
  proof (cases "c = CHR ''?'' \<and> \<not> single")
    case True
    with q r have B: "B = [] # A" "st' = st1"
      by (auto simp: apply_quantifier_def Let_def st1_def split: if_splits)
    have "covers eq (ROpt r) ([] # A)" using e1 unfolding expands_def covers_def by auto
    moreover have "within eq (ROpt r) ([] # A)" if "within eq r A"
      using that unfolding within_def by auto
    ultimately show ?thesis using e1 B True by (auto simp: expands_def)
  next
    case False
    with q r c have s: "single"
      and B: "B = (if c = CHR ''+'' then map (\<lambda>parts. parts @ [PAny]) A else [[PAny]])"
      and st': "st' = (if A \<noteq> [[POne]] then st1\<lparr>lossy := True\<rparr> else st1)"
      by (auto simp: apply_quantifier_def Let_def st1_def split: if_splits)
    have cov: "covers eq (?f r) B"
      using B covers_any covers_plus [of eq r A] e1 c by (auto simp: expands_def)
    have lad: "has_ladder B \<Longrightarrow> has_ladder A" "ladders_ok A \<Longrightarrow> ladders_ok B"
      using B by (auto split: if_splits)
    show ?thesis
    proof (cases "A = [[POne]]")
      case True
      have "within eq (?f r) B" if ns: "\<not> lossy st1" and f: "faithful eq (?f r)"
      proof -
        have fr: "faithful eq r" using f c by (auto split: if_splits)
        then have w: "within eq r [[POne]]" using e1 ns True by (simp add: expands_def)
        then have "\<forall>x. rmatch eq r [] [x] []" by (auto simp: within_def)
        with f c have "c \<noteq> CHR ''?''" by (auto split: if_splits)
        with c w within_one_star [OF w] within_one_plus [OF w] B True show ?thesis by auto
      qed
      with cov lad e1 st' True show ?thesis by (auto simp: expands_def)
    next
      case False
      with expands_weaken [OF e1 cov lad] st' show ?thesis by simp
    qed
  qed
  then show "rest st' = (case cs of [] \<Rightarrow> [] | m # cs' \<Rightarrow> if m \<in> set ''?+'' then cs' else cs)"
    and "expands eq (?f r) B st0 st'" by (auto simp: st1_def)
qed

lemma digits_brace:
  assumes "list_all is_digit d" "\<not> is_digit c"
  shows "takeWhile is_digit (d @ c # t) = d" "dropWhile is_digit (d @ c # t) = c # t"
  using assms by (induction d) auto

lemma match_braces_one:
  "d \<noteq> [] \<Longrightarrow> list_all is_digit d \<Longrightarrow> match_braces (d @ CHR ''}'' # t) = Some (d, None, t)"
  by (simp add: match_braces_def digits_brace is_digit_def ord_c_def)

lemma match_braces_two:
  "d \<noteq> [] \<Longrightarrow> list_all is_digit d \<Longrightarrow> e \<noteq> [] \<Longrightarrow> list_all is_digit e \<Longrightarrow>
   match_braces (d @ CHR '','' # e @ CHR ''}'' # t) = Some (d, Some e, t)"
  by (simp add: match_braces_def digits_brace is_digit_def ord_c_def)

lemma counted_sound:
  assumes q: "counted_repetition A st = Inr (B, st')"
    and m: "match_braces (rest st) = Some (d1, d2, tail)" and e: "expands eq r A st0 st"
  shows "rest st' = tail \<and>
    expands eq (RRep (nat_of_digits 0 d1) (case d2 of None \<Rightarrow> nat_of_digits 0 d1 | Some d \<Rightarrow> nat_of_digits 0 d) r)
      B st0 st'"
proof -
  define lo where "lo = nat_of_digits 0 d1"
  define hi where "hi = (case d2 of None \<Rightarrow> lo | Some d \<Rightarrow> nat_of_digits 0 d)"
  define st1 where "st1 = st\<lparr>rest := tail\<rparr>"
  have e1: "expands eq r A st0 st1" using e by (simp add: st1_def)
  have q': "(if hi < lo \<or> hi < 1 \<or> hi > 4096 then raise ''counted repetition bounds are not expressible''
      else if lo = 0 then Inr ([[PAny]], st1\<lparr>lossy := True\<rparr>)
      else if lo > MAX_VALUES then raise ''counted repetition minimum is too large''
      else bindR (repeat_alts lo A [[]]) (\<lambda>repeated.
        if hi > lo then Inr (map (\<lambda>parts. parts @ [PAny]) repeated, st1\<lparr>lossy := True\<rparr>)
        else Inr (repeated, st1))) = Inr (B, st')"
    using q unfolding counted_repetition_def m Let_def lo_def hi_def st1_def by simp
  have "rest st' = tail \<and> expands eq (RRep lo hi r) B st0 st'"
  proof (cases "lo = 0")
    case True
    with q' have "B = [[PAny]]" "st' = st1\<lparr>lossy := True\<rparr>"
      by (auto split: if_splits)
    then show ?thesis using e1 by (auto simp: expands_def covers_any st1_def)
  next
    case False
    with q' obtain R where R: "repeat_alts lo A [[]] = Inr R" and le: "lo \<le> hi"
      and B: "B = (if hi > lo then map (\<lambda>parts. parts @ [PAny]) R else R)"
      and st': "st' = (if hi > lo then st1\<lparr>lossy := True\<rparr> else st1)"
      by (auto simp: bindR_eq_Inr split: if_splits)
    have cA: "covers eq r A" using e1 by (simp add: expands_def)
    have lad: "has_ladder R \<Longrightarrow> has_ladder A" "ladders_ok A \<Longrightarrow> ladders_ok R"
      using repeat_ladders [OF R] by auto
    show ?thesis
    proof (cases "hi > lo")
      case True
      with B st' repeat_covers [OF R cA, of hi] lad
      have "expands eq (RRep lo hi r) B st0 (st1\<lparr>lossy := True\<rparr>)"
        by (intro expands_weaken [OF e1]) auto
      with st' True show ?thesis by (simp add: st1_def)
    next
      case False
      with le have "hi = lo" by simp
      moreover have "within eq (RRep lo lo r) R" if "within eq r A"
        using repeat_exact_within [OF R that] .
      ultimately show ?thesis
        using B st' repeat_exact_covers [OF R cA] lad e1 by (auto simp: expands_def st1_def)
    qed
  qed
  then show ?thesis unfolding lo_def hi_def .
qed

text \<open>What may follow a term, a concatenation and an alternation in a source.\<close>

definition quant_char :: "char \<Rightarrow> bool" where
  "quant_char c = (c \<in> set ''*+?{'')"

definition after_term :: "string \<Rightarrow> bool" where
  "after_term t = (t = [] \<or> \<not> quant_char (hd t))"

definition after_cat :: "string \<Rightarrow> bool" where
  "after_cat t = (t = [] \<or> hd t = CHR ''|'' \<or> hd t = CHR '')'')"

definition after_alt :: "string \<Rightarrow> bool" where
  "after_alt t = (t = [] \<or> hd t = CHR '')'')"

lemma quantifier_sound:
  assumes t: "quant_text q f" and a: "apply_quantifier A single st = Inr (B, st')"
    and r: "rest st = q @ tail" and f: "after_term tail" and e: "expands eq r A st0 st"
  shows "rest st' = tail \<and> expands eq (f r) B st0 st'"
proof -
  have tl: "(case tail of [] \<Rightarrow> [] | m # cs' \<Rightarrow> if m \<in> set ''?+'' then cs' else tail) = tail"
    using f by (auto simp: after_term_def quant_char_def split: list.splits)
  note s = apply_simple_quantifier [OF a _ _ e]
  from t show ?thesis
  proof cases
    case (exactly d)
    then have "counted_repetition A (st\<lparr>rest := d @ CHR ''}'' # tail\<rparr>) = Inr (B, st')"
      using a r by (simp add: apply_quantifier_def)
    from counted_sound [OF this, of d None tail eq r st0] exactly e
    show ?thesis by (simp add: match_braces_one)
  next
    case (between d g)
    then have "counted_repetition A (st\<lparr>rest := d @ CHR '','' # g @ CHR ''}'' # tail\<rparr>) = Inr (B, st')"
      using a r by (simp add: apply_quantifier_def)
    from counted_sound [OF this, of d "Some g" tail eq r st0] between e
    show ?thesis by (simp add: match_braces_two)
  qed (use s r tl in \<open>auto intro: expands_poss\<close>)
qed

section \<open>Soundness of the descent\<close>

definition sound_atom :: "(char \<Rightarrow> char \<Rightarrow> bool) \<Rightarrow> string \<Rightarrow> rx \<Rightarrow> bool" where
  "sound_atom eq w r \<longleftrightarrow> (\<forall>n d c v st tail A single st'.
     w = c # v \<longrightarrow> rest st = v @ tail \<longrightarrow> parse_atom (parse_alternation n d) c st = Inr ((A, single), st') \<longrightarrow>
     rest st' = tail \<and> expands eq r A st st')"

definition sound_term :: "(char \<Rightarrow> char \<Rightarrow> bool) \<Rightarrow> string \<Rightarrow> rx \<Rightarrow> bool" where
  "sound_term eq w r \<longleftrightarrow> (\<forall>n d c v st tail A st'.
     w = c # v \<longrightarrow> rest st = v @ tail \<longrightarrow> after_term tail \<longrightarrow>
     parse_term (parse_alternation n d) c st = Inr (A, st') \<longrightarrow>
     rest st' = tail \<and> expands eq r A st st')"

definition sound_cat :: "(char \<Rightarrow> char \<Rightarrow> bool) \<Rightarrow> string \<Rightarrow> rx \<Rightarrow> bool" where
  "sound_cat eq w r \<longleftrightarrow> (\<forall>n d k R st tail A st'.
     rest st = w @ tail \<longrightarrow> after_cat tail \<longrightarrow>
     concat_loop (parse_alternation n d) k R st = Inr (A, st') \<longrightarrow>
     rest st' = tail \<and> (\<exists>B. A = cross R B \<and> expands eq r B st st'))"

definition sound_alt :: "(char \<Rightarrow> char \<Rightarrow> bool) \<Rightarrow> string \<Rightarrow> rx \<Rightarrow> bool" where
  "sound_alt eq w r \<longleftrightarrow> (\<forall>n d k C st m st1 tail A st'.
     rest st = w @ tail \<longrightarrow> after_alt tail \<longrightarrow>
     concat_loop (parse_alternation n d) k [[]] st = Inr (m, st1) \<longrightarrow>
     alternation_loop (parse_alternation n d) k (C @ m) st1 = Inr (A, st') \<longrightarrow>
     rest st' = tail \<and> (\<exists>B. A = C @ B \<and> expands eq r B st st'))"

text \<open>The first character of an atom.\<close>

lemma special_chars:
  "special_char (CHR ''('')" "special_char (CHR '')'')" "special_char (CHR ''['')" "special_char (CHR ''.'')"
  "special_char (CHR ''^'')" "special_char (CHR ''$'')" "special_char (CHR ''{'')" "special_char (CHR ''}'')"
  "special_char (CHR ''|'')" "special_char (CHR ''*'')" "special_char (CHR ''+'')" "special_char (CHR ''?'')"
  "special_char bslash"
  by (simp_all add: special_char_def)

definition opens_atom :: "char \<Rightarrow> bool" where
  "opens_atom c = (c \<notin> set ''*+?{|)'')"

lemma opens_atomD: "opens_atom c \<Longrightarrow> \<not> quant_char c \<and> c \<noteq> CHR ''|'' \<and> c \<noteq> CHR '')''"
  by (simp add: opens_atom_def quant_char_def)

lemma opens_atom_literal: "\<not> special_char c \<Longrightarrow> opens_atom c"
  by (auto simp: opens_atom_def special_char_def)

lemma opens_atom_marks: "opens_atom (CHR ''('')" "opens_atom (CHR ''['')" "opens_atom (CHR ''.'')" "opens_atom bslash"
  by (simp_all add: opens_atom_def)

lemma atom_text_opens: "atom_text w r \<Longrightarrow> \<exists>c v. w = c # v \<and> opens_atom c"
  by (erule atom_text.cases) (simp_all add: opens_atom_marks opens_atom_literal)

lemma atom_text_first:
  "atom_text w r \<Longrightarrow> \<exists>c v. w = c # v \<and> \<not> quant_char c \<and> c \<noteq> CHR ''|'' \<and> c \<noteq> CHR '')''"
proof -
  assume "atom_text w r"
  from atom_text_opens [OF this] obtain c v where "w = c # v" "opens_atom c" by (elim exE conjE)
  with opens_atomD [of c] show ?thesis by (intro exI [of _ c] exI [of _ v]) simp
qed

lemma term_text_first:
  "term_text w r \<Longrightarrow> \<exists>c v. w = c # v \<and> \<not> quant_char c \<and> c \<noteq> CHR ''|'' \<and> c \<noteq> CHR '')''"
proof (erule term_text.cases)
  fix w' r' assume "w = w'" "atom_text w' r'"
  then show ?thesis using atom_text_first by simp
next
  fix w' r' q f assume "w = w' @ q" "atom_text w' r'"
  then show ?thesis using atom_text_first [of w' r'] by auto
qed

lemma cat_then_follow: "cat_text v q \<Longrightarrow> after_cat tail \<Longrightarrow> after_term (v @ tail)"
proof (erule cat_text.cases)
  assume "v = []" "after_cat tail"
  then show ?thesis by (auto simp: after_cat_def after_term_def quant_char_def)
next
  fix w r v' q'
  assume "v = w @ v'" "term_text w r"
  with term_text_first [of w r] show ?thesis by (auto simp: after_term_def)
qed

lemma sound_atomI:
  assumes "w = c # v"
    and "\<And>n d st tail A single st'. rest st = v @ tail \<Longrightarrow>
      parse_atom (parse_alternation n d) c st = Inr ((A, single), st') \<Longrightarrow>
      rest st' = tail \<and> expands eq r A st st'"
  shows "sound_atom eq w r"
  unfolding sound_atom_def
proof (intro allI impI)
  fix n d c' v' st tail A single st'
  assume w: "w = c' # v'" and r: "rest st = v' @ tail"
    and p: "parse_atom (parse_alternation n d) c' st = Inr ((A, single), st')"
  have "c' = c" "v' = v" using w assms(1) by simp_all
  with r p show "rest st' = tail \<and> expands eq r A st st'" by (intro assms(2)) simp_all
qed

lemma sound_atomD:
  "sound_atom eq w r \<Longrightarrow> w = c # v \<Longrightarrow> rest st = v @ tail \<Longrightarrow>
   parse_atom (parse_alternation n d) c st = Inr ((A, single), st') \<Longrightarrow>
   rest st' = tail \<and> expands eq r A st st'"
  unfolding sound_atom_def by (elim allE impE)

lemma sound_catD:
  "sound_cat eq w r \<Longrightarrow> rest st = w @ tail \<Longrightarrow> after_cat tail \<Longrightarrow>
   concat_loop (parse_alternation n d) k R st = Inr (A, st') \<Longrightarrow>
   rest st' = tail \<and> (\<exists>B. A = cross R B \<and> expands eq r B st st')"
  unfolding sound_cat_def by (elim allE impE)

lemma sound_term_plain: "sound_atom eq w r \<Longrightarrow> sound_term eq w r"
  unfolding sound_term_def
proof (intro allI impI)
  fix n d c v st tail A st'
  assume s: "sound_atom eq w r" and w: "w = c # v" and r: "rest st = v @ tail" and f: "after_term tail"
    and p: "parse_term (parse_alternation n d) c st = Inr (A, st')"
  from p obtain A0 single st1 where a: "parse_atom (parse_alternation n d) c st = Inr ((A0, single), st1)"
    and q: "apply_quantifier A0 single st1 = Inr (A, st')"
    by (auto simp: parse_term_def bindR_eq_Inr)
  from sound_atomD [OF s w r a] have st1: "rest st1 = tail" "expands eq r A0 st st1" by simp_all
  with q f have "A = A0" "st' = st1"
    by (auto simp: apply_quantifier_def after_term_def quant_char_def split: list.splits if_splits)
  with st1 show "rest st' = tail \<and> expands eq r A st st'" by simp
qed

lemma sound_term_quant:
  assumes "atom_text w r" and s: "sound_atom eq w r" and t: "quant_text q f"
  shows "sound_term eq (w @ q) (f r)"
  unfolding sound_term_def
proof (intro allI impI)
  fix n d c v st tail A st'
  assume w: "w @ q = c # v" and r: "rest st = v @ tail" and f: "after_term tail"
    and p: "parse_term (parse_alternation n d) c st = Inr (A, st')"
  obtain v0 where w0: "w = c # v0" "v = v0 @ q"
    using atom_text_first [OF assms(1)] w by auto
  from p obtain A0 single st1 where a: "parse_atom (parse_alternation n d) c st = Inr ((A0, single), st1)"
    and qq: "apply_quantifier A0 single st1 = Inr (A, st')"
    by (auto simp: parse_term_def bindR_eq_Inr)
  have "rest st = v0 @ (q @ tail)" using r w0 by simp
  from sound_atomD [OF s w0(1) this a] have st1: "rest st1 = q @ tail" "expands eq r A0 st st1" by simp_all
  from quantifier_sound [OF t qq st1(1) f st1(2)] show "rest st' = tail \<and> expands eq (f r) A st st'" .
qed

lemma sound_cat_none: "sound_cat eq [] REps"
  unfolding sound_cat_def
proof (intro allI impI)
  fix n d k R st tail A st'
  assume "rest st = [] @ tail" "after_cat tail" "concat_loop (parse_alternation n d) k R st = Inr (A, st')"
  moreover have "concat_loop (parse_alternation n d) (Suc k') R st = Inr (R, st)" for k'
    using calculation(1,2) by (cases tail) (simp_all add: after_cat_def)
  ultimately have "A = cross R [[]]" "st' = st" "rest st' = tail" by (cases k; simp)+
  then show "rest st' = tail \<and> (\<exists>B. A = cross R B \<and> expands eq REps B st st')"
    using expands_eps by blast
qed

lemma sound_cat_more:
  assumes t: "term_text w r" and st: "sound_term eq w r" and c: "cat_text v q" and sc: "sound_cat eq v q"
  shows "sound_cat eq (w @ v) (RSeq r q)"
  unfolding sound_cat_def
proof (intro allI impI)
  fix n d k R st0 tail A st'
  assume r: "rest st0 = (w @ v) @ tail" and f: "after_cat tail"
    and l: "concat_loop (parse_alternation n d) k R st0 = Inr (A, st')"
  obtain x w' where w: "w = x # w'" "x \<noteq> CHR ''|''" "x \<noteq> CHR '')''" using term_text_first [OF t] by blast
  obtain k' where k: "k = Suc k'" using l by (cases k) auto
  from l k r w obtain T st1 where p: "parse_term (parse_alternation n d) x (st0\<lparr>rest := w' @ v @ tail\<rparr>) = Inr (T, st1)"
    and l': "concat_loop (parse_alternation n d) k' (cross R T) st1 = Inr (A, st')"
    by (auto simp: bindR_eq_Inr Let_def split: if_splits)
  have "rest (st0\<lparr>rest := w' @ v @ tail\<rparr>) = w' @ (v @ tail)" by simp
  with st w(1) p cat_then_follow [OF c f]
  have st1: "rest st1 = v @ tail" "expands eq r T (st0\<lparr>rest := w' @ v @ tail\<rparr>) st1"
    unfolding sound_term_def by blast+
  from sound_catD [OF sc st1(1) f l']
  obtain B where B: "rest st' = tail" "A = cross (cross R T) B" "expands eq q B st1 st'" by auto
  from st1(2) B(3) have "expands eq (RSeq r q) (cross T B) st0 st'" by (auto intro: expands_seq)
  with B show "rest st' = tail \<and> (\<exists>B. A = cross R B \<and> expands eq (RSeq r q) B st0 st')"
    by (auto simp: cross_assoc)
qed

lemma sound_alt_one: "sound_cat eq w r \<Longrightarrow> sound_alt eq w r"
  unfolding sound_alt_def
proof (intro allI impI)
  fix n d k C st m st1 tail A st'
  assume s: "sound_cat eq w r" and r: "rest st = w @ tail" and f: "after_alt tail"
    and c: "concat_loop (parse_alternation n d) k [[]] st = Inr (m, st1)"
    and a: "alternation_loop (parse_alternation n d) k (C @ m) st1 = Inr (A, st')"
  have "after_cat tail" using f by (auto simp: after_alt_def after_cat_def)
  from sound_catD [OF s r this c] obtain B where B: "rest st1 = tail" "m = B" "expands eq r B st st1" by auto
  have "alternation_loop (parse_alternation n d) (Suc k') (C @ m) st1 = Inr (C @ m, st1)" for k'
    using B(1) f by (cases tail) (simp_all add: after_alt_def)
  with a B(2) have "A = C @ B" "st' = st1" by (cases k; simp)+
  with B show "rest st' = tail \<and> (\<exists>B. A = C @ B \<and> expands eq r B st st')" by blast
qed

lemma sound_alt_more:
  assumes sc: "sound_cat eq w r" and sa: "sound_alt eq v q"
  shows "sound_alt eq (w @ ''|'' @ v) (RAlt r q)"
  unfolding sound_alt_def
proof (intro allI impI)
  fix n d k C st m st1 tail A st'
  assume r: "rest st = (w @ ''|'' @ v) @ tail" and f: "after_alt tail"
    and c: "concat_loop (parse_alternation n d) k [[]] st = Inr (m, st1)"
    and a: "alternation_loop (parse_alternation n d) k (C @ m) st1 = Inr (A, st')"
  have r': "rest st = w @ (CHR ''|'' # v @ tail)" and f': "after_cat (CHR ''|'' # v @ tail)"
    using r by (simp_all add: after_cat_def)
  from sound_catD [OF sc r' f' c]
  obtain B where B: "rest st1 = CHR ''|'' # v @ tail" "m = B" "expands eq r B st st1" by auto
  obtain k' where k: "k = Suc k'" using a by (cases k) auto
  from a B(1) k obtain m2 st2 where c2: "concat_loop (parse_alternation n d) k' [[]] (st1\<lparr>rest := v @ tail\<rparr>) = Inr (m2, st2)"
    and a2: "alternation_loop (parse_alternation n d) k' ((C @ m) @ m2) st2 = Inr (A, st')"
    by (auto simp: bindR_eq_Inr split: if_splits)
  have "rest (st1\<lparr>rest := v @ tail\<rparr>) = v @ tail" by simp
  with sa f c2 a2 obtain B2 where B2: "rest st' = tail" "A = (C @ m) @ B2" "expands eq q B2 (st1\<lparr>rest := v @ tail\<rparr>) st'"
    unfolding sound_alt_def by blast
  from B(3) B2(3) have "expands eq (RAlt r q) (B @ B2) st st'" by (auto intro: expands_alt)
  with B B2 show "rest st' = tail \<and> (\<exists>B. A = C @ B \<and> expands eq (RAlt r q) B st st')" by auto
qed

subsection \<open>Encoding ladders\<close>

lemma parts_match_lit [simp]:
  "parts_match eq (PLit c # ps) s \<longleftrightarrow> (\<exists>x xs. s = x # xs \<and> eq c x \<and> parts_match eq ps xs)"
proof
  assume "parts_match eq (PLit c # ps) s"
  then show "\<exists>x xs. s = x # xs \<and> eq c x \<and> parts_match eq ps xs" by auto
next
  assume "\<exists>x xs. s = x # xs \<and> eq c x \<and> parts_match eq ps xs"
  then obtain x xs where "s = [x] @ xs" "eq c x" "parts_match eq ps xs" by auto
  then show "parts_match eq (PLit c # ps) s"
    unfolding parts_match.simps part_match.simps by blast
qed

lemma parts_match_literals:
  "list_all (\<lambda>p. lit_of p \<noteq> None) parts \<Longrightarrow>
   parts_match eq parts s \<longleftrightarrow> list_all2 eq (map (\<lambda>p. the (lit_of p)) parts) s"
proof (induction parts arbitrary: s)
  case Nil
  then show ?case by simp
next
  case (Cons p parts)
  then obtain c where p: "p = PLit c" by (cases p) (auto simp: lit_of_def)
  show ?case
    using Cons by (simp add: p list_all2_Cons1 lit_of_def del: parts_match.simps)
qed

lemma branch_text_match:
  "branch_text parts = Some t \<Longrightarrow> parts_match eq parts s \<longleftrightarrow> list_all2 eq t s"
  using parts_match_literals [of parts eq s]
  by (auto simp: branch_text_def list_all_iff split: if_splits)

lemma concat_singletons: "concat (map (\<lambda>b. [b]) bs) = bs"
  by (induction bs) auto

text \<open>An encoding ladder holds exactly the texts of its branches, in order.\<close>

lemma as_encoding_ladder_branches:
  assumes "as_encoding_ladder A = Some ladder"
  shows "concat ladder = map (\<lambda>parts. the (branch_text parts)) A" "ladder \<noteq> []" "[] \<notin> set ladder"
    "\<forall>parts \<in> set A. branch_text parts \<noteq> None"
proof -
  let ?bs = "map (\<lambda>parts. the (branch_text parts)) A"
  show all: "\<forall>parts \<in> set A. branch_text parts \<noteq> None"
    using assms by (auto simp: as_encoding_ladder_def Let_def split: if_splits)
  have len: "2 \<le> length A" using assms by (auto simp: as_encoding_ladder_def Let_def split: if_splits)
  consider (plain) "ladder = map (\<lambda>b. [b]) ?bs"
    | (space) "length ?bs \<ge> 3" "ladder = [?bs ! 0] # [?bs ! 1, ?bs ! 2] # map (\<lambda>b. [b]) (drop 3 ?bs)"
    using assms by (auto simp: as_encoding_ladder_def Let_def split: if_splits)
  then have "concat ladder = ?bs \<and> ladder \<noteq> [] \<and> [] \<notin> set ladder"
  proof cases
    case plain
    with len show ?thesis by (auto simp: concat_singletons simp del: map_map)
  next
    case space
    obtain x y z zs where "?bs = x # y # z # zs"
      using space(1) by (cases ?bs rule: remdups_adj.cases; cases "tl (tl ?bs)") auto
    with space(2) show ?thesis by (auto simp: concat_singletons)
  qed
  then show "concat ladder = ?bs" "ladder \<noteq> []" "[] \<notin> set ladder" by simp_all
qed

lemma as_encoding_ladder_match:
  assumes l: "as_encoding_ladder A = Some ladder"
  shows "alts_match eq [[PLadder ladder]] s \<longleftrightarrow> alts_match eq A s"
proof -
  note b = as_encoding_ladder_branches [OF l]
  have "parts_match eq parts s \<longleftrightarrow> list_all2 eq (the (branch_text parts)) s" if "parts \<in> set A" for parts
    using b(4) that branch_text_match [of parts _ eq s] by auto
  moreover have "set (concat ladder) = (\<lambda>parts. the (branch_text parts)) ` set A"
    by (simp only: b(1) set_map)
  ultimately show ?thesis by (simp add: alts_match_def del: set_concat)
qed

lemma expands_ladder:
  assumes l: "as_encoding_ladder A = Some ladder" and e: "expands eq r A st st'"
  shows "expands eq r [[PLadder ladder]] st (st'\<lparr>rest := x, narrowed := True\<rparr>)"
proof -
  have "ladders_ok [[PLadder ladder]]"
    using as_encoding_ladder_branches(2,3) [OF l] by (simp add: ladders_ok_def)
  then show ?thesis
    using e by (simp add: expands_def covers_def within_def as_encoding_ladder_match [OF l])
qed

subsection \<open>Atoms\<close>

lemma cat_text_first: "cat_text w r \<Longrightarrow> w = [] \<or> \<not> quant_char (hd w)"
proof (erule cat_text.cases)
  fix w' r' v q
  assume w: "w = w' @ v" and t: "term_text w' r'"
  from term_text_first [OF t] obtain c u where "w' = c # u" "\<not> quant_char c" by (elim exE conjE)
  with w show ?thesis by simp
qed simp

lemma alt_text_first: "alt_text w r \<Longrightarrow> w = [] \<or> \<not> quant_char (hd w)"
proof (erule alt_text.cases)
  fix w' r' assume "w = w'" "cat_text w' r'"
  then show ?thesis using cat_text_first by simp
next
  fix w' r' v q assume w: "w = w' @ ''|'' @ v" and "cat_text w' r'"
  from cat_text_first [OF this(2)] w show ?thesis by (cases w') (simp_all add: quant_char_def)
qed

lemma sound_altD:
  assumes s: "sound_alt eq w r" and p: "parse_alternation n d st = Inr (A, st')"
    and r: "rest st = w @ tail" and f: "after_alt tail"
  shows "rest st' = tail \<and> expands eq r A st st'"
proof -
  obtain n' where n: "n = Suc n'" using p by (cases n) auto
  from p n obtain m st1
    where c: "concat_loop (parse_alternation n' (Suc d)) n' [[]] st = Inr (m, st1)"
      and a: "alternation_loop (parse_alternation n' (Suc d)) n' ([] @ m) st1 = Inr (A, st')"
    by (auto simp: bindR_eq_Inr split: if_splits)
  have "rest st' = tail \<and> (\<exists>B. A = [] @ B \<and> expands eq r B st st')"
    by (rule s [unfolded sound_alt_def, rule_format, OF r f c a])
  then show ?thesis by auto
qed

lemma group_sound:
  assumes s: "sound_alt eq w r" and g: "parse_group (parse_alternation n d) st = Inr ((A, single), st')"
    and o: "rest (open_group st) = w @ CHR '')'' # tail"
  shows "rest st' = tail \<and> expands eq r A st st'"
proof -
  have open_expands: "expands eq r B st st2 = expands eq r B (open_group st) st2" for B st2
    by (simp add: open_group_def)
  from g show ?thesis
  proof (cases rule: parse_group_InrE)
    case (Ladder alternatives st1 cs ladder)
    from sound_altD [OF s Ladder(1) o] have "rest st1 = CHR '')'' # tail" "expands eq r alternatives (open_group st) st1"
      by (simp_all add: after_alt_def)
    with Ladder expands_ladder [of alternatives ladder eq r "open_group st" st1 cs]
    show ?thesis by (simp add: open_expands)
  next
    case (Plain alternatives st1 cs)
    from sound_altD [OF s Plain(1) o] have "rest st1 = CHR '')'' # tail" "expands eq r alternatives (open_group st) st1"
      by (simp_all add: after_alt_def)
    with Plain show ?thesis by (simp add: open_expands)
  qed
qed

lemma starts_with_hd: "w = [] \<or> \<not> quant_char (hd w) \<Longrightarrow> \<not> starts_with (w @ CHR '')'' # tail) ''?''"
  by (cases w) (auto simp: quant_char_def)

lemma starts_with_prefix_hd: "\<not> starts_with s ''?'' \<Longrightarrow> \<not> starts_with s ''?:''"
  by (cases s) auto

lemma sound_group:
  assumes t: "alt_text w r" and s: "sound_alt eq w r"
  shows "sound_atom eq (''('' @ w @ '')'') r"
proof (rule sound_atomI)
  show "''('' @ w @ '')'' = CHR ''('' # w @ '')''" by simp
next
  fix n d st tail A single st'
  assume r: "rest st = (w @ '')'') @ tail"
    and p: "parse_atom (parse_alternation n d) (CHR ''('') st = Inr ((A, single), st')"
  have "\<not> starts_with (rest st) ''?:''"
    using starts_with_prefix_hd [OF starts_with_hd [OF alt_text_first [OF t], of tail]] r by simp
  then have "rest (open_group st) = w @ CHR '')'' # tail" using r by (simp add: open_group_def)
  with group_sound [OF s, of n d st A single st' tail] p show "rest st' = tail \<and> expands eq r A st st'"
    by (simp add: parse_atom_def)
qed

lemma sound_noncapturing:
  assumes s: "sound_alt eq w r"
  shows "sound_atom eq (''(?:'' @ w @ '')'') r"
proof (rule sound_atomI)
  show "''(?:'' @ w @ '')'' = CHR ''('' # ''?:'' @ w @ '')''" by simp
next
  fix n d st tail A single st'
  assume r: "rest st = (''?:'' @ w @ '')'') @ tail"
    and p: "parse_atom (parse_alternation n d) (CHR ''('') st = Inr ((A, single), st')"
  have "rest (open_group st) = w @ CHR '')'' # tail" using r by (simp add: open_group_def)
  with group_sound [OF s, of n d st A single st' tail] p show "rest st' = tail \<and> expands eq r A st st'"
    by (simp add: parse_atom_def)
qed

lemma sound_class:
  assumes b: "CHR '']'' \<notin> set body" and sem: "class_sem body = Some (neg, P)"
  shows "sound_atom eq (''['' @ body @ '']'') (RClass neg P)"
proof (rule sound_atomI)
  show "''['' @ body @ '']'' = CHR ''['' # body @ '']''" by simp
next
  fix n d st tail A single st'
  assume r: "rest st = (body @ '']'') @ tail"
    and p: "parse_atom (parse_alternation n d) (CHR ''['') st = Inr ((A, single), st')"
  from p have "parse_class st = Inr (A, st')" by (auto simp: parse_atom_def bindR_eq_Inr)
  from parse_class_sound [OF this _ b sem, of tail eq] r
  show "rest st' = tail \<and> expands eq (RClass neg P) A st st'" by simp
qed

lemma sound_dot: "sound_atom eq ''.'' RDot"
  by (rule sound_atomI [of _ "CHR ''.''" "[]"]) (auto simp: parse_atom_def expands_dot)

lemma sound_lit: "\<not> special_char c \<Longrightarrow> sound_atom eq [c] (RLit c)"
  by (rule sound_atomI [of _ c "[]"]) (auto simp: parse_atom_def expands_lit special_char_def)

text \<open>An escape of one character, from what \<open>parse_escape\<close> returns for it.\<close>

lemma sound_escape:
  assumes e: "\<And>st cs. rest st = e # cs \<Longrightarrow> parse_escape st = Inr ((B, single'), (f st)\<lparr>rest := cs\<rparr>)"
    and x: "\<And>st. expands eq r B st (f st)"
  shows "sound_atom eq [bslash, e] r"
proof (rule sound_atomI)
  fix n d st tail A single st'
  assume r: "rest st = [e] @ tail" and p: "parse_atom (parse_alternation n d) bslash st = Inr ((A, single), st')"
  from p e [of st tail] r have "A = B" "st' = (f st)\<lparr>rest := tail\<rparr>" by (simp_all add: parse_atom_def)
  with x [of st] show "rest st' = tail \<and> expands eq r A st st'" by simp
qed simp

lemma sound_shorthand:
  assumes "class_shorthand e" shows "sound_atom eq [bslash, e] (RClass False P)"
  by (rule sound_escape [where f = "\<lambda>st. st\<lparr>lossy := True\<rparr>"])
    (use assms in \<open>auto simp: parse_escape_def expands_shorthand\<close>)

lemma sound_boundary:
  assumes "e \<in> set ''bB''" shows "sound_atom eq [bslash, e] (RBoundary b)"
proof -
  have "\<not> class_shorthand e" using assms by (auto simp: class_shorthand_def)
  with assms show ?thesis
    by (intro sound_escape [where f = "\<lambda>st. st\<lparr>lossy := True\<rparr>"])
      (auto simp: parse_escape_def expands_boundary)
qed

lemma sound_control:
  assumes "escape_literal e = Some l" shows "sound_atom eq [bslash, e] (RLit l)"
  by (rule sound_escape [where f = "\<lambda>st. st" and B = "[[PLit l]]" and single' = True])
    (use assms escape_literal_facts [OF assms] in \<open>simp_all add: parse_escape_def expands_lit\<close>)

lemma sound_escaped:
  assumes "\<not> is_alnum e" shows "sound_atom eq [bslash, e] (RLit e)"
  by (rule sound_escape [where f = "\<lambda>st. st" and B = "[[PLit e]]" and single' = True])
    (use assms not_alnum_facts [OF assms] in \<open>simp_all add: parse_escape_def expands_lit\<close>)

lemma sound_hex:
  assumes "is_hex h" "is_hex k"
  shows "sound_atom eq [bslash, CHR ''x'', h, k] (RLit (chr_c (16 * hex_val h + hex_val k)))"
proof (rule sound_atomI)
  fix n d st tail A single st'
  assume r: "rest st = [CHR ''x'', h, k] @ tail"
    and p: "parse_atom (parse_alternation n d) bslash st = Inr ((A, single), st')"
  from p r assms
  have "A = [[PLit (chr_c (16 * hex_val h + hex_val k))]]" "st' = st\<lparr>rest := tail\<rparr>"
    by (simp_all add: parse_atom_def parse_escape_def escape_literal_x Let_def)
  then show "rest st' = tail \<and> expands eq (RLit (chr_c (16 * hex_val h + hex_val k))) A st st'"
    by (simp add: expands_lit)
qed simp

subsection \<open>The descent\<close>

lemma descent_sound:
  "alt_text w r \<Longrightarrow> sound_alt eq w r"
  "cat_text w r \<Longrightarrow> sound_cat eq w r"
  "term_text w r \<Longrightarrow> sound_term eq w r"
  "atom_text w r \<Longrightarrow> sound_atom eq w r"
proof (induction rule: alt_text_cat_text_term_text_atom_text.inducts)
qed (blast intro: sound_alt_one sound_alt_more sound_cat_none sound_cat_more sound_term_plain
    sound_term_quant sound_group sound_noncapturing sound_class sound_dot sound_lit sound_shorthand
    sound_control sound_escaped sound_hex | rule sound_boundary, simp)+

lemma parse_body_sound:
  assumes t: "alt_text body r" and p: "parse_body body = Inr (A, st)"
  shows "expands eq r A \<lparr>rest = body, lossy = False, narrowed = False\<rparr> st"
  using sound_altD [OF descent_sound(1) [OF t], of _ 0 "\<lparr>rest = body, lossy = False, narrowed = False\<rparr>" A st "[]"] p
  by (auto simp: parse_body_def bindR_eq_Inr after_alt_def split: if_splits)

end
