(* ===== verification/RegexCorrect.thy ===== *)
theory RegexCorrect
  imports RegexSound
begin

text \<open>
  Correctness of the regex translator as a whole: the values it returns, read as Akamai wildcard
  values, against the search semantics of the source pattern. It has the rendering of parts, the
  edges of the pattern and the two inclusions, which give exactness when no flag is set, each for
  the patterns it holds for, and examples of the patterns left out.
\<close>

section \<open>Wildcard matching\<close>

lemma glob_any_run: "glob eq (star_c # cs) s \<longleftrightarrow> (\<exists>a b. s = a @ b \<and> glob eq cs b)"
proof (induction s)
  case Nil
  then show ?case by simp
next
  case (Cons x s)
  have "glob eq (star_c # cs) (x # s) \<longleftrightarrow> glob eq cs (x # s) \<or> (\<exists>a b. s = a @ b \<and> glob eq cs b)"
    using Cons by simp
  also have "\<dots> \<longleftrightarrow> (\<exists>a b. x # s = a @ b \<and> glob eq cs b)"
    by (auto simp: Cons_eq_append_conv)
  finally show ?case .
qed

lemma glob_character:
  "c \<noteq> star_c \<Longrightarrow> glob eq (c # cs) s \<longleftrightarrow> (\<exists>x xs. s = x # xs \<and> (c = qmark_c \<or> eq c x) \<and> glob eq cs xs)"
  by (cases s) auto

declare glob.simps(2) [simp del]

lemma glob_append:
  "glob eq (xs @ ys) s \<longleftrightarrow> (\<exists>a b. s = a @ b \<and> glob eq xs a \<and> glob eq ys b)"
proof (induction xs arbitrary: s)
  case Nil
  then show ?case by simp
next
  case (Cons c xs)
  show ?case
  proof (cases "c = star_c")
    case True
    have "glob eq ((c # xs) @ ys) s \<longleftrightarrow> (\<exists>u a b. s = u @ a @ b \<and> glob eq xs a \<and> glob eq ys b)"
      unfolding True append_Cons glob_any_run Cons by blast
    also have "\<dots> \<longleftrightarrow> (\<exists>a b. s = a @ b \<and> glob eq (c # xs) a \<and> glob eq ys b)"
      unfolding True glob_any_run by (metis append_assoc)
    finally show ?thesis .
  next
    case False
    have "glob eq ((c # xs) @ ys) s \<longleftrightarrow>
        (\<exists>x a b. s = x # a @ b \<and> (c = qmark_c \<or> eq c x) \<and> glob eq xs a \<and> glob eq ys b)"
      unfolding append_Cons glob_character [OF False] Cons by blast
    also have "\<dots> \<longleftrightarrow> (\<exists>a b. s = a @ b \<and> glob eq (c # xs) a \<and> glob eq ys b)"
      unfolding glob_character [OF False] by (metis append_Cons)
    finally show ?thesis .
  qed
qed

lemma glob_star [simp]: "glob eq [star_c] s"
  by (simp add: glob_any_run)

lemma glob_one [simp]: "glob eq [qmark_c] s \<longleftrightarrow> (\<exists>x. s = [x])"
  by (auto simp: glob_character)

lemma glob_literals:
  "star_c \<notin> set t \<Longrightarrow> qmark_c \<notin> set t \<Longrightarrow> glob eq t s \<longleftrightarrow> list_all2 eq t s"
proof (induction t arbitrary: s)
  case Nil
  then show ?case by simp
next
  case (Cons c t)
  then have "c \<noteq> star_c" "c \<noteq> qmark_c" by auto
  with Cons show ?case unfolding glob_character [OF \<open>c \<noteq> star_c\<close>] list_all2_Cons1 by simp
qed

lemma parts_match_text: "parts_match eq (map PLit t) s \<longleftrightarrow> list_all2 eq t s"
  using parts_match_literals [of "map PLit t" eq s] by (simp add: lit_of_def comp_def list_all_iff)

section \<open>Rendering\<close>

text \<open>A part with its ladder, if it is one, set to the text of one depth and variant.\<close>

definition ladder_text :: "nat \<Rightarrow> nat \<Rightarrow> string list list \<Rightarrow> string" where
  "ladder_text d v ladder = (if v < length (ladder ! d) then ladder ! d ! v else ladder ! d ! 0)"

definition pick :: "nat \<Rightarrow> nat \<Rightarrow> part \<Rightarrow> part list" where
  "pick d v p = (case p of PLadder ladder \<Rightarrow> map PLit (ladder_text d v ladder) | _ \<Rightarrow> [p])"

definition resolve :: "nat \<Rightarrow> nat \<Rightarrow> part list \<Rightarrow> part list" where
  "resolve d v parts = concat (map (pick d v) parts)"

lemma resolve_simps [simp]: "resolve d v [] = []" "resolve d v (p # ps) = pick d v p @ resolve d v ps"
  by (simp_all add: resolve_def)

lemma pick_simps [simp]:
  "pick d v (PLit c) = [PLit c]" "pick d v PAny = [PAny]" "pick d v POne = [POne]"
  "pick d v (PLadder ladder) = map PLit (ladder_text d v ladder)"
  by (simp_all add: pick_def)

lemma resolve_plain: "\<forall>p \<in> set parts. \<not> is_ladder p \<Longrightarrow> resolve d v parts = parts"
proof (induction parts)
  case (Cons p parts)
  then show ?case by (cases p) (auto simp: is_ladder_def)
qed simp

definition literal_wildcard_free :: "part list \<Rightarrow> bool" where
  "literal_wildcard_free parts = (\<not> has_literal_wildcard parts)"

lemma literal_wildcard_free_simps [simp]:
  "literal_wildcard_free []"
  "literal_wildcard_free (p # ps) \<longleftrightarrow> p \<noteq> PLit star_c \<and> p \<noteq> PLit qmark_c \<and> literal_wildcard_free ps"
  "literal_wildcard_free (xs @ ys) \<longleftrightarrow> literal_wildcard_free xs \<and> literal_wildcard_free ys"
  "literal_wildcard_free (map PLit t) \<longleftrightarrow> star_c \<notin> set t \<and> qmark_c \<notin> set t"
  by (auto simp: literal_wildcard_free_def has_literal_wildcard_def)

lemma render_loop_glob:
  "literal_wildcard_free (resolve d v ps) \<Longrightarrow>
   glob eq (concat (fst (render_loop d v ps acc used))) s \<longleftrightarrow>
   (\<exists>a b. s = a @ b \<and> glob eq (concat (rev acc)) a \<and> parts_match eq (resolve d v ps) b)"
proof (induction ps arbitrary: acc used s)
  case Nil
  then show ?case by simp
next
  case (Cons p ps)
  have free: "literal_wildcard_free (resolve d v ps)" using Cons.prems by simp
  have step: "glob eq (concat (fst (render_loop d v ps (t # acc) u))) s \<longleftrightarrow>
      (\<exists>a b. s = a @ b \<and> glob eq (concat (rev acc)) a \<and> parts_match eq (resolve d v (p # ps)) b)"
    if g: "\<And>z. glob eq t z \<longleftrightarrow> parts_match eq (pick d v p) z" for t u
    unfolding Cons.IH [OF free] by (simp add: glob_append parts_match_append g) (metis append_assoc)
  show ?case
  proof (cases p)
    case (PLit c)
    with Cons.prems have "glob eq [c] z \<longleftrightarrow> parts_match eq (pick d v p) z" for z
      by (cases z) (auto simp: glob_character)
    from step [OF this] PLit show ?thesis by simp
  next
    case PAny
    have any: "glob eq ''*'' z \<longleftrightarrow> parts_match eq (pick d v p) z" for z using PAny by simp
    show ?thesis
    proof (cases "acc \<noteq> [] \<and> hd acc = ''*''")
      case False
      with step [OF any] PAny show ?thesis by auto
    next
      case True
      then obtain acc' where acc: "acc = ''*'' # acc'" by (cases acc) auto
      have run: "glob eq (concat (rev acc)) (x @ y)" if "glob eq (concat (rev acc)) x" for x y
      proof -
        from that obtain u w where "x = u @ w" "glob eq (concat (rev acc')) u"
          unfolding acc by (auto simp: glob_append)
        then have "x @ y = u @ (w @ y) \<and> glob eq (concat (rev acc')) u \<and> glob eq ''*'' (w @ y)" by simp
        then show ?thesis unfolding acc rev.simps concat_append glob_append by auto
      qed
      have "glob eq (concat (fst (render_loop d v ps acc True))) s \<longleftrightarrow>
        (\<exists>a b. s = a @ b \<and> glob eq (concat (rev acc)) a \<and> parts_match eq (resolve d v (p # ps)) b)"
        (is "?L \<longleftrightarrow> ?R")
      proof
        assume ?L
        then obtain a b where "s = a @ [] @ b" "glob eq (concat (rev acc)) a" "parts_match eq (resolve d v ps) b"
          unfolding Cons.IH [OF free] by auto
        then show ?R using PAny by (intro exI [of _ a] exI [of _ b]) auto
      next
        assume ?R
        then obtain a x b where s: "s = (a @ x) @ b" and a: "glob eq (concat (rev acc)) a"
          and b: "parts_match eq (resolve d v ps) b" using PAny by auto
        from s run [OF a, of x] b show ?L unfolding Cons.IH [OF free] by blast
      qed
      with PAny True show ?thesis by simp
    qed
  next
    case POne
    then have "glob eq ''?'' z \<longleftrightarrow> parts_match eq (pick d v p) z" for z by auto
    from step [OF this] POne show ?thesis by simp
  next
    case (PLadder ladder)
    with Cons.prems have "glob eq (ladder_text d v ladder) z \<longleftrightarrow> parts_match eq (pick d v p) z" for z
      by (simp add: glob_literals parts_match_text)
    from step [OF this] PLadder show ?thesis by (simp add: ladder_text_def Let_def)
  qed
qed

lemma render_glob:
  "literal_wildcard_free (resolve d v parts) \<Longrightarrow>
   glob eq (fst (render parts d v)) s \<longleftrightarrow> parts_match eq (resolve d v parts) s"
  using render_loop_glob [of d v parts eq "[]" False s] by (simp add: render_def case_prod_unfold)

definition is_wildcard_part :: "part \<Rightarrow> bool" where
  "is_wildcard_part p = (p = PAny \<or> p = POne)"

lemma render_loop_used:
  "snd (render_loop d v ps acc used) \<longleftrightarrow> used \<or> (\<exists>p \<in> set ps. is_wildcard_part p)"
  by (induction ps arbitrary: acc used) (auto simp: is_wildcard_part_def Let_def split: part.splits)

lemma render_used: "snd (render parts d v) \<longleftrightarrow> (\<exists>p \<in> set parts. is_wildcard_part p)"
  using render_loop_used [of d v parts "[]" False] by (simp add: render_def case_prod_unfold)

lemma render_loop_text:
  "\<forall>p \<in> set ps. \<not> is_wildcard_part p \<Longrightarrow>
   \<exists>t. concat (fst (render_loop d v ps acc used)) = concat (rev acc) @ t \<and> resolve d v ps = map PLit t"
proof (induction ps arbitrary: acc used)
  case (Cons p ps)
  show ?case
  proof (cases p)
    case (PLit c)
    with Cons.prems obtain t where "concat (fst (render_loop d v ps ([c] # acc) used)) = concat (rev ([c] # acc)) @ t"
      "resolve d v ps = map PLit t" using Cons.IH [of "[c] # acc" used] by auto
    with PLit show ?thesis by (intro exI [of _ "c # t"]) simp
  next
    case (PLadder ladder)
    let ?w = "ladder_text d v ladder"
    from Cons.prems obtain t where "concat (fst (render_loop d v ps (?w # acc) used)) = concat (rev (?w # acc)) @ t"
      "resolve d v ps = map PLit t" using Cons.IH [of "?w # acc" used] by auto
    with PLadder show ?thesis
      by (intro exI [of _ "?w @ t"]) (simp add: ladder_text_def Let_def)
  qed (use Cons.prems in \<open>auto simp: is_wildcard_part_def\<close>)
qed simp

lemma render_text:
  "\<not> snd (render parts d v) \<Longrightarrow> list_all2 eq (fst (render parts d v)) s \<longleftrightarrow> parts_match eq (resolve d v parts) s"
proof -
  assume "\<not> snd (render parts d v)"
  then have "\<forall>p \<in> set parts. \<not> is_wildcard_part p" by (simp add: render_used)
  from render_loop_text [OF this, of d v "[]" False]
  obtain t where "fst (render parts d v) = t" "resolve d v parts = map PLit t"
    by (auto simp: render_def case_prod_unfold)
  then show ?thesis by (simp add: parts_match_text)
qed

section \<open>The source pattern\<close>

fun top_branches :: "rx \<Rightarrow> rx list" where
  "top_branches (RAlt a b) = a # top_branches b"
| "top_branches r = [r]"

text \<open>
  \<open>finds eq as ae r s\<close>: searching \<open>s\<close> for the pattern \<open>r\<close> succeeds, where a leading anchor
  belongs to the first branch of the alternation and a trailing one to the last.
\<close>

definition finds :: "(char \<Rightarrow> char \<Rightarrow> bool) \<Rightarrow> bool \<Rightarrow> bool \<Rightarrow> rx \<Rightarrow> string \<Rightarrow> bool" where
  "finds eq as ae r s \<longleftrightarrow>
     (\<exists>i < length (top_branches r). \<exists>l m p. s = l @ m @ p \<and> rmatch eq (top_branches r ! i) l m p \<and>
        (as \<and> i = 0 \<longrightarrow> l = []) \<and> (ae \<and> Suc i = length (top_branches r) \<longrightarrow> p = []))"

text \<open>\<open>pattern_text source ci as ae r\<close>: the flags, the edges and the expression of a source.\<close>

definition pattern_text :: "string \<Rightarrow> bool \<Rightarrow> bool \<Rightarrow> bool \<Rightarrow> rx \<Rightarrow> bool" where
  "pattern_text source ci as ae r \<longleftrightarrow>
     (\<exists>src body. read_inline_flags source = Inr (ci, src) \<and> split_anchors src = (as, ae, body) \<and> alt_text body r)"

text \<open>The texts of the encoding ladders of an expansion hold no wildcard character.\<close>

definition clean_ladders :: "alts \<Rightarrow> bool" where
  "clean_ladders A = list_all (list_all (\<lambda>p. case p of
     PLadder ladder \<Rightarrow> list_all (list_all (\<lambda>t. star_c \<notin> set t \<and> qmark_c \<notin> set t)) ladder | _ \<Rightarrow> True)) A"

definition clean_source :: "string \<Rightarrow> bool" where
  "clean_source source =
     (case read_inline_flags source of
        Inl e \<Rightarrow> True
      | Inr (ci, src) \<Rightarrow> (case split_anchors src of (as, ae, body) \<Rightarrow>
          (case parse_body body of Inl e \<Rightarrow> True | Inr (A, st) \<Rightarrow> clean_ladders A)))"

section \<open>Ladders at one depth\<close>

lemma ladder_depth_loop_all:
  "ladder_depth_loop ps d = Some e \<Longrightarrow> (\<forall>L. PLadder L \<in> set ps \<longrightarrow> L \<noteq> []) \<Longrightarrow>
   (d \<noteq> 0 \<longrightarrow> e = d) \<and> (\<forall>L. PLadder L \<in> set ps \<longrightarrow> length L = e)"
proof (induction ps arbitrary: d)
  case Nil
  then show ?case by simp
next
  case (Cons p ps)
  show ?case
  proof (cases "\<exists>L. p = PLadder L")
    case True
    then obtain L where p: "p = PLadder L" by blast
    with Cons.prems have l: "ladder_depth_loop ps (length L) = Some e" and "L \<noteq> []" and d: "d = 0 \<or> d = length L"
      by (auto split: if_splits)
    with Cons.IH [OF l] Cons.prems(2) p show ?thesis by auto
  next
    case False
    with Cons.prems have "ladder_depth_loop ps d = Some e" by (cases p) auto
    with Cons.IH [OF this] Cons.prems(2) False show ?thesis by auto
  qed
qed

lemma ladder_depth_all:
  assumes "ladder_depth A = Some depths" "ladders_ok A" "parts \<in> set A" "PLadder L \<in> set parts"
  shows "length L = depths"
proof -
  from assms(1) obtain e where e: "ladder_depth_loop (concat A) 0 = Some e" "depths = (if e = 0 then 1 else e)"
    by (auto simp: ladder_depth_def split: option.splits)
  have "\<forall>L. PLadder L \<in> set (concat A) \<longrightarrow> L \<noteq> []" using assms(2) by (auto simp: ladders_ok_def)
  with ladder_depth_loop_all [OF e(1) this] assms(3,4) have "length L = e" "L \<noteq> []" by auto
  with e(2) show ?thesis by auto
qed

lemma ladder_rung: "d < length L \<Longrightarrow> [] \<notin> set L \<Longrightarrow> L ! d \<noteq> []"
  by (metis nth_mem)

lemma ladder_text_in:
  "d < length L \<Longrightarrow> L ! d \<noteq> [] \<Longrightarrow> ladder_text d v L \<in> set (concat L)"
  unfolding ladder_text_def by (auto intro!: bexI [of _ "L ! d"])

lemma resolve_within:
  assumes "\<forall>L. PLadder L \<in> set parts \<longrightarrow> d < length L \<and> [] \<notin> set L"
  shows "parts_match eq (resolve d v parts) s \<Longrightarrow> parts_match eq parts s"
  using assms
proof (induction parts arbitrary: s)
  case Nil
  then show ?case by simp
next
  case (Cons p parts)
  from Cons.prems(1) obtain a b where s: "s = a @ b" "parts_match eq (pick d v p) a" "parts_match eq (resolve d v parts) b"
    by (auto simp: parts_match_append)
  have "parts_match eq parts b" using Cons s by auto
  moreover have "part_match eq p a"
  proof (cases "\<exists>L. p = PLadder L")
    case True
    then obtain L where p: "p = PLadder L" by blast
    with Cons.prems(2) have "d < length L" "[] \<notin> set L" by auto
    then have "d < length L" "L ! d \<noteq> []" by (simp_all add: ladder_rung)
    from ladder_text_in [OF this, of v] s(2) p show ?thesis by (auto simp: parts_match_text)
  next
    case False
    with s(2) have "parts_match eq [p] a" by (cases p) (auto simp del: parts_match_lit)
    then show ?thesis by (auto simp del: parts_match_lit)
  qed
  ultimately show ?case using s(1) by (auto simp del: parts_match_lit)
qed

lemma resolve_wildcard_free:
  assumes "\<not> has_literal_wildcard parts" "clean_ladders [parts]"
    "\<forall>L. PLadder L \<in> set parts \<longrightarrow> d < length L \<and> [] \<notin> set L"
  shows "literal_wildcard_free (resolve d v parts)"
  using assms
proof (induction parts)
  case (Cons p parts)
  have "literal_wildcard_free (resolve d v parts)"
    using Cons by (auto simp: has_literal_wildcard_def clean_ladders_def)
  moreover have "literal_wildcard_free (pick d v p)"
  proof (cases p)
    case (PLadder L)
    with Cons.prems(3) have "d < length L" "[] \<notin> set L" by auto
    then have "d < length L" "L ! d \<noteq> []" by (simp_all add: ladder_rung)
    from ladder_text_in [OF this, of v] Cons.prems(2) PLadder show ?thesis
      by (auto simp: clean_ladders_def list_all_iff)
  qed (use Cons.prems(1) in \<open>auto simp: has_literal_wildcard_def\<close>)
  ultimately show ?case by simp
qed simp

section \<open>Values and edges\<close>

lemma glob_affix:
  "glob eq (affix as ae v) s \<longleftrightarrow>
   (\<exists>l m p. s = l @ m @ p \<and> (as \<longrightarrow> l = []) \<and> (ae \<longrightarrow> p = []) \<and> glob eq v m)"
proof -
  have edge: "glob eq (if b then [] else ''*'') z \<longleftrightarrow> (b \<longrightarrow> z = [])" for b z by simp
  show ?thesis unfolding affix_def glob_append edge by blast
qed

lemma value_match_render:
  assumes wc: "wc \<longleftrightarrow> \<not> as \<or> \<not> ae \<or> u" and u: "snd (render parts d v) \<Longrightarrow> u"
    and free: "wc \<Longrightarrow> literal_wildcard_free (resolve d v parts)"
  shows "value_match eq wc (affix as ae (fst (render parts d v))) s \<longleftrightarrow>
    (\<exists>l m p. s = l @ m @ p \<and> (as \<longrightarrow> l = []) \<and> (ae \<longrightarrow> p = []) \<and> parts_match eq (resolve d v parts) m)"
proof (cases wc)
  case True
  with free show ?thesis by (simp add: value_match_def glob_affix render_glob)
next
  case False
  with wc u have "as" "ae" "\<not> snd (render parts d v)" by auto
  with False render_text [of parts d v eq s] show ?thesis by (simp add: value_match_def affix_def)
qed

lemma translate_InrE:
  assumes "translate source = Inr res"
  obtains ci src as ae body A st depths where
    "read_inline_flags source = Inr (ci, src)" "split_anchors src = (as, ae, body)"
    "parse_body body = Inr (A, st)" "ladder_depth A = Some depths"
    "r_wildcard res \<longleftrightarrow> \<not> as \<or> \<not> ae \<or> (\<exists>r \<in> set (renderings A depths). snd r)"
    "set (r_values res) = (\<lambda>r. affix as ae (fst r)) ` set (renderings A depths)"
    "r_wildcard res \<Longrightarrow> \<forall>parts \<in> set A. \<not> has_literal_wildcard parts"
    "r_case_insensitive res = ci" "r_lossy res = lossy st" "r_narrowed res = narrowed st"
    "r_values res \<noteq> []" "[] \<notin> set (r_values res)" "length (r_values res) \<le> MAX_VALUES"
    "distinct (r_values res)"
proof -
  from assms obtain ci src where f: "read_inline_flags source = Inr (ci, src)"
    by (auto simp: translate_def bindR_eq_Inr split: if_splits)
  obtain as ae body where e: "split_anchors src = (as, ae, body)" by (metis prod_cases3)
  from assms f e obtain A st where p: "parse_body body = Inr (A, st)"
    by (auto simp: translate_def bindR_eq_Inr split: if_splits)
  from assms f e p obtain depths where d: "ladder_depth A = Some depths"
    by (auto simp: translate_def split: if_splits option.splits)
  let ?rs = "renderings A depths"
  let ?wc = "\<not> as \<or> \<not> ae \<or> (\<exists>r \<in> set ?rs. snd r)"
  from assms f e p d
  have res: "res = \<lparr>r_values = unique_list (map (\<lambda>r. affix as ae (fst r)) ?rs), r_wildcard = ?wc,
      r_case_insensitive = ci, r_lossy = lossy st, r_narrowed = narrowed st\<rparr>"
    and sizes: "r_values res \<noteq> []" "[] \<notin> set (r_values res)" "length (r_values res) \<le> MAX_VALUES"
    and guard: "\<not> (?wc \<and> (\<exists>parts \<in> set A. has_literal_wildcard parts))"
    by (auto simp add: translate_def Let_def split: if_split_asm)
  show thesis by (rule that [OF f e p d]) (use sizes res guard in \<open>auto\<close>)
qed

lemma in_renderings:
  "r \<in> set (renderings A depths) \<longleftrightarrow>
   (\<exists>d < depths. \<exists>v < ladder_variants A d. \<exists>parts \<in> set A. r = render parts d v)"
proof -
  have "set (renderings A depths)
      = (\<Union>d \<in> {..<depths}. \<Union>v \<in> {..<ladder_variants A d}. (\<lambda>parts. render parts d v) ` set A)"
    by (simp add: renderings_def atLeast0LessThan)
  then show ?thesis by blast
qed

lemma no_ladder_depth:
  assumes "\<not> has_ladder A" shows "ladder_depth A = Some 1" "ladder_variants A 0 = 1"
proof -
  have "\<forall>p \<in> set ps. \<not> is_ladder p \<Longrightarrow> ladder_depth_loop ps 0 = Some 0" for ps
    by (induction ps) (auto simp: is_ladder_def split: part.splits)
  moreover have n: "\<forall>p \<in> set (concat A). \<not> is_ladder p" using assms by (auto simp: has_ladder_def)
  ultimately show "ladder_depth A = Some 1" by (simp add: ladder_depth_def del: set_concat)
  have "concat (map (\<lambda>p. case p of PLadder ladder \<Rightarrow> [length (ladder ! 0)] | _ \<Rightarrow> []) (concat A)) = []"
    using n by (auto simp: is_ladder_def split: part.splits)
  then show "ladder_variants A 0 = 1" by (simp add: ladder_variants_def)
qed

section \<open>Correctness\<close>

lemma top_branches_nonempty [simp]: "top_branches r \<noteq> []"
  by (cases r) auto

lemma rmatch_branch:
  "rmatch eq r l s p \<longleftrightarrow> (\<exists>i < length (top_branches r). rmatch eq (top_branches r ! i) l s p)"
proof (induction r rule: top_branches.induct)
  case (1 a b)
  show ?case
  proof
    assume "rmatch eq (RAlt a b) l s p"
    then show "\<exists>i < length (top_branches (RAlt a b)). rmatch eq (top_branches (RAlt a b) ! i) l s p"
      using 1 by (auto intro: exI [of _ 0] exI [of _ "Suc i" for i])
  next
    assume "\<exists>i < length (top_branches (RAlt a b)). rmatch eq (top_branches (RAlt a b) ! i) l s p"
    then obtain i where "i < Suc (length (top_branches b))" "rmatch eq ((a # top_branches b) ! i) l s p" by auto
    then show "rmatch eq (RAlt a b) l s p" using 1 by (cases i) auto
  qed
qed auto

text \<open>The facts of a translation that both inclusions use.\<close>

lemma translate_expands:
  assumes "translate source = Inr res" "pattern_text source ci as ae r"
  obtains A st depths where "expands eq r A \<lparr>rest = z, lossy = False, narrowed = False\<rparr> st"
    "ladder_depth A = Some depths" "r_lossy res = lossy st" "r_narrowed res = narrowed st"
    "clean_source source \<longleftrightarrow> clean_ladders A"
    "r_wildcard res \<longleftrightarrow> \<not> as \<or> \<not> ae \<or> (\<exists>r \<in> set (renderings A depths). snd r)"
    "set (r_values res) = (\<lambda>r. affix as ae (fst r)) ` set (renderings A depths)"
    "r_wildcard res \<Longrightarrow> \<forall>parts \<in> set A. \<not> has_literal_wildcard parts"
  using assms(1)
proof (cases rule: translate_InrE)
  case (1 ci' src as' ae' body A st depths)
  with assms(2) have same: "as' = as" "ae' = ae" "alt_text body r" by (auto simp: pattern_text_def)
  have "expands eq r A \<lparr>rest = body, lossy = False, narrowed = False\<rparr> st"
    using parse_body_sound [OF same(3) 1(3)] .
  then have "expands eq r A \<lparr>rest = z, lossy = False, narrowed = False\<rparr> st" by (simp add: expands_def)
  moreover have "clean_source source \<longleftrightarrow> clean_ladders A" using 1 by (simp add: clean_source_def)
  ultimately show ?thesis using 1 same that [of A st depths] by blast
qed

text \<open>
  Every subject that the pattern finds is matched by one of the values, unless encoding ladders
  were aligned or an anchored pattern has several branches.
\<close>

lemma translate_covers:
  assumes t: "translate source = Inr res" and p: "pattern_text source ci as ae r"
    and n: "\<not> r_narrowed res" and b: "as \<or> ae \<Longrightarrow> length (top_branches r) = 1"
    and f: "finds eq as ae r s"
  shows "\<exists>v \<in> set (r_values res). value_match eq (r_wildcard res) v s"
  using t p
proof (cases rule: translate_expands [where eq = eq and z = "[]"])
  case (1 A st depths)
  from 1(1,4) n have nl: "\<not> has_ladder A" and cov: "covers eq r A" by (auto simp: expands_def)
  have d: "depths = 1" "ladder_variants A 0 = 1" using no_ladder_depth [OF nl] 1(2) by simp_all
  from f obtain i l m q where i: "i < length (top_branches r)" and s: "s = l @ m @ q"
    and m: "rmatch eq (top_branches r ! i) l m q"
    and e: "as \<and> i = 0 \<longrightarrow> l = []" "ae \<and> Suc i = length (top_branches r) \<longrightarrow> q = []"
    by (auto simp: finds_def)
  have edges: "as \<longrightarrow> l = []" "ae \<longrightarrow> q = []" using e b i by auto
  from cov m i have "alts_match eq A m" unfolding covers_def using rmatch_branch [of eq r l m q] by blast
  then obtain parts where parts: "parts \<in> set A" "parts_match eq parts m" by (auto simp: alts_match_def)
  have res: "resolve 0 0 parts = parts"
    using nl parts(1) by (intro resolve_plain) (auto simp: has_ladder_def)
  have r: "render parts 0 0 \<in> set (renderings A depths)" using d parts(1) by (auto simp: in_renderings)
  have "value_match eq (r_wildcard res) (affix as ae (fst (render parts 0 0))) s"
    using s edges parts r 1(8)
    by (subst value_match_render [OF 1(6)]) (auto simp: res literal_wildcard_free_def)
  then show ?thesis using r 1(7) by auto
qed

text \<open>
  Every subject that one of the values matches is found by the pattern, when no generalisation
  was recorded.
\<close>

lemma translate_within:
  assumes t: "translate source = Inr res" and p: "pattern_text source ci as ae r"
    and l: "\<not> r_lossy res" and f: "faithful eq r" and c: "clean_source source"
    and v: "v \<in> set (r_values res)" and m: "value_match eq (r_wildcard res) v s"
  shows "finds eq as ae r s"
  using t p
proof (cases rule: translate_expands [where eq = eq and z = "[]"])
  case (1 A st depths)
  from 1(1,3) l f have w: "within eq r A" and ok: "ladders_ok A" by (auto simp: expands_def)
  from v 1(7) obtain r0 where r0: "r0 \<in> set (renderings A depths)" "v = affix as ae (fst r0)" by blast
  then obtain d k parts where k: "d < depths" "k < ladder_variants A d" "parts \<in> set A"
    and vd: "v = affix as ae (fst (render parts d k))" unfolding in_renderings by blast
  then have r: "render parts d k \<in> set (renderings A depths)" by (auto simp: in_renderings)
  have lad: "\<forall>L. PLadder L \<in> set parts \<longrightarrow> d < length L \<and> [] \<notin> set L"
    using ladder_depth_all [OF 1(2) ok k(3)] ok k(1,3) by (auto simp: ladders_ok_def)
  have "clean_ladders [parts]" using c 1(5) k(3) by (auto simp: clean_ladders_def list_all_iff)
  then have free: "r_wildcard res \<Longrightarrow> literal_wildcard_free (resolve d k parts)"
    using 1(8) k(3) lad by (intro resolve_wildcard_free) auto
  from m obtain a b q where s: "s = a @ b @ q" "as \<longrightarrow> a = []" "ae \<longrightarrow> q = []"
    and pm: "parts_match eq (resolve d k parts) b"
    unfolding vd using value_match_render [OF 1(6) _ free, where eq = eq and s = s] r by auto
  have "alts_match eq A b" using resolve_within [OF lad pm] k(3) by (auto simp: alts_match_def)
  then have "rmatch eq r a b q" using w by (auto simp: within_def)
  then obtain i where "i < length (top_branches r)" "rmatch eq (top_branches r ! i) a b q"
    using rmatch_branch [of eq r a b q] by blast
  with s show ?thesis unfolding finds_def by blast
qed

lemma narrowed_free_clean:
  assumes t: "translate source = Inr res" and p: "pattern_text source ci as ae r" and n: "\<not> r_narrowed res"
  shows "clean_source source"
  using t p
proof (cases rule: translate_expands [where eq = "(=)" and z = "[]"])
  case (1 A st depths)
  with n have "\<not> has_ladder A" by (auto simp: expands_def)
  with 1(5) show ?thesis
    by (auto simp: clean_ladders_def has_ladder_def list_all_iff is_ladder_def split: part.splits)
qed

section \<open>Properties\<close>

text \<open>
  C1. A translation that records neither a generalisation nor an alignment is exact. The values
  returned, matched as Akamai wildcard or literal values under the returned case sensitivity, match
  exactly the subjects in which the source pattern is found. This is for a pattern of the supported
  grammar without possessive quantifiers and without an optional expression that matches every
  character (such as \<^verbatim>\<open>.?\<close>), which has a single top-level branch if it has an anchor.
\<close>

theorem regex_exact:
  assumes "translate source = Inr res" "pattern_text source ci as ae r"
    and "\<not> r_lossy res" "\<not> r_narrowed res" "faithful (char_eq ci) r"
    and "as \<or> ae \<Longrightarrow> length (top_branches r) = 1"
  shows "(\<exists>v \<in> set (r_values res). value_match (char_eq ci) (r_wildcard res) v s)
     \<longleftrightarrow> finds (char_eq ci) as ae r s"
  using translate_covers [OF assms(1,2,4,6)] translate_within [OF assms(1,2,3,5) narrowed_free_clean [OF assms(1,2,4)]]
  by blast

text \<open>The pattern \<^verbatim>\<open>^a.+$\<close> in the grammar.\<close>

lemma sample_pattern:
  "pattern_text ''^a.+$'' False True True (RSeq (RLit (CHR ''a'')) (RSeq (RPlus RDot) REps))"
proof -
  have "cat_text (''.+'' @ []) (RSeq (RPlus RDot) REps)"
    using term_quant [OF atom_dot plus] by (intro cat_more cat_none) simp
  from cat_more [OF term_plain [OF atom_lit] this, of "CHR ''a''"]
  have "cat_text (''a'' @ ''.+'' @ []) (RSeq (RLit (CHR ''a'')) (RSeq (RPlus RDot) REps))"
    by (simp add: special_char_def)
  then have "alt_text ''a.+'' (RSeq (RLit (CHR ''a'')) (RSeq (RPlus RDot) REps))"
    by (intro alt_one) simp
  moreover have "read_inline_flags ''^a.+$'' = Inr (False, ''^a.+$'')"
    "split_anchors ''^a.+$'' = (True, True, ''a.+'')" by code_simp+
  ultimately show ?thesis by (auto simp: pattern_text_def)
qed

lemma sample_faithful: "faithful eq (RSeq (RLit (CHR ''a'')) (RSeq (RPlus RDot) REps))"
  by simp

lemma sample_translation:
  "translate ''^a.+$'' = Inr \<lparr>r_values = [''a?*''], r_wildcard = True, r_case_insensitive = False,
     r_lossy = False, r_narrowed = False\<rparr>"
  by code_simp

theorem regex_exact_witness:
  "value_match (char_eq False) True ''a?*'' ''abc''
     \<longleftrightarrow> finds (char_eq False) True True (RSeq (RLit (CHR ''a'')) (RSeq (RPlus RDot) REps)) ''abc''"
  using regex_exact [OF sample_translation sample_pattern, of "''abc''"] sample_faithful by simp

text \<open>
  C2. For a pattern of the supported grammar that has a single top-level branch if it has an anchor, a
  translation that aligned no encoding ladders (it would record it) loses no match, whether or not it
  generalised: every subject in which the source pattern is found is matched by one of the returned
  values. Both provisos are needed: aligned ladders match a subset, and the anchored pattern with two
  branches below is found in a subject that no value matches.
\<close>

theorem regex_superset:
  assumes "translate source = Inr res" "pattern_text source ci as ae r" "\<not> r_narrowed res"
    and "as \<or> ae \<Longrightarrow> length (top_branches r) = 1"
    and "finds (char_eq ci) as ae r s"
  shows "\<exists>v \<in> set (r_values res). value_match (char_eq ci) (r_wildcard res) v s"
  by (rule translate_covers [OF assms])

lemma sample_finds: "finds (char_eq False) True True (RSeq (RLit (CHR ''a'')) (RSeq (RPlus RDot) REps)) ''ab''"
proof -
  have "chain (rmatch (char_eq False) RDot) ''a'' [''b''] []" by simp
  then have "rmatch (char_eq False) (RPlus RDot) ''a'' ''b'' []"
    unfolding rmatch.simps by (intro exI [of _ "[''b'']"]) simp
  then have "rmatch (char_eq False) (RSeq (RLit (CHR ''a'')) (RSeq (RPlus RDot) REps)) [] (''a'' @ ''b'') []"
    unfolding rmatch.simps(6) [of _ "RLit (CHR ''a'')"]
    by (intro exI [of _ "''a''"] exI [of _ "''b''"]) (simp add: char_eq_def)
  then show ?thesis unfolding finds_def by (intro exI [of _ 0] conjI exI [of _ "[]"] exI [of _ "''ab''"]) simp_all
qed

theorem regex_superset_witness:
  "value_match (char_eq False) True ''a?*'' ''ab''"
  using regex_superset [OF sample_translation sample_pattern _ _ sample_finds] by simp

text \<open>
  Without a recorded generalisation every value matches only subjects in which the source
  pattern is found, also when encoding ladders were aligned: an aligned (narrowed) translation
  matches a subset. The pattern is of the supported grammar, without possessive quantifiers and
  without an optional dot, and its ladders hold no literal wildcard character.
\<close>

theorem regex_subset:
  assumes "translate source = Inr res" "pattern_text source ci as ae r"
    and "\<not> r_lossy res" "faithful (char_eq ci) r" "clean_source source"
    and "v \<in> set (r_values res)" "value_match (char_eq ci) (r_wildcard res) v s"
  shows "finds (char_eq ci) as ae r s"
  by (rule translate_within [OF assms])

theorem regex_subset_witness:
  "finds (char_eq False) True True (RSeq (RLit (CHR ''a'')) (RSeq (RPlus RDot) REps)) ''axyz''"
proof -
  have "clean_source ''^a.+$''" by code_simp
  moreover have "value_match (char_eq False) True ''a?*'' ''axyz''" by code_simp
  ultimately show ?thesis
    using regex_subset [OF sample_translation sample_pattern, of "''a?*''" "''axyz''"] sample_faithful by simp
qed

section \<open>Patterns outside the exact subset\<close>

text \<open>
  The anchors of \<^verbatim>\<open>^foo|bar$\<close> bind to one branch each, but the translator applies both to
  every value: a subject that the pattern finds is matched by none, and no flag is set.
\<close>

lemma branch_pattern:
  "pattern_text ''^a|b$'' False True True
     (RAlt (RSeq (RLit (CHR ''a'')) REps) (RSeq (RLit (CHR ''b'')) REps))"
proof -
  have "cat_text ([c] @ []) (RSeq (RLit c) REps)" if "\<not> special_char c" for c
    using that by (intro cat_more cat_none term_plain atom_lit)
  from alt_more [OF this alt_one [OF this], of "CHR ''a''" "CHR ''b''"]
  have "alt_text ''a|b'' (RAlt (RSeq (RLit (CHR ''a'')) REps) (RSeq (RLit (CHR ''b'')) REps))"
    by (simp add: special_char_def)
  moreover have "read_inline_flags ''^a|b$'' = Inr (False, ''^a|b$'')"
    "split_anchors ''^a|b$'' = (True, True, ''a|b'')" by code_simp+
  ultimately show ?thesis by (auto simp: pattern_text_def)
qed

text \<open>
  On \<^verbatim>\<open>^a|b$\<close>, whose anchors belong to one branch each, the translator anchors both
  branches at both ends and sets neither flag: the pattern is found in \<^verbatim>\<open>xb\<close>, which no value
  matches.
\<close>

theorem anchored_branches_undermatch:
  "\<exists>res. translate ''^a|b$'' = Inr res \<and> \<not> r_lossy res \<and> \<not> r_narrowed res \<and>
     finds (char_eq False) True True (RAlt (RSeq (RLit (CHR ''a'')) REps) (RSeq (RLit (CHR ''b'')) REps)) ''xb'' \<and>
     \<not> (\<exists>v \<in> set (r_values res). value_match (char_eq False) (r_wildcard res) v ''xb'')"
proof -
  have "translate ''^a|b$'' = Inr \<lparr>r_values = [''a'', ''b''], r_wildcard = False, r_case_insensitive = False,
     r_lossy = False, r_narrowed = False\<rparr>" by code_simp
  moreover have "finds (char_eq False) True True
      (RAlt (RSeq (RLit (CHR ''a'')) REps) (RSeq (RLit (CHR ''b'')) REps)) ''xb''"
    unfolding finds_def
    by (intro exI [of _ 1] conjI exI [of _ "''x''"] exI [of _ "''b''"] exI [of _ "[]"])
      (simp_all add: char_eq_def)
  moreover have "\<not> value_match (char_eq False) False ''a'' ''xb''" "\<not> value_match (char_eq False) False ''b'' ''xb''"
    by code_simp+
  ultimately show ?thesis by simp
qed

text \<open>
  The optional dot is generalised to an arbitrary run without a flag: \<^verbatim>\<open>^a.?b$\<close> gives
  the value \<^verbatim>\<open>a*b\<close>, labelled equivalent, which matches \<^verbatim>\<open>axyb\<close>.
\<close>

theorem optional_dot_overmatch:
  "\<exists>res. translate ''^a.?b$'' = Inr res \<and> \<not> r_lossy res \<and> \<not> r_narrowed res \<and> r_values res = [''a*b''] \<and>
     value_match (char_eq False) (r_wildcard res) ''a*b'' ''axyb''"
proof -
  have "translate ''^a.?b$'' = Inr \<lparr>r_values = [''a*b''], r_wildcard = True, r_case_insensitive = False,
     r_lossy = False, r_narrowed = False\<rparr>" by code_simp
  moreover have "value_match (char_eq False) True ''a*b'' ''axyb''" by code_simp
  ultimately show ?thesis by simp
qed

end
