(* ===== verification/Json.thy ===== *)
theory Json
  imports PyString
begin

text \<open>
  JSON values as the program holds them after decoding: Python's \<^verbatim>\<open>None\<close>, booleans,
  integers, floats (kept as their text), strings, lists and dicts. A dict is an association list
  in insertion order with distinct keys. Also Python's \<^verbatim>\<open>str\<close> and \<^verbatim>\<open>repr\<close> of such
  values, which the compiler searches for location names.
\<close>

datatype json =
    JNull
  | JBool bool
  | JInt int
  | JFloat string
  | JStr string
  | JArr "json list"
  | JObj "(string \<times> json) list"

section \<open>Access\<close>

definition keys :: "(string \<times> json) list \<Rightarrow> string list" where
  "keys kvs = map fst kvs"

definition get :: "(string \<times> json) list \<Rightarrow> string \<Rightarrow> json option" where
  "get kvs k = map_of kvs k"

text \<open>\<^verbatim>\<open>d.get(k)\<close>: an absent key reads as \<^verbatim>\<open>None\<close>.\<close>

definition get_or_null :: "(string \<times> json) list \<Rightarrow> string \<Rightarrow> json" where
  "get_or_null kvs k = (case get kvs k of None \<Rightarrow> JNull | Some v \<Rightarrow> v)"

definition is_str :: "json \<Rightarrow> bool" where
  "is_str j = (case j of JStr _ \<Rightarrow> True | _ \<Rightarrow> False)"

definition is_bool :: "json \<Rightarrow> bool" where
  "is_bool j = (case j of JBool _ \<Rightarrow> True | _ \<Rightarrow> False)"

definition is_arr :: "json \<Rightarrow> bool" where
  "is_arr j = (case j of JArr _ \<Rightarrow> True | _ \<Rightarrow> False)"

definition is_obj :: "json \<Rightarrow> bool" where
  "is_obj j = (case j of JObj _ \<Rightarrow> True | _ \<Rightarrow> False)"

text \<open>\<^verbatim>\<open>isinstance(v, str) and v.strip()\<close>: a string with a character that is not whitespace.\<close>

definition nonblank :: "json \<Rightarrow> bool" where
  "nonblank j = (case j of JStr s \<Rightarrow> strip s \<noteq> [] | _ \<Rightarrow> False)"

lemma json_kind_simps [simp]:
  "is_str (JStr s)" "\<not> is_str (JArr a)" "\<not> is_str (JObj b)" "\<not> is_str (JBool c)" "\<not> is_str JNull"
  "is_bool (JBool c)" "\<not> is_bool (JStr s)" "\<not> is_bool JNull" "\<not> is_bool (JArr a)" "\<not> is_bool (JObj b)"
  "is_arr (JArr a)" "\<not> is_arr (JStr s)" "\<not> is_arr (JObj b)" "\<not> is_arr JNull" "\<not> is_arr (JBool c)"
  "is_obj (JObj b)" "\<not> is_obj (JStr s)" "\<not> is_obj (JArr a)" "\<not> is_obj JNull" "\<not> is_obj (JBool c)"
  "nonblank (JStr s) = (strip s \<noteq> [])" "\<not> nonblank JNull"
  by (simp_all add: is_str_def is_bool_def is_arr_def is_obj_def nonblank_def)

section \<open>Text of a value\<close>

fun dec_digits :: "nat \<Rightarrow> nat \<Rightarrow> string" where
  "dec_digits 0 n = []"
| "dec_digits (Suc fuel) n =
     (if n < 10 then [chr_c (48 + n)] else dec_digits fuel (n div 10) @ [chr_c (48 + n mod 10)])"

definition dec_nat :: "nat \<Rightarrow> string" where
  "dec_nat n = dec_digits (Suc n) n"

definition dec_int :: "int \<Rightarrow> string" where
  "dec_int i = (if i < 0 then ''-'' @ dec_nat (nat (- i)) else dec_nat (nat i))"

text \<open>\<^verbatim>\<open>repr\<close> of a string: its quotes, escapes and the unprintable code points below 256.\<close>

definition repr_char :: "char \<Rightarrow> char \<Rightarrow> string" where
  "repr_char q c =
     (let n = ord_c c in
      if c = q \<or> c = bslash then [bslash, c]
      else if n = 10 then [bslash, CHR ''n''] else if n = 13 then [bslash, CHR ''r'']
      else if n = 9 then [bslash, CHR ''t'']
      else if n < 32 \<or> (127 \<le> n \<and> n \<le> 160) \<or> n = 173
      then [bslash, CHR ''x'', hex_digit_lower (n div 16), hex_digit_lower (n mod 16)]
      else [c])"

definition repr_str :: "string \<Rightarrow> string" where
  "repr_str s =
     (let q = (if squote \<in> set s \<and> dquote \<notin> set s then dquote else squote)
      in [q] @ concat (map (repr_char q) s) @ [q])"

fun py_repr :: "json \<Rightarrow> string" where
  "py_repr JNull = ''None''"
| "py_repr (JBool b) = (if b then ''True'' else ''False'')"
| "py_repr (JInt i) = dec_int i"
| "py_repr (JFloat t) = t"
| "py_repr (JStr s) = repr_str s"
| "py_repr (JArr xs) = ''['' @ join '', '' (map py_repr xs) @ '']''"
| "py_repr (JObj kvs) = ''{'' @ join '', '' (map (\<lambda>(k, v). repr_str k @ '': '' @ py_repr v) kvs) @ ''}''"

definition py_str :: "json \<Rightarrow> string" where
  "py_str j = (case j of JStr s \<Rightarrow> s | _ \<Rightarrow> py_repr j)"

text \<open>Python's truth value of a JSON value.\<close>

definition truthy :: "json \<Rightarrow> bool" where
  "truthy j = (case j of
     JNull \<Rightarrow> False | JBool b \<Rightarrow> b | JInt i \<Rightarrow> i \<noteq> 0
   | JFloat t \<Rightarrow> t \<in> {''nan'', ''inf'', ''-inf''} \<or> (\<exists>c \<in> set (takeWhile (\<lambda>c. c \<noteq> CHR ''e'' \<and> c \<noteq> CHR ''E'') t). is_digit c \<and> c \<noteq> CHR ''0'')
   | JStr s \<Rightarrow> s \<noteq> [] | JArr xs \<Rightarrow> xs \<noteq> [] | JObj kvs \<Rightarrow> kvs \<noteq> [])"

end
