(* ===== verification/Conditions.thy ===== *)
theory Conditions
  imports RegexCorrect Json
begin

text \<open>
  From operators to Akamai conditions, in \<^verbatim>\<open>translation/modsec_akamai.py\<close>: the match of an
  operator, the compaction of the structured JNDI family, the transport encodings of values, the
  component table and the assembly of one condition.
\<close>

section \<open>Operator matches\<close>

record op_match =
  m_values :: "string list"
  m_wildcard :: bool
  m_case_insensitive :: bool
  m_lossy :: bool
  m_narrowed :: bool
  m_limitations :: "string list"
  m_transport_forms_explicit :: bool

text \<open>\<^verbatim>\<open>_Match(values, wildcard, case_insensitive, lossy)\<close> with the other fields at their defaults.\<close>

definition simple_match :: "string list \<Rightarrow> bool \<Rightarrow> bool \<Rightarrow> op_match" where
  "simple_match vs wc ci =
     \<lparr>m_values = vs, m_wildcard = wc, m_case_insensitive = ci, m_lossy = False, m_narrowed = False,
      m_limitations = [], m_transport_forms_explicit = False\<rparr>"

definition literal :: "string \<Rightarrow> string res" where
  "literal s = (if s = [] then raise ''empty operator argument'' else Inr s)"

subsection \<open>The structured JNDI grammar\<close>

definition JNDI_RAW_AUTHORITY :: string where
  "JNDI_RAW_AUTHORITY =
     ''(?:[A-Za-z0-9](?:[A-Za-z0-9-]{0,61}[A-Za-z0-9])?'' @
     ''(?:'' @ [bslash] @ ''.[A-Za-z0-9](?:[A-Za-z0-9-]{0,61}[A-Za-z0-9])?){0,10}'' @
     ''|(?:[0-9]{1,3}'' @ [bslash] @ ''.){3}[0-9]{1,3}|'' @ [bslash] @ ''[[0-9A-Fa-f:]{2,39}'' @ [bslash] @ ''])''"

definition JNDI_URL_AUTHORITY :: string where
  "JNDI_URL_AUTHORITY =
     ''(?:[A-Za-z0-9](?:[A-Za-z0-9-]{0,61}[A-Za-z0-9])?'' @
     ''(?:'' @ [bslash] @ ''.[A-Za-z0-9](?:[A-Za-z0-9-]{0,61}[A-Za-z0-9])?){0,10}'' @
     ''|(?:[0-9]{1,3}'' @ [bslash] @ ''.){3}[0-9]{1,3}|%5B(?:[0-9A-Fa-f]|%3A){2,39}%5D)''"

definition JNDI_HEX_ALNUM :: string where
  "JNDI_HEX_ALNUM = ''(?:3[0-9]|4[1-9A-F]|5[0-9A]|6[1-9A-F]|7[0-9A])''"

definition JNDI_HEX_RESOURCE_BYTE :: string where
  "JNDI_HEX_RESOURCE_BYTE =
     ''(?:0[0-8EeFf]|1[0-9A-Fa-f]|2[1345689A-Fa-f]|'' @
     ''3[0-9A-Ba-bDdFf]|[4-6][0-9A-Fa-f]|7[0-9A-Ca-cE-Ff]|'' @
     ''[89A-Fa-f][0-9A-Fa-f])''"

definition JNDI_RAW_BRANCH :: string where
  "JNDI_RAW_BRANCH =
     [bslash] @ ''$'' @ [bslash] @ ''{jndi:(?:ldap|rmi)://'' @ JNDI_RAW_AUTHORITY @
     ''(?::[0-9]{1,5})?/[^'' @ [bslash] @ ''s'' @ [dquote, squote] @ ''<>}]{0,512}'' @ [bslash] @ ''}''"

definition JNDI_URL_BRANCH :: string where
  "JNDI_URL_BRANCH =
     ''%24%7Bjndi%3A(?:ldap|rmi)%3A%2F%2F'' @ JNDI_URL_AUTHORITY @
     ''(?:%3A[0-9]{1,5})?%2F(?:[A-Za-z0-9._~-]|%'' @ JNDI_HEX_RESOURCE_BYTE @ ''){0,512}%7D''"

definition JNDI_HEX_BRANCH :: string where
  "JNDI_HEX_BRANCH =
     ''247b6a6e64693a(?:6c646170|726d69)3a2f2f(?:'' @ JNDI_HEX_ALNUM @ ''(?:(?:'' @ JNDI_HEX_ALNUM @
     ''|2[Dd]){0,61}'' @ JNDI_HEX_ALNUM @ '')?(?:2[Ee]'' @ JNDI_HEX_ALNUM @ ''(?:(?:'' @ JNDI_HEX_ALNUM @
     ''|2[Dd]){0,61}'' @ JNDI_HEX_ALNUM @ '')?){0,10}|(?:3[0-9]){1,3}(?:2[Ee](?:3[0-9]){1,3}){3}'' @
     ''|5[Bb](?:(?:3[0-9]|4[1-6]|6[1-6]|3[Aa])){2,39}5[Dd])'' @
     ''(?:3[Aa](?:3[0-9]){1,5})?2[Ff](?:'' @ JNDI_HEX_RESOURCE_BYTE @ ''){0,512}7d''"

subsection \<open>Top-level branches\<close>

text \<open>
  The loop of \<^verbatim>\<open>_top_level_group_branches\<close>: \<open>cur\<close> is the branch read so far, reversed,
  \<open>branches\<close> the finished ones.
\<close>

fun branch_loop :: "string \<Rightarrow> string \<Rightarrow> string list \<Rightarrow> nat \<Rightarrow> bool \<Rightarrow> bool \<Rightarrow> string list res" where
  "branch_loop [] cur branches depth in_class escaped =
     (if escaped \<or> in_class \<or> depth \<noteq> 0 then raise ''unbalanced structured JNDI regex''
      else (let branches = branches @ [rev cur] in
        if length branches \<noteq> 3 \<or> (\<exists>b \<in> set branches. b = [])
        then raise ''structured JNDI regex must have exactly three branches''
        else Inr branches))"
| "branch_loop (c # cs) cur branches depth in_class escaped =
     (if escaped then branch_loop cs (c # cur) branches depth in_class False
      else if c = bslash then branch_loop cs (c # cur) branches depth in_class True
      else if in_class then branch_loop cs (c # cur) branches depth (c \<noteq> CHR '']'') False
      else if c = CHR ''['' then branch_loop cs (c # cur) branches depth True False
      else if c = CHR ''('' then
        (if Suc depth > 16 then raise ''structured JNDI regex nesting is too deep''
         else branch_loop cs (c # cur) branches (Suc depth) False False)
      else if c = CHR '')'' then
        (if depth = 0 then raise ''unbalanced structured JNDI regex''
         else branch_loop cs (c # cur) branches (depth - 1) False False)
      else if c = CHR ''|'' \<and> depth = 0 then
        (if length branches + 1 > 3 then raise ''structured JNDI regex has too many branches''
         else branch_loop cs [] (branches @ [rev cur]) depth False False)
      else branch_loop cs (c # cur) branches depth False False)"

definition top_level_group_branches :: "string \<Rightarrow> string list res" where
  "top_level_group_branches source =
     (if length source > MAX_REGEX_LENGTH \<or> \<not> starts_with source ''(?:'' \<or> \<not> ends_with source '')''
      then raise ''structured JNDI regex must be one bounded noncapturing group''
      else branch_loop (drop 3 (butlast source)) [] [] 0 False False)"

subsection \<open>Carriers\<close>

definition carrier_char :: "char \<Rightarrow> bool" where
  "carrier_char c = (is_ascii_alnum c \<or> c \<in> set ''_.~-'')"

definition carrier_name :: "string \<Rightarrow> bool" where
  "carrier_name s = (s \<noteq> [] \<and> length s \<le> 64 \<and> list_all carrier_char s)"

text \<open>The pattern \<^verbatim>\<open>[A-Za-z0-9_.~-]{1,64}(?:=|%3[Dd])\<close>.\<close>

definition literal_carrier :: "string \<Rightarrow> bool" where
  "literal_carrier s =
     (let name = takeWhile carrier_char s; suffix = dropWhile carrier_char s
      in carrier_name name \<and> suffix \<in> set [''='', ''%3D'', ''%3d''])"

definition hex_carrier :: "string \<Rightarrow> bool" where
  "hex_carrier s = (list_all is_hex s \<and> even (length s) \<and> 4 \<le> length s \<and> length s \<le> 130)"

fun from_hex :: "string \<Rightarrow> nat list" where
  "from_hex (a # b # cs) = (16 * hex_val a + hex_val b) # from_hex cs"
| "from_hex _ = []"

definition validate_jndi_carrier :: "string \<Rightarrow> string \<Rightarrow> unit res" where
  "validate_jndi_carrier carrier representation =
     (if carrier = [] then Inr ()
      else if representation \<noteq> ''hex'' then
        (if literal_carrier carrier then Inr () else raise ''unsupported structured JNDI carrier'')
      else if \<not> hex_carrier carrier then raise ''unsupported hex structured JNDI carrier''
      else if \<exists>b \<in> set (from_hex carrier). b \<ge> 128 then raise ''invalid hex structured JNDI carrier''
      else (let decoded = map chr_c (from_hex carrier) in
        if ends_with decoded ''='' \<and> carrier_name (butlast decoded) then Inr ()
        else raise ''unsupported decoded hex structured JNDI carrier''))"

subsection \<open>Compaction\<close>

definition expected_branches :: "(string \<times> string) list" where
  "expected_branches = [(''raw'', JNDI_RAW_BRANCH), (''url'', JNDI_URL_BRANCH), (''hex'', JNDI_HEX_BRANCH)]"

text \<open>One branch: the only representation whose grammar ends it, and the carrier before that.\<close>

definition classify_branch :: "(string \<times> string) list \<Rightarrow> string \<Rightarrow> (string \<times> string) list res" where
  "classify_branch carriers branch =
     (case filter (\<lambda>(representation, body). ends_with branch body) expected_branches of
        [(representation, body)] \<Rightarrow>
          (if representation \<in> fst ` set carriers
           then raise ''duplicate structured JNDI representation branch''
           else (let carrier = take (length branch - length body) branch in
             bindR (validate_jndi_carrier carrier representation)
               (\<lambda>_. Inr (carriers @ [(representation, carrier)]))))
      | _ \<Rightarrow> raise ''unknown or mixed structured JNDI branch'')"

fun classify_branches :: "string list \<Rightarrow> (string \<times> string) list \<Rightarrow> (string \<times> string) list res" where
  "classify_branches [] carriers = Inr carriers"
| "classify_branches (b # bs) carriers = bindR (classify_branch carriers b) (classify_branches bs)"

definition carrier_of :: "(string \<times> string) list \<Rightarrow> string \<Rightarrow> string" where
  "carrier_of carriers representation = (case map_of carriers representation of Some c \<Rightarrow> c | None \<Rightarrow> [])"

definition jndi_values :: "(string \<times> string) list \<Rightarrow> string \<Rightarrow> string list" where
  "jndi_values carriers protocol =
     [''*'' @ carrier_of carriers ''raw'' @ ''${jndi:'' @ protocol @ ''://?*/*}*'',
      ''*'' @ carrier_of carriers ''url'' @ ''%24%7Bjndi%3A'' @ protocol @ ''%3A%2F%2F?*%2F*%7D*'',
      ''*'' @ carrier_of carriers ''hex'' @ ''247b6a6e64693a'' @ encode_hex protocol @ ''3a2f2f??*2f*7d*'']"

definition compact_limitations :: "string list" where
  "compact_limitations =
     [''The exact Defense Generation raw, percent-encoded, and UTF-8 hex '' @
      ''JNDI branches were compacted after bounded regex expansion exceeded '' @
      ''the Akamai value limit; representation framing, any validated '' @
      ''carrier prefix, and explicit ldap/rmi alternatives are preserved.'',
      ''The compacted Akamai wildcards require a nonempty authority but '' @
      ''broaden DG'' @ [squote] @ ''s hostname, IPv4, IPv6, port, resource-character, and '' @
      ''length grammar. Percent and hex wildcards do not enforce byte '' @
      ''validity. Operator review of collateral impact is required.'']"

definition compact_structured_jndi_regex :: "string \<Rightarrow> op_match res" where
  "compact_structured_jndi_regex source =
     bindR (top_level_group_branches source) (\<lambda>branches.
       bindR (classify_branches branches []) (\<lambda>carriers.
         if fst ` set carriers \<noteq> fst ` set expected_branches
         then raise ''structured JNDI regex requires raw, URL, and hex branches''
         else (let vs = unique_list (jndi_values carriers ''ldap'' @ jndi_values carriers ''rmi'') in
           if length vs > MAX_VALUES then raise ''compacted structured JNDI values exceed value limit''
           else Inr \<lparr>m_values = vs, m_wildcard = True, m_case_insensitive = False, m_lossy = True,
                     m_narrowed = False, m_limitations = compact_limitations,
                     m_transport_forms_explicit = True\<rparr>)))"

subsection \<open>Operators\<close>

definition rx_match :: "string \<Rightarrow> op_match res" where
  "rx_match arg =
     (case translate arg of
        Inr res \<Rightarrow> Inr \<lparr>m_values = r_values res, m_wildcard = r_wildcard res,
                        m_case_insensitive = r_case_insensitive res, m_lossy = r_lossy res,
                        m_narrowed = r_narrowed res, m_limitations = [],
                        m_transport_forms_explicit = False\<rparr>
      | Inl e \<Rightarrow> if e \<noteq> Unsupported ''regex expands to too many values'' then Inl e
                 else compact_structured_jndi_regex arg)"

definition list_match :: "string \<Rightarrow> string list \<Rightarrow> (string list \<Rightarrow> op_match res) \<Rightarrow> op_match res" where
  "list_match op items f =
     (let members = unique_list items in
      if members = [] then raise (''empty @'' @ op @ '' list'') else f members)"

definition operator_match :: "sec_rule \<Rightarrow> op_match res" where
  "operator_match rule =
     (let op = operator rule; arg = argument rule in
      if op = ''rx'' then rx_match arg
      else if op = ''contains'' then bindR (literal arg) (\<lambda>l. Inr (simple_match [''*'' @ l @ ''*''] True False))
      else if op = ''beginsWith'' then bindR (literal arg) (\<lambda>l. Inr (simple_match [l @ ''*''] True False))
      else if op = ''endsWith'' then bindR (literal arg) (\<lambda>l. Inr (simple_match [''*'' @ l] True False))
      else if op \<in> set [''streq'', ''eq''] then bindR (literal arg) (\<lambda>l. Inr (simple_match [l] False False))
      else if op = ''within'' then list_match op (split_ws arg) (\<lambda>ms. Inr (simple_match ms False False))
      else if op = ''pm'' then
        list_match op (split_ws arg) (\<lambda>ms.
          if length ms > MAX_VALUES then raise ''@pm list is too large''
          else Inr (simple_match (map (\<lambda>item. ''*'' @ item @ ''*'') ms) True True))
      else if op = ''ipMatch'' then
        list_match op (fields_by (\<lambda>c. c = CHR '','' \<or> is_space c) arg []) (\<lambda>ms. Inr (simple_match ms False False))
      else raise (''unsupported ModSecurity operator: @'' @ op))"

section \<open>Transport encodings\<close>

definition encoding_variants :: "string list \<Rightarrow> string list" where
  "encoding_variants vals =
     unique_list (concat (map (\<lambda>v. [v, quote v, quote_plus v, quote (quote v)]) vals))"

text \<open>The inner function \<^verbatim>\<open>matches\<close>: its escaped pattern is exactly a wildcard match.\<close>

definition matches :: "string \<Rightarrow> string \<Rightarrow> bool" where
  "matches pattern v = glob (=) pattern v"

definition core :: "string \<Rightarrow> string" where
  "core v = removesuffix (removeprefix v ''*'') ''*''"

definition wild :: "string \<Rightarrow> bool" where
  "wild v = (star_c \<in> set v \<or> qmark_c \<in> set v)"

definition subsumed :: "string list \<Rightarrow> string \<Rightarrow> bool" where
  "subsumed vals v =
     (\<exists>other \<in> set vals. other \<noteq> v \<and> (star_c \<in> set (core other) \<or> qmark_c \<in> set other) \<and> matches other (core v))"

definition remove_subsumed_literal_wildcards :: "string list \<Rightarrow> string list" where
  "remove_subsumed_literal_wildcards vals =
     unique_list (filter (\<lambda>v. wild (core v) \<or> \<not> subsumed vals v) vals)"

definition all_hex :: "string \<Rightarrow> bool" where
  "all_hex s = (s \<noteq> [] \<and> list_all is_hex s)"

definition is_generic :: "string \<Rightarrow> bool" where
  "is_generic v = (CHR ''%'' \<notin> set v \<and> \<not> all_hex (core v) \<and> (star_c \<in> set (core v) \<or> qmark_c \<in> set v))"

definition literal_cores :: "string list \<Rightarrow> string list" where
  "literal_cores vals =
     map core (filter (\<lambda>v. CHR ''%'' \<notin> set v \<and> \<not> all_hex (core v) \<and> \<not> wild (core v)) vals)"

text \<open>
  The matches of \<^verbatim>\<open>%((?:25)*)[0-9A-Fa-f]{2}\<close> found by \<^verbatim>\<open>re.finditer\<close>, each as half
  the length of its group plus one. The group gives back one \<^verbatim>\<open>25\<close> when no hexadecimal
  pair follows.
\<close>

fun count25 :: "string \<Rightarrow> nat" where
  "count25 (a # b # cs) = (if a = CHR ''2'' \<and> b = CHR ''5'' then Suc (count25 cs) else 0)"
| "count25 _ = 0"

definition hex_pair :: "string \<Rightarrow> bool" where
  "hex_pair s = (case s of a # b # _ \<Rightarrow> is_hex a \<and> is_hex b | _ \<Rightarrow> False)"

function percent_depths :: "string \<Rightarrow> nat list" where
  "percent_depths [] = []"
| "percent_depths (c # cs) =
     (if c \<noteq> CHR ''%'' then percent_depths cs
      else (let k = count25 cs; after = drop (2 * k) cs in
        if hex_pair after then Suc k # percent_depths (drop 2 after)
        else if k > 0 then k # percent_depths after
        else percent_depths cs))"
  by pat_completeness auto
termination by (relation "measure length") auto

definition depths_of :: "string list \<Rightarrow> nat list" where
  "depths_of vals = sort (remdups (concat (map percent_depths vals)))"

definition has_hex_form :: "string list \<Rightarrow> bool" where
  "has_hex_form vals = (\<exists>v \<in> set vals. even (length (core v)) \<and> 8 \<le> length (core v) \<and> all_hex (core v))"

fun transform_loop :: "(string \<Rightarrow> string) \<Rightarrow> string \<Rightarrow> string \<Rightarrow> string \<Rightarrow> string" where
  "transform_loop f one_wildcard [] lit = (if lit = [] then [] else f (rev lit))"
| "transform_loop f one_wildcard (c # cs) lit =
     (if c = star_c \<or> c = qmark_c
      then (if lit = [] then [] else f (rev lit)) @ (if c = qmark_c then one_wildcard else [c])
           @ transform_loop f one_wildcard cs []
      else transform_loop f one_wildcard cs (c # lit))"

definition transform_literals :: "(string \<Rightarrow> string) \<Rightarrow> string \<Rightarrow> string \<Rightarrow> string" where
  "transform_literals f one_wildcard v = transform_loop f one_wildcard v []"

fun quote_depth :: "string \<Rightarrow> nat \<Rightarrow> string" where
  "quote_depth v 0 = v"
| "quote_depth v (Suc n) = quote_depth (quote v) n"

definition transport_forms :: "string list \<Rightarrow> string \<Rightarrow> string list" where
  "transport_forms vals v =
     map (\<lambda>depth. transform_literals (\<lambda>l. quote_depth l depth) ''?'' v) (depths_of vals)
     @ (if has_hex_form vals then [transform_literals encode_hex ''??'' v] else [])"

definition generalize_wildcard_transport_forms :: "string list \<Rightarrow> string list" where
  "generalize_wildcard_transport_forms vals =
     (let generic = filter is_generic vals in
      if \<not> (\<exists>pattern \<in> set generic. \<exists>c \<in> set (literal_cores vals). matches pattern c) then vals
      else unique_list (vals @ concat (map (transport_forms vals) generic)))"

section \<open>Components\<close>

record component =
  condition_type :: string
  label :: string
  selector_key :: "string option"
  encodable :: bool
  literal_only :: bool
  coverage_note :: "string option"

definition ARGS_COVERAGE_NOTE :: string where
  "ARGS_COVERAGE_NOTE =
     ''ModSecurity ARGS covers query-string and request-body arguments; the '' @
     ''Akamai candidate matches POST body arguments only. Add an equivalent '' @
     ''uriQueryMatch condition if the endpoint also accepts this parameter in '' @
     ''the query string.''"

definition URI_COVERAGE_NOTE :: string where
  "URI_COVERAGE_NOTE =
     ''ModSecurity REQUEST_URI includes the query string; pathMatch inspects '' @
     ''the URI path only.''"

definition component_row :: "string \<Rightarrow> string \<Rightarrow> string option \<Rightarrow> bool \<Rightarrow> component" where
  "component_row ty lbl sel enc =
     \<lparr>condition_type = ty, label = lbl, selector_key = sel, encodable = enc,
      literal_only = False, coverage_note = None\<rparr>"

definition COMPONENTS :: "(string \<times> component) list" where
  "COMPONENTS =
     [(''ARGS'', (component_row ''argsPostMatch'' ''POST argument'' (Some ''parameter'') True)
                   \<lparr>coverage_note := Some ARGS_COVERAGE_NOTE\<rparr>),
      (''ARGS_POST'', component_row ''argsPostMatch'' ''POST argument'' (Some ''parameter'') True),
      (''ARGS_GET'', component_row ''uriQueryMatch'' ''query string'' None True),
      (''QUERY_STRING'', component_row ''uriQueryMatch'' ''query string'' None True),
      (''REQUEST_BODY'', component_row ''argsPostMatch'' ''request body'' None True),
      (''XML'', component_row ''argsPostXMLMatch'' ''XML request body'' None False),
      (''REQUEST_HEADERS'', component_row ''requestHeaderValueMatch'' ''request header'' (Some ''header'') False),
      (''REQUEST_URI'', (component_row ''pathMatch'' ''request path'' None True)
                          \<lparr>coverage_note := Some URI_COVERAGE_NOTE\<rparr>),
      (''REQUEST_URI_RAW'', (component_row ''pathMatch'' ''request path'' None True)
                          \<lparr>coverage_note := Some URI_COVERAGE_NOTE\<rparr>),
      (''REQUEST_FILENAME'', component_row ''pathMatch'' ''request path'' None True),
      (''REQUEST_COOKIES'', component_row ''cookieMatch'' ''cookie'' (Some ''name'') False),
      (''REQUEST_METHOD'', (component_row ''requestMethodMatch'' ''request method'' None False)\<lparr>literal_only := True\<rparr>),
      (''REMOTE_ADDR'', (component_row ''ipMatch'' ''client IP'' None False)\<lparr>literal_only := True\<rparr>)]"

definition ANY_HEADER_CONDITION :: string where
  "ANY_HEADER_CONDITION = ''requestHeaderMatch''"

definition BODY_CONDITIONS :: "string list" where
  "BODY_CONDITIONS = [''argsPostMatch'', ''argsPostJSONMatch'', ''argsPostXMLMatch'']"

section \<open>Condition assembly\<close>

text \<open>
  The condition dict: \<open>c_selector\<close> is its selector entry, when it has one, and \<open>c_match\<close>
  its \<^verbatim>\<open>valueCase\<close> and \<^verbatim>\<open>valueWildcard\<close> entries. \<open>condition_json\<close> is the dict with
  its keys in insertion order.
\<close>

record condition =
  c_type :: string
  c_positive :: bool
  c_selector :: "(string \<times> string) option"
  c_match :: "(bool \<times> bool) option"
  c_value :: "string list"

definition condition_json :: "condition \<Rightarrow> json" where
  "condition_json c = JObj
     ([(''type'', JStr (c_type c)), (''positiveMatch'', JBool (c_positive c))]
      @ (case c_selector c of None \<Rightarrow> [] | Some (k, s) \<Rightarrow> [(k, JStr s)])
      @ (case c_match c of None \<Rightarrow> []
         | Some (case_flag, wc) \<Rightarrow> [(''valueCase'', JBool case_flag), (''valueWildcard'', JBool wc)])
      @ [(''value'', JArr (map JStr (c_value c)))])"

record compiled_condition =
  cc_condition :: condition
  cc_notes :: "string list"
  cc_lossy :: bool
  cc_narrowed :: bool

definition condition_type_for :: "component \<Rightarrow> variable \<Rightarrow> string" where
  "condition_type_for row var =
     (if selector_key row = Some ''header'' \<and> selector var = None then ANY_HEADER_CONDITION
      else condition_type row)"

definition condition_values :: "component \<Rightarrow> variable \<Rightarrow> op_match \<Rightarrow> string list \<times> string list" where
  "condition_values row var m =
     (let notes = (case coverage_note row of None \<Rightarrow> [] | Some n \<Rightarrow> [n]) in
      if collection var = ''REQUEST_METHOD'' then (unique_list (map py_upper (m_values m)), notes)
      else if encodable row \<and> \<not> m_wildcard m then (encoding_variants (m_values m), notes)
      else if encodable row \<and> m_narrowed m then
        (m_values m, notes @ [''Transport encodings are enumerated at aligned depths: a '' @ label row @
           '' encoded uniformly is matched, but one whose characters were encoded to differing depths is not.''])
      else if encodable row \<and> \<not> m_transport_forms_explicit m then
        (m_values m, notes @ [''Only the decoded '' @ label row @ '' form is matched; transport '' @
           ''encodings are not enumerated because the match uses wildcards.''])
      else (m_values m, notes))"

definition wildcard_values :: "op_match \<Rightarrow> string list \<Rightarrow> string list res" where
  "wildcard_values m vals =
     (if m_wildcard m then
        (let vals = remove_subsumed_literal_wildcards (generalize_wildcard_transport_forms vals) in
         if length vals > MAX_VALUES then raise ''generalized wildcard transport forms exceed value limit''
         else Inr vals)
      else Inr vals)"

definition build_condition :: "variable \<Rightarrow> sec_rule \<Rightarrow> op_match \<Rightarrow> bool \<Rightarrow> compiled_condition res" where
  "build_condition var rule m case_sensitive =
     (case map_of COMPONENTS (collection var) of
        None \<Rightarrow> raise (''unsupported ModSecurity collection: '' @ collection var)
      | Some row \<Rightarrow>
          if literal_only row \<and> m_wildcard m then raise (label row @ '' conditions require literal values'')
          else if collection var = ''REMOTE_ADDR'' \<and> operator rule \<noteq> ''ipMatch''
          then raise ''client IP conditions require @ipMatch''
          else (case condition_values row var m of (vals, notes) \<Rightarrow>
            bindR (wildcard_values m vals) (\<lambda>vals.
              Inr \<lparr>cc_condition =
                     \<lparr>c_type = condition_type_for row var, c_positive = (\<not> negated rule),
                      c_selector = (case (selector_key row, selector var) of
                                      (Some k, Some s) \<Rightarrow> Some (k, s) | _ \<Rightarrow> None),
                      c_match = (if condition_type_for row var \<in> set [''requestMethodMatch'', ''ipMatch'']
                                 then None else Some (case_sensitive, m_wildcard m)),
                      c_value = vals\<rparr>,
                   cc_notes = notes, cc_lossy = m_lossy m, cc_narrowed = m_narrowed m\<rparr>)))"

end
