(* ===== verification/Compiler.thy ===== *)
theory Compiler
  imports Conditions
begin

text \<open>
  The compiler of \<^verbatim>\<open>translation/modsec_akamai.py\<close>: the requirements a bypass adds to the
  conditions, the compilation of a directive list into the custom-rule JSON with its label and
  notes, and the entry point that declines instead of raising. The models
  \<^verbatim>\<open>ProvenMitigationPattern\<close>, \<^verbatim>\<open>ProofLoopTranslationRequirements\<close>
  (\<^verbatim>\<open>contracts.py\<close>) and \<^verbatim>\<open>TranslationProposal\<close>
  (\<^verbatim>\<open>agents/translation_agent.py\<close>) are records.
\<close>

section \<open>Requests and proposals\<close>

record json_body_field_feature =
  field_path :: "string list"
  feature_value :: string
  value_match_mode :: string

record proven_pattern =
  proven_pattern_id :: string
  vulnerability_id :: string
  selected_control_class :: string
  discriminator_id :: string
  discriminator_description :: string
  pattern_summary :: string
  proof_record_ids :: "string list"
  json_body_feature :: "json_body_field_feature option"

record requirements =
  original_payload :: "string option"
  bypass_payload :: "string option"
  post_waf_canonical_forms :: "string list"
  effective_request :: "(string \<times> json) list option"
  mutation_location :: "(string \<times> json) list option"
  bypass_variant_or_encoding :: "string option"
  constraint_for_next_candidate :: "string option"

record proposal =
  candidate_content :: json
  translation_label :: string
  justification :: string
  translation_assumptions :: "string list"
  limitations :: "string list"
  answer_kind :: string

definition opt_list :: "'a option \<Rightarrow> 'a list" where
  "opt_list x = (case x of None \<Rightarrow> [] | Some a \<Rightarrow> [a])"

definition required_payloads :: "requirements \<Rightarrow> string list" where
  "required_payloads r =
     unique_list (filter (\<lambda>v. v \<noteq> [])
       (opt_list (original_payload r) @ opt_list (bypass_payload r) @ post_waf_canonical_forms r))"

definition request_path :: "requirements \<Rightarrow> string option" where
  "request_path r =
     (case effective_request r of
        None \<Rightarrow> None
      | Some kvs \<Rightarrow> (case get_or_null kvs ''path'' of
                       JStr p \<Rightarrow> if p = [] then None else Some p
                     | _ \<Rightarrow> None))"

section \<open>Bypass-driven requirements\<close>

definition required_condition_types :: "requirements \<Rightarrow> string list" where
  "required_condition_types r =
     (let location = py_lower (join '' '' (map (\<lambda>kv. py_str (snd kv))
                       (case mutation_location r of None \<Rightarrow> [] | Some kvs \<Rightarrow> kvs)))
      in if contains location ''header'' then [''requestHeaderValueMatch'']
         else if contains location ''query'' then [''uriQueryMatch'']
         else if contains location ''cookie'' then [''cookieMatch'']
         else if contains location ''path'' then [''pathMatch'']
         else BODY_CONDITIONS)"

text \<open>The first condition of a required type gets the payloads, in place.\<close>

fun merge_payloads :: "string list \<Rightarrow> string list \<Rightarrow> condition list \<Rightarrow> condition list res" where
  "merge_payloads types payloads [] =
     raise (''compiled rule has no condition for the component the bypass '' @ ''counterexample mutated'')"
| "merge_payloads types payloads (c # cs) =
     (if c_type c \<in> set types then
        (let vals = unique_list (c_value c @ payloads) in
         if length vals > MAX_VALUES
         then raise ''proof-loop requirements exceed the Akamai condition value limit''
         else Inr (c\<lparr>c_value := vals\<rparr> # cs))
      else bindR (merge_payloads types payloads cs) (\<lambda>cs'. Inr (c # cs')))"

definition path_condition :: "string \<Rightarrow> condition" where
  "path_condition p =
     \<lparr>c_type = ''pathMatch'', c_positive = True, c_selector = None, c_match = Some (False, False), c_value = [p]\<rparr>"

definition scope_to_path :: "requirements \<Rightarrow> condition list \<Rightarrow> condition list \<times> string list" where
  "scope_to_path r conds =
     (case request_path r of
        None \<Rightarrow> (conds, [])
      | Some p \<Rightarrow>
          if \<exists>c \<in> set conds. c_type c = ''pathMatch'' then (conds, [])
          else (conds @ [path_condition p], [''The rule is scoped to the authoritative proven request path.'']))"

definition apply_requirements :: "condition list \<Rightarrow> requirements \<Rightarrow> (condition list \<times> string list) res" where
  "apply_requirements conds r =
     (let payloads = filter (\<lambda>item. item \<noteq> []) (required_payloads r) in
      bindR (if payloads = [] then Inr (conds, [])
             else bindR (merge_payloads (required_condition_types r) payloads conds) (\<lambda>conds.
               Inr (conds, [''Proven bypass payload forms from Bypass Validation were added to '' @
                            ''the matching condition.''])))
        (\<lambda>(conds, notes). case scope_to_path r conds of (conds, extra) \<Rightarrow> Inr (conds, notes @ extra)))"

section \<open>Names and labels\<close>

definition variable_label :: "variable \<Rightarrow> string" where
  "variable_label var = (case selector var of Some s \<Rightarrow> collection var @ '':'' @ s | None \<Rightarrow> collection var)"

definition type_label :: "string \<Rightarrow> string" where
  "type_label ty = (case filter (\<lambda>row. condition_type (snd row) = ty) COMPONENTS of
     [] \<Rightarrow> ty | row # _ \<Rightarrow> label (snd row))"

definition condition_label :: "condition \<Rightarrow> string" where
  "condition_label c = type_label (c_type c)"

definition is_safe_tag :: "string \<Rightarrow> bool" where
  "is_safe_tag tag =
     (tag \<noteq> [] \<and> length tag \<le> 64 \<and> list_all (\<lambda>c. is_ascii_alnum c \<or> c \<in> set '' ._:/-'') tag)"

fun dash_runs :: "string \<Rightarrow> bool \<Rightarrow> string" where
  "dash_runs [] in_run = []"
| "dash_runs (c # cs) in_run =
     (if is_ascii_alnum c then c # dash_runs cs False
      else if in_run then dash_runs cs True
      else CHR ''-'' # dash_runs cs True)"

definition slug :: "string \<Rightarrow> string" where
  "slug text =
     (let cleaned = strip_by (\<lambda>c. c = CHR ''-'') (dash_runs text False)
      in if cleaned = [] then ''Rule'' else cleaned)"

definition rule_name :: "proven_pattern \<Rightarrow> variable \<Rightarrow> condition list \<Rightarrow> string" where
  "rule_name pattern var conds =
     ''JANUS-'' @ vulnerability_id pattern @ ''-'' @
     slug (case selector var of Some s \<Rightarrow> s | None \<Rightarrow> condition_label (hd conds))"

section \<open>Compilation\<close>

record compile_state =
  s_conditions :: "condition list"
  s_mappings :: "string list"
  s_notes :: "string list"
  s_lossy :: bool
  s_narrowed :: bool

definition SUPPORTED_TRANSFORMATIONS :: "string list" where
  "SUPPORTED_TRANSFORMATIONS =
     [''none'', ''lowercase'', ''urldecode'', ''urldecodeuni'', ''utf8tounicode'', ''removenulls'',
      ''compresswhitespace'', ''normalizepath'', ''htmlentitydecode'']"

fun compile_variables ::
  "sec_rule \<Rightarrow> op_match \<Rightarrow> bool \<Rightarrow> variable list \<Rightarrow> compile_state \<Rightarrow> compile_state res" where
  "compile_variables rule m case_sensitive [] s = Inr s"
| "compile_variables rule m case_sensitive (var # vars) s =
     bindR (build_condition var rule m case_sensitive) (\<lambda>compiled.
       compile_variables rule m case_sensitive vars
         \<lparr>s_conditions = s_conditions s @ [cc_condition compiled],
          s_mappings = s_mappings s @ [variable_label var @ '' @'' @ operator rule @ '' -> '' @
                                       c_type (cc_condition compiled)],
          s_notes = s_notes s @ cc_notes compiled,
          s_lossy = (s_lossy s \<or> cc_lossy compiled),
          s_narrowed = (s_narrowed s \<or> cc_narrowed compiled)\<rparr>)"

definition compile_rule :: "nat \<Rightarrow> sec_rule \<Rightarrow> compile_state \<Rightarrow> compile_state res" where
  "compile_rule rule_count rule s =
     bindR (operator_match rule) (\<lambda>m.
       (let s = s\<lparr>s_notes := s_notes s @ m_limitations m\<rparr>;
            case_sensitive = (\<not> (m_case_insensitive m \<or> ''lowercase'' \<in> set (transformations rule)))
        in if rule_count > 1 \<and> length (variables rule) > 1
           then raise (''a chained SecRule with alternative variables cannot be '' @
                       ''expressed under a single AND operation'')
           else bindR (compile_variables rule m case_sensitive (variables rule) s) (\<lambda>s.
             if transformations rule \<noteq> [] \<and> \<not> set (transformations rule) \<subseteq> set SUPPORTED_TRANSFORMATIONS
             then raise ''unsupported ModSecurity transformation''
             else Inr s)))"

fun compile_rules :: "nat \<Rightarrow> sec_rule list \<Rightarrow> compile_state \<Rightarrow> compile_state res" where
  "compile_rules rule_count [] s = Inr s"
| "compile_rules rule_count (r # rs) s = bindR (compile_rule rule_count r s) (compile_rules rule_count rs)"

definition initial_state :: compile_state where
  "initial_state = \<lparr>s_conditions = [], s_mappings = [], s_notes = [], s_lossy = False, s_narrowed = False\<rparr>"

text \<open>The rule body: name, description, operation, conditions and tags.\<close>

definition rule_operation :: "condition list \<Rightarrow> bool \<Rightarrow> string" where
  "rule_operation conds is_chain = (if length conds = 1 \<or> is_chain then ''AND'' else ''OR'')"

definition rule_description :: "proven_pattern \<Rightarrow> sec_rule list \<Rightarrow> condition list \<Rightarrow> string" where
  "rule_description pattern rules conds =
     (case concat (map (\<lambda>r. opt_list (message r)) rules) of
        m # _ \<Rightarrow> m
      | [] \<Rightarrow> ''Compiled from the proven ModSecurity rule for '' @ vulnerability_id pattern @ ''; matches '' @
              join '', '' (unique_list (map condition_label conds)) @ ''.'')"

definition rule_tags :: "proven_pattern \<Rightarrow> sec_rule list \<Rightarrow> string list" where
  "rule_tags pattern rules =
     unique_list ([''JANUS'', vulnerability_id pattern, ''modsec-derived'', ''virtual-patch''] @
       unique_list (filter is_safe_tag (concat (map tags rules))))"

definition rule_body :: "proven_pattern \<Rightarrow> sec_rule list \<Rightarrow> condition list \<Rightarrow> bool \<Rightarrow> json" where
  "rule_body pattern rules conds is_chain = JObj
     [(''name'', JStr (rule_name pattern (hd (variables (hd rules))) conds)),
      (''description'', JStr (rule_description pattern rules conds)),
      (''operation'', JStr (rule_operation conds is_chain)),
      (''conditions'', JArr (map condition_json conds)),
      (''tag'', JArr (map JStr (rule_tags pattern rules)))]"

definition compile_label :: "bool \<Rightarrow> bool \<Rightarrow> string" where
  "compile_label is_lossy is_narrowed = (if is_lossy then ''broader'' else if is_narrowed then ''narrower'' else ''equivalent'')"

definition COMPILE_ASSUMPTIONS :: "string list" where
  "COMPILE_ASSUMPTIONS =
     [''The proven ModSecurity rule in the upstream defense-generation '' @
      ''artifact is the authoritative source of the match semantics.'',
      ''Akamai evaluates the mapped condition types against the same request '' @
      ''components ModSecurity inspected.'',
      ''The custom-rule action is assigned at the security-policy binding; '' @
      ''recommended action: deny.'']"

definition compile_limitations :: "string list \<Rightarrow> bool \<Rightarrow> bool \<Rightarrow> string list" where
  "compile_limitations notes is_lossy is_narrowed =
     [''The candidate is shape-validated only and has not been executed in an '' @ ''Akamai tenant.'']
     @ unique_list notes
     @ (if is_lossy then
          [''Regex constructs without a wildcard equivalent were generalized, '' @
           ''so the candidate can match a broader set of requests than the '' @
           ''source rule. Operator review of collateral impact is required.''] else [])
     @ (if is_narrowed then
          [''The source rule enumerated recursive encodings of individual '' @
           ''characters. The candidate matches those encodings applied '' @
           ''uniformly, one value per depth, rather than every combination of '' @
           ''differing depths; a request mixing encoding depths within one '' @
           ''value would not match.''] else [])"

text \<open>The end of \<^verbatim>\<open>_compile\<close>: the checks and the proposal, once the rules are compiled.\<close>

definition finish_compile ::
  "proven_pattern \<Rightarrow> requirements option \<Rightarrow> sec_rule list \<Rightarrow> bool \<Rightarrow> compile_state \<Rightarrow> proposal res" where
  "finish_compile pattern reqs rules is_chain s =
     (if s_conditions s = [] then raise ''no conditions were produced''
      else bindR (case reqs of None \<Rightarrow> Inr (s_conditions s, []) | Some r \<Rightarrow> apply_requirements (s_conditions s) r)
        (\<lambda>(conds, extra).
           if s_lossy s \<and> s_narrowed s
           then raise (''translation both broadens regex constructs and narrows encoding coverage'')
           else Inr \<lparr>candidate_content = rule_body pattern rules conds is_chain,
                     translation_label = compile_label (s_lossy s) (s_narrowed s),
                     justification = ''Compiled the proven ModSecurity SecRule deterministically into '' @
                       ''Akamai custom-rule conditions: '' @ join ''; '' (s_mappings s) @ ''.'',
                     translation_assumptions = COMPILE_ASSUMPTIONS,
                     limitations = compile_limitations (s_notes s @ extra) (s_lossy s) (s_narrowed s),
                     answer_kind = ''construction''\<rparr>))"

definition compile :: "proven_pattern \<Rightarrow> requirements option \<Rightarrow> proposal option res" where
  "compile pattern reqs =
     (let directives = split_directives (pattern_summary pattern) in
      if directives = [] then Inr None
      else if length directives > MAX_RULES then raise ''too many SecRule directives''
      else bindR (mapR parse_secrule directives) (\<lambda>rules.
        (let is_chain = (\<exists>r \<in> set (butlast rules). chained r) in
         if length rules > 1 \<and> \<not> is_chain
         then raise ''independent SecRule directives do not compose into one custom rule''
         else bindR (compile_rules (length rules) rules initial_state) (\<lambda>s.
                bindR (finish_compile pattern reqs rules is_chain s) (\<lambda>p. Inr (Some p))))))"

definition compile_akamai_custom_rule :: "proven_pattern \<Rightarrow> requirements option \<Rightarrow> proposal option" where
  "compile_akamai_custom_rule pattern reqs = (case compile pattern reqs of Inr p \<Rightarrow> p | Inl e \<Rightarrow> None)"

text \<open>The pattern \<^verbatim>\<open>(?im)^\s*SecRule\s+\<close> searched in a text.\<close>

definition secrule_at :: "string \<Rightarrow> bool" where
  "secrule_at s =
     (let r = dropWhile is_space s in
      py_lower (take 7 r) = ''secrule'' \<and> (case drop 7 r of [] \<Rightarrow> False | c # _ \<Rightarrow> is_space c))"

fun search_lines :: "string \<Rightarrow> bool" where
  "search_lines [] = False"
| "search_lines (c # cs) = (c = CHR 0x0A \<and> secrule_at cs \<or> search_lines cs)"

definition has_authoritative_secrule :: "string \<Rightarrow> bool" where
  "has_authoritative_secrule text = (secrule_at text \<or> search_lines text)"

end
