(* ===== verification/ConditionFacts.thy ===== *)
theory ConditionFacts
  imports Conditions
begin

text \<open>
  What the operators and the transport encodings of \<^verbatim>\<open>Conditions\<close> mean for the subjects
  matched: the semantics of the literal operators, the values kept by the subsumption step, the
  derived transport forms and the bounds of a built condition.
\<close>

section \<open>Wildcard-free text\<close>

definition plain_text :: "string \<Rightarrow> bool" where
  "plain_text s = (star_c \<notin> set s \<and> qmark_c \<notin> set s)"

lemma glob_plain: "plain_text t \<Longrightarrow> glob eq t s \<longleftrightarrow> list_all2 eq t s"
  by (simp add: plain_text_def glob_literals)

lemma glob_plain_eq: "plain_text t \<Longrightarrow> glob (=) t s \<longleftrightarrow> t = s"
  by (simp add: glob_plain list.rel_eq)

lemma glob_around:
  "glob eq (''*'' @ t @ ''*'') s \<longleftrightarrow> (\<exists>l m r. s = l @ m @ r \<and> glob eq t m)"
  unfolding glob_append by auto

lemma glob_after: "glob eq (''*'' @ t) s \<longleftrightarrow> (\<exists>l m. s = l @ m \<and> glob eq t m)"
  unfolding glob_append by auto

lemma glob_before: "glob eq (t @ ''*'') s \<longleftrightarrow> (\<exists>m r. s = m @ r \<and> glob eq t m)"
  unfolding glob_append by auto

text \<open>A pattern that matches a text exactly matches every text related to it character by character.\<close>

lemma glob_eq_transfer: "glob (=) p c \<Longrightarrow> list_all2 eq c s \<Longrightarrow> glob eq p s"
proof (induction p arbitrary: c s)
  case Nil
  then show ?case by simp
next
  case (Cons x p)
  show ?case
  proof (cases "x = star_c")
    case True
    with Cons.prems(1) obtain a b where c: "c = a @ b" "glob (=) p b" unfolding True glob_any_run by blast
    with Cons.prems(2) obtain a' b' where "s = a' @ b'" "list_all2 eq b b'"
      by (auto simp: list_all2_append1)
    with Cons.IH [OF c(2)] show ?thesis unfolding True glob_any_run by blast
  next
    case False
    with Cons.prems(1) obtain y ys where c: "c = y # ys" "x = qmark_c \<or> x = y" "glob (=) p ys"
      unfolding glob_character [OF False] by blast
    with Cons.prems(2) obtain z zs where "s = z # zs" "eq y z" "list_all2 eq ys zs"
      by (auto simp: list_all2_Cons1)
    with c Cons.IH [OF c(3)] show ?thesis unfolding glob_character [OF False] by blast
  qed
qed

section \<open>Literal operators\<close>

definition with_operator :: "string \<Rightarrow> string \<Rightarrow> sec_rule" where
  "with_operator op arg =
     \<lparr>variables = [], negated = False, operator = op, argument = arg, transformations = [],
      message = None, tags = [], chained = False\<rparr>"

definition op_matches :: "op_match \<Rightarrow> string \<Rightarrow> bool" where
  "op_matches m s \<longleftrightarrow> (\<exists>v \<in> set (m_values m). value_match (char_eq (m_case_insensitive m)) (m_wildcard m) v s)"

lemma char_eq_False [simp]: "char_eq False = (=)"
  by (intro ext) (simp add: char_eq_def)

text \<open>The subjects each literal operator selects.\<close>

definition op_selects :: "string \<Rightarrow> string \<Rightarrow> string \<Rightarrow> bool" where
  "op_selects op arg s \<longleftrightarrow>
     (if op = ''contains'' then (\<exists>l r. s = l @ arg @ r)
      else if op = ''beginsWith'' then (\<exists>r. s = arg @ r)
      else if op = ''endsWith'' then (\<exists>l. s = l @ arg)
      else if op \<in> set [''streq'', ''eq''] then s = arg
      else if op = ''within'' then s \<in> set (split_ws arg)
      else if op = ''pm'' then (\<exists>w \<in> set (split_ws arg). \<exists>l m r. s = l @ m @ r \<and> list_all2 (char_eq True) w m)
      else s \<in> set (fields_by (\<lambda>c. c = CHR '','' \<or> is_space c) arg []))"

definition LITERAL_OPERATORS :: "string list" where
  "LITERAL_OPERATORS = [''contains'', ''beginsWith'', ''endsWith'', ''streq'', ''eq'', ''within'', ''pm'', ''ipMatch'']"

lemma fields_plain: "plain_text s \<Longrightarrow> plain_text cur \<Longrightarrow> w \<in> set (fields_by P s cur) \<Longrightarrow> plain_text w"
  by (induction P s cur rule: fields_by.induct) (auto simp: plain_text_def split: if_splits)

lemma list_match_Inr:
  "list_match op items f = Inr m \<longleftrightarrow> items \<noteq> [] \<and> f (unique_list items) = Inr m"
  by (auto simp: list_match_def Let_def)

lemma literal_Inr: "literal s = Inr l \<longleftrightarrow> s \<noteq> [] \<and> l = s"
  by (auto simp: literal_def)

lemma simple_match_matches:
  "op_matches (simple_match vs wc ci) s \<longleftrightarrow> (\<exists>v \<in> set vs. value_match (char_eq ci) wc v s)"
  by (simp add: op_matches_def simple_match_def)

lemma operator_match_selects:
  assumes m: "operator_match rule = Inr m" and op: "operator rule \<in> set LITERAL_OPERATORS"
    and plain: "plain_text (argument rule)"
  shows "op_matches m s \<longleftrightarrow> op_selects (operator rule) (argument rule) s"
proof -
  let ?a = "argument rule"
  from op consider "operator rule = ''contains''" | "operator rule = ''beginsWith''" | "operator rule = ''endsWith''"
    | "operator rule \<in> set [''streq'', ''eq'']" | "operator rule = ''within''" | "operator rule = ''pm''"
    | "operator rule = ''ipMatch''" unfolding LITERAL_OPERATORS_def by auto
  then show ?thesis
  proof cases
    case 1
    with m have "m = simple_match [''*'' @ ?a @ ''*''] True False"
      by (auto simp: operator_match_def bindR_eq_Inr literal_Inr)
    with 1 plain show ?thesis
      unfolding op_selects_def by (simp add: simple_match_matches value_match_def glob_around glob_plain_eq del: append_Cons)
  next
    case 2
    with m have "m = simple_match [?a @ ''*''] True False"
      by (auto simp: operator_match_def bindR_eq_Inr literal_Inr)
    with 2 plain show ?thesis
      unfolding op_selects_def by (simp add: simple_match_matches value_match_def glob_before glob_plain_eq)
  next
    case 3
    with m have "m = simple_match [''*'' @ ?a] True False"
      by (auto simp: operator_match_def bindR_eq_Inr literal_Inr)
    with 3 plain show ?thesis
      unfolding op_selects_def by (simp add: simple_match_matches value_match_def glob_after glob_plain_eq del: append_Cons)
  next
    case 4
    with m have "m = simple_match [?a] False False"
      by (auto simp: operator_match_def bindR_eq_Inr literal_Inr)
    with 4 show ?thesis
      unfolding op_selects_def by (auto simp: simple_match_matches value_match_def list.rel_eq)
  next
    case 5
    with m have "m = simple_match (unique_list (split_ws ?a)) False False"
      by (simp add: operator_match_def list_match_Inr)
    with 5 show ?thesis
      unfolding op_selects_def by (auto simp: simple_match_matches value_match_def list.rel_eq)
  next
    case 6
    with m have eq: "m = simple_match (map (\<lambda>item. ''*'' @ item @ ''*'') (unique_list (split_ws ?a))) True True"
      by (simp add: operator_match_def list_match_Inr split: if_splits)
    have "plain_text w" if "w \<in> set (split_ws ?a)" for w
      using fields_plain [OF plain _ that [unfolded split_ws_def]] by (simp add: plain_text_def)
    then have "glob (char_eq True) (''*'' @ w @ ''*'') s \<longleftrightarrow> (\<exists>l m r. s = l @ m @ r \<and> list_all2 (char_eq True) w m)"
      if "w \<in> set (split_ws ?a)" for w
      using that unfolding glob_around by (simp add: glob_plain)
    with 6 eq show ?thesis
      unfolding op_selects_def by (simp add: simple_match_matches value_match_def del: append_Cons)
  next
    case 7
    with m have "m = simple_match (unique_list (fields_by (\<lambda>c. c = CHR '','' \<or> is_space c) ?a [])) False False"
      by (simp add: operator_match_def list_match_Inr)
    with 7 show ?thesis
      unfolding op_selects_def by (auto simp: simple_match_matches value_match_def list.rel_eq)
  qed
qed

section \<open>Subsumed literal values\<close>

text \<open>A value that may start and end anywhere in the subject.\<close>

definition floating :: "string \<Rightarrow> bool" where
  "floating v = (starts_with v ''*'' \<and> ends_with v ''*'')"

lemma starts_with_single: "starts_with s [c] \<longleftrightarrow> (\<exists>t. s = c # t)"
  by (cases s) auto

lemma ends_with_single: "ends_with s [c] \<longleftrightarrow> (\<exists>t. s = t @ [c])"
  unfolding ends_with_def by (simp add: starts_with_single) (metis rev.simps(2) rev_rev_ident)

lemma floating_cases: "floating v \<Longrightarrow> v = ''*'' \<or> (\<exists>w. v = ''*'' @ w @ ''*'')"
  unfolding floating_def starts_with_single ends_with_single
  by (metis append_Cons append_Nil append_eq_Cons_conv list.inject)

lemma core_around [simp]: "core (CHR ''*'' # w @ ''*'') = w"
  by (simp add: core_def removeprefix_def removesuffix_def ends_with_def)

lemma core_star [simp]: "core ''*'' = []"
  by (simp add: core_def removeprefix_def removesuffix_def ends_with_def)

lemma core_cases:
  obtains "v = core v" | "v = ''*'' @ core v" | "v = core v @ ''*''" | "v = ''*'' @ core v @ ''*''"
proof -
  have "v = removeprefix v ''*'' \<or> v = ''*'' @ removeprefix v ''*''" for v
    by (auto simp: removeprefix_def starts_with_single)
  moreover have "v = removesuffix v ''*'' \<or> v = removesuffix v ''*'' @ ''*''" for v
    by (auto simp: removesuffix_def ends_with_single)
  ultimately show thesis using that unfolding core_def by (metis append_assoc)
qed

lemma qmark_core: "qmark_c \<in> set v \<Longrightarrow> qmark_c \<in> set (core v)"
proof -
  assume q: "qmark_c \<in> set v"
  have "qmark_c \<in> set v \<longleftrightarrow> qmark_c \<in> set (core v)"
  proof (rule core_cases [of v])
    assume v: "v = core v"
    show ?thesis by (subst v) simp
  next
    assume v: "v = ''*'' @ core v"
    show ?thesis by (subst v) simp
  next
    assume v: "v = core v @ ''*''"
    show ?thesis by (subst v) simp
  next
    assume v: "v = ''*'' @ core v @ ''*''"
    show ?thesis by (subst v) simp
  qed
  with q show ?thesis by simp
qed

lemma glob_floating:
  assumes f: "floating p" and g: "glob (=) p c" and m: "list_all2 eq c m"
  shows "glob eq p (x @ m @ y)"
  using floating_cases [OF f]
proof
  assume "p = ''*''"
  then show ?thesis by simp
next
  assume "\<exists>w. p = ''*'' @ w @ ''*''"
  then obtain w where p: "p = ''*'' @ w @ ''*''" by blast
  from glob_eq_transfer [OF g m] obtain l k r where "m = l @ k @ r" "glob eq w k"
    unfolding p glob_around by blast
  then have "x @ m @ y = (x @ l) @ k @ (r @ y)" "glob eq w k" by simp_all
  then show ?thesis unfolding p glob_around by blast
qed

lemma remove_subsumed_keeps:
  assumes fl: "\<forall>v \<in> set vals. floating v" and v: "v \<in> set vals" and g: "glob eq v s"
  shows "\<exists>w \<in> set (remove_subsumed_literal_wildcards vals). glob eq w s"
proof (cases "wild (core v) \<or> \<not> subsumed vals v")
  case True
  with v g show ?thesis by (auto simp: remove_subsumed_literal_wildcards_def)
next
  case False
  then obtain w where w: "w \<in> set vals" "star_c \<in> set (core w) \<or> qmark_c \<in> set w" "glob (=) w (core v)"
    and plain: "plain_text (core v)"
    by (auto simp: subsumed_def matches_def wild_def plain_text_def)
  have "wild (core w)" using w(2) qmark_core by (auto simp: wild_def)
  then have kept: "w \<in> set (remove_subsumed_literal_wildcards vals)"
    using w(1) by (simp add: remove_subsumed_literal_wildcards_def)
  have "\<exists>x m y. s = x @ m @ y \<and> list_all2 eq (core v) m"
    using floating_cases [of v, OF bspec [OF fl v]]
  proof (elim disjE exE)
    assume "v = ''*''"
    then show ?thesis by (intro exI [of _ s] exI [of _ "[]"]) simp
  next
    fix c assume c: "v = ''*'' @ c @ ''*''"
    then have "core v = c" by simp
    with g plain c show ?thesis unfolding c glob_around by (auto simp: glob_plain)
  qed
  with glob_floating [OF _ w(3), of eq] fl w(1) kept show ?thesis by blast
qed

section \<open>Derived transport forms\<close>

lemma transform_loop_hom:
  assumes hom: "\<And>a b. f (a @ b) = f a @ f b" and nil: "f [] = []"
  shows "transform_loop f ow cs lit =
    f (rev lit) @ concat (map (\<lambda>c. if c = star_c then ''*'' else if c = qmark_c then ow else f [c]) cs)"
  by (induction cs arbitrary: lit) (auto simp: hom nil)

lemma transform_literals_hom:
  assumes "\<And>a b. f (a @ b) = f a @ f b" "f [] = []"
  shows "transform_literals f ow v =
    concat (map (\<lambda>c. if c = star_c then ''*'' else if c = qmark_c then ow else f [c]) v)"
  unfolding transform_literals_def transform_loop_hom [of f, OF assms] using assms(2) by simp

text \<open>
  If every literal character maps to plain text and every character that a \<^verbatim>\<open>?\<close> stands for
  maps to a match of its replacement, the transformed pattern matches the transformed subject.
\<close>

lemma glob_transform:
  assumes hom: "\<And>a b. f (a @ b) = f a @ f b" and nil: "f [] = []"
    and plain: "\<And>c. c \<noteq> star_c \<Longrightarrow> c \<noteq> qmark_c \<Longrightarrow> plain_text (f [c])"
    and one: "\<And>c. qmark_c \<in> set p \<Longrightarrow> c \<in> set s \<Longrightarrow> glob (=) ow (f [c])"
    and g: "glob (=) p s"
  shows "glob (=) (transform_literals f ow p) (f s)"
  using one g unfolding transform_literals_hom [of f, OF hom nil]
proof (induction p arbitrary: s)
  case Nil
  then show ?case by (simp add: nil)
next
  case (Cons x p)
  let ?h = "\<lambda>c. if c = star_c then ''*'' else if c = qmark_c then ow else f [c]"
  show ?case
  proof (cases "x = star_c")
    case True
    with Cons.prems(2) obtain a b where s: "s = a @ b" "glob (=) p b" unfolding True glob_any_run by blast
    then have "glob (=) (concat (map ?h p)) (f b)" using Cons.IH [of b] Cons.prems(1) by auto
    with s(1) True show ?thesis by (auto simp: hom glob_any_run)
  next
    case False
    with Cons.prems(2) obtain y ys where s: "s = y # ys" "x = qmark_c \<or> x = y" "glob (=) p ys"
      unfolding glob_character [OF False] by blast
    then have rest: "glob (=) (concat (map ?h p)) (f ys)" using Cons.IH [of ys] Cons.prems(1) by auto
    have "glob (=) (?h x) (f [y])"
    proof (cases "x = qmark_c")
      case True
      with Cons.prems(1) [of y] s(1) show ?thesis by auto
    next
      case nq: False
      with s(2) False plain [of x] show ?thesis by (auto simp: glob_plain_eq)
    qed
    moreover have "f s = f [y] @ f ys" using hom [of "[y]" ys] s(1) by simp
    ultimately have "f s = f [y] @ f ys \<and> glob (=) (?h x) (f [y]) \<and> glob (=) (concat (map ?h p)) (f ys)"
      using rest by blast
    then show ?thesis unfolding list.map concat.simps glob_append by blast
  qed
qed

lemma quote_append: "quote (a @ b) = quote a @ quote b"
  by (simp add: quote_def)

lemma quote_depth_append: "quote_depth (a @ b) d = quote_depth a d @ quote_depth b d"
  by (induction d arbitrary: a b) (auto simp: quote_append)

lemma quote_depth_Nil: "quote_depth [] d = []"
  by (induction d) (auto simp: quote_def)

lemma encode_hex_append: "encode_hex (a @ b) = encode_hex a @ encode_hex b"
  by (simp add: encode_hex_def)

lemma ord_star: "ord_c star_c = 42" "ord_c qmark_c = 63"
  by (simp_all add: ord_c_def)

lemma hex_digit_plain:
  assumes "n < 16"
  shows "hex_digit_upper n \<noteq> star_c" "hex_digit_upper n \<noteq> qmark_c"
    "hex_digit_lower n \<noteq> star_c" "hex_digit_lower n \<noteq> qmark_c"
proof -
  have "ord_c (hex_digit_upper n) = (if n < 10 then n + 48 else n + 55)"
    "ord_c (hex_digit_lower n) = (if n < 10 then n + 48 else n + 87)"
    using assms by (auto simp: hex_digit_upper_def hex_digit_lower_def ord_chr)
  then show "hex_digit_upper n \<noteq> star_c" "hex_digit_upper n \<noteq> qmark_c"
    "hex_digit_lower n \<noteq> star_c" "hex_digit_lower n \<noteq> qmark_c"
    using ord_star assms by (auto split: if_splits)
qed

lemma utf8_bytes_bound: "b \<in> set (utf8_bytes c) \<Longrightarrow> b < 256"
  using ord_c_less [of c] by (auto simp: utf8_bytes_def Let_def split: if_splits)

lemma byte_digits: "b < 256 \<Longrightarrow> b div 16 < 16" "(b :: nat) mod 16 < 16"
  by auto

lemma pct_plain: "b < 256 \<Longrightarrow> plain_text (pct_byte b)"
  using hex_digit_plain [OF byte_digits(1)] hex_digit_plain [OF byte_digits(2)]
  by (simp add: pct_byte_def plain_text_def) metis

lemma quote_c_plain: "plain_text (quote_c c)"
proof (cases "quote_safe c")
  case True
  then have "c \<noteq> star_c" "c \<noteq> qmark_c"
    by (auto simp: quote_safe_def is_ascii_alnum_def is_ascii_alpha_def is_digit_def ord_star)
  with True show ?thesis by (auto simp: quote_c_def plain_text_def)
next
  case False
  then show ?thesis
    using pct_plain utf8_bytes_bound [of _ c] by (auto simp: quote_c_def plain_text_def)
qed

lemma quote_plain: "plain_text (quote s)"
  using quote_c_plain by (induction s) (auto simp: quote_def plain_text_def)

lemma quote_depth_plain: "plain_text s \<Longrightarrow> plain_text (quote_depth s d)"
  by (induction d arbitrary: s) (auto simp: quote_plain)

lemma encode_hex_plain: "plain_text (encode_hex s)"
proof -
  have "plain_text (hex_of_byte b)" if "b < 256" for b
    using that hex_digit_plain [OF byte_digits(1)] hex_digit_plain [OF byte_digits(2)]
    by (simp add: hex_of_byte_def plain_text_def) metis
  then show ?thesis using utf8_bytes_bound by (fastforce simp: encode_hex_def plain_text_def)
qed

lemma encode_hex_ascii: "ord_c c < 128 \<Longrightarrow> \<exists>x y. encode_hex [c] = [x, y]"
  by (simp add: encode_hex_def utf8_bytes_def hex_of_byte_def)

lemma glob_percent_form:
  assumes "glob (=) p s" "qmark_c \<notin> set p"
  shows "glob (=) (transform_literals (\<lambda>l. quote_depth l d) ''?'' p) (quote_depth s d)"
  using assms by (intro glob_transform [where f = "\<lambda>l. quote_depth l d"])
    (auto simp: quote_depth_append quote_depth_Nil quote_depth_plain plain_text_def
      intro!: quote_depth_plain [unfolded plain_text_def])

lemma glob_hex_form:
  assumes "glob (=) p s" "\<forall>c \<in> set s. ord_c c < 128"
  shows "glob (=) (transform_literals encode_hex ''??'' p) (encode_hex s)"
proof (rule glob_transform [where f = encode_hex])
  fix c assume "c \<in> set s"
  then obtain x y where "encode_hex [c] = [x, y]" using encode_hex_ascii assms(2) by blast
  then show "glob (=) ''??'' (encode_hex [c])" by (simp add: glob_character)
qed (use assms in \<open>auto simp: encode_hex_append encode_hex_plain\<close>, simp add: encode_hex_def)

lemma generalize_extends: "set vals \<subseteq> set (generalize_wildcard_transport_forms vals)"
  by (auto simp: generalize_wildcard_transport_forms_def Let_def)

lemma generalize_forms:
  assumes "\<exists>pattern \<in> set (filter is_generic vals). \<exists>c \<in> set (literal_cores vals). matches pattern c"
    and "v \<in> set vals" "is_generic v"
  shows "set (transport_forms vals v) \<subseteq> set (generalize_wildcard_transport_forms vals)"
  using assms by (auto simp: generalize_wildcard_transport_forms_def Let_def)

section \<open>Well-formed values\<close>

definition wf_values :: "string list \<Rightarrow> bool" where
  "wf_values vs = (vs \<noteq> [] \<and> [] \<notin> set vs)"

lemma wf_unique [simp]: "wf_values (unique_list vs) = wf_values vs"
  by (simp add: wf_values_def)

lemma fields_nonempty: "w \<in> set (fields_by P s cur) \<Longrightarrow> w \<noteq> []"
  by (induction P s cur rule: fields_by.induct) (auto split: if_splits)

lemma translate_wf: "translate source = Inr res \<Longrightarrow> wf_values (r_values res)"
  by (erule translate_InrE) (simp add: wf_values_def)

lemma jndi_values_nonempty: "[] \<notin> set (jndi_values carriers protocol)" "jndi_values carriers protocol \<noteq> []"
  by (auto simp: jndi_values_def)

lemma compact_wf: "compact_structured_jndi_regex source = Inr m \<Longrightarrow> wf_values (m_values m)"
  using jndi_values_nonempty
  by (auto simp: compact_structured_jndi_regex_def bindR_eq_Inr Let_def wf_values_def split: if_splits)

lemma rx_match_wf: "rx_match arg = Inr m \<Longrightarrow> wf_values (m_values m)"
  using translate_wf compact_wf by (auto simp: rx_match_def split: sum.splits if_splits)

lemma operator_match_wf: "operator_match rule = Inr m \<Longrightarrow> wf_values (m_values m)"
  using rx_match_wf [of "argument rule" m]
  by (auto simp: operator_match_def Let_def bindR_eq_Inr literal_Inr list_match_Inr simple_match_def
      split_ws_def wf_values_def dest: fields_nonempty split: if_splits)

lemma quote_c_nonempty: "quote_c c \<noteq> []"
  by (auto simp: quote_c_def utf8_bytes_def pct_byte_def Let_def)

lemma quote_nonempty: "s \<noteq> [] \<Longrightarrow> quote s \<noteq> []"
  by (cases s) (auto simp: quote_def quote_c_nonempty)

lemma quote_plus_nonempty: "s \<noteq> [] \<Longrightarrow> quote_plus s \<noteq> []"
  by (cases s) (auto simp: quote_plus_def quote_c_nonempty)

lemma quote_depth_nonempty: "s \<noteq> [] \<Longrightarrow> quote_depth s d \<noteq> []"
  by (induction d arbitrary: s) (auto simp: quote_nonempty)

lemma encode_hex_nonempty: "s \<noteq> [] \<Longrightarrow> encode_hex s \<noteq> []"
  by (cases s) (auto simp: encode_hex_def utf8_bytes_def hex_of_byte_def Let_def)

lemma py_upper_nonempty: "s \<noteq> [] \<Longrightarrow> py_upper s \<noteq> []"
  by (cases s) (auto simp: py_upper_def upper_c_def Let_def)

lemma encoded_Nil_iff:
  "quote s = [] \<longleftrightarrow> s = []" "quote_plus s = [] \<longleftrightarrow> s = []" "py_upper s = [] \<longleftrightarrow> s = []"
  "[] = quote s \<longleftrightarrow> s = []" "[] = quote_plus s \<longleftrightarrow> s = []" "[] = py_upper s \<longleftrightarrow> s = []"
  using quote_nonempty [of s] quote_plus_nonempty [of s] py_upper_nonempty [of s]
  by (auto simp: quote_def quote_plus_def py_upper_def)

lemma encoding_variants_wf: "wf_values vs \<Longrightarrow> wf_values (encoding_variants vs)"
  unfolding encoding_variants_def wf_unique wf_values_def by (cases vs) (auto simp: encoded_Nil_iff)

lemma transform_nonempty:
  assumes "\<And>a b. f (a @ b) = f a @ f b" "f [] = []" "\<And>c. f [c] \<noteq> []" "ow \<noteq> []" "v \<noteq> []"
  shows "transform_literals f ow v \<noteq> []"
  using assms(3-5) unfolding transform_literals_hom [of f, OF assms(1,2)] by (cases v) auto

lemma transport_forms_nonempty: "v \<noteq> [] \<Longrightarrow> [] \<notin> set (transport_forms vals v)"
proof -
  assume v: "v \<noteq> []"
  have "transform_literals (\<lambda>l. quote_depth l d) ''?'' v \<noteq> []" for d
    by (rule transform_nonempty) (simp_all add: quote_depth_append quote_depth_Nil quote_depth_nonempty v)
  moreover have "transform_literals encode_hex ''??'' v \<noteq> []"
    by (rule transform_nonempty) (simp_all add: encode_hex_append encode_hex_nonempty v, simp add: encode_hex_def)
  ultimately show ?thesis by (auto simp: transport_forms_def dest: sym)
qed

lemma generalize_wf: "wf_values vs \<Longrightarrow> wf_values (generalize_wildcard_transport_forms vs)"
proof -
  assume wf: "wf_values vs"
  then have "[] \<notin> set (transport_forms vs v)" if "v \<in> set vs" for v
    using that transport_forms_nonempty [of v vs] by (auto simp: wf_values_def)
  with wf show ?thesis by (auto simp: generalize_wildcard_transport_forms_def Let_def wf_values_def)
qed

lemma remove_subsumed_wf:
  assumes "wf_values vs" shows "wf_values (remove_subsumed_literal_wildcards vs)"
proof -
  from assms obtain v where v: "v \<in> set vs" by (cases vs) (auto simp: wf_values_def)
  have "\<exists>w \<in> set vs. wild (core w) \<or> \<not> subsumed vs w"
  proof (cases "subsumed vs v")
    case True
    then obtain w where "w \<in> set vs" "star_c \<in> set (core w) \<or> qmark_c \<in> set w" by (auto simp: subsumed_def)
    then show ?thesis using qmark_core by (auto simp: wild_def)
  qed (use v in blast)
  with assms show ?thesis
    by (auto simp: remove_subsumed_literal_wildcards_def wf_values_def filter_empty_conv)
qed

lemma condition_values_wf: "wf_values (m_values m) \<Longrightarrow> condition_values row var m = (vs, nts) \<Longrightarrow> wf_values vs"
  using encoding_variants_wf [of "m_values m"]
  by (auto simp: condition_values_def Let_def wf_values_def encoded_Nil_iff split: if_splits)

lemma wildcard_values_wf:
  "wf_values vs \<Longrightarrow> wildcard_values m vs = Inr ws \<Longrightarrow>
   wf_values ws \<and> (m_wildcard m \<longrightarrow> length ws \<le> MAX_VALUES)"
  using remove_subsumed_wf [OF generalize_wf, of vs]
  by (auto simp: wildcard_values_def Let_def split: if_splits)

text \<open>Everything a built condition satisfies.\<close>

lemma build_conditionE:
  assumes "build_condition var rule m case_sensitive = Inr cc"
  obtains row vs nts ws where "map_of COMPONENTS (collection var) = Some row"
    "condition_values row var m = (vs, nts)" "wildcard_values m vs = Inr ws"
    "\<not> (literal_only row \<and> m_wildcard m)"
    "cc_condition cc = \<lparr>c_type = condition_type_for row var, c_positive = (\<not> negated rule),
       c_selector = (case (selector_key row, selector var) of (Some k, Some s) \<Rightarrow> Some (k, s) | _ \<Rightarrow> None),
       c_match = (if condition_type_for row var \<in> set [''requestMethodMatch'', ''ipMatch'']
                  then None else Some (case_sensitive, m_wildcard m)),
       c_value = ws\<rparr>"
    "cc_lossy cc = m_lossy m" "cc_narrowed cc = m_narrowed m"
proof -
  from assms obtain row where row: "map_of COMPONENTS (collection var) = Some row"
    by (auto simp: build_condition_def split: option.splits)
  obtain vs nts where v: "condition_values row var m = (vs, nts)" by fastforce
  from assms row v obtain ws where w: "wildcard_values m vs = Inr ws"
    by (auto simp: build_condition_def bindR_eq_Inr split: if_splits)
  show thesis
    by (rule that [OF row v w])
      (use assms row v w in \<open>auto simp: build_condition_def split: if_split_asm\<close>)
qed

end
