(* ===== verification/Ordering.thy ===== *)
theory Ordering
  imports PyString "HOL-Library.Multiset"
begin

text \<open>
  The order of texts by code point, as Python's and SQLite's comparison of strings has it, and
  stable sorting by any order.
\<close>

fun text_less_eq :: "string \<Rightarrow> string \<Rightarrow> bool" where
  "text_less_eq [] t = True"
| "text_less_eq (c # cs) [] = False"
| "text_less_eq (c # cs) (d # ds) = (ord_c c < ord_c d \<or> (c = d \<and> text_less_eq cs ds))"

fun insort_by :: "('a \<Rightarrow> 'a \<Rightarrow> bool) \<Rightarrow> 'a \<Rightarrow> 'a list \<Rightarrow> 'a list" where
  "insort_by le x [] = [x]"
| "insort_by le x (y # ys) = (if le x y then x # y # ys else y # insort_by le x ys)"

definition sorted_by :: "('a \<Rightarrow> 'a \<Rightarrow> bool) \<Rightarrow> 'a list \<Rightarrow> 'a list" where
  "sorted_by le xs = foldr (insort_by le) xs []"

abbreviation sorted_texts :: "string list \<Rightarrow> string list" where
  "sorted_texts \<equiv> sorted_by text_less_eq"

lemma ord_c_inject: "ord_c c = ord_c d \<longleftrightarrow> c = d"
  by (simp add: ord_c_def)

lemma text_less_eq_refl: "text_less_eq s s"
  by (induction s) auto

lemma text_less_eq_total: "text_less_eq s t \<or> text_less_eq t s"
proof (induction s t rule: text_less_eq.induct)
  case (3 c cs d ds)
  then show ?case using ord_c_inject [of c d] by (cases "ord_c c" "ord_c d" rule: linorder_cases) auto
qed auto

lemma text_less_eq_trans: "text_less_eq s t \<Longrightarrow> text_less_eq t u \<Longrightarrow> text_less_eq s u"
proof (induction s t arbitrary: u rule: text_less_eq.induct)
  case (3 c cs d ds)
  then show ?case by (cases u) auto
qed auto

lemma text_less_eq_antisym: "text_less_eq s t \<Longrightarrow> text_less_eq t s \<Longrightarrow> s = t"
  by (induction s t rule: text_less_eq.induct) (auto simp: neq_Nil_conv elim: text_less_eq.elims)

lemma mset_insort_by [simp]: "mset (insort_by le x xs) = add_mset x (mset xs)"
  by (induction xs) auto

lemma set_insort_by [simp]: "set (insort_by le x xs) = insert x (set xs)"
  by (induction xs) auto

lemma mset_sorted_by [simp]: "mset (sorted_by le xs) = mset xs"
  unfolding sorted_by_def by (induction xs) auto

lemma set_sorted_by [simp]: "set (sorted_by le xs) = set xs"
  using mset_sorted_by by (metis set_mset_mset)

lemma length_sorted_by [simp]: "length (sorted_by le xs) = length xs"
  using mset_sorted_by by (metis size_mset)

lemma distinct_sorted_by [simp]: "distinct (map f (sorted_by le xs)) = distinct (map f xs)"
  by (rule mset_eq_imp_distinct_iff) simp

lemma sorted_by_sorted:
  assumes "\<And>a b. le a b \<or> le b a" and "\<And>a b c. le a b \<Longrightarrow> le b c \<Longrightarrow> le a c"
  shows "sorted_wrt le (sorted_by le xs)"
proof -
  have "sorted_wrt le (insort_by le x ys)" if "sorted_wrt le ys" for x ys
    using that by (induction ys) (use assms in auto)
  then show ?thesis unfolding sorted_by_def by (induction xs) auto
qed

text \<open>Sorting by a key that tells the members apart depends on the members only.\<close>

lemma sorted_wrt_unique:
  assumes "\<And>a b. a \<in> set xs \<Longrightarrow> b \<in> set xs \<Longrightarrow> le a b \<Longrightarrow> le b a \<Longrightarrow> a = b"
    and "sorted_wrt le xs" and "sorted_wrt le ys" and "mset xs = mset ys"
  shows "xs = ys"
  using assms
proof (induction xs arbitrary: ys)
  case (Cons x xs)
  then obtain y ys' where ys: "ys = y # ys'" by (cases ys) auto
  have xy: "x \<in> set ys" "y \<in> set (x # xs)" using Cons.prems(4) ys mset_eq_setD by (metis list.set_intros(1))+
  then have "x = y" using Cons.prems(1) [of x y] Cons.prems(2,3) ys by auto
  then show ?case using Cons.IH [of ys'] Cons.prems ys by auto
qed simp

end
