(* ===== verification/Adapters.thy ===== *)
theory Adapters
  imports Json Ordering
begin

text \<open>
  The target adapters of \<^verbatim>\<open>adapters/\<close>: the shape gate and the conflict detector of the
  Akamai, SentinelOne and PAN-OS targets, the registry that selects one, the policy snapshots they
  compare with, and the two gates of \<^verbatim>\<open>translation/\<close> that call them.

  A candidate is its text together with what the standard decoders make of it: the outcome of
  \<^verbatim>\<open>json.loads\<close> and of \<^verbatim>\<open>ElementTree.fromstring\<close> (on the stripped text), each a message
  or a value. A membership test of an unhashable value in a set is a Python
  \<^verbatim>\<open>TypeError\<close>, the left injection of a gate's outcome.
\<close>

section \<open>Candidates, snapshots, outcomes\<close>

datatype xml_element = Element string "(string \<times> string) list" "string option" "xml_element list"

record candidate =
  content_text :: string
  content_json :: "string + json"
  content_xml :: "string + xml_element"

record policy_snapshot =
  snapshot_id :: string
  snapshot_technology :: string
  snapshot_context_id :: string
  existing_rule_ids :: "string list"
  existing_rule_summaries :: "string list"

datatype adapter_exn = TypeError

type_synonym 'a gate = "adapter_exn + 'a"

record syntax_result =
  valid :: bool
  errors :: "string list"

definition rejected :: "string list \<Rightarrow> syntax_result" where
  "rejected es = \<lparr>valid = False, errors = es\<rparr>"

text \<open>\<^verbatim>\<open>SyntaxValidationResult\<close> from the collected errors.\<close>

definition of_errors :: "string list \<Rightarrow> syntax_result" where
  "of_errors es = (if es \<noteq> [] then rejected es else \<lparr>valid = True, errors = []\<rparr>)"

text \<open>\<^verbatim>\<open>v in {...}\<close> for a set of strings: a list or dict is not hashable.\<close>

definition in_str_set :: "json \<Rightarrow> string list \<Rightarrow> bool gate" where
  "in_str_set j names =
     (case j of JArr _ \<Rightarrow> Inl TypeError | JObj _ \<Rightarrow> Inl TypeError | JStr s \<Rightarrow> Inr (s \<in> set names) | _ \<Rightarrow> Inr False)"

text \<open>\<^verbatim>\<open>v in (...)\<close> for a tuple of strings compares and never raises.\<close>

definition in_str_tuple :: "json \<Rightarrow> string list \<Rightarrow> bool" where
  "in_str_tuple j names = (case j of JStr s \<Rightarrow> s \<in> set names | _ \<Rightarrow> False)"

section \<open>Akamai\<close>

definition VALID_CONDITION_TYPES :: "string list" where
  "VALID_CONDITION_TYPES =
     [''requestHeaderMatch'', ''requestHeaderValueMatch'', ''argsPostMatch'', ''argsPostJSONMatch'',
      ''argsPostXMLMatch'', ''pathMatch'', ''uriQueryMatch'', ''ipMatch'', ''requestMethodMatch'', ''cookieMatch'']"

definition FORBIDDEN_ACTION_KEYS :: "string list" where
  "FORBIDDEN_ACTION_KEYS = [''action'', ''alert'', ''deny'']"

definition SYNTHETIC_REQUEST_HEADERS :: "string list" where
  "SYNTHETIC_REQUEST_HEADERS = [''request-uri'', ''request_uri'', ''request-body'', ''request_body'']"

definition AKAMAI_FEATURES :: "string list" where
  "AKAMAI_FEATURES =
     [''header'', ''content-type'', ''query-string'', ''uri'', ''path'', ''request'', ''body'', ''argument'',
      ''parameter'', ''cookie'', ''method'', ''ip'', ''regex'', ''sql injection'']"

definition akamai_supports_feature :: "string \<Rightarrow> bool \<Rightarrow> bool" where
  "akamai_supports_feature description has_json_feature =
     (has_json_feature \<or>
      (let text = py_lower description in
       (\<exists>f \<in> set AKAMAI_FEATURES. contains text f) \<or> contains text ''expression'' \<or> contains text ''syntax''))"

text \<open>The members of a rule-set wrapper, or the document itself; with the wrapper's errors.\<close>

definition akamai_rules :: "(string \<times> json) list \<Rightarrow> (string \<times> json) list list \<times> string list" where
  "akamai_rules document =
     (if ''rules'' \<notin> set (keys document) then ([document], [])
      else if set (keys document) \<noteq> {''rules''}
      then ([], [''Akamai rule-set wrapper may contain only '' @ [squote] @ ''rules'' @ [squote] @ ''.''])
      else (case get document ''rules'' of
          Some (JArr vs) \<Rightarrow>
            if vs = [] then ([], [''Field '' @ [squote] @ ''rules'' @ [squote] @ '' must be a non-empty array.''])
            else if \<exists>v \<in> set vs. \<not> is_obj v then ([], [''Every rules[] member must be an object.''])
            else (map (\<lambda>v. case v of JObj kvs \<Rightarrow> kvs | _ \<Rightarrow> []) vs, [])
        | _ \<Rightarrow> ([], [''Field '' @ [squote] @ ''rules'' @ [squote] @ '' must be a non-empty array.''])))"

definition value_ok :: "json \<Rightarrow> bool" where
  "value_ok v = (case v of
     JArr vs \<Rightarrow> vs \<noteq> [] \<and> list_all (\<lambda>item. case item of JStr s \<Rightarrow> s \<noteq> [] | _ \<Rightarrow> False) vs
   | JStr s \<Rightarrow> s \<noteq> []
   | _ \<Rightarrow> False)"

definition type_errors :: "string \<Rightarrow> (string \<times> json) list \<Rightarrow> string list gate" where
  "type_errors prefix c =
     bindR (in_str_set (get_or_null c ''type'') VALID_CONDITION_TYPES) (\<lambda>known. Inr
       (if known then []
        else [prefix @ ''.type '' @ py_repr (get_or_null c ''type'') @ '' is not a recognized '' @
              ''Akamai condition type.'']))"

definition shape_errors :: "string \<Rightarrow> (string \<times> json) list \<Rightarrow> string list" where
  "shape_errors prefix c =
     (if is_bool (get_or_null c ''positiveMatch'') then [] else [prefix @ ''.positiveMatch must be a boolean.''])
     @ (if value_ok (get_or_null c ''value'') then []
        else [prefix @ ''.value must be a non-empty array or a string.''])"

definition parameter_errors :: "string \<Rightarrow> (string \<times> json) list \<Rightarrow> string list gate" where
  "parameter_errors prefix c =
     (if get_or_null c ''type'' \<noteq> JStr ''argsPostJSONMatch'' then Inr []
      else
        bindR (if get_or_null c ''sourceLocationKind'' = JStr ''http-body-structured''
                  \<and> get_or_null c ''sourceSelectorType'' = JStr ''any-field''
               then in_str_set (get_or_null c ''sourceSelector'') [[], ''*''] else Inr False)
          (\<lambda>any_field. Inr
             (if \<not> nonblank (get_or_null c ''parameter'') \<and> \<not> any_field
              then [prefix @ ''.parameter must identify the JSON field for '' @ ''argsPostJSONMatch.'']
              else [])))"

definition header_errors :: "string \<Rightarrow> (string \<times> json) list \<Rightarrow> string list" where
  "header_errors prefix c =
     (let header = get_or_null c ''header'' in
      if get_or_null c ''type'' = JStr ''requestHeaderValueMatch'' then
        (if \<not> nonblank header
         then [prefix @ ''.header must name a real request header for '' @ ''requestHeaderValueMatch.'']
         else (case header of
             JStr h \<Rightarrow> if py_lower (strip h) \<in> set SYNTHETIC_REQUEST_HEADERS
                       then [prefix @ ''.header '' @ py_repr header @ '' is synthetic; use pathMatch for '' @
                             ''URI paths or an argsPost condition for request bodies.''] else []
           | _ \<Rightarrow> []))
      else if ''header'' \<in> set (keys c) then [prefix @ ''.header is valid only for requestHeaderValueMatch.'']
      else [])"

definition condition_errors :: "string \<Rightarrow> nat \<Rightarrow> json \<Rightarrow> string list gate" where
  "condition_errors prefix index cond =
     (let prefix = prefix @ ''conditions['' @ dec_nat index @ '']'' in
      case cond of
        JObj c \<Rightarrow>
          bindR (type_errors prefix c) (\<lambda>e1.
            bindR (parameter_errors prefix c) (\<lambda>e2.
              Inr (e1 @ shape_errors prefix c @ e2 @ header_errors prefix c)))
      | _ \<Rightarrow> Inr [prefix @ '' must be an object.''])"

fun conditions_errors :: "string \<Rightarrow> nat \<Rightarrow> json list \<Rightarrow> string list gate" where
  "conditions_errors prefix index [] = Inr []"
| "conditions_errors prefix index (c # cs) =
     bindR (condition_errors prefix index c) (\<lambda>e.
       bindR (conditions_errors prefix (Suc index) cs) (\<lambda>es. Inr (e @ es)))"

definition action_errors :: "string \<Rightarrow> (string \<times> json) list \<Rightarrow> string list" where
  "action_errors prefix r =
     (let forbidden = filter (\<lambda>k. k \<in> set (keys r)) FORBIDDEN_ACTION_KEYS in
      if forbidden \<noteq> []
      then [prefix @ ''Custom rule body must not embed an action ('' @ join '', '' forbidden @
            ''); the action is assigned '' @ ''separately on the security policy.'']
      else [])"

definition operation_errors :: "string \<Rightarrow> (string \<times> json) list \<Rightarrow> string list" where
  "operation_errors prefix r =
     (if in_str_tuple (get_or_null r ''operation'') [''AND'', ''OR''] then []
      else [prefix @ ''Field '' @ [squote] @ ''operation'' @ [squote] @ '' must be '' @ [squote] @ ''AND'' @
            [squote] @ '' or '' @ [squote] @ ''OR'' @ [squote] @ ''.''])"

definition rule_errors :: "string \<Rightarrow> (string \<times> json) list \<Rightarrow> string list gate" where
  "rule_errors prefix r =
     bindR (case get_or_null r ''conditions'' of
              JArr cs \<Rightarrow> if cs = [] then Inr [prefix @ ''Field '' @ [squote] @ ''conditions'' @ [squote] @
                                             '' must be a non-empty array.'']
                         else conditions_errors prefix 0 cs
            | _ \<Rightarrow> Inr [prefix @ ''Field '' @ [squote] @ ''conditions'' @ [squote] @
                          '' must be a non-empty array.''])
       (\<lambda>es. Inr (action_errors prefix r @ operation_errors prefix r @ es))"

fun rules_errors :: "bool \<Rightarrow> nat \<Rightarrow> (string \<times> json) list list \<Rightarrow> string list gate" where
  "rules_errors prefixed index [] = Inr []"
| "rules_errors prefixed index (r # rs) =
     bindR (rule_errors (if prefixed then ''rules['' @ dec_nat index @ ''].'' else []) r) (\<lambda>e.
       bindR (rules_errors prefixed (Suc index) rs) (\<lambda>es. Inr (e @ es)))"

definition akamai_document_errors :: "(string \<times> json) list \<Rightarrow> string list gate" where
  "akamai_document_errors document =
     (case akamai_rules document of (rules, wrapper_errors) \<Rightarrow>
        bindR (rules_errors (length rules > 1 \<or> ''rules'' \<in> set (keys document)) 0 rules)
          (\<lambda>es. Inr (wrapper_errors @ es)))"

definition akamai_validate_syntax :: "candidate \<Rightarrow> syntax_result gate" where
  "akamai_validate_syntax cand =
     (case content_json cand of
        Inl msg \<Rightarrow> Inr (rejected [''Candidate is not valid JSON: '' @ msg])
      | Inr (JObj document) \<Rightarrow> bindR (akamai_document_errors document) (\<lambda>es. Inr (of_errors es))
      | Inr _ \<Rightarrow> Inr (rejected [''Akamai custom rule must be a JSON object.'']))"

definition identities :: "(string \<times> json) list \<Rightarrow> string list" where
  "identities r =
     concat (map (\<lambda>k. case get_or_null r k of
                        JStr s \<Rightarrow> if strip s \<noteq> [] then [py_lower (strip s)] else []
                      | _ \<Rightarrow> []) [''name'', ''sourceRuleId''])"

definition akamai_detect_conflicts :: "candidate \<Rightarrow> policy_snapshot option \<Rightarrow> string list" where
  "akamai_detect_conflicts cand snap =
     (case snap of
        None \<Rightarrow> []
      | Some s \<Rightarrow>
          (case content_json cand of
             Inr (JObj document) \<Rightarrow>
               (case akamai_rules document of (rules, es) \<Rightarrow>
                  if es \<noteq> [] then []
                  else
                    (let cands = concat (map identities rules);
                         existing = map (\<lambda>i. py_lower (strip i)) (filter (\<lambda>i. strip i \<noteq> []) (existing_rule_ids s))
                     in map (\<lambda>i. ''Existing rule identity already exists: '' @ i)
                          (sorted_texts (remdups (filter (\<lambda>i. i \<in> set existing) cands)))))
           | _ \<Rightarrow> []))"

section \<open>SentinelOne\<close>

definition VALID_SEVERITIES :: "string list" where
  "VALID_SEVERITIES = [''Critical'', ''High'', ''Low'', ''Medium'']"

definition VALID_TREAT_AS_THREAT :: "string list" where
  "VALID_TREAT_AS_THREAT = [''Malicious'', ''Suspicious'', ''UNDEFINED'']"

definition edr_supports_feature :: "string \<Rightarrow> bool \<Rightarrow> bool" where
  "edr_supports_feature description has_json_feature =
     (let text = py_lower description in
      \<exists>k \<in> set [''process'', ''spawn'', ''chain'', ''tree'', ''network'', ''connection'', ''file'']. contains text k)"

definition edr_data_errors :: "(string \<times> json) list \<Rightarrow> string list gate" where
  "edr_data_errors d =
     bindR (in_str_set (get_or_null d ''severity'') VALID_SEVERITIES) (\<lambda>severity_ok.
       bindR (in_str_set (get_or_null d ''treatAsThreat'') VALID_TREAT_AS_THREAT) (\<lambda>threat_ok.
         Inr ((if nonblank (get_or_null d ''name'') then [] else [''data.name must be a non-empty string.''])
            @ (if nonblank (get_or_null d ''s1ql'') then [] else [''data.s1ql must be a non-empty S1QL query string.''])
            @ (if severity_ok then [] else [''data.severity must be one of: '' @ join '', '' VALID_SEVERITIES @ ''.''])
            @ (if threat_ok then []
               else [''data.treatAsThreat must be one of: '' @ join '', '' VALID_TREAT_AS_THREAT @ ''.''])
            @ (if in_str_tuple (case get d ''queryLang'' of None \<Rightarrow> JStr ''2.0'' | Some v \<Rightarrow> v) [''1.0'', ''2.0''] then []
               else [''data.queryLang must be '' @ [squote] @ ''1.0'' @ [squote] @ '' or '' @ [squote] @ ''2.0'' @
                     [squote] @ ''.'']))))"

definition edr_validate_syntax :: "candidate \<Rightarrow> syntax_result gate" where
  "edr_validate_syntax cand =
     (case content_json cand of
        Inl msg \<Rightarrow> Inr (rejected [''Candidate is not valid JSON: '' @ msg])
      | Inr (JObj r) \<Rightarrow>
          (case get_or_null r ''data'' of
             JObj d \<Rightarrow> bindR (edr_data_errors d) (\<lambda>es. Inr (of_errors es))
           | _ \<Rightarrow> Inr (rejected [''Field '' @ [squote] @ ''data'' @ [squote] @ '' must be an object.'']))
      | Inr _ \<Rightarrow> Inr (rejected [''STAR rule must be a JSON object.'']))"

definition edr_detect_conflicts :: "candidate \<Rightarrow> policy_snapshot option \<Rightarrow> string list" where
  "edr_detect_conflicts cand snap = []"

section \<open>PAN-OS\<close>

definition VALID_ACTIONS :: "string list" where
  "VALID_ACTIONS = [''allow'', ''deny'', ''drop'', ''reset-client'', ''reset-server'', ''reset-both'']"

definition CLI_FIELDS :: "string list" where
  "CLI_FIELDS = [''from'', ''to'', ''source'', ''destination'', ''application'', ''service'']"

definition firewall_supports_feature :: "string \<Rightarrow> bool \<Rightarrow> bool" where
  "firewall_supports_feature description has_json_feature =
     (let text = py_lower description in
      \<exists>k \<in> set [''port'', ''network'', ''inbound'', ''outbound'', ''connection'', ''zone'']. contains text k)"

text \<open>
  The pattern \<^verbatim>\<open>_CLI_RULE_RE\<close>: a keyword and the whitespace after it; the rule name, quoted or
  not; then, anywhere on the rest of the line, each field with a value and the action.
\<close>

definition eat_word :: "string \<Rightarrow> string \<Rightarrow> string option" where
  "eat_word w s =
     (let r = drop (length w) s in
      if py_lower (take (length w) s) = w \<and> r \<noteq> [] \<and> is_space (hd r) then Some (dropWhile is_space r) else None)"

definition eat_quote :: "string \<Rightarrow> string" where
  "eat_quote s = (case s of c # cs \<Rightarrow> if c = dquote then cs else s | [] \<Rightarrow> [])"

definition eat_name :: "string \<Rightarrow> string option" where
  "eat_name s =
     (let a = eat_quote s; name = takeWhile (\<lambda>c. c \<noteq> dquote \<and> \<not> is_space c) a;
          r = eat_quote (dropWhile (\<lambda>c. c \<noteq> dquote \<and> \<not> is_space c) a)
      in if name \<noteq> [] \<and> r \<noteq> [] \<and> is_space (hd r) then Some (dropWhile is_space r) else None)"

text \<open>\<open>field_here\<close>: at this place, the keyword, whitespace, and what \<open>P\<close> asks of the rest.\<close>

definition field_here :: "string \<Rightarrow> (string \<Rightarrow> bool) \<Rightarrow> string \<Rightarrow> bool" where
  "field_here w P s = (case eat_word w s of None \<Rightarrow> False | Some r \<Rightarrow> P r)"

fun field_on_line :: "string \<Rightarrow> (string \<Rightarrow> bool) \<Rightarrow> bool \<Rightarrow> string \<Rightarrow> bool" where
  "field_on_line w P after_word [] = False"
| "field_on_line w P after_word (c # cs) =
     (\<not> after_word \<and> field_here w P (c # cs) \<or>
      c \<noteq> CHR 0x0A \<and> field_on_line w P (is_word_char c) cs)"

definition known_action :: "string \<Rightarrow> bool" where
  "known_action s =
     (\<exists>a \<in> set VALID_ACTIONS. py_lower (take (length a) s) = a \<and>
        (case drop (length a) s of [] \<Rightarrow> True | c # _ \<Rightarrow> \<not> is_word_char c))"

definition cli_rule :: "string \<Rightarrow> bool" where
  "cli_rule s =
     (case Option.bind (eat_word ''set'' s) (\<lambda>s. Option.bind (eat_word ''rulebase'' s) (\<lambda>s.
           Option.bind (eat_word ''security'' s) (\<lambda>s. Option.bind (eat_word ''rules'' s) eat_name))) of
        None \<Rightarrow> False
      | Some r \<Rightarrow> (\<forall>w \<in> set CLI_FIELDS. field_on_line w (\<lambda>v. v \<noteq> []) False r)
                  \<and> field_on_line ''action'' known_action False r)"

definition validate_cli :: "string \<Rightarrow> syntax_result" where
  "validate_cli content =
     (if cli_rule content then \<lparr>valid = True, errors = []\<rparr>
      else rejected [''Candidate does not match expected PAN-OS CLI shape: '' @
        ''set rulebase security rules <name> from <zone> to <zone> '' @
        ''source <src> destination <dst> application <app> service '' @
        ''<svc> action <'' @ join ''|'' VALID_ACTIONS @ ''>''])"

definition REQUIRED_XML_CHILDREN :: "string list" where
  "REQUIRED_XML_CHILDREN = [''from'', ''to'', ''source'', ''destination'', ''action'']"

definition xml_find :: "xml_element list \<Rightarrow> string \<Rightarrow> xml_element option" where
  "xml_find children tag = find (\<lambda>e. case e of Element t _ _ _ \<Rightarrow> t = tag) children"

definition xml_errors :: "xml_element \<Rightarrow> string list" where
  "xml_errors e =
     (case e of Element tag attrs text children \<Rightarrow>
        (if tag \<noteq> ''entry'' \<or> (case map_of attrs ''name'' of None \<Rightarrow> True | Some n \<Rightarrow> n = [])
         then [''Root element must be <entry name='' @ [dquote] @ ''...'' @ [dquote] @ ''>.''] else [])
        @ map (\<lambda>c. ''Missing required element <'' @ c @ ''>.'')
            (filter (\<lambda>c. xml_find children c = None) REQUIRED_XML_CHILDREN)
        @ (case xml_find children ''action'' of
             None \<Rightarrow> []
           | Some (Element _ _ action_text _) \<Rightarrow>
               if strip (case action_text of None \<Rightarrow> [] | Some a \<Rightarrow> a) \<in> set VALID_ACTIONS then []
               else [''<action> must be one of: '' @ join '', '' VALID_ACTIONS @ ''.'']))"

definition validate_xml :: "string + xml_element \<Rightarrow> syntax_result" where
  "validate_xml parsed =
     (case parsed of
        Inl msg \<Rightarrow> rejected [''Candidate is not valid XML: '' @ msg]
      | Inr e \<Rightarrow> of_errors (xml_errors e))"

definition firewall_validate_syntax :: "candidate \<Rightarrow> syntax_result gate" where
  "firewall_validate_syntax cand =
     (let content = strip (content_text cand) in
      Inr (if starts_with content ''<'' then validate_xml (content_xml cand)
           else if starts_with (py_lower content) ''set '' then validate_cli content
           else rejected [''Candidate must be a PAN-OS security rule in CLI '' @ [squote] @ ''set rulebase '' @
             ''security rules ...'' @ [squote] @ '' form or XML '' @ [squote] @ ''<entry>'' @ [squote] @ '' form.'']))"

definition firewall_detect_conflicts :: "candidate \<Rightarrow> policy_snapshot option \<Rightarrow> string list" where
  "firewall_detect_conflicts cand snap =
     (case snap of
        None \<Rightarrow> []
      | Some s \<Rightarrow>
          (let lowered = py_lower (content_text cand);
               is_deny = (contains lowered ''action deny'' \<or> contains lowered ''<action>deny</action>'')
           in map (\<lambda>summary. ''Possible ordering conflict with existing rule: '' @ summary)
                (filter (\<lambda>summary. is_deny \<and> contains (py_lower summary) ''allow'') (existing_rule_summaries s))))"

section \<open>The adapter protocol\<close>

record adapter =
  target_technology :: string
  artifact_type :: string
  supports_feature :: "string \<Rightarrow> bool \<Rightarrow> bool"
  validate_syntax :: "candidate \<Rightarrow> syntax_result gate"
  adapter_conflicts :: "candidate \<Rightarrow> policy_snapshot option \<Rightarrow> string list"

definition akamai_adapter :: adapter where
  "akamai_adapter = \<lparr>target_technology = ''akamai-waf'', artifact_type = ''akamai-waf-rule'',
     supports_feature = akamai_supports_feature, validate_syntax = akamai_validate_syntax,
     adapter_conflicts = akamai_detect_conflicts\<rparr>"

definition firewall_adapter :: adapter where
  "firewall_adapter = \<lparr>target_technology = ''firewall-generic'', artifact_type = ''firewall-rule'',
     supports_feature = firewall_supports_feature, validate_syntax = firewall_validate_syntax,
     adapter_conflicts = firewall_detect_conflicts\<rparr>"

definition edr_adapter :: adapter where
  "edr_adapter = \<lparr>target_technology = ''edr-s1'', artifact_type = ''edr-rule'',
     supports_feature = edr_supports_feature, validate_syntax = edr_validate_syntax,
     adapter_conflicts = edr_detect_conflicts\<rparr>"

definition ADAPTER_REGISTRY :: "(string \<times> adapter) list" where
  "ADAPTER_REGISTRY =
     [(''akamai-waf'', akamai_adapter), (''firewall-generic'', firewall_adapter), (''edr-s1'', edr_adapter)]"

definition get_adapter :: "string \<Rightarrow> adapter option" where
  "get_adapter technology = map_of ADAPTER_REGISTRY technology"

section \<open>The gates of the translation engine\<close>

definition validate_candidate :: "adapter \<Rightarrow> candidate \<Rightarrow> syntax_result gate" where
  "validate_candidate ad cand =
     (if strip (content_text cand) = [] then Inr (rejected [''Candidate content is empty.''])
      else validate_syntax ad cand)"

definition detect_conflicts :: "adapter \<Rightarrow> candidate \<Rightarrow> policy_snapshot option \<Rightarrow> string list" where
  "detect_conflicts ad cand snap = adapter_conflicts ad cand snap"

text \<open>
  What the engine relies on: a verdict is negative exactly when it comes with a message, and an
  absent snapshot never conflicts.
\<close>

locale target_adapter =
  fixes ad :: adapter
  assumes verdict: "validate_syntax ad cand = Inr res \<Longrightarrow> valid res \<longleftrightarrow> errors res = []"
    and no_snapshot: "adapter_conflicts ad cand None = []"
begin

lemma gate_verdict: "validate_candidate ad cand = Inr res \<Longrightarrow> valid res \<longleftrightarrow> errors res = []"
  using verdict by (auto simp: validate_candidate_def rejected_def split: if_splits)

lemma gate_accepts:
  "validate_candidate ad cand = Inr res \<Longrightarrow> valid res \<Longrightarrow>
   strip (content_text cand) \<noteq> [] \<and> (\<exists>r. validate_syntax ad cand = Inr r \<and> valid r)"
  by (auto simp: validate_candidate_def rejected_def split: if_splits)

end

lemma of_errors_verdict [simp]: "valid (of_errors es) \<longleftrightarrow> errors (of_errors es) = []"
  by (simp add: of_errors_def rejected_def)

lemma valid_of_errors [simp]: "valid (of_errors es) \<longleftrightarrow> es = []"
  by (simp add: of_errors_def rejected_def)

lemma rejected_simps [simp]: "\<not> valid (rejected es)" "errors (rejected es) = es"
  by (simp_all add: rejected_def)

interpretation akamai: target_adapter akamai_adapter
  by unfold_locales
    (auto simp: akamai_adapter_def akamai_validate_syntax_def akamai_detect_conflicts_def bindR_eq_Inr
      split: sum.splits json.splits)

interpretation firewall: target_adapter firewall_adapter
  by unfold_locales
    (auto simp: firewall_adapter_def firewall_validate_syntax_def firewall_detect_conflicts_def
      validate_cli_def validate_xml_def Let_def split: sum.splits if_splits)

interpretation edr: target_adapter edr_adapter
  by unfold_locales
    (auto simp: edr_adapter_def edr_validate_syntax_def edr_detect_conflicts_def bindR_eq_Inr
      split: sum.splits json.splits)

lemma registered_adapters:
  "get_adapter tech = Some ad \<Longrightarrow> target_adapter ad \<and> target_technology ad = tech"
  using akamai.target_adapter_axioms firewall.target_adapter_axioms edr.target_adapter_axioms
  by (auto simp: get_adapter_def ADAPTER_REGISTRY_def akamai_adapter_def firewall_adapter_def edr_adapter_def
      split: if_splits)

text \<open>
  For every registered adapter, the engine's syntax gate is decisive: a candidate is accepted
  exactly when the verdict carries no error message, an empty candidate is never accepted, and the
  conflict gate reports nothing when no policy snapshot is available. The adapter a technology
  selects serves that technology.
\<close>

theorem adapter_gates:
  assumes "get_adapter tech = Some ad"
  shows "target_technology ad = tech \<and>
    (\<forall>cand res. validate_candidate ad cand = Inr res \<longrightarrow>
       (valid res \<longleftrightarrow> errors res = []) \<and> (valid res \<longrightarrow> strip (content_text cand) \<noteq> [])) \<and>
    (\<forall>cand. detect_conflicts ad cand None = [])"
  using registered_adapters [OF assms] target_adapter.gate_verdict [of ad] target_adapter.gate_accepts [of ad]
    target_adapter.no_snapshot [of ad]
  by (auto simp: detect_conflicts_def)

theorem adapter_gates_witness:
  "target_technology firewall_adapter = ''firewall-generic''"
proof -
  have "get_adapter ''firewall-generic'' = Some firewall_adapter"
    by (simp add: get_adapter_def ADAPTER_REGISTRY_def)
  from adapter_gates [OF this] show ?thesis by blast
qed

end
