(* ===== verification/CompilerFacts.thy ===== *)
theory CompilerFacts
  imports Compiler ConditionFacts Adapters
begin

text \<open>
  Properties of the compiler: the rules it emits for sources without synthetic headers pass the Akamai
  shape gate, its label reports
  what the regex translation recorded, required payloads and the request path reach the rule, and
  the conditions built from an unanchored pattern lose no match of the source.
\<close>

section \<open>Well-formed conditions\<close>

definition wf_variable :: "variable \<Rightarrow> bool" where
  "wf_variable var \<longleftrightarrow>
     (collection var = ''REQUEST_HEADERS'' \<longrightarrow> (\<forall>s. selector var = Some s \<longrightarrow> valid_header_name s))"

definition wf_condition :: "condition \<Rightarrow> bool" where
  "wf_condition c \<longleftrightarrow>
     c_type c \<in> set VALID_CONDITION_TYPES \<and> c_type c \<noteq> ''argsPostJSONMatch'' \<and> wf_values (c_value c) \<and>
     (case c_selector c of
        None \<Rightarrow> c_type c \<noteq> ''requestHeaderValueMatch''
      | Some (k, s) \<Rightarrow> k \<in> set [''parameter'', ''header'', ''name''] \<and>
          (k = ''header'' \<longleftrightarrow> c_type c = ''requestHeaderValueMatch'') \<and> (k = ''header'' \<longrightarrow> valid_header_name s))"

definition synthetic_header :: "condition \<Rightarrow> bool" where
  "synthetic_header c \<longleftrightarrow> (case c_selector c of
     Some (k, s) \<Rightarrow> k = ''header'' \<and> py_lower (strip s) \<in> set SYNTHETIC_REQUEST_HEADERS | None \<Rightarrow> False)"

lemma parse_variable_wf: "parse_variable raw = Inr var \<Longrightarrow> wf_variable var"
  by (auto simp: parse_variable_def Let_def wf_variable_def split: if_splits)

lemma apply_actions_variables: "variables (foldl apply_action r as) = variables r"
  by (induction as arbitrary: r) (auto simp: apply_action_def Let_def)

lemma parse_secrule_variables:
  assumes "parse_secrule d = Inr r"
  shows "variables r \<noteq> []" "\<forall>var \<in> set (variables r). wf_variable var"
proof -
  from assms obtain tokens vs where "parse_variables (tokens ! 0) = Inr vs" "variables r = vs"
    by (auto simp: parse_secrule_def bindR_eq_Inr apply_actions_variables split: if_splits)
  then show "variables r \<noteq> []" "\<forall>var \<in> set (variables r). wf_variable var"
    using parse_variable_wf by (auto simp: parse_variables_def bindR_eq_Inr split: if_splits dest: mapR_set)
qed

lemma component_cases:
  assumes "map_of COMPONENTS k = Some row"
  shows "condition_type row \<in> set VALID_CONDITION_TYPES - {''argsPostJSONMatch'', ''requestHeaderMatch''}"
    "selector_key row = Some ''header'' \<longleftrightarrow> condition_type row = ''requestHeaderValueMatch''"
    "selector_key row = Some ''header'' \<Longrightarrow> k = ''REQUEST_HEADERS''"
    "selector_key row \<in> {None, Some ''parameter'', Some ''header'', Some ''name''}"
    "literal_only row \<longleftrightarrow> condition_type row \<in> {''requestMethodMatch'', ''ipMatch''}"
    "k = ''REQUEST_METHOD'' \<Longrightarrow> literal_only row"
  using assms
  by (simp_all add: COMPONENTS_def component_row_def VALID_CONDITION_TYPES_def split: if_split_asm)
     (auto split: if_split_asm)

lemma build_condition_wf:
  assumes b: "build_condition var rule m cs = Inr cc" and v: "wf_variable var" and m: "wf_values (m_values m)"
  shows "wf_condition (cc_condition cc)"
  using b
proof (cases rule: build_conditionE)
  case (1 row vs nts ws)
  note comp = component_cases [OF 1(1)]
  have ws: "wf_values ws"
    using wildcard_values_wf [OF condition_values_wf [OF m 1(2)] 1(3)] by simp
  show ?thesis
  proof (cases "selector_key row = Some ''header''")
    case True
    then have "collection var = ''REQUEST_HEADERS''" by (rule comp(3))
    then have "\<forall>s. selector var = Some s \<longrightarrow> valid_header_name s" using v by (simp add: wf_variable_def)
    with True comp(2) ws 1(5) show ?thesis
      by (cases "selector var") (auto simp: wf_condition_def condition_type_for_def ANY_HEADER_CONDITION_def
          VALID_CONDITION_TYPES_def)
  next
    case False
    with comp(1,2,4) ws 1(5) show ?thesis
      by (auto simp: wf_condition_def condition_type_for_def split: option.splits)
  qed
qed

text \<open>A property of every condition built for the rules is a property of every condition compiled.\<close>

lemma compile_variables_all:
  assumes "compile_variables rule m cs vars s = Inr s'"
    "\<And>var cc. var \<in> set vars \<Longrightarrow> build_condition var rule m cs = Inr cc \<Longrightarrow> P (cc_condition cc)"
    "\<forall>c \<in> set (s_conditions s). P c"
  shows "\<forall>c \<in> set (s_conditions s'). P c"
  using assms
proof (induction vars arbitrary: s)
  case Nil
  then show ?case by simp
next
  case (Cons var vars)
  from Cons.prems(1) obtain cc s1 where b: "build_condition var rule m cs = Inr cc"
    and r: "compile_variables rule m cs vars s1 = Inr s'"
    and s1: "s_conditions s1 = s_conditions s @ [cc_condition cc]"
    by (auto simp: bindR_eq_Inr)
  have "P (cc_condition cc)" by (rule Cons.prems(2) [OF _ b]) simp
  then have "\<forall>c \<in> set (s_conditions s1). P c" using Cons.prems(3) s1 by simp
  with Cons.prems(2) show ?case by (intro Cons.IH [OF r]) auto
qed

lemma compile_ruleE:
  assumes "compile_rule n r s = Inr s'"
  obtains m where "operator_match r = Inr m"
    "compile_variables r m (\<not> (m_case_insensitive m \<or> ''lowercase'' \<in> set (transformations r))) (variables r)
       (s\<lparr>s_notes := s_notes s @ m_limitations m\<rparr>) = Inr s'"
    "set (transformations r) \<subseteq> set SUPPORTED_TRANSFORMATIONS"
  using assms by (auto simp: compile_rule_def bindR_eq_Inr Let_def split: if_split_asm)

lemma compile_rules_all:
  assumes "compile_rules n rules s = Inr s'"
    "\<And>r m cs var cc. r \<in> set rules \<Longrightarrow> operator_match r = Inr m \<Longrightarrow> var \<in> set (variables r) \<Longrightarrow>
       build_condition var r m cs = Inr cc \<Longrightarrow> P (cc_condition cc)"
    "\<forall>c \<in> set (s_conditions s). P c"
  shows "\<forall>c \<in> set (s_conditions s'). P c"
  using assms
proof (induction rules arbitrary: s)
  case Nil
  then show ?case by simp
next
  case (Cons r rules)
  from Cons.prems(1) obtain s1 where s1: "compile_rule n r s = Inr s1" "compile_rules n rules s1 = Inr s'"
    by (auto simp: bindR_eq_Inr)
  from s1(1) have "\<forall>c \<in> set (s_conditions s1). P c"
  proof (cases rule: compile_ruleE)
    case (1 m)
    show ?thesis
      by (rule compile_variables_all [OF 1(2)])
        (use Cons.prems(3) in \<open>auto intro: Cons.prems(2) [of r m] 1(1)\<close>)
  qed
  then show ?case by (rule Cons.IH [OF s1(2) _, rotated]) (rule Cons.prems(2), simp_all)
qed

definition synthetic_variable :: "variable \<Rightarrow> bool" where
  "synthetic_variable var \<longleftrightarrow> collection var = ''REQUEST_HEADERS'' \<and>
     (case selector var of Some s \<Rightarrow> py_lower (strip s) \<in> set SYNTHETIC_REQUEST_HEADERS | None \<Rightarrow> False)"

lemma build_condition_synthetic:
  "build_condition var rule m cs = Inr cc \<Longrightarrow> synthetic_header (cc_condition cc) \<Longrightarrow> synthetic_variable var"
  by (erule build_conditionE)
    (auto simp: synthetic_header_def synthetic_variable_def split: option.splits dest: component_cases(3))

lemma required_payloads_nonempty: "[] \<notin> set (required_payloads r)"
  by (auto simp: required_payloads_def)

lemma wf_condition_add:
  "wf_condition c \<Longrightarrow> [] \<notin> set ps \<Longrightarrow> wf_condition (c\<lparr>c_value := unique_list (c_value c @ ps)\<rparr>)"
  by (cases "c_selector c") (auto simp: wf_condition_def wf_values_def)

lemma merge_payloads_wf:
  "merge_payloads types payloads conds = Inr conds' \<Longrightarrow> [] \<notin> set payloads \<Longrightarrow>
   \<forall>c \<in> set conds. wf_condition c \<Longrightarrow> \<forall>c \<in> set conds'. wf_condition c"
  by (induction conds arbitrary: conds')
    (auto simp: bindR_eq_Inr Let_def wf_condition_add split: if_splits)

lemma request_path_nonempty: "request_path r = Some p \<Longrightarrow> p \<noteq> []"
  by (auto simp: request_path_def split: option.splits json.splits if_splits)

lemma merge_payloads_selectors:
  "merge_payloads types payloads conds = Inr conds' \<Longrightarrow> map c_selector conds' = map c_selector conds"
  by (induction conds arbitrary: conds') (auto simp: bindR_eq_Inr Let_def split: if_splits)

lemma path_condition_wf: "p \<noteq> [] \<Longrightarrow> wf_condition (path_condition p)"
  by (simp add: wf_condition_def path_condition_def VALID_CONDITION_TYPES_def wf_values_def)

lemma apply_requirementsE:
  assumes "apply_requirements conds r = Inr (conds', nts)"
  obtains conds1 where "fst (scope_to_path r conds1) = conds'"
    "filter (\<lambda>item. item \<noteq> []) (required_payloads r) = [] \<Longrightarrow> conds1 = conds"
    "filter (\<lambda>item. item \<noteq> []) (required_payloads r) \<noteq> [] \<Longrightarrow>
     merge_payloads (required_condition_types r) (filter (\<lambda>item. item \<noteq> []) (required_payloads r)) conds = Inr conds1"
proof (cases "filter (\<lambda>item. item \<noteq> []) (required_payloads r) = []")
  case True
  with assms have "fst (scope_to_path r conds) = conds'"
    by (simp add: apply_requirements_def case_prod_unfold)
  with True that [of conds] show ?thesis by simp
next
  case False
  with assms obtain conds1 where
    m: "merge_payloads (required_condition_types r) (filter (\<lambda>item. item \<noteq> []) (required_payloads r)) conds = Inr conds1"
    by (auto simp: apply_requirements_def bindR_eq_Inr)
  with assms False have "fst (scope_to_path r conds1) = conds'"
    by (simp add: apply_requirements_def case_prod_unfold)
  with m False that [of conds1] show ?thesis by simp
qed

lemma apply_requirements_wf:
  assumes "apply_requirements conds r = Inr (conds', nts)" "\<forall>c \<in> set conds. wf_condition c"
  shows "\<forall>c \<in> set conds'. wf_condition c"
proof -
  let ?ps = "filter (\<lambda>item. item \<noteq> []) (required_payloads r)"
  obtain conds1 where c1: "conds1 = conds \<or> merge_payloads (required_condition_types r) ?ps conds = Inr conds1"
    and c2: "fst (scope_to_path r conds1) = conds'"
    using apply_requirementsE [OF assms(1)] by metis
  have "\<forall>c \<in> set conds1. wf_condition c"
    using c1 assms(2) merge_payloads_wf [of _ ?ps conds conds1] by auto
  with c2 show ?thesis
    using request_path_nonempty [of r] path_condition_wf
    by (auto simp: scope_to_path_def split: option.splits if_splits)
qed

section \<open>The rule body and the shape gate\<close>

lemma valid_header_name_nonblank: "valid_header_name s \<Longrightarrow> strip s \<noteq> []"
proof -
  assume v: "valid_header_name s"
  have ns: "\<not> is_space c" if "header_name_char c" for c
    using that by (auto simp: header_name_char_def is_space_def is_ascii_alnum_def is_ascii_alpha_def
        is_digit_def ord_c_def Let_def)
  from v obtain c cs where s: "s = c # cs" "\<not> is_space c"
    using ns by (cases s) (auto simp: valid_header_name_def)
  then have "c \<in> set (rev s)" by simp
  with s(2) have "dropWhile is_space (rev s) \<noteq> []" by (meson dropWhile_eq_Nil_conv)
  with s show ?thesis by (simp add: strip_by_def lstrip_by_def rstrip_by_def)
qed

lemma value_ok_strings: "wf_values vs \<Longrightarrow> value_ok (JArr (map JStr vs))"
  by (auto simp: value_ok_def wf_values_def list_all_iff)

lemma condition_json_get:
  assumes "wf_condition c"
  shows "\<exists>kvs. condition_json c = JObj kvs \<and> get_or_null kvs ''type'' = JStr (c_type c) \<and>
    get_or_null kvs ''positiveMatch'' = JBool (c_positive c) \<and>
    get_or_null kvs ''value'' = JArr (map JStr (c_value c)) \<and>
    get_or_null kvs ''header'' = (case c_selector c of Some (k, s) \<Rightarrow> if k = ''header'' then JStr s else JNull | None \<Rightarrow> JNull) \<and>
    (''header'' \<in> set (keys kvs) \<longleftrightarrow> (\<exists>s. c_selector c = Some (''header'', s)))"
proof (cases "c_selector c")
  case None
  then show ?thesis
    by (cases "c_match c") (auto simp add: condition_json_def get_or_null_def get_def keys_def)
next
  case (Some ks)
  with assms obtain k s where ks: "c_selector c = Some (k, s)" "k = ''parameter'' \<or> k = ''header'' \<or> k = ''name''"
    by (cases ks) (auto simp: wf_condition_def)
  from ks(2) show ?thesis
    by (elim disjE; cases "c_match c")
      (auto simp add: ks(1) condition_json_def get_or_null_def get_def keys_def)
qed

lemma condition_passes:
  assumes wf: "wf_condition c" and s: "\<not> synthetic_header c"
  shows "condition_errors prefix i (condition_json c) = Inr []"
proof -
  obtain kvs where k: "condition_json c = JObj kvs" "get_or_null kvs ''type'' = JStr (c_type c)"
    "get_or_null kvs ''positiveMatch'' = JBool (c_positive c)" "get_or_null kvs ''value'' = JArr (map JStr (c_value c))"
    "get_or_null kvs ''header'' = (case c_selector c of Some (k, s) \<Rightarrow> if k = ''header'' then JStr s else JNull | None \<Rightarrow> JNull)"
    "''header'' \<in> set (keys kvs) \<longleftrightarrow> (\<exists>s. c_selector c = Some (''header'', s))"
    using condition_json_get [OF wf] by blast
  have t: "type_errors p kvs = Inr []" for p
    using wf by (simp add: type_errors_def k in_str_set_def wf_condition_def)
  have "shape_errors p kvs = []" for p
    using wf value_ok_strings [of "c_value c"] by (simp add: shape_errors_def k wf_condition_def)
  moreover have "parameter_errors p kvs = Inr []" for p
    using wf by (simp add: parameter_errors_def k wf_condition_def)
  moreover have "header_errors p kvs = []" for p
    using wf s valid_header_name_nonblank
    by (auto simp: header_errors_def Let_def k wf_condition_def synthetic_header_def split: option.splits)
  ultimately show ?thesis using k(1) t by (simp add: condition_errors_def Let_def)
qed

lemma conditions_pass:
  "\<forall>c \<in> set conds. wf_condition c \<and> \<not> synthetic_header c \<Longrightarrow>
   conditions_errors prefix i (map condition_json conds) = Inr []"
  by (induction conds arbitrary: i) (auto simp: condition_passes)

lemma rule_body_passes:
  assumes "conds \<noteq> []" "\<forall>c \<in> set conds. wf_condition c \<and> \<not> synthetic_header c"
  shows "\<exists>doc. rule_body pattern rules conds is_chain = JObj doc \<and> akamai_document_errors doc = Inr []"
  using conditions_pass [OF assms(2), of "[]" 0] assms(1)
  by (auto simp: rule_body_def akamai_document_errors_def akamai_rules_def keys_def get_or_null_def get_def
      rule_errors_def action_errors_def operation_errors_def rule_operation_def in_str_tuple_def
      FORBIDDEN_ACTION_KEYS_def)

section \<open>The shape of a compilation\<close>

lemma compile_Some:
  assumes "compile_akamai_custom_rule pattern reqs = Some p"
  obtains directives rules is_chain s conds nts where
    "directives = split_directives (pattern_summary pattern)" "directives \<noteq> []"
    "length directives \<le> MAX_RULES" "mapR parse_secrule directives = Inr rules"
    "is_chain = (\<exists>r \<in> set (butlast rules). chained r)"
    "compile_rules (length rules) rules initial_state = Inr s" "s_conditions s \<noteq> []"
    "(case reqs of None \<Rightarrow> Inr (s_conditions s, []) | Some r \<Rightarrow> apply_requirements (s_conditions s) r) = Inr (conds, nts)"
    "\<not> (s_lossy s \<and> s_narrowed s)"
    "candidate_content p = rule_body pattern rules conds is_chain"
    "translation_label p = compile_label (s_lossy s) (s_narrowed s)"
    "limitations p = compile_limitations (s_notes s @ nts) (s_lossy s) (s_narrowed s)"
proof -
  let ?ds = "split_directives (pattern_summary pattern)"
  from assms have c: "compile pattern reqs = Inr (Some p)"
    by (auto simp: compile_akamai_custom_rule_def split: sum.splits)
  then have d: "?ds \<noteq> []" "length ?ds \<le> MAX_RULES" by (auto simp: compile_def Let_def split: if_splits)
  from c d obtain rules where r: "mapR parse_secrule ?ds = Inr rules"
    by (auto simp: compile_def Let_def bindR_eq_Inr split: if_splits)
  let ?chain = "\<exists>r \<in> set (butlast rules). chained r"
  from c d r obtain s where s: "compile_rules (length rules) rules initial_state = Inr s"
    and f: "finish_compile pattern reqs rules ?chain s = Inr p"
    by (auto simp: compile_def Let_def bindR_eq_Inr split: if_splits)
  from f have ne: "s_conditions s \<noteq> []" by (auto simp: finish_compile_def split: if_splits)
  from f ne obtain conds nts where a:
    "(case reqs of None \<Rightarrow> Inr (s_conditions s, []) | Some r \<Rightarrow> apply_requirements (s_conditions s) r) = Inr (conds, nts)"
    by (auto simp: finish_compile_def bindR_eq_Inr)
  show thesis
    by (rule that [OF refl d r refl s ne a])
      (use f ne a in \<open>auto simp: finish_compile_def split: if_split_asm\<close>)
qed

lemma apply_requirements_nonempty:
  assumes "apply_requirements conds r = Inr (conds', nts)" "conds \<noteq> []" shows "conds' \<noteq> []"
proof -
  let ?ps = "filter (\<lambda>item. item \<noteq> []) (required_payloads r)"
  obtain conds1 where c1: "conds1 = conds \<or> merge_payloads (required_condition_types r) ?ps conds = Inr conds1"
    and c2: "fst (scope_to_path r conds1) = conds'"
    using apply_requirementsE [OF assms(1)] by metis
  have "map c_selector conds1 = map c_selector conds" using c1 merge_payloads_selectors by blast
  with assms(2) c2 show ?thesis by (auto simp: scope_to_path_def split: option.splits if_splits)
qed

lemma apply_requirements_clean:
  assumes "apply_requirements conds r = Inr (conds', nts)" "\<forall>c \<in> set conds. \<not> synthetic_header c"
  shows "\<forall>c \<in> set conds'. \<not> synthetic_header c"
proof -
  let ?ps = "filter (\<lambda>item. item \<noteq> []) (required_payloads r)"
  obtain conds1 where c1: "conds1 = conds \<or> merge_payloads (required_condition_types r) ?ps conds = Inr conds1"
    and c2: "fst (scope_to_path r conds1) = conds'"
    using apply_requirementsE [OF assms(1)] by metis
  have clean: "(\<forall>c \<in> set cs. \<not> synthetic_header c) \<longleftrightarrow>
      (\<forall>x \<in> set (map c_selector cs). \<not> (case x of
         Some (k, s) \<Rightarrow> k = ''header'' \<and> py_lower (strip s) \<in> set SYNTHETIC_REQUEST_HEADERS | None \<Rightarrow> False))" for cs
    by (simp add: synthetic_header_def)
  have "map c_selector conds1 = map c_selector conds" using c1 merge_payloads_selectors by blast
  then have "\<forall>c \<in> set conds1. \<not> synthetic_header c" using assms(2) clean by metis
  with c2 show ?thesis
    by (auto simp: scope_to_path_def path_condition_def synthetic_header_def split: option.splits if_splits)
qed

lemma compiled_conditions:
  assumes c: "compile_akamai_custom_rule pattern reqs = Some p"
    and clean: "\<And>d r var. d \<in> set (split_directives (pattern_summary pattern)) \<Longrightarrow> parse_secrule d = Inr r \<Longrightarrow>
      var \<in> set (variables r) \<Longrightarrow> \<not> synthetic_variable var"
  obtains rules conds is_chain where "candidate_content p = rule_body pattern rules conds is_chain" "conds \<noteq> []"
    "\<forall>c \<in> set conds. wf_condition c \<and> \<not> synthetic_header c"
  using c
proof (cases rule: compile_Some)
  case (1 directives rules is_chain s conds nts)
  have rules: "\<exists>d \<in> set directives. parse_secrule d = Inr r" if "r \<in> set rules" for r
    using mapR_set [OF 1(4) that] by blast
  have wf: "\<forall>c \<in> set (s_conditions s). wf_condition c"
  proof (rule compile_rules_all [OF 1(6)])
    fix r m cs var cc
    assume r: "r \<in> set rules" and m: "operator_match r = Inr m" and v: "var \<in> set (variables r)"
      and b: "build_condition var r m cs = Inr cc"
    from rules [OF r] v have "wf_variable var" using parse_secrule_variables(2) by blast
    then show "wf_condition (cc_condition cc)" by (rule build_condition_wf [OF b _ operator_match_wf [OF m]])
  qed (simp add: initial_state_def)
  have cl: "\<forall>c \<in> set (s_conditions s). \<not> synthetic_header c"
  proof (rule compile_rules_all [OF 1(6)])
    fix r m cs var cc
    assume r: "r \<in> set rules" and v: "var \<in> set (variables r)" and b: "build_condition var r m cs = Inr cc"
    from rules [OF r] v have "\<not> synthetic_variable var" using clean 1(1) by blast
    then show "\<not> synthetic_header (cc_condition cc)" using build_condition_synthetic [OF b] by blast
  qed (simp add: initial_state_def)
  have "\<forall>c \<in> set conds. wf_condition c \<and> \<not> synthetic_header c"
    using wf cl apply_requirements_wf apply_requirements_clean 1(8) by (auto split: option.splits)
  moreover have "conds \<noteq> []"
    using 1(7,8) apply_requirements_nonempty by (auto split: option.splits)
  ultimately show ?thesis using that 1(10) by blast
qed

section \<open>Labels\<close>

lemma compile_variables_flags:
  "compile_variables rule m cs vars s = Inr s' \<Longrightarrow>
   (s_lossy s \<or> (vars \<noteq> [] \<and> m_lossy m) \<longrightarrow> s_lossy s') \<and>
   (s_narrowed s \<or> (vars \<noteq> [] \<and> m_narrowed m) \<longrightarrow> s_narrowed s') \<and> set (s_notes s) \<subseteq> set (s_notes s')"
proof (induction vars arbitrary: s)
  case Nil
  then show ?case by simp
next
  case (Cons var vars)
  from Cons.prems obtain cc s1 where b: "build_condition var rule m cs = Inr cc"
    and r: "compile_variables rule m cs vars s1 = Inr s'"
    and s1: "s_lossy s1 = (s_lossy s \<or> cc_lossy cc)" "s_narrowed s1 = (s_narrowed s \<or> cc_narrowed cc)"
      "s_notes s1 = s_notes s @ cc_notes cc"
    by (auto simp: bindR_eq_Inr)
  have "cc_lossy cc = m_lossy m" "cc_narrowed cc = m_narrowed m" using b by (auto elim: build_conditionE)
  with Cons.IH [OF r] s1 show ?case by auto
qed

lemma compile_rule_flags:
  assumes "compile_rule n r s = Inr s'" "operator_match r = Inr m" "variables r \<noteq> []"
  shows "(s_lossy s \<or> m_lossy m \<longrightarrow> s_lossy s') \<and> (s_narrowed s \<or> m_narrowed m \<longrightarrow> s_narrowed s')
    \<and> set (s_notes s) \<subseteq> set (s_notes s') \<and> set (m_limitations m) \<subseteq> set (s_notes s')"
  using assms(1)
proof (cases rule: compile_ruleE)
  case (1 m')
  with assms(2) have "m' = m" by simp
  with compile_variables_flags [OF 1(2)] assms(3) show ?thesis by auto
qed

lemma compile_rules_flags:
  assumes "compile_rules n rules s = Inr s'" "\<forall>r \<in> set rules. variables r \<noteq> []"
  shows "(s_lossy s \<longrightarrow> s_lossy s') \<and> (s_narrowed s \<longrightarrow> s_narrowed s') \<and> set (s_notes s) \<subseteq> set (s_notes s') \<and>
    (\<forall>r \<in> set rules. \<forall>m. operator_match r = Inr m \<longrightarrow>
       (m_lossy m \<longrightarrow> s_lossy s') \<and> (m_narrowed m \<longrightarrow> s_narrowed s') \<and> set (m_limitations m) \<subseteq> set (s_notes s'))"
  using assms
proof (induction rules arbitrary: s)
  case Nil
  then show ?case by simp
next
  case (Cons r rules)
  from Cons.prems(1) obtain s1 where s1: "compile_rule n r s = Inr s1" "compile_rules n rules s1 = Inr s'"
    by (auto simp: bindR_eq_Inr)
  from s1(1) obtain m0 where m0: "operator_match r = Inr m0" by (cases rule: compile_ruleE) blast
  note step = compile_rule_flags [OF s1(1) m0] and rest = Cons.IH [OF s1(2)]
  show ?case using step rest Cons.prems(2) m0 by auto
qed

section \<open>Requirements\<close>

lemma merge_payloads_in:
  "merge_payloads types payloads conds = Inr conds' \<Longrightarrow>
   \<exists>c \<in> set conds'. c_type c \<in> set types \<and> set payloads \<subseteq> set (c_value c) \<and> length (c_value c) \<le> MAX_VALUES"
  by (induction conds arbitrary: conds') (auto simp: bindR_eq_Inr Let_def split: if_splits)

lemma scope_to_path_extends: "set conds \<subseteq> set (fst (scope_to_path r conds))"
  by (auto simp: scope_to_path_def split: option.splits)

lemma scope_to_path_path:
  "request_path r = Some p \<Longrightarrow> \<exists>c \<in> set (fst (scope_to_path r conds)). c_type c = ''pathMatch''"
  by (auto simp: scope_to_path_def path_condition_def)

lemma required_payloads_filter [simp]: "filter (\<lambda>item. item \<noteq> []) (required_payloads r) = required_payloads r"
  using required_payloads_nonempty [of r] by (auto intro!: filter_True)

lemma apply_requirements_met:
  assumes "apply_requirements conds r = Inr (conds', nts)"
  shows "(required_payloads r \<noteq> [] \<longrightarrow> (\<exists>c \<in> set conds'. c_type c \<in> set (required_condition_types r) \<and>
           set (required_payloads r) \<subseteq> set (c_value c))) \<and>
    (request_path r \<noteq> None \<longrightarrow> (\<exists>c \<in> set conds'. c_type c = ''pathMatch''))"
  using assms
proof (cases rule: apply_requirementsE)
  case (1 conds1)
  have "\<exists>c \<in> set conds'. c_type c \<in> set (required_condition_types r) \<and> set (required_payloads r) \<subseteq> set (c_value c)"
    if "required_payloads r \<noteq> []"
    using merge_payloads_in [of "required_condition_types r" "required_payloads r" conds conds1] 1(3) that
      scope_to_path_extends [of conds1 r] 1(1) by auto
  moreover have "request_path r \<noteq> None \<longrightarrow> (\<exists>c \<in> set conds'. c_type c = ''pathMatch'')"
    using scope_to_path_path [of r _ conds1] 1(1) by auto
  ultimately show ?thesis by blast
qed

section \<open>Coverage of the compiled conditions\<close>

text \<open>The text a condition matches in its component: some value, under its case and wildcard flags.\<close>

definition condition_matches :: "condition \<Rightarrow> string \<Rightarrow> bool" where
  "condition_matches c s \<longleftrightarrow>
     (case c_match c of
        Some (case_flag, wc) \<Rightarrow> \<exists>v \<in> set (c_value c). value_match (char_eq (\<not> case_flag)) wc v s
      | None \<Rightarrow> s \<in> set (c_value c))"

definition extends :: "condition \<Rightarrow> condition \<Rightarrow> bool" where
  "extends c c' \<longleftrightarrow> c_type c' = c_type c \<and> c_match c' = c_match c \<and> c_selector c' = c_selector c \<and>
     c_positive c' = c_positive c \<and> set (c_value c) \<subseteq> set (c_value c')"

lemma extends_refl: "extends c c"
  by (simp add: extends_def)

lemma extends_matches: "extends c c' \<Longrightarrow> condition_matches c s \<Longrightarrow> condition_matches c' s"
  by (auto simp: extends_def condition_matches_def split: option.splits)

lemma merge_payloads_extends:
  "merge_payloads types payloads conds = Inr conds' \<Longrightarrow> c \<in> set conds \<Longrightarrow> \<exists>c' \<in> set conds'. extends c c'"
proof (induction conds arbitrary: conds')
  case (Cons a conds)
  show ?case
  proof (cases "c_type a \<in> set types")
    case True
    with Cons.prems(1) have "conds' = a\<lparr>c_value := unique_list (c_value a @ payloads)\<rparr> # conds"
      by (auto simp: Let_def split: if_splits)
    with Cons.prems(2) show ?thesis by (auto simp: extends_def)
  next
    case False
    with Cons.prems(1) obtain cs where "merge_payloads types payloads conds = Inr cs" "conds' = a # cs"
      by (auto simp: bindR_eq_Inr)
    with Cons show ?thesis by (auto simp: extends_refl)
  qed
qed simp

lemma apply_requirements_extends:
  assumes "apply_requirements conds r = Inr (conds', nts)" "c \<in> set conds"
  shows "\<exists>c' \<in> set conds'. extends c c'"
  using assms(1)
proof (cases rule: apply_requirementsE)
  case (1 conds1)
  have "\<exists>c' \<in> set conds1. extends c c'"
  proof (cases "required_payloads r = []")
    case True
    with 1(2) assms(2) show ?thesis by (intro bexI [of _ c]) (auto simp: extends_refl)
  next
    case False
    with 1(3) merge_payloads_extends assms(2) show ?thesis by simp
  qed
  with scope_to_path_extends [of conds1 r] 1(1) show ?thesis by blast
qed

lemma compile_variables_has:
  "compile_variables rule m cs vars s = Inr s' \<Longrightarrow> set (s_conditions s) \<subseteq> set (s_conditions s') \<and>
   (\<forall>var \<in> set vars. \<exists>cc. build_condition var rule m cs = Inr cc \<and> cc_condition cc \<in> set (s_conditions s'))"
proof (induction vars arbitrary: s)
  case Nil
  then show ?case by simp
next
  case (Cons var vars)
  from Cons.prems obtain cc s1 where b: "build_condition var rule m cs = Inr cc"
    and r: "compile_variables rule m cs vars s1 = Inr s'"
    and s1: "s_conditions s1 = s_conditions s @ [cc_condition cc]"
    by (auto simp: bindR_eq_Inr)
  with Cons.IH [OF r] show ?case by auto
qed

lemma compile_rules_has:
  assumes "compile_rules n rules s = Inr s'"
  shows "set (s_conditions s) \<subseteq> set (s_conditions s') \<and>
    (\<forall>r \<in> set rules. \<forall>var \<in> set (variables r). \<exists>m cc. operator_match r = Inr m \<and>
       build_condition var r m (\<not> (m_case_insensitive m \<or> ''lowercase'' \<in> set (transformations r))) = Inr cc \<and>
       cc_condition cc \<in> set (s_conditions s'))"
  using assms
proof (induction rules arbitrary: s)
  case Nil
  then show ?case by simp
next
  case (Cons r rules)
  from Cons.prems(1) obtain s1 where s1: "compile_rule n r s = Inr s1" "compile_rules n rules s1 = Inr s'"
    by (auto simp: bindR_eq_Inr)
  from s1(1) obtain m where "operator_match r = Inr m" "set (s_conditions s) \<subseteq> set (s_conditions s1)"
    "\<forall>var \<in> set (variables r). \<exists>cc. build_condition var r m
       (\<not> (m_case_insensitive m \<or> ''lowercase'' \<in> set (transformations r))) = Inr cc \<and>
       cc_condition cc \<in> set (s_conditions s1)"
    by (cases rule: compile_ruleE) (auto dest: compile_variables_has)
  with Cons.IH [OF s1(2)] show ?case by auto blast
qed

lemma floating_around: "floating (CHR ''*'' # w @ ''*'')"
  by (simp add: floating_def ends_with_def)

lemma floating_star: "floating ''*''"
  by (simp add: floating_def ends_with_def)

lemma transform_floating:
  assumes "\<And>a b. f (a @ b) = f a @ f b" "f [] = []" "floating v"
  shows "floating (transform_literals f ow v)"
  using floating_cases [OF assms(3)] floating_around floating_star
  unfolding transform_literals_hom [of f, OF assms(1,2)] by auto

lemma generalize_floating:
  assumes "\<forall>v \<in> set vals. floating v"
  shows "\<forall>w \<in> set (generalize_wildcard_transport_forms vals). floating w"
proof -
  have "floating w" if "v \<in> set vals" "w \<in> set (transport_forms vals v)" for v w
    using that assms transform_floating [of "\<lambda>l. quote_depth l d" for d, OF quote_depth_append quote_depth_Nil]
      transform_floating [of encode_hex, OF encode_hex_append]
    by (auto simp: transport_forms_def encode_hex_def split: if_splits)
  with assms show ?thesis by (auto simp: generalize_wildcard_transport_forms_def Let_def)
qed

lemma glob_mono: "(\<And>a b. eq a b \<Longrightarrow> eq' a b) \<Longrightarrow> glob eq v s \<Longrightarrow> glob eq' v s"
proof (induction v arbitrary: s)
  case (Cons c v)
  then show ?case
    by (cases "c = star_c") (auto simp: glob_any_run glob_character)
qed simp

lemma value_match_case: "value_match (char_eq ci) wc v s \<Longrightarrow> (ci \<longrightarrow> ci') \<Longrightarrow> value_match (char_eq ci') wc v s"
proof -
  assume m: "value_match (char_eq ci) wc v s" and i: "ci \<longrightarrow> ci'"
  have e: "char_eq ci a b \<Longrightarrow> char_eq ci' a b" for a b using i by (auto simp: char_eq_def split: if_splits)
  show ?thesis
    using m glob_mono [of "char_eq ci" "char_eq ci'" v s, OF e] list_all2_mono [of "char_eq ci" v s "char_eq ci'", OF _ e]
    by (simp add: value_match_def split: if_splits)
qed

lemma build_condition_covers:
  assumes b: "build_condition var rule m (\<not> (m_case_insensitive m \<or> lower)) = Inr cc"
    and fl: "m_wildcard m \<Longrightarrow> \<forall>v \<in> set (m_values m). floating v"
    and col: "collection var \<notin> {''REQUEST_METHOD'', ''REMOTE_ADDR''}" and s: "op_matches m s"
  shows "condition_matches (cc_condition cc) s"
  using b
proof (cases rule: build_conditionE)
  case (1 row vs nts ws)
  have vs: "set (m_values m) \<subseteq> set vs" "m_wildcard m \<Longrightarrow> vs = m_values m"
    using 1(2) col by (auto simp: condition_values_def Let_def encoding_variants_def split: if_splits)
  from s obtain v where v: "v \<in> set (m_values m)" "value_match (char_eq (m_case_insensitive m)) (m_wildcard m) v s"
    by (auto simp: op_matches_def)
  have "\<exists>w \<in> set ws. value_match (char_eq (m_case_insensitive m)) (m_wildcard m) w s"
  proof (cases "m_wildcard m")
    case True
    let ?g = "generalize_wildcard_transport_forms (m_values m)"
    have ws: "ws = remove_subsumed_literal_wildcards ?g"
      using 1(3) vs(2) True by (auto simp: wildcard_values_def Let_def split: if_splits)
    have "v \<in> set ?g" using v(1) generalize_extends by blast
    with remove_subsumed_keeps [OF generalize_floating [OF fl [OF True]] this] v(2) True ws show ?thesis
      by (simp add: value_match_def)
  next
    case False
    with 1(3) vs v show ?thesis by (auto simp: wildcard_values_def)
  qed
  then obtain w where w: "w \<in> set ws" "value_match (char_eq (m_case_insensitive m \<or> lower)) (m_wildcard m) w s"
    using value_match_case by blast
  have "condition_type_for row var \<notin> {''requestMethodMatch'', ''ipMatch''}"
    using 1(1) col by (auto simp: COMPONENTS_def component_row_def condition_type_for_def ANY_HEADER_CONDITION_def
        split: if_split_asm)
  with 1(5) w show ?thesis by (auto simp: condition_matches_def)
qed

section \<open>Properties\<close>

definition synthetic_free :: "proven_pattern \<Rightarrow> bool" where
  "synthetic_free pattern =
     list_all (\<lambda>d. case parse_secrule d of
                    Inl e \<Rightarrow> True
                  | Inr r \<Rightarrow> list_all (\<lambda>var. \<not> synthetic_variable var) (variables r))
       (split_directives (pattern_summary pattern))"

lemma compiled_rule_valid:
  assumes "compile_akamai_custom_rule pattern reqs = Some p" "synthetic_free pattern"
    and "content_json cand = Inr (candidate_content p)" "strip (content_text cand) \<noteq> []"
  shows "validate_candidate akamai_adapter cand = Inr \<lparr>valid = True, errors = []\<rparr>"
proof -
  obtain rules conds is_chain where c: "candidate_content p = rule_body pattern rules conds is_chain" "conds \<noteq> []"
    "\<forall>c \<in> set conds. wf_condition c \<and> \<not> synthetic_header c"
    using compiled_conditions [OF assms(1)] assms(2)
    by (metis (no_types, lifting) list_all_iff sum.case(2) synthetic_free_def)
  from rule_body_passes [OF c(2,3), of pattern rules is_chain] obtain doc where
    "candidate_content p = JObj doc" "akamai_document_errors doc = Inr []" using c(1) by auto
  then show ?thesis
    using assms(3,4) by (simp add: validate_candidate_def akamai_adapter_def akamai_validate_syntax_def of_errors_def)
qed

text \<open>
  C4. A rule the compiler emits for a source that names no synthetic header passes the Akamai shape
  gate that the engine applies to it: no embedded action, a valid operation, a nonempty condition list,
  and in each condition a documented type, a boolean polarity, nonempty string values and a header name
  exactly where one belongs. The candidate's text is not blank and decodes to the compiled body. A
  synthetic header (such as \<^verbatim>\<open>Request-Uri\<close>) compiles, but the gate refuses it.
\<close>

theorem compiled_rule_passes_gate:
  assumes "compile_akamai_custom_rule pattern reqs = Some p" "synthetic_free pattern"
    and "content_json cand = Inr (candidate_content p)" "strip (content_text cand) \<noteq> []"
  shows "validate_candidate akamai_adapter cand = Inr \<lparr>valid = True, errors = []\<rparr>"
  by (rule compiled_rule_valid [OF assms])

definition sample_pattern_for :: "string \<Rightarrow> proven_pattern" where
  "sample_pattern_for summary =
     \<lparr>proven_pattern_id = ''p'', vulnerability_id = ''CVE-1'', selected_control_class = ''waf'',
      discriminator_id = ''d'', discriminator_description = ''x'', pattern_summary = summary,
      proof_record_ids = [], json_body_feature = None\<rparr>"

definition quoted :: "string \<Rightarrow> string" where
  "quoted s = [dquote] @ s @ [dquote]"

definition sample_rule :: string where
  "sample_rule = ''SecRule ARGS:q '' @ quoted ''@rx ab'' @ '' '' @ quoted ''id:1''"

lemma sample_compiles: "compile_akamai_custom_rule (sample_pattern_for sample_rule) None \<noteq> None"
  by code_simp

lemma sample_synthetic_free: "synthetic_free (sample_pattern_for sample_rule)"
  by code_simp

theorem compiled_rule_passes_gate_witness:
  "\<exists>p cand. compile_akamai_custom_rule (sample_pattern_for sample_rule) None = Some p \<and>
     validate_candidate akamai_adapter cand = Inr \<lparr>valid = True, errors = []\<rparr>"
proof -
  obtain p where p: "compile_akamai_custom_rule (sample_pattern_for sample_rule) None = Some p"
    using sample_compiles by blast
  have "strip (content_text \<lparr>content_text = ''{}'', content_json = Inr (candidate_content p), content_xml = Inl []\<rparr>) \<noteq> []"
    by code_simp
  from compiled_rule_passes_gate [OF p sample_synthetic_free _ this] p show ?thesis by auto
qed

text \<open>
  The label and the limitations of a compiled rule report what its translation did: a rule
  whose regex was generalised is labelled broader, one whose encoding ladders were aligned
  narrower, never both, and each of the two is stated as a limitation; only a translation that did
  neither is labelled equivalent.
\<close>

theorem compiled_label_reports:
  assumes "compile_akamai_custom_rule pattern reqs = Some p"
    and "d \<in> set (split_directives (pattern_summary pattern))" "parse_secrule d = Inr rule"
    and "operator_match rule = Inr m"
  shows "(m_lossy m \<longrightarrow> translation_label p = ''broader'') \<and> (m_narrowed m \<longrightarrow> translation_label p = ''narrower'') \<and>
    (translation_label p = ''equivalent'' \<longrightarrow> \<not> m_lossy m \<and> \<not> m_narrowed m) \<and>
    translation_label p \<in> {''equivalent'', ''narrower'', ''broader''} \<and> set (m_limitations m) \<subseteq> set (limitations p)"
  using assms(1)
proof (cases rule: compile_Some)
  case (1 directives rules is_chain s conds nts)
  have rule: "rule \<in> set rules"
  proof -
    obtain i where i: "i < length directives" "directives ! i = d" using assms(2) 1(1) by (auto simp: in_set_conv_nth)
    with mapR_nth [OF 1(4) i(1)] mapR_length [OF 1(4)] assms(3) show ?thesis by (auto simp: in_set_conv_nth)
  qed
  have "\<forall>r \<in> set rules. variables r \<noteq> []"
    using mapR_set [OF 1(4)] parse_secrule_variables(1) by blast
  from compile_rules_flags [OF 1(6) this] rule assms(4)
  have f: "m_lossy m \<longrightarrow> s_lossy s" "m_narrowed m \<longrightarrow> s_narrowed s" "set (m_limitations m) \<subseteq> set (s_notes s)" by auto
  with 1(9,11,12) show ?thesis by (auto simp: compile_label_def compile_limitations_def)
qed

lemma sample_directive: "split_directives sample_rule = [sample_rule]"
  by code_simp

lemma sample_parse: "parse_secrule sample_rule = Inr
  \<lparr>variables = [\<lparr>collection = ''ARGS'', selector = Some ''q''\<rparr>], negated = False, operator = ''rx'',
   argument = ''ab'', transformations = [], message = None, tags = [], chained = False\<rparr>"
  by code_simp

lemma sample_match: "operator_match
  \<lparr>variables = [\<lparr>collection = ''ARGS'', selector = Some ''q''\<rparr>], negated = False, operator = ''rx'',
   argument = ''ab'', transformations = [], message = None, tags = [], chained = False\<rparr>
  = Inr (simple_match [''*ab*''] True False)"
  by code_simp

theorem compiled_label_reports_witness:
  "\<exists>p. compile_akamai_custom_rule (sample_pattern_for sample_rule) None = Some p \<and>
     translation_label p \<in> {''equivalent'', ''narrower'', ''broader''}"
proof -
  obtain p where p: "compile_akamai_custom_rule (sample_pattern_for sample_rule) None = Some p"
    using sample_compiles by blast
  have "sample_rule \<in> set (split_directives (pattern_summary (sample_pattern_for sample_rule)))"
    by (simp add: sample_pattern_for_def sample_directive)
  from compiled_label_reports [OF p this sample_parse sample_match] p show ?thesis by blast
qed

end
