(* ===== verification/CompilerProps.thy ===== *)
theory CompilerProps
  imports CompilerFacts
begin

text \<open>
  The end-to-end properties of the compiler and of its value processing, with the inputs on which
  the compiled rule departs from the source.
\<close>

section \<open>Coverage\<close>








section \<open>Requirements\<close>

text \<open>
  What a bypass requires reaches the compiled rule: when the compiler accepts a pattern with
  requirements, some condition on the mutated component lists every required payload, and a path
  condition is present if the proven request has a path.
\<close>

theorem compiled_rule_meets_requirements:
  assumes "compile_akamai_custom_rule pattern (Some r) = Some p"
  shows "\<exists>doc conds. candidate_content p = JObj doc \<and> get doc ''conditions'' = Some (JArr (map condition_json conds)) \<and>
    (required_payloads r \<noteq> [] \<longrightarrow> (\<exists>c \<in> set conds. c_type c \<in> set (required_condition_types r) \<and>
       set (required_payloads r) \<subseteq> set (c_value c))) \<and>
    (request_path r \<noteq> None \<longrightarrow> (\<exists>c \<in> set conds. c_type c = ''pathMatch''))"
  using assms
proof (cases rule: compile_Some)
  case (1 directives rules is_chain st conds nts)
  then have "apply_requirements (s_conditions st) r = Inr (conds, nts)" by simp
  from apply_requirements_met [OF this] 1(10) show ?thesis by (auto simp: rule_body_def get_def)
qed

definition sample_requirements :: requirements where
  "sample_requirements =
     \<lparr>original_payload = Some ''ab'', bypass_payload = None, post_waf_canonical_forms = [],
      effective_request = Some [(''path'', JStr ''/a'')], mutation_location = None,
      bypass_variant_or_encoding = None, constraint_for_next_candidate = None\<rparr>"

lemma sample_required_compiles:
  "compile_akamai_custom_rule (sample_pattern_for sample_rule) (Some sample_requirements) \<noteq> None"
  by code_simp

theorem compiled_rule_meets_requirements_witness:
  "\<exists>p doc conds. compile_akamai_custom_rule (sample_pattern_for sample_rule) (Some sample_requirements) = Some p \<and>
     candidate_content p = JObj doc \<and> get doc ''conditions'' = Some (JArr (map condition_json conds)) \<and>
     (\<exists>c \<in> set conds. ''ab'' \<in> set (c_value c))"
proof -
  obtain p where p: "compile_akamai_custom_rule (sample_pattern_for sample_rule) (Some sample_requirements) = Some p"
    using sample_required_compiles by blast
  have "required_payloads sample_requirements = [''ab'']" by code_simp
  with compiled_rule_meets_requirements [OF p] p show ?thesis by auto
qed

section \<open>Value processing\<close>

text \<open>
  The literal operators mean what ModSecurity documents: for an argument without wildcard
  characters, the values of \<^verbatim>\<open>@contains\<close>, \<^verbatim>\<open>@beginsWith\<close>, \<^verbatim>\<open>@endsWith\<close>,
  \<^verbatim>\<open>@streq\<close>, \<^verbatim>\<open>@eq\<close>, \<^verbatim>\<open>@within\<close>, \<^verbatim>\<open>@pm\<close> and \<^verbatim>\<open>@ipMatch\<close> match exactly
  the subjects the operator selects.
\<close>

theorem literal_operator_exact:
  assumes "operator_match rule = Inr m" "operator rule \<in> set LITERAL_OPERATORS" "plain_text (argument rule)"
  shows "op_matches m s \<longleftrightarrow> op_selects (operator rule) (argument rule) s"
  by (rule operator_match_selects [OF assms])

theorem literal_operator_exact_witness:
  "op_matches (simple_match [''*x*''] True False) ''axb''"
proof -
  have "operator_match (with_operator ''contains'' ''x'') = Inr (simple_match [''*x*''] True False)" by code_simp
  from literal_operator_exact [OF this, of "''axb''"]
  have "op_matches (simple_match [''*x*''] True False) ''axb'' \<longleftrightarrow> op_selects ''contains'' ''x'' ''axb''"
    by (simp add: with_operator_def LITERAL_OPERATORS_def plain_text_def)
  moreover have "op_selects ''contains'' ''x'' ''axb''"
    unfolding op_selects_def by (simp, intro exI [of _ "''a''"] exI [of _ "''b''"]) simp
  ultimately show ?thesis by simp
qed

text \<open>
  Removing subsumed values keeps the matched set of an unanchored match: if every value may
  start and end anywhere, each subject matched by a value is still matched by a value that is kept,
  whatever the case sensitivity.
\<close>

theorem subsumption_keeps_matches:
  assumes "\<forall>v \<in> set vals. floating v" "v \<in> set vals" "value_match (char_eq ci) True v s"
  shows "\<exists>w \<in> set (remove_subsumed_literal_wildcards vals). value_match (char_eq ci) True w s"
  using remove_subsumed_keeps [OF assms(1,2), of "char_eq ci" s] assms(3) by (simp add: value_match_def)

theorem subsumption_keeps_matches_witness:
  "\<exists>w \<in> set (remove_subsumed_literal_wildcards [''*abc*'', ''*a?c*'']). value_match (char_eq False) True w ''xabcy''"
proof -
  have "\<forall>v \<in> set [''*abc*'', ''*a?c*'']. floating v" by (simp add: floating_def ends_with_def)
  moreover have "value_match (char_eq False) True ''*abc*'' ''xabcy''" by code_simp
  ultimately show ?thesis using subsumption_keeps_matches [of "[''*abc*'', ''*a?c*'']" "''*abc*''" False "''xabcy''"] by simp
qed

text \<open>
  In an anchored match the step drops a value whose trailing wildcard is part of the pattern:
  of the values of \<^verbatim>\<open>^(?:ab.*|a.)$\<close> only \<^verbatim>\<open>a?\<close> is kept, and a subject the source
  matches is matched by none.
\<close>

theorem subsumption_drops_anchored_prefix:
  "\<exists>res. translate ''^(?:ab.*|a.)$'' = Inr res \<and> \<not> r_lossy res \<and> \<not> r_narrowed res \<and>
     remove_subsumed_literal_wildcards (r_values res) = [''a?''] \<and>
     (\<exists>v \<in> set (r_values res). value_match (char_eq False) True v ''abxyz'') \<and>
     \<not> value_match (char_eq False) True ''a?'' ''abxyz''"
proof -
  have "translate ''^(?:ab.*|a.)$'' = Inr \<lparr>r_values = [''ab*'', ''a?''], r_wildcard = True,
    r_case_insensitive = False, r_lossy = False, r_narrowed = False\<rparr>" by code_simp
  moreover have "remove_subsumed_literal_wildcards [''ab*'', ''a?''] = [''a?'']" by code_simp
  moreover have "value_match (char_eq False) True ''ab*'' ''abxyz''" "\<not> value_match (char_eq False) True ''a?'' ''abxyz''"
    by code_simp+
  ultimately show ?thesis by simp
qed

text \<open>
  The derived transport forms match the encoded traffic. When a generic wildcard value covers a
  literal sample and the value list shows percent-encodings at some depth, every subject a
  \<^verbatim>\<open>*\<close>-pattern matches is matched, percent-encoded to that depth, by a derived value; when it
  shows hexadecimal forms, the hexadecimal encoding of every ASCII subject is matched; and no value
  is lost.
\<close>

theorem transport_forms_match:
  assumes "\<exists>pattern \<in> set (filter is_generic vals). \<exists>c \<in> set (literal_cores vals). matches pattern c"
    and "v \<in> set vals" "is_generic v" "glob (=) v s"
  shows "set vals \<subseteq> set (generalize_wildcard_transport_forms vals) \<and>
    (qmark_c \<notin> set v \<longrightarrow> (\<forall>d \<in> set (depths_of vals).
       \<exists>w \<in> set (generalize_wildcard_transport_forms vals). glob (=) w (quote_depth s d))) \<and>
    (has_hex_form vals \<and> (\<forall>c \<in> set s. ord_c c < 128) \<longrightarrow>
       (\<exists>w \<in> set (generalize_wildcard_transport_forms vals). glob (=) w (encode_hex s)))"
proof -
  note sub = generalize_forms [OF assms(1-3)]
  have "\<exists>w \<in> set (generalize_wildcard_transport_forms vals). glob (=) w (quote_depth s d)"
    if "qmark_c \<notin> set v" "d \<in> set (depths_of vals)" for d
    using glob_percent_form [OF assms(4) that(1), of d] sub that(2) by (auto simp: transport_forms_def)
  moreover have "\<exists>w \<in> set (generalize_wildcard_transport_forms vals). glob (=) w (encode_hex s)"
    if "has_hex_form vals" "\<forall>c \<in> set s. ord_c c < 128"
    using glob_hex_form [OF assms(4) that(2)] sub that(1) by (auto simp: transport_forms_def)
  ultimately show ?thesis using generalize_extends by blast
qed

theorem transport_forms_match_witness:
  "\<exists>w \<in> set (generalize_wildcard_transport_forms [''*x=*y*'', ''*x=1y*'', ''*x%3D1y*'']). glob (=) w ''x%3D7y''"
proof -
  let ?vals = "[''*x=*y*'', ''*x=1y*'', ''*x%3D1y*'']"
  have a: "\<exists>pattern \<in> set (filter is_generic ?vals). \<exists>c \<in> set (literal_cores ?vals). matches pattern c" by code_simp
  have b: "is_generic ''*x=*y*''" "glob (=) ''*x=*y*'' ''x=7y''" "1 \<in> set (depths_of ?vals)"
    "quote_depth ''x=7y'' 1 = ''x%3D7y''" by code_simp+
  have "\<forall>d \<in> set (depths_of ?vals).
      \<exists>w \<in> set (generalize_wildcard_transport_forms ?vals). glob (=) w (quote_depth ''x=7y'' d)"
    using transport_forms_match [OF a _ b(1,2)] by simp
  from bspec [OF this b(3)] b(4) show ?thesis by simp
qed

section \<open>Departures from the source\<close>

text \<open>
  Scoping a rule to the proven path does not restrict it: with one compiled condition and a
  request path, the path condition is added but the operation becomes \<^verbatim>\<open>OR\<close>, so the rule
  also fires on every request to the path; the limitations say the rule is scoped to it.
\<close>

theorem path_scope_is_disjunctive:
  "\<exists>p doc conds. compile_akamai_custom_rule (sample_pattern_for sample_rule) (Some sample_requirements) = Some p \<and>
     candidate_content p = JObj doc \<and> get doc ''operation'' = Some (JStr ''OR'') \<and>
     get doc ''conditions'' = Some (JArr (map condition_json conds)) \<and> map c_type conds = [''argsPostMatch'', ''pathMatch''] \<and>
     ''The rule is scoped to the authoritative proven request path.'' \<in> set (limitations p)"
proof -
  obtain p where p: "compile_akamai_custom_rule (sample_pattern_for sample_rule) (Some sample_requirements) = Some p"
    using sample_required_compiles by blast
  have "case compile_akamai_custom_rule (sample_pattern_for sample_rule) (Some sample_requirements) of
      Some q \<Rightarrow> ''The rule is scoped to the authoritative proven request path.'' \<in> set (limitations q) \<and>
        candidate_content q = rule_body (sample_pattern_for sample_rule)
          [\<lparr>variables = [\<lparr>collection = ''ARGS'', selector = Some ''q''\<rparr>], negated = False, operator = ''rx'',
            argument = ''ab'', transformations = [], message = None, tags = [], chained = False\<rparr>]
          [\<lparr>c_type = ''argsPostMatch'', c_positive = True, c_selector = Some (''parameter'', ''q''),
            c_match = Some (True, True), c_value = [''*ab*'', ''ab'']\<rparr>, path_condition ''/a''] False
    | None \<Rightarrow> False" by code_simp
  with p have l: "''The rule is scoped to the authoritative proven request path.'' \<in> set (limitations p)"
    and c: "candidate_content p = rule_body (sample_pattern_for sample_rule)
          [\<lparr>variables = [\<lparr>collection = ''ARGS'', selector = Some ''q''\<rparr>], negated = False, operator = ''rx'',
            argument = ''ab'', transformations = [], message = None, tags = [], chained = False\<rparr>]
          [\<lparr>c_type = ''argsPostMatch'', c_positive = True, c_selector = Some (''parameter'', ''q''),
            c_match = Some (True, True), c_value = [''*ab*'', ''ab'']\<rparr>, path_condition ''/a''] False" by simp_all
  let ?conds = "[\<lparr>c_type = ''argsPostMatch'', c_positive = True, c_selector = Some (''parameter'', ''q''),
            c_match = Some (True, True), c_value = [''*ab*'', ''ab'']\<rparr>, path_condition ''/a'']"
  obtain doc where "candidate_content p = JObj doc" "get doc ''operation'' = Some (JStr ''OR'')"
    "get doc ''conditions'' = Some (JArr (map condition_json ?conds))"
    unfolding c rule_body_def by (simp add: get_def rule_operation_def)
  moreover have "map c_type ?conds = [''argsPostMatch'', ''pathMatch'']" by (simp add: path_condition_def)
  ultimately show ?thesis using p l by (intro exI [of _ p] exI [of _ doc] exI [of _ ?conds] conjI)
qed

definition independent_rule_text :: string where
  "independent_rule_text =
     ''SecRule ARGS:a '' @ quoted ''@streq x'' @ '' '' @ quoted ''id:1,chain'' @ [CHR 0x0A] @
     ''SecRule ARGS:b '' @ quoted ''@streq y'' @ '' '' @ quoted ''id:2'' @ [CHR 0x0A] @
     ''SecRule ARGS:c '' @ quoted ''@streq z'' @ '' '' @ quoted ''id:3''"

text \<open>
  A chain anywhere makes the whole list a conjunction: a chain of two directives followed by an
  independent third compiles to one \<^verbatim>\<open>AND\<close> of three conditions labelled equivalent, although
  the third directive alone blocks a request in the source.
\<close>

theorem independent_rule_absorbed_by_chain:
  "case compile_akamai_custom_rule (sample_pattern_for independent_rule_text) None of
     Some p \<Rightarrow> translation_label p = ''equivalent'' \<and>
       (case candidate_content p of
          JObj doc \<Rightarrow> get doc ''operation'' = Some (JStr ''AND'') \<and>
            (case get doc ''conditions'' of Some (JArr cs) \<Rightarrow> length cs = 3 | _ \<Rightarrow> False)
        | _ \<Rightarrow> False)
   | None \<Rightarrow> False"
  by code_simp

end
