(* ===== verification/Requests.thy ===== *)
theory Requests
  imports Compiler
begin

text \<open>
  The request contracts of \<^verbatim>\<open>contracts.py\<close>: the models as records and their validators as
  functions that return the model, normalised where the source assigns to \<^verbatim>\<open>self\<close>, or the
  message of the error. A record holds what pydantic has read into a model: typed fields, with the
  white space around strings stripped. The constraints that pydantic checks on single fields
  (lengths, patterns, ranges) are the predicates \<open>*_fields\<close>.
\<close>

type_synonym 'a checked = "string + 'a"

section \<open>Values\<close>

definition sha256_pattern :: "string \<Rightarrow> bool" where
  "sha256_pattern s =
     (starts_with s ''sha256:'' \<and> length s = 71 \<and> list_all (\<lambda>c. c \<in> set ''0123456789abcdef'') (drop 7 s))"

definition bounded_text :: "nat \<Rightarrow> nat \<Rightarrow> string \<Rightarrow> bool" where
  "bounded_text lo hi s = (lo \<le> length s \<and> length s \<le> hi)"

definition given_nonblank :: "string option \<Rightarrow> bool" where
  "given_nonblank v = (case v of None \<Rightarrow> False | Some s \<Rightarrow> strip s \<noteq> [])"

definition safe_segment :: "string \<Rightarrow> bool" where
  "safe_segment s = (bounded_text 1 128 s \<and> list_all (\<lambda>c. is_ascii_alnum c \<or> c \<in> set ''_-'') s)"

definition validate_field_path :: "string list \<Rightarrow> string list checked" where
  "validate_field_path path =
     (if list_all safe_segment path then Inr path
      else Inl (''field_path segments must contain only letters, digits, '' @ [squote] @ ''_'' @ [squote] @ '' or ''
                @ [squote] @ ''-'' @ [squote]))"

definition validate_proof_lineage :: "string list \<Rightarrow> string list checked" where
  "validate_proof_lineage ids =
     (if \<not> distinct ids then Inl ''proof_record_ids must be unique''
      else if \<not> list_ex (\<lambda>i. starts_with i ''mitigation-check-result:'') ids
      then Inl ''a mitigation-check result reference is required''
      else if \<not> list_ex (\<lambda>i. starts_with i ''bypass-validation-result:'') ids
      then Inl ''a bypass-validation result reference is required''
      else Inr ids)"

record target_context =
  target_technology :: "string option"
  target_policy_context_id :: "string option"

record translation_policy =
  translation_policy_id :: string
  allow_narrower_translation :: bool
  allow_equivalent_translation :: bool
  allow_broader_translation :: bool

record control_translation_request =
  input_pattern :: "proven_pattern option"
  input_target :: "target_context option"
  input_policy :: translation_policy
  current_policy_snapshot_id :: "string option"

section \<open>Result references\<close>

datatype result_system = Databricks | WorkflowLab

record result_reference =
  ref_system :: result_system
  ref_catalog :: "string option"
  ref_schema :: "string option"
  ref_table :: "string option"
  ref_contract_id :: "string option"
  ref_namespace :: "string option"
  ref_key :: string

definition validate_databricks_reference :: "result_reference \<Rightarrow> result_reference checked" where
  "validate_databricks_reference r =
     (case ref_system r of
        Databricks \<Rightarrow>
          if \<not> (given_nonblank (ref_catalog r) \<and> given_nonblank (ref_schema r) \<and> given_nonblank (ref_table r) \<and> strip (ref_key r) \<noteq> [])
             \<or> ref_contract_id r \<noteq> None \<or> ref_namespace r \<noteq> None
          then Inl ''Databricks result-reference fields are invalid'' else Inr r
      | WorkflowLab \<Rightarrow>
          if ref_contract_id r \<noteq> Some ''workflow-lab-result-reference@1.0'' \<or> ref_namespace r \<noteq> Some ''immutable-results''
             \<or> ref_catalog r \<noteq> None \<or> ref_schema r \<noteq> None \<or> ref_table r \<noteq> None
          then Inl ''Workflow Lab result-reference fields are invalid'' else Inr r)"

text \<open>Serialisation drops the fields that are \<^verbatim>\<open>None\<close>.\<close>

definition json_of_opt :: "string \<Rightarrow> string option \<Rightarrow> (string \<times> json) list" where
  "json_of_opt k v = (case v of None \<Rightarrow> [] | Some s \<Rightarrow> [(k, JStr s)])"

definition serialize_reference :: "result_reference \<Rightarrow> json" where
  "serialize_reference r =
     JObj ([(''system'', JStr (case ref_system r of Databricks \<Rightarrow> ''databricks'' | WorkflowLab \<Rightarrow> ''workflow-lab''))]
       @ json_of_opt ''catalog'' (ref_catalog r) @ json_of_opt ''schema'' (ref_schema r) @ json_of_opt ''table'' (ref_table r)
       @ json_of_opt ''contract_id'' (ref_contract_id r) @ json_of_opt ''namespace'' (ref_namespace r)
       @ [(''key'', JStr (ref_key r))])"

section \<open>Routing\<close>

datatype bypass_state = NoBypassFound | BypassFound

record routing_metadata =
  loop_exhausted :: bool
  completed_iterations :: nat
  max_iterations :: nat
  bypass_terminal_state :: bypass_state
  bypass_result_ref :: result_reference

definition routing_metadata_fields :: "routing_metadata \<Rightarrow> bool" where
  "routing_metadata_fields m = (1 \<le> completed_iterations m \<and> 1 \<le> max_iterations m)"

definition validate_route :: "routing_metadata \<Rightarrow> routing_metadata checked" where
  "validate_route m =
     (if max_iterations m < completed_iterations m then Inl ''completed_iterations cannot exceed max_iterations''
      else if bypass_terminal_state m = NoBypassFound
      then (if loop_exhausted m then Inl ''loop_exhausted must be false when no bypass was found'' else Inr m)
      else if \<not> loop_exhausted m then Inl ''bypass-found is accepted only when the candidate loop is exhausted''
      else if max_iterations m \<noteq> 10 then Inl ''the PoC exhaustion route requires max_iterations to be 10''
      else if completed_iterations m \<noteq> max_iterations m then Inl ''an exhausted candidate loop must complete max_iterations''
      else Inr m)"

datatype route = Validated | LoopExhausted

record routing_context =
  rc_route :: route
  rc_bypass_state :: bypass_state
  rc_loop_exhausted :: bool
  rc_completed_iterations :: nat
  rc_max_iterations :: nat

definition validate_routing_context :: "routing_context \<Rightarrow> routing_context checked" where
  "validate_routing_context c =
     (case rc_route c of
        Validated \<Rightarrow>
          if rc_loop_exhausted c \<or> rc_bypass_state c \<noteq> NoBypassFound then Inl ''validated route requires no-bypass-found''
          else Inr c
      | LoopExhausted \<Rightarrow>
          if \<not> rc_loop_exhausted c \<or> rc_bypass_state c \<noteq> BypassFound
             \<or> rc_completed_iterations c \<noteq> rc_max_iterations c \<or> rc_max_iterations c \<noteq> 10
          then Inl ''loop-exhausted route requires bypass-found at 10 of 10 iterations'' else Inr c)"

record upstream_result_references =
  ref_defense_generation :: result_reference
  ref_mitigation_check :: result_reference
  ref_bypass_validation :: result_reference

section \<open>Upstream completions\<close>

datatype upstream_capability = CheckGeneration | DefenseGeneration | MitigationCheck | BypassValidation

definition capability_name :: "upstream_capability \<Rightarrow> string" where
  "capability_name c =
     (case c of CheckGeneration \<Rightarrow> ''check-generation'' | DefenseGeneration \<Rightarrow> ''defense-generation''
      | MitigationCheck \<Rightarrow> ''mitigation-check'' | BypassValidation \<Rightarrow> ''bypass-validation'')"

record upstream_input =
  up_capability :: upstream_capability
  up_contract_id :: string
  up_run_id :: string
  up_result_id :: string
  up_terminal_state :: string
  up_request_id :: "string option"
  up_correlation_id :: string
  up_result_ref :: result_reference
  up_evidence_refs :: "string list"
  up_content_sha256 :: "string option"
  up_size_bytes :: "nat option"
  up_created_at :: "nat option"

definition max_result_bytes :: nat where
  "max_result_bytes = 200 * 1024 * 1024"

definition upstream_input_fields :: "upstream_input \<Rightarrow> bool" where
  "upstream_input_fields i =
     (bounded_text 1 128 (up_contract_id i) \<and> bounded_text 1 255 (up_run_id i) \<and> bounded_text 1 512 (up_result_id i)
      \<and> bounded_text 1 128 (up_terminal_state i) \<and> bounded_text 1 255 (up_correlation_id i)
      \<and> pred_option (bounded_text 1 512) (up_request_id i) \<and> pred_option sha256_pattern (up_content_sha256 i)
      \<and> pred_option (\<lambda>n. 1 \<le> n \<and> n \<le> max_result_bytes) (up_size_bytes i))"

definition accepted_contracts :: "upstream_capability \<Rightarrow> string list" where
  "accepted_contracts c =
     (case c of DefenseGeneration \<Rightarrow> [''defense-generation@1.0'', ''defense-generation-result@1.0'']
      | MitigationCheck \<Rightarrow> [''mitigation-check@1.0'']
      | BypassValidation \<Rightarrow> [''capability-completion@1.0'', ''bypass-validation@1.0'']
      | CheckGeneration \<Rightarrow> [])"

definition expected_states :: "upstream_capability \<Rightarrow> string list" where
  "expected_states c =
     (case c of DefenseGeneration \<Rightarrow> [''candidate-produced''] | MitigationCheck \<Rightarrow> [''blocked'']
      | BypassValidation \<Rightarrow> [''no-bypass-found'', ''bypass-found''] | CheckGeneration \<Rightarrow> [])"

text \<open>Identity prefix, schema and table of a capability's results; the catalog is one for all.\<close>

definition approved_catalog :: string where
  "approved_catalog = ''36889_janus_dev''"

definition approved_reference :: "upstream_capability \<Rightarrow> string \<times> string \<times> string" where
  "approved_reference c =
     (case c of
        DefenseGeneration \<Rightarrow> (''defense-generation-result:'', ''defense_generation'', ''defense_generation_results'')
      | MitigationCheck \<Rightarrow> (''mitigation-check-result:'', ''mitigation-check'', ''mitigation_check'')
      | BypassValidation \<Rightarrow> (''bypass-validation-result:'', ''bypass_validation'', ''bypass_validation_results'')
      | CheckGeneration \<Rightarrow> (''check-generation-result:'', ''check_generation'', ''check_generation_results''))"

definition approved_table :: "upstream_capability \<Rightarrow> result_reference \<Rightarrow> bool" where
  "approved_table c r =
     (let (_, schema, table) = approved_reference c in
      ref_system r = Databricks \<longrightarrow>
        ref_catalog r = Some approved_catalog \<and> ref_schema r = Some schema \<and> ref_table r = Some table)"

definition validate_completion :: "upstream_input \<Rightarrow> upstream_input checked" where
  "validate_completion i =
     (let c = up_capability i; name = capability_name c in
      if up_contract_id i \<notin> set (accepted_contracts c) then Inl (''unsupported '' @ name @ '' completion contract'')
      else if up_terminal_state i \<notin> set (expected_states c) then Inl (''invalid '' @ name @ '' terminal state'')
      else if ref_key (up_result_ref i) \<noteq> up_result_id i then Inl ''result_ref.key must equal result_id''
      else if \<not> starts_with (up_result_id i) (fst (approved_reference c)) then Inl (name @ '' result_id has an invalid identity'')
      else if \<not> approved_table c (up_result_ref i) then Inl (name @ '' result_ref does not identify the approved table'')
      else if [] \<in> set (up_evidence_refs i) then Inl ''evidence references cannot be empty''
      else if \<not> distinct (up_evidence_refs i) then Inl ''evidence references must be unique''
      else if (up_content_sha256 i \<noteq> None \<or> up_size_bytes i \<noteq> None \<or> up_created_at i \<noteq> None)
              \<and> (up_request_id i = None \<or> up_content_sha256 i = None \<or> up_size_bytes i = None \<or> up_created_at i = None)
      then Inl ''strict upstream locator requires request_id, content_sha256, size_bytes, and created_at''
      else Inr i)"

definition is_strict_locator :: "upstream_input \<Rightarrow> bool" where
  "is_strict_locator i =
     (up_request_id i \<noteq> None \<and> up_content_sha256 i \<noteq> None \<and> up_size_bytes i \<noteq> None \<and> up_created_at i \<noteq> None)"

text \<open>The v2 locator has the same fields, all of them required.\<close>

definition v2_input_fields :: "upstream_input \<Rightarrow> bool" where
  "v2_input_fields i = (upstream_input_fields i \<and> is_strict_locator i)"

definition v2_expected :: "upstream_capability \<Rightarrow> string \<times> string" where
  "v2_expected c =
     (case c of CheckGeneration \<Rightarrow> (''check-generation@2.1'', ''completed'')
      | DefenseGeneration \<Rightarrow> (''defense-generation-result@1.0'', ''candidate-produced'')
      | MitigationCheck \<Rightarrow> (''mitigation-check@1.0'', ''blocked'')
      | BypassValidation \<Rightarrow> (''bypass-validation@2.0'', ''no-bypass-found''))"

definition validate_authenticated_locator :: "upstream_input \<Rightarrow> upstream_input checked" where
  "validate_authenticated_locator i =
     (let c = up_capability i; name = capability_name c in
      if (up_contract_id i, up_terminal_state i) \<noteq> v2_expected c then Inl (''unsupported '' @ name @ '' v2 completion'')
      else if \<not> starts_with (up_result_id i) (fst (approved_reference c)) then Inl (name @ '' result_id has an invalid identity'')
      else if ref_key (up_result_ref i) \<noteq> up_result_id i then Inl ''result_ref.key must equal result_id''
      else if \<not> approved_table c (up_result_ref i) then Inl (name @ '' result_ref does not identify the approved table'')
      else if [] \<in> set (up_evidence_refs i) then Inl ''evidence references cannot be empty''
      else if \<not> distinct (up_evidence_refs i) then Inl ''evidence references must be unique''
      else Inr i)"

section \<open>The invocation envelope\<close>

record invocation_subject =
  subj_vulnerability_id :: string
  subj_candidate_id :: string

record provenance =
  prov_caller :: "string option"
  prov_source :: "string option"

record request_envelope =
  env_contract_id :: "string option"
  env_input :: control_translation_request
  env_subject :: "invocation_subject option"
  env_upstream_inputs :: "upstream_input list option"
  env_routing_context :: "routing_context option"
  env_upstream_refs :: "upstream_result_references option"
  env_routing_metadata :: "routing_metadata option"
  env_scope_config :: "(string \<times> json) list"
  env_request_id :: "string option"
  env_correlation_id :: "string option"
  env_idempotency_key :: "string option"
  env_revision_id :: "string option"
  env_provenance :: "provenance option"
  env_callback_url :: "string option"

definition input_of :: "upstream_capability \<Rightarrow> upstream_input list \<Rightarrow> upstream_input option" where
  "input_of c is = find (\<lambda>i. up_capability i = c) (rev is)"

definition state_name :: "bypass_state \<Rightarrow> string" where
  "state_name s = (case s of NoBypassFound \<Rightarrow> ''no-bypass-found'' | BypassFound \<Rightarrow> ''bypass-found'')"

text \<open>The references and routing that a set of three completions and a routing context stand for.\<close>

definition normalized_references ::
  "upstream_input \<Rightarrow> upstream_input \<Rightarrow> upstream_input \<Rightarrow> upstream_result_references" where
  "normalized_references dg mc bv =
     \<lparr>ref_defense_generation = up_result_ref dg, ref_mitigation_check = up_result_ref mc,
      ref_bypass_validation = up_result_ref bv\<rparr>"

definition normalized_routing :: "routing_context \<Rightarrow> upstream_input \<Rightarrow> routing_metadata" where
  "normalized_routing c bv =
     \<lparr>loop_exhausted = rc_loop_exhausted c, completed_iterations = rc_completed_iterations c,
      max_iterations = rc_max_iterations c, bypass_terminal_state = rc_bypass_state c,
      bypass_result_ref = up_result_ref bv\<rparr>"

definition missing_orchestration_field :: "request_envelope \<Rightarrow> bool" where
  "missing_orchestration_field e =
     (env_contract_id e = None \<or> env_request_id e = None \<or> env_correlation_id e = None \<or> env_subject e = None
      \<or> env_upstream_inputs e = None \<or> env_routing_context e = None \<or> env_provenance e = None)"

text \<open>With three inputs of distinct capabilities all three are there; the last branch is never taken.\<close>

definition normalize_orchestration :: "request_envelope \<Rightarrow> request_envelope checked" where
  "normalize_orchestration e =
     (if missing_orchestration_field e
      then Inl ''orchestration requests require contract_id, request_id, correlation_id, subject, upstream_inputs, routing_context, and provenance''
      else
        let is = the (env_upstream_inputs e); c = the (env_routing_context e) in
        if length is \<noteq> 3 then Inl ''orchestration requests require exactly three upstream inputs''
        else if length (remdups (map up_capability is)) \<noteq> 3 then Inl ''orchestration upstream capabilities must be unique''
        else if list_ex is_strict_locator is \<and> \<not> list_all is_strict_locator is
        then Inl ''strict locator mode requires bounded metadata for all upstream inputs''
        else if list_ex (\<lambda>i. Some (up_correlation_id i) \<noteq> env_correlation_id e) is
        then Inl ''upstream correlation_id does not match command''
        else (case (input_of DefenseGeneration is, input_of MitigationCheck is, input_of BypassValidation is) of
            (Some dg, Some mc, Some bv) \<Rightarrow>
              if up_terminal_state bv \<noteq> state_name (rc_bypass_state c)
              then Inl ''routing bypass state does not match upstream completion''
              else bindR (validate_route (normalized_routing c bv)) (\<lambda>routing.
                if env_upstream_refs e \<noteq> None \<and> env_upstream_refs e \<noteq> Some (normalized_references dg mc bv)
                then Inl ''normalized upstream references do not match orchestration inputs''
                else if env_routing_metadata e \<noteq> None \<and> env_routing_metadata e \<noteq> Some routing
                then Inl ''normalized routing metadata does not match routing_context''
                else if env_idempotency_key e \<noteq> None \<and> env_idempotency_key e \<noteq> env_request_id e
                then Inl ''orchestration idempotency_key must equal request_id''
                else Inr (e\<lparr>env_upstream_refs := Some (normalized_references dg mc bv),
                            env_routing_metadata := Some routing, env_idempotency_key := env_request_id e\<rparr>))
          | _ \<Rightarrow> Inl ''missing capability''))"

definition check_reference_routing :: "request_envelope \<Rightarrow> request_envelope checked" where
  "check_reference_routing e =
     (case (env_upstream_refs e, env_routing_metadata e) of
        (None, Some _) \<Rightarrow> Inl ''routing_metadata requires authoritative upstream_result_refs''
      | (Some _, None) \<Rightarrow> Inl ''routing_metadata is required for referenced proof-loop invocation''
      | (Some refs, Some m) \<Rightarrow>
          if serialize_reference (bypass_result_ref m) \<noteq> serialize_reference (ref_bypass_validation refs)
          then Inl ''routing bypass reference must match upstream_result_refs.bypass_validation'' else Inr e
      | (None, None) \<Rightarrow> Inr e)"

definition locator_mode :: "request_envelope \<Rightarrow> bool" where
  "locator_mode e = (env_upstream_inputs e \<noteq> None \<or> env_routing_context e \<noteq> None)"

definition validate_reference_routing :: "request_envelope \<Rightarrow> request_envelope checked" where
  "validate_reference_routing e =
     bindR (if locator_mode e then normalize_orchestration e else Inr e) check_reference_routing"

text \<open>A whole envelope: the nested models are validated before it.\<close>

definition check_opt :: "('a \<Rightarrow> 'a checked) \<Rightarrow> 'a option \<Rightarrow> unit checked" where
  "check_opt f x = (case x of None \<Rightarrow> Inr () | Some a \<Rightarrow> bindR (f a) (\<lambda>_. Inr ()))"

definition validate_envelope :: "request_envelope \<Rightarrow> request_envelope checked" where
  "validate_envelope e =
     bindR (case env_upstream_inputs e of
              None \<Rightarrow> Inr []
            | Some is \<Rightarrow> mapR (\<lambda>i. bindR (validate_databricks_reference (up_result_ref i)) (\<lambda>_. validate_completion i)) is)
       (\<lambda>_. bindR (check_opt validate_routing_context (env_routing_context e))
       (\<lambda>_. bindR (check_opt validate_route (env_routing_metadata e))
       (\<lambda>_. validate_reference_routing e)))"

section \<open>The shared-contract request\<close>

datatype waf_profile = WafStandard1 | WafStandard2

record shared_v2_request =
  v2_profile_id :: waf_profile
  v2_request_id :: string
  v2_correlation_id :: string
  v2_upstream_inputs :: "upstream_input list"
  v2_target_context :: "target_context option"
  v2_provenance :: provenance

text \<open>The tuple has four members, each validated on its own.\<close>

definition validate_exact_join :: "shared_v2_request \<Rightarrow> shared_v2_request checked" where
  "validate_exact_join r =
     (if set (map up_capability (v2_upstream_inputs r)) \<noteq> {CheckGeneration, DefenseGeneration, MitigationCheck, BypassValidation}
      then Inl ''v2 requires exactly one CG, DG, MC, and BV locator''
      else if list_ex (\<lambda>i. up_correlation_id i \<noteq> v2_correlation_id r) (v2_upstream_inputs r)
      then Inl ''upstream correlation_id does not match command''
      else Inr r)"

definition validate_shared_v2 :: "shared_v2_request \<Rightarrow> shared_v2_request checked" where
  "validate_shared_v2 r =
     bindR (mapR validate_authenticated_locator (v2_upstream_inputs r))
       (\<lambda>_. if length (v2_upstream_inputs r) \<noteq> 4 then Inl ''upstream_inputs must have four members'' else validate_exact_join r)"

section \<open>A bypass result submitted directly\<close>

record direct_bypass_result =
  db_result_id :: string
  db_run_id :: string
  db_result_ref :: result_reference
  db_fingerprint_id :: string
  db_candidate_id :: string
  db_vulnerability_id :: string
  db_input_bindings :: "(string \<times> json) list"
  db_rejected_candidate_id :: string

definition direct_result_fields :: "direct_bypass_result \<Rightarrow> bool" where
  "direct_result_fields r =
     (starts_with (db_result_id r) ''bypass-validation-result:'' \<and> 25 < length (db_result_id r) \<and> db_run_id r \<noteq> []
      \<and> sha256_pattern (db_fingerprint_id r) \<and> db_candidate_id r \<noteq> [] \<and> db_vulnerability_id r \<noteq> []
      \<and> db_rejected_candidate_id r \<noteq> [])"

definition validate_direct_result :: "direct_bypass_result \<Rightarrow> direct_bypass_result checked" where
  "validate_direct_result r =
     (if ref_key (db_result_ref r) \<noteq> db_result_id r then Inl ''result_ref.key must equal result_id''
      else if db_run_id r \<noteq> removeprefix (db_result_id r) ''bypass-validation-result:''
      then Inl ''bypass result_id must derive from run_id''
      else (case get_or_null (db_input_bindings r) ''prior_mitigation_check'' of
          JObj prior \<Rightarrow>
            if get_or_null prior ''contract_id'' \<noteq> JStr ''mitigation-check@1.0''
            then Inl ''prior mitigation-check contract is unsupported''
            else if get_or_null prior ''terminal_state'' \<noteq> JStr ''blocked'' \<or> get_or_null prior ''match'' \<noteq> JBool True
            then Inl ''prior mitigation-check must be a matching blocked proof''
            else (case (get_or_null prior ''result_id'', get_or_null prior ''result_ref'') of
                (JStr rid, JObj ref) \<Rightarrow>
                  if get_or_null ref ''key'' \<noteq> JStr rid then Inl ''prior mitigation-check result reference is invalid''
                  else (case get_or_null prior ''correlation_id'' of
                      JStr corr \<Rightarrow>
                        if corr = [] then Inl ''prior mitigation-check correlation_id is required''
                        else if db_rejected_candidate_id r \<noteq> db_candidate_id r
                        then Inl ''feedback rejected candidate does not match subject''
                        else Inr r
                    | _ \<Rightarrow> Inl ''prior mitigation-check correlation_id is required'')
              | _ \<Rightarrow> Inl ''prior mitigation-check result reference is invalid'')
        | _ \<Rightarrow> Inl ''prior_mitigation_check is required''))"

datatype invocation_request = Envelope request_envelope | SharedV2 shared_v2_request

end
