(* ===== verification/Results.thy ===== *)
theory Results
  imports Requests
begin

text \<open>
  The result contract: the terminal states and their reason codes (\<^verbatim>\<open>terminal.py\<close>), the models
  of \<^verbatim>\<open>ControlTranslationResult\<close> and \<^verbatim>\<open>ResultEnvelope\<close> of
  \<^verbatim>\<open>contracts.py\<close> as records, and the validator of the shared-contract result. Fields whose
  values are free JSON are of type \<^typ>\<open>json\<close>.
\<close>

section \<open>Terminal states\<close>

datatype terminal_state = Translated | CannotExpress | InsufficientContext | ScopeDeclined | Malfunction

datatype reason_code =
    RTranslated | UnsupportedTargetTechnology | UnsupportedFeature | PolicyConflict | InsufficientPolicyContext
  | InsufficientPatternContext | InvalidInput | LoopExhaustedWithBypass | BypassFoundRequiresRegeneration
  | ProviderFailure | ResultAssemblyFailure

definition TERMINAL_STATE_PRECEDENCE :: "terminal_state list" where
  "TERMINAL_STATE_PRECEDENCE = [ScopeDeclined, InsufficientContext, CannotExpress, Malfunction, Translated]"

fun VALID_REASON_CODES_FOR_STATE :: "terminal_state \<Rightarrow> reason_code list" where
  "VALID_REASON_CODES_FOR_STATE Translated = [RTranslated]"
| "VALID_REASON_CODES_FOR_STATE CannotExpress = [UnsupportedTargetTechnology, UnsupportedFeature]"
| "VALID_REASON_CODES_FOR_STATE InsufficientContext = [InsufficientPolicyContext, InsufficientPatternContext]"
| "VALID_REASON_CODES_FOR_STATE ScopeDeclined =
     [InvalidInput, PolicyConflict, LoopExhaustedWithBypass, BypassFoundRequiresRegeneration]"
| "VALID_REASON_CODES_FOR_STATE Malfunction = [ProviderFailure, ResultAssemblyFailure]"

datatype result_status = Succeeded | Declined | Malfunctioned

fun TERMINAL_STATE_TO_STATUS :: "terminal_state \<Rightarrow> result_status" where
  "TERMINAL_STATE_TO_STATUS Translated = Succeeded"
| "TERMINAL_STATE_TO_STATUS Malfunction = Malfunctioned"
| "TERMINAL_STATE_TO_STATUS CannotExpress = Declined"
| "TERMINAL_STATE_TO_STATUS InsufficientContext = Declined"
| "TERMINAL_STATE_TO_STATUS ScopeDeclined = Declined"

definition terminal_state_value :: "terminal_state \<Rightarrow> string" where
  "terminal_state_value t =
     (case t of Translated \<Rightarrow> ''translated'' | CannotExpress \<Rightarrow> ''cannot-express''
      | InsufficientContext \<Rightarrow> ''insufficient-context'' | ScopeDeclined \<Rightarrow> ''scope-declined'' | Malfunction \<Rightarrow> ''malfunction'')"

section \<open>The structured result\<close>

record outcome_reason =
  reason_code :: reason_code
  reason_detail :: string

record implements_discriminator =
  source_discriminator_id :: string
  discriminator_translation :: string
  discriminator_justification :: string
  discriminator_evidence_refs :: "string list"

record placement =
  policy_section :: "string option"
  ordering_constraints :: "string list"
  conflict_notes :: "string list"

record collateral_impact_prior =
  prior_verdict :: string
  prior_confidence :: string
  prior_basis :: string
  prior_measured :: bool

record candidate_artifact =
  artifact_type :: string
  content_ref :: string
  content_hash :: string
  emitted_as :: string

record candidate_metadata =
  syntax_profile_id :: string
  syntax_profile_family :: string
  semantic_relationship :: "string option"

record primary_candidate =
  candidate_id :: string
  cand_control_class :: string
  cand_technology :: string
  cand_policy_context_id :: string
  cand_artifact :: candidate_artifact
  cand_discriminator :: implements_discriminator
  cand_placement :: placement
  cand_impact_prior :: collateral_impact_prior
  cand_assumptions :: "string list"
  cand_limitations :: "string list"
  cand_provenance :: "string list"
  cand_metadata :: "candidate_metadata option"

record evidence_binding =
  binding_claim :: string
  binding_evidence_refs :: "string list"

record bypass_counterexample =
  counterexample_id :: string
  counterexample_sample_ref :: string
  counterexample_variant_family :: string
  counterexample_observed_behavior :: string
  counterexample_evidence_refs :: "string list"

record proof_loop_qualification =
  qual_validated :: bool
  qual_bypass_cleared :: bool
  qual_loop_exhausted :: bool
  qual_completed_iterations :: nat
  qual_max_iterations :: nat
  qual_bypass_state :: bypass_state
  qual_bypass_ref :: result_reference

record result_subject =
  rs_vulnerability_id :: string
  rs_proven_pattern_id :: string
  rs_control_class :: string

record input_bindings =
  ib_target_technology :: string
  ib_policy_context_id :: string
  ib_poc_defaults_used :: bool
  ib_policy_snapshot_id :: "string option"
  ib_translation_policy_id :: string
  ib_proof_record_ids :: "string list"

record coverage_accounting =
  required_obligation_count :: nat
  accounted_obligation_count :: nat
  unaccounted_required_obligation_count :: nat
  source_member_count :: nat
  represented_source_member_count :: nat
  unsupported_source_member_count :: nat
  unaccounted_source_member_count :: nat
  required_work_item_count :: nat
  disposed_work_item_count :: nat
  unaccounted_required_work_item_count :: nat

text \<open>The booleans of the verification are literally true and its unaccounted count literally zero.\<close>

record pre_translation_verification =
  ptv_required_obligation_count :: nat
  ptv_dg_mapping_count :: nat
  ptv_mc_disposition_count :: nat
  ptv_bv_campaign_count :: nat

record target_artifact =
  ta_artifact_id :: string
  ta_source_artifact_id :: string
  ta_role :: string
  ta_kind :: string
  ta_order :: nat
  ta_artifact_type :: string
  ta_content :: string
  ta_content_hash :: string

record target_directive =
  td_directive_id :: string
  td_source_directive_id :: string
  td_target_artifact_id :: string
  td_kind :: string
  td_value :: string
  td_required :: bool

record translation_mapping =
  tm_obligation_id :: string
  tm_target_artifact_ids :: "string list"

definition validate_target_artifact_ids :: "string list \<Rightarrow> string list checked" where
  "validate_target_artifact_ids ids =
     (if [] \<in> set ids \<or> \<not> distinct ids then Inl ''target_artifact_ids must be nonempty and unique'' else Inr ids)"

record translation_result =
  res_contract_id :: string
  res_result_id :: string
  res_produced_at :: nat
  res_subject :: result_subject
  res_input_bindings :: input_bindings
  res_terminal_state :: terminal_state
  res_outcome_reason :: outcome_reason
  res_qualification :: "proof_loop_qualification option"
  res_counterexample :: "bypass_counterexample option"
  res_candidate :: "primary_candidate option"
  res_evidence_bindings :: "evidence_binding list"
  res_prose_summary :: string
  res_shared_version :: bool
  res_profile_id :: "waf_profile option"
  res_verification :: "pre_translation_verification option"
  res_accounting :: "coverage_accounting option"
  res_target_artifacts :: "target_artifact list"
  res_directives :: "target_directive list"
  res_mappings :: "translation_mapping list"

definition shared_waf_primary_artifact_id :: "string \<Rightarrow> string checked" where
  "shared_waf_primary_artifact_id hash =
     (let digest = removeprefix hash ''sha256:'' in
      if length digest \<noteq> 64 \<or> list_ex (\<lambda>c. c \<notin> set ''0123456789abcdef'') digest
      then Inl ''shared WAF primary artifact hash is invalid''
      else Inr (''akamai-rule-set-'' @ digest))"

text \<open>\<^verbatim>\<open>shared_contract_version\<close> is the literal 2.0 or absent: the field \<open>res_shared_version\<close>.\<close>

definition translated_output_complete :: "nat \<Rightarrow> string \<Rightarrow> translation_result \<Rightarrow> bool" where
  "translated_output_complete count primary r =
     (let child = map ta_artifact_id (res_target_artifacts r); ids = child @ [primary];
          obligations = map tm_obligation_id (res_mappings r)
      in distinct child \<and> length obligations = count \<and> distinct obligations
         \<and> list_all (\<lambda>m. list_all (\<lambda>a. a \<in> set ids) (tm_target_artifact_ids m)) (res_mappings r)
         \<and> list_all (\<lambda>d. td_target_artifact_id d \<in> set ids) (res_directives r))"

definition validate_v2_completeness :: "translation_result \<Rightarrow> translation_result checked" where
  "validate_v2_completeness r =
     (let output = (res_target_artifacts r \<noteq> [] \<or> res_directives r \<noteq> [] \<or> res_mappings r \<noteq> []) in
      if \<not> res_shared_version r
      then (if res_profile_id r \<noteq> None \<or> res_verification r \<noteq> None \<or> res_accounting r \<noteq> None \<or> output
            then Inl ''v2 result fields require shared_contract_version'' else Inr r)
      else (case (res_profile_id r, res_verification r, res_accounting r) of
          (Some _, Some v, Some a) \<Rightarrow>
            (let count = ptv_required_obligation_count v in
             if res_contract_id r \<noteq> ''control-translation@2.0''
             then Inl ''v2 result requires contract, profile, verification, and accounting''
             else if required_obligation_count a \<noteq> count \<or> accounted_obligation_count a \<noteq> count
                     \<or> unaccounted_required_obligation_count a \<noteq> 0
             then Inl ''v2 verification and accounting counts differ''
             else if res_terminal_state r \<noteq> Translated
             then (if output then Inl ''non-translated v2 result cannot contain partial output'' else Inr r)
             else (case res_candidate r of
                 None \<Rightarrow> Inl ''v2 translated output is incomplete or references absent artifacts''
               | Some cand \<Rightarrow>
                   bindR (shared_waf_primary_artifact_id (content_hash (cand_artifact cand))) (\<lambda>primary.
                     if translated_output_complete count primary r then Inr r
                     else Inl ''v2 translated output is incomplete or references absent artifacts'')))
        | _ \<Rightarrow> Inl ''v2 result requires contract, profile, verification, and accounting''))"

section \<open>The envelope\<close>

record result_ref =
  rr_result_id :: string
  rr_href :: string

record result_envelope =
  re_run_id :: string
  re_result_id :: string
  re_status :: result_status
  re_terminal_state :: terminal_state
  re_request_id :: "string option"
  re_correlation_id :: string
  re_result_ref :: result_ref
  re_upstream_refs :: "upstream_result_references option"
  re_structured :: translation_result
  re_prose :: string
  re_reference_bundle :: json
  re_provenance :: "string list"
  re_confidence :: json
  re_warnings :: "string list"
  re_trace :: "string list"
  re_inference :: json

definition validate_result_envelope :: "result_envelope \<Rightarrow> result_envelope checked" where
  "validate_result_envelope e = bindR (validate_v2_completeness (re_structured e)) (\<lambda>_. Inr e)"

end
