(* ===== verification/LifecycleStore.thy ===== *)
theory LifecycleStore
  imports Results Ordering
begin

text \<open>
  The durable run store of \<^verbatim>\<open>persistence/sqlite.py\<close> on the schema of
  \<^verbatim>\<open>persistence/migrations.py\<close>: the tables \<^verbatim>\<open>capability_run_lifecycle\<close> and
  \<^verbatim>\<open>callback_deliveries\<close> as lists of records in insertion order, and every operation of the repository as a function on the database.
  Each operation is one transaction, so an exception leaves the database unchanged.

  A timestamp is a natural number: the store writes and compares ISO 8601 texts in UTC, whose
  order is that of the instants. An operation takes the instant \<open>now\<close> its clock read. A
  comparison with a NULL column is false, as in SQL. A column that holds the JSON of a validated model
  holds the model itself, and one that holds other JSON the decoded value.
\<close>

section \<open>Rows\<close>

datatype run_status = Queued | Running | Completed | Failed | Canceled

datatype publication_state = PubNone | PubPrepared | PubPending | PubPublished

datatype delivery_status = Pending | Retry | Delivered | ConfigurationFailed

record callback_metadata =
  callback_url :: string
  callback_workflow_id :: string
  callback_signal :: string

record run_failure =
  failure_code :: string
  failure_detail :: string
  failure_retryable :: bool

text \<open>The staged output: the columns \<^verbatim>\<open>prepared_*\<close>, which are written together.\<close>

record prepared_publication =
  p_result_envelope :: result_envelope
  p_result :: json
  p_completion :: json
  p_request_hash :: string
  p_started_at :: nat
  p_result_id :: string
  p_terminal_state :: string

record lifecycle_row =
  l_run_id :: string
  l_request_id :: string
  l_correlation_id :: string
  l_idempotency_key :: string
  l_request_digest :: string
  l_request_json :: invocation_request
  l_status :: run_status
  l_terminal_state :: "string option"
  l_result_id :: "string option"
  l_result_json :: "json option"
  l_completion_json :: "json option"
  l_failure :: "run_failure option"
  l_progress_phase :: string
  l_progress_percent :: "nat option"
  l_progress_message :: string
  l_cancel_requested :: bool
  l_worker_id :: "string option"
  l_lease_expires_at :: "nat option"
  l_last_heartbeat_at :: "nat option"
  l_attempt_number :: nat
  l_created_at :: nat
  l_accepted_at :: nat
  l_started_at :: "nat option"
  l_updated_at :: nat
  l_completed_at :: "nat option"
  l_publication_state :: publication_state
  l_prepared :: "prepared_publication option"
  l_callback :: "callback_metadata option"

record delivery_row =
  d_event_id :: string
  d_run_id :: string
  d_callback :: callback_metadata
  d_capability :: string
  d_request_id :: string
  d_correlation_id :: string
  d_terminal_status :: run_status
  d_delivery_status :: delivery_status
  d_attempts :: nat
  d_next_attempt_at :: nat
  d_delivered_at :: "nat option"
  d_configuration_failed_at :: "nat option"
  d_last_status_code :: "nat option"
  d_last_error_category :: "string option"
  d_created_at :: nat
  d_updated_at :: nat

record database =
  lifecycle_rows :: "lifecycle_row list"
  delivery_rows :: "delivery_row list"

definition empty_database :: database where
  "empty_database = \<lparr>lifecycle_rows = [], delivery_rows = []\<rparr>"

datatype store_error = PersistenceError string | IdempotencyConflict string

type_synonym 'a outcome = "store_error + 'a"

section \<open>SQL\<close>

definition is_terminal :: "run_status \<Rightarrow> bool" where
  "is_terminal s = (s \<in> {Completed, Failed, Canceled})"

text \<open>\<open>before\<close> and \<open>reaches\<close>: a column below, and at or above, an instant.\<close>

definition before :: "nat option \<Rightarrow> nat \<Rightarrow> bool" where
  "before t now = (case t of None \<Rightarrow> False | Some x \<Rightarrow> x < now)"

definition reaches :: "nat option \<Rightarrow> nat \<Rightarrow> bool" where
  "reaches t now = (case t of None \<Rightarrow> False | Some x \<Rightarrow> now \<le> x)"

definition update_rows :: "(lifecycle_row \<Rightarrow> bool) \<Rightarrow> (lifecycle_row \<Rightarrow> lifecycle_row) \<Rightarrow> database \<Rightarrow> database" where
  "update_rows P f db = db\<lparr>lifecycle_rows := map (\<lambda>r. if P r then f r else r) (lifecycle_rows db)\<rparr>"

definition row_count :: "(lifecycle_row \<Rightarrow> bool) \<Rightarrow> database \<Rightarrow> nat" where
  "row_count P db = length (filter P (lifecycle_rows db))"

definition get_row :: "string \<Rightarrow> database \<Rightarrow> lifecycle_row option" where
  "get_row rid db = find (\<lambda>r. l_run_id r = rid) (lifecycle_rows db)"

section \<open>The callback outbox\<close>

definition callback_event_id :: "string \<Rightarrow> string" where
  "callback_event_id rid = ''control-translation:'' @ rid @ '':terminal:v1''"

definition outbox_record :: "nat \<Rightarrow> lifecycle_row \<Rightarrow> callback_metadata \<Rightarrow> delivery_row" where
  "outbox_record now r cb =
     \<lparr>d_event_id = callback_event_id (l_run_id r), d_run_id = l_run_id r, d_callback = cb,
      d_capability = ''control-translation'', d_request_id = l_request_id r,
      d_correlation_id = l_correlation_id r, d_terminal_status = l_status r, d_delivery_status = Pending,
      d_attempts = 0, d_next_attempt_at = now, d_delivered_at = None, d_configuration_failed_at = None,
      d_last_status_code = None, d_last_error_category = None, d_created_at = now, d_updated_at = now\<rparr>"

text \<open>\<^verbatim>\<open>INSERT OR IGNORE\<close>: a row whose event or run is already there is skipped.\<close>

definition insert_or_ignore :: "delivery_row \<Rightarrow> delivery_row list \<Rightarrow> delivery_row list" where
  "insert_or_ignore d ds =
     (if \<exists>e \<in> set ds. d_event_id e = d_event_id d \<or> d_run_id e = d_run_id d then ds else ds @ [d])"

definition outbox_insert :: "nat \<Rightarrow> string option \<Rightarrow> lifecycle_row \<Rightarrow> delivery_row list \<Rightarrow> delivery_row list" where
  "outbox_insert now rid r ds =
     (if is_terminal (l_status r) \<and> (rid = None \<or> rid = Some (l_run_id r))
      then (case l_callback r of None \<Rightarrow> ds | Some cb \<Rightarrow> insert_or_ignore (outbox_record now r cb) ds)
      else ds)"

fun outbox_from :: "nat \<Rightarrow> string option \<Rightarrow> lifecycle_row list \<Rightarrow> delivery_row list \<Rightarrow> delivery_row list" where
  "outbox_from now rid [] ds = ds"
| "outbox_from now rid (r # rs) ds = outbox_from now rid rs (outbox_insert now rid r ds)"

definition create_callback_outbox_records :: "nat \<Rightarrow> string option \<Rightarrow> database \<Rightarrow> database" where
  "create_callback_outbox_records now rid db =
     db\<lparr>delivery_rows := outbox_from now rid (lifecycle_rows db) (delivery_rows db)\<rparr>"

section \<open>Creation\<close>

definition invocation_request_id :: "invocation_request \<Rightarrow> string option" where
  "invocation_request_id q = (case q of Envelope e \<Rightarrow> env_request_id e | SharedV2 r \<Rightarrow> Some (v2_request_id r))"

definition invocation_correlation_id :: "invocation_request \<Rightarrow> string option" where
  "invocation_correlation_id q = (case q of Envelope e \<Rightarrow> env_correlation_id e | SharedV2 r \<Rightarrow> Some (v2_correlation_id r))"

definition new_row ::
  "nat \<Rightarrow> string \<Rightarrow> invocation_request \<Rightarrow> string \<Rightarrow> string \<Rightarrow> string \<Rightarrow> string \<Rightarrow> callback_metadata option \<Rightarrow> lifecycle_row" where
  "new_row now rid req request correlation key digest cb =
     \<lparr>l_run_id = rid, l_request_id = request, l_correlation_id = correlation,
      l_idempotency_key = key, l_request_digest = digest, l_request_json = req, l_status = Queued,
      l_terminal_state = None, l_result_id = None, l_result_json = None, l_completion_json = None,
      l_failure = None, l_progress_phase = ''queued'', l_progress_percent = None,
      l_progress_message = ''Translation is queued.'', l_cancel_requested = False, l_worker_id = None,
      l_lease_expires_at = None, l_last_heartbeat_at = None, l_attempt_number = 0, l_created_at = now,
      l_accepted_at = now, l_started_at = None, l_updated_at = now, l_completed_at = None,
      l_publication_state = PubNone, l_prepared = None, l_callback = cb\<rparr>"

text \<open>The branch for a key that is already bound.\<close>

definition rebind_run ::
  "nat \<Rightarrow> string \<Rightarrow> callback_metadata option \<Rightarrow> lifecycle_row \<Rightarrow> database
   \<Rightarrow> (lifecycle_row \<times> bool) outcome \<times> database" where
  "rebind_run now digest cb row db =
     (if l_request_digest row \<noteq> digest
      then (Inl (IdempotencyConflict ''Idempotency key is already bound to different input.''), db)
      else (case cb of
          None \<Rightarrow> (Inr (row, False), db)
        | Some submitted \<Rightarrow>
            if l_callback row = None then
              (let db = create_callback_outbox_records now (Some (l_run_id row))
                          (update_rows (\<lambda>r. l_run_id r = l_run_id row)
                             (\<lambda>r. r\<lparr>l_callback := Some submitted, l_updated_at := now\<rparr>) db)
               in (case get_row (l_run_id row) db of
                     Some row' \<Rightarrow> (Inr (row', False), db)
                   | None \<Rightarrow> (Inr (row, False), db)))
            else if l_callback row \<noteq> Some submitted
            then (Inl (IdempotencyConflict ''Idempotency key is already bound to different callback metadata.''), db)
            else (Inr (row, False), db)))"

text \<open>
  \<open>rid\<close> is the run id the call supplies or the fresh one it generates. The columns for the request
  and correlation id are NOT NULL and the run id is the primary key.
\<close>

definition create_lifecycle_run ::
  "nat \<Rightarrow> string \<Rightarrow> invocation_request \<Rightarrow> string \<Rightarrow> string \<Rightarrow> callback_metadata option \<Rightarrow> database
   \<Rightarrow> (lifecycle_row \<times> bool) outcome \<times> database" where
  "create_lifecycle_run now rid req key digest cb db =
     (case find (\<lambda>r. l_idempotency_key r = key) (lifecycle_rows db) of
        Some row \<Rightarrow> rebind_run now digest cb row db
      | None \<Rightarrow>
          (case (invocation_request_id req, invocation_correlation_id req) of
             (Some request, Some correlation) \<Rightarrow>
               if get_row rid db \<noteq> None then (Inl (PersistenceError ''Unable to create durable lifecycle run.''), db)
               else (let row = new_row now rid req request correlation key digest cb
                     in (Inr (row, True), db\<lparr>lifecycle_rows := lifecycle_rows db @ [row]\<rparr>))
           | _ \<Rightarrow> (Inl (PersistenceError ''Unable to create durable lifecycle run.''), db)))"

section \<open>Claiming\<close>

definition worker_attempts_exhausted :: run_failure where
  "worker_attempts_exhausted = \<lparr>failure_code = ''worker_attempts_exhausted'',
     failure_detail = ''Worker lease expired and the bounded attempt limit was reached.'',
     failure_retryable = False\<rparr>"

definition publication_attempts_exhausted :: run_failure where
  "publication_attempts_exhausted = \<lparr>failure_code = ''publication_attempts_exhausted'',
     failure_detail = ''Result publication could not be reconciled within the bounded attempt limit.'',
     failure_retryable = False\<rparr>"

text \<open>The columns every terminal update sets.\<close>

definition terminalize ::
  "nat \<Rightarrow> run_status \<Rightarrow> string \<Rightarrow> string \<Rightarrow> string \<Rightarrow> lifecycle_row \<Rightarrow> lifecycle_row" where
  "terminalize now status terminal phase msg r =
     r\<lparr>l_status := status, l_terminal_state := Some terminal, l_progress_phase := phase,
       l_progress_message := msg, l_completed_at := Some now, l_updated_at := now,
       l_worker_id := None, l_lease_expires_at := None\<rparr>"

definition publication_is_exhausted :: "nat \<Rightarrow> nat \<Rightarrow> lifecycle_row \<Rightarrow> bool" where
  "publication_is_exhausted now max_attempts r =
     (l_status r = Running \<and> l_publication_state r = PubPending \<and> before (l_lease_expires_at r) now
      \<and> max_attempts \<le> l_attempt_number r)"

definition fail_publication :: "nat \<Rightarrow> lifecycle_row \<Rightarrow> lifecycle_row" where
  "fail_publication now r =
     (terminalize now Failed ''malfunction'' ''failed'' ''Publication attempts exhausted.'' r)
       \<lparr>l_failure := Some publication_attempts_exhausted, l_publication_state := PubPrepared\<rparr>"

definition cancel_is_due :: "nat \<Rightarrow> lifecycle_row \<Rightarrow> bool" where
  "cancel_is_due now r =
     (l_status r = Running \<and> l_cancel_requested r \<and> l_publication_state r \<in> {PubNone, PubPrepared}
      \<and> before (l_lease_expires_at r) now)"

definition worker_is_exhausted :: "nat \<Rightarrow> nat \<Rightarrow> lifecycle_row \<Rightarrow> bool" where
  "worker_is_exhausted now max_attempts r =
     (l_status r = Running \<and> \<not> l_cancel_requested r \<and> l_publication_state r \<noteq> PubPending
      \<and> before (l_lease_expires_at r) now \<and> max_attempts \<le> l_attempt_number r)"

definition expire_runs :: "nat \<Rightarrow> nat \<Rightarrow> database \<Rightarrow> database" where
  "expire_runs now max_attempts db =
     create_callback_outbox_records now None
       (update_rows (worker_is_exhausted now max_attempts)
          (\<lambda>r. (terminalize now Failed ''malfunction'' ''failed'' ''Worker attempts exhausted.'' r)
                  \<lparr>l_failure := Some worker_attempts_exhausted\<rparr>)
       (update_rows (cancel_is_due now)
          (terminalize now Canceled ''canceled'' ''canceled'' ''Cancellation completed after worker lease expiry.'')
       (update_rows (publication_is_exhausted now max_attempts) (fail_publication now) db)))"

definition claimable :: "nat \<Rightarrow> nat \<Rightarrow> lifecycle_row \<Rightarrow> bool" where
  "claimable now max_attempts r =
     (l_publication_state r = PubPending \<and> l_status r = Running \<and> before (l_lease_expires_at r) now
        \<and> l_attempt_number r < max_attempts
      \<or> \<not> l_cancel_requested r \<and> l_attempt_number r < max_attempts
        \<and> (l_status r = Queued \<or> l_status r = Running \<and> before (l_lease_expires_at r) now))"

text \<open>\<^verbatim>\<open>ORDER BY created_at, run_id LIMIT 1\<close>, texts by code point.\<close>

definition claimed_first :: "lifecycle_row \<Rightarrow> lifecycle_row \<Rightarrow> bool" where
  "claimed_first a b =
     (l_created_at a < l_created_at b \<or> l_created_at a = l_created_at b \<and> text_less_eq (l_run_id a) (l_run_id b))"

fun first_row :: "lifecycle_row list \<Rightarrow> lifecycle_row option" where
  "first_row [] = None"
| "first_row (r # rs) =
     (case first_row rs of None \<Rightarrow> Some r | Some s \<Rightarrow> Some (if claimed_first r s then r else s))"

definition take_lease :: "nat \<Rightarrow> string \<Rightarrow> nat \<Rightarrow> lifecycle_row \<Rightarrow> lifecycle_row" where
  "take_lease now worker lease_seconds r =
     r\<lparr>l_status := Running, l_worker_id := Some worker, l_lease_expires_at := Some (now + lease_seconds),
       l_last_heartbeat_at := Some now, l_attempt_number := l_attempt_number r + 1,
       l_started_at := Some (case l_started_at r of Some t \<Rightarrow> t | None \<Rightarrow> now), l_updated_at := now,
       l_progress_phase := ''translating'', l_progress_message := ''Translation is running.''\<rparr>"

definition claim_guard :: "nat \<Rightarrow> string \<Rightarrow> lifecycle_row \<Rightarrow> bool" where
  "claim_guard now rid r =
     (l_run_id r = rid \<and> (\<not> l_cancel_requested r \<or> l_publication_state r = PubPending)
      \<and> (l_status r = Queued \<or> before (l_lease_expires_at r) now))"

definition claim_lifecycle_run ::
  "nat \<Rightarrow> string \<Rightarrow> nat \<Rightarrow> nat \<Rightarrow> database \<Rightarrow> lifecycle_row option \<times> database" where
  "claim_lifecycle_run now worker lease_seconds max_attempts db =
     (let expired = expire_runs now max_attempts db in
      case first_row (filter (claimable now max_attempts) (lifecycle_rows expired)) of
        None \<Rightarrow> (None, expired)
      | Some row \<Rightarrow>
          if row_count (claim_guard now (l_run_id row)) expired \<noteq> 1 then (None, db)
          else (let claimed = update_rows (claim_guard now (l_run_id row)) (take_lease now worker lease_seconds) expired
                in (get_row (l_run_id row) claimed, claimed)))"

section \<open>Fenced updates\<close>

text \<open>The row of a run that a worker's attempt holds.\<close>

definition holds :: "string \<Rightarrow> string \<Rightarrow> nat \<Rightarrow> lifecycle_row \<Rightarrow> bool" where
  "holds rid worker attempt r =
     (l_run_id r = rid \<and> l_status r = Running \<and> l_worker_id r = Some worker \<and> l_attempt_number r = attempt)"

definition heartbeat_lifecycle_run ::
  "nat \<Rightarrow> string \<Rightarrow> string \<Rightarrow> nat \<Rightarrow> nat \<Rightarrow> database \<Rightarrow> bool \<times> database" where
  "heartbeat_lifecycle_run now rid worker attempt lease_seconds db =
     (row_count (holds rid worker attempt) db = 1,
      update_rows (holds rid worker attempt)
        (\<lambda>r. r\<lparr>l_lease_expires_at := Some (now + lease_seconds), l_last_heartbeat_at := Some now, l_updated_at := now\<rparr>) db)"

definition prepare_guard :: "nat \<Rightarrow> string \<Rightarrow> string \<Rightarrow> nat \<Rightarrow> lifecycle_row \<Rightarrow> bool" where
  "prepare_guard now rid worker attempt r =
     (holds rid worker attempt r \<and> \<not> l_cancel_requested r \<and> l_publication_state r = PubNone
      \<and> reaches (l_lease_expires_at r) now)"

definition prepare_lifecycle_publication ::
  "nat \<Rightarrow> string \<Rightarrow> string \<Rightarrow> nat \<Rightarrow> prepared_publication \<Rightarrow> database \<Rightarrow> bool \<times> database" where
  "prepare_lifecycle_publication now rid worker attempt staged db =
     (row_count (prepare_guard now rid worker attempt) db = 1,
      update_rows (prepare_guard now rid worker attempt)
        (\<lambda>r. r\<lparr>l_publication_state := PubPrepared, l_prepared := Some staged, l_progress_phase := ''publishing'',
               l_progress_message := ''Result is prepared for durable publication.'', l_updated_at := now\<rparr>) db)"

record staged_publication =
  staged_request :: invocation_request
  staged_output :: prepared_publication
  staged_state :: publication_state

definition get_prepared_publication :: "string \<Rightarrow> database \<Rightarrow> staged_publication option outcome" where
  "get_prepared_publication rid db =
     (case get_row rid db of
        None \<Rightarrow> Inr None
      | Some r \<Rightarrow>
          if l_publication_state r = PubNone then Inr None
          else (case l_prepared r of
                  None \<Rightarrow> Inl (PersistenceError ''Prepared result publication failed validation.'')
                | Some p \<Rightarrow> Inr (Some \<lparr>staged_request = l_request_json r, staged_output = p,
                                        staged_state = l_publication_state r\<rparr>)))"

definition begin_guard :: "nat \<Rightarrow> string \<Rightarrow> string \<Rightarrow> nat \<Rightarrow> lifecycle_row \<Rightarrow> bool" where
  "begin_guard now rid worker attempt r =
     (holds rid worker attempt r \<and> \<not> l_cancel_requested r \<and> l_publication_state r = PubPrepared
      \<and> reaches (l_lease_expires_at r) now)"

definition begin_lifecycle_publication ::
  "nat \<Rightarrow> string \<Rightarrow> string \<Rightarrow> nat \<Rightarrow> database \<Rightarrow> bool \<times> database" where
  "begin_lifecycle_publication now rid worker attempt db =
     (if row_count (begin_guard now rid worker attempt) db = 0
      then (case find (\<lambda>r. holds rid worker attempt r \<and> reaches (l_lease_expires_at r) now) (lifecycle_rows db) of
              None \<Rightarrow> False | Some r \<Rightarrow> l_publication_state r = PubPending, db)
      else (True,
            update_rows (begin_guard now rid worker attempt)
              (\<lambda>r. r\<lparr>l_publication_state := PubPending, l_updated_at := now,
                     l_progress_message := ''Result publication is pending verification.''\<rparr>) db))"

section \<open>Terminal updates\<close>

definition cancel_on_complete :: "string \<Rightarrow> string \<Rightarrow> nat \<Rightarrow> lifecycle_row \<Rightarrow> bool" where
  "cancel_on_complete rid worker attempt r =
     (holds rid worker attempt r \<and> l_cancel_requested r \<and> l_publication_state r \<noteq> PubPending)"

definition complete_guard :: "nat \<Rightarrow> string \<Rightarrow> string \<Rightarrow> nat \<Rightarrow> lifecycle_row \<Rightarrow> bool" where
  "complete_guard now rid worker attempt r =
     (holds rid worker attempt r \<and> l_result_json r = None
      \<and> (\<not> l_cancel_requested r \<or> l_publication_state r = PubPending) \<and> reaches (l_lease_expires_at r) now)"

definition complete_row :: "nat \<Rightarrow> json \<Rightarrow> json \<Rightarrow> string \<Rightarrow> string \<Rightarrow> lifecycle_row \<Rightarrow> lifecycle_row" where
  "complete_row now res completion result_id terminal r =
     (terminalize now Completed terminal ''completed'' ''Translation completed.'' r)
       \<lparr>l_result_id := Some result_id, l_result_json := Some res, l_completion_json := Some completion,
        l_progress_percent := Some 100,
        l_publication_state := (if l_publication_state r = PubPending then PubPublished else l_publication_state r)\<rparr>"

text \<open>
  The column \<^verbatim>\<open>result_id\<close> is unique: a completion with the result id of another run is an
  integrity error.
\<close>

definition complete_lifecycle_run ::
  "nat \<Rightarrow> string \<Rightarrow> string \<Rightarrow> nat \<Rightarrow> json \<Rightarrow> json \<Rightarrow> string \<Rightarrow> string \<Rightarrow> database \<Rightarrow> bool outcome \<times> database" where
  "complete_lifecycle_run now rid worker attempt res completion result_id terminal db =
     (if row_count (cancel_on_complete rid worker attempt) db = 1
      then (Inr False, create_callback_outbox_records now (Some rid)
              (update_rows (cancel_on_complete rid worker attempt)
                 (terminalize now Canceled ''canceled'' ''canceled'' ''Cancellation completed.'') db))
      else if row_count (complete_guard now rid worker attempt) db \<noteq> 0
              \<and> (\<exists>r \<in> set (lifecycle_rows db). l_run_id r \<noteq> rid \<and> l_result_id r = Some result_id)
      then (Inl (PersistenceError ''Unable to complete durable lifecycle run.''), db)
      else (let db' = update_rows (complete_guard now rid worker attempt)
                        (complete_row now res completion result_id terminal) db
            in if row_count (complete_guard now rid worker attempt) db = 1
               then (Inr True, create_callback_outbox_records now (Some rid) db')
               else (Inr False, db')))"

definition fail_guard :: "nat \<Rightarrow> string \<Rightarrow> string \<Rightarrow> nat \<Rightarrow> lifecycle_row \<Rightarrow> bool" where
  "fail_guard now rid worker attempt r =
     (holds rid worker attempt r \<and> (l_publication_state r \<noteq> PubPending \<or> reaches (l_lease_expires_at r) now))"

definition fail_row :: "nat \<Rightarrow> run_failure \<Rightarrow> json option \<Rightarrow> lifecycle_row \<Rightarrow> lifecycle_row" where
  "fail_row now failure res r =
     (let pending = (l_publication_state r = PubPending); canceled = (\<not> pending \<and> l_cancel_requested r) in
      (terminalize now (if canceled then Canceled else Failed) (if canceled then ''canceled'' else ''malfunction'')
         (if canceled then ''canceled'' else ''failed'')
         (if canceled then ''Cancellation completed.'' else failure_detail failure) r)
       \<lparr>l_failure := (if canceled then None else Some failure), l_result_json := (if canceled then None else res),
        l_completion_json := (if pending then None else l_completion_json r),
        l_publication_state := (if pending then PubPrepared else l_publication_state r)\<rparr>)"

definition fail_lifecycle_run ::
  "nat \<Rightarrow> string \<Rightarrow> string \<Rightarrow> nat \<Rightarrow> run_failure \<Rightarrow> json option \<Rightarrow> database \<Rightarrow> bool \<times> database" where
  "fail_lifecycle_run now rid worker attempt failure res db =
     (let db' = update_rows (fail_guard now rid worker attempt) (fail_row now failure res) db in
      if row_count (fail_guard now rid worker attempt) db = 1
      then (True, create_callback_outbox_records now (Some rid) db')
      else (False, db'))"

definition cancel_row :: "nat \<Rightarrow> lifecycle_row \<Rightarrow> lifecycle_row" where
  "cancel_row now r =
     (case l_status r of
        Queued \<Rightarrow>
          r\<lparr>l_status := Canceled, l_terminal_state := Some ''canceled'', l_cancel_requested := True,
            l_progress_phase := ''canceled'', l_progress_message := ''Run canceled before execution.'',
            l_completed_at := Some now, l_updated_at := now\<rparr>
      | Running \<Rightarrow>
          if l_publication_state r \<in> {PubNone, PubPrepared}
          then (terminalize now Canceled ''canceled'' ''canceled'' ''Cancellation completed.'' r)\<lparr>l_cancel_requested := True\<rparr>
          else if l_publication_state r = PubPending
          then r\<lparr>l_cancel_requested := True, l_progress_message :=
                   ''Cancellation arrived after publication began; canonical completion is pending.'',
                 l_updated_at := now\<rparr>
          else r
      | _ \<Rightarrow> r)"

definition cancel_lifecycle_run :: "nat \<Rightarrow> string \<Rightarrow> database \<Rightarrow> lifecycle_row option \<times> database" where
  "cancel_lifecycle_run now rid db =
     (case get_row rid db of
        None \<Rightarrow> (None, db)
      | Some _ \<Rightarrow>
          (let db' = create_callback_outbox_records now (Some rid) (update_rows (\<lambda>r. l_run_id r = rid) (cancel_row now) db)
           in (get_row rid db', db')))"

section \<open>Reading a run\<close>

record run_progress =
  progress_phase :: string
  progress_percent :: "nat option"
  progress_message :: string

text \<open>The public status of a run; its completion is the stored JSON.\<close>

record capability_run_status =
  s_request_id :: string
  s_correlation_id :: string
  s_run_id :: string
  s_status :: run_status
  s_terminal_state :: "string option"
  s_result_id :: "string option"
  s_created_at :: nat
  s_started_at :: "nat option"
  s_updated_at :: nat
  s_completed_at :: "nat option"
  s_progress :: run_progress
  s_failure :: "run_failure option"
  s_completion :: "json option"

record lifecycle_run =
  run_request :: invocation_request
  run_status_view :: capability_run_status
  run_request_digest :: string
  run_cancel_requested :: bool
  run_worker_id :: "string option"
  run_attempt_number :: nat
  run_publication_state :: publication_state
  run_callback :: "callback_metadata option"

definition lifecycle_from_row :: "lifecycle_row \<Rightarrow> lifecycle_run" where
  "lifecycle_from_row r =
     (let terminal_without_publication = (l_status r \<in> {Failed, Canceled}) in
      \<lparr>run_request = l_request_json r,
       run_status_view =
         \<lparr>s_request_id = l_request_id r, s_correlation_id = l_correlation_id r, s_run_id = l_run_id r,
          s_status = l_status r, s_terminal_state = l_terminal_state r,
          s_result_id = (if terminal_without_publication then None else l_result_id r),
          s_created_at = l_created_at r, s_started_at = l_started_at r, s_updated_at = l_updated_at r,
          s_completed_at = l_completed_at r,
          s_progress = \<lparr>progress_phase = l_progress_phase r, progress_percent = l_progress_percent r,
                        progress_message = l_progress_message r\<rparr>,
          s_failure = l_failure r,
          s_completion = (if terminal_without_publication then None else l_completion_json r)\<rparr>,
       run_request_digest = l_request_digest r, run_cancel_requested = l_cancel_requested r,
       run_worker_id = l_worker_id r, run_attempt_number = l_attempt_number r,
       run_publication_state = l_publication_state r, run_callback = l_callback r\<rparr>)"

definition get_lifecycle_run :: "string \<Rightarrow> database \<Rightarrow> lifecycle_run option" where
  "get_lifecycle_run rid db = map_option lifecycle_from_row (get_row rid db)"

definition get_lifecycle_result :: "string \<Rightarrow> database \<Rightarrow> json option" where
  "get_lifecycle_result rid db = Option.bind (get_row rid db) l_result_json"

section \<open>Callback deliveries\<close>

definition undelivered :: "delivery_row \<Rightarrow> bool" where
  "undelivered d = (d_delivery_status d \<in> {Pending, Retry})"

definition due_first :: "delivery_row \<Rightarrow> delivery_row \<Rightarrow> bool" where
  "due_first a b =
     (d_next_attempt_at a < d_next_attempt_at b \<or> d_next_attempt_at a = d_next_attempt_at b \<and>
        (d_created_at a < d_created_at b \<or>
         d_created_at a = d_created_at b \<and> text_less_eq (d_event_id a) (d_event_id b)))"

fun insert_due :: "delivery_row \<Rightarrow> delivery_row list \<Rightarrow> delivery_row list" where
  "insert_due d [] = [d]"
| "insert_due d (e # es) = (if due_first d e then d # e # es else e # insert_due d es)"

definition list_due_callback_deliveries :: "nat \<Rightarrow> nat \<Rightarrow> database \<Rightarrow> delivery_row list" where
  "list_due_callback_deliveries now lim db =
     take lim (foldr insert_due (filter (\<lambda>d. undelivered d \<and> d_next_attempt_at d \<le> now) (delivery_rows db)) [])"

definition update_delivery :: "string \<Rightarrow> (delivery_row \<Rightarrow> delivery_row) \<Rightarrow> database \<Rightarrow> database" where
  "update_delivery event f db =
     db\<lparr>delivery_rows := map (\<lambda>d. if d_event_id d = event \<and> undelivered d then f d else d) (delivery_rows db)\<rparr>"

definition mark_callback_delivered :: "string \<Rightarrow> nat \<Rightarrow> nat \<Rightarrow> database \<Rightarrow> database" where
  "mark_callback_delivered event delivered_at status_code =
     update_delivery event (\<lambda>d. d\<lparr>d_delivery_status := Delivered, d_attempts := d_attempts d + 1,
       d_delivered_at := Some delivered_at, d_last_status_code := Some status_code,
       d_last_error_category := None, d_updated_at := delivered_at\<rparr>)"

definition reschedule_callback_delivery ::
  "nat \<Rightarrow> string \<Rightarrow> nat \<Rightarrow> nat \<Rightarrow> nat option \<Rightarrow> string \<Rightarrow> database \<Rightarrow> database" where
  "reschedule_callback_delivery now event attempts next_attempt status_code category =
     update_delivery event (\<lambda>d. d\<lparr>d_delivery_status := Retry, d_attempts := attempts,
       d_next_attempt_at := next_attempt, d_last_status_code := status_code,
       d_last_error_category := Some category, d_updated_at := now\<rparr>)"

definition mark_callback_configuration_failed ::
  "string \<Rightarrow> nat \<Rightarrow> nat \<Rightarrow> nat option \<Rightarrow> string \<Rightarrow> database \<Rightarrow> database" where
  "mark_callback_configuration_failed event attempts failed_at status_code category =
     update_delivery event (\<lambda>d. d\<lparr>d_delivery_status := ConfigurationFailed, d_attempts := attempts,
       d_configuration_failed_at := Some failed_at, d_last_status_code := status_code,
       d_last_error_category := Some category, d_updated_at := failed_at\<rparr>)"

end
