(* ===== verification/Callbacks.thy ===== *)
theory Callbacks
  imports LifecycleStore Json
begin

text \<open>
  Terminal callbacks, \<^verbatim>\<open>callbacks.py\<close>: validation of the submission headers, with the part of
  \<^verbatim>\<open>urllib.parse.urlsplit\<close> it reads, the wake-up payload, and the dispatcher that works off
  the outbox through the \<^verbatim>\<open>CallbackRepository\<close> protocol, which is a record of operations here.

  The HTTP client is an argument: what it returns, or the transport error it raises, for a delivery.
  A response carries its body decoded (\<open>None\<close> when \<^verbatim>\<open>json.loads\<close> raises) and its header
  values as \<^verbatim>\<open>float\<close> and \<^verbatim>\<open>parsedate_to_datetime\<close> read them. A duration is in
  the clock's unit, and \<open>jittered\<close> is the product of a delay in seconds with the jitter factor.
\<close>

section \<open>urlsplit\<close>

record split_url =
  u_scheme :: string
  u_netloc :: string
  u_fragment :: string

datatype callback_error = CallbackValidationError string | ValueError string

definition scheme_char :: "char \<Rightarrow> bool" where
  "scheme_char c = (is_ascii_alnum c \<or> c \<in> set ''+-.'')"

text \<open>Leading control characters and blanks go, tabs and line breaks go everywhere.\<close>

definition clean_url :: "string \<Rightarrow> string" where
  "clean_url url = filter (\<lambda>c. c \<notin> {CHR 0x09, CHR 0x0A, CHR 0x0D}) (dropWhile (\<lambda>c. ord_c c \<le> 32) url)"

definition split_scheme :: "string \<Rightarrow> string \<times> string" where
  "split_scheme url =
     (let (s, rest) = partition_c url CHR '':'' in
      if CHR '':'' \<in> set url \<and> s \<noteq> [] \<and> is_ascii_alpha (hd s) \<and> list_all scheme_char s
      then (py_lower s, rest) else ([], url))"

definition netloc_end :: "char \<Rightarrow> bool" where
  "netloc_end c = (c \<in> {CHR 0x2F, CHR 0x3F, CHR 0x23})"

definition split_netloc :: "string \<Rightarrow> string \<times> string" where
  "split_netloc url =
     (if take 2 url = ''//'' then (takeWhile (\<lambda>c. \<not> netloc_end c) (drop 2 url), dropWhile (\<lambda>c. \<not> netloc_end c) (drop 2 url))
      else ([], url))"

text \<open>\<open>bracketed_ok\<close> stands for the check of a bracketed address literal.\<close>

definition urlsplit :: "(string \<Rightarrow> bool) \<Rightarrow> string \<Rightarrow> callback_error + split_url" where
  "urlsplit bracketed_ok url =
     (let (scheme, rest) = split_scheme (clean_url url); (netloc, tail) = split_netloc rest in
      if (CHR ''['' \<in> set netloc) \<noteq> (CHR '']'' \<in> set netloc) then Inl (ValueError ''Invalid IPv6 URL'')
      else if CHR ''['' \<in> set netloc \<and> \<not> bracketed_ok netloc then Inl (ValueError ''Invalid IPv6 URL'')
      else Inr \<lparr>u_scheme = scheme, u_netloc = netloc, u_fragment = snd (partition_c tail CHR ''#'')\<rparr>)"

text \<open>What \<^verbatim>\<open>rpartition('@')\<close> leaves on the right, and the host in it.\<close>

definition host_info :: "string \<Rightarrow> string" where
  "host_info netloc = rev (takeWhile (\<lambda>c. c \<noteq> CHR ''@'') (rev netloc))"

definition hostname :: "split_url \<Rightarrow> string option" where
  "hostname u =
     (let info = host_info (u_netloc u);
          host = (if CHR ''['' \<in> set info then fst (partition_c (snd (partition_c info CHR ''['')) CHR '']'')
                  else fst (partition_c info CHR '':''));
          name = fst (partition_c host CHR ''%'')
      in if host = [] then None else Some (py_lower name @ drop (length name) host))"

text \<open>A netloc with an at sign has a user name, so either credential is there exactly then.\<close>

definition has_credentials :: "split_url \<Rightarrow> bool" where
  "has_credentials u = (CHR ''@'' \<in> set (u_netloc u))"

section \<open>Submission headers\<close>

definition CALLBACK_SIGNAL :: string where "CALLBACK_SIGNAL = ''janus.capability-completion.v1''"

definition CALLBACK_CAPABILITY :: string where "CALLBACK_CAPABILITY = ''control-translation''"

text \<open>Header names are lowered; of equal names the last one counts.\<close>

definition header :: "(string \<times> string option) list \<Rightarrow> string \<Rightarrow> string option" where
  "header hs name =
     (case map_of (rev (map (\<lambda>(k, v). (py_lower k, v)) hs)) name of None \<Rightarrow> None | Some v \<Rightarrow> v)"

definition missing :: "string option \<Rightarrow> bool" where
  "missing v = (case v of None \<Rightarrow> True | Some s \<Rightarrow> strip s = [])"

definition check_callback ::
  "(string \<Rightarrow> bool) \<Rightarrow> string list \<Rightarrow> string \<Rightarrow> string \<Rightarrow> string \<Rightarrow> callback_error + callback_metadata" where
  "check_callback bracketed_ok allowed_hosts url workflow signal =
     bindR (urlsplit bracketed_ok url) (\<lambda>parsed.
       let hosts = map (\<lambda>h. py_lower (strip h)) (filter (\<lambda>h. strip h \<noteq> []) allowed_hosts) in
       if py_lower (u_scheme parsed) \<noteq> ''https'' \<or> hostname parsed = None \<or> has_credentials parsed \<or> u_fragment parsed \<noteq> []
       then Inl (CallbackValidationError ''Callback URL must be an HTTPS URL without credentials or a fragment.'')
       else if 2048 < length url then Inl (CallbackValidationError ''Callback URL is too long.'')
       else if 255 < length workflow then Inl (CallbackValidationError ''Callback workflow ID is too long.'')
       else if hosts \<noteq> [] \<and> py_lower (the (hostname parsed)) \<notin> set hosts
       then Inl (CallbackValidationError ''Callback URL hostname is not allowlisted.'')
       else if signal \<noteq> CALLBACK_SIGNAL
       then Inl (CallbackValidationError (''Callback signal must be exactly '' @ [squote] @ CALLBACK_SIGNAL @ [squote] @ ''.''))
       else Inr \<lparr>callback_url = url, callback_workflow_id = workflow, callback_signal = signal\<rparr>)"

definition callback_metadata_from_headers ::
  "(string \<Rightarrow> bool) \<Rightarrow> string list \<Rightarrow> (string \<times> string option) list \<Rightarrow> callback_error + callback_metadata option" where
  "callback_metadata_from_headers bracketed_ok allowed_hosts headers =
     (let url = header headers ''x-janus-callback-url'';
          workflow = header headers ''x-janus-callback-workflow-id'';
          signal = header headers ''x-janus-callback-signal''
      in if url = None \<and> workflow = None \<and> signal = None then Inr None
         else if missing url \<or> missing workflow \<or> missing signal
         then Inl (CallbackValidationError ''Callback headers must include URL, workflow ID, and signal together.'')
         else bindR (check_callback bracketed_ok allowed_hosts (strip (the url)) (strip (the workflow)) (strip (the signal)))
                (\<lambda>cb. Inr (Some cb)))"

definition callback_terminal_status :: "string \<Rightarrow> string" where
  "callback_terminal_status result_status = (if result_status = ''malfunction'' then ''failed'' else ''completed'')"

section \<open>Deliveries\<close>

record callback_delivery =
  event_id :: string
  delivery_url :: string
  delivery_workflow_id :: string
  delivery_signal :: string
  capability :: string
  request_id :: string
  correlation_id :: string
  run_id :: string
  terminal_status :: run_status
  attempts :: nat
  next_attempt_at :: nat

definition callback_delivery_from_row :: "delivery_row \<Rightarrow> callback_delivery" where
  "callback_delivery_from_row d =
     \<lparr>event_id = d_event_id d, delivery_url = callback_url (d_callback d),
      delivery_workflow_id = callback_workflow_id (d_callback d), delivery_signal = callback_signal (d_callback d),
      capability = d_capability d, request_id = d_request_id d, correlation_id = d_correlation_id d,
      run_id = d_run_id d, terminal_status = d_terminal_status d, attempts = d_attempts d,
      next_attempt_at = d_next_attempt_at d\<rparr>"

definition callback_payload :: "callback_delivery \<Rightarrow> json" where
  "callback_payload d =
     JObj [(''workflow_id'', JStr (delivery_workflow_id d)),
           (''wakeup'', JObj [(''event_id'', JStr (event_id d)), (''capability'', JStr (capability d)),
                              (''request_id'', JStr (request_id d)), (''correlation_id'', JStr (correlation_id d)),
                              (''run_id'', JStr (run_id d))])]"

text \<open>
  A header value: a number of seconds as \<^verbatim>\<open>float\<close> reads it (an infinite one apart), else an
  instant as \<^verbatim>\<open>parsedate_to_datetime\<close> reads it, else neither.
\<close>

datatype header_value = Seconds int | Infinite | Instant int | Unreadable

record http_response =
  status_code :: nat
  body :: "json option"
  headers :: "(string \<times> header_value) list"

datatype dispatch_error = OverflowError

record 'db callback_repository =
  list_due :: "nat \<Rightarrow> nat \<Rightarrow> 'db \<Rightarrow> callback_delivery list"
  mark_delivered :: "string \<Rightarrow> nat \<Rightarrow> nat \<Rightarrow> 'db \<Rightarrow> 'db"
  reschedule_delivery :: "string \<Rightarrow> nat \<Rightarrow> nat \<Rightarrow> nat option \<Rightarrow> string \<Rightarrow> 'db \<Rightarrow> 'db"
  mark_configuration_failed :: "string \<Rightarrow> nat \<Rightarrow> nat \<Rightarrow> nat option \<Rightarrow> string \<Rightarrow> 'db \<Rightarrow> 'db"

section \<open>The dispatcher\<close>

definition RETRYABLE_STATUS_CODES :: "nat list" where
  "RETRYABLE_STATUS_CODES = [408, 425, 429, 500, 502, 503, 504]"

definition CONFIGURATION_FAILURE_STATUS_CODES :: "nat list" where
  "CONFIGURATION_FAILURE_STATUS_CODES = [400, 401, 404, 415]"

definition RETRY_DELAYS_SECONDS :: "nat list" where
  "RETRY_DELAYS_SECONDS = [5, 15, 30, 60, 300]"

definition STEADY_RETRY_DELAY_SECONDS :: nat where
  "STEADY_RETRY_DELAY_SECONDS = 900"

definition accepted_response :: "json option \<Rightarrow> string \<Rightarrow> bool" where
  "accepted_response content expected =
     (case content of
        Some (JObj kvs) \<Rightarrow> set (keys kvs) = {''event_id'', ''status''}
          \<and> get kvs ''event_id'' = Some (JStr expected) \<and> get kvs ''status'' = Some (JStr ''accepted'')
      | _ \<Rightarrow> False)"

text \<open>The delay a response asks for: \<open>None\<close> when it names none, else seconds or the infinite one.\<close>

datatype delay = Finite nat | Unbounded

definition retry_after :: "(string \<times> header_value) list \<Rightarrow> nat \<Rightarrow> delay option" where
  "retry_after hs now =
     (case find (\<lambda>(name, v). py_lower name = ''retry-after'') hs of
        None \<Rightarrow> None
      | Some (_, Seconds s) \<Rightarrow> Some (Finite (nat s))
      | Some (_, Infinite) \<Rightarrow> Some Unbounded
      | Some (_, Instant t) \<Rightarrow> Some (Finite (nat (t - int now)))
      | Some (_, Unreadable) \<Rightarrow> None)"

definition base_delay :: "nat \<Rightarrow> nat" where
  "base_delay tries =
     (let i = min (tries - 1) (length RETRY_DELAYS_SECONDS)
      in if i < length RETRY_DELAYS_SECONDS then RETRY_DELAYS_SECONDS ! i else STEADY_RETRY_DELAY_SECONDS)"

text \<open>
  What the dispatcher is configured with. Instants end at \<open>last_instant\<close>
  (\<^verbatim>\<open>datetime.max\<close>): a later one is an \<^verbatim>\<open>OverflowError\<close>.
\<close>

record dispatcher =
  token :: "string option"
  batch_size :: nat
  jittered :: "nat \<Rightarrow> nat"
  last_instant :: nat

definition retry ::
  "'db callback_repository \<Rightarrow> dispatcher \<Rightarrow> callback_delivery \<Rightarrow> nat \<Rightarrow> nat \<Rightarrow> nat option \<Rightarrow> string \<Rightarrow> delay option
   \<Rightarrow> 'db \<Rightarrow> dispatch_error + 'db" where
  "retry repo cfg d tries now code category after db =
     (case (case after of None \<Rightarrow> Finite (jittered cfg (base_delay tries)) | Some x \<Rightarrow> x) of
        Unbounded \<Rightarrow> Inl OverflowError
      | Finite seconds \<Rightarrow>
          if last_instant cfg < now + seconds then Inl OverflowError
          else Inr (reschedule_delivery repo (event_id d) tries (now + seconds) code category db))"

text \<open>A missing or empty token is a configuration failure before anything is sent.\<close>

definition deliver ::
  "'db callback_repository \<Rightarrow> dispatcher \<Rightarrow> (callback_delivery \<Rightarrow> string + http_response) \<Rightarrow> nat
   \<Rightarrow> callback_delivery \<Rightarrow> 'db \<Rightarrow> dispatch_error + 'db" where
  "deliver repo cfg post now d db =
     (let tries = attempts d + 1 in
      if token cfg = None \<or> token cfg = Some []
      then Inr (mark_configuration_failed repo (event_id d) tries now None ''missing-callback-token'' db)
      else (case post d of
          Inl exc \<Rightarrow> retry repo cfg d tries now None (''network-'' @ py_lower exc) None db
        | Inr response \<Rightarrow>
            if status_code response = 202 \<and> accepted_response (body response) (event_id d)
            then Inr (mark_delivered repo (event_id d) now (status_code response) db)
            else if status_code response \<in> set RETRYABLE_STATUS_CODES \<or> status_code response = 202
            then retry repo cfg d tries now (Some (status_code response))
                   (if status_code response = 202 then ''invalid-accepted-response'' else ''retryable-http-status'')
                   (retry_after (headers response) now) db
            else Inr (mark_configuration_failed repo (event_id d) tries now (Some (status_code response))
                   (if status_code response \<in> set CONFIGURATION_FAILURE_STATUS_CODES
                    then ''callback-configuration-http-status'' else ''non-retryable-http-status'') db)))"

text \<open>
  The loop over a batch. An error ends it with the database reached so far: the deliveries behind
  the one that raised it are not tried.
\<close>

fun deliver_all ::
  "'db callback_repository \<Rightarrow> dispatcher \<Rightarrow> (callback_delivery \<Rightarrow> string + http_response) \<Rightarrow> nat
   \<Rightarrow> callback_delivery list \<Rightarrow> 'db \<Rightarrow> dispatch_error option \<times> 'db" where
  "deliver_all repo cfg post now [] db = (None, db)"
| "deliver_all repo cfg post now (d # ds) db =
     (case deliver repo cfg post now d db of
        Inl e \<Rightarrow> (Some e, db)
      | Inr db' \<Rightarrow> deliver_all repo cfg post now ds db')"

definition deliver_due ::
  "'db callback_repository \<Rightarrow> dispatcher \<Rightarrow> (callback_delivery \<Rightarrow> string + http_response) \<Rightarrow> nat
   \<Rightarrow> 'db \<Rightarrow> (dispatch_error + nat) \<times> 'db" where
  "deliver_due repo cfg post now db =
     (let ds = list_due repo now (batch_size cfg) db in
      case deliver_all repo cfg post now ds db of
        (None, db') \<Rightarrow> (Inr (length ds), db')
      | (Some e, db') \<Rightarrow> (Inl e, db'))"

section \<open>The store as the dispatcher's repository\<close>

text \<open>\<open>clock\<close> is the instant the store's own clock reads when a delivery is put off.\<close>

definition sqlite_callbacks :: "nat \<Rightarrow> database callback_repository" where
  "sqlite_callbacks clock =
     \<lparr>list_due = (\<lambda>now lim db. map callback_delivery_from_row (list_due_callback_deliveries now lim db)),
      mark_delivered = mark_callback_delivered,
      reschedule_delivery = reschedule_callback_delivery clock,
      mark_configuration_failed = mark_callback_configuration_failed\<rparr>"

end
