(* ===== verification/LifecycleFacts.thy ===== *)
theory LifecycleFacts
  imports LifecycleStore
begin

text \<open>
  The facts the run store's operations share: rows under an SQL update, the outbox under an
  insertion, the well-formedness of a row, and the executions of the store as a step relation over
  all its operations with arbitrary arguments and clocks.
\<close>

section \<open>Reading and updating rows\<close>

lemma lifecycle_rows_update [simp]:
  "lifecycle_rows (update_rows P f db) = map (\<lambda>r. if P r then f r else r) (lifecycle_rows db)"
  by (simp add: update_rows_def)

lemma delivery_rows_update [simp]: "delivery_rows (update_rows P f db) = delivery_rows db"
  by (simp add: update_rows_def)

lemma lifecycle_rows_outbox [simp]:
  "lifecycle_rows (create_callback_outbox_records now rid db) = lifecycle_rows db"
  by (simp add: create_callback_outbox_records_def)

lemma get_row_outbox [simp]: "get_row rid (create_callback_outbox_records now sel db) = get_row rid db"
  by (simp add: get_row_def)

lemma row_count_outbox [simp]: "row_count P (create_callback_outbox_records now sel db) = row_count P db"
  by (simp add: row_count_def)

lemma find_map_keeps:
  "(\<And>x. P (g x) = P x) \<Longrightarrow> find P (map g xs) = map_option g (find P xs)"
  by (induction xs) auto

lemma get_row_update:
  assumes "\<And>r. l_run_id (f r) = l_run_id r"
  shows "get_row rid (update_rows P f db) = map_option (\<lambda>r. if P r then f r else r) (get_row rid db)"
  unfolding get_row_def by (simp, rule find_map_keeps) (simp add: assms)

lemma get_rowD: "get_row rid db = Some r \<Longrightarrow> r \<in> set (lifecycle_rows db) \<and> l_run_id r = rid"
  by (auto simp: get_row_def find_Some_iff)

lemma get_row_None: "get_row rid db = None \<longleftrightarrow> (\<forall>r \<in> set (lifecycle_rows db). l_run_id r \<noteq> rid)"
  by (auto simp: get_row_def find_None_iff)

text \<open>Run ids are unique, as the primary key demands.\<close>

definition unique_runs :: "database \<Rightarrow> bool" where
  "unique_runs db = distinct (map l_run_id (lifecycle_rows db))"

lemma unique_runs_update:
  "(\<And>r. l_run_id (f r) = l_run_id r) \<Longrightarrow> unique_runs (update_rows P f db) = unique_runs db"
  unfolding unique_runs_def by (simp add: if_distrib comp_def cong: if_cong)

lemma unique_runsD:
  "\<lbrakk>unique_runs db; r \<in> set (lifecycle_rows db); s \<in> set (lifecycle_rows db); l_run_id r = l_run_id s\<rbrakk> \<Longrightarrow> r = s"
  unfolding unique_runs_def by (auto simp: distinct_map inj_on_def)

lemma get_row_unique:
  assumes "unique_runs db"
  shows "get_row rid db = Some r \<longleftrightarrow> r \<in> set (lifecycle_rows db) \<and> l_run_id r = rid"
proof
  assume r: "r \<in> set (lifecycle_rows db) \<and> l_run_id r = rid"
  then obtain s where s: "get_row rid db = Some s" using get_row_None [of rid db] by (cases "get_row rid db") auto
  then show "get_row rid db = Some r" using r unique_runsD [OF assms, of s r] get_rowD [OF s] by simp
qed (rule get_rowD)

lemma row_count_zero: "row_count P db = 0 \<longleftrightarrow> (\<forall>r \<in> set (lifecycle_rows db). \<not> P r)"
  by (auto simp: row_count_def filter_empty_conv)

lemma update_rows_none: "(\<And>r. r \<in> set (lifecycle_rows db) \<Longrightarrow> \<not> P r) \<Longrightarrow> update_rows P f db = db"
  unfolding update_rows_def by (simp add: map_idI)

text \<open>An update of one run touches at most one row.\<close>

lemma row_count_one:
  assumes "unique_runs db" and "\<And>r. P r \<Longrightarrow> l_run_id r = rid"
  shows "row_count P db = (case get_row rid db of None \<Rightarrow> 0 | Some r \<Rightarrow> if P r then 1 else 0)"
proof (cases "get_row rid db")
  case None
  then have "\<forall>r \<in> set (lifecycle_rows db). \<not> P r" using assms(2) get_row_None by blast
  then show ?thesis using None row_count_zero by simp
next
  case (Some r)
  have only: "s = r" if "s \<in> set (lifecycle_rows db)" "P s" for s
    using that assms get_rowD [OF Some] unique_runsD by metis
  have dist: "distinct (lifecycle_rows db)" using assms(1) unfolding unique_runs_def by (simp add: distinct_map)
  show ?thesis
  proof (cases "P r")
    case True
    then have "set (filter P (lifecycle_rows db)) = {r}" using only get_rowD [OF Some] by auto
    then have "length (filter P (lifecycle_rows db)) = 1"
      using distinct_card [of "filter P (lifecycle_rows db)"] dist by simp
    then show ?thesis using Some True by (simp add: row_count_def)
  next
    case False
    then have "\<forall>s \<in> set (lifecycle_rows db). \<not> P s" using only by blast
    then show ?thesis using Some False row_count_zero by simp
  qed
qed

section \<open>Well-formed rows\<close>

text \<open>The columns that no operation writes after the insertion.\<close>

definition same_run :: "lifecycle_row \<Rightarrow> lifecycle_row \<Rightarrow> bool" where
  "same_run r s =
     (l_run_id s = l_run_id r \<and> l_request_id s = l_request_id r \<and> l_correlation_id s = l_correlation_id r
      \<and> l_idempotency_key s = l_idempotency_key r \<and> l_request_digest s = l_request_digest r
      \<and> l_request_json s = l_request_json r \<and> l_created_at s = l_created_at r \<and> l_accepted_at s = l_accepted_at r)"

text \<open>No outcome is recorded.\<close>

definition no_outcome :: "lifecycle_row \<Rightarrow> bool" where
  "no_outcome r =
     (l_terminal_state r = None \<and> l_result_id r = None \<and> l_result_json r = None \<and> l_completion_json r = None
      \<and> l_failure r = None \<and> l_completed_at r = None)"

text \<open>What each status promises of the other columns.\<close>

definition status_ok :: "lifecycle_row \<Rightarrow> bool" where
  "status_ok r =
     (case l_status r of
        Queued \<Rightarrow> no_outcome r \<and> l_publication_state r = PubNone \<and> \<not> l_cancel_requested r
          \<and> l_attempt_number r = 0 \<and> l_started_at r = None
      | Running \<Rightarrow> no_outcome r \<and> l_publication_state r \<noteq> PubPublished
          \<and> (l_cancel_requested r \<longrightarrow> l_publication_state r = PubPending)
          \<and> 0 < l_attempt_number r \<and> l_started_at r \<noteq> None
      | Completed \<Rightarrow> l_terminal_state r \<noteq> None \<and> l_result_id r \<noteq> None \<and> l_result_json r \<noteq> None
          \<and> l_completion_json r \<noteq> None \<and> l_failure r = None \<and> l_completed_at r \<noteq> None
          \<and> l_publication_state r \<noteq> PubPending \<and> (l_cancel_requested r \<longrightarrow> l_publication_state r = PubPublished)
      | Failed \<Rightarrow> l_terminal_state r = Some ''malfunction'' \<and> l_result_id r = None
          \<and> l_completion_json r = None \<and> l_failure r \<noteq> None \<and> l_completed_at r \<noteq> None
          \<and> l_publication_state r \<in> {PubNone, PubPrepared}
      | Canceled \<Rightarrow> l_terminal_state r = Some ''canceled'' \<and> l_result_id r = None \<and> l_result_json r = None
          \<and> l_completion_json r = None \<and> l_failure r = None \<and> l_completed_at r \<noteq> None
          \<and> l_publication_state r \<in> {PubNone, PubPrepared} \<and> l_cancel_requested r)"

definition row_ok :: "nat \<Rightarrow> lifecycle_row \<Rightarrow> bool" where
  "row_ok max_attempts r =
     (status_ok r \<and> l_attempt_number r \<le> max_attempts
      \<and> (l_publication_state r = PubNone \<longleftrightarrow> l_prepared r = None)
      \<and> (l_status r = Running \<longleftrightarrow> l_worker_id r \<noteq> None)
      \<and> (l_status r = Running \<longleftrightarrow> l_lease_expires_at r \<noteq> None))"

lemmas row_defs = row_ok_def status_ok_def no_outcome_def

lemma same_run_refl [simp]: "same_run r r"
  by (simp add: same_run_def)

lemma new_row_ok: "row_ok m (new_row now rid req q c key digest cb)"
  by (simp add: row_defs new_row_def)

lemma bind_row_ok: "row_ok m r \<Longrightarrow> row_ok m (r\<lparr>l_callback := cb, l_updated_at := t\<rparr>)"
  by (cases "l_status r") (auto simp: row_defs)

lemma fail_publication_ok:
  "\<lbrakk>row_ok m r; publication_is_exhausted now k r\<rbrakk> \<Longrightarrow> row_ok m (fail_publication now r)"
  by (auto simp: row_defs publication_is_exhausted_def fail_publication_def terminalize_def)

lemma expired_cancel_ok:
  "\<lbrakk>row_ok m r; cancel_is_due now r\<rbrakk> \<Longrightarrow> row_ok m (terminalize now Canceled ''canceled'' phase msg r)"
  by (auto simp: row_defs cancel_is_due_def terminalize_def)

lemma worker_exhausted_ok:
  "\<lbrakk>row_ok m r; worker_is_exhausted now k r\<rbrakk>
   \<Longrightarrow> row_ok m ((terminalize now Failed ''malfunction'' phase msg r)\<lparr>l_failure := Some failure\<rparr>)"
  by (cases "l_publication_state r") (auto simp: row_defs worker_is_exhausted_def terminalize_def)

lemma take_lease_ok:
  "\<lbrakk>row_ok m r; l_status r = Queued \<or> l_status r = Running; l_attempt_number r < m\<rbrakk>
   \<Longrightarrow> row_ok m (take_lease now worker lease r)"
  by (auto simp: row_defs take_lease_def)

lemma heartbeat_row_ok:
  "\<lbrakk>row_ok m r; holds rid worker attempt r\<rbrakk>
   \<Longrightarrow> row_ok m (r\<lparr>l_lease_expires_at := Some t, l_last_heartbeat_at := Some now, l_updated_at := now\<rparr>)"
  by (auto simp: row_defs holds_def)

lemma prepare_row_ok:
  "\<lbrakk>row_ok m r; prepare_guard now rid worker attempt r\<rbrakk>
   \<Longrightarrow> row_ok m (r\<lparr>l_publication_state := PubPrepared, l_prepared := Some staged, l_progress_phase := ph,
                    l_progress_message := msg, l_updated_at := now\<rparr>)"
  by (auto simp: row_defs prepare_guard_def holds_def)

lemma begin_row_ok:
  "\<lbrakk>row_ok m r; begin_guard now rid worker attempt r\<rbrakk>
   \<Longrightarrow> row_ok m (r\<lparr>l_publication_state := PubPending, l_updated_at := now, l_progress_message := msg\<rparr>)"
  by (auto simp: row_defs begin_guard_def holds_def)

lemma complete_row_ok:
  "\<lbrakk>row_ok m r; complete_guard now rid worker attempt r\<rbrakk>
   \<Longrightarrow> row_ok m (complete_row now res completion result_id terminal r)"
  by (auto simp: row_defs complete_guard_def holds_def complete_row_def terminalize_def)

text \<open>A run that is running and asked to cancel is publishing, so this branch is never taken.\<close>

lemma cancel_on_complete_dead: "row_ok m r \<Longrightarrow> \<not> cancel_on_complete rid worker attempt r"
  by (auto simp: row_defs cancel_on_complete_def holds_def)

lemma fail_row_ok:
  "\<lbrakk>row_ok m r; fail_guard now rid worker attempt r\<rbrakk> \<Longrightarrow> row_ok m (fail_row now failure res r)"
  by (cases "l_publication_state r")
    (auto simp: row_defs fail_guard_def holds_def fail_row_def terminalize_def Let_def)

lemma cancel_row_ok: "row_ok m r \<Longrightarrow> row_ok m (cancel_row now r)"
  by (cases "l_status r"; cases "l_publication_state r") (auto simp: row_defs cancel_row_def terminalize_def)

section \<open>The callback outbox\<close>

text \<open>A delivery row tells of a terminal run that has callback metadata.\<close>

definition announces :: "lifecycle_row \<Rightarrow> delivery_row \<Rightarrow> bool" where
  "announces r d =
     (is_terminal (l_status r) \<and> l_callback r = Some (d_callback d) \<and> d_run_id d = l_run_id r
      \<and> d_terminal_status d = l_status r \<and> d_request_id d = l_request_id r
      \<and> d_correlation_id d = l_correlation_id r \<and> d_event_id d = callback_event_id (l_run_id r))"

definition owes_callback :: "lifecycle_row \<Rightarrow> bool" where
  "owes_callback r = (is_terminal (l_status r) \<and> l_callback r \<noteq> None)"

definition selected :: "string option \<Rightarrow> string \<Rightarrow> bool" where
  "selected sel rid = (sel = None \<or> sel = Some rid)"

lemma callback_event_id_inject: "callback_event_id a = callback_event_id b \<longleftrightarrow> a = b"
  by (simp add: callback_event_id_def)

lemma announces_record:
  "\<lbrakk>is_terminal (l_status r); l_callback r = Some cb\<rbrakk> \<Longrightarrow> announces r (outbox_record now r cb)"
  by (simp add: announces_def outbox_record_def)

lemma outbox_record_keys [simp]:
  "d_run_id (outbox_record now r cb) = l_run_id r"
  "d_event_id (outbox_record now r cb) = callback_event_id (l_run_id r)"
  by (simp_all add: outbox_record_def)

lemma outbox_insert_cases:
  "outbox_insert now sel r ds = ds
   \<or> (\<exists>cb. is_terminal (l_status r) \<and> l_callback r = Some cb
        \<and> outbox_insert now sel r ds = insert_or_ignore (outbox_record now r cb) ds)"
  by (auto simp: outbox_insert_def split: option.splits)

lemma outbox_insert_owed:
  "\<lbrakk>owes_callback r; selected sel (l_run_id r)\<rbrakk>
   \<Longrightarrow> \<exists>cb. outbox_insert now sel r ds = insert_or_ignore (outbox_record now r cb) ds"
  by (auto simp: outbox_insert_def owes_callback_def selected_def)

text \<open>The rows an outbox pass starts from stay, and a new row announces one of the runs.\<close>

lemma outbox_insert_keeps: "set ds \<subseteq> set (outbox_insert now sel r ds)"
  using outbox_insert_cases [of now sel r ds] by (auto simp: insert_or_ignore_def)

lemma outbox_from_keeps: "set ds \<subseteq> set (outbox_from now sel rs ds)"
  by (induction rs arbitrary: ds) (simp, metis outbox_from.simps(2) outbox_insert_keeps subset_trans)

lemma outbox_insert_announces:
  "d \<in> set (outbox_insert now sel r ds) \<Longrightarrow> d \<in> set ds \<or> announces r d"
  using outbox_insert_cases [of now sel r ds] announces_record
  by (auto simp: insert_or_ignore_def split: if_splits)

lemma outbox_from_announces:
  "d \<in> set (outbox_from now sel rs ds) \<Longrightarrow> d \<in> set ds \<or> (\<exists>r \<in> set rs. announces r d)"
  by (induction rs arbitrary: ds) (auto dest: outbox_insert_announces)

lemma insert_or_ignore_distinct:
  "distinct (map d_run_id ds) \<Longrightarrow> distinct (map d_run_id (insert_or_ignore d ds))"
  by (auto simp: insert_or_ignore_def)

lemma outbox_from_distinct:
  "distinct (map d_run_id ds) \<Longrightarrow> distinct (map d_run_id (outbox_from now sel rs ds))"
proof (induction rs arbitrary: ds)
  case (Cons r rs)
  have "distinct (map d_run_id (outbox_insert now sel r ds))"
    using outbox_insert_cases [of now sel r ds] Cons.prems insert_or_ignore_distinct by metis
  then show ?case using Cons.IH by simp
qed simp

definition keyed :: "delivery_row list \<Rightarrow> bool" where
  "keyed ds = (\<forall>d \<in> set ds. d_event_id d = callback_event_id (d_run_id d))"

lemma insert_or_ignore_keyed:
  "\<lbrakk>keyed ds; d_event_id d = callback_event_id (d_run_id d)\<rbrakk> \<Longrightarrow> keyed (insert_or_ignore d ds)"
  by (auto simp: insert_or_ignore_def keyed_def)

lemma insert_or_ignore_covers:
  "\<lbrakk>keyed ds; d_event_id d = callback_event_id (d_run_id d)\<rbrakk>
   \<Longrightarrow> \<exists>e \<in> set (insert_or_ignore d ds). d_run_id e = d_run_id d"
  by (auto simp: insert_or_ignore_def keyed_def callback_event_id_inject)

lemma outbox_insert_keyed: "keyed ds \<Longrightarrow> keyed (outbox_insert now sel r ds)"
  using outbox_insert_cases [of now sel r ds] insert_or_ignore_keyed by (metis outbox_record_keys)

lemma outbox_from_complete:
  assumes "keyed ds" and "r \<in> set rs" and "owes_callback r" and "selected sel (l_run_id r)"
  shows "\<exists>d \<in> set (outbox_from now sel rs ds). d_run_id d = l_run_id r"
  using assms
proof (induction rs arbitrary: ds)
  case (Cons s rs)
  show ?case
  proof (cases "r = s")
    case True
    then obtain cb where "outbox_insert now sel s ds = insert_or_ignore (outbox_record now s cb) ds"
      using outbox_insert_owed Cons.prems(3,4) by blast
    then have "\<exists>e \<in> set (outbox_insert now sel s ds). d_run_id e = l_run_id r"
      using insert_or_ignore_covers [OF Cons.prems(1), of "outbox_record now s cb"] True by simp
    then show ?thesis using outbox_from_keeps [of "outbox_insert now sel s ds" now sel rs] by auto
  next
    case False
    then show ?thesis using Cons.IH [OF outbox_insert_keyed [OF Cons.prems(1)] _ Cons.prems(3,4)] Cons.prems(2) by simp
  qed
qed simp

end
