(* ===== verification/LifecycleSteps.thy ===== *)
theory LifecycleSteps
  imports LifecycleFacts
begin

text \<open>
  Executions of the run store: the step relation over all its operations, with arbitrary arguments
  and arbitrary clock readings, and the invariant that every reachable database has.
\<close>

section \<open>The invariant\<close>

definition unique_keys :: "database \<Rightarrow> bool" where
  "unique_keys db = distinct (map l_idempotency_key (lifecycle_rows db))"

definition unique_results :: "database \<Rightarrow> bool" where
  "unique_results db =
     (\<forall>r \<in> set (lifecycle_rows db). \<forall>s \<in> set (lifecycle_rows db).
        l_result_id r \<noteq> None \<and> l_result_id r = l_result_id s \<longrightarrow> l_run_id r = l_run_id s)"

lemma unique_resultsD:
  "\<lbrakk>unique_results db; r \<in> set (lifecycle_rows db); s \<in> set (lifecycle_rows db);
    l_result_id r = Some i; l_result_id s = Some i\<rbrakk> \<Longrightarrow> l_run_id r = l_run_id s"
  unfolding unique_results_def by (drule (1) bspec, drule (1) bspec) simp

lemma unique_resultsI:
  "(\<And>r s i. \<lbrakk>r \<in> set (lifecycle_rows db); s \<in> set (lifecycle_rows db); l_result_id r = Some i; l_result_id s = Some i\<rbrakk>
     \<Longrightarrow> l_run_id r = l_run_id s) \<Longrightarrow> unique_results db"
  unfolding unique_results_def by (intro ballI impI) (metis not_None_eq)

text \<open>\<open>owing S\<close>: the invariant, except that the runs of \<open>S\<close> may lack their delivery row.\<close>

definition owing :: "string set \<Rightarrow> nat \<Rightarrow> database \<Rightarrow> bool" where
  "owing S m db =
     ((\<forall>r \<in> set (lifecycle_rows db). row_ok m r)
      \<and> unique_runs db \<and> unique_keys db \<and> unique_results db
      \<and> distinct (map d_run_id (delivery_rows db))
      \<and> (\<forall>d \<in> set (delivery_rows db). \<exists>r \<in> set (lifecycle_rows db). announces r d)
      \<and> (\<forall>r \<in> set (lifecycle_rows db). owes_callback r \<and> l_run_id r \<notin> S
            \<longrightarrow> (\<exists>d \<in> set (delivery_rows db). d_run_id d = l_run_id r)))"

definition database_ok :: "nat \<Rightarrow> database \<Rightarrow> bool" where
  "database_ok m db = owing {} m db"

lemma owingD:
  assumes "owing S m db"
  shows "\<And>r. r \<in> set (lifecycle_rows db) \<Longrightarrow> row_ok m r" and "unique_runs db" and "unique_keys db"
    and "unique_results db" and "distinct (map d_run_id (delivery_rows db))"
    and "\<And>d. d \<in> set (delivery_rows db) \<Longrightarrow> \<exists>r \<in> set (lifecycle_rows db). announces r d"
    and "\<And>r. \<lbrakk>r \<in> set (lifecycle_rows db); owes_callback r; l_run_id r \<notin> S\<rbrakk>
          \<Longrightarrow> \<exists>d \<in> set (delivery_rows db). d_run_id d = l_run_id r"
  using assms unfolding owing_def by blast+

lemma owingI:
  assumes "\<And>r. r \<in> set (lifecycle_rows db) \<Longrightarrow> row_ok m r" and "unique_runs db" and "unique_keys db"
    and "unique_results db" and "distinct (map d_run_id (delivery_rows db))"
    and "\<And>d. d \<in> set (delivery_rows db) \<Longrightarrow> \<exists>r \<in> set (lifecycle_rows db). announces r d"
    and "\<And>r. \<lbrakk>r \<in> set (lifecycle_rows db); owes_callback r; l_run_id r \<notin> S\<rbrakk>
          \<Longrightarrow> \<exists>d \<in> set (delivery_rows db). d_run_id d = l_run_id r"
  shows "owing S m db"
  using assms unfolding owing_def by blast

lemma owing_keyed: "owing S m db \<Longrightarrow> keyed (delivery_rows db)"
  unfolding keyed_def by (metis owingD(6) announces_def)

lemma unique_keys_update:
  "(\<And>r. l_idempotency_key (f r) = l_idempotency_key r) \<Longrightarrow> unique_keys (update_rows P f db) = unique_keys db"
  unfolding unique_keys_def by (simp add: if_distrib comp_def cong: if_cong)

lemma unique_results_update:
  assumes "unique_results db" and "\<And>r. l_run_id (f r) = l_run_id r" and "\<And>r. l_result_id (f r) = l_result_id r"
  shows "unique_results (update_rows P f db)"
proof -
  define g where "g = (\<lambda>r. if P r then f r else r)"
  have "l_run_id (g r) = l_run_id r" and "l_result_id (g r) = l_result_id r" for r using assms(2,3) by (simp_all add: g_def)
  then show ?thesis using assms(1) unfolding unique_results_def lifecycle_rows_update g_def [symmetric] by simp
qed

text \<open>
  An update of rows that announce nothing yet keeps the invariant; the runs it ends owe their
  delivery row.
\<close>

lemma update_owing:
  assumes ok: "owing S m db" and same: "\<And>r. same_run r (f r)" and results: "unique_results (update_rows P f db)"
    and rows: "\<And>r. \<lbrakk>r \<in> set (lifecycle_rows db); P r\<rbrakk> \<Longrightarrow> row_ok m (f r)"
    and quiet: "\<And>r. \<lbrakk>r \<in> set (lifecycle_rows db); P r\<rbrakk> \<Longrightarrow> \<not> owes_callback r"
    and ends: "\<And>r. \<lbrakk>r \<in> set (lifecycle_rows db); P r; owes_callback (f r)\<rbrakk> \<Longrightarrow> l_run_id r \<in> T"
  shows "owing (S \<union> T) m (update_rows P f db)"
proof -
  define g where "g = (\<lambda>r. if P r then f r else r)"
  have run: "l_run_id (f r) = l_run_id r" and key: "l_idempotency_key (f r) = l_idempotency_key r" for r
    using same [of r] unfolding same_run_def by auto
  have set_g: "set (lifecycle_rows (update_rows P f db)) = g ` set (lifecycle_rows db)" unfolding g_def by simp
  have run_g: "l_run_id (g r) = l_run_id r" for r using run by (simp add: g_def)
  show ?thesis
  proof (rule owingI)
    show "unique_runs (update_rows P f db)" "unique_keys (update_rows P f db)" "unique_results (update_rows P f db)"
      "distinct (map d_run_id (delivery_rows (update_rows P f db)))"
      using owingD(2,3,5) [OF ok] results unique_runs_update [of f P db, OF run] unique_keys_update [of f P db, OF key]
      by simp_all
  next
    fix s assume "s \<in> set (lifecycle_rows (update_rows P f db))"
    then show "row_ok m s" unfolding set_g using rows owingD(1) [OF ok] by (auto simp: g_def)
  next
    fix d assume "d \<in> set (delivery_rows (update_rows P f db))"
    then obtain r where r: "r \<in> set (lifecycle_rows db)" "announces r d" using owingD(6) [OF ok] by auto
    then have "\<not> P r" using quiet [OF r(1)] by (auto simp: announces_def owes_callback_def)
    then show "\<exists>s \<in> set (lifecycle_rows (update_rows P f db)). announces s d"
      unfolding set_g using r by (auto simp: g_def)
  next
    fix s assume s: "s \<in> set (lifecycle_rows (update_rows P f db))" "owes_callback s" "l_run_id s \<notin> S \<union> T"
    then obtain r where r: "r \<in> set (lifecycle_rows db)" "s = g r" unfolding set_g by blast
    then have "\<not> P r" using s ends [OF r(1)] run_g [of r] by (auto simp: g_def)
    then show "\<exists>d \<in> set (delivery_rows (update_rows P f db)). d_run_id d = l_run_id s"
      using owingD(7) [OF ok r(1)] r s by (simp add: g_def)
  qed
qed

lemma outbox_pays:
  assumes ok: "owing S m db"
  shows "owing {s \<in> S. \<not> selected sel s} m (create_callback_outbox_records now sel db)"
proof -
  let ?ds = "outbox_from now sel (lifecycle_rows db) (delivery_rows db)"
  have deliveries: "delivery_rows (create_callback_outbox_records now sel db) = ?ds"
    by (simp add: create_callback_outbox_records_def)
  have "\<exists>r \<in> set (lifecycle_rows db). announces r d" if "d \<in> set ?ds" for d
    using outbox_from_announces [OF that] owingD(6) [OF ok] by blast
  moreover have "\<exists>d \<in> set ?ds. d_run_id d = l_run_id r"
    if r: "r \<in> set (lifecycle_rows db)" "owes_callback r" "l_run_id r \<notin> {s \<in> S. \<not> selected sel s}" for r
  proof (cases "selected sel (l_run_id r)")
    case True
    then show ?thesis using outbox_from_complete [OF owing_keyed [OF ok] r(1,2)] by blast
  next
    case False
    then have "\<exists>d \<in> set (delivery_rows db). d_run_id d = l_run_id r" using r owingD(7) [OF ok] by blast
    then show ?thesis using outbox_from_keeps [of "delivery_rows db" now sel "lifecycle_rows db"] by blast
  qed
  moreover have "distinct (map d_run_id ?ds)" using outbox_from_distinct [OF owingD(5) [OF ok]] .
  ultimately show ?thesis using owingD(1-4) [OF ok] unfolding owing_def deliveries
    by (auto simp: unique_runs_def unique_keys_def unique_results_def)
qed

text \<open>An update of one run followed by its outbox pass.\<close>

lemma outbox_pays_run: "owing {rid} m db \<Longrightarrow> owing {} m (create_callback_outbox_records now (Some rid) db)"
  using outbox_pays [of "{rid}" m db "Some rid" now]
  by (simp add: selected_def Collect_conv_if conj_commute [of "_ = rid"] cong: conj_cong)

lemma outbox_pays_all: "owing S m db \<Longrightarrow> owing {} m (create_callback_outbox_records now None db)"
  using outbox_pays [of S m db None now] by (simp add: selected_def)

lemma delivery_update_ok:
  assumes "owing S m db" and "\<And>d. d_run_id (f d) = d_run_id d"
    and "\<And>d r. announces r (f d) = announces r d"
  shows "owing S m (update_delivery event f db)"
proof -
  define g where "g = (\<lambda>d. if d_event_id d = event \<and> undelivered d then f d else d)"
  have run: "d_run_id (g d) = d_run_id d" and ann: "announces r (g d) = announces r d" for d r
    using assms(2,3) by (simp_all add: g_def)
  have rows: "lifecycle_rows (update_delivery event f db) = lifecycle_rows db"
    and deliveries: "delivery_rows (update_delivery event f db) = map g (delivery_rows db)"
    by (simp_all add: update_delivery_def g_def)
  show ?thesis using assms(1) unfolding owing_def unique_runs_def unique_keys_def unique_results_def rows deliveries
    by (simp add: run ann comp_def, blast)
qed

section \<open>The operations keep the invariant\<close>

lemma running_quiet: "l_status r = Running \<Longrightarrow> \<not> owes_callback r"
  by (simp add: owes_callback_def is_terminal_def)

lemma holds_quiet: "holds rid worker attempt r \<Longrightarrow> \<not> owes_callback r"
  by (simp add: holds_def running_quiet)

text \<open>An update that leaves its rows running ends no run.\<close>

lemma running_update_ok:
  assumes ok: "owing {} m db" and same: "\<And>r. same_run r (f r)" and res: "\<And>r. l_result_id (f r) = l_result_id r"
    and rows: "\<And>r. \<lbrakk>r \<in> set (lifecycle_rows db); P r\<rbrakk> \<Longrightarrow> row_ok m (f r)"
    and quiet: "\<And>r. \<lbrakk>r \<in> set (lifecycle_rows db); P r\<rbrakk> \<Longrightarrow> \<not> owes_callback r"
    and running: "\<And>r. \<lbrakk>r \<in> set (lifecycle_rows db); P r\<rbrakk> \<Longrightarrow> l_status (f r) = Running"
  shows "owing {} m (update_rows P f db)"
proof -
  have "unique_results (update_rows P f db)"
    by (rule unique_results_update [OF owingD(4) [OF ok]]) (use same res in \<open>simp_all add: same_run_def\<close>)
  then have "owing ({} \<union> {}) m (update_rows P f db)"
    using assms running_quiet by (intro update_owing [where S = "{}" and T = "{}"]) blast+
  then show ?thesis by simp
qed

text \<open>An update that ends the run it is about, and the outbox pass after it.\<close>

lemma ending_update_ok:
  assumes ok: "owing {} m db" and same: "\<And>r. same_run r (f r)" and results: "unique_results (update_rows P f db)"
    and rows: "\<And>r. \<lbrakk>r \<in> set (lifecycle_rows db); P r\<rbrakk> \<Longrightarrow> row_ok m (f r)"
    and quiet: "\<And>r. \<lbrakk>r \<in> set (lifecycle_rows db); P r; owes_callback r\<rbrakk> \<Longrightarrow> f r = r"
    and run: "\<And>r. \<lbrakk>r \<in> set (lifecycle_rows db); P r\<rbrakk> \<Longrightarrow> l_run_id r = rid"
  shows "owing {} m (create_callback_outbox_records now (Some rid) (update_rows P f db))"
proof -
  let ?Q = "\<lambda>r. P r \<and> \<not> owes_callback r"
  have eq: "update_rows P f db = update_rows ?Q f db" unfolding update_rows_def using quiet by auto
  have "owing ({} \<union> {rid}) m (update_rows ?Q f db)"
    using assms by (intro update_owing [where S = "{}"]) (auto simp: eq)
  then show ?thesis using outbox_pays_run eq by simp
qed

lemma terminalize_keeps [simp]:
  "l_result_id (terminalize now st t ph msg r) = l_result_id r"
  "l_run_id (terminalize now st t ph msg r) = l_run_id r"
  "same_run r (terminalize now st t ph msg r)"
  by (simp_all add: terminalize_def same_run_def)

lemma fail_publication_keeps [simp]:
  "l_result_id (fail_publication now r) = l_result_id r" "l_run_id (fail_publication now r) = l_run_id r"
  "same_run r (fail_publication now r)"
  by (simp_all add: fail_publication_def terminalize_def same_run_def)

lemma fail_row_keeps [simp]:
  "l_result_id (fail_row now failure res r) = l_result_id r" "l_run_id (fail_row now failure res r) = l_run_id r"
  "same_run r (fail_row now failure res r)"
  by (simp_all add: fail_row_def Let_def terminalize_def same_run_def)

lemma take_lease_keeps [simp]:
  "l_result_id (take_lease now w l r) = l_result_id r" "l_run_id (take_lease now w l r) = l_run_id r"
  "l_status (take_lease now w l r) = Running" "same_run r (take_lease now w l r)"
  by (simp_all add: take_lease_def same_run_def)

lemma cancel_row_keeps [simp]:
  "l_result_id (cancel_row now r) = l_result_id r" "l_run_id (cancel_row now r) = l_run_id r"
  "same_run r (cancel_row now r)"
proof -
  have "l_result_id (cancel_row now r) = l_result_id r \<and> same_run r (cancel_row now r)"
    by (cases "l_status r") (auto simp: cancel_row_def terminalize_def same_run_def)
  then show "l_result_id (cancel_row now r) = l_result_id r" "l_run_id (cancel_row now r) = l_run_id r"
    "same_run r (cancel_row now r)" by (simp_all add: same_run_def)
qed

lemma complete_row_keeps [simp]:
  "l_run_id (complete_row now res completion i t r) = l_run_id r"
  "l_result_id (complete_row now res completion i t r) = Some i"
  "same_run r (complete_row now res completion i t r)"
  by (simp_all add: complete_row_def terminalize_def same_run_def)

lemma failed_keeps [simp]:
  "l_result_id (r\<lparr>l_failure := x\<rparr>) = l_result_id r" "same_run r ((terminalize now st t ph msg r)\<lparr>l_failure := x\<rparr>)"
  by (simp_all add: terminalize_def same_run_def)

lemma create_new_ok:
  assumes ok: "owing {} m db" and key: "\<forall>r \<in> set (lifecycle_rows db). l_idempotency_key r \<noteq> key"
    and run: "get_row rid db = None"
  shows "owing {} m (db\<lparr>lifecycle_rows := lifecycle_rows db @ [new_row now rid req q c key digest cb]\<rparr>)"
proof -
  let ?row = "new_row now rid req q c key digest cb"
  have new: "l_run_id ?row = rid" "l_idempotency_key ?row = key" "l_result_id ?row = None" "\<not> owes_callback ?row"
    by (simp_all add: new_row_def owes_callback_def is_terminal_def)
  show ?thesis
  proof (rule owingI, goal_cases)
    case 1 then show ?case using owingD(1) [OF ok] new_row_ok by auto
  next
    case 2 then show ?case using owingD(2) [OF ok] run new by (auto simp: unique_runs_def get_row_None)
  next
    case 3 then show ?case using owingD(3) [OF ok] key new by (auto simp: unique_keys_def)
  next
    case 4
    have old: "r \<in> set (lifecycle_rows db)" if "r \<in> set (lifecycle_rows db @ [?row])" "l_result_id r = Some i" for r i
      using that new(3) by auto
    show ?case by (rule unique_resultsI, rule unique_resultsD [OF owingD(4) [OF ok]]) (simp_all, (rule old, simp_all)+)
  next
    case 5 then show ?case using owingD(5) [OF ok] by simp
  next
    case (6 d) then show ?case using owingD(6) [OF ok, of d] by auto
  next
    case (7 r) then show ?case using owingD(7) [OF ok, of r] new by auto
  qed
qed

lemma create_lifecycle_run_ok:
  assumes ok: "owing {} m db"
  shows "owing {} m (snd (create_lifecycle_run now rid req key digest cb db))"
proof (cases "find (\<lambda>r. l_idempotency_key r = key) (lifecycle_rows db)")
  case None
  then have "\<forall>r \<in> set (lifecycle_rows db). l_idempotency_key r \<noteq> key" by (auto simp: find_None_iff)
  then show ?thesis using None ok create_new_ok [OF ok] by (auto simp: create_lifecycle_run_def Let_def split: option.splits)
next
  case (Some row)
  then have row: "row \<in> set (lifecycle_rows db)" by (auto simp: find_Some_iff)
  show ?thesis
  proof (cases "l_request_digest row = digest \<and> cb \<noteq> None \<and> l_callback row = None")
    case False
    then have "snd (create_lifecycle_run now rid req key digest cb db) = db"
      using Some by (auto simp: create_lifecycle_run_def rebind_run_def split: option.splits)
    then show ?thesis using ok by simp
  next
    case True
    then obtain submitted where cb: "cb = Some submitted" by blast
    have only: "r = row" if "r \<in> set (lifecycle_rows db)" "l_run_id r = l_run_id row" for r
      using unique_runsD [OF owingD(2) [OF ok] that(1) row that(2)] .
    have "snd (create_lifecycle_run now rid req key digest cb db) =
        create_callback_outbox_records now (Some (l_run_id row))
          (update_rows (\<lambda>r. l_run_id r = l_run_id row) (\<lambda>r. r\<lparr>l_callback := Some submitted, l_updated_at := now\<rparr>) db)"
      using Some True cb by (simp add: create_lifecycle_run_def rebind_run_def Let_def split: option.splits)
    moreover have "owing {} m \<dots>"
    proof (rule ending_update_ok [OF ok])
      show "same_run r (r\<lparr>l_callback := Some submitted, l_updated_at := now\<rparr>)" for r by (simp add: same_run_def)
      show "unique_results (update_rows (\<lambda>r. l_run_id r = l_run_id row)
              (\<lambda>r. r\<lparr>l_callback := Some submitted, l_updated_at := now\<rparr>) db)"
        by (rule unique_results_update [OF owingD(4) [OF ok]]) simp_all
      show "row_ok m (r\<lparr>l_callback := Some submitted, l_updated_at := now\<rparr>)" if "r \<in> set (lifecycle_rows db)" for r
        using bind_row_ok owingD(1) [OF ok that] by blast
    qed (use only True in \<open>auto simp: owes_callback_def dest!: only\<close>)
    ultimately show ?thesis by simp
  qed
qed

lemma expire_runs_ok:
  assumes ok: "owing {} m db"
  shows "owing {} m (expire_runs now k db)"
proof -
  define db1 where "db1 = update_rows (publication_is_exhausted now k) (fail_publication now) db"
  define db2 where "db2 = update_rows (cancel_is_due now)
    (terminalize now Canceled ''canceled'' ''canceled'' ''Cancellation completed after worker lease expiry.'') db1"
  have 1: "owing ({} \<union> UNIV) m db1" unfolding db1_def
    by (rule update_owing [OF ok])
      (auto simp: unique_results_update [OF owingD(4) [OF ok]] publication_is_exhausted_def
        intro: fail_publication_ok [unfolded publication_is_exhausted_def] owingD(1) [OF ok] dest: running_quiet)
  have 2: "owing (({} \<union> UNIV) \<union> UNIV) m db2" unfolding db2_def
    by (rule update_owing [OF 1])
      (auto simp: unique_results_update [OF owingD(4) [OF 1]] cancel_is_due_def
        intro: expired_cancel_ok [unfolded cancel_is_due_def] owingD(1) [OF 1] dest: running_quiet)
  have 3: "owing ((({} \<union> UNIV) \<union> UNIV) \<union> UNIV) m (update_rows (worker_is_exhausted now k)
          (\<lambda>r. (terminalize now Failed ''malfunction'' ''failed'' ''Worker attempts exhausted.'' r)
                  \<lparr>l_failure := Some worker_attempts_exhausted\<rparr>) db2)"
    by (rule update_owing [OF 2])
      (auto simp: unique_results_update [OF owingD(4) [OF 2]] worker_is_exhausted_def
        intro: worker_exhausted_ok [unfolded worker_is_exhausted_def] owingD(1) [OF 2] dest: running_quiet)
  show ?thesis unfolding expire_runs_def using outbox_pays_all [OF 3] unfolding db2_def db1_def .
qed

lemma first_row_Some: "first_row rs = Some r \<Longrightarrow> r \<in> set rs"
  by (induction rs arbitrary: r) (auto split: option.splits if_splits)

lemma first_row_None: "first_row rs = None \<longleftrightarrow> rs = []"
  by (cases rs) (auto split: option.splits)

text \<open>The row a claim selects passes the guard of its update, which touches no other row.\<close>

lemma claimable_guard: "claimable now k r \<Longrightarrow> claim_guard now (l_run_id r) r"
  by (auto simp: claimable_def claim_guard_def)

lemma claim_selects:
  assumes ok: "owing {} m db"
    and first: "first_row (filter (claimable now k) (lifecycle_rows (expire_runs now k db))) = Some row"
  shows "row \<in> set (lifecycle_rows (expire_runs now k db))" and "claimable now k row"
    and "row_count (claim_guard now (l_run_id row)) (expire_runs now k db) = 1"
    and "\<And>r. \<lbrakk>r \<in> set (lifecycle_rows (expire_runs now k db)); claim_guard now (l_run_id row) r\<rbrakk> \<Longrightarrow> r = row"
proof -
  show row: "row \<in> set (lifecycle_rows (expire_runs now k db))" and can: "claimable now k row"
    using first_row_Some [OF first] by simp_all
  have runs: "unique_runs (expire_runs now k db)" using owingD(2) [OF expire_runs_ok [OF ok]] .
  have "get_row (l_run_id row) (expire_runs now k db) = Some row" using get_row_unique [OF runs] row by simp
  then show "row_count (claim_guard now (l_run_id row)) (expire_runs now k db) = 1"
    using row_count_one [OF runs, of "claim_guard now (l_run_id row)" "l_run_id row"] claimable_guard [OF can]
    by (simp add: claim_guard_def)
  show "r = row" if "r \<in> set (lifecycle_rows (expire_runs now k db))" "claim_guard now (l_run_id row) r" for r
    using unique_runsD [OF runs that(1) row] that(2) by (simp add: claim_guard_def)
qed

lemma claim_cases:
  assumes ok: "owing {} m db"
  obtains (idle) "claim_lifecycle_run now w l k db = (None, expire_runs now k db)"
      "filter (claimable now k) (lifecycle_rows (expire_runs now k db)) = []"
  | (claimed) row where "first_row (filter (claimable now k) (lifecycle_rows (expire_runs now k db))) = Some row"
      "claim_lifecycle_run now w l k db =
         (Some (take_lease now w l row),
          update_rows (claim_guard now (l_run_id row)) (take_lease now w l) (expire_runs now k db))"
proof (cases "first_row (filter (claimable now k) (lifecycle_rows (expire_runs now k db)))")
  case None
  then show thesis using idle by (simp add: claim_lifecycle_run_def first_row_None)
next
  case (Some row)
  note sel = claim_selects [OF ok Some]
  have "get_row (l_run_id row) (expire_runs now k db) = Some row"
    using get_row_unique [OF owingD(2) [OF expire_runs_ok [OF ok]]] sel(1) by simp
  then show thesis using claimed [OF Some] Some sel(3) claimable_guard [OF sel(2)]
    by (simp add: claim_lifecycle_run_def Let_def get_row_update)
qed

lemma claimable_quiet: "claimable now k r \<Longrightarrow> l_status r = Queued \<or> l_status r = Running"
  by (auto simp: claimable_def)

lemma claim_lifecycle_run_ok:
  assumes ok: "owing {} m db"
  shows "owing {} m (snd (claim_lifecycle_run now w l m db))"
proof (rule claim_cases [OF ok, of now w l m], goal_cases idle claimed)
  case idle
  then show ?thesis using expire_runs_ok [OF ok] by simp
next
  case (claimed row)
  note sel = claim_selects [OF ok claimed(1)]
  have "owing {} m (update_rows (claim_guard now (l_run_id row)) (take_lease now w l) (expire_runs now m db))"
  proof (rule running_update_ok [OF expire_runs_ok [OF ok]])
    fix r assume "r \<in> set (lifecycle_rows (expire_runs now m db))" "claim_guard now (l_run_id row) r"
    then have [simp]: "r = row" by (rule sel(4))
    have "l_attempt_number row < m" using sel(2) by (auto simp: claimable_def)
    then show "row_ok m (take_lease now w l r)"
      using take_lease_ok owingD(1) [OF expire_runs_ok [OF ok] sel(1)] claimable_quiet [OF sel(2)] by simp
    show "\<not> owes_callback r" using claimable_quiet [OF sel(2)] by (auto simp: owes_callback_def is_terminal_def)
  qed simp_all
  then show ?thesis using claimed(2) by simp
qed

text \<open>A fenced update that leaves its row running.\<close>

lemma held_update_ok:
  assumes ok: "owing {} m db" and guard: "\<And>r. P r \<Longrightarrow> holds rid w a r"
    and same: "\<And>r. same_run r (f r)" and res: "\<And>r. l_result_id (f r) = l_result_id r"
    and status: "\<And>r. l_status (f r) = l_status r" and rows: "\<And>r. \<lbrakk>row_ok m r; P r\<rbrakk> \<Longrightarrow> row_ok m (f r)"
  shows "owing {} m (update_rows P f db)"
  by (rule running_update_ok [OF ok same res])
    (simp_all add: rows owingD(1) [OF ok] status holds_quiet [OF guard] guard [unfolded holds_def])

lemma heartbeat_lifecycle_run_ok:
  "owing {} m db \<Longrightarrow> owing {} m (snd (heartbeat_lifecycle_run now rid w a l db))"
  unfolding heartbeat_lifecycle_run_def snd_conv
  by (erule held_update_ok) (simp_all add: same_run_def heartbeat_row_ok)

lemma prepare_lifecycle_publication_ok:
  "owing {} m db \<Longrightarrow> owing {} m (snd (prepare_lifecycle_publication now rid w a staged db))"
  unfolding prepare_lifecycle_publication_def snd_conv
  by (erule held_update_ok [where rid = rid and w = w and a = a])
    (simp_all add: same_run_def prepare_row_ok, simp add: prepare_guard_def)

lemma begin_lifecycle_publication_ok:
  assumes "owing {} m db"
  shows "owing {} m (snd (begin_lifecycle_publication now rid w a db))"
proof -
  have "owing {} m (update_rows (begin_guard now rid w a)
              (\<lambda>r. r\<lparr>l_publication_state := PubPending, l_updated_at := now,
                     l_progress_message := ''Result publication is pending verification.''\<rparr>) db)"
    by (rule held_update_ok [OF assms, where rid = rid and w = w and a = a])
      (simp_all add: same_run_def begin_row_ok, simp add: begin_guard_def)
  then show ?thesis using assms by (simp add: begin_lifecycle_publication_def split: option.splits)
qed

text \<open>The fenced terminal updates: a run that ends gets its delivery row.\<close>

lemma no_cancel_on_complete: "owing S m db \<Longrightarrow> row_count (cancel_on_complete rid w a) db = 0"
  unfolding row_count_zero by (blast dest: owingD(1) cancel_on_complete_dead)

lemma complete_lifecycle_run_ok:
  assumes ok: "owing {} m db"
  shows "owing {} m (snd (complete_lifecycle_run now rid w a res completion i t db))"
proof -
  let ?P = "complete_guard now rid w a" and ?f = "complete_row now res completion i t"
  have held: "l_run_id r = rid" "\<not> owes_callback r" if "?P r" for r
    using that holds_quiet by (auto simp: complete_guard_def holds_def)
  have results: "unique_results (update_rows ?P ?f db)"
    if free: "\<forall>r \<in> set (lifecycle_rows db). l_run_id r \<noteq> rid \<longrightarrow> l_result_id r \<noteq> Some i"
  proof (rule unique_resultsI)
    fix r s j assume r: "r \<in> set (lifecycle_rows (update_rows ?P ?f db))" "l_result_id r = Some j"
      and s: "s \<in> set (lifecycle_rows (update_rows ?P ?f db))" "l_result_id s = Some j"
    obtain r0 s0 where r0: "r0 \<in> set (lifecycle_rows db)" "r = (if ?P r0 then ?f r0 else r0)"
      and s0: "s0 \<in> set (lifecycle_rows db)" "s = (if ?P s0 then ?f s0 else s0)" using r(1) s(1) by auto
    show "l_run_id r = l_run_id s"
    proof (cases "j = i \<and> (?P r0 \<or> ?P s0)")
      case True
      then have "l_run_id r = rid" "l_run_id s = rid" using free r0 s0 r(2) s(2) held by (auto split: if_splits)
      then show ?thesis by simp
    next
      case False
      then have "r = r0" "s = s0" using r0 s0 r(2) s(2) by (auto split: if_splits)
      then show ?thesis using unique_resultsD [OF owingD(4) [OF ok] r0(1) s0(1)] r(2) s(2) by simp
    qed
  qed
  have ended: "owing {} m (create_callback_outbox_records now (Some rid) (update_rows ?P ?f db))"
    if "\<forall>r \<in> set (lifecycle_rows db). l_run_id r \<noteq> rid \<longrightarrow> l_result_id r \<noteq> Some i"
    by (rule ending_update_ok [OF ok _ results [OF that]]) (use held complete_row_ok owingD(1) [OF ok] in auto)
  have "row_count ?P db \<in> {0, 1}"
    using row_count_one [OF owingD(2) [OF ok], of ?P rid] held(1) by (auto split: option.splits)
  moreover have "update_rows ?P ?f db = db" if "row_count ?P db = 0"
    using that update_rows_none by (simp add: row_count_zero)
  ultimately show ?thesis
    using ok no_cancel_on_complete [OF ok] ended by (auto simp: complete_lifecycle_run_def Let_def)
qed

lemma fail_lifecycle_run_ok:
  assumes ok: "owing {} m db"
  shows "owing {} m (snd (fail_lifecycle_run now rid w a failure res db))"
proof -
  let ?P = "fail_guard now rid w a" and ?f = "fail_row now failure res"
  have held: "l_run_id r = rid" "\<not> owes_callback r" if "?P r" for r
    using that holds_quiet by (auto simp: fail_guard_def holds_def)
  have "owing {} m (create_callback_outbox_records now (Some rid) (update_rows ?P ?f db))"
    by (rule ending_update_ok [OF ok _ unique_results_update [OF owingD(4) [OF ok]]])
      (use held fail_row_ok owingD(1) [OF ok] in auto)
  moreover have "row_count ?P db \<in> {0, 1}"
    using row_count_one [OF owingD(2) [OF ok], of ?P rid] held(1) by (auto split: option.splits)
  moreover have "update_rows ?P ?f db = db" if "row_count ?P db = 0"
    using that update_rows_none by (simp add: row_count_zero)
  ultimately show ?thesis using ok by (auto simp: fail_lifecycle_run_def Let_def)
qed

lemma cancel_row_terminal: "is_terminal (l_status r) \<Longrightarrow> cancel_row now r = r"
  by (cases "l_status r") (auto simp: is_terminal_def cancel_row_def)

lemma cancel_lifecycle_run_ok:
  assumes ok: "owing {} m db"
  shows "owing {} m (snd (cancel_lifecycle_run now rid db))"
proof -
  have "owing {} m (create_callback_outbox_records now (Some rid) (update_rows (\<lambda>r. l_run_id r = rid) (cancel_row now) db))"
    by (rule ending_update_ok [OF ok _ unique_results_update [OF owingD(4) [OF ok]]])
      (use cancel_row_ok owingD(1) [OF ok] cancel_row_terminal in \<open>auto simp: owes_callback_def\<close>)
  then show ?thesis using ok by (auto simp: cancel_lifecycle_run_def Let_def split: option.splits)
qed

section \<open>Executions\<close>

text \<open>
  One step is one operation with any arguments, at any instant; only the attempt limit is fixed, as
  the worker's configuration fixes it.
\<close>

inductive store_step :: "nat \<Rightarrow> database \<Rightarrow> database \<Rightarrow> bool" for m where
  create: "store_step m db (snd (create_lifecycle_run now rid req key digest cb db))"
| claim: "store_step m db (snd (claim_lifecycle_run now w l m db))"
| heartbeat: "store_step m db (snd (heartbeat_lifecycle_run now rid w a l db))"
| prepare: "store_step m db (snd (prepare_lifecycle_publication now rid w a staged db))"
| begin_publication: "store_step m db (snd (begin_lifecycle_publication now rid w a db))"
| complete: "store_step m db (snd (complete_lifecycle_run now rid w a res completion i t db))"
| fail: "store_step m db (snd (fail_lifecycle_run now rid w a failure failed_result db))"
| cancel: "store_step m db (snd (cancel_lifecycle_run now rid db))"
| delivered: "store_step m db (mark_callback_delivered event delivered_at code db)"
| reschedule: "store_step m db (reschedule_callback_delivery now event attempts next_attempt status_code category db)"
| configuration_failed: "store_step m db (mark_callback_configuration_failed event attempts failed_at status_code category db)"

definition reachable :: "nat \<Rightarrow> database \<Rightarrow> bool" where
  "reachable m db = (store_step m)\<^sup>*\<^sup>* empty_database db"

lemma announces_delivery_update [simp]:
  "announces r (d\<lparr>d_delivery_status := x1\<rparr>) = announces r d"
  "announces r (d\<lparr>d_attempts := x2\<rparr>) = announces r d"
  "announces r (d\<lparr>d_next_attempt_at := x3\<rparr>) = announces r d"
  "announces r (d\<lparr>d_delivered_at := x4\<rparr>) = announces r d"
  "announces r (d\<lparr>d_configuration_failed_at := x5\<rparr>) = announces r d"
  "announces r (d\<lparr>d_last_status_code := x6\<rparr>) = announces r d"
  "announces r (d\<lparr>d_last_error_category := x7\<rparr>) = announces r d"
  "announces r (d\<lparr>d_updated_at := x8\<rparr>) = announces r d"
  by (simp_all add: announces_def)

lemmas operations_ok = create_lifecycle_run_ok claim_lifecycle_run_ok heartbeat_lifecycle_run_ok
  prepare_lifecycle_publication_ok begin_lifecycle_publication_ok complete_lifecycle_run_ok
  fail_lifecycle_run_ok cancel_lifecycle_run_ok

lemma store_step_ok: "store_step m db db' \<Longrightarrow> database_ok m db \<Longrightarrow> database_ok m db'"
  unfolding database_ok_def
  by (induction rule: store_step.induct)
    (simp_all add: operations_ok mark_callback_delivered_def reschedule_callback_delivery_def
      mark_callback_configuration_failed_def delivery_update_ok)

lemma empty_database_ok: "database_ok m empty_database"
  unfolding database_ok_def by (rule owingI) (simp_all add: empty_database_def unique_runs_def unique_keys_def unique_results_def)

lemma store_steps_ok: "(store_step m)\<^sup>*\<^sup>* db db' \<Longrightarrow> database_ok m db \<Longrightarrow> database_ok m db'"
  by (induction rule: rtranclp_induct) (simp_all add: store_step_ok)

lemma reachable_ok: "reachable m db \<Longrightarrow> database_ok m db"
  unfolding reachable_def using store_steps_ok empty_database_ok by blast

lemma reachable_step: "reachable m db \<Longrightarrow> store_step m db db' \<Longrightarrow> reachable m db'"
  unfolding reachable_def by (rule rtranclp.rtrancl_into_rtrancl)

section \<open>A sample execution\<close>

text \<open>
  A run is submitted, claimed, lost by its first worker, claimed again, staged, published and
  completed.
\<close>

definition sample_run_request :: invocation_request where
  "sample_run_request =
     SharedV2 \<lparr>v2_profile_id = WafStandard1, v2_request_id = ''request-1'', v2_correlation_id = ''correlation-1'',
       v2_upstream_inputs = [], v2_target_context = None, v2_provenance = \<lparr>prov_caller = None, prov_source = None\<rparr>\<rparr>"

definition sample_callback :: callback_metadata where
  "sample_callback = \<lparr>callback_url = ''https://workflow'', callback_workflow_id = ''workflow-1'', callback_signal = ''done''\<rparr>"

definition sample_result :: translation_result where
  "sample_result =
     \<lparr>res_contract_id = ''control-translation@1.0'', res_result_id = ''result-1'', res_produced_at = 105,
      res_subject = \<lparr>rs_vulnerability_id = ''v'', rs_proven_pattern_id = ''p'', rs_control_class = ''waf''\<rparr>,
      res_input_bindings = \<lparr>ib_target_technology = ''akamai-waf'', ib_policy_context_id = ''c'', ib_poc_defaults_used = False,
        ib_policy_snapshot_id = None, ib_translation_policy_id = ''t'', ib_proof_record_ids = []\<rparr>,
      res_terminal_state = CannotExpress, res_outcome_reason = \<lparr>reason_code = UnsupportedFeature, reason_detail = ''d''\<rparr>,
      res_qualification = None, res_counterexample = None, res_candidate = None,
      res_evidence_bindings = [\<lparr>binding_claim = ''limitation'', binding_evidence_refs = [''ref-1'']\<rparr>],
      res_prose_summary = ''s'', res_shared_version = False, res_profile_id = None, res_verification = None,
      res_accounting = None, res_target_artifacts = [], res_directives = [], res_mappings = []\<rparr>"

definition sample_envelope :: result_envelope where
  "sample_envelope =
     \<lparr>re_run_id = ''run-1'', re_result_id = ''result-1'', re_status = Declined, re_terminal_state = CannotExpress,
      re_request_id = Some ''request-1'', re_correlation_id = ''correlation-1'',
      re_result_ref = \<lparr>rr_result_id = ''result-1'', rr_href = ''/v1/results/result-1''\<rparr>, re_upstream_refs = None,
      re_structured = sample_result, re_prose = ''s'', re_reference_bundle = JObj [], re_provenance = [''prov-1''],
      re_confidence = JObj [], re_warnings = [], re_trace = [], re_inference = JObj []\<rparr>"

definition sample_output :: prepared_publication where
  "sample_output = \<lparr>p_result_envelope = sample_envelope, p_result = JObj [], p_completion = JObj [], p_request_hash = ''digest-1'',
     p_started_at = 20, p_result_id = ''result-1'', p_terminal_state = ''not-translatable''\<rparr>"

definition queued_store :: database where
  "queued_store = snd (create_lifecycle_run 10 ''run-1'' sample_run_request ''key-1'' ''digest-1'' (Some sample_callback) empty_database)"

definition running_store :: database where
  "running_store = snd (claim_lifecycle_run 20 ''worker-1'' 60 3 queued_store)"

definition reclaimed_store :: database where
  "reclaimed_store = snd (claim_lifecycle_run 100 ''worker-2'' 60 3 running_store)"

definition staged_store :: database where
  "staged_store = snd (prepare_lifecycle_publication 110 ''run-1'' ''worker-2'' 2 sample_output reclaimed_store)"

definition publishing_store :: database where
  "publishing_store = snd (begin_lifecycle_publication 120 ''run-1'' ''worker-2'' 2 staged_store)"

definition completed_store :: database where
  "completed_store = snd (complete_lifecycle_run 130 ''run-1'' ''worker-2'' 2 (JObj []) (JObj []) ''result-1'' ''not-translatable'' publishing_store)"

lemma sample_steps:
  "store_step 3 queued_store running_store" "store_step 3 running_store reclaimed_store"
  "store_step 3 reclaimed_store staged_store" "store_step 3 staged_store publishing_store"
  "store_step 3 publishing_store completed_store"
  unfolding running_store_def reclaimed_store_def staged_store_def publishing_store_def completed_store_def
  by (rule store_step.intros)+

lemma sample_reachable:
  "reachable 3 queued_store" "reachable 3 running_store" "reachable 3 reclaimed_store"
  "reachable 3 staged_store" "reachable 3 publishing_store" "reachable 3 completed_store"
proof -
  have "reachable 3 empty_database" by (simp add: reachable_def)
  then show q: "reachable 3 queued_store" unfolding queued_store_def by (rule reachable_step) (rule store_step.create)
  show r: "reachable 3 running_store" by (rule reachable_step [OF q sample_steps(1)])
  show c: "reachable 3 reclaimed_store" by (rule reachable_step [OF r sample_steps(2)])
  show s: "reachable 3 staged_store" by (rule reachable_step [OF c sample_steps(3)])
  show p: "reachable 3 publishing_store" by (rule reachable_step [OF s sample_steps(4)])
  show "reachable 3 completed_store" by (rule reachable_step [OF p sample_steps(5)])
qed

text \<open>The row of the sample run along the execution.\<close>

definition sample_row :: "database \<Rightarrow> lifecycle_row" where
  "sample_row db = hd (lifecycle_rows db)"

lemma sample_rows:
  "get_row ''run-1'' queued_store = Some (sample_row queued_store)"
  "get_row ''run-1'' running_store = Some (sample_row running_store)"
  "get_row ''run-1'' reclaimed_store = Some (sample_row reclaimed_store)"
  "get_row ''run-1'' staged_store = Some (sample_row staged_store)"
  "get_row ''run-1'' publishing_store = Some (sample_row publishing_store)"
  "get_row ''run-1'' completed_store = Some (sample_row completed_store)"
  by code_simp+

end
