(* ===== verification/LifecycleProps.thy ===== *)
theory LifecycleProps
  imports LifecycleSteps
begin

text \<open>
  What a step of the store does to one run, the state machine of a run that the store refines, and
  the guarantees of the store over whole executions: outcomes are final, attempts are fenced and
  bounded, publication and cancellation exclude each other, every finished run with callback
  metadata has exactly one delivery.
\<close>

section \<open>The effect of a step on one run\<close>

inductive row_move :: "nat \<Rightarrow> lifecycle_row \<Rightarrow> lifecycle_row \<Rightarrow> bool" for m where
  idle: "row_move m r r"
| bind: "l_callback r = None \<Longrightarrow> row_move m r (r\<lparr>l_callback := Some cb, l_updated_at := now\<rparr>)"
| publication_expires: "publication_is_exhausted now m r \<Longrightarrow> row_move m r (fail_publication now r)"
| worker_expires: "worker_is_exhausted now m r \<Longrightarrow>
    row_move m r ((terminalize now Failed ''malfunction'' ''failed'' ''Worker attempts exhausted.'' r)
                    \<lparr>l_failure := Some worker_attempts_exhausted\<rparr>)"
| lease: "claimable now m r \<Longrightarrow> row_move m r (take_lease now w l r)"
| beat: "l_status r = Running \<Longrightarrow>
    row_move m r (r\<lparr>l_lease_expires_at := Some t, l_last_heartbeat_at := Some now, l_updated_at := now\<rparr>)"
| stage: "prepare_guard now rid w a r \<Longrightarrow>
    row_move m r (r\<lparr>l_publication_state := PubPrepared, l_prepared := Some staged, l_progress_phase := ph,
                    l_progress_message := msg, l_updated_at := now\<rparr>)"
| publish: "begin_guard now rid w a r \<Longrightarrow>
    row_move m r (r\<lparr>l_publication_state := PubPending, l_updated_at := now, l_progress_message := msg\<rparr>)"
| finish: "complete_guard now rid w a r \<Longrightarrow> row_move m r (complete_row now res completion i t r)"
| break: "fail_guard now rid w a r \<Longrightarrow> row_move m r (fail_row now failure failed_result r)"
| call_off: "row_move m r (cancel_row now r)"

lemma get_row_step:
  assumes "get_row rid db = Some r" and "\<And>r. l_run_id (f r) = l_run_id r"
  shows "get_row rid (update_rows P f db) = Some (if P r then f r else r)"
  using get_row_update [of f rid P db, OF assms(2)] assms(1) by simp

lemma create_moves:
  assumes "get_row rid db = Some r" and "unique_runs db"
  shows "\<exists>r'. get_row rid (snd (create_lifecycle_run now rid' req key digest cb db)) = Some r' \<and> row_move m r r'"
proof (cases "find (\<lambda>r. l_idempotency_key r = key) (lifecycle_rows db)")
  case None
  have "get_row rid (db\<lparr>lifecycle_rows := lifecycle_rows db @ xs\<rparr>) = Some r" for xs
    using assms(1) by (auto simp: get_row_def find_Some_iff nth_append)
  then show ?thesis using None assms(1) row_move.idle
    by (auto simp: create_lifecycle_run_def Let_def split: option.splits)
next
  case (Some row)
  then have row: "row \<in> set (lifecycle_rows db)" by (auto simp: find_Some_iff)
  show ?thesis
  proof (cases "l_request_digest row = digest \<and> cb \<noteq> None \<and> l_callback row = None")
    case False
    then have "snd (create_lifecycle_run now rid' req key digest cb db) = db"
      using Some by (auto simp: create_lifecycle_run_def rebind_run_def split: option.splits)
    then show ?thesis using assms(1) row_move.idle by auto
  next
    case True
    then obtain submitted where cb: "cb = Some submitted" by blast
    have only: "r = row" if "l_run_id r = l_run_id row"
      using unique_runsD [OF assms(2) _ row that] get_rowD [OF assms(1)] by simp
    have "get_row rid (snd (create_lifecycle_run now rid' req key digest cb db)) =
        Some (if l_run_id r = l_run_id row then r\<lparr>l_callback := Some submitted, l_updated_at := now\<rparr> else r)"
      using Some True cb get_row_step [OF assms(1)]
      by (simp add: create_lifecycle_run_def rebind_run_def Let_def split: option.splits)
    then show ?thesis using only True row_move.idle row_move.bind [of r m now submitted] by auto
  qed
qed

text \<open>One expiry pass changes a well-formed row at most once.\<close>

lemma expire_moves:
  assumes "get_row rid db = Some r" and "row_ok m r"
  obtains (kept) "get_row rid (expire_runs now k db) = Some r" "\<not> publication_is_exhausted now k r" "\<not> worker_is_exhausted now k r"
  | (publication) "publication_is_exhausted now k r" "get_row rid (expire_runs now k db) = Some (fail_publication now r)"
  | (worker) "worker_is_exhausted now k r"
      "get_row rid (expire_runs now k db) =
         Some ((terminalize now Failed ''malfunction'' ''failed'' ''Worker attempts exhausted.'' r)
                 \<lparr>l_failure := Some worker_attempts_exhausted\<rparr>)"
proof -
  have nocancel: "\<not> cancel_is_due now r" using assms(2) by (auto simp: row_defs cancel_is_due_def)
  define r1 where "r1 = (if publication_is_exhausted now k r then fail_publication now r else r)"
  have r1: "\<not> cancel_is_due now r1" "worker_is_exhausted now k r1 = (\<not> publication_is_exhausted now k r \<and> worker_is_exhausted now k r)"
    using nocancel by (auto simp: r1_def cancel_is_due_def worker_is_exhausted_def fail_publication_def terminalize_def)
  have both: "\<not> (publication_is_exhausted now k r \<and> worker_is_exhausted now k r)"
    by (auto simp: publication_is_exhausted_def worker_is_exhausted_def)
  define db1 where "db1 = update_rows (publication_is_exhausted now k) (fail_publication now) db"
  define db2 where "db2 = update_rows (cancel_is_due now)
    (terminalize now Canceled ''canceled'' ''canceled'' ''Cancellation completed after worker lease expiry.'') db1"
  have "get_row rid db1 = Some r1" unfolding db1_def r1_def using get_row_step [OF assms(1)] by simp
  then have g2: "get_row rid db2 = Some r1" unfolding db2_def using get_row_step r1(1) by simp
  have "get_row rid (expire_runs now k db) = Some (if worker_is_exhausted now k r1
      then (terminalize now Failed ''malfunction'' ''failed'' ''Worker attempts exhausted.'' r1)
                 \<lparr>l_failure := Some worker_attempts_exhausted\<rparr> else r1)"
    unfolding expire_runs_def get_row_outbox db1_def [symmetric] db2_def [symmetric]
    by (rule get_row_step [OF g2]) (simp add: terminalize_def)
  then show thesis using r1(2) both kept publication worker unfolding r1_def
    by (cases "publication_is_exhausted now k r"; cases "worker_is_exhausted now k r") auto
qed

lemma claim_moves:
  assumes ok: "owing {} m db" and r: "get_row rid db = Some r"
  shows "\<exists>r'. get_row rid (snd (claim_lifecycle_run now w l m db)) = Some r' \<and> row_move m r r'"
proof -
  have row: "row_ok m r" using owingD(1) [OF ok] get_rowD [OF r] by blast
  obtain s where s: "get_row rid (expire_runs now m db) = Some s" "row_move m r s"
      "s = r \<or> is_terminal (l_status s)"
  proof (rule expire_moves [OF r row, where now = now and k = m])
    assume "get_row rid (expire_runs now m db) = Some r"
    then show thesis using that row_move.idle by blast
  next
    assume "publication_is_exhausted now m r" "get_row rid (expire_runs now m db) = Some (fail_publication now r)"
    then show thesis using that row_move.publication_expires
      by (fastforce simp: fail_publication_def terminalize_def is_terminal_def)
  next
    assume "worker_is_exhausted now m r"
      "get_row rid (expire_runs now m db) =
         Some ((terminalize now Failed ''malfunction'' ''failed'' ''Worker attempts exhausted.'' r)
                 \<lparr>l_failure := Some worker_attempts_exhausted\<rparr>)"
    then show thesis using that row_move.worker_expires
      by (fastforce simp: terminalize_def is_terminal_def)
  qed
  show ?thesis
  proof (rule claim_cases [OF ok, of now w l m], goal_cases idle claimed)
    case idle
    then show ?case using s by auto
  next
    case (claimed row)
    note sel = claim_selects [OF ok claimed(1)]
    have "get_row rid (snd (claim_lifecycle_run now w l m db)) =
        Some (if claim_guard now (l_run_id row) s then take_lease now w l s else s)"
      using claimed(2) get_row_step [OF s(1)] by simp
    moreover have "row_move m r (take_lease now w l s)" if guard: "claim_guard now (l_run_id row) s"
    proof -
      have "s = row" using sel(4) [OF _ guard] get_rowD [OF s(1)] by blast
      then have "claimable now m s" using sel(2) by simp
      moreover then have "s = r" using s(3) by (auto simp: is_terminal_def dest: claimable_quiet)
      ultimately show ?thesis using row_move.lease by blast
    qed
    ultimately show ?case using s(2) by auto
  qed
qed

lemma store_step_moves:
  assumes "store_step m db db'" and ok: "database_ok m db" and r: "get_row rid db = Some r"
  shows "\<exists>r'. get_row rid db' = Some r' \<and> row_move m r r'"
  using assms(1)
proof cases
  case create
  then show ?thesis using create_moves [OF r] owingD(2) [OF ok [unfolded database_ok_def]] by simp
next
  case claim
  then show ?thesis using claim_moves [OF ok [unfolded database_ok_def] r] by simp
next
  case (heartbeat now rid' w a l)
  then show ?thesis using get_row_step [OF r] row_move.idle row_move.beat
    by (auto simp: heartbeat_lifecycle_run_def holds_def)
next
  case (prepare now rid' w a staged)
  then show ?thesis using get_row_step [OF r] row_move.idle row_move.stage
    by (auto simp: prepare_lifecycle_publication_def)
next
  case (begin_publication now rid' w a)
  then show ?thesis using get_row_step [OF r] r row_move.idle row_move.publish
    by (auto simp: begin_lifecycle_publication_def split: option.splits)
next
  case (complete now rid' w a res completion i t)
  then show ?thesis using get_row_step [OF r] r row_move.idle row_move.finish
      no_cancel_on_complete [OF ok [unfolded database_ok_def], of rid' w a]
    by (auto simp: complete_lifecycle_run_def Let_def)
next
  case (fail now rid' w a failure failed_result)
  then show ?thesis using get_row_step [OF r] row_move.idle row_move.break
    by (auto simp: fail_lifecycle_run_def Let_def)
next
  case (cancel now rid')
  then show ?thesis using get_row_step [OF r] r row_move.idle row_move.call_off
    by (auto simp: cancel_lifecycle_run_def Let_def split: option.splits)
qed (use r row_move.idle in \<open>auto simp: get_row_def mark_callback_delivered_def reschedule_callback_delivery_def
      mark_callback_configuration_failed_def update_delivery_def\<close>)

section \<open>The state machine of a run\<close>

datatype phase = Waiting | Translating | Staged | Publishing | Fulfilled | Broken | CalledOff

definition phase_of :: "lifecycle_row \<Rightarrow> phase" where
  "phase_of r =
     (case l_status r of
        Queued \<Rightarrow> Waiting
      | Running \<Rightarrow> (case l_publication_state r of PubNone \<Rightarrow> Translating | PubPrepared \<Rightarrow> Staged | _ \<Rightarrow> Publishing)
      | Completed \<Rightarrow> Fulfilled
      | Failed \<Rightarrow> Broken
      | Canceled \<Rightarrow> CalledOff)"

text \<open>A run that is publishing is never called off, and nothing leaves the last three phases.\<close>

inductive phase_step :: "phase \<Rightarrow> phase \<Rightarrow> bool" where
  "phase_step Waiting Translating"
| "phase_step Waiting CalledOff"
| "phase_step Translating Staged"
| "phase_step Staged Publishing"
| "p \<in> {Translating, Staged} \<Longrightarrow> phase_step p CalledOff"
| "p \<in> {Translating, Staged, Publishing} \<Longrightarrow> phase_step p Fulfilled"
| "p \<in> {Translating, Staged, Publishing} \<Longrightarrow> phase_step p Broken"

inductive_simps phase_step_simps [simp]:
  "phase_step Waiting q" "phase_step Translating q" "phase_step Staged q" "phase_step Publishing q"
  "phase_step Fulfilled q" "phase_step Broken q" "phase_step CalledOff q"

lemma row_move_phase:
  assumes "row_move m r r'" and "row_ok m r"
  shows "phase_of r' = phase_of r \<or> phase_step (phase_of r) (phase_of r')"
  using assms
proof (induction rule: row_move.induct)
  case (call_off r now)
  then show ?case
    by (cases "l_status r"; cases "l_publication_state r")
      (simp_all add: cancel_row_def terminalize_def phase_of_def row_defs)
next
  case (break now rid w a r failure failed_result)
  then show ?case
    by (cases "l_publication_state r")
      (auto simp: fail_guard_def holds_def fail_row_def terminalize_def phase_of_def row_defs Let_def)
next
  case (finish now rid w a r res completion i t)
  then show ?case
    by (cases "l_publication_state r")
      (auto simp: complete_guard_def holds_def complete_row_def terminalize_def phase_of_def row_defs)
next
  case (lease now r w l)
  then have "l_status r = Queued \<or> l_status r = Running" by (simp add: claimable_quiet)
  then show ?case using lease(2)
    by (cases "l_publication_state r") (auto simp: take_lease_def phase_of_def row_defs)
next
  case (worker_expires now r)
  then show ?case
    by (cases "l_publication_state r") (auto simp: worker_is_exhausted_def terminalize_def phase_of_def)
next
  case (bind r now cb)
  then show ?case by (cases "l_status r") (simp_all add: phase_of_def)
qed (auto simp: phase_of_def publication_is_exhausted_def fail_publication_def terminalize_def
      prepare_guard_def begin_guard_def holds_def)

text \<open>
  C13. The store refines the state machine of a run: whatever operation is called, with whatever
  arguments and clock, every run of a reachable database is still there afterwards, and its phase
  either stayed or took one transition of the machine. In particular a run that began to publish is
  never canceled, and a finished run never changes phase.
\<close>

theorem run_follows_state_machine:
  assumes "reachable m db" and "store_step m db db'" and "get_row rid db = Some r"
  shows "\<exists>r'. get_row rid db' = Some r' \<and> (phase_of r' = phase_of r \<or> phase_step (phase_of r) (phase_of r'))"
proof -
  have ok: "database_ok m db" using reachable_ok [OF assms(1)] .
  then have "row_ok m r" using owingD(1) get_rowD [OF assms(3)] unfolding database_ok_def by blast
  then show ?thesis using store_step_moves [OF assms(2) ok assms(3)] row_move_phase by blast
qed

lemma run_follows_state_machine_witness:
  "\<exists>r'. get_row ''run-1'' completed_store = Some r' \<and> phase_of (sample_row publishing_store) = Publishing
      \<and> (phase_of r' = Publishing \<or> phase_step Publishing (phase_of r'))"
proof -
  have "phase_of (sample_row publishing_store) = Publishing" by code_simp
  then show ?thesis
    using run_follows_state_machine [OF sample_reachable(5) sample_steps(5) sample_rows(5)] by simp
qed

section \<open>Finality\<close>

definition only_bound :: "lifecycle_row \<Rightarrow> lifecycle_row \<Rightarrow> bool" where
  "only_bound r r' =
     (r' = r\<lparr>l_callback := l_callback r', l_updated_at := l_updated_at r'\<rparr> \<and> (l_callback r \<noteq> None \<longrightarrow> r' = r))"

lemma only_bound_refl [simp]: "only_bound r r"
  by (simp add: only_bound_def)

lemma only_bound_trans: "only_bound r s \<Longrightarrow> only_bound s t \<Longrightarrow> only_bound r t"
  unfolding only_bound_def by (cases r; cases s; cases t) auto

lemma only_bound_status: "only_bound r s \<Longrightarrow> l_status s = l_status r"
  unfolding only_bound_def by (cases r; cases s) auto

lemma terminal_move:
  assumes "row_move m r r'" and "is_terminal (l_status r)"
  shows "only_bound r r'"
  using assms
  by (induction rule: row_move.induct)
    (auto simp: only_bound_def publication_is_exhausted_def worker_is_exhausted_def is_terminal_def
      prepare_guard_def begin_guard_def complete_guard_def fail_guard_def holds_def cancel_row_def
      dest: claimable_quiet)

lemma terminal_steps:
  assumes "(store_step m)\<^sup>*\<^sup>* db db'" and "database_ok m db"
    and "get_row rid db = Some r" and "is_terminal (l_status r)"
  shows "\<exists>r'. get_row rid db' = Some r' \<and> only_bound r r'"
  using assms
proof (induction rule: rtranclp_induct)
  case (step db1 db2)
  then obtain s where s: "get_row rid db1 = Some s" "only_bound r s" by blast
  have "database_ok m db1" using store_steps_ok [OF step(1) step(4)] .
  then obtain t where "get_row rid db2 = Some t" "row_move m s t" using store_step_moves [OF step(2) _ s(1)] by blast
  moreover have "is_terminal (l_status s)" using step(6) only_bound_status [OF s(2)] by simp
  ultimately show ?case using terminal_move only_bound_trans [OF s(2)] by blast
qed auto

text \<open>
  C22. An outcome is final. Once a run is completed, failed or canceled, no sequence of store
  operations changes its row, with one exception: a repeated submission may attach callback
  metadata to a run that had none, which writes the callback columns and the update time only.
\<close>

theorem outcome_is_final:
  assumes "reachable m db" and "(store_step m)\<^sup>*\<^sup>* db db'"
    and "get_row rid db = Some r" and "is_terminal (l_status r)"
  shows "\<exists>r'. get_row rid db' = Some r' \<and> (l_callback r \<noteq> None \<longrightarrow> r' = r)
           \<and> r' = r\<lparr>l_callback := l_callback r', l_updated_at := l_updated_at r'\<rparr>"
  using terminal_steps [OF assms(2) reachable_ok [OF assms(1)] assms(3,4)] unfolding only_bound_def by blast

lemma outcome_is_final_witness:
  "get_row ''run-1'' (snd (cancel_lifecycle_run 140 ''run-1'' completed_store)) = Some (sample_row completed_store)"
proof -
  have "is_terminal (l_status (sample_row completed_store))" and "l_callback (sample_row completed_store) \<noteq> None"
    by code_simp+
  then show ?thesis
    using outcome_is_final [OF sample_reachable(6) r_into_rtranclp [of "store_step 3", OF store_step.cancel] sample_rows(6)]
    by auto
qed

section \<open>Fencing\<close>

lemma attempts_grow:
  assumes "row_move m r r'"
  shows "l_attempt_number r \<le> l_attempt_number r'"
  using assms
  by (induction rule: row_move.induct)
    (auto simp: fail_publication_def terminalize_def take_lease_def complete_row_def fail_row_def Let_def
      cancel_row_def split: run_status.splits)

lemma attempts_grow_steps:
  assumes "(store_step m)\<^sup>*\<^sup>* db db'" and "database_ok m db" and "get_row rid db = Some r"
  shows "\<exists>r'. get_row rid db' = Some r' \<and> l_attempt_number r \<le> l_attempt_number r'"
  using assms
proof (induction rule: rtranclp_induct)
  case (step db1 db2)
  then obtain s where s: "get_row rid db1 = Some s" "l_attempt_number r \<le> l_attempt_number s" by blast
  have "database_ok m db1" using store_steps_ok [OF step(1) step(4)] .
  then obtain t where "get_row rid db2 = Some t" "row_move m s t" using store_step_moves [OF step(2) _ s(1)] by blast
  then show ?case using attempts_grow s(2) le_trans by blast
qed auto

text \<open>An attempt that does not hold its run changes nothing.\<close>

definition fenced :: "string \<Rightarrow> string \<Rightarrow> nat \<Rightarrow> database \<Rightarrow> bool" where
  "fenced rid w a db =
     (\<forall>now l staged res completion i t failure failed_result.
        heartbeat_lifecycle_run now rid w a l db = (False, db)
        \<and> prepare_lifecycle_publication now rid w a staged db = (False, db)
        \<and> begin_lifecycle_publication now rid w a db = (False, db)
        \<and> complete_lifecycle_run now rid w a res completion i t db = (Inr False, db)
        \<and> fail_lifecycle_run now rid w a failure failed_result db = (False, db))"

lemma not_held_fenced:
  assumes "\<And>r. r \<in> set (lifecycle_rows db) \<Longrightarrow> \<not> holds rid w a r"
  shows "fenced rid w a db"
proof -
  have none: "row_count P db = 0 \<and> update_rows P f db = db" if "\<And>r. P r \<Longrightarrow> holds rid w a r" for P f
    using that assms update_rows_none [of db P f] by (auto simp: row_count_zero)
  have "find (\<lambda>r. holds rid w a r \<and> reaches (l_lease_expires_at r) now) (lifecycle_rows db) = None" for now
    using assms by (auto simp: find_None_iff)
  then show ?thesis unfolding fenced_def
    using none [of "holds rid w a"] none [of "prepare_guard _ rid w a"] none [of "begin_guard _ rid w a"]
      none [of "cancel_on_complete rid w a"] none [of "complete_guard _ rid w a"] none [of "fail_guard _ rid w a"]
    by (simp add: heartbeat_lifecycle_run_def prepare_lifecycle_publication_def begin_lifecycle_publication_def
        complete_lifecycle_run_def fail_lifecycle_run_def prepare_guard_def begin_guard_def
        cancel_on_complete_def complete_guard_def fail_guard_def Let_def)
qed

text \<open>
  C14. Attempts are fencing tokens. When a run has gone on to a later attempt than \<open>a\<close>, then, now and
  after any further operations, a worker that still acts for attempt \<open>a\<close> can neither extend the
  lease, stage or begin a publication, complete nor fail the run: every such call returns false and
  leaves the database as it is. Moreover no run exceeds the configured number of attempts.
\<close>

theorem stale_attempt_is_fenced:
  assumes "reachable m db" and "get_row rid db = Some r" and "a < l_attempt_number r"
    and "(store_step m)\<^sup>*\<^sup>* db db'"
  shows "fenced rid w a db' \<and> (\<forall>s \<in> set (lifecycle_rows db'). l_attempt_number s \<le> m)"
proof
  have ok: "database_ok m db'" using store_steps_ok [OF assms(4) reachable_ok [OF assms(1)]] .
  then show "\<forall>s \<in> set (lifecycle_rows db'). l_attempt_number s \<le> m"
    unfolding database_ok_def using owingD(1) [of "{}" m db'] by (auto simp: row_ok_def)
  obtain r' where r': "get_row rid db' = Some r'" "l_attempt_number r \<le> l_attempt_number r'"
    using attempts_grow_steps [OF assms(4) reachable_ok [OF assms(1)] assms(2)] by blast
  have runs: "unique_runs db'" using owingD(2) ok unfolding database_ok_def by blast
  show "fenced rid w a db'"
  proof (rule not_held_fenced)
    fix s assume "s \<in> set (lifecycle_rows db')"
    then show "\<not> holds rid w a s"
      using unique_runsD [OF runs, of s r'] get_rowD [OF r'(1)] r'(2) assms(3) by (auto simp: holds_def)
  qed
qed

lemma terminal_fenced:
  assumes "database_ok m db" and "get_row rid db = Some r" and "is_terminal (l_status r)"
    and "(store_step m)\<^sup>*\<^sup>* db db'"
  shows "fenced rid w a db'"
proof -
  obtain r' where r': "get_row rid db' = Some r'" "l_status r' = l_status r"
    using terminal_steps [OF assms(4,1,2,3)] only_bound_status by blast
  have runs: "unique_runs db'"
    using owingD(2) store_steps_ok [OF assms(4,1)] unfolding database_ok_def by blast
  show ?thesis
  proof (rule not_held_fenced)
    fix s assume "s \<in> set (lifecycle_rows db')"
    then show "\<not> holds rid w a s"
      using unique_runsD [OF runs, of s r'] get_rowD [OF r'(1)] r'(2) assms(3) by (auto simp: holds_def is_terminal_def)
  qed
qed

lemma stale_attempt_is_fenced_witness:
  "l_attempt_number (sample_row reclaimed_store) = 2 \<and> fenced ''run-1'' ''worker-1'' 1 staged_store"
proof -
  have 2: "l_attempt_number (sample_row reclaimed_store) = 2" by code_simp
  then show ?thesis
    using stale_attempt_is_fenced [OF sample_reachable(3) sample_rows(3), of 1 staged_store "''worker-1''"]
      r_into_rtranclp [of "store_step 3", OF sample_steps(3)] by simp
qed

end
