(* ===== verification/LifecycleContract.thy ===== *)
theory LifecycleContract
  imports LifecycleProps
begin

text \<open>
  The store's contract with its callers: what a claim hands out, when publication and cancellation
  win, what a repeated submission gets, and what the callback outbox holds.
\<close>

section \<open>Claims\<close>

lemma claimed_first_total: "claimed_first a b \<or> claimed_first b a"
  unfolding claimed_first_def using text_less_eq_total by (cases "l_created_at a" "l_created_at b" rule: linorder_cases) auto

lemma claimed_first_trans: "claimed_first a b \<Longrightarrow> claimed_first b c \<Longrightarrow> claimed_first a c"
  unfolding claimed_first_def by (auto intro: text_less_eq_trans)

lemma first_row_least:
  "first_row rs = Some r \<Longrightarrow> s \<in> set rs \<Longrightarrow> claimed_first r s"
proof (induction rs arbitrary: r s)
  case (Cons t rs)
  show ?case
  proof (cases "first_row rs")
    case None
    then show ?thesis using Cons.prems claimed_first_total [of t t] by (simp add: first_row_None)
  next
    case (Some u)
    show ?thesis
    proof (cases "claimed_first t u")
      case True
      then have [simp]: "r = t" using Cons.prems(1) Some by simp
      show ?thesis using Cons.prems(2) claimed_first_total [of t t] claimed_first_trans [OF True Cons.IH [OF Some]] by auto
    next
      case False
      then have [simp]: "r = u" using Cons.prems(1) Some by simp
      show ?thesis using Cons.prems(2) False claimed_first_total [of t u] Cons.IH [OF Some] by auto
    qed
  qed
qed simp

lemma get_row_after_claim:
  assumes ok: "owing {} m db" and c: "claim_lifecycle_run now w l k db = (Some r', db')"
  obtains row where "first_row (filter (claimable now k) (lifecycle_rows (expire_runs now k db))) = Some row"
    and "r' = take_lease now w l row" and "get_row (l_run_id r') db' = Some r'"
    and "get_row (l_run_id r') (expire_runs now k db) = Some row"
proof (rule claim_cases [OF ok, of now w l k], goal_cases)
  case 1
  then show ?thesis using c by simp
next
  case (2 row)
  note claimed = 2(2,3)
  note sel = claim_selects [OF ok claimed(1)]
  have row: "get_row (l_run_id row) (expire_runs now k db) = Some row"
    using get_row_unique [OF owingD(2) [OF expire_runs_ok [OF ok]]] sel(1) by simp
  show ?thesis
    by (rule that [OF claimed(1)])
      (use claimed(2) c row claimable_guard [OF sel(2)] get_row_step [OF row] in auto)
qed

text \<open>
  C23. A claim hands out one run, to one worker, in order. The run it returns was queued or its lease
  had run out, had attempts left, and is now running under the caller's name with its attempt
  counted and a lease from now on; no claimable run precedes it in the order of submission; and the
  database holds exactly the row that is returned.
\<close>

theorem claim_hands_out_first_run:
  assumes "reachable m db" and "claim_lifecycle_run now w l m db = (Some r', db')"
  shows "\<exists>r. get_row (l_run_id r') (expire_runs now m db) = Some r
      \<and> (l_status r = Queued \<or> l_status r = Running \<and> before (l_lease_expires_at r) now)
      \<and> l_attempt_number r' = l_attempt_number r + 1 \<and> l_attempt_number r' \<le> m
      \<and> holds (l_run_id r') w (l_attempt_number r') r' \<and> l_lease_expires_at r' = Some (now + l)
      \<and> get_row (l_run_id r') db' = Some r'
      \<and> (\<forall>s \<in> set (lifecycle_rows (expire_runs now m db)). claimable now m s \<longrightarrow> claimed_first r s)"
proof -
  have ok: "owing {} m db" using reachable_ok [OF assms(1)] unfolding database_ok_def .
  obtain row where row: "first_row (filter (claimable now m) (lifecycle_rows (expire_runs now m db))) = Some row"
    "r' = take_lease now w l row" "get_row (l_run_id r') db' = Some r'"
    "get_row (l_run_id r') (expire_runs now m db) = Some row"
    by (rule get_row_after_claim [OF ok assms(2)])
  have "claimable now m row" using claim_selects(2) [OF ok row(1)] .
  then show ?thesis using row first_row_least [OF row(1)]
    by (intro exI [of _ row]) (auto simp: claimable_def take_lease_def holds_def)
qed

lemma claim_hands_out_first_run_witness:
  "\<exists>r'. claim_lifecycle_run 20 ''worker-1'' 60 3 queued_store = (Some r', running_store)
     \<and> get_row (l_run_id r') running_store = Some r' \<and> holds (l_run_id r') ''worker-1'' (l_attempt_number r') r'"
proof -
  obtain r' where "claim_lifecycle_run 20 ''worker-1'' 60 3 queued_store = (Some r', running_store)"
  proof -
    have "fst (claim_lifecycle_run 20 ''worker-1'' 60 3 queued_store) \<noteq> None" by code_simp
    then show thesis using that by (auto simp: running_store_def prod_eq_iff)
  qed
  then show ?thesis using claim_hands_out_first_run [OF sample_reachable(1)] by blast
qed

text \<open>
  No run is lost. When a claim finds nothing to do, every run of the store has ended or is
  running under a lease that has not run out: queued runs, runs whose worker died and runs whose
  attempts are used up are all dealt with.
\<close>

theorem idle_claim_leaves_no_work:
  assumes "reachable m db" and "0 < m" and "claim_lifecycle_run now w l m db = (None, db')"
    and "r \<in> set (lifecycle_rows db')"
  shows "is_terminal (l_status r) \<or> l_status r = Running \<and> reaches (l_lease_expires_at r) now"
proof -
  have ok: "owing {} m db" using reachable_ok [OF assms(1)] unfolding database_ok_def .
  have db': "db' = expire_runs now m db" and idle: "filter (claimable now m) (lifecycle_rows db') = []"
    by (rule claim_cases [OF ok, of now w l m], use assms(3) in auto)+
  have row: "row_ok m r" using owingD(1) [OF expire_runs_ok [OF ok]] assms(4) db' by blast
  have not: "\<not> claimable now m r" using idle assms(4) by (auto simp: filter_empty_conv)
  have runs: "unique_runs db'" using owingD(2) [OF expire_runs_ok [OF ok]] db' by simp
  have get: "get_row (l_run_id r) (expire_runs now m db) = Some r" using get_row_unique [OF runs] assms(4) db' by simp
  have "get_row (l_run_id r) db \<noteq> None"
  proof
    assume "get_row (l_run_id r) db = None"
    then have "get_row (l_run_id r) (expire_runs now m db) = None"
      unfolding expire_runs_def get_row_outbox by (simp add: get_row_update terminalize_def)
    then show False using get by simp
  qed
  then obtain r0 where r0: "get_row (l_run_id r) db = Some r0" by blast
  have ok0: "row_ok m r0" using owingD(1) [OF ok] get_rowD [OF r0] by blast
  show ?thesis
  proof (rule expire_moves [OF r0 ok0, where now = now and k = m])
    assume "get_row (l_run_id r) (expire_runs now m db) = Some r0" and expired:
      "\<not> publication_is_exhausted now m r0" "\<not> worker_is_exhausted now m r0"
    then have [simp]: "r0 = r" using get by simp
    show ?thesis
      using expired not row assms(2)
      by (cases "l_status r"; cases "l_publication_state r"; cases "l_lease_expires_at r")
        (auto simp: claimable_def publication_is_exhausted_def worker_is_exhausted_def row_defs is_terminal_def before_def reaches_def)
  qed (use get in \<open>auto simp: fail_publication_def terminalize_def is_terminal_def\<close>)
qed

lemma idle_claim_leaves_no_work_witness:
  "l_status (sample_row running_store) = Running \<and> reaches (l_lease_expires_at (sample_row running_store)) 30"
proof -
  have none: "claim_lifecycle_run 30 ''worker-2'' 60 3 running_store = (None, running_store)" by code_simp
  have row: "sample_row running_store \<in> set (lifecycle_rows running_store)" and run: "l_status (sample_row running_store) = Running"
    by code_simp+
  then show ?thesis using idle_claim_leaves_no_work [OF sample_reachable(2) _ none row] by (simp add: is_terminal_def)
qed

section \<open>Publication and cancellation\<close>

lemma get_row_cancel:
  "get_row rid db = Some r \<Longrightarrow> cancel_lifecycle_run now rid db =
     (Some (cancel_row now r), snd (cancel_lifecycle_run now rid db))
   \<and> get_row rid (snd (cancel_lifecycle_run now rid db)) = Some (cancel_row now r)"
  using get_row_step [of rid db r "cancel_row now" "\<lambda>r. l_run_id r = rid"] get_rowD [of rid db r]
  by (simp add: cancel_lifecycle_run_def Let_def)

lemma complete_succeeds:
  assumes ok: "owing {} m db" and r: "get_row rid db = Some r" and guard: "complete_guard now rid w a r"
    and free: "\<forall>s \<in> set (lifecycle_rows db). l_result_id s \<noteq> Some i"
  shows "\<exists>db'. complete_lifecycle_run now rid w a res completion i t db = (Inr True, db')
           \<and> get_row rid db' = Some (complete_row now res completion i t r)"
proof -
  have one: "row_count (complete_guard now rid w a) db = 1"
    using row_count_one [OF owingD(2) [OF ok], of "complete_guard now rid w a" rid] r guard
    by (simp add: complete_guard_def holds_def)
  then show ?thesis using no_cancel_on_complete [OF ok] free get_row_step [OF r] guard
    by (auto simp: complete_lifecycle_run_def Let_def)
qed

text \<open>
  Once a worker has begun to publish, completion beats cancellation: a cancel request only
  marks the run, and the worker's completion within its lease succeeds and ends the run as
  completed and published, with the result it submits.
\<close>

theorem publication_beats_cancellation:
  assumes "reachable m db" and "get_row rid db = Some r" and "holds rid w a r"
    and "l_publication_state r = PubPending" and "reaches (l_lease_expires_at r) now"
    and "\<forall>s \<in> set (lifecycle_rows db). l_result_id s \<noteq> Some i"
  shows "\<exists>r1 r2 db2. fst (cancel_lifecycle_run t0 rid db) = Some r1
      \<and> l_status r1 = Running \<and> l_cancel_requested r1
      \<and> complete_lifecycle_run now rid w a res completion i t (snd (cancel_lifecycle_run t0 rid db)) = (Inr True, db2)
      \<and> get_row rid db2 = Some r2 \<and> l_status r2 = Completed \<and> l_publication_state r2 = PubPublished
      \<and> l_result_json r2 = Some res \<and> l_completion_json r2 = Some completion \<and> l_result_id r2 = Some i"
proof -
  have ok: "owing {} m db" using reachable_ok [OF assms(1)] unfolding database_ok_def .
  have row: "row_ok m r" using owingD(1) [OF ok] get_rowD [OF assms(2)] by blast
  define db1 where "db1 = snd (cancel_lifecycle_run t0 rid db)"
  have ok1: "owing {} m db1" unfolding db1_def by (rule cancel_lifecycle_run_ok [OF ok])
  have r1: "get_row rid db1 = Some (cancel_row t0 r)" "fst (cancel_lifecycle_run t0 rid db) = Some (cancel_row t0 r)"
    using get_row_cancel [OF assms(2), of t0] unfolding db1_def by (metis fst_conv)+
  have run: "l_status r = Running" using assms(3) by (simp add: holds_def)
  have guard: "complete_guard now rid w a (cancel_row t0 r)"
    using assms(3-5) row run by (simp add: complete_guard_def holds_def cancel_row_def row_defs)
  have "l_result_id s \<noteq> Some i" if "s \<in> set (lifecycle_rows db1)" for s
    using that assms(6) unfolding db1_def by (auto simp: cancel_lifecycle_run_def Let_def split: option.splits)
  then obtain db2 where "complete_lifecycle_run now rid w a res completion i t db1 = (Inr True, db2)"
    "get_row rid db2 = Some (complete_row now res completion i t (cancel_row t0 r))"
    using complete_succeeds [OF ok1 r1(1) guard] by blast
  then show ?thesis using r1(2) run assms(4) unfolding db1_def
    by (auto simp: cancel_row_def complete_row_def terminalize_def)
qed

lemma publication_beats_cancellation_witness:
  "\<exists>r2 db2. complete_lifecycle_run 130 ''run-1'' ''worker-2'' 2 (JObj []) (JObj []) ''result-1'' ''not-translatable''
        (snd (cancel_lifecycle_run 125 ''run-1'' publishing_store)) = (Inr True, db2)
     \<and> get_row ''run-1'' db2 = Some r2 \<and> l_status r2 = Completed"
proof -
  have "holds ''run-1'' ''worker-2'' 2 (sample_row publishing_store)"
    and "l_publication_state (sample_row publishing_store) = PubPending"
    and "reaches (l_lease_expires_at (sample_row publishing_store)) 130"
    and "\<forall>s \<in> set (lifecycle_rows publishing_store). l_result_id s \<noteq> Some ''result-1''"
    by code_simp+
  then show ?thesis using publication_beats_cancellation [OF sample_reachable(5) sample_rows(5)] by blast
qed

text \<open>
  Before publication begins, cancellation wins: a cancel request ends a queued, translating or
  staged run as canceled, with no result and no failure, and from then on no attempt of any worker
  can stage, publish, complete or fail it.
\<close>

theorem cancellation_before_publication_wins:
  assumes "reachable m db" and "get_row rid db = Some r"
    and "l_status r = Queued \<or> l_status r = Running \<and> l_publication_state r \<in> {PubNone, PubPrepared}"
    and "(store_step m)\<^sup>*\<^sup>* (snd (cancel_lifecycle_run now rid db)) db'"
  shows "(\<exists>r'. get_row rid db' = Some r' \<and> l_status r' = Canceled \<and> l_result_json r' = None \<and> l_failure r' = None)
      \<and> fenced rid w a db'"
proof -
  let ?db1 = "snd (cancel_lifecycle_run now rid db)"
  have ok1: "database_ok m ?db1" using store_step_ok [OF store_step.cancel reachable_ok [OF assms(1)]] .
  have row: "row_ok m r"
    using owingD(1) reachable_ok [OF assms(1)] get_rowD [OF assms(2)] unfolding database_ok_def by blast
  have c: "get_row rid ?db1 = Some (cancel_row now r)" using get_row_cancel [OF assms(2)] by blast
  have r1: "l_status (cancel_row now r) = Canceled" "l_result_json (cancel_row now r) = None" "l_failure (cancel_row now r) = None"
    using assms(3) row by (auto simp: cancel_row_def terminalize_def row_defs)
  then obtain r' where r': "get_row rid db' = Some r'" "only_bound (cancel_row now r) r'"
    using terminal_steps [OF assms(4) ok1 c] by (auto simp: is_terminal_def)
  then have "l_status r' = Canceled" "l_result_json r' = None" "l_failure r' = None"
    using r1 unfolding only_bound_def by (cases "cancel_row now r"; cases r'; simp)+
  then show ?thesis using r'(1) terminal_fenced [OF ok1 c _ assms(4)] r1(1) by (simp add: is_terminal_def)
qed

lemma cancellation_before_publication_wins_witness:
  "(\<exists>r'. get_row ''run-1'' (snd (cancel_lifecycle_run 115 ''run-1'' staged_store)) = Some r' \<and> l_status r' = Canceled
      \<and> l_result_json r' = None \<and> l_failure r' = None)
   \<and> fenced ''run-1'' ''worker-2'' 2 (snd (cancel_lifecycle_run 115 ''run-1'' staged_store))"
proof -
  have "l_status (sample_row staged_store) = Running" "l_publication_state (sample_row staged_store) = PubPrepared"
    by code_simp+
  then show ?thesis using cancellation_before_publication_wins [OF sample_reachable(4) sample_rows(4) _ rtranclp.rtrancl_refl]
    by simp
qed

section \<open>Submission\<close>

lemma row_move_same_run: "row_move m r r' \<Longrightarrow> same_run r r'"
proof (induction rule: row_move.induct)
  case (bind r now cb) then show ?case by (simp add: same_run_def)
next
  case (beat r t now) then show ?case by (simp add: same_run_def)
next
  case (stage now rid w a r staged ph msg) then show ?case by (simp add: same_run_def)
next
  case (publish now rid w a r msg) then show ?case by (simp add: same_run_def)
qed simp_all

lemma row_move_callback: "row_move m r r' \<Longrightarrow> l_callback r \<noteq> None \<Longrightarrow> l_callback r' = l_callback r"
  by (induction rule: row_move.induct)
    (auto simp: fail_publication_def terminalize_def take_lease_def complete_row_def fail_row_def Let_def
      cancel_row_def split: run_status.splits)

lemma steps_same_run:
  assumes "(store_step m)\<^sup>*\<^sup>* db db'" and "database_ok m db" and "get_row rid db = Some r"
  shows "\<exists>r'. get_row rid db' = Some r' \<and> same_run r r' \<and> (l_callback r \<noteq> None \<longrightarrow> l_callback r' = l_callback r)"
  using assms
proof (induction rule: rtranclp_induct)
  case (step db1 db2)
  then obtain s where s: "get_row rid db1 = Some s" "same_run r s" "l_callback r \<noteq> None \<longrightarrow> l_callback s = l_callback r" by blast
  have "database_ok m db1" using store_steps_ok [OF step(1) step(4)] .
  then obtain t where "get_row rid db2 = Some t" "row_move m s t" using store_step_moves [OF step(2) _ s(1)] by blast
  then show ?case using row_move_same_run [of m s t] row_move_callback [of m s t] s(2,3) by (auto simp: same_run_def)
qed auto

lemma find_by_key:
  assumes "owing S m db" and "get_row rid db = Some r"
  shows "find (\<lambda>s. l_idempotency_key s = l_idempotency_key r) (lifecycle_rows db) = Some r"
proof -
  have r: "r \<in> set (lifecycle_rows db)" using get_rowD [OF assms(2)] by simp
  obtain s where s: "find (\<lambda>s. l_idempotency_key s = l_idempotency_key r) (lifecycle_rows db) = Some s"
    using r by (cases "find (\<lambda>s. l_idempotency_key s = l_idempotency_key r) (lifecycle_rows db)") (auto simp: find_None_iff)
  then have "s \<in> set (lifecycle_rows db)" "l_idempotency_key s = l_idempotency_key r" by (auto simp: find_Some_iff)
  then have "s = r" using owingD(3) [OF assms(1)] r by (auto simp: unique_keys_def distinct_map inj_on_def)
  then show ?thesis using s by simp
qed

text \<open>The run a successful submission answers with is stored under its key and digest.\<close>

lemma create_stores:
  assumes ok: "owing {} m db" and c: "create_lifecycle_run now rid req key digest cb db = (Inr (row, created), db')"
  shows "get_row (l_run_id row) db' = Some row \<and> l_idempotency_key row = key \<and> l_request_digest row = digest
    \<and> (cb \<noteq> None \<longrightarrow> l_callback row = cb) \<and> (created \<longrightarrow> l_run_id row = rid)"
proof (cases "find (\<lambda>r. l_idempotency_key r = key) (lifecycle_rows db)")
  case None
  then obtain q corr where row: "row = new_row now rid req q corr key digest cb" "get_row rid db = None"
    "db' = db\<lparr>lifecycle_rows := lifecycle_rows db @ [row]\<rparr>"
    using c by (auto simp: create_lifecycle_run_def Let_def split: if_splits option.splits)
  have "owing {} m db'" using create_lifecycle_run_ok [OF ok, of now rid req key digest cb] c by simp
  then have "get_row (l_run_id row) db' = Some row" using get_row_unique [OF owingD(2)] row(3) by auto
  then show ?thesis using row(1) by (simp add: new_row_def)
next
  case (Some old)
  then have old: "old \<in> set (lifecycle_rows db)" "l_idempotency_key old = key" by (auto simp: find_Some_iff)
  have get: "get_row (l_run_id old) db = Some old" using get_row_unique [OF owingD(2) [OF ok]] old by simp
  show ?thesis
  proof (cases "cb \<noteq> None \<and> l_callback old = None")
    case False
    then show ?thesis using c Some get old
      by (auto simp: create_lifecycle_run_def rebind_run_def split: option.splits if_splits)
  next
    case True
    then obtain submitted where cb: "cb = Some submitted" by blast
    note g = get_row_step [OF get, of "\<lambda>r. r\<lparr>l_callback := Some submitted, l_updated_at := now\<rparr>" "\<lambda>r. l_run_id r = l_run_id old"]
    then show ?thesis using c Some old True cb
      by (auto simp: create_lifecycle_run_def rebind_run_def Let_def split: if_splits)
  qed
qed

text \<open>
  C29. Submission is idempotent. After a submission with a key and a digest was answered with a run,
  and after any further operations, the same key and digest (and no other callback) are answered
  with that same run and nothing new is created; the same key with another digest is refused as a
  conflict and changes nothing.
\<close>

theorem submission_is_idempotent:
  assumes "reachable m db" and "create_lifecycle_run now rid req key digest cb db = (Inr (row, created), db1)"
    and "(store_step m)\<^sup>*\<^sup>* db1 db2"
  shows "(\<exists>row'. fst (create_lifecycle_run now' rid' req' key digest cb db2) = Inr (row', False) \<and> l_run_id row' = l_run_id row)
    \<and> (digest' \<noteq> digest \<longrightarrow> create_lifecycle_run now' rid' req' key digest' cb' db2 =
         (Inl (IdempotencyConflict ''Idempotency key is already bound to different input.''), db2))"
proof -
  have ok: "owing {} m db" using reachable_ok [OF assms(1)] unfolding database_ok_def .
  have ok1: "database_ok m db1" using create_lifecycle_run_ok [OF ok, of now rid req key digest cb] assms(2)
    unfolding database_ok_def by simp
  note stored = create_stores [OF ok assms(2)]
  obtain r where r: "get_row (l_run_id row) db2 = Some r" "same_run row r" "l_callback row \<noteq> None \<longrightarrow> l_callback r = l_callback row"
    using steps_same_run [OF assms(3) ok1] stored by blast
  have ok2: "owing {} m db2" using store_steps_ok [OF assms(3) ok1] unfolding database_ok_def .
  have keys: "l_idempotency_key r = key" "l_request_digest r = digest" using r(2) stored by (simp_all add: same_run_def)
  have found: "find (\<lambda>s. l_idempotency_key s = key) (lifecycle_rows db2) = Some r" using find_by_key [OF ok2 r(1)] keys by simp
  have "l_run_id r = l_run_id row" using r(2) by (simp add: same_run_def)
  moreover have "cb \<noteq> None \<longrightarrow> l_callback r = cb" using r(3) stored by simp
  ultimately show ?thesis using found keys
    by (cases cb) (auto simp: create_lifecycle_run_def rebind_run_def)
qed

lemma submission_is_idempotent_witness:
  "(\<exists>row'. fst (create_lifecycle_run 50 ''run-2'' sample_run_request ''key-1'' ''digest-1'' (Some sample_callback) running_store)
       = Inr (row', False) \<and> l_run_id row' = ''run-1'')
   \<and> create_lifecycle_run 50 ''run-2'' sample_run_request ''key-1'' ''digest-2'' None running_store =
       (Inl (IdempotencyConflict ''Idempotency key is already bound to different input.''), running_store)"
proof -
  have "reachable 3 empty_database" by (simp add: reachable_def)
  moreover have "create_lifecycle_run 10 ''run-1'' sample_run_request ''key-1'' ''digest-1'' (Some sample_callback) empty_database
      = (Inr (sample_row queued_store, True), queued_store)" by code_simp
  moreover have "l_run_id (sample_row queued_store) = ''run-1''" by code_simp
  ultimately show ?thesis
    using submission_is_idempotent [OF _ _ r_into_rtranclp [of "store_step 3", OF sample_steps(1)]] by fastforce
qed

section \<open>The outbox\<close>

lemma distinct_filter_single:
  assumes "distinct (map f xs)" and "x \<in> set xs"
  shows "filter (\<lambda>y. f y = f x) xs = [x]"
  using assms by (induction xs) (auto simp: filter_empty_conv dest: sym)

text \<open>
  The callback outbox is exact. In every reachable database each run that has ended and has
  callback metadata has exactly one delivery row, with the run's own terminal status, callback and
  correlation data and the event id derived from the run id; and a delivery row belongs to such a
  run, so nobody is told of a run that has not ended.
\<close>

theorem ended_run_notified_exactly_once:
  assumes "reachable m db"
  shows "(\<forall>r \<in> set (lifecycle_rows db). is_terminal (l_status r) \<and> l_callback r \<noteq> None \<longrightarrow>
            (\<exists>d. filter (\<lambda>d. d_run_id d = l_run_id r) (delivery_rows db) = [d] \<and> announces r d))
       \<and> (\<forall>d \<in> set (delivery_rows db). \<exists>r \<in> set (lifecycle_rows db). announces r d)"
proof -
  have ok: "owing {} m db" using reachable_ok [OF assms] unfolding database_ok_def .
  have "\<exists>d. filter (\<lambda>d. d_run_id d = l_run_id r) (delivery_rows db) = [d] \<and> announces r d"
    if r: "r \<in> set (lifecycle_rows db)" "owes_callback r" for r
  proof -
    obtain d where d: "d \<in> set (delivery_rows db)" "d_run_id d = l_run_id r" using owingD(7) [OF ok r] by auto
    obtain s where s: "s \<in> set (lifecycle_rows db)" "announces s d" using owingD(6) [OF ok d(1)] by blast
    have "l_run_id s = l_run_id r" using s(2) d(2) by (simp add: announces_def)
    then have "s = r" by (rule unique_runsD [OF owingD(2) [OF ok] s(1) r(1)])
    then show ?thesis using distinct_filter_single [OF owingD(5) [OF ok] d(1)] d(2) s(2) by simp
  qed
  then show ?thesis using owingD(6) [OF ok] by (auto simp: owes_callback_def)
qed

lemma ended_run_notified_exactly_once_witness:
  "\<exists>d. filter (\<lambda>d. d_run_id d = ''run-1'') (delivery_rows completed_store) = [d]
     \<and> announces (sample_row completed_store) d"
proof -
  have "sample_row completed_store \<in> set (lifecycle_rows completed_store)" "is_terminal (l_status (sample_row completed_store))"
    "l_callback (sample_row completed_store) \<noteq> None" "l_run_id (sample_row completed_store) = ''run-1''" by code_simp+
  then show ?thesis
    using ended_run_notified_exactly_once [OF sample_reachable(6), THEN conjunct1, rule_format, of "sample_row completed_store"]
    by simp
qed

text \<open>A step keeps every delivery row, and rewrites only rows that are still to be delivered.\<close>

definition kept_as :: "delivery_row \<Rightarrow> delivery_row \<Rightarrow> bool" where
  "kept_as d d' =
     (d_event_id d' = d_event_id d \<and> d_run_id d' = d_run_id d \<and> d_terminal_status d' = d_terminal_status d
      \<and> (\<not> undelivered d \<longrightarrow> d' = d))"

definition keeps_deliveries :: "database \<Rightarrow> database \<Rightarrow> bool" where
  "keeps_deliveries db db' = (\<forall>d \<in> set (delivery_rows db). \<exists>d' \<in> set (delivery_rows db'). kept_as d d')"

lemma kept_as_refl [simp]: "kept_as d d"
  by (simp add: kept_as_def)

lemma kept_as_trans: "kept_as d e \<Longrightarrow> kept_as e f \<Longrightarrow> kept_as d f"
  by (auto simp: kept_as_def)

lemma keeps_deliveries_refl [simp]: "keeps_deliveries db db"
  unfolding keeps_deliveries_def using kept_as_refl by blast

lemma keeps_deliveries_trans: "keeps_deliveries a b \<Longrightarrow> keeps_deliveries b c \<Longrightarrow> keeps_deliveries a c"
  unfolding keeps_deliveries_def by (meson kept_as_trans)

lemma keeps_deliveries_same [simp]: "delivery_rows db' = delivery_rows db \<Longrightarrow> keeps_deliveries db db'"
  unfolding keeps_deliveries_def by (metis kept_as_refl)

lemma keeps_deliveries_outbox: "delivery_rows db1 = delivery_rows db \<Longrightarrow> keeps_deliveries db (create_callback_outbox_records now sel db1)"
  using outbox_from_keeps [of "delivery_rows db" now sel "lifecycle_rows db1"]
  unfolding keeps_deliveries_def create_callback_outbox_records_def by (simp, blast intro: kept_as_refl)

lemma keeps_deliveries_update:
  assumes "\<And>d. d_event_id (f d) = d_event_id d" "\<And>d. d_run_id (f d) = d_run_id d" "\<And>d. d_terminal_status (f d) = d_terminal_status d"
  shows "keeps_deliveries db (update_delivery event f db)"
  unfolding keeps_deliveries_def
proof
  fix d assume "d \<in> set (delivery_rows db)"
  then have "(if d_event_id d = event \<and> undelivered d then f d else d) \<in> set (delivery_rows (update_delivery event f db))"
    unfolding update_delivery_def by (auto intro: image_eqI)
  then show "\<exists>d' \<in> set (delivery_rows (update_delivery event f db)). kept_as d d'"
    by (rule rev_bexI) (simp add: assms kept_as_def)
qed

lemma expire_keeps_deliveries: "keeps_deliveries db (expire_runs now k db)"
  unfolding expire_runs_def by (rule keeps_deliveries_outbox) simp

lemma store_step_keeps_deliveries:
  assumes "store_step m db db'" and ok: "database_ok m db"
  shows "keeps_deliveries db db'"
  using assms(1)
proof cases
  case (create now rid req key digest cb)
  then show ?thesis
    by (auto simp: create_lifecycle_run_def rebind_run_def Let_def keeps_deliveries_outbox split: option.splits)
next
  case (claim now w l)
  have ok': "owing {} m db" using ok unfolding database_ok_def .
  show ?thesis
  proof (rule claim_cases [OF ok', of now w l m], goal_cases)
    case 1 then show ?case using claim expire_keeps_deliveries by simp
  next
    case (2 row)
    then show ?case using claim keeps_deliveries_trans [OF expire_keeps_deliveries keeps_deliveries_same] by simp
  qed
qed (auto simp: heartbeat_lifecycle_run_def prepare_lifecycle_publication_def begin_lifecycle_publication_def
      complete_lifecycle_run_def fail_lifecycle_run_def cancel_lifecycle_run_def Let_def keeps_deliveries_outbox
      mark_callback_delivered_def reschedule_callback_delivery_def mark_callback_configuration_failed_def
      keeps_deliveries_update split: option.splits)

lemma steps_keep_deliveries:
  "(store_step m)\<^sup>*\<^sup>* db db' \<Longrightarrow> database_ok m db \<Longrightarrow> keeps_deliveries db db'"
proof (induction rule: rtranclp_induct)
  case (step db1 db2)
  then show ?case
    using keeps_deliveries_trans store_step_keeps_deliveries store_steps_ok [OF step(1)] by blast
qed simp

text \<open>
  Deliveries are final and never lost: whatever happens to the store, a delivery row stays, for
  the same event, run and terminal status, and once it is delivered or has failed on configuration
  it is never written again, so an acknowledged callback is not offered for sending a second time.
\<close>

theorem settled_delivery_is_final:
  assumes "reachable m db" and "(store_step m)\<^sup>*\<^sup>* db db'" and "d \<in> set (delivery_rows db)" and "\<not> undelivered d"
  shows "d \<in> set (delivery_rows db') \<and> (\<forall>now lim. d \<notin> set (list_due_callback_deliveries now lim db'))"
proof
  show "d \<in> set (delivery_rows db')"
    using steps_keep_deliveries [OF assms(2) reachable_ok [OF assms(1)]] assms(3,4) unfolding keeps_deliveries_def kept_as_def by metis
  have "set (foldr insert_due ds []) = set ds" for ds
  proof (induction ds)
    case (Cons e ds)
    have "set (insert_due e es) = insert e (set es)" for es by (induction es) auto
    then show ?case using Cons by simp
  qed simp
  then show "\<forall>now lim. d \<notin> set (list_due_callback_deliveries now lim db')"
    using assms(4) by (auto simp: list_due_callback_deliveries_def dest!: in_set_takeD)
qed

lemma settled_delivery_is_final_witness:
  "\<exists>d \<in> set (delivery_rows (mark_callback_delivered (callback_event_id ''run-1'') 150 200 completed_store)). \<not> undelivered d
     \<and> d \<notin> set (list_due_callback_deliveries 1000 10 (mark_callback_delivered (callback_event_id ''run-1'') 150 200 completed_store))"
proof -
  let ?db = "mark_callback_delivered (callback_event_id ''run-1'') 150 200 completed_store"
  have r: "reachable 3 ?db" by (rule reachable_step [OF sample_reachable(6) store_step.delivered])
  have "hd (delivery_rows ?db) \<in> set (delivery_rows ?db)" "\<not> undelivered (hd (delivery_rows ?db))" by code_simp+
  then show ?thesis using settled_delivery_is_final [OF r rtranclp.rtrancl_refl] by blast
qed

text \<open>
  C15. The store's invariant. In every database that operations can reach from the empty one, run
  ids, idempotency keys and result ids are unique, and the columns of a row agree with its status:
  exactly a running run has a worker and a lease, a run that has not ended carries no outcome, a
  completed run has its result, completion and result id and no failure, a failed one a failure and
  no result id, a canceled one neither; staged output exists exactly from staging on; no run has
  used more attempts than allowed; and the callback outbox matches the runs.
\<close>

theorem store_invariant:
  assumes "reachable m db"
  shows "database_ok m db"
  by (rule reachable_ok [OF assms])

lemma store_invariant_witness: "database_ok 3 completed_store"
  by (rule store_invariant [OF sample_reachable(6)])

section \<open>The public status\<close>

text \<open>
  What a client reads of a run is consistent. The status of a run that has not ended carries no
  terminal state, result id, failure, completion or end time; a completed one has all of them but
  the failure and its result can be read; a failed one has a failure and neither result id nor
  completion; a canceled one has none of the three, nor a result.
\<close>

theorem status_view_consistent:
  assumes "reachable m db" and "get_lifecycle_run rid db = Some run"
  shows "case s_status (run_status_view run) of
      Completed \<Rightarrow> s_terminal_state (run_status_view run) \<noteq> None \<and> s_result_id (run_status_view run) \<noteq> None
        \<and> s_completion (run_status_view run) \<noteq> None \<and> s_failure (run_status_view run) = None
        \<and> s_completed_at (run_status_view run) \<noteq> None \<and> get_lifecycle_result rid db \<noteq> None
    | Failed \<Rightarrow> s_terminal_state (run_status_view run) = Some ''malfunction'' \<and> s_result_id (run_status_view run) = None
        \<and> s_completion (run_status_view run) = None \<and> s_failure (run_status_view run) \<noteq> None
        \<and> s_completed_at (run_status_view run) \<noteq> None
    | Canceled \<Rightarrow> s_terminal_state (run_status_view run) = Some ''canceled'' \<and> s_result_id (run_status_view run) = None
        \<and> s_completion (run_status_view run) = None \<and> s_failure (run_status_view run) = None
        \<and> s_completed_at (run_status_view run) \<noteq> None \<and> get_lifecycle_result rid db = None
    | _ \<Rightarrow> s_terminal_state (run_status_view run) = None \<and> s_result_id (run_status_view run) = None
        \<and> s_completion (run_status_view run) = None \<and> s_failure (run_status_view run) = None
        \<and> s_completed_at (run_status_view run) = None \<and> get_lifecycle_result rid db = None"
proof -
  obtain r where r: "get_row rid db = Some r" "run = lifecycle_from_row r"
    using assms(2) by (auto simp: get_lifecycle_run_def)
  have "row_ok m r"
    using owingD(1) reachable_ok [OF assms(1)] get_rowD [OF r(1)] unfolding database_ok_def by blast
  then show ?thesis using r
    by (cases "l_status r") (simp_all add: lifecycle_from_row_def Let_def get_lifecycle_result_def row_defs)
qed

lemma status_view_consistent_witness:
  "\<exists>run. get_lifecycle_run ''run-1'' completed_store = Some run \<and> s_status (run_status_view run) = Completed
     \<and> s_result_id (run_status_view run) \<noteq> None \<and> get_lifecycle_result ''run-1'' completed_store \<noteq> None"
proof -
  obtain run where run: "get_lifecycle_run ''run-1'' completed_store = Some run"
    by (simp add: get_lifecycle_run_def sample_rows(6))
  have "map_option (\<lambda>run. s_status (run_status_view run)) (get_lifecycle_run ''run-1'' completed_store) = Some Completed"
    by code_simp
  then have "s_status (run_status_view run) = Completed" using run by simp
  then show ?thesis using status_view_consistent [OF sample_reachable(6) run] run by simp
qed

end
