(* ===== verification/CallbackProps.thy ===== *)
theory CallbackProps
  imports Callbacks LifecycleContract
begin

text \<open>
  What the callback component guarantees: which callback URLs a submission can register, when a
  delivery counts as delivered, how retries are scheduled, and what a pass of the dispatcher does
  to the outbox. The dispatcher's lemmas are proved against the repository protocol, stated as the
  locale \<open>delivery_outbox\<close>, which the durable store interprets.
\<close>

section \<open>The repository protocol\<close>

text \<open>
  \<open>pending db e\<close> is the delivery of event \<open>e\<close> that is still to be made. The due deliveries are
  pending ones whose time has come; settling an event removes it, putting it off rewrites its
  attempts and time, and neither touches another event.
\<close>

locale delivery_outbox =
  fixes repo :: "'db callback_repository" and pending :: "'db \<Rightarrow> string \<Rightarrow> callback_delivery option" and ok :: "'db \<Rightarrow> bool"
  assumes due_pending: "\<lbrakk>ok db; d \<in> set (list_due repo now lim db)\<rbrakk> \<Longrightarrow> pending db (event_id d) = Some d \<and> next_attempt_at d \<le> now"
    and due_distinct: "ok db \<Longrightarrow> distinct (map event_id (list_due repo now lim db))"
    and delivered_settles: "ok db \<Longrightarrow> pending (mark_delivered repo e t c db) = (pending db)(e := None)"
    and failed_settles: "ok db \<Longrightarrow> pending (mark_configuration_failed repo e a t sc cat db) = (pending db)(e := None)"
    and rescheduled: "ok db \<Longrightarrow> pending (reschedule_delivery repo e a t sc cat db) =
          (pending db)(e := map_option (\<lambda>d. d\<lparr>attempts := a, next_attempt_at := t\<rparr>) (pending db e))"
    and ok_delivered: "ok db \<Longrightarrow> ok (mark_delivered repo e t c db)"
    and ok_failed: "ok db \<Longrightarrow> ok (mark_configuration_failed repo e a t sc cat db)"
    and ok_rescheduled: "ok db \<Longrightarrow> ok (reschedule_delivery repo e a t sc cat db)"
begin

text \<open>What one delivery may do to its event: settle it, or put it off to a later time.\<close>

definition handled :: "nat \<Rightarrow> callback_delivery \<Rightarrow> 'db \<Rightarrow> bool" where
  "handled now d db =
     (case pending db (event_id d) of
        None \<Rightarrow> True
      | Some d' \<Rightarrow> \<exists>n. d' = d\<lparr>attempts := attempts d + 1, next_attempt_at := now + n\<rparr>)"

lemma retry_handles:
  assumes "ok db" and "pending db (event_id d) = Some d"
    and "retry repo cfg d (attempts d + 1) now code category after db = Inr db'"
  shows "ok db' \<and> handled now d db' \<and> (\<forall>e. e \<noteq> event_id d \<longrightarrow> pending db' e = pending db e)"
  using assms rescheduled [OF assms(1)] ok_rescheduled [OF assms(1)]
  by (auto simp: retry_def handled_def split: delay.splits if_splits)

lemma deliver_handles:
  assumes "ok db" and "pending db (event_id d) = Some d" and "deliver repo cfg post now d db = Inr db'"
  shows "ok db' \<and> handled now d db' \<and> (\<forall>e. e \<noteq> event_id d \<longrightarrow> pending db' e = pending db e)"
proof -
  have settled: "ok x \<and> handled now d x \<and> (\<forall>e. e \<noteq> event_id d \<longrightarrow> pending x e = pending db e)"
    if "ok x" "pending x = (pending db)(event_id d := None)" for x
    using that by (simp add: handled_def)
  show ?thesis
  proof (cases "token cfg = None \<or> token cfg = Some []")
    case True
    then show ?thesis using assms(3) settled [OF ok_failed [OF assms(1)] failed_settles [OF assms(1)]]
      by (auto simp: deliver_def)
  next
    case token: False
    show ?thesis
    proof (cases "post d")
      case (Inl exc)
      then show ?thesis using assms token retry_handles [OF assms(1,2)] by (auto simp: deliver_def)
    next
      case (Inr response)
      then show ?thesis
        using assms(3) token retry_handles [OF assms(1,2)]
          settled [OF ok_failed [OF assms(1)] failed_settles [OF assms(1)]]
          settled [OF ok_delivered [OF assms(1)] delivered_settles [OF assms(1)]]
        by (simp add: deliver_def Let_def split: if_splits) (metis Suc_eq_plus1 Inr_inject)+
    qed
  qed
qed

lemma deliver_all_handles:
  assumes "ok db" and "distinct (map event_id ds)" and "\<And>d. d \<in> set ds \<Longrightarrow> pending db (event_id d) = Some d"
    and "deliver_all repo cfg post now ds db = (None, db')"
  shows "ok db' \<and> (\<forall>d \<in> set ds. handled now d db') \<and> (\<forall>e. e \<notin> event_id ` set ds \<longrightarrow> pending db' e = pending db e)"
  using assms
proof (induction ds arbitrary: db)
  case (Cons d ds)
  obtain db1 where db1: "deliver repo cfg post now d db = Inr db1" "deliver_all repo cfg post now ds db1 = (None, db')"
    using Cons.prems(4) by (auto split: sum.splits)
  have d: "pending db (event_id d) = Some d" using Cons.prems(3) by simp
  note h = deliver_handles [OF Cons.prems(1) d db1(1)]
  have "pending db1 (event_id x) = Some x" if "x \<in> set ds" for x
    using h that Cons.prems(2,3) by (force simp: image_iff)
  then have ih: "ok db' \<and> (\<forall>d \<in> set ds. handled now d db') \<and> (\<forall>e. e \<notin> event_id ` set ds \<longrightarrow> pending db' e = pending db1 e)"
    using Cons.IH [of db1] h Cons.prems(2) db1(2) by simp
  have "pending db' (event_id d) = pending db1 (event_id d)" using ih Cons.prems(2) by auto
  then have "handled now d db'" using h by (simp add: handled_def)
  then show ?case using ih h by auto
qed auto

lemma deliver_due_handles:
  assumes "ok db" and "deliver_due repo cfg post now db = (Inr n, db')"
  shows "(\<forall>d \<in> set (list_due repo now (batch_size cfg) db). handled now d db')
    \<and> (\<forall>e. e \<notin> event_id ` set (list_due repo now (batch_size cfg) db) \<longrightarrow> pending db' e = pending db e)"
proof -
  have "deliver_all repo cfg post now (list_due repo now (batch_size cfg) db) db = (None, db')"
    using assms(2) by (auto simp: deliver_due_def Let_def split: prod.splits option.splits)
  then show ?thesis using deliver_all_handles [OF assms(1) due_distinct [OF assms(1)]] due_pending [OF assms(1)] by blast
qed

end

section \<open>The store keeps the protocol\<close>

definition pending_delivery :: "database \<Rightarrow> string \<Rightarrow> callback_delivery option" where
  "pending_delivery db e =
     map_option callback_delivery_from_row (find (\<lambda>d. d_event_id d = e \<and> undelivered d) (delivery_rows db))"

definition unique_events :: "database \<Rightarrow> bool" where
  "unique_events db = distinct (map d_event_id (delivery_rows db))"

lemma find_unique:
  "\<lbrakk>distinct (map f xs); x \<in> set xs; P x\<rbrakk> \<Longrightarrow> find (\<lambda>y. f y = f x \<and> P y) xs = Some x"
  by (induction xs) force+

lemma update_delivery_events [simp]:
  assumes "\<And>d. d_event_id (f d) = d_event_id d"
  shows "unique_events (update_delivery e f db) = unique_events db"
proof -
  define h where "h = (\<lambda>d. if d_event_id d = e \<and> undelivered d then f d else d)"
  have "d_event_id (h d) = d_event_id d" for d using assms by (simp add: h_def)
  then show ?thesis by (simp add: unique_events_def update_delivery_def h_def [symmetric] comp_def)
qed

text \<open>An update of one event, by whether it leaves the delivery to be made.\<close>

lemma pending_after_update:
  assumes event: "\<And>d. d_event_id (f d) = d_event_id d" and keep: "\<And>d. undelivered (f d) = b"
    and view: "\<And>d. b \<Longrightarrow> callback_delivery_from_row (f d) = g (callback_delivery_from_row d)"
  shows "pending_delivery (update_delivery e f db) =
    (pending_delivery db)(e := if b then map_option g (pending_delivery db e) else None)"
proof
  fix k
  have "map_option callback_delivery_from_row (find (\<lambda>d. d_event_id d = k \<and> undelivered d)
          (map (\<lambda>d. if d_event_id d = e \<and> undelivered d then f d else d) ds)) =
      (if k = e then (if b then map_option g (map_option callback_delivery_from_row
                                  (find (\<lambda>d. d_event_id d = e \<and> undelivered d) ds)) else None)
       else map_option callback_delivery_from_row (find (\<lambda>d. d_event_id d = k \<and> undelivered d) ds))" for ds
    by (induction ds) (auto simp: event keep view split: if_splits)
  then show "pending_delivery (update_delivery e f db) k
      = ((pending_delivery db)(e := if b then map_option g (pending_delivery db e) else None)) k"
    by (simp add: pending_delivery_def update_delivery_def)
qed

lemma insert_due_set [simp]: "set (insert_due d ds) = insert d (set ds)"
  by (induction ds) auto

lemma insert_due_distinct: "distinct (map f (insert_due d ds)) = distinct (f d # map f ds)"
  by (induction ds) auto

lemma due_rows:
  "set (foldr insert_due ds []) = set ds \<and> distinct (map f (foldr insert_due ds [])) = distinct (map f ds)"
  by (induction ds) (auto simp: insert_due_distinct)

lemma due_row:
  assumes "d \<in> set (list_due_callback_deliveries now lim db)"
  shows "d \<in> set (delivery_rows db) \<and> undelivered d \<and> d_next_attempt_at d \<le> now"
  using assms due_rows [of "filter (\<lambda>d. undelivered d \<and> d_next_attempt_at d \<le> now) (delivery_rows db)" id]
  by (auto simp: list_due_callback_deliveries_def dest!: in_set_takeD)

interpretation store_outbox: delivery_outbox "sqlite_callbacks clock" pending_delivery unique_events for clock
proof (unfold_locales, goal_cases)
  case (1 db d now lim)
  then obtain r where r: "r \<in> set (list_due_callback_deliveries now lim db)" "d = callback_delivery_from_row r"
    by (auto simp: sqlite_callbacks_def)
  then show ?case using 1 due_row [OF r(1)] find_unique [of d_event_id "delivery_rows db" r undelivered]
    by (simp add: pending_delivery_def unique_events_def callback_delivery_from_row_def)
next
  case (2 db now lim)
  then show ?case
    using due_rows [of "filter (\<lambda>d. undelivered d \<and> d_next_attempt_at d \<le> now) (delivery_rows db)" d_event_id]
    by (auto simp: sqlite_callbacks_def list_due_callback_deliveries_def unique_events_def comp_def
        callback_delivery_from_row_def take_map [symmetric] distinct_map_filter intro: distinct_take)
next
  case (3 db e t c)
  show ?case unfolding sqlite_callbacks_def callback_repository.simps mark_callback_delivered_def
    by (subst pending_after_update [where b = False]) (simp_all add: undelivered_def)
next
  case (4 db e a t sc cat)
  show ?case unfolding sqlite_callbacks_def callback_repository.simps mark_callback_configuration_failed_def
    by (subst pending_after_update [where b = False]) (simp_all add: undelivered_def)
next
  case (5 db e a t sc cat)
  show ?case unfolding sqlite_callbacks_def callback_repository.simps reschedule_callback_delivery_def
    by (subst pending_after_update [where b = True and g = "\<lambda>d. d\<lparr>attempts := a, next_attempt_at := t\<rparr>"])
      (simp_all add: undelivered_def callback_delivery_from_row_def)
qed (simp_all add: sqlite_callbacks_def mark_callback_delivered_def mark_callback_configuration_failed_def
      reschedule_callback_delivery_def)

section \<open>A pass of the dispatcher\<close>

lemma reachable_unique_events:
  assumes "reachable m db"
  shows "unique_events db"
proof -
  have ok: "owing {} m db" using reachable_ok [OF assms] unfolding database_ok_def .
  have "map d_event_id (delivery_rows db) = map callback_event_id (map d_run_id (delivery_rows db))"
    using owing_keyed [OF ok] by (simp add: keyed_def)
  moreover have "inj_on callback_event_id A" for A by (simp add: inj_on_def callback_event_id_inject)
  then have "distinct (map callback_event_id (map d_run_id (delivery_rows db)))"
    using owingD(5) [OF ok] by (subst distinct_map) blast
  ultimately show ?thesis by (simp only: unique_events_def)
qed

text \<open>
  C30. A pass of the dispatcher over the store that ends without an error deals with its whole
  batch: each due delivery is either settled (delivered, or failed on configuration), or still
  pending with one more attempt counted and a next attempt not before now; every other delivery is
  as it was.
\<close>

theorem dispatch_deals_with_batch:
  assumes "reachable m db" and "deliver_due (sqlite_callbacks clock) cfg post now db = (Inr n, db')"
  shows "(\<forall>d \<in> set (list_due (sqlite_callbacks clock) now (batch_size cfg) db).
        pending_delivery db' (event_id d) = None
        \<or> (\<exists>t \<ge> now. pending_delivery db' (event_id d) = Some (d\<lparr>attempts := attempts d + 1, next_attempt_at := t\<rparr>)))
    \<and> (\<forall>e. e \<notin> event_id ` set (list_due (sqlite_callbacks clock) now (batch_size cfg) db)
          \<longrightarrow> pending_delivery db' e = pending_delivery db e)"
proof -
  have "pending_delivery db' (event_id d) = None
      \<or> (\<exists>t \<ge> now. pending_delivery db' (event_id d) = Some (d\<lparr>attempts := attempts d + 1, next_attempt_at := t\<rparr>))"
    if "store_outbox.handled now d db'" for d
    using that unfolding store_outbox.handled_def by (auto split: option.splits intro: exI [of _ "now + n" for n] le_add1)
  then show ?thesis
    using store_outbox.deliver_due_handles [OF reachable_unique_events [OF assms(1)] assms(2)] by blast
qed

text \<open>Sample responses: an acceptance of the sample run's event, and a busy server.\<close>

definition sample_acceptance :: http_response where
  "sample_acceptance = \<lparr>status_code = 202, body = Some (JObj [(''event_id'', JStr (callback_event_id ''run-1'')),
     (''status'', JStr ''accepted'')]), headers = []\<rparr>"

definition busy_response :: "header_value \<Rightarrow> http_response" where
  "busy_response v = \<lparr>status_code = 503, body = None, headers = [(''Retry-After'', v)]\<rparr>"

definition sample_dispatcher :: dispatcher where
  "sample_dispatcher = \<lparr>token = Some ''secret'', batch_size = 25, jittered = (\<lambda>s. s), last_instant = 1000\<rparr>"

lemma dispatch_deals_with_batch_witness:
  "\<exists>db'. deliver_due (sqlite_callbacks 200) sample_dispatcher (\<lambda>_. Inr (busy_response Unreadable)) 200 completed_store = (Inr 1, db')
     \<and> (\<forall>d \<in> set (list_due (sqlite_callbacks 200) 200 25 completed_store). pending_delivery db' (event_id d) = None
          \<or> (\<exists>t \<ge> 200. pending_delivery db' (event_id d) = Some (d\<lparr>attempts := attempts d + 1, next_attempt_at := t\<rparr>)))"
proof -
  have "fst (deliver_due (sqlite_callbacks 200) sample_dispatcher (\<lambda>_. Inr (busy_response Unreadable)) 200 completed_store) = Inr 1"
    by code_simp
  then obtain db' where db': "deliver_due (sqlite_callbacks 200) sample_dispatcher (\<lambda>_. Inr (busy_response Unreadable)) 200 completed_store = (Inr 1, db')"
    by (metis prod.collapse)
  have 25: "batch_size sample_dispatcher = 25" by (simp add: sample_dispatcher_def)
  show ?thesis
    by (rule exI [of _ db'], rule conjI [OF db'])
      (rule dispatch_deals_with_batch [OF sample_reachable(6) db', unfolded 25, THEN conjunct1])
qed

section \<open>Acknowledgement\<close>

text \<open>The response that acknowledges an event.\<close>

definition acknowledged :: "dispatcher \<Rightarrow> string + http_response \<Rightarrow> string \<Rightarrow> bool" where
  "acknowledged cfg answer e =
     (token cfg \<noteq> None \<and> token cfg \<noteq> Some []
      \<and> (\<exists>r kvs. answer = Inr r \<and> status_code r = 202 \<and> body r = Some (JObj kvs)
           \<and> set (keys kvs) = {''event_id'', ''status''} \<and> get kvs ''event_id'' = Some (JStr e)
           \<and> get kvs ''status'' = Some (JStr ''accepted'')))"

lemma accepted_response_iff:
  "accepted_response c e = (\<exists>kvs. c = Some (JObj kvs) \<and> set (keys kvs) = {''event_id'', ''status''}
     \<and> get kvs ''event_id'' = Some (JStr e) \<and> get kvs ''status'' = Some (JStr ''accepted''))"
proof (cases c)
  case (Some j)
  then show ?thesis by (cases j) (simp_all add: accepted_response_def del: Collect_const)
qed (simp add: accepted_response_def)

lemma acknowledged_iff:
  "acknowledged cfg answer e =
     (token cfg \<noteq> None \<and> token cfg \<noteq> Some []
      \<and> (\<exists>r. answer = Inr r \<and> status_code r = 202 \<and> accepted_response (body r) e))"
  unfolding acknowledged_def accepted_response_iff by blast

lemma status_after_update:
  assumes "unique_events db" and "r \<in> set (delivery_rows db)" and "undelivered r"
    and "\<And>d. d_event_id (f d) = d_event_id d" and "\<And>d. d_delivery_status (f d) = st"
  shows "\<exists>r'. filter (\<lambda>d. d_event_id d = d_event_id r) (delivery_rows (update_delivery (d_event_id r) f db)) = [r']
    \<and> d_delivery_status r' = st"
proof -
  have "filter (\<lambda>d. d_event_id d = d_event_id r) (map (\<lambda>d. if d_event_id d = d_event_id r \<and> undelivered d then f d else d) ds)
      = map (\<lambda>d. if d_event_id d = d_event_id r \<and> undelivered d then f d else d) (filter (\<lambda>d. d_event_id d = d_event_id r) ds)" for ds
    by (induction ds) (auto simp: assms(4))
  then show ?thesis using distinct_filter_single [of d_event_id "delivery_rows db" r] assms
    by (simp add: update_delivery_def unique_events_def)
qed

lemma retry_status:
  assumes "unique_events db" and "r \<in> set (delivery_rows db)" and "undelivered r"
    and "retry (sqlite_callbacks clock) cfg (callback_delivery_from_row r) tries now code category after db = Inr db'"
  shows "\<exists>r'. filter (\<lambda>d. d_event_id d = d_event_id r) (delivery_rows db') = [r'] \<and> d_delivery_status r' = Retry"
proof -
  obtain t where "db' = reschedule_callback_delivery clock (d_event_id r) tries t code category db"
    using assms(4) by (auto simp: retry_def sqlite_callbacks_def callback_delivery_from_row_def split: delay.splits if_splits)
  then show ?thesis unfolding reschedule_callback_delivery_def
    by (simp del: filter.simps, intro status_after_update [OF assms(1-3)]) simp_all
qed

text \<open>
  C31. A delivery is recorded as delivered exactly when it was acknowledged: a token is configured
  and the receiver answered 202 with a JSON object of exactly the two keys that repeats the event
  id and says accepted. Otherwise, if the pass does not stop, its row is put off or has failed on
  configuration.
\<close>

theorem delivered_iff_acknowledged:
  assumes "reachable m db" and "r \<in> set (list_due_callback_deliveries now lim db)"
    and "deliver (sqlite_callbacks clock) cfg post now (callback_delivery_from_row r) db = Inr db'"
  shows "\<exists>r'. filter (\<lambda>d. d_event_id d = d_event_id r) (delivery_rows db') = [r']
    \<and> (d_delivery_status r' = Delivered \<longleftrightarrow> acknowledged cfg (post (callback_delivery_from_row r)) (d_event_id r))
    \<and> d_delivery_status r' \<noteq> Pending"
proof -
  let ?d = "callback_delivery_from_row r"
  have row: "unique_events db" "r \<in> set (delivery_rows db)" "undelivered r"
    using reachable_unique_events [OF assms(1)] due_row [OF assms(2)] by simp_all
  have e: "event_id ?d = d_event_id r" by (simp add: callback_delivery_from_row_def)
  have done': "\<exists>r'. filter (\<lambda>d. d_event_id d = d_event_id r) (delivery_rows (mark_callback_delivered (d_event_id r) now c db)) = [r']
      \<and> d_delivery_status r' = Delivered" for c
    unfolding mark_callback_delivered_def by (rule status_after_update [OF row]) simp_all
  have failed: "\<exists>r'. filter (\<lambda>d. d_event_id d = d_event_id r)
        (delivery_rows (mark_callback_configuration_failed (d_event_id r) a now c cat db)) = [r']
      \<and> d_delivery_status r' = ConfigurationFailed" for a c cat
    unfolding mark_callback_configuration_failed_def by (rule status_after_update [OF row]) simp_all
  show ?thesis
  proof (cases "token cfg = None \<or> token cfg = Some []")
    case True
    then have "db' = mark_callback_configuration_failed (d_event_id r) (attempts ?d + 1) now None ''missing-callback-token'' db"
      using assms(3) e by (auto simp: deliver_def sqlite_callbacks_def Let_def)
    then show ?thesis using failed [of "attempts ?d + 1" None "''missing-callback-token''"] True by (auto simp: acknowledged_iff)
  next
    case token: False
    show ?thesis
    proof (cases "post ?d")
      case (Inl exc)
      then show ?thesis using assms(3) token retry_status [OF row] by (fastforce simp: deliver_def Let_def acknowledged_iff)
    next
      case (Inr response)
      show ?thesis
      proof (cases "status_code response = 202 \<and> accepted_response (body response) (d_event_id r)")
        case True
        then have "db' = mark_callback_delivered (d_event_id r) now 202 db"
          using assms(3) e token Inr by (auto simp: deliver_def sqlite_callbacks_def Let_def)
        then show ?thesis using done' [of 202] True Inr token by (auto simp: acknowledged_iff)
      next
        case no: False
        then have na: "\<not> acknowledged cfg (post ?d) (d_event_id r)" using Inr by (auto simp: acknowledged_iff)
        show ?thesis
        proof (cases "status_code response \<in> set RETRYABLE_STATUS_CODES \<or> status_code response = 202")
          case True
          then obtain cat where "retry (sqlite_callbacks clock) cfg ?d (attempts ?d + 1) now (Some (status_code response)) cat
              (retry_after (headers response) now) db = Inr db'"
            using assms(3) e token Inr no by (auto simp: deliver_def Let_def)
          then show ?thesis using retry_status [OF row] na by fastforce
        next
          case False
          then obtain cat where "db' = mark_callback_configuration_failed (d_event_id r) (attempts ?d + 1) now (Some (status_code response)) cat db"
            using assms(3) e token Inr no by (auto simp: deliver_def sqlite_callbacks_def Let_def)
          then show ?thesis using failed [of "attempts ?d + 1" "Some (status_code response)" cat] na by auto
        qed
      qed
    qed
  qed
qed

lemma delivered_iff_acknowledged_witness:
  "\<exists>r r' db'. deliver (sqlite_callbacks 200) sample_dispatcher (\<lambda>_. Inr sample_acceptance) 200 (callback_delivery_from_row r) completed_store = Inr db'
     \<and> filter (\<lambda>d. d_event_id d = d_event_id r) (delivery_rows db') = [r'] \<and> d_delivery_status r' = Delivered"
proof -
  let ?r = "hd (delivery_rows completed_store)"
  have r: "?r \<in> set (list_due_callback_deliveries 200 25 completed_store)" by code_simp
  have ack: "acknowledged sample_dispatcher (Inr sample_acceptance) (d_event_id ?r)"
    unfolding acknowledged_iff by (intro conjI exI [of _ sample_acceptance]; code_simp)
  have "case deliver (sqlite_callbacks 200) sample_dispatcher (\<lambda>_. Inr sample_acceptance) 200 (callback_delivery_from_row ?r) completed_store of
      Inl _ \<Rightarrow> False | Inr _ \<Rightarrow> True" by code_simp
  then obtain db' where "deliver (sqlite_callbacks 200) sample_dispatcher (\<lambda>_. Inr sample_acceptance) 200
      (callback_delivery_from_row ?r) completed_store = Inr db'" by (auto split: sum.splits)
  then show ?thesis using delivered_iff_acknowledged [OF sample_reachable(6) r] ack by blast
qed

section \<open>The retry schedule\<close>

lemma base_delay_cases:
  "base_delay n = (if n \<le> 1 then 5 else if n = 2 then 15 else if n = 3 then 30 else if n = 4 then 60 else if n = 5 then 300 else 900)"
  by (auto simp: base_delay_def RETRY_DELAYS_SECONDS_def STEADY_RETRY_DELAY_SECONDS_def Let_def nth_Cons' min_def)

text \<open>
  The back-off is bounded and never shrinks: the base delay of a later attempt is at least that
  of an earlier one, between 5 and 900 seconds; and with a jitter of 0.8 to 1.2 a delivery whose
  answer names no delay is put off by 0.8 to 1.2 times the base delay of its attempt, so by at
  least 4 seconds and at most 18 minutes.
\<close>

theorem retry_back_off_bounded:
  assumes "\<And>s. 8 * s \<le> 10 * jittered cfg s \<and> 10 * jittered cfg s \<le> 12 * s"
    and "retry repo cfg d tries now code category None db = Inr db'" and "tries \<le> later"
  shows "5 \<le> base_delay tries \<and> base_delay tries \<le> base_delay later \<and> base_delay later \<le> 900
    \<and> (\<exists>t. db' = reschedule_delivery repo (event_id d) tries t code category db
         \<and> 8 * base_delay tries \<le> 10 * (t - now) \<and> 10 * (t - now) \<le> 12 * base_delay tries
         \<and> now + 4 \<le> t \<and> t \<le> now + 1080)"
proof -
  have bounds: "5 \<le> base_delay n \<and> base_delay n \<le> 900" for n by (simp add: base_delay_cases)
  let ?t = "now + jittered cfg (base_delay tries)"
  have "db' = reschedule_delivery repo (event_id d) tries ?t code category db"
    using assms(2) by (auto simp: retry_def split: if_splits)
  moreover have "8 * base_delay tries \<le> 10 * (?t - now)" "10 * (?t - now) \<le> 12 * base_delay tries"
    using assms(1) [of "base_delay tries"] by simp_all
  moreover have "now + 4 \<le> ?t" "?t \<le> now + 1080"
    using assms(1) [of "base_delay tries"] bounds [of tries] by linarith+
  moreover have "base_delay tries \<le> base_delay later" using assms(3) by (simp add: base_delay_cases)
  ultimately show ?thesis using bounds by blast
qed

lemma retry_back_off_bounded_witness:
  "\<exists>t. reschedule_delivery (sqlite_callbacks 200) ''e'' 2 215 None ''network-timeouterror'' completed_store
        = reschedule_delivery (sqlite_callbacks 200) ''e'' 2 t None ''network-timeouterror'' completed_store
     \<and> 200 + 4 \<le> t \<and> t \<le> 200 + 1080"
proof -
  let ?d = "(callback_delivery_from_row (hd (delivery_rows completed_store)))\<lparr>event_id := ''e''\<rparr>"
  have 15: "base_delay 2 = 15" by (simp add: base_delay_cases)
  have "retry (sqlite_callbacks 200) sample_dispatcher ?d 2 200 None ''network-timeouterror'' None completed_store
      = Inr (reschedule_delivery (sqlite_callbacks 200) ''e'' 2 215 None ''network-timeouterror'' completed_store)"
    by (simp add: retry_def 15 sample_dispatcher_def)
  moreover have "8 * s \<le> 10 * jittered sample_dispatcher s \<and> 10 * jittered sample_dispatcher s \<le> 12 * s" for s
    by (simp add: sample_dispatcher_def)
  ultimately show ?thesis using retry_back_off_bounded [of sample_dispatcher "sqlite_callbacks 200" ?d 2 200 None "''network-timeouterror''" completed_store _ 2]
    by fastforce
qed

text \<open>
  A delay that does not fit a date stops the pass before anything is written: when the receiver
  of the first due delivery answers a retryable status with an infinite delay, the dispatcher's
  pass ends with an error and an unchanged outbox. The same batch is due at the next pass, so the
  deliveries behind it are not tried while the receiver answers so.
\<close>

theorem unbounded_retry_after_blocks_batch:
  assumes "list_due repo now (batch_size cfg) db = d # ds" and "token cfg = Some (c # cs)"
    and "post d = Inr response" and "status_code response \<in> set RETRYABLE_STATUS_CODES"
    and "retry_after (headers response) now = Some Unbounded"
  shows "deliver_due repo cfg post now db = (Inl OverflowError, db)"
proof -
  have "status_code response \<noteq> 202" using assms(4) by (auto simp: RETRYABLE_STATUS_CODES_def)
  then show ?thesis using assms by (simp add: deliver_due_def deliver_def retry_def Let_def)
qed

lemma unbounded_retry_after_blocks_batch_witness:
  "deliver_due (sqlite_callbacks 200) sample_dispatcher (\<lambda>_. Inr (busy_response Infinite)) 200 completed_store
     = (Inl OverflowError, completed_store)"
proof -
  let ?ds = "list_due (sqlite_callbacks 200) 200 25 completed_store"
  have "?ds = hd ?ds # tl ?ds" by code_simp
  moreover have "token sample_dispatcher = Some (CHR ''s'' # ''ecret'')" "batch_size sample_dispatcher = 25"
    by (simp_all add: sample_dispatcher_def)
  moreover have "status_code (busy_response Infinite) \<in> set RETRYABLE_STATUS_CODES" by code_simp
  moreover have "retry_after (headers (busy_response Infinite)) 200 = Some Unbounded" by code_simp
  ultimately show ?thesis
    by (intro unbounded_retry_after_blocks_batch [where d = "hd ?ds" and ds = "tl ?ds" and c = "CHR ''s''" and cs = "''ecret''"
        and response = "busy_response Infinite"]) simp_all
qed

section \<open>Registered callbacks\<close>

lemma partition_c_join: "d \<in> set s \<Longrightarrow> s = fst (partition_c s d) @ d # snd (partition_c s d)"
proof -
  assume "d \<in> set s"
  then have "dropWhile (\<lambda>c. c \<noteq> d) s \<noteq> []" by (simp add: dropWhile_eq_Nil_conv)
  then have "dropWhile (\<lambda>c. c \<noteq> d) s = d # drop 1 (dropWhile (\<lambda>c. c \<noteq> d) s)"
    using hd_dropWhile [of "\<lambda>c. c \<noteq> d" s] by (cases "dropWhile (\<lambda>c. c \<noteq> d) s") auto
  then show ?thesis unfolding partition_c_def using takeWhile_dropWhile_id [of "\<lambda>c. c \<noteq> d" s] by simp
qed

lemma split_scheme_https:
  assumes "split_scheme url = (scheme, remain)" and "scheme \<noteq> []"
  shows "\<exists>s. url = s @ '':'' @ remain \<and> scheme = py_lower s"
proof -
  let ?s = "fst (partition_c url CHR '':'')"
  have "CHR '':'' \<in> set url" "scheme = py_lower ?s" "remain = snd (partition_c url CHR '':'')"
    using assms unfolding split_scheme_def by (auto simp: Let_def case_prod_beta split: if_splits)
  then show ?thesis using partition_c_join [of "CHR '':''" url] by auto
qed

lemma split_netloc_join:
  assumes "split_netloc remain = (netloc, tail)" and "netloc \<noteq> []"
  shows "remain = ''//'' @ netloc @ tail \<and> list_all (\<lambda>c. \<not> netloc_end c) netloc"
proof -
  have 2: "take 2 remain = ''//''" and n: "netloc = takeWhile (\<lambda>c. \<not> netloc_end c) (drop 2 remain)"
    and t: "tail = dropWhile (\<lambda>c. \<not> netloc_end c) (drop 2 remain)"
    using assms unfolding split_netloc_def by (auto split: if_splits)
  then have "remain = ''//'' @ netloc @ tail" using append_take_drop_id [of 2 remain] by simp
  then show ?thesis unfolding n list_all_iff by (auto dest: set_takeWhileD)
qed

text \<open>The parts of a URL with a scheme and a host stand in its text.\<close>

lemma urlsplit_text:
  assumes "urlsplit ok url = Inr u" and "u_scheme u \<noteq> []" and "u_netloc u \<noteq> []"
  shows "\<exists>s tail. clean_url url = s @ ''://'' @ u_netloc u @ tail \<and> u_scheme u = py_lower s
    \<and> list_all (\<lambda>c. \<not> netloc_end c) (u_netloc u)"
proof -
  obtain scheme remain netloc tail where p: "split_scheme (clean_url url) = (scheme, remain)" "split_netloc remain = (netloc, tail)"
    by (metis prod.exhaust)
  then have u: "u_scheme u = scheme" "u_netloc u = netloc"
    using assms(1) by (auto simp: urlsplit_def Let_def split: if_splits)
  obtain s where "clean_url url = s @ '':'' @ remain" "scheme = py_lower s"
    using split_scheme_https [OF p(1)] u assms(2) by blast
  then show ?thesis using split_netloc_join [OF p(2)] u assms(3) by auto
qed

lemma hostname_netloc: "hostname u \<noteq> None \<Longrightarrow> u_netloc u \<noteq> []"
  by (auto simp: hostname_def host_info_def partition_c_def Let_def split: if_splits)

lemma lower_c_idem: "lower_c (lower_c c) = lower_c c"
proof -
  have "ord_c (chr_c (n + 32)) = n + 32" if "n \<le> 222" for n using that by (simp add: ord_c_def chr_c_def)
  then show ?thesis by (auto simp: lower_c_def Let_def)
qed

lemma py_lower_idem: "py_lower (py_lower s) = py_lower s"
  by (simp add: py_lower_def lower_c_idem comp_def)

lemma missing_strip: "\<not> missing v \<Longrightarrow> strip (the v) \<noteq> []"
  by (auto simp: missing_def split: option.splits)

text \<open>
  C32. The callback URL a submission registers is safe to call: as read by the URL parser it is
  \<^verbatim>\<open>https\<close>, names a host, carries no credentials and no fragment; its authority stands right
  after the scheme and holds no at sign, slash, question mark or hash that could shift the host; when
  an allow list is configured its host is on it; lengths are bounded, the workflow id is not blank
  and the signal is the one signal of the protocol.
\<close>

theorem registered_callback_is_safe:
  assumes "callback_metadata_from_headers bracketed_ok allowed_hosts hs = Inr (Some cb)"
  shows "\<exists>u h s tail. urlsplit bracketed_ok (callback_url cb) = Inr u \<and> hostname u = Some h \<and> u_fragment u = []
      \<and> clean_url (callback_url cb) = s @ ''://'' @ u_netloc u @ tail \<and> py_lower s = ''https''
      \<and> list_all (\<lambda>c. \<not> netloc_end c \<and> c \<noteq> CHR ''@'') (u_netloc u)
      \<and> (filter (\<lambda>h. strip h \<noteq> []) allowed_hosts \<noteq> [] \<longrightarrow> (\<exists>a \<in> set allowed_hosts. py_lower (strip a) = py_lower h))
      \<and> length (callback_url cb) \<le> 2048 \<and> callback_workflow_id cb \<noteq> [] \<and> length (callback_workflow_id cb) \<le> 255
      \<and> callback_signal cb = CALLBACK_SIGNAL"
proof -
  define url where "url = header hs ''x-janus-callback-url''"
  define workflow where "workflow = header hs ''x-janus-callback-workflow-id''"
  define signal where "signal = header hs ''x-janus-callback-signal''"
  have given: "\<not> missing url" "\<not> missing workflow" "\<not> missing signal"
    and checked: "check_callback bracketed_ok allowed_hosts (strip (the url)) (strip (the workflow)) (strip (the signal)) = Inr cb"
    using assms unfolding callback_metadata_from_headers_def url_def workflow_def signal_def
    by (auto simp: Let_def bindR_def split: if_splits sum.splits)
  obtain u where u: "urlsplit bracketed_ok (strip (the url)) = Inr u"
    using checked by (auto simp: check_callback_def bindR_def split: sum.splits)
  have cb: "cb = \<lparr>callback_url = strip (the url), callback_workflow_id = strip (the workflow), callback_signal = strip (the signal)\<rparr>"
    and https: "py_lower (u_scheme u) = ''https''" and host: "hostname u \<noteq> None" and plain: "\<not> has_credentials u" "u_fragment u = []"
    and len: "length (strip (the url)) \<le> 2048" "length (strip (the workflow)) \<le> 255" "strip (the signal) = CALLBACK_SIGNAL"
    and allowed: "map (\<lambda>h. py_lower (strip h)) (filter (\<lambda>h. strip h \<noteq> []) allowed_hosts) \<noteq> [] \<longrightarrow>
      py_lower (the (hostname u)) \<in> set (map (\<lambda>h. py_lower (strip h)) (filter (\<lambda>h. strip h \<noteq> []) allowed_hosts))"
    using checked u by (auto simp: check_callback_def bindR_def Let_def split: if_splits)
  have "u_scheme u \<noteq> []" using https by (auto simp: py_lower_def)
  then obtain s tail where shape: "clean_url (strip (the url)) = s @ ''://'' @ u_netloc u @ tail" "u_scheme u = py_lower s"
    "list_all (\<lambda>c. \<not> netloc_end c) (u_netloc u)" using urlsplit_text [OF u _ hostname_netloc [OF host]] by blast
  have "py_lower s = ''https''" using https shape(2) by (simp add: py_lower_idem)
  moreover have "list_all (\<lambda>c. \<not> netloc_end c \<and> c \<noteq> CHR ''@'') (u_netloc u)"
    using shape(3) plain(1) by (auto simp: list_all_iff has_credentials_def)
  moreover have "filter (\<lambda>h. strip h \<noteq> []) allowed_hosts \<noteq> [] \<longrightarrow> (\<exists>a \<in> set allowed_hosts. py_lower (strip a) = py_lower (the (hostname u)))"
    using allowed by auto
  ultimately show ?thesis using u host plain(2) shape(1) len missing_strip [OF given(2)] cb
    by (intro exI [of _ u] exI [of _ "the (hostname u)"] exI [of _ s] exI [of _ tail]) simp
qed

definition sample_headers :: "string \<Rightarrow> (string \<times> string option) list" where
  "sample_headers url = [(''X-Janus-Callback-URL'', Some url), (''X-Janus-Callback-Workflow-ID'', Some ''workflow-1''),
     (''X-Janus-Callback-Signal'', Some CALLBACK_SIGNAL)]"

lemma registered_callback_is_safe_witness:
  "\<exists>cb u. callback_metadata_from_headers (\<lambda>_. False) [''Hooks.example''] (sample_headers ''https://hooks.example/cb'') = Inr (Some cb)
     \<and> urlsplit (\<lambda>_. False) (callback_url cb) = Inr u \<and> length (callback_url cb) \<le> 2048"
proof -
  have "callback_metadata_from_headers (\<lambda>_. False) [''Hooks.example''] (sample_headers ''https://hooks.example/cb'')
      = Inr (Some \<lparr>callback_url = ''https://hooks.example/cb'', callback_workflow_id = ''workflow-1'', callback_signal = CALLBACK_SIGNAL\<rparr>)"
    by code_simp
  then show ?thesis using registered_callback_is_safe by blast
qed

text \<open>
  A callback URL with an unbalanced bracket is not rejected as invalid callback headers: the
  URL parser's own error escapes the validation, which reports every other defect as a validation
  error.
\<close>

theorem malformed_host_escapes_validation:
  "callback_metadata_from_headers bracketed_ok allowed_hosts (sample_headers ''https://[hooks.example/cb'')
     = Inl (ValueError ''Invalid IPv6 URL'')"
proof -
  have url: "header (sample_headers ''https://[hooks.example/cb'') ''x-janus-callback-url'' = Some ''https://[hooks.example/cb''"
    and others: "header (sample_headers ''https://[hooks.example/cb'') ''x-janus-callback-workflow-id'' = Some ''workflow-1''"
      "header (sample_headers ''https://[hooks.example/cb'') ''x-janus-callback-signal'' = Some CALLBACK_SIGNAL"
    by code_simp+
  have strip: "strip ''https://[hooks.example/cb'' = ''https://[hooks.example/cb''" "strip ''workflow-1'' \<noteq> []" "strip CALLBACK_SIGNAL \<noteq> []"
    by code_simp+
  have "split_scheme (clean_url ''https://[hooks.example/cb'') = (''https'', ''//[hooks.example/cb'')"
    "split_netloc ''//[hooks.example/cb'' = (''[hooks.example'', ''/cb'')" by code_simp+
  then have "urlsplit bracketed_ok ''https://[hooks.example/cb'' = Inl (ValueError ''Invalid IPv6 URL'')"
    by (simp add: urlsplit_def)
  then show ?thesis using url others strip
    by (simp add: callback_metadata_from_headers_def check_callback_def bindR_def missing_def)
qed

end
