(* ===== verification/JsonText.thy ===== *)
theory JsonText
  imports Json Ordering
begin

text \<open>
  The canonical text of a JSON value, \<^verbatim>\<open>json.dumps\<close> with sorted keys, the separators
  \<^verbatim>\<open>,\<close> and \<^verbatim>\<open>:\<close>, no escaping of non-ASCII characters and no infinite
  numbers, and its UTF-8 bytes, which \<^verbatim>\<open>persistence/base.py\<close> hashes.
\<close>

section \<open>Text\<close>

definition escape_char :: "char \<Rightarrow> string" where
  "escape_char c =
     (let n = ord_c c in
      if c = dquote \<or> c = bslash then [bslash, c]
      else if n = 8 then [bslash, CHR ''b''] else if n = 9 then [bslash, CHR ''t'']
      else if n = 10 then [bslash, CHR ''n''] else if n = 12 then [bslash, CHR ''f'']
      else if n = 13 then [bslash, CHR ''r'']
      else if n < 32 then [bslash, CHR ''u'', CHR ''0'', CHR ''0'', hex_digit_lower (n div 16), hex_digit_lower (n mod 16)]
      else [c])"

definition json_string :: "string \<Rightarrow> string" where
  "json_string s = [dquote] @ concat (map escape_char s) @ [dquote]"

fun json_text :: "json \<Rightarrow> string" where
  "json_text JNull = ''null''"
| "json_text (JBool b) = (if b then ''true'' else ''false'')"
| "json_text (JInt i) = dec_int i"
| "json_text (JFloat t) = t"
| "json_text (JStr s) = json_string s"
| "json_text (JArr xs) = ''['' @ join '','' (map json_text xs) @ '']''"
| "json_text (JObj kvs) = ''{'' @ join '','' (map (\<lambda>(k, v). json_string k @ '':'' @ json_text v) kvs) @ ''}''"

text \<open>\<^verbatim>\<open>sort_keys=True\<close>, at every depth.\<close>

definition key_le :: "string \<times> 'a \<Rightarrow> string \<times> 'a \<Rightarrow> bool" where
  "key_le p q = text_less_eq (fst p) (fst q)"

fun sort_keys :: "json \<Rightarrow> json" where
  "sort_keys (JArr xs) = JArr (map sort_keys xs)"
| "sort_keys (JObj kvs) = JObj (sorted_by key_le (map (\<lambda>(k, v). (k, sort_keys v)) kvs))"
| "sort_keys j = j"

text \<open>A float is kept as its text: the texts that \<^verbatim>\<open>allow_nan=False\<close> refuses.\<close>

fun finite_json :: "json \<Rightarrow> bool" where
  "finite_json (JFloat t) = (t \<notin> {''nan'', ''inf'', ''-inf''})"
| "finite_json (JArr xs) = list_all finite_json xs"
| "finite_json (JObj kvs) = list_all (\<lambda>(k, v). finite_json v) kvs"
| "finite_json j = True"

definition json_dumps :: "json \<Rightarrow> string + string" where
  "json_dumps j =
     (if finite_json j then Inr (json_text (sort_keys j)) else Inl ''Out of range float values are not JSON compliant'')"

section \<open>Bytes\<close>

definition utf8 :: "string \<Rightarrow> nat list" where
  "utf8 s = concat (map utf8_bytes s)"

definition dict_without :: "string list \<Rightarrow> (string \<times> json) list \<Rightarrow> (string \<times> json) list" where
  "dict_without ks kvs = filter (\<lambda>(k, v). k \<notin> set ks) kvs"

text \<open>Assignment to a key: an existing key keeps its place.\<close>

fun dict_set :: "string \<Rightarrow> json \<Rightarrow> (string \<times> json) list \<Rightarrow> (string \<times> json) list" where
  "dict_set k v [] = [(k, v)]"
| "dict_set k v ((k', v') # kvs) = (if k = k' then (k, v) # kvs else (k', v') # dict_set k v kvs)"

definition canonical_result_bytes :: "(string \<times> json) list \<Rightarrow> string + nat list" where
  "canonical_result_bytes result =
     bindR (json_dumps (JObj (dict_without [''content_sha256'', ''size_bytes''] result))) (\<lambda>t. Inr (utf8 t))"

end
