(* ===== verification/Publication.thy ===== *)
theory Publication
  imports JsonText Results
begin

text \<open>
  The canonical result a worker publishes: \<^verbatim>\<open>build_lifecycle_result\<close> of
  \<^verbatim>\<open>lifecycle.py\<close> with the JSON forms of the models it embeds, its integrity fields, and the
  completion that announces it. What the standard library computes on whole texts is in a record of
  functions: the digest, the two ISO forms of an instant (\<^verbatim>\<open>isoformat()\<close> and that of
  \<^verbatim>\<open>model_dump(mode="json")\<close>) and \<^verbatim>\<open>json.loads\<close>.
\<close>

record library =
  sha256 :: "nat list \<Rightarrow> string"
  isoformat :: "nat \<Rightarrow> string"
  json_time :: "nat \<Rightarrow> string"
  loads :: "string \<Rightarrow> json option"

record settings =
  databricks_catalog :: string
  databricks_schema :: string
  databricks_results_table :: string

section \<open>JSON forms of the models\<close>

definition json_opt :: "('a \<Rightarrow> json) \<Rightarrow> 'a option \<Rightarrow> json" where
  "json_opt f x = (case x of None \<Rightarrow> JNull | Some a \<Rightarrow> f a)"

definition json_nat :: "nat \<Rightarrow> json" where
  "json_nat n = JInt (int n)"

definition json_strs :: "string list \<Rightarrow> json" where
  "json_strs xs = JArr (map JStr xs)"

fun reason_code_value :: "reason_code \<Rightarrow> string" where
  "reason_code_value RTranslated = ''translated''"
| "reason_code_value UnsupportedTargetTechnology = ''unsupported-target-technology''"
| "reason_code_value UnsupportedFeature = ''unsupported-feature''"
| "reason_code_value PolicyConflict = ''policy-conflict''"
| "reason_code_value InsufficientPolicyContext = ''insufficient-policy-context''"
| "reason_code_value InsufficientPatternContext = ''insufficient-pattern-context''"
| "reason_code_value InvalidInput = ''invalid-input''"
| "reason_code_value LoopExhaustedWithBypass = ''loop-exhausted-with-bypass''"
| "reason_code_value BypassFoundRequiresRegeneration = ''bypass-found-requires-regeneration''"
| "reason_code_value ProviderFailure = ''provider-failure''"
| "reason_code_value ResultAssemblyFailure = ''result-assembly-failure''"

definition outcome_reason_json :: "outcome_reason \<Rightarrow> json" where
  "outcome_reason_json r = JObj [(''code'', JStr (reason_code_value (reason_code r))), (''detail'', JStr (reason_detail r))]"

definition candidate_metadata_json :: "candidate_metadata \<Rightarrow> json" where
  "candidate_metadata_json m =
     JObj [(''syntax_profile'', JObj [(''id'', JStr (syntax_profile_id m)), (''family'', JStr (syntax_profile_family m)),
              (''validation_level'', JStr ''shape-only''), (''deployment_ready'', JBool False)]),
           (''recommended_policy_binding'', JObj [(''action'', JStr ''deny''),
              (''attachment'', JStr ''security-policy-custom-rule-binding''), (''embedded_in_artifact'', JBool False),
              (''requires_operator_review'', JBool True)]),
           (''semantic_relationship'', json_opt JStr (semantic_relationship m))]"

definition verification_json :: "pre_translation_verification \<Rightarrow> json" where
  "verification_json v =
     JObj [(''all_required_obligations_have_dg_mapping'', JBool True), (''all_required_obligations_have_mc_disposition'', JBool True),
           (''all_required_obligations_have_required_bv_disposition'', JBool True), (''candidate_attestation_verified'', JBool True),
           (''source_member_partition_complete'', JBool True), (''lineage_verified'', JBool True),
           (''required_obligation_count'', json_nat (ptv_required_obligation_count v)),
           (''dg_mapping_count'', json_nat (ptv_dg_mapping_count v)),
           (''mc_disposition_count'', json_nat (ptv_mc_disposition_count v)),
           (''bv_campaign_count'', json_nat (ptv_bv_campaign_count v)), (''unaccounted_required_obligation_count'', JInt 0)]"

definition accounting_json :: "coverage_accounting \<Rightarrow> json" where
  "accounting_json a =
     JObj [(''required_obligation_count'', json_nat (required_obligation_count a)),
           (''accounted_obligation_count'', json_nat (accounted_obligation_count a)),
           (''unaccounted_required_obligation_count'', json_nat (unaccounted_required_obligation_count a)),
           (''source_member_count'', json_nat (source_member_count a)),
           (''represented_source_member_count'', json_nat (represented_source_member_count a)),
           (''unsupported_source_member_count'', json_nat (unsupported_source_member_count a)),
           (''unaccounted_source_member_count'', json_nat (unaccounted_source_member_count a)),
           (''required_work_item_count'', json_nat (required_work_item_count a)),
           (''disposed_work_item_count'', json_nat (disposed_work_item_count a)),
           (''unaccounted_required_work_item_count'', json_nat (unaccounted_required_work_item_count a))]"

definition mapping_json :: "translation_mapping \<Rightarrow> json" where
  "mapping_json m = JObj [(''obligation_id'', JStr (tm_obligation_id m)), (''target_artifact_ids'', json_strs (tm_target_artifact_ids m))]"

definition directive_json :: "target_directive \<Rightarrow> json" where
  "directive_json d =
     JObj [(''directive_id'', JStr (td_directive_id d)), (''source_directive_id'', JStr (td_source_directive_id d)),
           (''target_artifact_id'', JStr (td_target_artifact_id d)), (''kind'', JStr (td_kind d)), (''value'', JStr (td_value d)),
           (''required'', JBool (td_required d))]"

definition upstream_input_json :: "library \<Rightarrow> upstream_input \<Rightarrow> json" where
  "upstream_input_json lib i =
     JObj [(''capability'', JStr (capability_name (up_capability i))), (''contract_id'', JStr (up_contract_id i)),
           (''run_id'', JStr (up_run_id i)), (''result_id'', JStr (up_result_id i)), (''terminal_state'', JStr (up_terminal_state i)),
           (''status'', JStr ''completed''), (''request_id'', json_opt JStr (up_request_id i)),
           (''correlation_id'', JStr (up_correlation_id i)), (''result_ref'', serialize_reference (up_result_ref i)),
           (''evidence_refs'', json_strs (up_evidence_refs i)), (''content_sha256'', json_opt JStr (up_content_sha256 i)),
           (''size_bytes'', json_opt json_nat (up_size_bytes i)), (''created_at'', json_opt (JStr \<circ> json_time lib) (up_created_at i))]"

definition upstream_refs_json :: "upstream_result_references \<Rightarrow> json" where
  "upstream_refs_json r =
     JObj [(''defense_generation'', serialize_reference (ref_defense_generation r)),
           (''mitigation_check'', serialize_reference (ref_mitigation_check r)),
           (''bypass_validation'', serialize_reference (ref_bypass_validation r))]"

fun profile_value :: "waf_profile \<Rightarrow> string" where
  "profile_value WafStandard1 = ''waf-standard@1''"
| "profile_value WafStandard2 = ''waf-standard@2''"

section \<open>Artifacts\<close>

definition canonical_artifact_ref :: "settings \<Rightarrow> string \<Rightarrow> string \<Rightarrow> result_reference option \<Rightarrow> string" where
  "canonical_artifact_ref cfg result_id artifact_id reference =
     (if (case reference of None \<Rightarrow> False | Some r \<Rightarrow> ref_system r = WorkflowLab)
      then ''workflow-lab-result://immutable-results/'' @ quote result_id @ ''#/artifacts/'' @ quote artifact_id @ ''/content''
      else ''databricks://'' @ databricks_catalog cfg @ ''/'' @ databricks_schema cfg @ ''/'' @ databricks_results_table cfg
             @ ''/result_json?result_id='' @ quote result_id @ ''#/artifacts/'' @ quote artifact_id @ ''/content'')"

definition artifact_media_type :: "library \<Rightarrow> string \<Rightarrow> string" where
  "artifact_media_type lib content =
     (case loads lib content of
        Some (JObj _) \<Rightarrow> ''application/json'' | Some (JArr _) \<Rightarrow> ''application/json''
      | _ \<Rightarrow> ''text/plain;charset=utf-8'')"

definition metadata_json :: "primary_candidate \<Rightarrow> json" where
  "metadata_json c = json_opt candidate_metadata_json (cand_metadata c)"

text \<open>The artifacts of a shared-contract result: the aggregate first, then the child artifacts.\<close>

definition aggregate_artifact :: "library \<Rightarrow> translation_result \<Rightarrow> primary_candidate \<Rightarrow> json" where
  "aggregate_artifact lib s c =
     (let a = cand_artifact c in
      JObj [(''source_artifact_id'', JStr (rs_proven_pattern_id (res_subject s))), (''role'', JStr ''primary''),
            (''kind'', JStr ''policy-fragment''), (''order'', JInt 0), (''artifact_type'', JStr (artifact_type a)),
            (''media_type'', JStr (artifact_media_type lib (content_ref a))), (''content'', JStr (content_ref a)),
            (''content_hash'', JStr (content_hash a)), (''emitted_as'', JStr (emitted_as a)),
            (''candidate_metadata'', metadata_json c)])"

definition child_artifact :: "library \<Rightarrow> bool \<Rightarrow> target_artifact \<Rightarrow> json" where
  "child_artifact lib aggregate t =
     JObj [(''source_artifact_id'', JStr (ta_source_artifact_id t)), (''source_role'', JStr (ta_role t)),
           (''role'', JStr ''supporting''), (''kind'', JStr (ta_kind t)),
           (''order'', json_nat (ta_order t + (if aggregate then 1 else 0))), (''artifact_type'', JStr (ta_artifact_type t)),
           (''media_type'', JStr (artifact_media_type lib (ta_content t))), (''content'', JStr (ta_content t)),
           (''content_hash'', JStr (ta_content_hash t)), (''emitted_as'', JStr ''control-specific-mitigation-candidate'')]"

definition primary_artifact :: "library \<Rightarrow> primary_candidate \<Rightarrow> json" where
  "primary_artifact lib c =
     (let a = cand_artifact c in
      JObj [(''artifact_type'', JStr (artifact_type a)), (''media_type'', JStr (artifact_media_type lib (content_ref a))),
            (''content'', JStr (content_ref a)), (''content_hash'', JStr (content_hash a)), (''emitted_as'', JStr (emitted_as a)),
            (''candidate_metadata'', metadata_json c)])"

text \<open>The candidate with a reference to its artifact; \<open>aid\<close> is the artifact's id where it is named.\<close>

definition primary_candidate_json ::
  "settings \<Rightarrow> string \<Rightarrow> result_reference option \<Rightarrow> string option \<Rightarrow> primary_candidate \<Rightarrow> json" where
  "primary_candidate_json cfg result_id reference aid c =
     (let a = cand_artifact c; artifact_id = (case aid of None \<Rightarrow> ''primary'' | Some i \<Rightarrow> i) in
      JObj ([(''candidate_id'', JStr (candidate_id c)), (''target_control_class'', JStr (cand_control_class c)),
             (''target_technology'', JStr (cand_technology c)), (''target_policy_context_id'', JStr (cand_policy_context_id c))]
        @ (case aid of None \<Rightarrow> [] | Some i \<Rightarrow> [(''artifact_id'', JStr i)])
        @ [(''artifact_type'', JStr (artifact_type a)),
           (''content_ref'', JStr (canonical_artifact_ref cfg result_id artifact_id reference)),
           (''content_hash'', JStr (content_hash a)), (''candidate_metadata'', metadata_json c)]))"

definition published_artifacts ::
  "library \<Rightarrow> settings \<Rightarrow> string \<Rightarrow> result_reference option \<Rightarrow> translation_result \<Rightarrow> (json \<times> (string \<times> json) list) checked" where
  "published_artifacts lib cfg result_id reference s =
     (if res_shared_version s
      then (case res_candidate s of
          None \<Rightarrow> Inr (JNull, fold (\<lambda>t. dict_set (ta_artifact_id t) (child_artifact lib False t)) (res_target_artifacts s) [])
        | Some c \<Rightarrow>
            bindR (shared_waf_primary_artifact_id (content_hash (cand_artifact c))) (\<lambda>aid.
              Inr (primary_candidate_json cfg result_id reference (Some aid) c,
                   fold (\<lambda>t. dict_set (ta_artifact_id t) (child_artifact lib True t)) (res_target_artifacts s)
                     [(aid, aggregate_artifact lib s c)])))
      else (case res_candidate s of
          None \<Rightarrow> Inr (JNull, [])
        | Some c \<Rightarrow> Inr (primary_candidate_json cfg result_id reference None c, [(''primary'', primary_artifact lib c)])))"

section \<open>The canonical result\<close>

definition published_state :: "terminal_state \<Rightarrow> string" where
  "published_state t = (case t of Translated \<Rightarrow> ''translated'' | Malfunction \<Rightarrow> ''malfunction'' | _ \<Rightarrow> ''not-translatable'')"

definition result_evidence_refs :: "result_envelope \<Rightarrow> string list" where
  "result_evidence_refs e =
     sorted_texts (remdups (concat (map binding_evidence_refs (res_evidence_bindings (re_structured e))) @ re_provenance e))"

definition default_reference :: "settings \<Rightarrow> string \<Rightarrow> result_reference" where
  "default_reference cfg result_id =
     \<lparr>ref_system = Databricks, ref_catalog = Some (databricks_catalog cfg), ref_schema = Some (databricks_schema cfg),
      ref_table = Some (databricks_results_table cfg), ref_contract_id = None, ref_namespace = None, ref_key = result_id\<rparr>"

definition request_id_json :: "invocation_request \<Rightarrow> json" where
  "request_id_json q = (case q of Envelope e \<Rightarrow> json_opt JStr (env_request_id e) | SharedV2 r \<Rightarrow> JStr (v2_request_id r))"

definition correlation_id_json :: "invocation_request \<Rightarrow> json" where
  "correlation_id_json q = (case q of Envelope e \<Rightarrow> json_opt JStr (env_correlation_id e) | SharedV2 r \<Rightarrow> JStr (v2_correlation_id r))"

definition request_inputs :: "invocation_request \<Rightarrow> upstream_input list option" where
  "request_inputs q = (case q of Envelope e \<Rightarrow> env_upstream_inputs e | SharedV2 r \<Rightarrow> Some (v2_upstream_inputs r))"

definition request_routing :: "invocation_request \<Rightarrow> routing_metadata option" where
  "request_routing q = (case q of Envelope e \<Rightarrow> env_routing_metadata e | SharedV2 _ \<Rightarrow> None)"

definition request_refs :: "invocation_request \<Rightarrow> upstream_result_references option" where
  "request_refs q = (case q of Envelope e \<Rightarrow> env_upstream_refs e | SharedV2 _ \<Rightarrow> None)"

definition provenance_json :: "library \<Rightarrow> invocation_request \<Rightarrow> json" where
  "provenance_json lib q =
     JObj [(''upstream_inputs'', json_opt (\<lambda>is. JArr (map (upstream_input_json lib) is)) (request_inputs q)),
           (''upstream_result_refs'', json_opt upstream_refs_json (request_refs q)),
           (''loop_exhausted'', json_opt (JBool \<circ> loop_exhausted) (request_routing q)),
           (''completed_iterations'', json_opt (json_nat \<circ> completed_iterations) (request_routing q)),
           (''max_iterations'', json_opt (json_nat \<circ> max_iterations) (request_routing q))]"

definition shared_fields :: "translation_result \<Rightarrow> (string \<times> json) list checked" where
  "shared_fields s =
     (if \<not> res_shared_version s then Inr []
      else (case (res_verification s, res_accounting s) of
          (Some v, Some a) \<Rightarrow>
            Inr [(''shared_contract_version'', JStr ''2.0''), (''profile_id'', json_opt (JStr \<circ> profile_value) (res_profile_id s)),
                 (''pre_translation_verification'', verification_json v), (''accounting'', accounting_json a),
                 (''translation_mappings'', JArr (map mapping_json (res_mappings s))),
                 (''translated_directives'', JArr (map directive_json (res_directives s)))]
        | _ \<Rightarrow> Inl ''AssertionError''))"

text \<open>The payload before its integrity fields.\<close>

definition result_payload ::
  "library \<Rightarrow> settings \<Rightarrow> result_envelope \<Rightarrow> invocation_request \<Rightarrow> result_reference option \<Rightarrow> (string \<times> json) list checked" where
  "result_payload lib cfg e q reference =
     (let s = re_structured e in
      bindR (published_artifacts lib cfg (re_result_id e) reference s) (\<lambda>(candidate, artifacts).
      bindR (shared_fields s) (\<lambda>shared. Inr (
        [(''capability'', JStr ''control-translation''),
         (''contract_id'', JStr (if res_shared_version s then ''control-translation-result@2.0'' else ''control-translation-result@1.0'')),
         (''request_id'', request_id_json q), (''correlation_id'', correlation_id_json q), (''run_id'', JStr (re_run_id e)),
         (''result_id'', JStr (re_result_id e)), (''status'', JStr ''completed''),
         (''terminal_state'', JStr (published_state (res_terminal_state s))),
         (''result_ref'', serialize_reference (case reference of Some r \<Rightarrow> r | None \<Rightarrow> default_reference cfg (re_result_id e))),
         (''evidence_refs'', json_strs (result_evidence_refs e)), (''prose'', JStr (res_prose_summary s)),
         (''outcome_reason'', outcome_reason_json (res_outcome_reason s)), (''primary_candidate'', candidate),
         (''artifacts'', JObj artifacts), (''inference'', re_inference e), (''provenance'', provenance_json lib q),
         (''created_at'', JStr (isoformat lib (res_produced_at s)))] @ shared))))"

definition build_lifecycle_result ::
  "library \<Rightarrow> settings \<Rightarrow> result_envelope \<Rightarrow> invocation_request \<Rightarrow> result_reference option \<Rightarrow> (string \<times> json) list checked" where
  "build_lifecycle_result lib cfg e q reference =
     bindR (result_payload lib cfg e q reference) (\<lambda>payload.
     bindR (canonical_result_bytes payload) (\<lambda>content.
       Inr (payload @ [(''content_sha256'', JStr (''sha256:'' @ sha256 lib content)),
                       (''size_bytes'', json_nat (length content))])))"

section \<open>The completion\<close>

record canonical_completion =
  cc_request_id :: string
  cc_correlation_id :: string
  cc_run_id :: string
  cc_result_id :: string
  cc_terminal_state :: json
  cc_result_ref :: result_reference
  cc_evidence_refs :: json
  cc_content_sha256 :: json
  cc_size_bytes :: json
  cc_created_at :: nat

definition completion_json :: "library \<Rightarrow> canonical_completion \<Rightarrow> json" where
  "completion_json lib c =
     JObj [(''capability'', JStr ''control-translation''), (''contract_id'', JStr ''capability-completion@1.0''),
           (''request_id'', JStr (cc_request_id c)), (''correlation_id'', JStr (cc_correlation_id c)), (''run_id'', JStr (cc_run_id c)),
           (''result_id'', JStr (cc_result_id c)), (''status'', JStr ''completed''), (''terminal_state'', cc_terminal_state c),
           (''result_ref'', serialize_reference (cc_result_ref c)), (''evidence_refs'', cc_evidence_refs c),
           (''content_sha256'', cc_content_sha256 c), (''size_bytes'', cc_size_bytes c), (''created_at'', JStr (json_time lib (cc_created_at c)))]"

text \<open>The model checks the pattern of the digest and that there is content.\<close>

definition canonical_completion_ok :: "canonical_completion \<Rightarrow> bool" where
  "canonical_completion_ok c =
     ((case cc_content_sha256 c of JStr s \<Rightarrow> sha256_pattern s | _ \<Rightarrow> False) \<and> (case cc_size_bytes c of JInt n \<Rightarrow> 1 \<le> n | _ \<Rightarrow> False))"

end
