(* ===== verification/ResultStore.thy ===== *)
theory ResultStore
  imports LifecycleStore
begin

text \<open>
  The immutable results of \<^verbatim>\<open>persistence/sqlite.py\<close>: the tables \<^verbatim>\<open>capability_runs\<close>,
  \<^verbatim>\<open>invocation_payloads\<close>, \<^verbatim>\<open>result_artifacts\<close> and \<^verbatim>\<open>evidence_references\<close>
  as lists of records, the transaction that saves a completed run, and the reads. The payload
  columns that repeat parts of the envelope (prose, inference, warnings, trace) are its fields.
\<close>

section \<open>Rows\<close>

record completed_row =
  c_run_id :: string
  c_contract_id :: string
  c_request_id :: "string option"
  c_correlation_id :: string
  c_idempotency_key :: "string option"
  c_request_hash :: string
  c_result_id :: string
  c_status :: result_status
  c_terminal_state :: terminal_state
  c_reason_code :: reason_code
  c_started_at :: nat
  c_completed_at :: nat
  c_created_at :: nat

record payload_row =
  pl_run_id :: string
  pl_request :: invocation_request
  pl_result :: result_envelope

record artifact_row =
  ar_run_id :: string
  ar_artifact_id :: string
  ar_result_id :: string
  ar_type :: string
  ar_content :: string
  ar_content_hash :: string
  ar_emitted_as :: string
  ar_created_at :: nat

record evidence_row =
  ev_run_id :: string
  ev_result_id :: string
  ev_claim :: string
  ev_reference :: string
  ev_created_at :: nat

record results =
  completed_rows :: "completed_row list"
  payload_rows :: "payload_row list"
  artifact_rows :: "artifact_row list"
  evidence_rows :: "evidence_row list"

definition empty_results :: results where
  "empty_results = \<lparr>completed_rows = [], payload_rows = [], artifact_rows = [], evidence_rows = []\<rparr>"

section \<open>Reads\<close>

text \<open>The join of a run with its payload.\<close>

definition payload_of :: "results \<Rightarrow> completed_row \<Rightarrow> result_envelope option" where
  "payload_of db c = map_option pl_result (find (\<lambda>p. pl_run_id p = c_run_id c) (payload_rows db))"

definition get_result_envelope :: "(completed_row \<Rightarrow> bool) \<Rightarrow> results \<Rightarrow> result_envelope option" where
  "get_result_envelope P db = Option.bind (find P (completed_rows db)) (payload_of db)"

definition get_run :: "string \<Rightarrow> results \<Rightarrow> result_envelope option" where
  "get_run rid = get_result_envelope (\<lambda>c. c_run_id c = rid)"

definition get_result :: "string \<Rightarrow> results \<Rightarrow> result_envelope option" where
  "get_result i = get_result_envelope (\<lambda>c. c_result_id c = i)"

definition get_by_idempotency_key :: "string \<Rightarrow> results \<Rightarrow> (string \<times> result_envelope) option" where
  "get_by_idempotency_key key db =
     Option.bind (find (\<lambda>c. c_idempotency_key c = Some key) (completed_rows db))
       (\<lambda>c. map_option (\<lambda>e. (c_request_hash c, e)) (payload_of db c))"

section \<open>Saving a completed run\<close>

definition stored_key :: "invocation_request \<Rightarrow> string option" where
  "stored_key q = (case q of Envelope e \<Rightarrow> env_idempotency_key e | SharedV2 r \<Rightarrow> Some (v2_request_id r))"

definition completed_row_of :: "invocation_request \<Rightarrow> result_envelope \<Rightarrow> string \<Rightarrow> nat \<Rightarrow> nat \<Rightarrow> completed_row" where
  "completed_row_of request result request_hash started_at now =
     \<lparr>c_run_id = re_run_id result, c_contract_id = res_contract_id (re_structured result),
      c_request_id = invocation_request_id request, c_correlation_id = re_correlation_id result,
      c_idempotency_key = stored_key request, c_request_hash = request_hash, c_result_id = re_result_id result,
      c_status = re_status result, c_terminal_state = re_terminal_state result,
      c_reason_code = reason_code (res_outcome_reason (re_structured result)), c_started_at = started_at,
      c_completed_at = res_produced_at (re_structured result), c_created_at = now\<rparr>"

definition insert_artifact :: "result_envelope \<Rightarrow> nat \<Rightarrow> artifact_row list \<Rightarrow> artifact_row list" where
  "insert_artifact result now rows =
     (case res_candidate (re_structured result) of
        None \<Rightarrow> rows
      | Some cand \<Rightarrow>
          rows @ [\<lparr>ar_run_id = re_run_id result, ar_artifact_id = candidate_id cand, ar_result_id = re_result_id result,
                   ar_type = artifact_type (cand_artifact cand), ar_content = content_ref (cand_artifact cand),
                   ar_content_hash = content_hash (cand_artifact cand), ar_emitted_as = emitted_as (cand_artifact cand),
                   ar_created_at = now\<rparr>])"

text \<open>The pairs of a claim and a reference, each once; the store keeps them in sorted order.\<close>

definition evidence_pairs :: "result_envelope \<Rightarrow> (string \<times> string) list" where
  "evidence_pairs result =
     remdups (concat (map (\<lambda>b. map (\<lambda>r. (binding_claim b, r)) (binding_evidence_refs b))
                (res_evidence_bindings (re_structured result)))
              @ map (\<lambda>r. (''provenance'', r)) (re_provenance result))"

definition pair_less_eq :: "string \<times> string \<Rightarrow> string \<times> string \<Rightarrow> bool" where
  "pair_less_eq p q = (if fst p = fst q then text_less_eq (snd p) (snd q) else text_less_eq (fst p) (fst q))"

definition insert_evidence :: "result_envelope \<Rightarrow> nat \<Rightarrow> evidence_row list \<Rightarrow> evidence_row list" where
  "insert_evidence result now rows =
     rows @ map (\<lambda>(claim, r). \<lparr>ev_run_id = re_run_id result, ev_result_id = re_result_id result, ev_claim = claim,
                               ev_reference = r, ev_created_at = now\<rparr>) (sorted_by pair_less_eq (evidence_pairs result))"

text \<open>
  The transaction: the primary key and the two unique columns of \<^verbatim>\<open>capability_runs\<close> make it
  fail as a whole.
\<close>

definition insert_completed_run ::
  "invocation_request \<Rightarrow> result_envelope \<Rightarrow> string \<Rightarrow> nat \<Rightarrow> nat \<Rightarrow> results \<Rightarrow> unit outcome \<times> results" where
  "insert_completed_run request result request_hash started_at now db =
     (let row = completed_row_of request result request_hash started_at now in
      if list_ex (\<lambda>c. c_run_id c = c_run_id row \<or> c_result_id c = c_result_id row
                    \<or> c_idempotency_key row \<noteq> None \<and> c_idempotency_key c = c_idempotency_key row) (completed_rows db)
      then (Inl (PersistenceError ''Unable to persist the completed capability run.''), db)
      else (Inr (), db\<lparr>completed_rows := completed_rows db @ [row],
                       payload_rows := payload_rows db @ [\<lparr>pl_run_id = re_run_id result, pl_request = request, pl_result = result\<rparr>],
                       artifact_rows := insert_artifact result now (artifact_rows db),
                       evidence_rows := insert_evidence result now (evidence_rows db)\<rparr>))"

definition save_completed_run ::
  "invocation_request \<Rightarrow> result_envelope \<Rightarrow> string \<Rightarrow> nat \<Rightarrow> nat \<Rightarrow> results \<Rightarrow> unit outcome \<times> results" where
  "save_completed_run request result request_hash started_at now db =
     (case get_run (re_run_id result) db of
        Some stored \<Rightarrow>
          (if stored = result then Inr ()
           else Inl (PersistenceError ''Immutable SQLite result identity conflicts with stored content.''), db)
      | None \<Rightarrow> insert_completed_run request result request_hash started_at now db)"

section \<open>Listing\<close>

record run_summary =
  sum_run_id :: string
  sum_result_id :: string
  sum_correlation_id :: string
  sum_status :: result_status
  sum_terminal_state :: terminal_state
  sum_reason_code :: reason_code
  sum_vulnerability_id :: string
  sum_target_technology :: string
  sum_artifact_type :: "string option"
  sum_started_at :: nat
  sum_completed_at :: nat
  sum_result_href :: string

record run_summary_page =
  page_items :: "run_summary list"
  page_total :: nat
  page_counts :: "terminal_state \<Rightarrow> nat"

text \<open>The artifact of a run with the least id.\<close>

definition first_artifact_type :: "string \<Rightarrow> results \<Rightarrow> string option" where
  "first_artifact_type rid db =
     (case sorted_by (\<lambda>a b. text_less_eq (ar_artifact_id a) (ar_artifact_id b)) (filter (\<lambda>a. ar_run_id a = rid) (artifact_rows db)) of
        [] \<Rightarrow> None | a # _ \<Rightarrow> Some (ar_type a))"

definition summary_of :: "results \<Rightarrow> completed_row \<Rightarrow> result_envelope \<Rightarrow> run_summary" where
  "summary_of db c e =
     \<lparr>sum_run_id = c_run_id c, sum_result_id = c_result_id c, sum_correlation_id = c_correlation_id c, sum_status = c_status c,
      sum_terminal_state = c_terminal_state c, sum_reason_code = c_reason_code c,
      sum_vulnerability_id = rs_vulnerability_id (res_subject (re_structured e)),
      sum_target_technology = ib_target_technology (res_input_bindings (re_structured e)),
      sum_artifact_type = first_artifact_type (c_run_id c) db, sum_started_at = c_started_at c,
      sum_completed_at = c_completed_at c, sum_result_href = ''/v1/results/'' @ c_result_id c\<rparr>"

definition newest_first :: "run_summary \<Rightarrow> run_summary \<Rightarrow> bool" where
  "newest_first a b =
     (sum_completed_at b < sum_completed_at a
      \<or> sum_completed_at a = sum_completed_at b \<and> text_less_eq (sum_run_id b) (sum_run_id a))"

definition all_summaries :: "results \<Rightarrow> run_summary list" where
  "all_summaries db =
     sorted_by newest_first
       (List.map_filter (\<lambda>c. map_option (summary_of db c) (payload_of db c)) (completed_rows db))"

definition list_runs :: "nat \<Rightarrow> nat \<Rightarrow> results \<Rightarrow> run_summary_page" where
  "list_runs lim offset db =
     \<lparr>page_items = take lim (drop offset (all_summaries db)), page_total = length (completed_rows db),
      page_counts = (\<lambda>t. length (filter (\<lambda>c. c_terminal_state c = t) (completed_rows db)))\<rparr>"

section \<open>Facts\<close>

text \<open>Every stored run has its own payload, whose envelope carries the run's identities.\<close>

definition results_ok :: "results \<Rightarrow> bool" where
  "results_ok db =
     (distinct (map c_run_id (completed_rows db)) \<and> distinct (map c_result_id (completed_rows db))
      \<and> map pl_run_id (payload_rows db) = map c_run_id (completed_rows db)
      \<and> map (\<lambda>p. re_run_id (pl_result p)) (payload_rows db) = map c_run_id (completed_rows db)
      \<and> map (\<lambda>p. re_result_id (pl_result p)) (payload_rows db) = map c_result_id (completed_rows db))"

lemma empty_results_ok: "results_ok empty_results"
  by (simp add: results_ok_def empty_results_def)

lemma insert_completed_run_ok:
  "results_ok db \<Longrightarrow> results_ok (snd (insert_completed_run q e h s now db))"
  by (auto simp: insert_completed_run_def Let_def results_ok_def completed_row_of_def list_ex_iff)

lemma save_completed_run_ok: "results_ok db \<Longrightarrow> results_ok (snd (save_completed_run q e h s now db))"
  by (auto simp: save_completed_run_def insert_completed_run_ok split: option.splits)

lemma find_append_fresh: "\<forall>x \<in> set xs. \<not> P x \<Longrightarrow> find P (xs @ ys) = find P ys"
  by (induction xs) auto

lemma find_append_found: "find P xs = Some x \<Longrightarrow> find P (xs @ ys) = Some x"
  by (induction xs) auto

text \<open>A saved envelope is found, and what was found before is found still.\<close>

lemma insert_reads:
  assumes "results_ok db" and "insert_completed_run q e h s now db = (Inr (), db')"
  shows "get_run (re_run_id e) db' = Some e" and "get_result (re_result_id e) db' = Some e"
    and "stored_key q = Some key \<Longrightarrow> get_by_idempotency_key key db' = Some (h, e)"
proof -
  let ?row = "completed_row_of q e h s now"
  have fresh: "\<forall>c \<in> set (completed_rows db). c_run_id c \<noteq> re_run_id e \<and> c_result_id c \<noteq> re_result_id e
      \<and> (stored_key q \<noteq> None \<longrightarrow> c_idempotency_key c \<noteq> stored_key q)"
    and db': "completed_rows db' = completed_rows db @ [?row]"
      "payload_rows db' = payload_rows db @ [\<lparr>pl_run_id = re_run_id e, pl_request = q, pl_result = e\<rparr>]"
    using assms(2) by (auto simp: insert_completed_run_def Let_def completed_row_of_def list_ex_iff split: if_splits)
  have "pl_run_id ` set (payload_rows db) = c_run_id ` set (completed_rows db)"
    using assms(1) unfolding results_ok_def by (metis list.set_map)
  then have "\<forall>p \<in> set (payload_rows db). pl_run_id p \<noteq> re_run_id e" using fresh by (auto simp: set_eq_iff image_iff) metis
  then have pay: "payload_of db' ?row = Some e"
    by (simp add: payload_of_def db' find_append_fresh completed_row_of_def)
  show "get_run (re_run_id e) db' = Some e" "get_result (re_result_id e) db' = Some e"
    using fresh pay by (simp_all add: get_run_def get_result_def get_result_envelope_def db' find_append_fresh,
      simp_all add: completed_row_of_def)
  show "get_by_idempotency_key key db' = Some (h, e)" if "stored_key q = Some key"
    using fresh pay that by (simp add: get_by_idempotency_key_def db' find_append_fresh, simp add: completed_row_of_def)
qed

lemma save_keeps_run:
  assumes "get_run rid db = Some e"
  shows "get_run rid (snd (save_completed_run q e' h s now db)) = Some e"
proof -
  obtain c p where c: "find (\<lambda>c. c_run_id c = rid) (completed_rows db) = Some c"
    and p: "find (\<lambda>p. pl_run_id p = c_run_id c) (payload_rows db) = Some p" "pl_result p = e"
    using assms by (auto simp: get_run_def get_result_envelope_def payload_of_def bind_eq_Some_conv)
  have "get_run rid (snd (insert_completed_run q e' h s now db)) = Some e"
    using c p assms by (auto simp: insert_completed_run_def Let_def get_run_def get_result_envelope_def payload_of_def find_append_found)
  then show ?thesis using assms by (auto simp: save_completed_run_def split: option.splits)
qed

lemma save_keeps_key:
  assumes "get_by_idempotency_key key db = Some x"
  shows "get_by_idempotency_key key (snd (save_completed_run q e h s now db)) = Some x"
proof -
  obtain c p where "find (\<lambda>c. c_idempotency_key c = Some key) (completed_rows db) = Some c"
    and "find (\<lambda>p. pl_run_id p = c_run_id c) (payload_rows db) = Some p"
    using assms by (auto simp: get_by_idempotency_key_def payload_of_def bind_eq_Some_conv)
  then have "get_by_idempotency_key key (snd (insert_completed_run q e h s now db)) = Some x"
    using assms by (auto simp: insert_completed_run_def Let_def get_by_idempotency_key_def payload_of_def find_append_found)
  then show ?thesis using assms by (auto simp: save_completed_run_def split: option.splits)
qed

lemma payload_identity:
  assumes "results_ok db" and "get_run rid db = Some e"
  shows "re_run_id e = rid \<and> get_result (re_result_id e) db = Some e"
proof -
  obtain c p where c: "find (\<lambda>c. c_run_id c = rid) (completed_rows db) = Some c"
    and p: "find (\<lambda>p. pl_run_id p = c_run_id c) (payload_rows db) = Some p" "pl_result p = e"
    using assms(2) by (auto simp: get_run_def get_result_envelope_def payload_of_def bind_eq_Some_conv)
  obtain i where i: "i < length (payload_rows db)" "payload_rows db ! i = p" "pl_run_id p = c_run_id c"
    using p(1) by (auto simp: find_Some_iff)
  obtain j where j: "j < length (completed_rows db)" "completed_rows db ! j = c" "c_run_id c = rid"
    using c by (auto simp: find_Some_iff)
  have maps: "map pl_run_id (payload_rows db) = map c_run_id (completed_rows db)"
    "map (\<lambda>p. re_run_id (pl_result p)) (payload_rows db) = map c_run_id (completed_rows db)"
    "map (\<lambda>p. re_result_id (pl_result p)) (payload_rows db) = map c_result_id (completed_rows db)"
    and dist: "distinct (map c_run_id (completed_rows db))" "distinct (map c_result_id (completed_rows db))"
    using assms(1) by (auto simp: results_ok_def)
  have len: "length (payload_rows db) = length (completed_rows db)" using arg_cong [OF maps(1), of length] by simp
  have "map c_run_id (completed_rows db) ! i = map c_run_id (completed_rows db) ! j"
    using i j maps(1) len nth_map [of i "payload_rows db" pl_run_id] nth_map [of j "completed_rows db" c_run_id] by simp
  then have [simp]: "i = j" using dist(1) i(1) j(1) len nth_eq_iff_index_eq by (metis length_map)
  have "re_run_id e = rid" "re_result_id e = c_result_id c"
    using arg_cong [OF maps(2), of "\<lambda>xs. xs ! i"] arg_cong [OF maps(3), of "\<lambda>xs. xs ! i"] i j len p(2) by simp_all
  moreover have "find (\<lambda>d. c_result_id d = c_result_id c) (completed_rows db) = Some c"
    using dist(2) j by (auto simp: find_Some_iff distinct_conv_nth intro!: exI [of _ j])
  ultimately show ?thesis using p by (simp add: get_result_def get_result_envelope_def payload_of_def)
qed

end
