(* ===== verification/Worker.thy ===== *)
theory Worker
  imports Publication ResultStore
begin

text \<open>
  The lifecycle worker, \<^verbatim>\<open>lifecycle.py\<close>, over the \<^verbatim>\<open>RunRepository\<close> protocol, a
  record of operations. A thread is a program of atomic calls: each reads the clock, the attempt's
  abort event and the store, and yields the rest of the program, the event and the new store.
  Between two calls anything may happen to the store and the event, so the interleavings of any
  number of workers are those of their calls; the lock that a worker holds while it publishes only
  excludes some of them.

  What a call finds outside the process is its argument: the instant, whether the call fails with a
  storage error, and what the capability returns or raises when it is invoked.
\<close>

section \<open>Threads\<close>

datatype attempt_error =
    OperationCancelled
  | SharedContractV2Error string string
  | WorkflowLabPublicationError string string bool
  | StoreError store_error
  | OtherError string

fun error_type_name :: "attempt_error \<Rightarrow> string" where
  "error_type_name OperationCancelled = ''OperationCancelled''"
| "error_type_name (SharedContractV2Error code detail) = ''SharedContractV2Error''"
| "error_type_name (WorkflowLabPublicationError code detail retryable) = ''WorkflowLabPublicationError''"
| "error_type_name (StoreError (PersistenceError m)) = ''PersistenceError''"
| "error_type_name (StoreError (IdempotencyConflict m)) = ''IdempotencyConflictError''"
| "error_type_name (OtherError name) = name"

record external =
  clock :: nat
  storage_fails :: bool
  invocation :: "attempt_error + result_envelope"

datatype 'w program =
    Ended "attempt_error option"
  | Call "external \<Rightarrow> bool \<Rightarrow> 'w \<Rightarrow> 'w program \<times> bool \<times> 'w"

text \<open>
  A repository call inside a \<^verbatim>\<open>try\<close>: \<open>handle\<close> takes an error over, \<open>next\<close> the
  value.
\<close>

definition repository_call ::
  "(attempt_error \<Rightarrow> 'w program) \<Rightarrow> (nat \<Rightarrow> 'w \<Rightarrow> 'a outcome \<times> 'w) \<Rightarrow> ('a \<Rightarrow> 'w program) \<Rightarrow> 'w program" where
  "repository_call handle f next =
     Call (\<lambda>x aborted w.
       if storage_fails x then (handle (StoreError (PersistenceError ''Storage failed.'')), aborted, w)
       else (case f (clock x) w of
               (Inl e, w') \<Rightarrow> (handle (StoreError e), aborted, w')
             | (Inr v, w') \<Rightarrow> (next v, aborted, w')))"

definition raised :: "attempt_error \<Rightarrow> 'w program" where
  "raised e = Ended (Some e)"

definition returned :: "'w program" where
  "returned = Ended None"

section \<open>The repository protocol\<close>

record 'w run_repository =
  claim_run :: "string \<Rightarrow> nat \<Rightarrow> nat \<Rightarrow> nat \<Rightarrow> 'w \<Rightarrow> lifecycle_run option outcome \<times> 'w"
  heartbeat_run :: "string \<Rightarrow> string \<Rightarrow> nat \<Rightarrow> nat \<Rightarrow> nat \<Rightarrow> 'w \<Rightarrow> bool outcome \<times> 'w"
  lifecycle_of :: "string \<Rightarrow> 'w \<Rightarrow> lifecycle_run option outcome"
  prepared_of :: "string \<Rightarrow> 'w \<Rightarrow> staged_publication option outcome"
  envelope_of :: "string \<Rightarrow> 'w \<Rightarrow> result_envelope option outcome"
  prepare_publication :: "string \<Rightarrow> string \<Rightarrow> nat \<Rightarrow> prepared_publication \<Rightarrow> nat \<Rightarrow> 'w \<Rightarrow> bool outcome \<times> 'w"
  begin_publication :: "string \<Rightarrow> string \<Rightarrow> nat \<Rightarrow> nat \<Rightarrow> 'w \<Rightarrow> bool outcome \<times> 'w"
  save_run :: "invocation_request \<Rightarrow> result_envelope \<Rightarrow> string \<Rightarrow> nat \<Rightarrow> json \<Rightarrow> nat \<Rightarrow> 'w \<Rightarrow> unit outcome \<times> 'w"
  complete_run :: "string \<Rightarrow> string \<Rightarrow> nat \<Rightarrow> json \<Rightarrow> json \<Rightarrow> string \<Rightarrow> string \<Rightarrow> nat \<Rightarrow> 'w \<Rightarrow> bool outcome \<times> 'w"
  fail_run :: "string \<Rightarrow> string \<Rightarrow> nat \<Rightarrow> run_failure \<Rightarrow> json option \<Rightarrow> nat \<Rightarrow> 'w \<Rightarrow> bool outcome \<times> 'w"

definition reading :: "('w \<Rightarrow> 'a outcome) \<Rightarrow> nat \<Rightarrow> 'w \<Rightarrow> 'a outcome \<times> 'w" where
  "reading f now w = (f w, w)"

text \<open>What a worker is constructed with.\<close>

record 'w worker =
  repository :: "'w run_repository"
  worker_id :: string
  worker_library :: library
  worker_settings :: settings
  reference_factory :: "(string \<Rightarrow> result_reference) option"

section \<open>Checks before a durable write\<close>

definition run_id_of :: "lifecycle_run \<Rightarrow> string" where
  "run_id_of run = s_run_id (run_status_view run)"

definition owns_attempt :: "'w worker \<Rightarrow> lifecycle_run \<Rightarrow> lifecycle_run option \<Rightarrow> bool" where
  "owns_attempt wk run current =
     (case current of None \<Rightarrow> False
      | Some c \<Rightarrow> s_status (run_status_view c) = Running \<and> run_worker_id c = Some (worker_id wk)
                   \<and> run_attempt_number c = run_attempt_number run)"

definition canceled_failure :: run_failure where
  "canceled_failure =
     \<lparr>failure_code = ''canceled'', failure_detail = ''Cooperative cancellation completed.'', failure_retryable = False\<rparr>"

definition set_abort :: "'w program \<Rightarrow> 'w program" where
  "set_abort next = Call (\<lambda>x aborted w. (next, True, w))"

definition abort_is_set :: "(bool \<Rightarrow> 'w program) \<Rightarrow> 'w program" where
  "abort_is_set next = Call (\<lambda>x aborted w. (next aborted, aborted, w))"

definition abort_if_requested :: "'w worker \<Rightarrow> lifecycle_run \<Rightarrow> (bool \<Rightarrow> 'w program) \<Rightarrow> 'w program" where
  "abort_if_requested wk run next =
     repository_call raised (reading (lifecycle_of (repository wk) (run_id_of run))) (\<lambda>current.
       if \<not> owns_attempt wk run current then set_abort (next True)
       else if run_publication_state (the current) = PubPending then next False
       else if run_cancel_requested (the current)
       then repository_call raised
              (fail_run (repository wk) (run_id_of run) (worker_id wk) (run_attempt_number run) canceled_failure None) (\<lambda>_. next True)
       else abort_is_set next)"

section \<open>An attempt\<close>

text \<open>The generated envelope under the identities of the run, validated again.\<close>

definition run_result_id :: "lifecycle_run \<Rightarrow> string" where
  "run_result_id run = ''control-translation-result:'' @ run_id_of run"

definition rebound_envelope :: "lifecycle_run \<Rightarrow> result_envelope \<Rightarrow> result_envelope" where
  "rebound_envelope run e =
     e\<lparr>re_run_id := run_id_of run, re_result_id := run_result_id run,
       re_request_id := Some (s_request_id (run_status_view run)), re_correlation_id := s_correlation_id (run_status_view run),
       re_structured := (re_structured e)\<lparr>res_result_id := run_result_id run\<rparr>,
       re_result_ref := (re_result_ref e)\<lparr>rr_result_id := run_result_id run, rr_href := ''/v1/results/'' @ run_result_id run\<rparr>\<rparr>"

definition result_reference_of :: "'w worker \<Rightarrow> string \<Rightarrow> result_reference checked" where
  "result_reference_of wk result_id =
     (case reference_factory wk of
        Some f \<Rightarrow> Inr (f result_id)
      | None \<Rightarrow> validate_databricks_reference (default_reference (worker_settings wk) result_id))"

definition completion_of :: "lifecycle_run \<Rightarrow> result_envelope \<Rightarrow> result_reference \<Rightarrow> (string \<times> json) list \<Rightarrow> canonical_completion" where
  "completion_of run e reference result =
     \<lparr>cc_request_id = s_request_id (run_status_view run), cc_correlation_id = s_correlation_id (run_status_view run),
      cc_run_id = run_id_of run, cc_result_id = re_result_id e, cc_terminal_state = get_or_null result ''terminal_state'',
      cc_result_ref = reference, cc_evidence_refs = get_or_null result ''evidence_refs'',
      cc_content_sha256 = get_or_null result ''content_sha256'', cc_size_bytes = get_or_null result ''size_bytes'',
      cc_created_at = res_produced_at (re_structured e)\<rparr>"

text \<open>The output staged for an envelope, or the name of the exception that building it raises.\<close>

definition staged_output_of :: "'w worker \<Rightarrow> lifecycle_run \<Rightarrow> nat \<Rightarrow> result_envelope \<Rightarrow> prepared_publication checked" where
  "staged_output_of wk run now e =
     (case result_reference_of wk (re_result_id e) of Inl _ \<Rightarrow> Inl ''ValidationError''
      | Inr reference \<Rightarrow>
     (case build_lifecycle_result (worker_library wk) (worker_settings wk) e (run_request run) (Some reference) of Inl _ \<Rightarrow> Inl ''ValueError''
      | Inr result \<Rightarrow>
          let completion = completion_of run e reference result in
          if \<not> canonical_completion_ok completion then Inl ''ValidationError''
          else Inr \<lparr>p_result_envelope = e, p_result = JObj result, p_completion = completion_json (worker_library wk) completion,
                    p_request_hash = run_request_digest run,
                    p_started_at = (case s_started_at (run_status_view run) of Some t \<Rightarrow> t | None \<Rightarrow> now),
                    p_result_id = re_result_id e, p_terminal_state = published_state (res_terminal_state (re_structured e))\<rparr>))"

text \<open>From begin to completion: external publication, the immutable save, the terminal write.\<close>

definition publish_staged :: "'w worker \<Rightarrow> lifecycle_run \<Rightarrow> staged_publication \<Rightarrow> 'w program" where
  "publish_staged wk run st =
     (let p = staged_output st; rid = run_id_of run; publish =
        repository_call raised (begin_publication (repository wk) rid (worker_id wk) (run_attempt_number run)) (\<lambda>begun.
          if \<not> begun then returned
          else repository_call raised
                 (save_run (repository wk) (staged_request st) (p_result_envelope p) (p_request_hash p) (p_started_at p) (p_result p)) (\<lambda>_.
               repository_call raised
                 (complete_run (repository wk) rid (worker_id wk) (run_attempt_number run) (p_result p) (p_completion p)
                    (p_result_id p) (p_terminal_state p)) (\<lambda>_. returned)))
      in if staged_state st = PubPrepared
         then abort_if_requested wk run (\<lambda>stop. if stop then returned else publish)
         else publish)"

definition stage_output :: "'w worker \<Rightarrow> lifecycle_run \<Rightarrow> prepared_publication \<Rightarrow> 'w program" where
  "stage_output wk run p =
     abort_if_requested wk run (\<lambda>stop.
       if stop then returned
       else repository_call raised
              (prepare_publication (repository wk) (run_id_of run) (worker_id wk) (run_attempt_number run) p) (\<lambda>staged.
            if \<not> staged then returned
            else repository_call raised (reading (prepared_of (repository wk) (run_id_of run))) (\<lambda>prepared.
              case prepared of
                None \<Rightarrow> raised (StoreError (PersistenceError ''Prepared result publication could not be read.''))
              | Some st \<Rightarrow> publish_staged wk run st)))"

definition stage_envelope :: "'w worker \<Rightarrow> lifecycle_run \<Rightarrow> result_envelope \<Rightarrow> 'w program" where
  "stage_envelope wk run e =
     Call (\<lambda>x aborted w.
       (case staged_output_of wk run (clock x) e of
          Inl name \<Rightarrow> raised (OtherError name) | Inr p \<Rightarrow> stage_output wk run p, aborted, w))"

text \<open>Invoking the capability; its envelope is rebound to the run and validated.\<close>

definition generate :: "'w worker \<Rightarrow> lifecycle_run \<Rightarrow> 'w program" where
  "generate wk run =
     Call (\<lambda>x aborted w.
       (case invocation x of
          Inl e \<Rightarrow> raised e
        | Inr envelope \<Rightarrow>
            (case validate_result_envelope (rebound_envelope run envelope) of
               Inl _ \<Rightarrow> raised (OtherError ''ValidationError'')
             | Inr e \<Rightarrow> abort_if_requested wk run (\<lambda>stop. if stop then returned else stage_envelope wk run e)), aborted, w))"

definition process :: "'w worker \<Rightarrow> lifecycle_run \<Rightarrow> 'w program" where
  "process wk run =
     repository_call raised (reading (prepared_of (repository wk) (run_id_of run))) (\<lambda>prepared.
       case prepared of
         Some st \<Rightarrow> publish_staged wk run st
       | None \<Rightarrow>
           abort_if_requested wk run (\<lambda>stop.
             if stop then returned
             else repository_call raised (reading (envelope_of (repository wk) (run_id_of run))) (\<lambda>existing.
               case existing of None \<Rightarrow> generate wk run | Some e \<Rightarrow> stage_envelope wk run e)))"

section \<open>Failures\<close>

definition attempt_failure :: "attempt_error \<Rightarrow> run_failure" where
  "attempt_failure e =
     (case e of
        SharedContractV2Error code detail \<Rightarrow> \<lparr>failure_code = code, failure_detail = detail, failure_retryable = False\<rparr>
      | _ \<Rightarrow> \<lparr>failure_code = ''translation_execution_failed'',
              failure_detail = ''Translation execution failed ('' @ error_type_name e @ '').'', failure_retryable = True\<rparr>)"

text \<open>Storage errors are logged here and end the attempt.\<close>

definition persist_attempt_failure :: "'w worker \<Rightarrow> lifecycle_run \<Rightarrow> attempt_error \<Rightarrow> 'w program" where
  "persist_attempt_failure wk run exc =
     (let rid = run_id_of run;
          failed = (\<lambda>failure result. repository_call (\<lambda>_. returned)
                     (fail_run (repository wk) rid (worker_id wk) (run_attempt_number run) failure result) (\<lambda>_. returned))
      in repository_call (\<lambda>_. returned) (reading (prepared_of (repository wk) rid)) (\<lambda>prepared.
        case prepared of
          Some st \<Rightarrow>
            if staged_state st = PubPending
            then (case exc of
                WorkflowLabPublicationError code detail retryable \<Rightarrow>
                  if retryable then returned
                  else failed \<lparr>failure_code = code, failure_detail = detail, failure_retryable = False\<rparr> (Some (p_result (staged_output st)))
              | _ \<Rightarrow> returned)
            else failed (attempt_failure exc) None
        | None \<Rightarrow> failed (attempt_failure exc) None))"

text \<open>The heartbeat: a lost lease or a cancel request sets the abort event.\<close>

definition heartbeat :: "'w worker \<Rightarrow> nat \<Rightarrow> lifecycle_run \<Rightarrow> 'w program" where
  "heartbeat wk lease_seconds run =
     repository_call (\<lambda>_. returned) (heartbeat_run (repository wk) (run_id_of run) (worker_id wk) (run_attempt_number run) lease_seconds)
       (\<lambda>held. if \<not> held then set_abort returned
               else repository_call (\<lambda>_. returned) (reading (lifecycle_of (repository wk) (run_id_of run))) (\<lambda>current.
                 case current of None \<Rightarrow> returned
                 | Some c \<Rightarrow> if run_cancel_requested c then set_abort returned else returned))"

end
