(* ===== verification/WorkerSafety.thy ===== *)
theory WorkerSafety
  imports Worker
begin

text \<open>
  Any number of workers on one repository, with their heartbeats, crashes and the repository's other
  clients: whatever the interleaving of their calls, a run is reported as completed only when its
  immutable result is stored. The repository's promises are the locale \<open>run_store\<close>.
\<close>

section \<open>What the worker relies on\<close>

text \<open>
  A view of a store: whether it is well formed, and by run id the staged output, the saved envelope
  and the result of a completed run.
\<close>

record 'w view =
  well_formed :: "'w \<Rightarrow> bool"
  output_of :: "'w \<Rightarrow> string \<Rightarrow> prepared_publication option"
  saved_of :: "'w \<Rightarrow> string \<Rightarrow> result_envelope option"
  result_of :: "'w \<Rightarrow> string \<Rightarrow> json option"

text \<open>A call that stages, saves and completes nothing; it may save other runs' results.\<close>

definition quiet :: "'w view \<Rightarrow> 'w \<Rightarrow> 'w \<Rightarrow> bool" where
  "quiet v w w' =
     (well_formed v w' \<and> output_of v w' = output_of v w \<and> result_of v w' = result_of v w \<and> saved_of v w \<subseteq>\<^sub>m saved_of v w')"

definition grows :: "'w view \<Rightarrow> 'w \<Rightarrow> 'w \<Rightarrow> bool" where
  "grows v w w' = (output_of v w \<subseteq>\<^sub>m output_of v w' \<and> saved_of v w \<subseteq>\<^sub>m saved_of v w')"

locale run_store =
  fixes repo :: "'w run_repository" and v :: "'w view" and max_attempts :: nat
  assumes claim_quiet: "well_formed v w \<Longrightarrow> quiet v w (snd (claim_run repo wid lease max_attempts now w))"
    and heartbeat_quiet: "well_formed v w \<Longrightarrow> quiet v w (snd (heartbeat_run repo rid wid a lease now w))"
    and fail_quiet: "well_formed v w \<Longrightarrow> quiet v w (snd (fail_run repo rid wid a failure failed_result now w))"
    and begin_quiet: "well_formed v w \<Longrightarrow> quiet v w (snd (begin_publication repo rid wid a now w))"
    and save_quiet: "well_formed v w \<Longrightarrow> quiet v w (snd (save_run repo q e h t res now w))"
    and save_saves: "well_formed v w \<Longrightarrow> save_run repo q e h t res now w = (Inr (), w') \<Longrightarrow> saved_of v w' (re_run_id e) = Some e"
    and prepare_stages: "well_formed v w \<Longrightarrow> prepare_publication repo rid wid a p now w = (r, w') \<Longrightarrow>
      quiet v w w' \<or> well_formed v w' \<and> output_of v w rid = None \<and> output_of v w' = (output_of v w)(rid \<mapsto> p)
        \<and> result_of v w' = result_of v w \<and> saved_of v w' = saved_of v w"
    and complete_completes: "well_formed v w \<Longrightarrow> complete_run repo rid wid a res completion i terminal now w = (r, w') \<Longrightarrow>
      quiet v w w' \<or> well_formed v w' \<and> output_of v w' = output_of v w \<and> result_of v w' = (result_of v w)(rid \<mapsto> res)
        \<and> saved_of v w' = saved_of v w"
    and prepared_is_staged: "well_formed v w \<Longrightarrow> prepared_of repo rid w = Inr (Some st) \<Longrightarrow> output_of v w rid = Some (staged_output st)"
    and envelope_is_own: "well_formed v w \<Longrightarrow> envelope_of repo rid w = Inr (Some e) \<Longrightarrow> re_run_id e = rid"

section \<open>Consistent stores\<close>

text \<open>
  Staged output belongs to its run and is the canonical projection of its envelope; a completed
  run's result is its staged output, and its envelope is saved.
\<close>

definition proper_output :: "library \<Rightarrow> string \<Rightarrow> prepared_publication \<Rightarrow> bool" where
  "proper_output lib rid p =
     (re_run_id (p_result_envelope p) = rid
      \<and> (\<exists>cfg q reference result. build_lifecycle_result lib cfg (p_result_envelope p) q reference = Inr result \<and> p_result p = JObj result))"

definition consistent :: "'w view \<Rightarrow> library \<Rightarrow> 'w \<Rightarrow> bool" where
  "consistent v lib w =
     (well_formed v w \<and> (\<forall>rid p. output_of v w rid = Some p \<longrightarrow> proper_output lib rid p)
      \<and> (\<forall>rid j. result_of v w rid = Some j \<longrightarrow>
           (\<exists>p. output_of v w rid = Some p \<and> p_result p = j \<and> saved_of v w rid = Some (p_result_envelope p))))"

lemma map_leD: "m \<subseteq>\<^sub>m m' \<Longrightarrow> m x = Some y \<Longrightarrow> m' x = Some y"
  by (auto simp: map_le_def dom_def)

lemma quiet_consistent:
  assumes "quiet v w w'" and "consistent v lib w"
  shows "consistent v lib w' \<and> grows v w w'"
proof -
  have "output_of v w' = output_of v w" "result_of v w' = result_of v w" "saved_of v w \<subseteq>\<^sub>m saved_of v w'" "well_formed v w'"
    using assms(1) by (auto simp: quiet_def)
  then show ?thesis using assms(2) map_leD [of "saved_of v w" "saved_of v w'"]
    by (simp add: consistent_def grows_def) metis
qed

lemma quiet_refl: "well_formed v w \<Longrightarrow> quiet v w w"
  by (simp add: quiet_def)

lemma grows_refl [simp]: "grows v w w"
  by (simp add: grows_def)

lemma grows_trans: "grows v w w' \<Longrightarrow> grows v w' w'' \<Longrightarrow> grows v w w''"
  unfolding grows_def by (auto intro: map_le_trans)

section \<open>Safe programs\<close>

text \<open>
  A program is safe with the knowledge \<open>K\<close> when each of its calls, made on a consistent store that
  satisfies \<open>K\<close>, leaves a consistent store that has only grown, and the rest is safe with
  what is known then. Knowledge is lasting when growth keeps it, so that the calls of others do.
\<close>

definition lasting :: "'w view \<Rightarrow> ('w \<Rightarrow> bool) \<Rightarrow> bool" where
  "lasting v K = (\<forall>w w'. grows v w w' \<longrightarrow> K w \<longrightarrow> K w')"

inductive safe :: "'w view \<Rightarrow> library \<Rightarrow> ('w \<Rightarrow> bool) \<Rightarrow> 'w program \<Rightarrow> bool" for v lib where
  ended: "safe v lib K (Ended e)"
| call: "(\<And>x b w. consistent v lib w \<Longrightarrow> K w \<Longrightarrow>
      consistent v lib (snd (snd (f x b w))) \<and> grows v w (snd (snd (f x b w)))
      \<and> (\<exists>K'. lasting v K' \<and> K' (snd (snd (f x b w))) \<and> safe v lib K' (fst (f x b w)))) \<Longrightarrow> safe v lib K (Call f)"

inductive_cases safe_callE: "safe v lib K (Call f)"

abbreviation always_safe :: "'w view \<Rightarrow> library \<Rightarrow> 'w program \<Rightarrow> bool" where
  "always_safe v lib \<equiv> safe v lib (\<lambda>w. True)"

lemma lasting_True [simp]: "lasting v (\<lambda>w. True)"
  by (simp add: lasting_def)

lemma lasting_staged: "lasting v (\<lambda>w. output_of v w rid = Some p)"
  unfolding lasting_def grows_def map_le_def by (metis domI)

lemma lasting_saved: "lasting v (\<lambda>w. output_of v w rid = Some p \<and> saved_of v w rid = Some e)"
  unfolding lasting_def grows_def map_le_def by (metis domI)

lemma safe_weaken: "safe v lib K p \<Longrightarrow> (\<And>w. K' w \<Longrightarrow> K w) \<Longrightarrow> safe v lib K' p"
  by (cases rule: safe.cases) (auto intro: safe.intros)

lemma safe_ended [simp]: "safe v lib K (raised e)" "safe v lib K returned"
  by (simp_all add: raised_def returned_def safe.ended)

lemma any_knowledge: "always_safe v lib p \<Longrightarrow> \<exists>K. lasting v K \<and> K w \<and> safe v lib K p"
  by (rule exI [of _ "\<lambda>w. True"]) simp

text \<open>A call that changes nothing in the store.\<close>

lemma safe_local:
  assumes "\<And>x b w. consistent v lib w \<Longrightarrow> K w \<Longrightarrow> snd (snd (f x b w)) = w \<and> safe v lib K (fst (f x b w))" and "lasting v K"
  shows "safe v lib K (Call f)"
proof (rule safe.call, goal_cases)
  case (1 x b w)
  then show ?case using assms(1) [of w x b] assms(2) by auto
qed

lemma safe_abort_calls:
  assumes "lasting v K"
  shows "safe v lib K p \<Longrightarrow> safe v lib K (set_abort p)" and "(\<And>b. safe v lib K (q b)) \<Longrightarrow> safe v lib K (abort_is_set q)"
  unfolding set_abort_def abort_is_set_def by (rule safe_local; use assms in simp)+

text \<open>A repository call: an error is handled, a value continues with what is known after it.\<close>

lemma safe_repository_call:
  assumes "\<And>e. always_safe v lib (handle e)"
    and step: "\<And>now w r w'. consistent v lib w \<Longrightarrow> K w \<Longrightarrow> f now w = (r, w') \<Longrightarrow> consistent v lib w' \<and> grows v w w'"
    and next_ok: "\<And>now w x w'. consistent v lib w \<Longrightarrow> K w \<Longrightarrow> f now w = (Inr x, w') \<Longrightarrow> \<exists>K'. lasting v K' \<and> K' w' \<and> safe v lib K' (next_program x)"
  shows "safe v lib K (repository_call handle f next_program)"
  unfolding repository_call_def
proof (rule safe.call, goal_cases)
  case (1 x b w)
  obtain r w' where f: "f (clock x) w = (r, w')" by (cases "f (clock x) w")
  have handled: "\<exists>K'. lasting v K' \<and> K' u \<and> safe v lib K' (handle e)" for u e
    by (intro any_knowledge assms(1))
  show ?case
  proof (cases "storage_fails x")
    case True then show ?thesis using 1(1) handled [of w] by simp
  next
    case False
    then show ?thesis
    proof (cases r)
      case (Inl e) then show ?thesis using False f step [OF 1 f] handled [of w' "StoreError e"] by simp
    next
      case (Inr y) then show ?thesis using False f step [OF 1 f] next_ok [OF 1, of "clock x" y w'] by simp
    qed
  qed
qed

section \<open>The worker's programs are safe\<close>

lemma consistent_well_formed: "consistent v lib w \<Longrightarrow> well_formed v w"
  by (simp add: consistent_def)

lemma quiet_call:
  assumes "\<And>now w. well_formed v w \<Longrightarrow> quiet v w (snd (f now w))" and "\<And>e. always_safe v lib (handle e)"
    and "lasting v K" and "\<And>x. safe v lib K (next_program x)"
  shows "safe v lib K (repository_call handle f next_program)"
proof (rule safe_repository_call)
  fix now w r w' assume w: "consistent v lib w" "f now w = (r, w')"
  show "consistent v lib w' \<and> grows v w w'"
    using quiet_consistent [OF _ w(1), of w'] assms(1) [OF consistent_well_formed [OF w(1)], of now] w(2) by simp
next
  fix now w x w' assume w: "consistent v lib w" "K w" "f now w = (Inr x, w')"
  then have "grows v w w'"
    using quiet_consistent [OF _ w(1), of w'] assms(1) [OF consistent_well_formed [OF w(1)], of now] by simp
  then have "K w'" using assms(3) w(2) unfolding lasting_def by blast
  then show "\<exists>K'. lasting v K' \<and> K' w' \<and> safe v lib K' (next_program x)" using assms(3,4) by blast
qed (rule assms(2))

lemma reading_quiet: "well_formed v w \<Longrightarrow> quiet v w (snd (reading f now w))"
  by (simp add: reading_def quiet_refl)

text \<open>The two calls that are not quiet.\<close>

lemma completed_consistent:
  assumes w: "consistent v lib w" "output_of v w rid = Some p" "saved_of v w rid = Some (p_result_envelope p)"
    and w': "well_formed v w'" "output_of v w' = output_of v w" "result_of v w' = (result_of v w)(rid \<mapsto> p_result p)"
      "saved_of v w' = saved_of v w"
  shows "consistent v lib w' \<and> grows v w w'"
proof -
  have "\<exists>q. output_of v w i = Some q \<and> p_result q = j \<and> saved_of v w i = Some (p_result_envelope q)"
    if "((result_of v w)(rid \<mapsto> p_result p)) i = Some j" for i j
    using that w unfolding consistent_def by (cases "i = rid") auto
  then show ?thesis using w(1) w' unfolding consistent_def grows_def by (simp only: map_le_refl) blast
qed

lemma staged_consistent:
  assumes w: "consistent v lib w" "output_of v w rid = None" and p: "proper_output lib rid p"
    and w': "well_formed v w'" "output_of v w' = (output_of v w)(rid \<mapsto> p)" "result_of v w' = result_of v w"
      "saved_of v w' = saved_of v w"
  shows "consistent v lib w' \<and> grows v w w'"
proof -
  have le: "output_of v w \<subseteq>\<^sub>m (output_of v w)(rid \<mapsto> p)" using w(2) by (auto simp: map_le_def)
  have "proper_output lib i q" if "((output_of v w)(rid \<mapsto> p)) i = Some q" for i q
    using that w(1) p unfolding consistent_def by (cases "i = rid") auto
  then show ?thesis using w(1) w' le map_leD [OF le] unfolding consistent_def grows_def
    by (simp only: map_le_refl) blast
qed

context run_store begin

lemma abort_safe:
  assumes "repository wk = repo" and "lasting v K" and "\<And>stop. safe v lib K (next_program stop)"
  shows "safe v lib K (abort_if_requested wk run next_program)"
  unfolding abort_if_requested_def assms(1)
proof (rule quiet_call [OF reading_quiet _ assms(2)])
  fix current
  have "safe v lib K (repository_call raised (fail_run repo (run_id_of run) (worker_id wk) (run_attempt_number run) canceled_failure None)
          (\<lambda>_. next_program True))"
    by (rule quiet_call [OF fail_quiet _ assms(2)]) (use assms(3) in simp_all)
  then show "safe v lib K (if \<not> owns_attempt wk run current then set_abort (next_program True)
       else if run_publication_state (the current) = PubPending then next_program False
       else if run_cancel_requested (the current)
       then repository_call raised (fail_run repo (run_id_of run) (worker_id wk) (run_attempt_number run) canceled_failure None)
              (\<lambda>_. next_program True)
       else abort_is_set next_program)"
    using safe_abort_calls [OF assms(2)] assms(3) by simp
qed simp_all

text \<open>Completion is only called with the knowledge that the run's output is staged and its envelope saved.\<close>

lemma complete_safe:
  "safe v lib (\<lambda>w. output_of v w rid = Some p \<and> saved_of v w rid = Some (p_result_envelope p))
     (repository_call raised (complete_run repo rid wid a (p_result p) completion i terminal) (\<lambda>_. returned))"
proof (rule safe_repository_call)
  fix now w r w'
  assume w: "consistent v lib w" "output_of v w rid = Some p \<and> saved_of v w rid = Some (p_result_envelope p)"
    and call: "complete_run repo rid wid a (p_result p) completion i terminal now w = (r, w')"
  from complete_completes [OF consistent_well_formed [OF w(1)] call]
  show "consistent v lib w' \<and> grows v w w'"
  proof
    assume "quiet v w w'" then show ?thesis by (rule quiet_consistent) (rule w(1))
  next
    assume "well_formed v w' \<and> output_of v w' = output_of v w \<and> result_of v w' = (result_of v w)(rid \<mapsto> p_result p)
        \<and> saved_of v w' = saved_of v w"
    then show ?thesis using completed_consistent [OF w(1)] w(2) by blast
  qed
qed (simp, intro any_knowledge, simp)

lemma publish_safe:
  assumes "repository wk = repo"
  shows "safe v lib (\<lambda>w. output_of v w (run_id_of run) = Some (staged_output st)
           \<and> re_run_id (p_result_envelope (staged_output st)) = run_id_of run) (publish_staged wk run st)"
proof -
  let ?rid = "run_id_of run" and ?p = "staged_output st"
  let ?K = "\<lambda>w. output_of v w ?rid = Some ?p \<and> re_run_id (p_result_envelope ?p) = ?rid"
  have K: "lasting v ?K" using lasting_staged [of v ?rid ?p] unfolding lasting_def by blast
  let ?complete = "repository_call raised (complete_run repo ?rid (worker_id wk) (run_attempt_number run) (p_result ?p)
    (p_completion ?p) (p_result_id ?p) (p_terminal_state ?p)) (\<lambda>_. returned)"
  let ?save = "save_run repo (staged_request st) (p_result_envelope ?p) (p_request_hash ?p) (p_started_at ?p) (p_result ?p)"
  have "safe v lib ?K (repository_call raised ?save (\<lambda>_. ?complete))"
  proof (rule safe_repository_call)
    fix now w r w' assume w: "consistent v lib w" and call: "?save now w = (r, w')"
    show "consistent v lib w' \<and> grows v w w'"
      using quiet_consistent [OF _ w, of w'] save_quiet [OF consistent_well_formed [OF w]] call by (metis snd_conv)
  next
    fix now w x w' assume w: "consistent v lib w" "?K w" and call: "?save now w = (Inr x, w')"
    have "quiet v w w'" using save_quiet [OF consistent_well_formed [OF w(1)]] call by (metis snd_conv)
    then have "output_of v w' ?rid = Some ?p" using w(2) by (simp add: quiet_def)
    moreover have "saved_of v w' ?rid = Some (p_result_envelope ?p)"
      using save_saves [OF consistent_well_formed [OF w(1)], of _ "p_result_envelope ?p"] call w(2) by simp
    ultimately show "\<exists>K'. lasting v K' \<and> K' w' \<and> safe v lib K' ?complete"
      using complete_safe [where rid = ?rid and p = ?p] lasting_saved [of v ?rid ?p] by blast
  qed simp
  then have publish: "safe v lib ?K (repository_call raised (begin_publication repo ?rid (worker_id wk) (run_attempt_number run))
      (\<lambda>begun. if \<not> begun then returned else repository_call raised ?save (\<lambda>_. ?complete)))"
    using quiet_call [OF begin_quiet _ K] by simp
  have guarded: "safe v lib ?K (abort_if_requested wk run (\<lambda>stop. if stop then returned else
      repository_call raised (begin_publication repo ?rid (worker_id wk) (run_attempt_number run))
        (\<lambda>begun. if \<not> begun then returned else repository_call raised ?save (\<lambda>_. ?complete))))"
    by (rule abort_safe [OF assms K]) (use publish in simp)
  show ?thesis unfolding publish_staged_def Let_def assms using publish guarded by simp
qed

text \<open>What \<^verbatim>\<open>get_prepared_publication\<close> returns is staged.\<close>

lemma prepared_call_safe:
  assumes "\<And>e. always_safe v lib (handle e)" and "always_safe v lib none"
    and "\<And>st. safe v lib (\<lambda>w. output_of v w rid = Some (staged_output st)
           \<and> re_run_id (p_result_envelope (staged_output st)) = rid) (some st)"
  shows "always_safe v lib (repository_call handle (reading (prepared_of repo rid)) (\<lambda>prepared. case prepared of None \<Rightarrow> none | Some st \<Rightarrow> some st))"
proof (rule safe_repository_call)
  fix now w x w' assume w: "consistent v lib w" and call: "reading (prepared_of repo rid) now w = (Inr x, w')"
  then have x: "w' = w" "prepared_of repo rid w = Inr x" by (auto simp: reading_def)
  show "\<exists>K'. lasting v K' \<and> K' w' \<and> safe v lib K' (case x of None \<Rightarrow> none | Some st \<Rightarrow> some st)"
  proof (cases x)
    case None then show ?thesis using assms(2) lasting_True by fastforce
  next
    case (Some st)
    have staged: "output_of v w rid = Some (staged_output st)"
      using prepared_is_staged [OF consistent_well_formed [OF w]] x Some by simp
    then have "re_run_id (p_result_envelope (staged_output st)) = rid"
      using w by (auto simp: consistent_def proper_output_def)
    moreover have "lasting v (\<lambda>w. output_of v w rid = Some (staged_output st) \<and> re_run_id (p_result_envelope (staged_output st)) = rid)"
      using lasting_staged [of v rid "staged_output st"] unfolding lasting_def by blast
    ultimately have "\<exists>K'. lasting v K' \<and> K' w \<and> safe v lib K' (some st)" using staged assms(3) [of st] by blast
    then show ?thesis using x Some by simp
  qed
qed (use assms(1) in \<open>auto simp: reading_def\<close>)

lemma staged_output_proper:
  assumes "worker_library wk = lib" and "staged_output_of wk run now e = Inr p" and "re_run_id e = rid"
  shows "proper_output lib rid p"
proof -
  obtain reference where "result_reference_of wk (re_result_id e) = Inr reference"
    using assms(2) by (auto simp: staged_output_of_def split: sum.splits)
  moreover from this obtain result where result: "build_lifecycle_result lib (worker_settings wk) e (run_request run) (Some reference) = Inr result"
    using assms(1,2) by (auto simp: staged_output_of_def split: sum.splits)
  ultimately have "p_result_envelope p = e" "p_result p = JObj result"
    using assms(1,2) by (auto simp: staged_output_of_def Let_def split: if_splits)
  then show ?thesis using result assms(3) unfolding proper_output_def by blast
qed

lemma stage_output_safe:
  assumes "repository wk = repo" and "proper_output lib (run_id_of run) p"
  shows "always_safe v lib (stage_output wk run p)"
  unfolding stage_output_def
proof (rule abort_safe [OF assms(1) lasting_True], unfold assms(1))
  let ?rid = "run_id_of run"
  let ?read = "repository_call raised (reading (prepared_of repo ?rid)) (\<lambda>prepared. case prepared of
      None \<Rightarrow> raised (StoreError (PersistenceError ''Prepared result publication could not be read.'')) | Some st \<Rightarrow> publish_staged wk run st)"
  have read: "always_safe v lib ?read" by (rule prepared_call_safe) (use publish_safe [OF assms(1)] in simp_all)
  have "always_safe v lib (repository_call raised (prepare_publication repo ?rid (worker_id wk) (run_attempt_number run) p)
           (\<lambda>staged. if \<not> staged then returned else ?read))"
  proof (rule safe_repository_call)
    fix now w r w' assume w: "consistent v lib w"
      and call: "prepare_publication repo ?rid (worker_id wk) (run_attempt_number run) p now w = (r, w')"
    from prepare_stages [OF consistent_well_formed [OF w] call] show "consistent v lib w' \<and> grows v w w'"
      using quiet_consistent [OF _ w, of w'] staged_consistent [OF w _ assms(2)] by blast
  next
    show "\<exists>K'. lasting v K' \<and> K' w' \<and> safe v lib K' (if \<not> staged then returned else ?read)" for w' staged
      using read by (intro any_knowledge) simp
  qed simp
  then show "always_safe v lib (if stop then returned
    else repository_call raised (prepare_publication repo ?rid (worker_id wk) (run_attempt_number run) p)
           (\<lambda>staged. if \<not> staged then returned else ?read))" for stop by simp
qed

lemma stage_safe:
  assumes "repository wk = repo" and "worker_library wk = lib" and "re_run_id e = run_id_of run"
  shows "always_safe v lib (stage_envelope wk run e)"
  unfolding stage_envelope_def
proof (rule safe_local [OF _ lasting_True], goal_cases)
  case (1 x b w)
  then show ?case
    using stage_output_safe [OF assms(1)] staged_output_proper [OF assms(2) _ assms(3)] by (auto split: sum.split)
qed

lemma generate_safe:
  assumes "repository wk = repo" and "worker_library wk = lib"
  shows "always_safe v lib (generate wk run)"
  unfolding generate_def
proof (rule safe_local [OF _ lasting_True], goal_cases)
  case (1 x b w)
  have "always_safe v lib (abort_if_requested wk run (\<lambda>stop. if stop then returned else stage_envelope wk run e))"
    if "validate_result_envelope (rebound_envelope run envelope) = Inr e" for envelope e
  proof -
    have "e = rebound_envelope run envelope"
      using that by (auto simp: validate_result_envelope_def bindR_def split: sum.splits)
    then have "always_safe v lib (stage_envelope wk run e)" by (intro stage_safe assms) (simp add: rebound_envelope_def)
    then show ?thesis by (intro abort_safe assms) simp_all
  qed
  then show ?case by (auto split: sum.split)
qed

lemma process_safe:
  assumes "repository wk = repo" and "worker_library wk = lib"
  shows "always_safe v lib (process wk run)"
  unfolding process_def assms(1)
proof (rule prepared_call_safe)
  let ?rid = "run_id_of run"
  have "always_safe v lib (repository_call raised (reading (envelope_of repo ?rid)) (\<lambda>existing.
      case existing of None \<Rightarrow> generate wk run | Some e \<Rightarrow> stage_envelope wk run e))"
  proof (rule safe_repository_call)
    fix now w x w' assume w: "consistent v lib w" "reading (envelope_of repo ?rid) now w = (Inr x, w')"
    then have "re_run_id e = ?rid" if "x = Some e" for e
      using that envelope_is_own [OF consistent_well_formed [OF w(1)], of ?rid e] by (auto simp: reading_def)
    then have "always_safe v lib (case x of None \<Rightarrow> generate wk run | Some e \<Rightarrow> stage_envelope wk run e)"
      using generate_safe [OF assms] stage_safe [OF assms] by (cases x) auto
    then show "\<exists>K'. lasting v K' \<and> K' w' \<and> safe v lib K' (case x of None \<Rightarrow> generate wk run | Some e \<Rightarrow> stage_envelope wk run e)"
      by (rule any_knowledge)
  qed (auto simp: reading_def)
  then show "always_safe v lib (abort_if_requested wk run (\<lambda>stop. if stop then returned
      else repository_call raised (reading (envelope_of repo ?rid)) (\<lambda>existing.
        case existing of None \<Rightarrow> generate wk run | Some e \<Rightarrow> stage_envelope wk run e)))"
    by (intro abort_safe assms) simp_all
qed (use publish_safe [OF assms(1)] in simp_all)

lemma failure_safe:
  assumes "repository wk = repo"
  shows "always_safe v lib (persist_attempt_failure wk run exc)"
proof -
  have failed: "always_safe v lib (repository_call (\<lambda>_. returned)
      (fail_run repo (run_id_of run) (worker_id wk) (run_attempt_number run) failure res) (\<lambda>_. returned))" for failure res
    by (rule quiet_call [OF fail_quiet]) simp_all
  show ?thesis
    unfolding persist_attempt_failure_def Let_def assms
    by (rule quiet_call [OF reading_quiet]) (use failed in \<open>auto split: option.split attempt_error.split\<close>)
qed

lemma heartbeat_safe:
  assumes "repository wk = repo"
  shows "always_safe v lib (heartbeat wk lease run)"
proof -
  have "always_safe v lib (repository_call (\<lambda>_. returned) (reading (lifecycle_of repo (run_id_of run))) (\<lambda>current.
          case current of None \<Rightarrow> returned | Some c \<Rightarrow> if run_cancel_requested c then set_abort returned else returned))"
    by (rule quiet_call [OF reading_quiet]) (auto intro: safe_abort_calls split: option.split)
  then show ?thesis
    unfolding heartbeat_def assms by (intro quiet_call [OF heartbeat_quiet]) (auto intro: safe_abort_calls)
qed

end

section \<open>Fleets\<close>

text \<open>
  An attempt: its worker and run, its abort event, the program of its thread and that of its
  heartbeat thread. A fleet is a store with the attempts under way on it, of any number of workers.
\<close>

record 'w attempt =
  at_worker :: "'w worker"
  at_run :: lifecycle_run
  at_abort :: bool
  at_program :: "'w program"
  at_heartbeat :: "'w program"

record 'w fleet =
  fleet_store :: 'w
  fleet_attempts :: "'w attempt list"

definition new_attempt :: "'w worker \<Rightarrow> lifecycle_run \<Rightarrow> 'w attempt" where
  "new_attempt wk run =
     \<lparr>at_worker = wk, at_run = run, at_abort = False, at_program = process wk run, at_heartbeat = returned\<rparr>"

text \<open>
  One step of a fleet: a worker claims a run and starts an attempt, or finds none; an attempt makes
  its next call; an attempt whose thread raised an error, other than the cancellation, goes on with
  recording it; a heartbeat starts or makes its next call; an abort event is set from outside; a
  crash loses an attempt; another client of the store acts.
\<close>

inductive fleet_step ::
  "'w run_repository \<Rightarrow> nat \<Rightarrow> library \<Rightarrow> ('w \<Rightarrow> 'w \<Rightarrow> bool) \<Rightarrow> 'w fleet \<Rightarrow> 'w fleet \<Rightarrow> bool"
  for repo max_attempts lib others where
  claimed: "\<lbrakk>repository wk = repo; worker_library wk = lib; claim_run repo (worker_id wk) lease max_attempts now w = (Inr (Some run), w')\<rbrakk>
    \<Longrightarrow> fleet_step repo max_attempts lib others \<lparr>fleet_store = w, fleet_attempts = as\<rparr> \<lparr>fleet_store = w', fleet_attempts = as @ [new_attempt wk run]\<rparr>"
| idle: "claim_run repo wid lease max_attempts now w = (Inr None, w')
    \<Longrightarrow> fleet_step repo max_attempts lib others \<lparr>fleet_store = w, fleet_attempts = as\<rparr> \<lparr>fleet_store = w', fleet_attempts = as\<rparr>"
| works: "\<lbrakk>i < length as; at_program (as ! i) = Call f; f x (at_abort (as ! i)) w = (p, b, w')\<rbrakk>
    \<Longrightarrow> fleet_step repo max_attempts lib others \<lparr>fleet_store = w, fleet_attempts = as\<rparr>
          \<lparr>fleet_store = w', fleet_attempts = as[i := (as ! i)\<lparr>at_program := p, at_abort := b\<rparr>]\<rparr>"
| recovers: "\<lbrakk>i < length as; at_program (as ! i) = Ended (Some e); e \<noteq> OperationCancelled\<rbrakk>
    \<Longrightarrow> fleet_step repo max_attempts lib others \<lparr>fleet_store = w, fleet_attempts = as\<rparr>
          \<lparr>fleet_store = w, fleet_attempts = as[i := (as ! i)\<lparr>at_program := persist_attempt_failure (at_worker (as ! i)) (at_run (as ! i)) e\<rparr>]\<rparr>"
| beat: "\<lbrakk>i < length as; at_heartbeat (as ! i) = Ended e\<rbrakk>
    \<Longrightarrow> fleet_step repo max_attempts lib others \<lparr>fleet_store = w, fleet_attempts = as\<rparr>
          \<lparr>fleet_store = w, fleet_attempts = as[i := (as ! i)\<lparr>at_heartbeat := heartbeat (at_worker (as ! i)) lease (at_run (as ! i))\<rparr>]\<rparr>"
| beats: "\<lbrakk>i < length as; at_heartbeat (as ! i) = Call f; f x (at_abort (as ! i)) w = (p, b, w')\<rbrakk>
    \<Longrightarrow> fleet_step repo max_attempts lib others \<lparr>fleet_store = w, fleet_attempts = as\<rparr>
          \<lparr>fleet_store = w', fleet_attempts = as[i := (as ! i)\<lparr>at_heartbeat := p, at_abort := b\<rparr>]\<rparr>"
| notified: "i < length as
    \<Longrightarrow> fleet_step repo max_attempts lib others \<lparr>fleet_store = w, fleet_attempts = as\<rparr>
          \<lparr>fleet_store = w, fleet_attempts = as[i := (as ! i)\<lparr>at_abort := True\<rparr>]\<rparr>"
| crashes: "fleet_step repo max_attempts lib others \<lparr>fleet_store = w, fleet_attempts = as @ a # bs\<rparr> \<lparr>fleet_store = w, fleet_attempts = as @ bs\<rparr>"
| other: "others w w'
    \<Longrightarrow> fleet_step repo max_attempts lib others \<lparr>fleet_store = w, fleet_attempts = as\<rparr> \<lparr>fleet_store = w', fleet_attempts = as\<rparr>"

definition program_ok :: "'w view \<Rightarrow> library \<Rightarrow> 'w \<Rightarrow> 'w program \<Rightarrow> bool" where
  "program_ok v lib w p = (\<exists>K. lasting v K \<and> K w \<and> safe v lib K p)"

definition attempt_ok :: "'w run_repository \<Rightarrow> 'w view \<Rightarrow> library \<Rightarrow> 'w \<Rightarrow> 'w attempt \<Rightarrow> bool" where
  "attempt_ok repo v lib w a =
     (repository (at_worker a) = repo \<and> program_ok v lib w (at_program a) \<and> program_ok v lib w (at_heartbeat a))"

definition fleet_ok :: "'w run_repository \<Rightarrow> 'w view \<Rightarrow> library \<Rightarrow> 'w fleet \<Rightarrow> bool" where
  "fleet_ok repo v lib s =
     (consistent v lib (fleet_store s) \<and> list_all (attempt_ok repo v lib (fleet_store s)) (fleet_attempts s))"

lemma program_ok_grows: "program_ok v lib w p \<Longrightarrow> grows v w w' \<Longrightarrow> program_ok v lib w' p"
proof -
  assume "program_ok v lib w p" and g: "grows v w w'"
  then obtain K where K: "lasting v K" "K w" "safe v lib K p" unfolding program_ok_def by blast
  then have "K w'" using g unfolding lasting_def by blast
  then show "program_ok v lib w' p" unfolding program_ok_def using K by blast
qed

lemma attempt_ok_grows: "attempt_ok repo v lib w a \<Longrightarrow> grows v w w' \<Longrightarrow> attempt_ok repo v lib w' a"
  unfolding attempt_ok_def by (auto elim: program_ok_grows)

lemma attempts_ok_grow:
  "list_all (attempt_ok repo v lib w) as \<Longrightarrow> grows v w w' \<Longrightarrow> list_all (attempt_ok repo v lib w') as"
  by (auto simp: list_all_iff intro: attempt_ok_grows)

lemma attempts_ok_update:
  "list_all (attempt_ok repo v lib w) as \<Longrightarrow> attempt_ok repo v lib w a \<Longrightarrow> list_all (attempt_ok repo v lib w) (as[i := a])"
  by (auto simp: list_all_iff dest: set_update_subset_insert [THEN subsetD])

lemma always_safe_ok: "always_safe v lib p \<Longrightarrow> program_ok v lib w p"
  unfolding program_ok_def by (rule any_knowledge)

lemma program_call:
  assumes "program_ok v lib w (Call f)" and "consistent v lib w" and "f x b w = (p, b', w')"
  shows "consistent v lib w' \<and> grows v w w' \<and> program_ok v lib w' p"
proof -
  obtain K where K: "K w" "safe v lib K (Call f)" using assms(1) unfolding program_ok_def by blast
  from K(2) show ?thesis
  proof (rule safe_callE, goal_cases)
    case 1
    from 1 [OF assms(2) K(1), of x b] show ?case unfolding assms(3) program_ok_def by simp
  qed
qed

context run_store begin

lemma fleet_step_ok:
  assumes "fleet_step repo max_attempts lib others s s'" and "fleet_ok repo v lib s"
    and "\<And>w w'. others w w' \<Longrightarrow> well_formed v w \<Longrightarrow> quiet v w w'"
  shows "fleet_ok repo v lib s'"
  using assms(1)
proof cases
  case (claimed wk lease now w run w' as)
  have w: "consistent v lib w" and as: "list_all (attempt_ok repo v lib w) as" using assms(2) claimed by (auto simp: fleet_ok_def)
  have "quiet v w w'" using claim_quiet [OF consistent_well_formed [OF w], of "worker_id wk" lease now] claimed by simp
  then have w': "consistent v lib w'" "grows v w w'" using quiet_consistent [OF _ w] by simp_all
  have "attempt_ok repo v lib w' (new_attempt wk run)"
    using claimed process_safe [of wk lib run] by (simp add: attempt_ok_def new_attempt_def always_safe_ok)
  then show ?thesis using claimed w' attempts_ok_grow [OF as w'(2)] by (simp add: fleet_ok_def)
next
  case (idle wid lease now w w' as)
  have w: "consistent v lib w" and as: "list_all (attempt_ok repo v lib w) as" using assms(2) idle by (auto simp: fleet_ok_def)
  have "quiet v w w'" using claim_quiet [OF consistent_well_formed [OF w], of wid lease now] idle by simp
  then have w': "consistent v lib w'" "grows v w w'" using quiet_consistent [OF _ w] by simp_all
  then show ?thesis using idle attempts_ok_grow [OF as w'(2)] by (simp add: fleet_ok_def)
next
  case (works i as f x w p b w')
  have w: "consistent v lib w" and as: "list_all (attempt_ok repo v lib w) as" using assms(2) works by (auto simp: fleet_ok_def)
  then have a: "attempt_ok repo v lib w (as ! i)" using works by (simp add: list_all_length)
  then have w': "consistent v lib w'" "grows v w w'" "program_ok v lib w' p"
    using program_call [OF _ w, of f x "at_abort (as ! i)"] works by (simp_all add: attempt_ok_def)
  then have "attempt_ok repo v lib w' ((as ! i)\<lparr>at_program := p, at_abort := b\<rparr>)"
    using attempt_ok_grows [OF a w'(2)] by (simp add: attempt_ok_def)
  then show ?thesis using works w' attempts_ok_update [OF attempts_ok_grow [OF as w'(2)]] by (simp add: fleet_ok_def)
next
  case (recovers i as e w)
  have w: "consistent v lib w" and as: "list_all (attempt_ok repo v lib w) as" using assms(2) recovers by (auto simp: fleet_ok_def)
  then have a: "attempt_ok repo v lib w (as ! i)" using recovers by (simp add: list_all_length)
  then have "attempt_ok repo v lib w ((as ! i)\<lparr>at_program := persist_attempt_failure (at_worker (as ! i)) (at_run (as ! i)) e\<rparr>)"
    using failure_safe [of "at_worker (as ! i)"] by (simp add: attempt_ok_def always_safe_ok)
  then show ?thesis using recovers w attempts_ok_update [OF as] by (simp add: fleet_ok_def)
next
  case (beat i as e w lease)
  have w: "consistent v lib w" and as: "list_all (attempt_ok repo v lib w) as" using assms(2) beat by (auto simp: fleet_ok_def)
  then have a: "attempt_ok repo v lib w (as ! i)" using beat by (simp add: list_all_length)
  then have "attempt_ok repo v lib w ((as ! i)\<lparr>at_heartbeat := heartbeat (at_worker (as ! i)) lease (at_run (as ! i))\<rparr>)"
    using heartbeat_safe [of "at_worker (as ! i)"] by (simp add: attempt_ok_def always_safe_ok)
  then show ?thesis using beat w attempts_ok_update [OF as] by (simp add: fleet_ok_def)
next
  case (beats i as f x w p b w')
  have w: "consistent v lib w" and as: "list_all (attempt_ok repo v lib w) as" using assms(2) beats by (auto simp: fleet_ok_def)
  then have a: "attempt_ok repo v lib w (as ! i)" using beats by (simp add: list_all_length)
  then have w': "consistent v lib w'" "grows v w w'" "program_ok v lib w' p"
    using program_call [OF _ w, of f x "at_abort (as ! i)"] beats by (simp_all add: attempt_ok_def)
  then have "attempt_ok repo v lib w' ((as ! i)\<lparr>at_heartbeat := p, at_abort := b\<rparr>)"
    using attempt_ok_grows [OF a w'(2)] by (simp add: attempt_ok_def)
  then show ?thesis using beats w' attempts_ok_update [OF attempts_ok_grow [OF as w'(2)]] by (simp add: fleet_ok_def)
next
  case (notified i as w)
  have w: "consistent v lib w" and as: "list_all (attempt_ok repo v lib w) as" using assms(2) notified by (auto simp: fleet_ok_def)
  then have "attempt_ok repo v lib w ((as ! i)\<lparr>at_abort := True\<rparr>)" using notified by (simp add: list_all_length attempt_ok_def)
  then show ?thesis using notified w attempts_ok_update [OF as] by (simp add: fleet_ok_def)
next
  case (crashes w as a bs)
  then show ?thesis using assms(2) by (simp add: fleet_ok_def)
next
  case (other w w' as)
  have w: "consistent v lib w" and as: "list_all (attempt_ok repo v lib w) as" using assms(2) other by (auto simp: fleet_ok_def)
  then have w': "consistent v lib w'" "grows v w w'"
    using quiet_consistent [OF assms(3) [OF other(3) consistent_well_formed [OF w]] w] by simp_all
  then show ?thesis using other attempts_ok_grow [OF as w'(2)] by (simp add: fleet_ok_def)
qed

lemma fleet_steps_ok:
  assumes "(fleet_step repo max_attempts lib others)\<^sup>*\<^sup>* s s'" and "fleet_ok repo v lib s"
    and "\<And>w w'. others w w' \<Longrightarrow> well_formed v w \<Longrightarrow> quiet v w w'"
  shows "fleet_ok repo v lib s'"
  using assms(1,2) by (induction rule: rtranclp_induct) (simp_all add: fleet_step_ok [OF _ _ assms(3)])

end

end
