(* ===== verification/WorkerStore.thy ===== *)
theory WorkerStore
  imports WorkerSafety LifecycleSteps
begin

text \<open>
  The SQLite repository as the worker's \<^verbatim>\<open>RunRepository\<close>: one world of the run tables and
  the result tables, and the proof that it keeps the promises the worker relies on.
\<close>

section \<open>The repository\<close>

record world =
  w_runs :: database
  w_results :: results

definition on_runs :: "(database \<Rightarrow> 'a \<times> database) \<Rightarrow> world \<Rightarrow> 'a outcome \<times> world" where
  "on_runs f w = (case f (w_runs w) of (x, db) \<Rightarrow> (Inr x, w\<lparr>w_runs := db\<rparr>))"

definition sqlite_repository :: "world run_repository" where
  "sqlite_repository =
     \<lparr>claim_run = (\<lambda>wid lease m now. on_runs (\<lambda>db. case claim_lifecycle_run now wid lease m db of
                    (r, db') \<Rightarrow> (map_option lifecycle_from_row r, db'))),
      heartbeat_run = (\<lambda>rid wid a lease now. on_runs (heartbeat_lifecycle_run now rid wid a lease)),
      lifecycle_of = (\<lambda>rid w. Inr (get_lifecycle_run rid (w_runs w))),
      prepared_of = (\<lambda>rid w. get_prepared_publication rid (w_runs w)),
      envelope_of = (\<lambda>rid w. Inr (get_run rid (w_results w))),
      prepare_publication = (\<lambda>rid wid a p now. on_runs (prepare_lifecycle_publication now rid wid a p)),
      begin_publication = (\<lambda>rid wid a now. on_runs (begin_lifecycle_publication now rid wid a)),
      save_run = (\<lambda>q e h t res now w. case save_completed_run q e h t now (w_results w) of (r, db) \<Rightarrow> (r, w\<lparr>w_results := db\<rparr>)),
      complete_run = (\<lambda>rid wid a res completion i terminal now w.
                       case complete_lifecycle_run now rid wid a res completion i terminal (w_runs w) of (r, db) \<Rightarrow> (r, w\<lparr>w_runs := db\<rparr>)),
      fail_run = (\<lambda>rid wid a failure res now. on_runs (fail_lifecycle_run now rid wid a failure res))\<rparr>"

section \<open>The view\<close>

definition completed_result :: "lifecycle_row \<Rightarrow> json option" where
  "completed_result r = (if l_status r = Completed then l_result_json r else None)"

definition outputs :: "database \<Rightarrow> string \<Rightarrow> prepared_publication option" where
  "outputs db rid = Option.bind (get_row rid db) l_prepared"

definition outcomes :: "database \<Rightarrow> string \<Rightarrow> json option" where
  "outcomes db rid = Option.bind (get_row rid db) completed_result"

definition sqlite_view :: "nat \<Rightarrow> world view" where
  "sqlite_view m =
     \<lparr>well_formed = (\<lambda>w. database_ok m (w_runs w) \<and> results_ok (w_results w)),
      output_of = (\<lambda>w. outputs (w_runs w)), saved_of = (\<lambda>w rid. get_run rid (w_results w)),
      result_of = (\<lambda>w. outcomes (w_runs w))\<rparr>"

section \<open>Operations that neither stage nor complete\<close>

definition same_outputs :: "database \<Rightarrow> database \<Rightarrow> bool" where
  "same_outputs db db' = (outputs db' = outputs db \<and> outcomes db' = outcomes db)"

lemma same_outputs_refl [simp]: "same_outputs db db"
  by (simp add: same_outputs_def)

lemma same_outputs_trans: "same_outputs db db' \<Longrightarrow> same_outputs db' db'' \<Longrightarrow> same_outputs db db''"
  by (simp add: same_outputs_def)

lemma same_outputs_outbox [simp]: "same_outputs db (create_callback_outbox_records now rid db') = same_outputs db db'"
  by (simp add: same_outputs_def outputs_def outcomes_def fun_eq_iff)

lemma same_outputs_rows: "lifecycle_rows db' = lifecycle_rows db \<Longrightarrow> same_outputs db db'"
  by (simp add: same_outputs_def outputs_def outcomes_def get_row_def fun_eq_iff)

text \<open>An update of rows that keeps staged output and the result of a completed run.\<close>

lemma same_outputs_update:
  assumes "\<And>r. l_run_id (f r) = l_run_id r"
    and "\<And>r. r \<in> set (lifecycle_rows db) \<Longrightarrow> P r \<Longrightarrow> l_prepared (f r) = l_prepared r \<and> completed_result (f r) = completed_result r"
  shows "same_outputs db (update_rows P f db)"
proof -
  have row: "get_row rid (update_rows P f db) = map_option (\<lambda>r. if P r then f r else r) (get_row rid db)" for rid
    by (rule get_row_update) (rule assms(1))
  have "outputs (update_rows P f db) rid = outputs db rid \<and> outcomes (update_rows P f db) rid = outcomes db rid" for rid
  proof (cases "get_row rid db")
    case (Some r)
    then show ?thesis using assms(2) [of r] get_rowD [OF Some] row [of rid] by (simp add: outputs_def outcomes_def)
  qed (simp add: row outputs_def outcomes_def)
  then show ?thesis by (simp add: same_outputs_def fun_eq_iff)
qed

lemmas row_functions = terminalize_def fail_publication_def take_lease_def fail_row_def cancel_row_def complete_row_def

lemma find_append: "find P (xs @ ys) = (case find P xs of None \<Rightarrow> find P ys | Some x \<Rightarrow> Some x)"
  by (induction xs) auto

lemma create_same_outputs: "same_outputs db (snd (create_lifecycle_run now rid req key digest cb db))"
proof (cases "find (\<lambda>r. l_idempotency_key r = key) (lifecycle_rows db)")
  case None
  have "same_outputs db (db\<lparr>lifecycle_rows := lifecycle_rows db @ [new_row now rid req request correlation key digest cb]\<rparr>)"
    if "get_row rid db = None" for request correlation
  proof -
    have "get_row i (db\<lparr>lifecycle_rows := lifecycle_rows db @ [new_row now rid req request correlation key digest cb]\<rparr>) =
        (if i = rid then Some (new_row now rid req request correlation key digest cb) else get_row i db)" for i
      using that by (auto simp: get_row_def find_append new_row_def split: option.split)
    then show ?thesis using that
      by (auto simp: same_outputs_def outputs_def outcomes_def fun_eq_iff new_row_def completed_result_def)
  qed
  then show ?thesis using None by (auto simp: create_lifecycle_run_def Let_def split: option.split)
next
  case (Some row)
  have "same_outputs db (snd (rebind_run now digest cb row db))"
    unfolding rebind_run_def
    by (auto simp: Let_def completed_result_def split: option.split intro!: same_outputs_update)
  then show ?thesis using Some by (simp add: create_lifecycle_run_def)
qed

lemma expire_same_outputs: "same_outputs db (expire_runs now k db)"
  unfolding expire_runs_def same_outputs_outbox
  by (intro same_outputs_trans [OF _ same_outputs_update] same_outputs_refl)
    (auto simp: row_functions completed_result_def worker_is_exhausted_def cancel_is_due_def publication_is_exhausted_def)

lemma claim_same_outputs:
  assumes "database_ok m db"
  shows "same_outputs db (snd (claim_lifecycle_run now wid lease k db))"
proof -
  let ?db = "expire_runs now k db"
  have ok: "owing {} m ?db" using expire_runs_ok assms by (simp add: database_ok_def)
  have "same_outputs ?db (update_rows (claim_guard now rid) (take_lease now wid lease) ?db)" for rid
  proof (rule same_outputs_update)
    fix r assume "r \<in> set (lifecycle_rows ?db)" and g: "claim_guard now rid r"
    then have "row_ok m r" using owingD(1) [OF ok] by blast
    then have "l_status r \<noteq> Completed" using g by (auto simp: claim_guard_def before_def row_ok_def split: option.splits)
    then show "l_prepared (take_lease now wid lease r) = l_prepared r
        \<and> completed_result (take_lease now wid lease r) = completed_result r"
      by (simp add: take_lease_def completed_result_def)
  qed (simp add: take_lease_def)
  then have "same_outputs db (update_rows (claim_guard now rid) (take_lease now wid lease) ?db)" for rid
    by (rule same_outputs_trans [OF expire_same_outputs])
  then show ?thesis using expire_same_outputs
    by (auto simp: claim_lifecycle_run_def Let_def split: option.split)
qed

lemma heartbeat_same_outputs: "same_outputs db (snd (heartbeat_lifecycle_run now rid wid a lease db))"
  by (auto simp: heartbeat_lifecycle_run_def completed_result_def intro!: same_outputs_update)

lemma begin_same_outputs: "same_outputs db (snd (begin_lifecycle_publication now rid wid a db))"
  by (auto simp: begin_lifecycle_publication_def completed_result_def intro!: same_outputs_update)

lemma fail_same_outputs: "same_outputs db (snd (fail_lifecycle_run now rid wid a failure res db))"
  by (auto simp: fail_lifecycle_run_def Let_def row_functions completed_result_def fail_guard_def holds_def intro!: same_outputs_update)

lemma cancel_same_outputs: "same_outputs db (snd (cancel_lifecycle_run now rid db))"
  by (auto simp: cancel_lifecycle_run_def Let_def row_functions completed_result_def split: option.split run_status.split
      intro!: same_outputs_update)

section \<open>Staging, completing, saving\<close>

lemma same_outputs_untouched:
  assumes "\<And>r. l_run_id (f r) = l_run_id r" and "\<And>r. P r \<Longrightarrow> l_run_id r = rid" and "\<not> (\<exists>r. get_row rid db = Some r \<and> P r)"
  shows "same_outputs db (update_rows P f db)"
proof -
  have "get_row j (update_rows P f db) = get_row j db" for j
  proof (cases "get_row j db")
    case (Some s)
    then have "\<not> P s" using assms(2,3) get_rowD [OF Some] by blast
    then show ?thesis using Some get_row_update [of f j P db, OF assms(1)] by simp
  qed (simp add: get_row_update [of f j P db, OF assms(1)])
  then show ?thesis by (simp add: same_outputs_def outputs_def outcomes_def fun_eq_iff)
qed

lemma prepare_effect:
  assumes "database_ok m db" and "prepare_lifecycle_publication now rid wid a p db = (b, db')"
  shows "same_outputs db db'
    \<or> outputs db rid = None \<and> outputs db' = (outputs db)(rid \<mapsto> p) \<and> outcomes db' = outcomes db"
proof -
  let ?f = "\<lambda>r. r\<lparr>l_publication_state := PubPrepared, l_prepared := Some p, l_progress_phase := ''publishing'',
               l_progress_message := ''Result is prepared for durable publication.'', l_updated_at := now\<rparr>"
  have db': "db' = update_rows (prepare_guard now rid wid a) ?f db" using assms(2) by (simp add: prepare_lifecycle_publication_def)
  have row: "get_row i db' = map_option (\<lambda>r. if prepare_guard now rid wid a r then ?f r else r) (get_row i db)" for i
    unfolding db' by (rule get_row_update) simp
  show ?thesis
  proof (cases "\<exists>r. get_row rid db = Some r \<and> prepare_guard now rid wid a r")
    case True
    then obtain r where r: "get_row rid db = Some r" "prepare_guard now rid wid a r" by blast
    have "row_ok m r" using assms(1) owingD(1) get_rowD [OF r(1)] unfolding database_ok_def by blast
    then have none: "l_prepared r = None" using r(2) by (auto simp: prepare_guard_def row_ok_def)
    have other: "\<not> prepare_guard now rid wid a s" if "get_row i db = Some s" "i \<noteq> rid" for i s
      using that get_rowD [of i db s] by (auto simp: prepare_guard_def holds_def)
    have "outputs db' i = ((outputs db)(rid \<mapsto> p)) i \<and> outcomes db' i = outcomes db i" for i
      using r row [of i] other [of i] by (cases "get_row i db") (auto simp: outputs_def outcomes_def completed_result_def)
    then show ?thesis using r none by (auto simp: outputs_def fun_eq_iff)
  next
    case False
    then have "same_outputs db db'"
      unfolding db' by (intro same_outputs_untouched) (auto simp: prepare_guard_def holds_def)
    then show ?thesis by blast
  qed
qed

lemma complete_effect:
  assumes "database_ok m db" and "complete_lifecycle_run now rid wid a res completion i terminal db = (b, db')"
  shows "same_outputs db db' \<or> outputs db' = outputs db \<and> outcomes db' = (outcomes db)(rid \<mapsto> res)"
proof -
  let ?f = "complete_row now res completion i terminal"
  let ?db = "update_rows (complete_guard now rid wid a) ?f db"
  have "row_count (cancel_on_complete rid wid a) db = 0"
    unfolding row_count_zero using cancel_on_complete_dead assms(1) owingD(1) unfolding database_ok_def by blast
  then have cases: "same_outputs db db' \<or> same_outputs ?db db'"
    using assms(2) by (auto simp: complete_lifecycle_run_def Let_def split: if_splits)
  have row: "get_row j ?db = map_option (\<lambda>r. if complete_guard now rid wid a r then ?f r else r) (get_row j db)" for j
    by (rule get_row_update) (simp add: complete_row_def terminalize_def)
  have "same_outputs db ?db \<or> outputs ?db = outputs db \<and> outcomes ?db = (outcomes db)(rid \<mapsto> res)"
  proof (cases "\<exists>r. get_row rid db = Some r \<and> complete_guard now rid wid a r")
    case True
    then obtain r where r: "get_row rid db = Some r" "complete_guard now rid wid a r" by blast
    have other: "\<not> complete_guard now rid wid a s" if "get_row j db = Some s" "j \<noteq> rid" for j s
      using that get_rowD [of j db s] by (auto simp: complete_guard_def holds_def)
    have "outputs ?db j = outputs db j \<and> outcomes ?db j = ((outcomes db)(rid \<mapsto> res)) j" for j
      using r row [of j] other [of j] by (cases "get_row j db") (auto simp: outputs_def outcomes_def completed_result_def row_functions)
    then show ?thesis by (auto simp: fun_eq_iff)
  next
    case False
    then have "same_outputs db ?db"
      by (intro same_outputs_untouched) (auto simp: complete_guard_def holds_def complete_row_def terminalize_def)
    then show ?thesis by blast
  qed
  then show ?thesis using cases by (auto simp: same_outputs_def)
qed

lemma save_effect:
  assumes "results_ok db"
  shows "results_ok (snd (save_completed_run q e h s now db))"
    and "(\<lambda>rid. get_run rid db) \<subseteq>\<^sub>m (\<lambda>rid. get_run rid (snd (save_completed_run q e h s now db)))"
    and "save_completed_run q e h s now db = (Inr (), db') \<Longrightarrow> get_run (re_run_id e) db' = Some e"
proof -
  show "results_ok (snd (save_completed_run q e h s now db))" using save_completed_run_ok [OF assms] .
  show "(\<lambda>rid. get_run rid db) \<subseteq>\<^sub>m (\<lambda>rid. get_run rid (snd (save_completed_run q e h s now db)))"
    using save_keeps_run by (fastforce simp: map_le_def)
  show "get_run (re_run_id e) db' = Some e" if "save_completed_run q e h s now db = (Inr (), db')"
    using that insert_reads(1) [OF assms] by (auto simp: save_completed_run_def split: option.splits if_splits)
qed

section \<open>The promises hold\<close>

lemma quiet_runs:
  assumes "same_outputs (w_runs w) db" and "database_ok m db" and "well_formed (sqlite_view m) w"
  shows "quiet (sqlite_view m) w (w\<lparr>w_runs := db\<rparr>)"
  using assms by (simp add: quiet_def sqlite_view_def same_outputs_def)

lemma quiet_on_runs:
  assumes "well_formed (sqlite_view m) w" and "same_outputs (w_runs w) (snd (f (w_runs w)))" and "store_step m (w_runs w) (snd (f (w_runs w)))"
  shows "quiet (sqlite_view m) w (snd (on_runs f w))"
proof -
  have "database_ok m (snd (f (w_runs w)))"
    using assms(1,3) store_step_ok by (auto simp: sqlite_view_def)
  then show ?thesis using quiet_runs [OF assms(2) _ assms(1)] by (simp add: on_runs_def case_prod_beta)
qed

interpretation sqlite: run_store sqlite_repository "sqlite_view m" m for m
proof (unfold_locales, goal_cases)
  case (1 w wid lease now)
  then show ?case
    using claim_same_outputs [of m "w_runs w" now wid lease m] store_step.claim [of m "w_runs w" now wid lease]
    by (simp add: sqlite_repository_def) (rule quiet_on_runs, simp_all add: case_prod_beta sqlite_view_def)
next
  case (2 w rid wid a lease now)
  then show ?case by (simp add: sqlite_repository_def quiet_on_runs heartbeat_same_outputs store_step.heartbeat)
next
  case (3 w rid wid a failure res now)
  then show ?case by (simp add: sqlite_repository_def quiet_on_runs fail_same_outputs store_step.fail)
next
  case (4 w rid wid a now)
  then show ?case by (simp add: sqlite_repository_def quiet_on_runs begin_same_outputs store_step.begin_publication)
next
  case (5 w q e h t res now)
  then show ?case
    using save_effect(1,2) [of "w_results w" q e h t now]
    by (simp add: sqlite_repository_def case_prod_beta quiet_def sqlite_view_def)
next
  case (6 w q e h t res now w')
  then show ?case
    using save_effect(3) [of "w_results w" q e h t now]
    by (auto simp: sqlite_repository_def sqlite_view_def split: prod.splits)
next
  case (7 w rid wid a p now r w')
  then obtain b db where db: "prepare_lifecycle_publication now rid wid a p (w_runs w) = (b, db)" "w' = w\<lparr>w_runs := db\<rparr>"
    by (auto simp: sqlite_repository_def on_runs_def split: prod.splits)
  have "database_ok m db" using 7(1) store_step_ok [OF store_step.prepare [of m "w_runs w" now rid wid a p]] db
    by (simp add: sqlite_view_def)
  then show ?case
    using prepare_effect [OF _ db(1), of m] quiet_runs [of w db m] 7(1) db(2) by (auto simp: sqlite_view_def)
next
  case (8 w rid wid a res completion i terminal now r w')
  then obtain b db where db: "complete_lifecycle_run now rid wid a res completion i terminal (w_runs w) = (b, db)" "w' = w\<lparr>w_runs := db\<rparr>"
    by (auto simp: sqlite_repository_def split: prod.splits)
  have "database_ok m db" using 8(1) store_step_ok [OF store_step.complete [of m "w_runs w" now rid wid a res completion i terminal]] db
    by (simp add: sqlite_view_def)
  then show ?case
    using complete_effect [OF _ db(1), of m] quiet_runs [of w db m] 8(1) db(2) by (auto simp: sqlite_view_def)
next
  case (9 w rid st)
  then show ?case
    by (auto simp: sqlite_repository_def sqlite_view_def get_prepared_publication_def outputs_def split: option.splits if_splits)
next
  case (10 w rid e)
  then show ?case using payload_identity [of "w_results w" rid e] by (simp add: sqlite_repository_def sqlite_view_def)
qed

end
