(* ===== verification/PublicationFacts.thy ===== *)
theory PublicationFacts
  imports Publication
begin

text \<open>
  Lemmas on the canonical result: its integrity fields describe the rest of it, and its artifacts
  are those of the structured result.
\<close>

section \<open>Integrity fields\<close>

abbreviation integrity_keys :: "string list" where
  "integrity_keys \<equiv> [''content_sha256'', ''size_bytes'']"

lemma shared_fields_keys:
  assumes "shared_fields s = Inr shared" and "k \<in> set integrity_keys"
  shows "k \<notin> fst ` set shared"
  using assms by (auto simp: shared_fields_def split: if_splits option.splits)

lemma result_payload_keys:
  assumes "result_payload lib cfg e q reference = Inr payload" and "k \<in> set integrity_keys"
  shows "k \<notin> fst ` set payload"
proof -
  obtain candidate artifacts shared where
    "shared_fields (re_structured e) = Inr shared" and
    payload: "result_payload lib cfg e q reference = Inr payload"
    using assms(1) by (auto simp: result_payload_def Let_def bindR_def split: sum.splits)
  then have "k \<notin> fst ` set shared" using shared_fields_keys assms(2) by blast
  then show ?thesis using payload assms(2) \<open>shared_fields (re_structured e) = Inr shared\<close>
    by (auto simp: result_payload_def Let_def bindR_def split: sum.splits prod.splits)
qed

lemma dict_without_absent: "(\<And>k. k \<in> set ks \<Longrightarrow> k \<notin> fst ` set kvs) \<Longrightarrow> dict_without ks kvs = kvs"
  by (force simp: dict_without_def filter_id_conv)

lemma dict_without_append: "dict_without ks (xs @ ys) = dict_without ks xs @ dict_without ks ys"
  by (simp add: dict_without_def)

lemma get_or_null_append: "k \<notin> fst ` set xs \<Longrightarrow> get_or_null (xs @ ys) k = get_or_null ys k"
  by (induction xs) (auto simp: get_or_null_def get_def)

lemma build_lifecycle_resultD:
  assumes "build_lifecycle_result lib cfg e q reference = Inr j"
  obtains payload content where
    "result_payload lib cfg e q reference = Inr payload" "canonical_result_bytes payload = Inr content"
    "j = payload @ [(''content_sha256'', JStr (''sha256:'' @ sha256 lib content)), (''size_bytes'', json_nat (length content))]"
    "canonical_result_bytes j = Inr content"
    "get_or_null j ''content_sha256'' = JStr (''sha256:'' @ sha256 lib content)"
    "get_or_null j ''size_bytes'' = json_nat (length content)"
proof -
  obtain payload content where p: "result_payload lib cfg e q reference = Inr payload"
    and c: "canonical_result_bytes payload = Inr content"
    and j: "j = payload @ [(''content_sha256'', JStr (''sha256:'' @ sha256 lib content)), (''size_bytes'', json_nat (length content))]"
    using assms by (auto simp: build_lifecycle_result_def bindR_def split: sum.splits)
  have absent: "k \<notin> fst ` set payload" if "k \<in> set integrity_keys" for k using result_payload_keys [OF p that] .
  have "dict_without integrity_keys j = dict_without integrity_keys payload"
    unfolding j dict_without_append by (simp add: dict_without_def)
  then have "canonical_result_bytes j = Inr content" using c by (simp add: canonical_result_bytes_def)
  moreover have "get_or_null j ''content_sha256'' = JStr (''sha256:'' @ sha256 lib content)"
    "get_or_null j ''size_bytes'' = json_nat (length content)"
    unfolding j using absent by (simp_all add: get_or_null_append) (simp_all add: get_or_null_def get_def)
  ultimately show ?thesis using that p c j by blast
qed

text \<open>The free JSON of a result is that of its inference; all else is finite.\<close>

lemma finite_forms [simp]:
  "finite_json (json_nat n)" "finite_json (json_strs xs)"
  "finite_json (json_opt f x) = pred_option (\<lambda>a. finite_json (f a)) x"
  "list_all (\<lambda>(k, v). finite_json v) (json_of_opt k t)"
  by (simp_all add: json_nat_def json_strs_def json_opt_def json_of_opt_def list.pred_map o_def pred_option_def list.pred_True split: option.split)

lemma finite_dict_set:
  "list_all (\<lambda>(k, v). finite_json v) kvs \<Longrightarrow> finite_json j \<Longrightarrow> list_all (\<lambda>(k, v). finite_json v) (dict_set k j kvs)"
  by (induction k j kvs rule: dict_set.induct) auto

lemma finite_fold_dict_set:
  "list_all (\<lambda>(k, v). finite_json v) d \<Longrightarrow> (\<And>t. finite_json (g t)) \<Longrightarrow> list_all (\<lambda>(k, v). finite_json v) (fold (\<lambda>t. dict_set (f t) (g t)) ts d)"
  by (induction ts arbitrary: d) (simp_all add: finite_dict_set)

lemma finite_reference [simp]: "finite_json (serialize_reference r)"
  by (simp add: serialize_reference_def)

lemma finite_references [simp]:
  "finite_json (upstream_refs_json u)" "finite_json (upstream_input_json lib i)"
  "finite_json (request_id_json q)" "finite_json (correlation_id_json q)" "finite_json (provenance_json lib q)"
  by (simp_all add: upstream_refs_json_def upstream_input_json_def request_id_json_def correlation_id_json_def
      provenance_json_def list.pred_map o_def pred_option_def list.pred_True split: invocation_request.split)

lemma finite_artifacts [simp]:
  "finite_json (metadata_json c)" "finite_json (aggregate_artifact lib s c)" "finite_json (child_artifact lib b t)"
  "finite_json (primary_artifact lib c)" "finite_json (primary_candidate_json cfg rid reference aid c)"
  by (simp_all add: metadata_json_def candidate_metadata_json_def aggregate_artifact_def child_artifact_def primary_artifact_def
      primary_candidate_json_def Let_def pred_option_def split: option.split)

lemma published_artifacts_finite:
  assumes "published_artifacts lib cfg rid reference s = Inr (candidate, artifacts)"
  shows "finite_json candidate" and "finite_json (JObj artifacts)"
  using assms by (auto simp: published_artifacts_def bindR_eq_Inr finite_fold_dict_set split: if_splits option.splits)

lemma shared_fields_finite: "shared_fields s = Inr shared \<Longrightarrow> finite_json (JObj shared)"
  by (auto simp: shared_fields_def verification_json_def accounting_json_def mapping_json_def directive_json_def list_all_iff pred_option_def
      split: if_splits option.splits)

lemma result_payload_finite:
  assumes "result_payload lib cfg e q reference = Inr payload" and "finite_json (re_inference e)"
  shows "finite_json (JObj payload)"
proof -
  obtain candidate artifacts shared where
    parts: "published_artifacts lib cfg (re_result_id e) reference (re_structured e) = Inr (candidate, artifacts)"
      "shared_fields (re_structured e) = Inr shared"
    using assms(1) by (auto simp: result_payload_def Let_def bindR_eq_Inr)
  show ?thesis
    using assms published_artifacts_finite [OF parts(1)] shared_fields_finite [OF parts(2)]
    by (auto simp: result_payload_def Let_def parts outcome_reason_json_def)
qed

text \<open>A validated result has the parts its payload needs, but for the digest of a candidate that was not translated.\<close>

definition candidate_publishable :: "translation_result \<Rightarrow> bool" where
  "candidate_publishable s =
     (res_shared_version s \<longrightarrow> res_terminal_state s = Translated \<or> res_candidate s = None)"

lemma result_payload_succeeds:
  assumes "validate_v2_completeness (re_structured e) = Inr s" and "candidate_publishable (re_structured e)"
  shows "\<exists>payload. result_payload lib cfg e q reference = Inr payload"
proof -
  let ?s = "re_structured e"
  have "\<exists>shared. shared_fields ?s = Inr shared"
    using assms(1) by (auto simp: validate_v2_completeness_def shared_fields_def Let_def split: if_splits option.splits)
  moreover have "\<exists>x. published_artifacts lib cfg (re_result_id e) reference ?s = Inr x"
    using assms by (auto simp: validate_v2_completeness_def published_artifacts_def candidate_publishable_def Let_def bindR_eq_Inr
        split: if_splits option.splits)
  ultimately show ?thesis by (auto simp: result_payload_def Let_def)
qed

text \<open>Building fails only where a part of the result is missing or a number is not finite.\<close>

lemma build_succeeds:
  assumes "validate_v2_completeness (re_structured e) = Inr s" and "candidate_publishable (re_structured e)" and "finite_json (re_inference e)"
  shows "\<exists>j. build_lifecycle_result lib cfg e q reference = Inr j"
proof -
  obtain payload where payload: "result_payload lib cfg e q reference = Inr payload" using result_payload_succeeds [OF assms(1,2)] by blast
  have "dict_without integrity_keys payload = payload" by (rule dict_without_absent) (rule result_payload_keys [OF payload])
  then show ?thesis using payload result_payload_finite [OF payload assms(3)] by (simp add: build_lifecycle_result_def canonical_result_bytes_def json_dumps_def)
qed

lemma utf8_bytes_nonempty [simp]: "utf8_bytes c \<noteq> []"
  by (simp add: utf8_bytes_def Let_def)

lemma canonical_bytes_nonempty: "canonical_result_bytes kvs = Inr content \<Longrightarrow> content \<noteq> []"
  by (auto simp: canonical_result_bytes_def json_dumps_def bindR_def utf8_def split: if_splits)

section \<open>Dictionaries\<close>

lemma map_of_dict_set: "map_of (dict_set k v kvs) = (map_of kvs)(k \<mapsto> v)"
  by (induction k v kvs rule: dict_set.induct) auto

lemma fold_dict_set_other: "x \<notin> f ` set ts \<Longrightarrow> map_of (fold (\<lambda>t. dict_set (f t) (g t)) ts d) x = map_of d x"
  by (induction ts arbitrary: d) (auto simp: map_of_dict_set)

lemma fold_dict_set:
  "distinct (map f ts) \<Longrightarrow> t \<in> set ts \<Longrightarrow> map_of (fold (\<lambda>t. dict_set (f t) (g t)) ts d) (f t) = Some (g t)"
proof (induction ts arbitrary: d)
  case (Cons u ts)
  show ?case
  proof (cases "t = u")
    case True
    then show ?thesis using Cons.prems(1) fold_dict_set_other [of "f u" f ts g "dict_set (f u) (g u) d"] by (simp add: map_of_dict_set)
  next
    case False
    then show ?thesis using Cons by simp
  qed
qed simp

section \<open>Artifacts of a shared-contract result\<close>

lemma translated_v2D:
  assumes "validate_v2_completeness s = Inr s" and "res_shared_version s" and "res_terminal_state s = Translated"
  obtains c primary where "res_candidate s = Some c" "shared_waf_primary_artifact_id (content_hash (cand_artifact c)) = Inr primary"
    "distinct (map ta_artifact_id (res_target_artifacts s))"
    "\<And>m a. \<lbrakk>m \<in> set (res_mappings s); a \<in> set (tm_target_artifact_ids m)\<rbrakk> \<Longrightarrow> a = primary \<or> a \<in> ta_artifact_id ` set (res_target_artifacts s)"
    "\<And>d. d \<in> set (res_directives s) \<Longrightarrow> td_target_artifact_id d = primary \<or> td_target_artifact_id d \<in> ta_artifact_id ` set (res_target_artifacts s)"
proof -
  obtain c primary where "res_candidate s = Some c" "shared_waf_primary_artifact_id (content_hash (cand_artifact c)) = Inr primary"
    "\<exists>n. translated_output_complete n primary s"
    using assms by (auto simp: validate_v2_completeness_def Let_def bindR_eq_Inr split: if_splits option.splits)
  then show ?thesis by (intro that [of c primary]) (auto simp: translated_output_complete_def Let_def list_all_iff)
qed

lemma published_v2:
  assumes "res_shared_version s" and "res_candidate s = Some c"
    and "shared_waf_primary_artifact_id (content_hash (cand_artifact c)) = Inr primary"
  shows "published_artifacts lib cfg rid reference s =
    Inr (primary_candidate_json cfg rid reference (Some primary) c,
         fold (\<lambda>t. dict_set (ta_artifact_id t) (child_artifact lib True t)) (res_target_artifacts s) [(primary, aggregate_artifact lib s c)])"
  using assms by (simp add: published_artifacts_def)

end
