(* ===== verification/WorkerRun.thy ===== *)
theory WorkerRun
  imports WorkerStore LifecycleContract PublicationFacts
begin

text \<open>
  Executions of single threads: an attempt's program run on a list of outside inputs, as steps of
  the fleet, a bound on the calls of every program, and the execution of an attempt that nothing
  disturbs.
\<close>

section \<open>Running a thread\<close>

text \<open>An attempt's thread making the calls of a list of outside inputs, or fewer when it ends.\<close>

fun run_thread :: "external list \<Rightarrow> 'w attempt \<Rightarrow> 'w \<Rightarrow> 'w attempt \<times> 'w" where
  "run_thread [] a w = (a, w)"
| "run_thread (x # xs) a w =
     (case at_program a of
        Ended e \<Rightarrow> (a, w)
      | Call f \<Rightarrow> (case f x (at_abort a) w of (p, b, w') \<Rightarrow> run_thread xs (a\<lparr>at_program := p, at_abort := b\<rparr>) w'))"

lemma run_thread_steps:
  assumes "run_thread xs a w = (a', w')" and "i < length as" and "as ! i = a"
  shows "(fleet_step repo m lib others)\<^sup>*\<^sup>* \<lparr>fleet_store = w, fleet_attempts = as\<rparr> \<lparr>fleet_store = w', fleet_attempts = as[i := a']\<rparr>"
  using assms
proof (induction xs arbitrary: a w as)
  case Nil
  then show ?case by (simp add: list_update_same_conv [THEN iffD2])
next
  case (Cons x xs)
  show ?case
  proof (cases "at_program a")
    case (Ended e)
    then show ?thesis using Cons.prems by (simp add: list_update_same_conv [THEN iffD2])
  next
    case (Call f)
    obtain p b w1 where f: "f x (at_abort a) w = (p, b, w1)" by (cases "f x (at_abort a) w")
    let ?a = "a\<lparr>at_program := p, at_abort := b\<rparr>"
    have "fleet_step repo m lib others \<lparr>fleet_store = w, fleet_attempts = as\<rparr> \<lparr>fleet_store = w1, fleet_attempts = as[i := ?a]\<rparr>"
      using fleet_step.works [of i as f x w p b w1 repo m lib others] Cons.prems(2,3) Call f by simp
    moreover have "(fleet_step repo m lib others)\<^sup>*\<^sup>* \<lparr>fleet_store = w1, fleet_attempts = as[i := ?a]\<rparr>
        \<lparr>fleet_store = w', fleet_attempts = as[i := ?a, i := a']\<rparr>"
      using Cons.prems Call f by (intro Cons.IH) simp_all
    ultimately show ?thesis by (simp add: converse_rtranclp_into_rtranclp)
  qed
qed

section \<open>Bounded programs\<close>

text \<open>At most so many calls, whatever they are answered.\<close>

inductive bounded :: "nat \<Rightarrow> 'w program \<Rightarrow> bool" where
  ended: "bounded n (Ended e)"
| call: "(\<And>x b w. bounded n (fst (f x b w))) \<Longrightarrow> bounded (Suc n) (Call f)"

inductive_cases bounded_callE: "bounded n (Call f)"

lemma bounded_mono: "bounded n p \<Longrightarrow> n \<le> k \<Longrightarrow> bounded k p"
proof (induction arbitrary: k rule: bounded.induct)
  case (call n f)
  then show ?case by (cases k) (auto intro: bounded.call)
qed (rule bounded.ended)

lemma bounded_ends [simp]: "bounded n (raised e)" "bounded n returned"
  by (simp_all add: raised_def returned_def bounded.ended)

lemma bounded_if: "bounded n p \<Longrightarrow> bounded n (if b then returned else p)"
  by simp

lemma bounded_repository_call:
  assumes "\<And>e. bounded n (handle e)" and "\<And>x. bounded n (next_program x)"
  shows "bounded (Suc n) (repository_call handle f next_program)"
  unfolding repository_call_def
  by (rule bounded.call) (use assms in \<open>auto split: prod.split sum.split\<close>)

lemma bounded_abort:
  assumes "\<And>stop. bounded n (next_program stop)"
  shows "bounded (Suc (Suc n)) (abort_if_requested wk run next_program)"
  unfolding abort_if_requested_def
proof (rule bounded_repository_call)
  show "bounded (Suc n) (if \<not> owns_attempt wk run current then set_abort (next_program True)
      else if run_publication_state (the current) = PubPending then next_program False
      else if run_cancel_requested (the current)
      then repository_call raised (fail_run (repository wk) (run_id_of run) (worker_id wk) (run_attempt_number run) canceled_failure None)
             (\<lambda>_. next_program True)
      else abort_is_set next_program)" for current
    using assms bounded_mono [OF assms, of "Suc n"]
    by (auto simp: set_abort_def abort_is_set_def intro: bounded.call bounded_repository_call)
qed simp

lemma bounded_publish: "bounded 5 (publish_staged wk run st)"
proof -
  let ?complete = "repository_call raised (complete_run (repository wk) (run_id_of run) (worker_id wk) (run_attempt_number run)
    (p_result (staged_output st)) (p_completion (staged_output st)) (p_result_id (staged_output st)) (p_terminal_state (staged_output st))) (\<lambda>_. returned)"
  let ?save = "repository_call raised (save_run (repository wk) (staged_request st) (p_result_envelope (staged_output st))
    (p_request_hash (staged_output st)) (p_started_at (staged_output st)) (p_result (staged_output st))) (\<lambda>_. ?complete)"
  have "bounded 2 ?save" unfolding numeral_2_eq_2 by (intro bounded_repository_call) simp_all
  then have begun: "bounded 3 (repository_call raised (begin_publication (repository wk) (run_id_of run) (worker_id wk) (run_attempt_number run))
      (\<lambda>begun. if \<not> begun then returned else ?save))"
    unfolding numeral_3_eq_3 numeral_2_eq_2 by (intro bounded_repository_call) simp_all
  then have "bounded (Suc (Suc 3)) (abort_if_requested wk run (\<lambda>stop. if stop then returned else
      repository_call raised (begin_publication (repository wk) (run_id_of run) (worker_id wk) (run_attempt_number run))
        (\<lambda>begun. if \<not> begun then returned else ?save)))"
    by (intro bounded_abort) simp
  then show ?thesis using bounded_mono [OF begun, of 5] unfolding publish_staged_def Let_def by (simp add: eval_nat_numeral)
qed

lemma bounded_stage: "bounded 10 (stage_envelope wk run e)"
proof -
  have read: "bounded (Suc 5) (repository_call raised (reading (prepared_of (repository wk) (run_id_of run))) (\<lambda>prepared.
      case prepared of None \<Rightarrow> raised (StoreError (PersistenceError ''Prepared result publication could not be read.''))
      | Some st \<Rightarrow> publish_staged wk run st))"
    using bounded_publish by (intro bounded_repository_call) (auto split: option.split)
  have "bounded (Suc (Suc (Suc (Suc 5)))) (stage_output wk run p)" for p
    unfolding stage_output_def by (intro bounded_abort bounded_if bounded_repository_call read bounded_ends)
  then have "bounded (Suc 9) (stage_envelope wk run e)"
    unfolding stage_envelope_def by (intro bounded.call) (simp add: eval_nat_numeral split: sum.split)
  then show ?thesis by (simp add: eval_nat_numeral)
qed

lemma bounded_process: "bounded 17 (process wk run)"
proof -
  have "bounded (Suc (Suc (Suc 10))) (generate wk run)"
  proof -
    have "bounded (Suc (Suc 10)) (abort_if_requested wk run (\<lambda>stop. if stop then returned else stage_envelope wk run e))" for e
      by (intro bounded_abort bounded_if bounded_stage)
    then show ?thesis unfolding generate_def by (intro bounded.call) (auto split: sum.split)
  qed
  then have "bounded (Suc 13) (repository_call raised (reading (envelope_of (repository wk) (run_id_of run))) (\<lambda>existing.
      case existing of None \<Rightarrow> generate wk run | Some e \<Rightarrow> stage_envelope wk run e))"
    using bounded_mono [OF bounded_stage, of 13]
    by (intro bounded_repository_call) (auto simp: eval_nat_numeral split: option.split)
  then have "bounded (Suc (Suc (Suc 13))) (abort_if_requested wk run (\<lambda>stop. if stop then returned else
      repository_call raised (reading (envelope_of (repository wk) (run_id_of run))) (\<lambda>existing.
        case existing of None \<Rightarrow> generate wk run | Some e \<Rightarrow> stage_envelope wk run e)))"
    by (intro bounded_abort) simp
  then have "bounded (Suc (Suc (Suc (Suc 13)))) (process wk run)"
    unfolding process_def using bounded_mono [OF bounded_publish, of "Suc (Suc (Suc 13))"]
    by (intro bounded_repository_call) (auto split: option.split)
  then show ?thesis by (simp add: eval_nat_numeral)
qed

text \<open>A thread with at least that many inputs ends.\<close>

lemma bounded_thread_ends:
  "bounded n (at_program a) \<Longrightarrow> n \<le> length xs \<Longrightarrow> \<exists>e. at_program (fst (run_thread xs a w)) = Ended e"
proof (induction xs arbitrary: n a w)
  case Nil
  then show ?case by (auto elim: bounded.cases)
next
  case (Cons x xs)
  show ?case
  proof (cases "at_program a")
    case (Call f)
    obtain p b w' where f: "f x (at_abort a) w = (p, b, w')" by (cases "f x (at_abort a) w")
    from Cons.prems(1) Call obtain k where k: "n = Suc k" "bounded k (fst (f x (at_abort a) w))" by (auto elim: bounded_callE)
    then show ?thesis using Cons.IH [of k "a\<lparr>at_program := p, at_abort := b\<rparr>" w'] Cons.prems(2) Call f by simp
  qed simp
qed

section \<open>Undisturbed execution\<close>

text \<open>
  \<open>leads good n p w Q\<close>: with inputs that are good, and the abort event unset, the program makes
  \<open>n\<close> calls, and \<open>Q\<close> holds of what is left of it and of the store.
\<close>

primrec leads :: "(external \<Rightarrow> bool) \<Rightarrow> nat \<Rightarrow> 'w program \<Rightarrow> 'w \<Rightarrow> ('w program \<Rightarrow> 'w \<Rightarrow> bool) \<Rightarrow> bool" where
  "leads good 0 p w Q = Q p w"
| "leads good (Suc n) p w Q =
     (case p of Ended e \<Rightarrow> False
      | Call f \<Rightarrow> \<forall>x. good x \<longrightarrow> (case f x False w of (p', b, w') \<Rightarrow> \<not> b \<and> leads good n p' w' Q))"

lemma leads_thread:
  assumes "leads good n (at_program a) w Q" and "\<not> at_abort a" and "length xs = n" and "\<forall>x \<in> set xs. good x"
  shows "Q (at_program (fst (run_thread xs a w))) (snd (run_thread xs a w))"
  using assms
proof (induction xs arbitrary: n a w)
  case (Cons x xs)
  then obtain k f where k: "n = Suc k" "at_program a = Call f" by (cases n) (auto split: program.splits)
  then obtain p w' where f: "f x False w = (p, False, w')" "leads good k p w' Q"
    using Cons.prems(1,4) by (cases "f x False w") auto
  then have "Q (at_program (fst (run_thread xs (a\<lparr>at_program := p, at_abort := False\<rparr>) w')))
      (snd (run_thread xs (a\<lparr>at_program := p, at_abort := False\<rparr>) w'))"
    using Cons.prems k by (intro Cons.IH [of k]) simp_all
  then show ?case using Cons.prems(2) k f by simp
qed simp

lemma leads_call:
  assumes "\<And>x. good x \<Longrightarrow> \<not> storage_fails x"
    and "\<And>x. good x \<Longrightarrow> \<exists>v w'. f (clock x) w = (Inr v, w') \<and> leads good n (next_program v) w' Q"
  shows "leads good (Suc n) (repository_call handle f next_program) w Q"
  using assms by (fastforce simp: repository_call_def)

lemma leads_local:
  assumes "\<And>x. good x \<Longrightarrow> f x False w = (p, False, w)" and "leads good n p w Q"
  shows "leads good (Suc n) (Call f) w Q"
  using assms by simp

lemma leads_each:
  assumes "\<And>x. good x \<Longrightarrow> f x False w = (next_program x, False, w)" and "\<And>x. good x \<Longrightarrow> leads good n (next_program x) w Q"
  shows "leads good (Suc n) (Call f) w Q"
  using assms by simp

lemma leads_reading:
  assumes "\<And>x. good x \<Longrightarrow> \<not> storage_fails x" and "f w = Inr v" and "leads good n (next_program v) w Q"
  shows "leads good (Suc n) (repository_call handle (reading f) next_program) w Q"
  by (rule leads_call) (use assms in \<open>auto simp: reading_def\<close>)

text \<open>
  A world in which an attempt holds its run, uncancelled, at a stage of publication, with a lease
  that lasts through the instants \<open>T\<close>, and no run has its result id.
\<close>

definition holding :: "nat \<Rightarrow> nat set \<Rightarrow> string \<Rightarrow> lifecycle_run \<Rightarrow> publication_state \<Rightarrow> prepared_publication option \<Rightarrow> world \<Rightarrow> bool" where
  "holding m T wid run st p w =
     (database_ok m (w_runs w)
      \<and> (\<exists>r. get_row (run_id_of run) (w_runs w) = Some r \<and> holds (run_id_of run) wid (run_attempt_number run) r
           \<and> \<not> l_cancel_requested r \<and> l_publication_state r = st \<and> l_prepared r = p \<and> l_request_json r = run_request run
           \<and> (\<forall>t \<in> T. reaches (l_lease_expires_at r) t))
      \<and> (\<forall>s \<in> set (lifecycle_rows (w_runs w)). l_result_id s \<noteq> Some (run_result_id run)))"

lemma holding_results [simp]: "holding m T wid run st p (w\<lparr>w_results := x\<rparr>) = holding m T wid run st p w"
  by (simp add: holding_def)

lemma leads_abort:
  assumes "holding m T (worker_id wk) run st p w" and "repository wk = sqlite_repository" and "st \<noteq> PubPending"
    and "\<And>x. good x \<Longrightarrow> \<not> storage_fails x" and "leads good n (next_program False) w Q"
  shows "leads good (Suc (Suc n)) (abort_if_requested wk run next_program) w Q"
proof -
  obtain r where r: "get_row (run_id_of run) (w_runs w) = Some r" "holds (run_id_of run) (worker_id wk) (run_attempt_number run) r"
    "\<not> l_cancel_requested r" "l_publication_state r = st"
    using assms(1) unfolding holding_def by blast
  let ?c = "lifecycle_from_row r"
  have "owns_attempt wk run (Some ?c)" "run_publication_state ?c = st" "\<not> run_cancel_requested ?c"
    using r by (simp_all add: owns_attempt_def holds_def lifecycle_from_row_def Let_def)
  then have "leads good (Suc n) (if \<not> owns_attempt wk run (Some ?c) then set_abort (next_program True)
       else if run_publication_state (the (Some ?c)) = PubPending then next_program False
       else if run_cancel_requested (the (Some ?c))
       then repository_call raised (fail_run (repository wk) (run_id_of run) (worker_id wk) (run_attempt_number run) canceled_failure None)
              (\<lambda>_. next_program True)
       else abort_is_set next_program) w Q"
    using assms(3,5) by (simp add: abort_is_set_def)
  then show ?thesis unfolding abort_if_requested_def
    by (intro leads_reading [of good _ _ "Some ?c"])
      (use assms(2,4) r in \<open>simp_all add: sqlite_repository_def get_lifecycle_run_def\<close>)
qed

lemma leads_unless_aborted:
  assumes "holding m T (worker_id wk) run st p w" and "repository wk = sqlite_repository" and "st \<noteq> PubPending"
    and "\<And>x. good x \<Longrightarrow> \<not> storage_fails x" and "leads good n next_program w Q"
  shows "leads good (Suc (Suc n)) (abort_if_requested wk run (\<lambda>stop. if stop then returned else next_program)) w Q"
  by (rule leads_abort [OF assms(1,2,3)]) (simp_all add: assms(4,5))

text \<open>The store's answers to an attempt that holds its run.\<close>

lemma holding_update:
  assumes "holding m T wid run st p w" and "store_step m (w_runs w) (update_rows P f (w_runs w))"
    and "\<And>r. l_run_id (f r) = l_run_id r" and "\<And>r. l_result_id (f r) = l_result_id r"
    and "\<And>r. \<lbrakk>holds (run_id_of run) wid (run_attempt_number run) r; \<not> l_cancel_requested r; l_publication_state r = st;
           \<forall>t \<in> T. reaches (l_lease_expires_at r) t\<rbrakk> \<Longrightarrow> P r \<and> holds (run_id_of run) wid (run_attempt_number run) (f r)
             \<and> \<not> l_cancel_requested (f r) \<and> l_publication_state (f r) = st' \<and> l_prepared (f r) = (if q = None then l_prepared r else q)
             \<and> l_request_json (f r) = l_request_json r \<and> l_lease_expires_at (f r) = l_lease_expires_at r"
  shows "holding m T wid run st' (if q = None then p else q) (w\<lparr>w_runs := update_rows P f (w_runs w)\<rparr>)"
proof -
  obtain r where r: "get_row (run_id_of run) (w_runs w) = Some r" "holds (run_id_of run) wid (run_attempt_number run) r"
    "\<not> l_cancel_requested r" "l_publication_state r = st" "l_prepared r = p" "l_request_json r = run_request run"
    "\<forall>t \<in> T. reaches (l_lease_expires_at r) t"
    using assms(1) unfolding holding_def by blast
  have row: "get_row (run_id_of run) (update_rows P f (w_runs w)) = Some (if P r then f r else r)"
    using get_row_update [of f "run_id_of run" P "w_runs w", OF assms(3)] r(1) by simp
  have "database_ok m (update_rows P f (w_runs w))" using store_step_ok [OF assms(2)] assms(1) by (simp add: holding_def)
  moreover have "\<forall>s \<in> set (lifecycle_rows (update_rows P f (w_runs w))). l_result_id s \<noteq> Some (run_result_id run)"
    using assms(1,4) by (auto simp: holding_def)
  ultimately show ?thesis using row assms(5) [OF r(2-4,7)] r unfolding holding_def by simp
qed

lemma prepare_answer:
  assumes "holding m T wid run PubNone None w" and "t \<in> T"
  shows "\<exists>w'. prepare_publication sqlite_repository (run_id_of run) wid (run_attempt_number run) p t w = (Inr True, w')
    \<and> holding m T wid run PubPrepared (Some p) w' \<and> w_results w' = w_results w"
proof -
  let ?P = "prepare_guard t (run_id_of run) wid (run_attempt_number run)"
  let ?f = "\<lambda>r. r\<lparr>l_publication_state := PubPrepared, l_prepared := Some p, l_progress_phase := ''publishing'',
               l_progress_message := ''Result is prepared for durable publication.'', l_updated_at := t\<rparr>"
  obtain r where r: "get_row (run_id_of run) (w_runs w) = Some r" "?P r" and ok: "owing {} m (w_runs w)"
    using assms by (auto simp: holding_def prepare_guard_def database_ok_def)
  have "row_count ?P (w_runs w) = 1"
    using row_count_one [OF owingD(2) [OF ok], of ?P "run_id_of run"] r by (simp add: prepare_guard_def holds_def)
  moreover have "holding m T wid run PubPrepared (if Some p = None then None else Some p) (w\<lparr>w_runs := update_rows ?P ?f (w_runs w)\<rparr>)"
    by (rule holding_update [OF assms(1)])
      (use store_step.prepare [of m "w_runs w" t "run_id_of run" wid "run_attempt_number run" p] assms(2)
        in \<open>simp_all add: prepare_lifecycle_publication_def prepare_guard_def holds_def\<close>)
  ultimately show ?thesis by (simp add: sqlite_repository_def on_runs_def prepare_lifecycle_publication_def)
qed

lemma begin_answer:
  assumes "holding m T wid run PubPrepared p w" and "t \<in> T"
  shows "\<exists>w'. begin_publication sqlite_repository (run_id_of run) wid (run_attempt_number run) t w = (Inr True, w')
    \<and> holding m T wid run PubPending p w' \<and> w_results w' = w_results w"
proof -
  let ?P = "begin_guard t (run_id_of run) wid (run_attempt_number run)"
  let ?f = "\<lambda>r. r\<lparr>l_publication_state := PubPending, l_updated_at := t, l_progress_message := ''Result publication is pending verification.''\<rparr>"
  obtain r where r: "get_row (run_id_of run) (w_runs w) = Some r" "?P r" and ok: "owing {} m (w_runs w)"
    using assms by (auto simp: holding_def begin_guard_def database_ok_def)
  have one: "row_count ?P (w_runs w) = 1"
    using row_count_one [OF owingD(2) [OF ok], of ?P "run_id_of run"] r by (simp add: begin_guard_def holds_def)
  moreover have "holding m T wid run PubPending (if None = (None :: prepared_publication option) then p else None) (w\<lparr>w_runs := update_rows ?P ?f (w_runs w)\<rparr>)"
    by (rule holding_update [OF assms(1)])
      (use store_step.begin_publication [of m "w_runs w" t "run_id_of run" wid "run_attempt_number run"] assms(2) one
        in \<open>simp_all add: begin_lifecycle_publication_def begin_guard_def holds_def\<close>)
  ultimately show ?thesis by (simp add: sqlite_repository_def on_runs_def begin_lifecycle_publication_def)
qed

lemma running_no_result:
  assumes "row_ok m r" and "l_status r = Running"
  shows "l_result_json r = None"
  using assms unfolding row_ok_def status_ok_def assms(2) no_outcome_def by simp

lemma complete_answer:
  assumes "holding m T wid run PubPending p w" and "t \<in> T"
  shows "\<exists>w' r. complete_run sqlite_repository (run_id_of run) wid (run_attempt_number run) res completion (run_result_id run) terminal t w
      = (Inr True, w')
    \<and> get_row (run_id_of run) (w_runs w') = Some r \<and> l_status r = Completed \<and> l_publication_state r = PubPublished
    \<and> l_result_json r = Some res \<and> l_result_id r = Some (run_result_id run) \<and> w_results w' = w_results w"
proof -
  have ok: "owing {} m (w_runs w)" using assms(1) by (simp add: holding_def database_ok_def)
  obtain r where r: "get_row (run_id_of run) (w_runs w) = Some r" "l_publication_state r = PubPending"
      "holds (run_id_of run) wid (run_attempt_number run) r" "reaches (l_lease_expires_at r) t"
    using assms unfolding holding_def by blast
  have "row_ok m r" using owingD(1) [OF ok] get_rowD [OF r(1)] by blast
  then have "l_result_json r = None" using r(3) running_no_result by (simp add: holds_def)
  then have guard: "complete_guard t (run_id_of run) wid (run_attempt_number run) r" using r by (simp add: complete_guard_def)
  obtain db where "complete_lifecycle_run t (run_id_of run) wid (run_attempt_number run) res completion (run_result_id run) terminal (w_runs w) = (Inr True, db)"
    "get_row (run_id_of run) db = Some (complete_row t res completion (run_result_id run) terminal r)"
    using complete_succeeds [OF ok r(1) guard] assms(1) unfolding holding_def by blast
  then show ?thesis using r(2) by (simp add: sqlite_repository_def complete_row_def terminalize_def)
qed

text \<open>No saved run has the identities or the idempotency key of a run.\<close>

definition fresh_results :: "lifecycle_run \<Rightarrow> world \<Rightarrow> bool" where
  "fresh_results run w =
     (\<forall>c \<in> set (completed_rows (w_results w)). c_run_id c \<noteq> run_id_of run \<and> c_result_id c \<noteq> run_result_id run
        \<and> (stored_key (run_request run) \<noteq> None \<longrightarrow> c_idempotency_key c \<noteq> stored_key (run_request run)))"

lemma fresh_unsaved: "fresh_results run w \<Longrightarrow> get_run (run_id_of run) (w_results w) = None"
  by (auto simp: fresh_results_def get_run_def get_result_envelope_def find_None_iff Option.bind_eq_None_conv)

lemma save_answer:
  assumes "fresh_results run w" and "results_ok (w_results w)" and "re_run_id e = run_id_of run" and "re_result_id e = run_result_id run"
  shows "\<exists>w'. save_run sqlite_repository (run_request run) e h s res t w = (Inr (), w') \<and> w_runs w' = w_runs w
    \<and> get_run (run_id_of run) (w_results w') = Some e"
proof -
  let ?db = "snd (insert_completed_run (run_request run) e h s t (w_results w))"
  have ins: "insert_completed_run (run_request run) e h s t (w_results w) = (Inr (), ?db)"
    using assms(1,3,4) by (auto simp: insert_completed_run_def completed_row_of_def fresh_results_def Let_def list_ex_iff)
  then have "save_completed_run (run_request run) e h s t (w_results w) = (Inr (), ?db)"
    using fresh_unsaved [OF assms(1)] assms(3) by (simp add: save_completed_run_def)
  moreover have "get_run (run_id_of run) ?db = Some e" using insert_reads(1) [OF assms(2) ins] assms(3) by simp
  ultimately show ?thesis by (simp add: sqlite_repository_def)
qed

text \<open>The staged output of a run carries the run's result id.\<close>

lemma staged_output_fields:
  assumes "staged_output_of wk run t e = Inr p"
  shows "p_result_envelope p = e" and "p_result_id p = re_result_id e"
  using assms by (auto simp: staged_output_of_def Let_def split: sum.splits if_splits)

text \<open>The output of a valid envelope can be built: the digest that is stated has the form the completion wants.\<close>

lemma staged_output_ok:
  assumes "validate_v2_completeness (re_structured e) = Inr s" and "candidate_publishable (re_structured e)" and "finite_json (re_inference e)"
    and "result_reference_of wk (re_result_id e) = Inr reference" and "\<And>bs. sha256_pattern (''sha256:'' @ sha256 (worker_library wk) bs)"
  shows "\<exists>p. staged_output_of wk run t e = Inr p"
proof -
  obtain j where j: "build_lifecycle_result (worker_library wk) (worker_settings wk) e (run_request run) (Some reference) = Inr j"
    using build_succeeds [OF assms(1-3)] by blast
  then have "canonical_completion_ok (completion_of run e reference j)"
  proof (rule build_lifecycle_resultD)
    fix content payload
    assume "canonical_result_bytes j = Inr content"
      and "get_or_null j ''content_sha256'' = JStr (''sha256:'' @ sha256 (worker_library wk) content)"
      and "get_or_null j ''size_bytes'' = json_nat (length content)"
    then show ?thesis using assms(5) [of content] canonical_bytes_nonempty [of j content]
      by (simp add: canonical_completion_ok_def completion_of_def json_nat_def Suc_le_eq)
  qed
  then show ?thesis using j assms(4) by (simp add: staged_output_of_def Let_def)
qed

section \<open>The whole attempt\<close>

definition published :: "lifecycle_run \<Rightarrow> result_envelope \<Rightarrow> world \<Rightarrow> bool" where
  "published run e w =
     (get_run (run_id_of run) (w_results w) = Some e
      \<and> (\<exists>r. get_row (run_id_of run) (w_runs w) = Some r \<and> l_status r = Completed \<and> l_publication_state r = PubPublished
             \<and> l_result_id r = Some (run_result_id run) \<and> l_result_json r \<noteq> None))"

text \<open>
  Nothing disturbs an attempt: its repository is the SQLite one, the calls happen at the instants
  \<open>T\<close> without storage errors, the capability returns an envelope that is valid under the run's
  identities, and its output can be built at those instants.
\<close>

definition undisturbed :: "nat set \<Rightarrow> world worker \<Rightarrow> lifecycle_run \<Rightarrow> result_envelope \<Rightarrow> result_envelope \<Rightarrow> (external \<Rightarrow> bool) \<Rightarrow> bool" where
  "undisturbed T wk run generated e good =
     (repository wk = sqlite_repository
      \<and> (\<forall>x. good x \<longrightarrow> \<not> storage_fails x \<and> clock x \<in> T \<and> invocation x = Inr generated)
      \<and> validate_result_envelope (rebound_envelope run generated) = Inr e
      \<and> (\<forall>t \<in> T. \<exists>p. staged_output_of wk run t e = Inr p))"

lemma undisturbedD:
  assumes "undisturbed T wk run generated e good"
  shows undisturbed_repo: "repository wk = sqlite_repository"
    and undisturbed_calls: "good x \<Longrightarrow> \<not> storage_fails x" "good x \<Longrightarrow> clock x \<in> T" "good x \<Longrightarrow> invocation x = Inr generated"
    and undisturbed_valid: "validate_result_envelope (rebound_envelope run generated) = Inr e"
    and undisturbed_builds: "t \<in> T \<Longrightarrow> \<exists>p. staged_output_of wk run t e = Inr p"
    and undisturbed_envelope: "re_run_id e = run_id_of run" "re_result_id e = run_result_id run"
  using assms by (auto simp: undisturbed_def validate_result_envelope_def bindR_def rebound_envelope_def split: sum.splits)

abbreviation "finished run e \<equiv> \<lambda>p w. p = returned \<and> published run e w"

lemma complete_leads:
  assumes u: "undisturbed T wk run generated e good" and h: "holding m T (worker_id wk) run PubPending (Some p) w" and saved: "get_run (run_id_of run) (w_results w) = Some e"
  shows "leads good 1 (repository_call raised (complete_run sqlite_repository (run_id_of run) (worker_id wk) (run_attempt_number run)
           res completion (run_result_id run) terminal) (\<lambda>_. returned)) w (finished run e)"
  unfolding One_nat_def
proof (rule leads_call [OF undisturbed_calls(1) [OF u]])
  fix x assume "good x"
  from complete_answer [OF h undisturbed_calls(2) [OF u this], of res completion terminal]
  show "\<exists>v w'. complete_run sqlite_repository (run_id_of run) (worker_id wk) (run_attempt_number run) res completion
      (run_result_id run) terminal (clock x) w = (Inr v, w') \<and> leads good 0 returned w' (finished run e)"
    using saved unfolding published_def by fastforce
qed

lemma publish_leads:
  assumes u: "undisturbed T wk run generated e good" and h: "holding m T (worker_id wk) run PubPrepared (Some p) w" and res: "results_ok (w_results w)" "fresh_results run w"
    and p: "p_result_envelope p = e" "p_result_id p = run_result_id run"
  shows "leads good (Suc (Suc (Suc (Suc 1)))) (publish_staged wk run \<lparr>staged_request = run_request run, staged_output = p, staged_state = PubPrepared\<rparr>) w (finished run e)"
proof -
  let ?complete = "repository_call raised (complete_run sqlite_repository (run_id_of run) (worker_id wk) (run_attempt_number run)
     (p_result p) (p_completion p) (run_result_id run) (p_terminal_state p)) (\<lambda>_. returned)"
  let ?save = "repository_call raised (save_run sqlite_repository (run_request run) e (p_request_hash p) (p_started_at p) (p_result p)) (\<lambda>_. ?complete)"
  have save: "leads good (Suc 1) ?save w1 (finished run e)"
    if h1: "holding m T (worker_id wk) run PubPending (Some p) w1" and "w_results w1 = w_results w" for w1
  proof (rule leads_call [OF undisturbed_calls(1) [OF u]])
    fix x assume "good x"
    have "fresh_results run w1" "results_ok (w_results w1)" using that(2) res by (simp_all add: fresh_results_def)
    from save_answer [OF this undisturbed_envelope [OF u]]
    obtain w2 where w2: "save_run sqlite_repository (run_request run) e (p_request_hash p) (p_started_at p) (p_result p) (clock x) w1 = (Inr (), w2)"
      "w_runs w2 = w_runs w1" "get_run (run_id_of run) (w_results w2) = Some e" by blast
    then have "holding m T (worker_id wk) run PubPending (Some p) w2" using h1 by (simp add: holding_def)
    then show "\<exists>v w'. save_run sqlite_repository (run_request run) e (p_request_hash p) (p_started_at p) (p_result p) (clock x) w1
        = (Inr v, w') \<and> leads good 1 ?complete w' (finished run e)"
      using w2 complete_leads [OF u] by blast
  qed
  have begun: "leads good (Suc (Suc 1)) (repository_call raised (begin_publication sqlite_repository (run_id_of run) (worker_id wk) (run_attempt_number run))
      (\<lambda>begun. if \<not> begun then returned else ?save)) w (finished run e)"
  proof (rule leads_call [OF undisturbed_calls(1) [OF u]])
    fix x assume "good x"
    from begin_answer [OF h undisturbed_calls(2) [OF u this]]
    show "\<exists>v w'. begin_publication sqlite_repository (run_id_of run) (worker_id wk) (run_attempt_number run) (clock x) w = (Inr v, w')
        \<and> leads good (Suc 1) (if \<not> v then returned else ?save) w' (finished run e)"
      using save by fastforce
  qed
  have program: "publish_staged wk run \<lparr>staged_request = run_request run, staged_output = p, staged_state = PubPrepared\<rparr> =
    abort_if_requested wk run (\<lambda>stop. if stop then returned
      else repository_call raised (begin_publication sqlite_repository (run_id_of run) (worker_id wk) (run_attempt_number run))
        (\<lambda>begun. if \<not> begun then returned else ?save))"
    by (simp add: publish_staged_def Let_def p undisturbed_repo [OF u] cong: if_cong)
  show ?thesis unfolding program
    by (rule leads_unless_aborted [OF h undisturbed_repo [OF u] _ undisturbed_calls(1) [OF u] begun]) simp
qed

text \<open>What \<^verbatim>\<open>get_prepared_publication\<close> returns to the attempt.\<close>

lemma prepared_answers:
  "holding m T wid run PubNone None w \<Longrightarrow> prepared_of sqlite_repository (run_id_of run) w = Inr None"
  "holding m T wid run PubPrepared (Some p) w \<Longrightarrow> prepared_of sqlite_repository (run_id_of run) w
     = Inr (Some \<lparr>staged_request = run_request run, staged_output = p, staged_state = PubPrepared\<rparr>)"
  by (auto simp: holding_def sqlite_repository_def get_prepared_publication_def)

lemma stage_leads:
  assumes u: "undisturbed T wk run generated e good" and h: "holding m T (worker_id wk) run PubNone None w" and res: "results_ok (w_results w)" "fresh_results run w"
  shows "leads good (Suc (Suc (Suc (Suc (Suc (Suc (Suc (Suc (Suc 1))))))))) (stage_envelope wk run e) w (finished run e)"
proof -
  let ?read = "repository_call raised (reading (prepared_of sqlite_repository (run_id_of run))) (\<lambda>prepared.
      case prepared of None \<Rightarrow> raised (StoreError (PersistenceError ''Prepared result publication could not be read.''))
      | Some st \<Rightarrow> publish_staged wk run st)"
  have stage: "leads good (Suc (Suc (Suc (Suc (Suc (Suc (Suc (Suc 1)))))))) (stage_output wk run p) w (finished run e)"
    if p: "p_result_envelope p = e" "p_result_id p = run_result_id run" for p
  proof -
    have read: "leads good (Suc (Suc (Suc (Suc (Suc 1))))) ?read w1 (finished run e)"
      if h1: "holding m T (worker_id wk) run PubPrepared (Some p) w1" and "w_results w1 = w_results w" for w1
    proof (rule leads_reading [OF undisturbed_calls(1) [OF u]])
      have "results_ok (w_results w1)" "fresh_results run w1" using that(2) res by (simp_all add: fresh_results_def)
      from publish_leads [OF u h1 this p]
      show "leads good (Suc (Suc (Suc (Suc 1)))) (case Some \<lparr>staged_request = run_request run, staged_output = p, staged_state = PubPrepared\<rparr> of
          None \<Rightarrow> raised (StoreError (PersistenceError ''Prepared result publication could not be read.''))
        | Some st \<Rightarrow> publish_staged wk run st) w1 (finished run e)" unfolding option.case .
    qed (assumption, rule prepared_answers(2) [OF h1])
    have prepared: "leads good (Suc (Suc (Suc (Suc (Suc (Suc 1))))))
        (repository_call raised (prepare_publication sqlite_repository (run_id_of run) (worker_id wk) (run_attempt_number run) p)
           (\<lambda>staged. if \<not> staged then returned else ?read)) w (finished run e)"
    proof (rule leads_call [OF undisturbed_calls(1) [OF u]])
      fix x assume "good x"
      from prepare_answer [OF h undisturbed_calls(2) [OF u this], of p]
      show "\<exists>v w'. prepare_publication sqlite_repository (run_id_of run) (worker_id wk) (run_attempt_number run) p (clock x) w = (Inr v, w')
          \<and> leads good (Suc (Suc (Suc (Suc (Suc 1))))) (if \<not> v then returned else ?read) w' (finished run e)"
        using read by fastforce
    qed
    show ?thesis unfolding stage_output_def undisturbed_repo [OF u]
      by (rule leads_unless_aborted [OF h undisturbed_repo [OF u] _ undisturbed_calls(1) [OF u] prepared]) simp
  qed
  have "leads good (Suc (Suc (Suc (Suc (Suc (Suc (Suc (Suc 1))))))))
      (case staged_output_of wk run (clock x) e of Inl name \<Rightarrow> raised (OtherError name) | Inr p \<Rightarrow> stage_output wk run p) w (finished run e)"
    if "good x" for x
  proof -
    have "clock x \<in> T" using undisturbed_calls(2) [OF u] that by blast
    then obtain p where p: "staged_output_of wk run (clock x) e = Inr p" using undisturbed_builds [OF u] by blast
    have "leads good (Suc (Suc (Suc (Suc (Suc (Suc (Suc (Suc 1)))))))) (stage_output wk run p) w (finished run e)"
      by (rule stage) (use staged_output_fields [OF p] undisturbed_envelope(2) [OF u] in simp_all)
    then show ?thesis unfolding p sum.case .
  qed
  then show ?thesis unfolding stage_envelope_def by (rule leads_each [rotated]) (assumption, rule refl)
qed

lemma process_leads:
  assumes u: "undisturbed T wk run generated e good" and h: "holding m T (worker_id wk) run PubNone None w" and res: "results_ok (w_results w)" "fresh_results run w"
  shows "leads good (Suc (Suc (Suc (Suc (Suc (Suc (Suc (Suc (Suc (Suc (Suc (Suc (Suc (Suc (Suc (Suc 1)))))))))))))))) (process wk run) w (finished run e)"
proof -
  let ?n = "Suc (Suc (Suc (Suc (Suc (Suc (Suc (Suc (Suc 1))))))))"
  let ?generated = "abort_if_requested wk run (\<lambda>stop. if stop then returned else stage_envelope wk run e)"
  let ?existing = "repository_call raised (reading (envelope_of sqlite_repository (run_id_of run))) (\<lambda>existing.
      case existing of None \<Rightarrow> generate wk run | Some e \<Rightarrow> stage_envelope wk run e)"
  have "leads good (Suc (Suc ?n)) ?generated w (finished run e)"
    by (rule leads_unless_aborted [OF h undisturbed_repo [OF u] _ undisturbed_calls(1) [OF u] stage_leads [OF assms]]) simp
  then have generate: "leads good (Suc (Suc (Suc ?n))) (generate wk run) w (finished run e)"
    unfolding generate_def by (rule leads_local [rotated]) (use undisturbed_calls(3) [OF u] undisturbed_valid [OF u] in simp)
  have existing: "leads good (Suc (Suc (Suc (Suc ?n)))) ?existing w (finished run e)"
  proof (rule leads_reading [OF undisturbed_calls(1) [OF u]])
    show "envelope_of sqlite_repository (run_id_of run) w = Inr None"
      using fresh_unsaved [OF res(2)] by (simp add: sqlite_repository_def)
    show "leads good (Suc (Suc (Suc ?n))) (case None of None \<Rightarrow> generate wk run | Some e \<Rightarrow> stage_envelope wk run e) w (finished run e)"
      unfolding option.case by (rule generate)
  qed
  have unless: "leads good (Suc (Suc (Suc (Suc (Suc (Suc ?n)))))) (abort_if_requested wk run (\<lambda>stop. if stop then returned else ?existing)) w (finished run e)"
    by (rule leads_unless_aborted [OF h undisturbed_repo [OF u] _ undisturbed_calls(1) [OF u] existing]) simp
  show ?thesis unfolding process_def undisturbed_repo [OF u]
  proof (rule leads_reading [OF undisturbed_calls(1) [OF u]])
    show "prepared_of sqlite_repository (run_id_of run) w = Inr None" by (rule prepared_answers(1) [OF h])
    from unless show "leads good (Suc (Suc (Suc (Suc (Suc (Suc ?n))))))
        (case None of None \<Rightarrow> abort_if_requested wk run (\<lambda>stop. if stop then returned else ?existing) | Some st \<Rightarrow> publish_staged wk run st) w (finished run e)"
      unfolding option.case .
  qed
qed

section \<open>From the claim\<close>

lemma claimed_holding:
  assumes "database_ok m (w_runs w)"
    and "claim_run sqlite_repository wid lease m now w = (Inr (Some run), w')" and "run_publication_state run = PubNone"
    and "\<forall>s \<in> set (lifecycle_rows (w_runs w')). l_result_id s \<noteq> Some (run_result_id run)"
  shows "holding m {..now + lease} wid run PubNone None w'" and "w_results w' = w_results w"
proof -
  obtain r' db where c: "claim_lifecycle_run now wid lease m (w_runs w) = (Some r', db)" "run = lifecycle_from_row r'" "w' = w\<lparr>w_runs := db\<rparr>"
    using assms(2) by (auto simp: sqlite_repository_def on_runs_def split: prod.splits)
  then show "w_results w' = w_results w" by simp
  have ok: "database_ok m db" using store_step_ok [OF store_step.claim assms(1), of now wid lease] c(1) by simp
  obtain row where row: "r' = take_lease now wid lease row" "get_row (l_run_id r') db = Some r'"
    using get_row_after_claim [OF assms(1) [unfolded database_ok_def] c(1)] by blast
  have "row_ok m r'" using owingD(1) ok get_rowD [OF row(2)] unfolding database_ok_def by fastforce
  moreover have run: "run_id_of run = l_run_id r'" "run_attempt_number run = l_attempt_number r'" "run_request run = l_request_json r'"
      "run_publication_state run = l_publication_state r'"
    using c(2) by (simp_all add: run_id_of_def lifecycle_from_row_def Let_def)
  ultimately have "\<not> l_cancel_requested r'" "l_prepared r' = None" "holds (run_id_of run) wid (run_attempt_number run) r'"
    "\<forall>t \<in> {..now + lease}. reaches (l_lease_expires_at r') t"
    using assms(3) row(1) by (auto simp: row_defs take_lease_def holds_def reaches_def)
  then show "holding m {..now + lease} wid run PubNone None w'"
    using ok row(2) run assms(3,4) c(3) unfolding holding_def by simp
qed

end
