(* ===== verification/ResultProps.thy ===== *)
theory ResultProps
  imports ResultStore LifecycleSteps
begin

text \<open>
  What the result store guarantees: a saved result reads back, unchanged for ever, and the listing
  shows every run once.
\<close>

section \<open>Executions\<close>

inductive save_step :: "results \<Rightarrow> results \<Rightarrow> bool" where
  "save_step db (snd (save_completed_run q e h s now db))"

inductive_cases save_stepE: "save_step db db'"

definition stored_results :: "results \<Rightarrow> bool" where
  "stored_results db = save_step\<^sup>*\<^sup>* empty_results db"

lemma save_steps_ok: "save_step\<^sup>*\<^sup>* db db' \<Longrightarrow> results_ok db \<Longrightarrow> results_ok db'"
  by (induction rule: rtranclp_induct) (auto elim: save_stepE intro: save_completed_run_ok)

lemma stored_results_ok: "stored_results db \<Longrightarrow> results_ok db"
  unfolding stored_results_def using save_steps_ok empty_results_ok by blast

lemma save_steps_keep: "save_step\<^sup>*\<^sup>* db db' \<Longrightarrow> get_run rid db = Some e \<Longrightarrow> get_run rid db' = Some e"
  by (induction rule: rtranclp_induct) (auto elim!: save_stepE intro: save_keeps_run)

lemma save_steps_keep_key:
  "save_step\<^sup>*\<^sup>* db db' \<Longrightarrow> get_by_idempotency_key key db = Some x \<Longrightarrow> get_by_idempotency_key key db' = Some x"
  by (induction rule: rtranclp_induct) (auto elim!: save_stepE intro: save_keeps_key)

lemma new_save_reads_key:
  assumes "results_ok db" "save_completed_run q e h s now db = (Inr (), db')" "get_run (re_run_id e) db = None"
    and "stored_key q = Some key"
  shows "get_by_idempotency_key key db' = Some (h, e)"
  using assms insert_reads(3) by (simp add: save_completed_run_def)

lemma save_reads_back:
  assumes "results_ok db" and "save_completed_run q e h s now db = (Inr (), db')"
  shows "get_run (re_run_id e) db' = Some e"
proof (cases "get_run (re_run_id e) db")
  case None
  then show ?thesis using assms insert_reads(1) by (simp add: save_completed_run_def)
next
  case (Some stored)
  then show ?thesis using assms(2) by (auto simp: save_completed_run_def split: if_splits)
qed

text \<open>
  C34. A result is saved once and for ever. After a save that succeeded, and after any number of
  further saves, the run id and the result id both read back exactly that envelope; if the run was
  new and its request has an idempotency key, the key reads back the envelope with the hash of that
  request; saving the same envelope again succeeds and changes nothing, and saving any other envelope
  for the run is refused and changes nothing.
\<close>

theorem saved_result_is_immutable:
  assumes "stored_results db" and "save_completed_run q e h s now db = (Inr (), db1)" and "save_step\<^sup>*\<^sup>* db1 db2"
  shows "get_run (re_run_id e) db2 = Some e \<and> get_result (re_result_id e) db2 = Some e
    \<and> (get_run (re_run_id e) db = None \<and> stored_key q = Some key \<longrightarrow> get_by_idempotency_key key db2 = Some (h, e))
    \<and> save_completed_run q' e h' s' now' db2 = (Inr (), db2)
    \<and> (e' \<noteq> e \<and> re_run_id e' = re_run_id e \<longrightarrow> save_completed_run q' e' h' s' now' db2 =
          (Inl (PersistenceError ''Immutable SQLite result identity conflicts with stored content.''), db2))"
proof -
  have ok: "results_ok db" using stored_results_ok [OF assms(1)] .
  have "results_ok db1" using save_completed_run_ok [OF ok, of q e h s now] assms(2) by simp
  then have ok2: "results_ok db2" using save_steps_ok [OF assms(3)] by blast
  have run: "get_run (re_run_id e) db2 = Some e" using save_steps_keep [OF assms(3) save_reads_back [OF ok assms(2)]] .
  have "get_by_idempotency_key key db2 = Some (h, e)" if "get_run (re_run_id e) db = None" "stored_key q = Some key"
    using save_steps_keep_key [OF assms(3) new_save_reads_key [OF ok assms(2) that]] .
  then show ?thesis using run payload_identity [OF ok2 run] by (auto simp: save_completed_run_def)
qed

definition saved_store :: results where
  "saved_store = snd (save_completed_run sample_run_request sample_envelope ''digest-1'' 20 130 empty_results)"

lemma saved_store_reachable: "stored_results saved_store"
  unfolding stored_results_def saved_store_def using save_step.intros by (rule r_into_rtranclp)

lemma saved_result_is_immutable_witness:
  "get_run ''run-1'' saved_store = Some sample_envelope \<and> get_result ''result-1'' saved_store = Some sample_envelope
   \<and> get_by_idempotency_key ''request-1'' saved_store = Some (''digest-1'', sample_envelope)
   \<and> save_completed_run sample_run_request sample_envelope ''other'' 1 200 saved_store = (Inr (), saved_store)"
proof -
  have "stored_results empty_results" by (simp add: stored_results_def)
  moreover have "save_completed_run sample_run_request sample_envelope ''digest-1'' 20 130 empty_results = (Inr (), saved_store)"
    by code_simp
  moreover have "re_run_id sample_envelope = ''run-1''" "re_result_id sample_envelope = ''result-1''"
    "get_run ''run-1'' empty_results = None" "stored_key sample_run_request = Some ''request-1''" by code_simp+
  ultimately show ?thesis
    using saved_result_is_immutable [OF _ _ rtranclp.rtrancl_refl,
      of empty_results sample_run_request sample_envelope "''digest-1''" 20 130 saved_store "''request-1''" sample_run_request "''other''" 1 200]
    by simp
qed

section \<open>Evidence\<close>

text \<open>
  The evidence of a newly saved run is indexed completely: the evidence rows of the run are
  exactly the pairs of a claim with a reference that its bindings name, and its provenance
  references, each once; and its candidate, when it has one, is the run's one artifact row with the
  candidate's own content and hash.
\<close>

theorem saved_evidence_is_complete:
  assumes "insert_completed_run q e h s now db = (Inr (), db')"
    and "\<forall>r \<in> set (evidence_rows db). ev_run_id r \<noteq> re_run_id e" and "\<forall>a \<in> set (artifact_rows db). ar_run_id a \<noteq> re_run_id e"
  shows "distinct (map (\<lambda>r. (ev_claim r, ev_reference r)) (filter (\<lambda>r. ev_run_id r = re_run_id e) (evidence_rows db')))
    \<and> set (map (\<lambda>r. (ev_claim r, ev_reference r)) (filter (\<lambda>r. ev_run_id r = re_run_id e) (evidence_rows db'))) =
        {(binding_claim b, r) | b r. b \<in> set (res_evidence_bindings (re_structured e)) \<and> r \<in> set (binding_evidence_refs b)}
        \<union> {(''provenance'', r) | r. r \<in> set (re_provenance e)}
    \<and> map (\<lambda>a. (ar_artifact_id a, ar_content a, ar_content_hash a)) (filter (\<lambda>a. ar_run_id a = re_run_id e) (artifact_rows db')) =
        (case res_candidate (re_structured e) of None \<Rightarrow> []
         | Some c \<Rightarrow> [(candidate_id c, content_ref (cand_artifact c), content_hash (cand_artifact c))])"
proof -
  have rows: "evidence_rows db' = insert_evidence e now (evidence_rows db)" "artifact_rows db' = insert_artifact e now (artifact_rows db)"
    using assms(1) by (auto simp: insert_completed_run_def Let_def split: if_splits)
  have old: "filter (\<lambda>r. ev_run_id r = re_run_id e) (evidence_rows db) = []" "filter (\<lambda>a. ar_run_id a = re_run_id e) (artifact_rows db) = []"
    using assms(2,3) by (simp_all add: filter_empty_conv)
  let ?pairs = "sorted_by pair_less_eq (evidence_pairs e)"
  have new: "map (\<lambda>r. (ev_claim r, ev_reference r)) (filter (\<lambda>r. ev_run_id r = re_run_id e) (evidence_rows db')) = ?pairs"
    unfolding rows insert_evidence_def using old by (simp add: filter_map comp_def case_prod_beta)
  have "distinct (evidence_pairs e)" by (simp add: evidence_pairs_def)
  then have "distinct ?pairs" by (metis mset_sorted_by distinct_count_atmost_1 set_sorted_by)
  moreover have "set ?pairs = {(binding_claim b, r) | b r. b \<in> set (res_evidence_bindings (re_structured e)) \<and> r \<in> set (binding_evidence_refs b)}
        \<union> {(''provenance'', r) | r. r \<in> set (re_provenance e)}"
    unfolding set_sorted_by evidence_pairs_def by auto
  ultimately show ?thesis using new old unfolding rows
    by (simp add: insert_artifact_def split: option.splits)
qed

lemma saved_evidence_is_complete_witness:
  "set (map (\<lambda>r. (ev_claim r, ev_reference r)) (filter (\<lambda>r. ev_run_id r = ''run-1'') (evidence_rows saved_store))) =
     {(''limitation'', ''ref-1''), (''provenance'', ''prov-1'')}"
proof -
  have "insert_completed_run sample_run_request sample_envelope ''digest-1'' 20 130 empty_results = (Inr (), saved_store)"
    by code_simp
  then show ?thesis
    using saved_evidence_is_complete [of sample_run_request sample_envelope "''digest-1''" 20 130 empty_results saved_store]
    by (simp add: empty_results_def sample_envelope_def sample_result_def) blast
qed

section \<open>Listing\<close>

lemma newest_first_total: "newest_first a b \<or> newest_first b a"
  unfolding newest_first_def using text_less_eq_total
  by (cases "sum_completed_at a" "sum_completed_at b" rule: linorder_cases) auto

lemma newest_first_trans: "newest_first a b \<Longrightarrow> newest_first b c \<Longrightarrow> newest_first a c"
  unfolding newest_first_def by (auto intro: text_less_eq_trans)

lemma payload_of_stored: "results_ok db \<Longrightarrow> c \<in> set (completed_rows db) \<Longrightarrow> payload_of db c \<noteq> None"
proof -
  assume ok: "results_ok db" and c: "c \<in> set (completed_rows db)"
  have "pl_run_id ` set (payload_rows db) = c_run_id ` set (completed_rows db)"
    using ok unfolding results_ok_def by (metis list.set_map)
  then have "c_run_id c \<in> pl_run_id ` set (payload_rows db)" using c by simp
  then show "payload_of db c \<noteq> None" by (auto simp: payload_of_def find_None_iff)
qed

lemma summaries_of_all:
  assumes "\<And>c. c \<in> set cs \<Longrightarrow> payload_of db c \<noteq> None"
  shows "map sum_run_id (List.map_filter (\<lambda>c. map_option (summary_of db c) (payload_of db c)) cs) = map c_run_id cs"
  using assms
proof (induction cs)
  case (Cons c cs)
  then obtain e where "payload_of db c = Some e" by fastforce
  then show ?case using Cons by (simp add: List.map_filter_simps summary_of_def)
qed (simp add: List.map_filter_simps)

lemma pages_concat: "0 < n \<Longrightarrow> concat (map (\<lambda>i. take n (drop (i * n) xs)) [0..<k]) = take (k * n) xs"
proof (induction k)
  case (Suc k)
  have "take (k * n) xs @ take n (drop (k * n) xs) = take (k * n + n) xs" by (simp add: take_add)
  then show ?case using Suc by (simp add: add.commute)
qed simp

text \<open>
  Paging through the listing shows every stored run exactly once, newest first: the pages of any
  positive size, one after the other, are a list of as many summaries as the total says, with the
  run ids of the stored runs, ordered by completion time from the latest on.
\<close>

theorem pages_list_every_run_once:
  assumes "stored_results db" and "0 < lim" and "page_total (list_runs lim 0 db) \<le> k * lim"
  shows "\<exists>items. concat (map (\<lambda>i. page_items (list_runs lim (i * lim) db)) [0..<k]) = items
    \<and> length items = page_total (list_runs lim 0 db) \<and> distinct (map sum_run_id items)
    \<and> set (map sum_run_id items) = c_run_id ` set (completed_rows db) \<and> sorted_wrt newest_first items"
proof -
  have ok: "results_ok db" using stored_results_ok [OF assms(1)] .
  let ?raw = "List.map_filter (\<lambda>c. map_option (summary_of db c) (payload_of db c)) (completed_rows db)"
  have raw: "map sum_run_id ?raw = map c_run_id (completed_rows db)"
    by (rule summaries_of_all) (rule payload_of_stored [OF ok])
  have perm: "mset (map sum_run_id (all_summaries db)) = mset (map c_run_id (completed_rows db))"
    unfolding all_summaries_def mset_map mset_sorted_by using raw by (metis mset_map)
  have ids: "length (all_summaries db) = length (completed_rows db)"
    "distinct (map sum_run_id (all_summaries db))"
    "set (map sum_run_id (all_summaries db)) = c_run_id ` set (completed_rows db)"
    subgoal using mset_eq_length [OF perm] by simp
    subgoal using mset_eq_imp_distinct_iff [OF perm] ok by (simp add: results_ok_def)
    subgoal using mset_eq_setD [OF perm] by simp
    done
  have "concat (map (\<lambda>i. page_items (list_runs lim (i * lim) db)) [0..<k]) = take (k * lim) (all_summaries db)"
    using pages_concat [OF assms(2)] by (simp add: list_runs_def)
  also have "\<dots> = all_summaries db" using assms(3) ids(1) by (simp add: list_runs_def)
  finally show ?thesis using ids sorted_by_sorted [of newest_first, OF newest_first_total newest_first_trans]
    by (simp add: list_runs_def all_summaries_def)
qed

lemma pages_list_every_run_once_witness:
  "concat (map (\<lambda>i. map sum_run_id (page_items (list_runs 10 (i * 10) saved_store))) [0..<1]) = [''run-1'']
   \<and> (\<exists>items. concat (map (\<lambda>i. page_items (list_runs 10 (i * 10) saved_store)) [0..<1]) = items \<and> length items = 1)"
proof -
  have total: "page_total (list_runs 10 0 saved_store) = 1" by code_simp
  have "concat (map (\<lambda>i. map sum_run_id (page_items (list_runs 10 (i * 10) saved_store))) [0..<1]) = [''run-1'']" by code_simp
  moreover have "\<exists>items. concat (map (\<lambda>i. page_items (list_runs 10 (i * 10) saved_store)) [0..<1]) = items \<and> length items = 1"
    using pages_list_every_run_once [OF saved_store_reachable, of 10 1] total by simp
  ultimately show ?thesis by blast
qed

end
