(* ===== verification/PublicationProps.thy ===== *)
theory PublicationProps
  imports PublicationFacts LifecycleSteps
begin

text \<open>
  What a published result promises its readers: its integrity fields verify, and every artifact it
  names is in it.
\<close>

section \<open>Samples\<close>

definition sample_library :: library where
  "sample_library = \<lparr>sha256 = (\<lambda>bs. replicate 64 CHR ''a''), isoformat = (\<lambda>t. ''2026-01-01T00:00:00+00:00''),
     json_time = (\<lambda>t. ''2026-01-01T00:00:00Z''), loads = (\<lambda>s. None)\<rparr>"

definition sample_settings :: settings where
  "sample_settings = \<lparr>databricks_catalog = ''c'', databricks_schema = ''s'', databricks_results_table = ''t''\<rparr>"

definition sample_candidate :: primary_candidate where
  "sample_candidate =
     \<lparr>candidate_id = ''candidate-1'', cand_control_class = ''waf'', cand_technology = ''akamai-waf'', cand_policy_context_id = ''c'',
      cand_artifact = \<lparr>artifact_type = ''akamai-custom-rule'', content_ref = ''{}'', content_hash = ''sha256:'' @ replicate 64 CHR ''a'',
        emitted_as = ''control-specific-mitigation-candidate''\<rparr>,
      cand_discriminator = \<lparr>source_discriminator_id = ''d'', discriminator_translation = ''t'', discriminator_justification = ''j'',
        discriminator_evidence_refs = []\<rparr>,
      cand_placement = \<lparr>policy_section = None, ordering_constraints = [], conflict_notes = []\<rparr>,
      cand_impact_prior = \<lparr>prior_verdict = ''unknown'', prior_confidence = ''low'', prior_basis = ''b'', prior_measured = False\<rparr>,
      cand_assumptions = [], cand_limitations = [], cand_provenance = [], cand_metadata = None\<rparr>"

definition sample_child :: target_artifact where
  "sample_child =
     \<lparr>ta_artifact_id = ''child-1'', ta_source_artifact_id = ''source-1'', ta_role = ''primary'', ta_kind = ''policy-fragment'', ta_order = 0,
      ta_artifact_type = ''akamai-custom-rule'', ta_content = ''{}'', ta_content_hash = ''sha256:'' @ replicate 64 CHR ''b''\<rparr>"

text \<open>A translated shared-contract result with one obligation, mapped to one child artifact.\<close>

definition sample_v2_result :: translation_result where
  "sample_v2_result = sample_result\<lparr>
     res_contract_id := ''control-translation@2.0'', res_terminal_state := Translated,
     res_outcome_reason := \<lparr>reason_code = RTranslated, reason_detail = ''d''\<rparr>, res_candidate := Some sample_candidate,
     res_shared_version := True, res_profile_id := Some WafStandard2,
     res_verification := Some \<lparr>ptv_required_obligation_count = 1, ptv_dg_mapping_count = 1, ptv_mc_disposition_count = 1, ptv_bv_campaign_count = 1\<rparr>,
     res_accounting := Some \<lparr>required_obligation_count = 1, accounted_obligation_count = 1, unaccounted_required_obligation_count = 0,
       source_member_count = 1, represented_source_member_count = 1, unsupported_source_member_count = 0, unaccounted_source_member_count = 0,
       required_work_item_count = 1, disposed_work_item_count = 1, unaccounted_required_work_item_count = 0\<rparr>,
     res_target_artifacts := [sample_child],
     res_mappings := [\<lparr>tm_obligation_id = ''obligation-1'', tm_target_artifact_ids = [''child-1'']\<rparr>]\<rparr>"

lemma sample_v2_valid:
  "validate_v2_completeness sample_v2_result = Inr sample_v2_result" "res_shared_version sample_v2_result"
  "res_terminal_state sample_v2_result = Translated"
  by (simp_all add: validate_v2_completeness_def sample_v2_result_def sample_result_def sample_candidate_def sample_child_def
      shared_waf_primary_artifact_id_def removeprefix_def translated_output_complete_def Let_def list_ex_iff)

lemma sample_builds: "\<exists>j. build_lifecycle_result lib cfg sample_envelope q reference = Inr j"
  by (rule build_succeeds [of _ sample_result])
    (simp_all add: sample_envelope_def sample_result_def validate_v2_completeness_def candidate_publishable_def)

section \<open>Integrity\<close>

text \<open>
  C35. A published result verifies: a reader who strips the two integrity fields and encodes the rest
  canonically obtains the bytes whose digest and number the fields state, and there is at least one.
\<close>

theorem published_result_verifies:
  assumes "build_lifecycle_result lib cfg e q reference = Inr j"
  shows "\<exists>content. canonical_result_bytes j = Inr content \<and> content \<noteq> []
    \<and> get j ''content_sha256'' = Some (JStr (''sha256:'' @ sha256 lib content))
    \<and> get j ''size_bytes'' = Some (JInt (int (length content)))"
  using assms
proof (rule build_lifecycle_resultD)
  fix payload content
  assume "canonical_result_bytes j = Inr content"
    and "get_or_null j ''content_sha256'' = JStr (''sha256:'' @ sha256 lib content)"
    and "get_or_null j ''size_bytes'' = json_nat (length content)"
  then show ?thesis using canonical_bytes_nonempty by (auto simp: get_or_null_def json_nat_def split: option.splits)
qed

theorem published_result_verifies_witness:
  "\<exists>j content. build_lifecycle_result sample_library sample_settings sample_envelope sample_run_request None = Inr j
     \<and> canonical_result_bytes j = Inr content \<and> get j ''size_bytes'' = Some (JInt (int (length content)))"
proof -
  obtain j where "build_lifecycle_result sample_library sample_settings sample_envelope sample_run_request None = Inr j"
    using sample_builds by blast
  then show ?thesis using published_result_verifies by blast
qed

section \<open>Artifacts\<close>

text \<open>
  The publication of a validated, translated shared-contract result succeeds and is complete:
  every child artifact is published under its id as it is, every artifact that a mapping or a
  directive names is there, and the candidate refers to the aggregate artifact, which is published
  under the id derived from its digest unless a child artifact has that id.
\<close>

theorem published_artifacts_complete:
  assumes "validate_v2_completeness s = Inr s" and "res_shared_version s" and "res_terminal_state s = Translated"
  shows "\<exists>c primary arts. res_candidate s = Some c
    \<and> shared_waf_primary_artifact_id (content_hash (cand_artifact c)) = Inr primary
    \<and> published_artifacts lib cfg rid reference s = Inr (primary_candidate_json cfg rid reference (Some primary) c, arts)
    \<and> (primary \<notin> ta_artifact_id ` set (res_target_artifacts s) \<longrightarrow> get arts primary = Some (aggregate_artifact lib s c))
    \<and> (\<forall>t \<in> set (res_target_artifacts s). get arts (ta_artifact_id t) = Some (child_artifact lib True t))
    \<and> (\<forall>m \<in> set (res_mappings s). \<forall>a \<in> set (tm_target_artifact_ids m). get arts a \<noteq> None)
    \<and> (\<forall>d \<in> set (res_directives s). get arts (td_target_artifact_id d) \<noteq> None)"
  using assms
proof (rule translated_v2D)
  fix c primary
  let ?arts = "fold (\<lambda>t. dict_set (ta_artifact_id t) (child_artifact lib True t)) (res_target_artifacts s) [(primary, aggregate_artifact lib s c)]"
  let ?child = "ta_artifact_id ` set (res_target_artifacts s)"
  assume c: "res_candidate s = Some c" "shared_waf_primary_artifact_id (content_hash (cand_artifact c)) = Inr primary"
    and distinct: "distinct (map ta_artifact_id (res_target_artifacts s))"
    and mapped: "\<And>m a. \<lbrakk>m \<in> set (res_mappings s); a \<in> set (tm_target_artifact_ids m)\<rbrakk> \<Longrightarrow> a = primary \<or> a \<in> ?child"
    and directed: "\<And>d. d \<in> set (res_directives s) \<Longrightarrow> td_target_artifact_id d = primary \<or> td_target_artifact_id d \<in> ?child"
  have child: "get ?arts (ta_artifact_id t) = Some (child_artifact lib True t)" if "t \<in> set (res_target_artifacts s)" for t
    unfolding get_def by (rule fold_dict_set [OF distinct that])
  have primary: "get ?arts primary = Some (aggregate_artifact lib s c)" if "primary \<notin> ?child"
    unfolding get_def using fold_dict_set_other [OF that] by simp
  have there: "get ?arts a \<noteq> None" if "a = primary \<or> a \<in> ?child" for a
    using that child primary by (cases "primary \<in> ?child") auto
  have "published_artifacts lib cfg rid reference s = Inr (primary_candidate_json cfg rid reference (Some primary) c, ?arts)"
    by (rule published_v2 [OF assms(2) c])
  moreover have "\<forall>m \<in> set (res_mappings s). \<forall>a \<in> set (tm_target_artifact_ids m). get ?arts a \<noteq> None"
    by (intro ballI there mapped)
  moreover have "\<forall>d \<in> set (res_directives s). get ?arts (td_target_artifact_id d) \<noteq> None"
    by (intro ballI there directed)
  ultimately show ?thesis using c child primary by blast
qed

theorem published_artifacts_complete_witness:
  "\<exists>arts. published_artifacts sample_library sample_settings ''result-1'' None sample_v2_result
       = Inr (primary_candidate_json sample_settings ''result-1'' None (Some (''akamai-rule-set-'' @ replicate 64 CHR ''a'')) sample_candidate, arts)
     \<and> get arts ''child-1'' = Some (child_artifact sample_library True sample_child)
     \<and> get arts (''akamai-rule-set-'' @ replicate 64 CHR ''a'') = Some (aggregate_artifact sample_library sample_v2_result sample_candidate)"
proof -
  have "res_candidate sample_v2_result = Some sample_candidate" "res_target_artifacts sample_v2_result = [sample_child]"
    "ta_artifact_id sample_child = ''child-1''"
    "shared_waf_primary_artifact_id (content_hash (cand_artifact sample_candidate)) = Inr (''akamai-rule-set-'' @ replicate 64 CHR ''a'')"
    by (simp_all add: sample_v2_result_def sample_candidate_def sample_child_def shared_waf_primary_artifact_id_def
        removeprefix_def Let_def list_ex_iff)
  then show ?thesis
    using published_artifacts_complete [OF sample_v2_valid, of sample_library sample_settings "''result-1''" None] by auto
qed

end
