(* ===== verification/WorkerProps.thy ===== *)
theory WorkerProps
  imports WorkerRun ResultProps PublicationProps
begin

text \<open>
  What the workers guarantee on the SQLite repository: a completed run has its result, whatever the
  interleaving; a thread makes a bounded number of calls; and an attempt that nothing disturbs
  completes its run.
\<close>

section \<open>Other clients\<close>

text \<open>
  Between the workers' calls the API submits and cancels runs and saves synchronous results, and the
  dispatcher works on the callback deliveries.
\<close>

inductive client_step :: "world \<Rightarrow> world \<Rightarrow> bool" where
  submits: "client_step w (w\<lparr>w_runs := snd (create_lifecycle_run now rid req key digest cb (w_runs w))\<rparr>)"
| cancels: "client_step w (w\<lparr>w_runs := snd (cancel_lifecycle_run now rid (w_runs w))\<rparr>)"
| saves: "client_step w (w\<lparr>w_results := snd (save_completed_run q e h s now (w_results w))\<rparr>)"
| delivers: "client_step w (w\<lparr>w_runs := mark_callback_delivered event delivered_at code (w_runs w)\<rparr>)"
| reschedules: "client_step w (w\<lparr>w_runs := reschedule_callback_delivery now event attempts next_attempt status_code category (w_runs w)\<rparr>)"
| gives_up: "client_step w (w\<lparr>w_runs := mark_callback_configuration_failed event attempts failed_at status_code category (w_runs w)\<rparr>)"

lemma delivery_same_outputs: "same_outputs db (update_delivery event f db)"
  by (rule same_outputs_rows) (simp add: update_delivery_def)

lemma client_step_quiet:
  assumes "client_step w w'" and "well_formed (sqlite_view m) w"
  shows "quiet (sqlite_view m) w w'"
proof -
  have runs: "quiet (sqlite_view m) w (w\<lparr>w_runs := db\<rparr>)" if "store_step m (w_runs w) db" "same_outputs (w_runs w) db" for db
    using quiet_runs [OF that(2) _ assms(2)] store_step_ok [OF that(1)] assms(2) by (simp add: sqlite_view_def)
  from assms(1) show ?thesis
  proof cases
    case (saves q e h s now)
    then show ?thesis
      using assms(2) save_effect(1,2) [of "w_results w" q e h s now] by (simp add: quiet_def sqlite_view_def)
  next
    case submits then show ?thesis by (simp add: runs store_step.create create_same_outputs)
  next
    case cancels then show ?thesis by (simp add: runs store_step.cancel cancel_same_outputs)
  next
    case (delivers event delivered_at code)
    then show ?thesis using store_step.delivered by (simp add: runs mark_callback_delivered_def delivery_same_outputs)
  next
    case (reschedules now event attempts next_attempt status_code category)
    then show ?thesis using store_step.reschedule by (simp add: runs reschedule_callback_delivery_def delivery_same_outputs)
  next
    case (gives_up event attempts failed_at status_code category)
    then show ?thesis using store_step.configuration_failed by (simp add: runs mark_callback_configuration_failed_def delivery_same_outputs)
  qed
qed

definition empty_world :: world where
  "empty_world = \<lparr>w_runs = empty_database, w_results = empty_results\<rparr>"

definition fleet_reachable :: "nat \<Rightarrow> library \<Rightarrow> world fleet \<Rightarrow> bool" where
  "fleet_reachable m lib s =
     (fleet_step sqlite_repository m lib client_step)\<^sup>*\<^sup>* \<lparr>fleet_store = empty_world, fleet_attempts = []\<rparr> s"

lemma fleet_reachable_consistent:
  assumes "fleet_reachable m lib s"
  shows "consistent (sqlite_view m) lib (fleet_store s)"
proof -
  have "consistent (sqlite_view m) lib empty_world"
    using empty_database_ok [of m] empty_results_ok
    by (simp add: consistent_def sqlite_view_def empty_world_def outputs_def outcomes_def get_row_def empty_database_def)
  then have "fleet_ok sqlite_repository (sqlite_view m) lib \<lparr>fleet_store = empty_world, fleet_attempts = []\<rparr>"
    by (simp add: fleet_ok_def)
  then have "fleet_ok sqlite_repository (sqlite_view m) lib s"
    using sqlite.fleet_steps_ok [OF assms [unfolded fleet_reachable_def] _ client_step_quiet] by blast
  then show ?thesis by (simp add: fleet_ok_def)
qed

lemma new_attempt_program: "at_program (new_attempt wk run) = process wk run"
  by (simp add: new_attempt_def)

section \<open>A sample fleet\<close>

definition sample_worker :: "world worker" where
  "sample_worker = \<lparr>repository = sqlite_repository, worker_id = ''worker-1'', worker_library = sample_library,
     worker_settings = sample_settings, reference_factory = None\<rparr>"

definition submitted_world :: world where
  "submitted_world = \<lparr>w_runs = queued_store, w_results = empty_results\<rparr>"

definition claimed_world :: world where
  "claimed_world = \<lparr>w_runs = running_store, w_results = empty_results\<rparr>"

definition claimed_run :: lifecycle_run where
  "claimed_run = lifecycle_from_row (sample_row running_store)"

definition sample_external :: external where
  "sample_external = \<lparr>clock = 30, storage_fails = False, invocation = Inr sample_envelope\<rparr>"

definition ended_attempt :: "world attempt \<times> world" where
  "ended_attempt = run_thread (replicate 17 sample_external) (new_attempt sample_worker claimed_run) claimed_world"

lemma sample_claim: "claim_run sqlite_repository ''worker-1'' 60 3 20 submitted_world = (Inr (Some claimed_run), claimed_world)"
proof -
  have "fst (claim_lifecycle_run 20 ''worker-1'' 60 3 queued_store) = Some (sample_row running_store)" by code_simp
  then have "claim_lifecycle_run 20 ''worker-1'' 60 3 queued_store = (Some (sample_row running_store), running_store)"
    by (simp add: running_store_def prod_eq_iff)
  then show ?thesis by (simp add: sqlite_repository_def on_runs_def submitted_world_def claimed_world_def claimed_run_def)
qed

lemma sample_claimed_fields:
  "run_publication_state claimed_run = PubNone" "run_id_of claimed_run = ''run-1''"
  "list_all (\<lambda>s. l_result_id s = None) (lifecycle_rows running_store)"
  by code_simp+

lemma sample_fresh: "fresh_results claimed_run claimed_world" "results_ok (w_results claimed_world)"
  "\<forall>s \<in> set (lifecycle_rows (w_runs claimed_world)). l_result_id s \<noteq> Some (run_result_id claimed_run)"
  using sample_claimed_fields(3) empty_results_ok
  by (simp_all add: fresh_results_def claimed_world_def empty_results_def list_all_iff)

lemma sample_reference: "result_reference_of sample_worker (run_result_id claimed_run) = Inr (default_reference sample_settings (run_result_id claimed_run))"
  by code_simp

lemma sample_digest: "sha256_pattern (''sha256:'' @ sha256 (worker_library sample_worker) bs)"
proof -
  have "list_all (\<lambda>c. c \<in> set ''0123456789abcdef'') (replicate 64 CHR ''a'')" by (simp add: list_all_iff)
  then show ?thesis by (simp add: sample_worker_def sample_library_def sha256_pattern_def)
qed

definition published_envelope :: result_envelope where
  "published_envelope = rebound_envelope claimed_run sample_envelope"

lemma sample_valid:
  "validate_result_envelope (rebound_envelope claimed_run sample_envelope) = Inr published_envelope"
  "candidate_publishable (re_structured published_envelope)" "finite_json (re_inference published_envelope)"
  by (simp_all add: published_envelope_def rebound_envelope_def validate_result_envelope_def sample_envelope_def sample_result_def
      validate_v2_completeness_def candidate_publishable_def)

lemma sample_store_ok: "database_ok 3 (w_runs submitted_world)" "results_ok (w_results submitted_world)"
  using reachable_ok [OF sample_reachable(1)] empty_results_ok by (simp_all add: submitted_world_def)

text \<open>The sample attempt, run to its end.\<close>

lemma sample_published: "published claimed_run published_envelope (snd ended_attempt)"
proof -
  let ?good = "\<lambda>x. x = sample_external"
  have e: "re_result_id published_envelope = run_result_id claimed_run"
    by (simp add: published_envelope_def rebound_envelope_def)
  have "validate_v2_completeness (re_structured published_envelope) = Inr (re_structured published_envelope)"
    by (simp add: published_envelope_def rebound_envelope_def sample_envelope_def sample_result_def validate_v2_completeness_def)
  note builds = staged_output_ok [OF this sample_valid(2,3) sample_reference [folded e] sample_digest]
  have worker: "worker_id sample_worker = ''worker-1''" "repository sample_worker = sqlite_repository" by (simp_all add: sample_worker_def)
  have "undisturbed {..80} sample_worker claimed_run sample_envelope published_envelope ?good"
    unfolding undisturbed_def using sample_valid(1) builds worker by (simp add: sample_external_def)
  from process_leads [OF this _ sample_fresh(2,1)] claimed_holding(1) [OF sample_store_ok(1) sample_claim sample_claimed_fields(1) sample_fresh(3)]
  have "leads ?good 17 (process sample_worker claimed_run) claimed_world (finished claimed_run published_envelope)"
    unfolding worker by (simp only: eval_nat_numeral BitM.simps One_nat_def) simp
  from leads_thread [of ?good 17 "new_attempt sample_worker claimed_run", OF this [folded new_attempt_program] _ _]
  show ?thesis unfolding ended_attempt_def by (simp add: new_attempt_def)
qed

definition ended_fleet :: "world fleet" where
  "ended_fleet = \<lparr>fleet_store = snd ended_attempt, fleet_attempts = [fst ended_attempt]\<rparr>"

lemma ended_fleet_reachable: "fleet_reachable 3 sample_library ended_fleet"
proof -
  let ?step = "fleet_step sqlite_repository 3 sample_library client_step"
  let ?new = "new_attempt sample_worker claimed_run"
  have "client_step empty_world submitted_world"
    using client_step.submits [of empty_world 10 "''run-1''" sample_run_request "''key-1''" "''digest-1''" "Some sample_callback"]
    by (simp add: empty_world_def submitted_world_def queued_store_def)
  then have "?step \<lparr>fleet_store = empty_world, fleet_attempts = []\<rparr> \<lparr>fleet_store = submitted_world, fleet_attempts = []\<rparr>"
    by (rule fleet_step.other)
  moreover have "?step \<lparr>fleet_store = submitted_world, fleet_attempts = []\<rparr> \<lparr>fleet_store = claimed_world, fleet_attempts = [?new]\<rparr>"
    using fleet_step.claimed [of sample_worker sqlite_repository sample_library 60 3 20 submitted_world claimed_run claimed_world client_step "[]"]
      sample_claim by (simp add: sample_worker_def)
  moreover have "?step\<^sup>*\<^sup>* \<lparr>fleet_store = claimed_world, fleet_attempts = [?new]\<rparr> ended_fleet"
    using run_thread_steps [of "replicate 17 sample_external" ?new claimed_world "fst ended_attempt" "snd ended_attempt" 0 "[?new]"
        sqlite_repository 3 sample_library client_step]
    by (simp add: ended_fleet_def ended_attempt_def)
  ultimately show ?thesis unfolding fleet_reachable_def by (meson converse_rtranclp_into_rtranclp)
qed

section \<open>Completed runs\<close>

text \<open>
  C12. A run that is reported as completed has its result, whatever the interleaving of any number
  of workers, attempts, heartbeats, crashes, storage errors, cancellations and other clients: its
  immutable envelope is saved under its run id and reads back, and the result the run shows is the
  canonical projection of exactly that envelope.
\<close>

theorem completed_run_has_its_result:
  assumes "fleet_reachable m lib s" and "get_row rid (w_runs (fleet_store s)) = Some r" and "l_status r = Completed"
  shows "\<exists>e j. get_run rid (w_results (fleet_store s)) = Some e \<and> re_run_id e = rid \<and> l_result_json r = Some (JObj j)
    \<and> (\<exists>cfg q reference. build_lifecycle_result lib cfg e q reference = Inr j)"
proof -
  have c: "consistent (sqlite_view m) lib (fleet_store s)" by (rule fleet_reachable_consistent [OF assms(1)])
  then have "row_ok m r" using get_rowD [OF assms(2)] owingD(1)
    unfolding consistent_def sqlite_view_def database_ok_def by fastforce
  then obtain j where j: "l_result_json r = Some j" using assms(3) by (auto simp: row_ok_def status_ok_def)
  then have "result_of (sqlite_view m) (fleet_store s) rid = Some j"
    using assms(2,3) by (simp add: sqlite_view_def outcomes_def completed_result_def)
  then obtain p where p: "output_of (sqlite_view m) (fleet_store s) rid = Some p" "p_result p = j"
      "saved_of (sqlite_view m) (fleet_store s) rid = Some (p_result_envelope p)"
    using c unfolding consistent_def by blast
  then have "proper_output lib rid p" using c unfolding consistent_def by blast
  then show ?thesis using p j by (auto simp: proper_output_def sqlite_view_def)
qed

theorem completed_run_has_its_result_witness:
  "\<exists>e j. get_run ''run-1'' (w_results (fleet_store ended_fleet)) = Some e \<and> re_run_id e = ''run-1''
     \<and> (\<exists>r. get_row ''run-1'' (w_runs (fleet_store ended_fleet)) = Some r \<and> l_result_json r = Some (JObj j))
     \<and> (\<exists>cfg q reference. build_lifecycle_result sample_library cfg e q reference = Inr j)"
proof -
  obtain r where "get_row ''run-1'' (w_runs (fleet_store ended_fleet)) = Some r" "l_status r = Completed"
    using sample_published sample_claimed_fields(2) by (auto simp: published_def ended_fleet_def)
  then show ?thesis using completed_run_has_its_result [OF ended_fleet_reachable] by blast
qed

section \<open>An attempt ends\<close>

text \<open>
  Termination: the thread of an attempt makes at most seventeen calls, whatever the repository
  answers, what the capability raises and what other threads do between them: after as many inputs
  it has ended.
\<close>

theorem attempt_calls_bounded:
  "length xs \<ge> 17 \<Longrightarrow> \<exists>outcome. at_program (fst (run_thread xs (new_attempt wk run) w)) = Ended outcome"
  by (rule bounded_thread_ends [of 17]) (simp_all add: new_attempt_def bounded_process)

theorem attempt_calls_bounded_witness:
  "\<exists>outcome. at_program (fst ended_attempt) = Ended outcome"
  unfolding ended_attempt_def by (rule attempt_calls_bounded) simp

text \<open>
  C24. Liveness: an attempt that nothing disturbs completes its run. When a run without a staged
  publication is claimed, its calls are made within the lease and without storage errors, nobody
  cancels it, the capability returns an envelope that is valid under the identities of the run, and
  no other run has those, then after seventeen calls the thread has returned, the run is completed
  and published, and its envelope reads back from the result store.
\<close>

theorem undisturbed_attempt_completes:
  assumes "database_ok m (w_runs w)" and "results_ok (w_results w)" and "repository wk = sqlite_repository"
    and claim: "claim_run sqlite_repository (worker_id wk) lease m now w = (Inr (Some run), w')"
    and "run_publication_state run = PubNone" and "fresh_results run w'"
    and "\<forall>s \<in> set (lifecycle_rows (w_runs w')). l_result_id s \<noteq> Some (run_result_id run)"
    and e: "validate_result_envelope (rebound_envelope run generated) = Inr e"
    and "candidate_publishable (re_structured e)" and "finite_json (re_inference e)"
    and "result_reference_of wk (run_result_id run) = Inr reference"
    and "\<And>bs. sha256_pattern (''sha256:'' @ sha256 (worker_library wk) bs)"
    and xs: "length xs = 17" "\<forall>x \<in> set xs. \<not> storage_fails x \<and> clock x \<le> now + lease \<and> invocation x = Inr generated"
  shows "case run_thread xs (new_attempt wk run) w' of (a, w'') \<Rightarrow> at_program a = returned \<and> published run e w''"
proof -
  let ?good = "\<lambda>x. \<not> storage_fails x \<and> clock x \<le> now + lease \<and> invocation x = Inr generated"
  obtain s where s: "validate_v2_completeness (re_structured e) = Inr s" and i: "re_result_id e = run_result_id run"
    using e by (auto simp: validate_result_envelope_def bindR_eq_Inr rebound_envelope_def)
  then have "undisturbed {..now + lease} wk run generated e ?good"
    unfolding undisturbed_def
    using assms(3) e staged_output_ok [OF s assms(9,10) assms(11) [folded i] assms(12)] by simp
  from process_leads [OF this claimed_holding(1) [OF assms(1) claim assms(5,7)] _ assms(6)]
  have "leads ?good 17 (process wk run) w' (finished run e)"
    using claimed_holding(2) [OF assms(1) claim assms(5,7)] assms(2) by (simp only: eval_nat_numeral BitM.simps One_nat_def)
  then have "leads ?good (length xs) (at_program (new_attempt wk run)) w' (finished run e)" unfolding xs by (simp add: new_attempt_def)
  from leads_thread [OF this _ refl xs(2)] show ?thesis by (simp add: new_attempt_def case_prod_unfold)
qed

theorem undisturbed_attempt_completes_witness:
  "at_program (fst ended_attempt) = returned \<and> published claimed_run published_envelope (snd ended_attempt)"
proof -
  have "claim_run sqlite_repository (worker_id sample_worker) 60 3 20 submitted_world = (Inr (Some claimed_run), claimed_world)"
    using sample_claim by (simp add: sample_worker_def)
  from undisturbed_attempt_completes [OF sample_store_ok _ this sample_claimed_fields(1) sample_fresh(1,3) sample_valid sample_reference sample_digest,
      of "replicate 17 sample_external"]
  show ?thesis by (simp add: ended_attempt_def sample_external_def sample_worker_def case_prod_unfold)
qed

end
