(* ===== verification/RequestProps.thy ===== *)
theory RequestProps
  imports Requests
begin

text \<open>
  What a validated request guarantees: the routing and the references of an orchestration request
  are those of its three completions, a stored request reads back as the same request, and a
  shared-contract request joins one authenticated completion of each capability.
\<close>

section \<open>Orchestration requests\<close>

lemma validate_route_same: "validate_route m = Inr m' \<Longrightarrow> m' = m"
  by (auto simp: validate_route_def split: if_splits)

lemma remdups_length_distinct: "length (remdups xs) = length xs \<Longrightarrow> distinct xs"
  by (simp add: length_remdups_card_conv card_distinct)

text \<open>What the normalisation of an orchestration request establishes.\<close>

definition orchestrated :: "request_envelope \<Rightarrow> upstream_input \<Rightarrow> upstream_input \<Rightarrow> upstream_input \<Rightarrow> routing_context \<Rightarrow> bool" where
  "orchestrated e dg mc bv c =
     (\<not> missing_orchestration_field e \<and> env_routing_context e = Some c
      \<and> length (the (env_upstream_inputs e)) = 3 \<and> distinct (map up_capability (the (env_upstream_inputs e)))
      \<and> input_of DefenseGeneration (the (env_upstream_inputs e)) = Some dg
      \<and> input_of MitigationCheck (the (env_upstream_inputs e)) = Some mc
      \<and> input_of BypassValidation (the (env_upstream_inputs e)) = Some bv
      \<and> (list_ex is_strict_locator (the (env_upstream_inputs e)) \<longrightarrow> list_all is_strict_locator (the (env_upstream_inputs e)))
      \<and> list_all (\<lambda>i. Some (up_correlation_id i) = env_correlation_id e) (the (env_upstream_inputs e))
      \<and> up_terminal_state bv = state_name (rc_bypass_state c)
      \<and> validate_route (normalized_routing c bv) = Inr (normalized_routing c bv))"

definition normalized :: "request_envelope \<Rightarrow> upstream_input \<Rightarrow> upstream_input \<Rightarrow> upstream_input \<Rightarrow> routing_context \<Rightarrow> request_envelope" where
  "normalized e dg mc bv c =
     e\<lparr>env_upstream_refs := Some (normalized_references dg mc bv),
       env_routing_metadata := Some (normalized_routing c bv), env_idempotency_key := env_request_id e\<rparr>"

definition agrees :: "'a option \<Rightarrow> 'a \<Rightarrow> bool" where
  "agrees x y = (x = None \<or> x = Some y)"

lemma normalize_orchestration_iff:
  "normalize_orchestration e = Inr e' \<longleftrightarrow>
     (\<exists>dg mc bv c. orchestrated e dg mc bv c \<and> agrees (env_upstream_refs e) (normalized_references dg mc bv)
        \<and> agrees (env_routing_metadata e) (normalized_routing c bv)
        \<and> (env_idempotency_key e = None \<or> env_idempotency_key e = env_request_id e) \<and> e' = normalized e dg mc bv c)"
  (is "?l = ?r")
proof
  assume l: ?l
  then have present: "\<not> missing_orchestration_field e" by (auto simp: normalize_orchestration_def split: if_splits)
  then obtain "is" c where ic: "env_upstream_inputs e = Some is" "env_routing_context e = Some c"
    by (auto simp: missing_orchestration_field_def)
  have three: "length is = 3" "length (remdups (map up_capability is)) = 3"
    "list_ex is_strict_locator is \<longrightarrow> list_all is_strict_locator is"
    "\<not> list_ex (\<lambda>i. Some (up_correlation_id i) \<noteq> env_correlation_id e) is"
    using l ic present by (auto simp: normalize_orchestration_def Let_def split: if_splits)
  then have dist: "distinct (map up_capability is)" by (intro remdups_length_distinct) simp
  obtain dg mc bv where inputs: "input_of DefenseGeneration is = Some dg" "input_of MitigationCheck is = Some mc"
      "input_of BypassValidation is = Some bv"
    using l ic present three by (auto simp: normalize_orchestration_def Let_def split: if_splits option.splits)
  obtain m where m: "validate_route (normalized_routing c bv) = Inr m"
    using l ic present three inputs
    by (cases "validate_route (normalized_routing c bv)") (auto simp: normalize_orchestration_def Let_def split: if_splits)
  have [simp]: "m = normalized_routing c bv" using validate_route_same [OF m] .
  show ?r
    by (rule exI [of _ dg], rule exI [of _ mc], rule exI [of _ bv], rule exI [of _ c])
      (use l ic present three dist inputs m in
        \<open>auto simp: normalize_orchestration_def Let_def orchestrated_def normalized_def agrees_def list_ex_iff list_all_iff
          split: if_splits\<close>)
next
  assume ?r
  then obtain dg mc bv c where o: "orchestrated e dg mc bv c" "agrees (env_upstream_refs e) (normalized_references dg mc bv)"
    "agrees (env_routing_metadata e) (normalized_routing c bv)"
    "env_idempotency_key e = None \<or> env_idempotency_key e = env_request_id e" "e' = normalized e dg mc bv c" by blast
  then have "length (remdups (map up_capability (the (env_upstream_inputs e)))) = 3"
    by (simp add: orchestrated_def distinct_remdups_id)
  then show ?l using o
    by (auto simp: normalize_orchestration_def Let_def orchestrated_def normalized_def agrees_def list_ex_iff list_all_iff)
qed

lemma normalized_simps [simp]:
  "env_upstream_inputs (normalized e dg mc bv c) = env_upstream_inputs e"
  "env_routing_context (normalized e dg mc bv c) = env_routing_context e"
  "env_request_id (normalized e dg mc bv c) = env_request_id e"
  "env_idempotency_key (normalized e dg mc bv c) = env_request_id e"
  "env_upstream_refs (normalized e dg mc bv c) = Some (normalized_references dg mc bv)"
  "env_routing_metadata (normalized e dg mc bv c) = Some (normalized_routing c bv)"
  "normalized (normalized e dg mc bv c) dg mc bv c = normalized e dg mc bv c"
  "orchestrated (normalized e dg mc bv c) dg mc bv c = orchestrated e dg mc bv c"
  "locator_mode (normalized e dg mc bv c) = locator_mode e"
  by (simp_all add: normalized_def orchestrated_def missing_orchestration_field_def locator_mode_def)

lemma check_reference_routing_same: "check_reference_routing e = Inr e' \<Longrightarrow> e' = e"
  by (auto simp: check_reference_routing_def split: option.splits if_splits)

lemma normalized_routing_checks:
  "check_reference_routing (normalized e dg mc bv c) = Inr (normalized e dg mc bv c)"
  by (simp add: check_reference_routing_def normalized_references_def normalized_routing_def)

lemma validate_reference_routing_twice:
  assumes "validate_reference_routing e = Inr e'"
  shows "validate_reference_routing e' = Inr e'"
proof (cases "locator_mode e")
  case True
  then obtain e1 where "normalize_orchestration e = Inr e1" "check_reference_routing e1 = Inr e'"
    using assms by (auto simp: validate_reference_routing_def bindR_eq_Inr)
  then obtain dg mc bv c where o: "orchestrated e dg mc bv c" and e': "e' = normalized e dg mc bv c"
    using check_reference_routing_same by (auto simp: normalize_orchestration_iff)
  then have "normalize_orchestration e' = Inr e'"
    unfolding normalize_orchestration_iff
    by (intro exI [of _ dg] exI [of _ mc] exI [of _ bv] exI [of _ c]) (simp add: agrees_def)
  then show ?thesis using True e' normalized_routing_checks by (simp add: validate_reference_routing_def)
next
  case False
  then have c: "check_reference_routing e = Inr e'" using assms by (simp add: validate_reference_routing_def)
  then have "e' = e" by (rule check_reference_routing_same)
  then show ?thesis using c False by (simp add: validate_reference_routing_def)
qed

lemma validate_reference_routing_keeps:
  assumes "validate_reference_routing e = Inr e'"
  shows "env_upstream_inputs e' = env_upstream_inputs e \<and> env_routing_context e' = env_routing_context e
    \<and> (check_opt validate_route (env_routing_metadata e) = Inr () \<longrightarrow> check_opt validate_route (env_routing_metadata e') = Inr ())"
proof (cases "locator_mode e")
  case True
  then obtain dg mc bv c where "orchestrated e dg mc bv c" "e' = normalized e dg mc bv c"
    using assms check_reference_routing_same
    by (auto simp: validate_reference_routing_def bindR_eq_Inr normalize_orchestration_iff)
  then show ?thesis by (simp add: check_opt_def orchestrated_def)
next
  case False
  then show ?thesis using assms check_reference_routing_same by (simp add: validate_reference_routing_def) blast
qed

text \<open>
  A stored request reads back as it was. Validation is idempotent: the normalised envelope that
  it returns passes validation again and is not changed by it, so a run that is claimed executes
  the request that was accepted.
\<close>

theorem revalidation_is_identity:
  assumes "validate_envelope e = Inr e'"
  shows "validate_envelope e' = Inr e'"
proof -
  obtain xs where xs: "(case env_upstream_inputs e of
              None \<Rightarrow> Inr []
            | Some is \<Rightarrow> mapR (\<lambda>i. bindR (validate_databricks_reference (up_result_ref i)) (\<lambda>_. validate_completion i)) is) = Inr xs"
    and c: "check_opt validate_routing_context (env_routing_context e) = Inr ()"
    and m: "check_opt validate_route (env_routing_metadata e) = Inr ()" and r: "validate_reference_routing e = Inr e'"
    using assms by (auto simp: validate_envelope_def bindR_eq_Inr)
  note k = validate_reference_routing_keeps [OF r]
  show ?thesis unfolding validate_envelope_def
    using k xs c m validate_reference_routing_twice [OF r] by simp
qed

lemma input_of_member: "input_of c is = Some i \<Longrightarrow> i \<in> set is \<and> up_capability i = c"
  by (auto simp: input_of_def find_Some_iff) (metis nth_mem length_rev set_rev)

lemma mapR_all: "mapR f xs = Inr ys \<Longrightarrow> x \<in> set xs \<Longrightarrow> \<exists>y. f x = Inr y"
  by (induction xs arbitrary: ys) (auto simp: bindR_eq_Inr)

lemma validate_completionD:
  assumes "validate_completion i = Inr j"
  shows "ref_key (up_result_ref i) = up_result_id i \<and> starts_with (up_result_id i) (fst (approved_reference (up_capability i)))
    \<and> approved_table (up_capability i) (up_result_ref i) \<and> up_terminal_state i \<in> set (expected_states (up_capability i))"
  using assms by (auto simp: validate_completion_def Let_def split: if_splits)

text \<open>
  An accepted orchestration request is bound to its proof. It carries exactly one completion
  each of defense generation, mitigation check and bypass validation, all under the command's
  correlation id, each naming its own result in the approved table; its references and routing are
  exactly those of the three completions and the routing context, its idempotency key is its
  request id, and the routing is either a proof without bypass or the exhausted loop of 10 of 10
  iterations with a bypass.
\<close>

theorem orchestration_request_is_bound:
  assumes "validate_envelope e = Inr e'" and "locator_mode e"
  shows "\<exists>is dg mc bv m. env_upstream_inputs e' = Some is \<and> set is = {dg, mc, bv} \<and> length is = 3
      \<and> up_capability dg = DefenseGeneration \<and> up_capability mc = MitigationCheck \<and> up_capability bv = BypassValidation
      \<and> (\<forall>i \<in> set is. Some (up_correlation_id i) = env_correlation_id e' \<and> ref_key (up_result_ref i) = up_result_id i
            \<and> approved_table (up_capability i) (up_result_ref i))
      \<and> env_upstream_refs e' = Some (normalized_references dg mc bv) \<and> env_routing_metadata e' = Some m
      \<and> bypass_result_ref m = up_result_ref bv \<and> env_idempotency_key e' = env_request_id e' \<and> env_request_id e' \<noteq> None
      \<and> (bypass_terminal_state m = NoBypassFound \<and> \<not> loop_exhausted m
         \<or> bypass_terminal_state m = BypassFound \<and> loop_exhausted m \<and> completed_iterations m = 10 \<and> max_iterations m = 10)"
proof -
  obtain xs where xs: "(case env_upstream_inputs e of
              None \<Rightarrow> Inr []
            | Some is \<Rightarrow> mapR (\<lambda>i. bindR (validate_databricks_reference (up_result_ref i)) (\<lambda>_. validate_completion i)) is) = Inr xs"
    and r: "validate_reference_routing e = Inr e'"
    using assms(1) by (auto simp: validate_envelope_def bindR_eq_Inr)
  obtain dg mc bv c where o: "orchestrated e dg mc bv c" and e': "e' = normalized e dg mc bv c"
    using r assms(2) check_reference_routing_same
    by (auto simp: validate_reference_routing_def bindR_eq_Inr normalize_orchestration_iff)
  obtain "is" where ups: "env_upstream_inputs e = Some is" "length is = 3" "distinct (map up_capability is)"
    "input_of DefenseGeneration is = Some dg" "input_of MitigationCheck is = Some mc" "input_of BypassValidation is = Some bv"
    "list_all (\<lambda>i. Some (up_correlation_id i) = env_correlation_id e) is" "env_request_id e \<noteq> None"
    using o by (auto simp: orchestrated_def missing_orchestration_field_def)
  note mem = ups(4-6) [THEN input_of_member]
  have "card (set is) = 3" using ups(2,3) distinct_card [of "is"] by (simp add: distinct_map)
  moreover have "dg \<noteq> mc" "dg \<noteq> bv" "mc \<noteq> bv" using mem by auto
  then have "card {dg, mc, bv} = 3" by simp
  moreover have "{dg, mc, bv} \<subseteq> set is" using mem by auto
  ultimately have set: "set is = {dg, mc, bv}" by (metis List.finite_set card_subset_eq)
  have each: "ref_key (up_result_ref i) = up_result_id i \<and> approved_table (up_capability i) (up_result_ref i)" if "i \<in> set is" for i
    using mapR_all [of _ "is" xs i] xs ups(1) that validate_completionD [of i] by (fastforce simp: bindR_eq_Inr)
  have route: "validate_route (normalized_routing c bv) = Inr (normalized_routing c bv)" using o by (simp add: orchestrated_def)
  then have "bypass_terminal_state (normalized_routing c bv) = NoBypassFound \<and> \<not> loop_exhausted (normalized_routing c bv)
     \<or> bypass_terminal_state (normalized_routing c bv) = BypassFound \<and> loop_exhausted (normalized_routing c bv)
       \<and> completed_iterations (normalized_routing c bv) = 10 \<and> max_iterations (normalized_routing c bv) = 10"
    by (cases "bypass_terminal_state (normalized_routing c bv)") (auto simp: validate_route_def split: if_splits)
  moreover have "env_correlation_id e' = env_correlation_id e" using e' by (simp add: normalized_def)
  ultimately show ?thesis using ups set mem each e'
    by (intro exI [of _ "is"] exI [of _ dg] exI [of _ mc] exI [of _ bv] exI [of _ "normalized_routing c bv"])
      (simp add: normalized_routing_def list_all_iff)
qed

text \<open>A sample orchestration request, and the state of its bypass validation.\<close>

definition sample_ref :: "upstream_capability \<Rightarrow> string \<Rightarrow> result_reference" where
  "sample_ref c key =
     \<lparr>ref_system = Databricks, ref_catalog = Some approved_catalog, ref_schema = Some (fst (snd (approved_reference c))),
      ref_table = Some (snd (snd (approved_reference c))), ref_contract_id = None, ref_namespace = None, ref_key = key\<rparr>"

definition sample_upstream :: "upstream_capability \<Rightarrow> string \<Rightarrow> string \<Rightarrow> upstream_input" where
  "sample_upstream c contract state =
     (let key = fst (approved_reference c) @ ''1'' in
      \<lparr>up_capability = c, up_contract_id = contract, up_run_id = ''1'', up_result_id = key, up_terminal_state = state,
       up_request_id = None, up_correlation_id = ''correlation-1'', up_result_ref = sample_ref c key, up_evidence_refs = [],
       up_content_sha256 = None, up_size_bytes = None, up_created_at = None\<rparr>)"

definition sample_orchestration :: request_envelope where
  "sample_orchestration =
     \<lparr>env_contract_id = Some ''control-translation@1.0'',
      env_input = \<lparr>input_pattern = None, input_target = None,
        input_policy = \<lparr>translation_policy_id = ''p'', allow_narrower_translation = True, allow_equivalent_translation = True,
          allow_broader_translation = True\<rparr>, current_policy_snapshot_id = None\<rparr>,
      env_subject = Some \<lparr>subj_vulnerability_id = ''v'', subj_candidate_id = ''c''\<rparr>,
      env_upstream_inputs = Some [sample_upstream DefenseGeneration ''defense-generation@1.0'' ''candidate-produced'',
        sample_upstream MitigationCheck ''mitigation-check@1.0'' ''blocked'',
        sample_upstream BypassValidation ''bypass-validation@1.0'' ''no-bypass-found''],
      env_routing_context = Some \<lparr>rc_route = Validated, rc_bypass_state = NoBypassFound, rc_loop_exhausted = False,
        rc_completed_iterations = 2, rc_max_iterations = 10\<rparr>,
      env_upstream_refs = None, env_routing_metadata = None, env_scope_config = [], env_request_id = Some ''request-1'',
      env_correlation_id = Some ''correlation-1'', env_idempotency_key = None, env_revision_id = None,
      env_provenance = Some \<lparr>prov_caller = None, prov_source = None\<rparr>, env_callback_url = None\<rparr>"

lemma sample_orchestration_accepted: "\<exists>e'. validate_envelope sample_orchestration = Inr e'"
proof -
  have "case validate_envelope sample_orchestration of Inl _ \<Rightarrow> False | Inr _ \<Rightarrow> True" by code_simp
  then show ?thesis by (auto split: sum.splits)
qed

lemma revalidation_is_identity_witness:
  "\<exists>e'. validate_envelope sample_orchestration = Inr e' \<and> validate_envelope e' = Inr e'"
  using sample_orchestration_accepted revalidation_is_identity by blast

lemma orchestration_request_is_bound_witness:
  "\<exists>e' m. validate_envelope sample_orchestration = Inr e' \<and> env_routing_metadata e' = Some m
     \<and> bypass_terminal_state m = NoBypassFound \<and> \<not> loop_exhausted m
   \<or> (\<exists>e' m. validate_envelope sample_orchestration = Inr e' \<and> env_routing_metadata e' = Some m
     \<and> bypass_terminal_state m = BypassFound \<and> completed_iterations m = 10)"
proof -
  obtain e' where e': "validate_envelope sample_orchestration = Inr e'" using sample_orchestration_accepted by blast
  have "locator_mode sample_orchestration" by code_simp
  then show ?thesis using orchestration_request_is_bound [OF e'] e' by blast
qed

section \<open>The four-result join\<close>

lemma validate_locatorD:
  assumes "validate_authenticated_locator i = Inr j"
  shows "(up_contract_id i, up_terminal_state i) = v2_expected (up_capability i)
    \<and> starts_with (up_result_id i) (fst (approved_reference (up_capability i))) \<and> ref_key (up_result_ref i) = up_result_id i
    \<and> approved_table (up_capability i) (up_result_ref i) \<and> distinct (up_evidence_refs i)"
  using assms by (auto simp: validate_authenticated_locator_def Let_def split: if_splits)

text \<open>
  C33. An accepted shared-contract request joins exactly one completion of each of the four
  capabilities: for every capability there is one and only one locator, it names the contract and
  the terminal state of a passed proof, its own result in the approved table, and the command's
  correlation id. In particular no bypass was found.
\<close>

theorem shared_join_is_exact:
  assumes "validate_shared_v2 r = Inr r'"
  shows "r' = r \<and> (\<forall>c. \<exists>i. filter (\<lambda>i. up_capability i = c) (v2_upstream_inputs r) = [i]
      \<and> (up_contract_id i, up_terminal_state i) = v2_expected c \<and> up_correlation_id i = v2_correlation_id r
      \<and> starts_with (up_result_id i) (fst (approved_reference c)) \<and> ref_key (up_result_ref i) = up_result_id i
      \<and> approved_table c (up_result_ref i))"
proof -
  let ?is = "v2_upstream_inputs r"
  obtain xs where xs: "mapR validate_authenticated_locator ?is = Inr xs" and four: "length ?is = 4"
    and join: "validate_exact_join r = Inr r'"
    using assms by (auto simp: validate_shared_v2_def bindR_eq_Inr split: if_splits)
  have caps: "set (map up_capability ?is) = {CheckGeneration, DefenseGeneration, MitigationCheck, BypassValidation}"
    and corr: "\<forall>i \<in> set ?is. up_correlation_id i = v2_correlation_id r" and r': "r' = r"
    using join by (auto simp: validate_exact_join_def list_ex_iff split: if_splits)
  have "distinct (map up_capability ?is)"
    by (rule card_distinct, subst caps) (simp add: four)
  have one: "\<exists>i. filter (\<lambda>i. up_capability i = c) ?is = [i] \<and> i \<in> set ?is \<and> up_capability i = c" for c
  proof -
    have "c \<in> set (map up_capability ?is)" using caps by (cases c) auto
    then obtain i where i: "i \<in> set ?is" "up_capability i = c" by auto
    have "filter (\<lambda>j. up_capability j = up_capability i) xs = [i]"
      if "distinct (map up_capability xs)" "i \<in> set xs" for xs
      using that by (induction xs) (auto simp: filter_empty_conv dest: sym)
    then show ?thesis using \<open>distinct _\<close> i by fastforce
  qed
  show ?thesis
  proof (intro conjI allI)
    fix c
    obtain i where i: "filter (\<lambda>i. up_capability i = c) ?is = [i]" "i \<in> set ?is" "up_capability i = c" using one by blast
    obtain j where "validate_authenticated_locator i = Inr j" using mapR_all [OF xs i(2)] by blast
    then show "\<exists>i. filter (\<lambda>i. up_capability i = c) ?is = [i] \<and> (up_contract_id i, up_terminal_state i) = v2_expected c
        \<and> up_correlation_id i = v2_correlation_id r \<and> starts_with (up_result_id i) (fst (approved_reference c))
        \<and> ref_key (up_result_ref i) = up_result_id i \<and> approved_table c (up_result_ref i)"
      using i corr validate_locatorD by metis
  qed (rule r')
qed

definition sample_join :: shared_v2_request where
  "sample_join =
     \<lparr>v2_profile_id = WafStandard1, v2_request_id = ''request-1'', v2_correlation_id = ''correlation-1'',
      v2_upstream_inputs = map (\<lambda>c. sample_upstream c (fst (v2_expected c)) (snd (v2_expected c)))
        [CheckGeneration, DefenseGeneration, MitigationCheck, BypassValidation],
      v2_target_context = None, v2_provenance = \<lparr>prov_caller = None, prov_source = None\<rparr>\<rparr>"

lemma shared_join_is_exact_witness:
  "validate_shared_v2 sample_join = Inr sample_join
   \<and> (\<exists>i. filter (\<lambda>i. up_capability i = BypassValidation) (v2_upstream_inputs sample_join) = [i] \<and> up_terminal_state i = ''no-bypass-found'')"
proof -
  have v: "validate_shared_v2 sample_join = Inr sample_join" by code_simp
  then show ?thesis using shared_join_is_exact [OF v, THEN conjunct2, rule_format, of BypassValidation]
    by (auto simp: v2_expected_def)
qed

end
