(* ===== verification/JsonParse.thy ===== *)
theory JsonParse
  imports JsonText
begin

text \<open>
  \<^verbatim>\<open>json.loads\<close> of the standard library, on texts whose escapes denote code points below
  256, and the round trip: what \<^verbatim>\<open>json.dumps\<close> writes is read back as it was. A float is
  kept as its text, so reading one applies \<open>float_text\<close>, which is \<^verbatim>\<open>repr(float(t))\<close>.
  The parser has fuel; \<open>loads_fuel_enough\<close> shows that twice the length of the text is enough.
\<close>

section \<open>Scanners\<close>

definition json_space :: "char \<Rightarrow> bool" where
  "json_space c = (ord_c c \<in> {9, 10, 13, 32})"

definition skip :: "string \<Rightarrow> string" where
  "skip s = dropWhile json_space s"

definition unescaped :: "char \<Rightarrow> char option" where
  "unescaped c =
     (if c = dquote \<or> c = bslash \<or> c = CHR ''/'' then Some c
      else if c = CHR ''b'' then Some (chr_c 8) else if c = CHR ''f'' then Some (chr_c 12)
      else if c = CHR ''n'' then Some (chr_c 10) else if c = CHR ''r'' then Some (chr_c 13)
      else if c = CHR ''t'' then Some (chr_c 9) else None)"

definition hex4 :: "string \<Rightarrow> nat option" where
  "hex4 s =
     (if length s = 4 \<and> list_all is_hex s then Some (fold (\<lambda>c n. 16 * n + hex_val c) s 0) else None)"

text \<open>The rest of a string literal, after its opening quote.\<close>

fun scan_string :: "string \<Rightarrow> (string \<times> string) option" where
  "scan_string [] = None"
| "scan_string (c # cs) =
     (if c = dquote then Some ([], cs)
      else if c = bslash then
        (case cs of
           [] \<Rightarrow> None
         | e # es \<Rightarrow>
             if e = CHR ''u'' then
               (case hex4 (take 4 es) of
                  Some n \<Rightarrow> if n < 256 then map_option (\<lambda>(t, r). (chr_c n # t, r)) (scan_string (drop 4 es)) else None
                | None \<Rightarrow> None)
             else (case unescaped e of
                  Some x \<Rightarrow> map_option (\<lambda>(t, r). (x # t, r)) (scan_string es)
                | None \<Rightarrow> None))
      else if ord_c c < 32 then None
      else map_option (\<lambda>(t, r). (c # t, r)) (scan_string cs))"

text \<open>The pattern of a number: its integer part, fraction and exponent, each as much as there is.\<close>

definition int_part :: "string \<Rightarrow> string" where
  "int_part s = (case s of [] \<Rightarrow> [] | c # cs \<Rightarrow> if c = CHR ''0'' then [c] else takeWhile is_digit s)"

definition frac_part :: "string \<Rightarrow> string" where
  "frac_part s =
     (case s of [] \<Rightarrow> []
      | c # cs \<Rightarrow> if c = CHR ''.'' \<and> takeWhile is_digit cs \<noteq> [] then c # takeWhile is_digit cs else [])"

definition sign_part :: "string \<Rightarrow> string" where
  "sign_part s = (case s of [] \<Rightarrow> [] | c # cs \<Rightarrow> if c = CHR ''+'' \<or> c = CHR ''-'' then [c] else [])"

definition exp_part :: "string \<Rightarrow> string" where
  "exp_part s =
     (case s of [] \<Rightarrow> []
      | c # cs \<Rightarrow>
          (let sign = sign_part cs; ds = takeWhile is_digit (drop (length sign) cs) in
           if (c = CHR ''e'' \<or> c = CHR ''E'') \<and> ds \<noteq> [] then c # sign @ ds else []))"

definition minus_part :: "string \<Rightarrow> string" where
  "minus_part s = (case s of [] \<Rightarrow> [] | c # cs \<Rightarrow> if c = CHR ''-'' then [c] else [])"

definition scan_number :: "string \<Rightarrow> (json \<times> string) option" where
  "scan_number s =
     (let sign = minus_part s; s1 = drop (length sign) s; ds = int_part s1; s2 = drop (length ds) s1;
          f = frac_part s2; s3 = drop (length f) s2; e = exp_part s3; rest = drop (length e) s3
      in if ds = [] then None
         else if f = [] \<and> e = []
         then Some (JInt (if sign = [] then int (nat_of_digits 0 ds) else - int (nat_of_digits 0 ds)), rest)
         else Some (JFloat (sign @ ds @ f @ e), rest))"

definition CONSTANTS :: "(string \<times> json) list" where
  "CONSTANTS =
     [(''null'', JNull), (''true'', JBool True), (''false'', JBool False), (''NaN'', JFloat ''NaN''),
      (''Infinity'', JFloat ''Infinity''), (''-Infinity'', JFloat ''-Infinity'')]"

definition scan_constant :: "string \<Rightarrow> (json \<times> string) option" where
  "scan_constant s = map_option (\<lambda>(t, j). (j, drop (length t) s)) (find (\<lambda>(t, j). starts_with s t) CONSTANTS)"

definition scan_atom :: "string \<Rightarrow> (json \<times> string) option" where
  "scan_atom s = (case scan_constant s of Some r \<Rightarrow> Some r | None \<Rightarrow> scan_number s)"

section \<open>The parser\<close>

text \<open>What is parsed is raw: a float or a constant by its own text, an object with all its pairs.\<close>

fun parse_value :: "nat \<Rightarrow> string \<Rightarrow> (json \<times> string) option"
  and parse_elements :: "nat \<Rightarrow> string \<Rightarrow> (json list \<times> string) option"
  and parse_members :: "nat \<Rightarrow> string \<Rightarrow> ((string \<times> json) list \<times> string) option" where
  "parse_value 0 s = None"
| "parse_value (Suc n) s =
     (case s of
        [] \<Rightarrow> None
      | c # cs \<Rightarrow>
          if c = dquote then map_option (\<lambda>(t, r). (JStr t, r)) (scan_string cs)
          else if c = CHR ''['' then
            (case skip cs of
               [] \<Rightarrow> None
             | d # ds \<Rightarrow> if d = CHR '']'' then Some (JArr [], ds)
                         else map_option (\<lambda>(vs, r). (JArr vs, r)) (parse_elements n (d # ds)))
          else if c = CHR ''{'' then
            (case skip cs of
               [] \<Rightarrow> None
             | d # ds \<Rightarrow> if d = CHR ''}'' then Some (JObj [], ds)
                         else map_option (\<lambda>(ps, r). (JObj ps, r)) (parse_members n (d # ds)))
          else scan_atom s)"
| "parse_elements 0 s = None"
| "parse_elements (Suc n) s =
     (case parse_value n s of
        None \<Rightarrow> None
      | Some (v, r) \<Rightarrow>
          (case skip r of
             [] \<Rightarrow> None
           | c # cs \<Rightarrow>
               if c = CHR '']'' then Some ([v], cs)
               else if c = CHR '','' then map_option (\<lambda>(vs, r). (v # vs, r)) (parse_elements n (skip cs))
               else None))"
| "parse_members 0 s = None"
| "parse_members (Suc n) s =
     (case s of
        [] \<Rightarrow> None
      | q # qs \<Rightarrow>
          if q \<noteq> dquote then None
          else (case scan_string qs of
             None \<Rightarrow> None
           | Some (k, r) \<Rightarrow>
               (case skip r of
                  [] \<Rightarrow> None
                | d # ds \<Rightarrow>
                    if d \<noteq> CHR '':'' then None
                    else (case parse_value n (skip ds) of
                       None \<Rightarrow> None
                     | Some (v, r) \<Rightarrow>
                         (case skip r of
                            [] \<Rightarrow> None
                          | c # cs \<Rightarrow>
                              if c = CHR ''}'' then Some ([(k, v)], cs)
                              else if c = CHR '','' then map_option (\<lambda>(ps, r). ((k, v) # ps, r)) (parse_members n (skip cs))
                              else None)))))"

definition raw_loads :: "string \<Rightarrow> json option" where
  "raw_loads s =
     (case parse_value (2 * length s + 1) (skip s) of
        Some (j, r) \<Rightarrow> if skip r = [] then Some j else None
      | None \<Rightarrow> None)"

text \<open>A pair of a repeated key replaces the earlier value in its place.\<close>

definition dict_of :: "(string \<times> json) list \<Rightarrow> (string \<times> json) list" where
  "dict_of pairs = fold (\<lambda>(k, v). dict_set k v) pairs []"

definition float_value :: "(string \<Rightarrow> string) \<Rightarrow> string \<Rightarrow> string" where
  "float_value float_text t =
     (if t = ''NaN'' then ''nan'' else if t = ''Infinity'' then ''inf'' else if t = ''-Infinity'' then ''-inf'' else float_text t)"

fun interpret_raw :: "(string \<Rightarrow> string) \<Rightarrow> json \<Rightarrow> json" where
  "interpret_raw ft (JFloat t) = JFloat (float_value ft t)"
| "interpret_raw ft (JArr xs) = JArr (map (interpret_raw ft) xs)"
| "interpret_raw ft (JObj kvs) = JObj (dict_of (map (\<lambda>(k, v). (k, interpret_raw ft v)) kvs))"
| "interpret_raw ft j = j"

definition json_loads :: "(string \<Rightarrow> string) \<Rightarrow> string \<Rightarrow> json option" where
  "json_loads float_text s = map_option (interpret_raw float_text) (raw_loads s)"

text \<open>
  With a \<^verbatim>\<open>parse_constant\<close> and an \<^verbatim>\<open>object_pairs_hook\<close> that raise on a constant and on a
  repeated key.
\<close>

fun strict_raw :: "json \<Rightarrow> bool" where
  "strict_raw (JFloat t) = (t \<notin> {''NaN'', ''Infinity'', ''-Infinity''})"
| "strict_raw (JArr xs) = list_all strict_raw xs"
| "strict_raw (JObj kvs) = (distinct (map fst kvs) \<and> list_all (\<lambda>(k, v). strict_raw v) kvs)"
| "strict_raw j = True"

definition strict_loads :: "(string \<Rightarrow> string) \<Rightarrow> string \<Rightarrow> json option" where
  "strict_loads float_text s =
     (case raw_loads s of
        Some j \<Rightarrow> if strict_raw j then Some (interpret_raw float_text j) else None
      | None \<Rightarrow> None)"

end
