(* ===== verification/Fnmatch.thy ===== *)
theory Fnmatch
  imports PyString
begin

text \<open>
  \<^verbatim>\<open>fnmatch.fnmatchcase\<close> of the standard library, and the form decoding
  \<^verbatim>\<open>urllib.parse.parse_qsl\<close> with blank values kept, as the translation engine uses them.
\<close>

section \<open>Wildcards\<close>

datatype wildcard = AnyRun | AnyChar | Literal char | OneOf bool "(char \<times> char) list"

text \<open>The members of a bracket expression: a range where a hyphen stands between two characters.\<close>

fun bracket_items :: "string \<Rightarrow> (char \<times> char) list" where
  "bracket_items (a # h # b # cs) = (if h = CHR ''-'' then (a, b) # bracket_items cs else (a, a) # bracket_items (h # b # cs))"
| "bracket_items [a, b] = [(a, a), (b, b)]"
| "bracket_items [a] = [(a, a)]"
| "bracket_items [] = []"

text \<open>
  The text of a bracket expression that starts a pattern, after its bracket: a closing bracket that
  comes first, or after the exclamation mark, is a member. Without a closing one there is none.
\<close>

definition bracket :: "string \<Rightarrow> (bool \<times> string \<times> string) option" where
  "bracket s =
     (let negated = (s \<noteq> [] \<and> hd s = CHR ''!''); body = (if negated then tl s else s);
          first = (if body \<noteq> [] \<and> hd body = CHR '']'' then [hd body] else []); rest = drop (length first) body;
          more = takeWhile (\<lambda>c. c \<noteq> CHR '']'') rest; close = drop (length more) rest
      in if close = [] then None else Some (negated, first @ more, tl close))"

lemma bracket_shorter: "bracket s = Some (b, m, r) \<Longrightarrow> length r < length s"
  by (auto simp: bracket_def Let_def split: if_splits)

function wildcards :: "string \<Rightarrow> wildcard list" where
  "wildcards [] = []"
| "wildcards (c # cs) =
     (if c = star_c then AnyRun # wildcards cs
      else if c = qmark_c then AnyChar # wildcards cs
      else if c = CHR ''['' then
        (case bracket cs of None \<Rightarrow> Literal c # wildcards cs
         | Some (negated, members, rest) \<Rightarrow> OneOf (\<not> negated) (bracket_items members) # wildcards rest)
      else Literal c # wildcards cs)"
  by pat_completeness auto
termination by (relation "measure length") (auto dest: bracket_shorter)

definition matches_char :: "wildcard \<Rightarrow> char \<Rightarrow> bool" where
  "matches_char w c =
     (case w of
        AnyRun \<Rightarrow> False | AnyChar \<Rightarrow> True | Literal d \<Rightarrow> c = d
      | OneOf inside items \<Rightarrow> list_ex (\<lambda>(a, b). ord_c a \<le> ord_c c \<and> ord_c c \<le> ord_c b) items = inside)"

fun wildcards_match :: "wildcard list \<Rightarrow> string \<Rightarrow> bool" where
  "wildcards_match [] s = (s = [])"
| "wildcards_match (AnyRun # ws) [] = wildcards_match ws []"
| "wildcards_match (AnyRun # ws) (c # cs) = (wildcards_match ws (c # cs) \<or> wildcards_match (AnyRun # ws) cs)"
| "wildcards_match (w # ws) [] = False"
| "wildcards_match (w # ws) (c # cs) = (matches_char w c \<and> wildcards_match ws cs)"

definition fnmatchcase :: "string \<Rightarrow> string \<Rightarrow> bool" where
  "fnmatchcase name pat = wildcards_match (wildcards pat) name"

lemma star_matches_all: "wildcards_match (AnyRun # ws) s \<longleftrightarrow> (\<exists>p q. s = p @ q \<and> wildcards_match ws q)"
proof (induction s)
  case (Cons c cs)
  show ?case
  proof
    assume "wildcards_match (AnyRun # ws) (c # cs)"
    then consider "wildcards_match ws (c # cs)" | "wildcards_match (AnyRun # ws) cs" by auto
    then show "\<exists>p q. c # cs = p @ q \<and> wildcards_match ws q"
      using Cons by cases (metis append_Nil, metis append_Cons)
  next
    assume "\<exists>p q. c # cs = p @ q \<and> wildcards_match ws q"
    then obtain p q where "c # cs = p @ q" "wildcards_match ws q" by blast
    then show "wildcards_match (AnyRun # ws) (c # cs)" using Cons by (cases p) auto
  qed
qed auto

text \<open>A pattern without special characters matches itself only.\<close>

definition plain :: "string \<Rightarrow> bool" where
  "plain s = (set s \<inter> {star_c, qmark_c, CHR ''[''} = {})"

lemma wildcards_plain: "plain p \<Longrightarrow> wildcards (p @ s) = map Literal p @ wildcards s"
  by (induction p) (auto simp: plain_def)

lemma literals_match: "wildcards_match (map Literal p @ ws) s \<longleftrightarrow> (\<exists>q. s = p @ q \<and> wildcards_match ws q)"
proof (induction p arbitrary: s)
  case (Cons c p)
  then show ?case by (cases s) (auto simp: matches_char_def)
qed simp

lemma contains_iff: "contains s p \<longleftrightarrow> (\<exists>a b. s = a @ p @ b)"
proof (induction s)
  case Nil
  then show ?case by auto
next
  case (Cons c cs)
  have "starts_with s p \<longleftrightarrow> (\<exists>b. s = p @ b)" for s
    by (induction s p rule: starts_with.induct) auto
  then show ?case using Cons by (auto simp: Cons_eq_append_conv)
qed

text \<open>A plain text between two stars matches what contains it.\<close>

lemma fnmatch_contains:
  assumes "plain p"
  shows "fnmatchcase s (star_c # p @ [star_c]) \<longleftrightarrow> contains s p"
proof -
  have "wildcards (star_c # p @ [star_c]) = AnyRun # map Literal p @ [AnyRun]"
    using wildcards_plain [OF assms, of "[star_c]"] by simp
  moreover have "wildcards_match [AnyRun] s" for s by (induction s) simp_all
  ultimately show ?thesis
    unfolding fnmatchcase_def contains_iff by (simp only: star_matches_all literals_match) auto
qed

lemma fnmatch_star: "fnmatchcase s [star_c]"
  unfolding fnmatchcase_def by (induction s) simp_all

section \<open>Form decoding\<close>

text \<open>
  \<open>unquote\<close> decodes percent escapes as UTF-8. An item without an equals sign has the empty value,
  an empty item none at all.
\<close>

definition plus_to_space :: "string \<Rightarrow> string" where
  "plus_to_space s = map (\<lambda>c. if c = CHR ''+'' then CHR '' '' else c) s"

definition form_pair :: "(string \<Rightarrow> string) \<Rightarrow> string \<Rightarrow> string \<times> string" where
  "form_pair unquote item =
     (case partition_c item (CHR ''='') of (name, value) \<Rightarrow> (unquote (plus_to_space name), unquote (plus_to_space value)))"

definition parse_qsl :: "(string \<Rightarrow> string) \<Rightarrow> string \<Rightarrow> (string \<times> string) list" where
  "parse_qsl unquote qs = map (form_pair unquote) (filter (\<lambda>item. item \<noteq> []) (py_split qs (CHR ''&'')))"

end
