(* ===== verification/Engine.thy ===== *)
theory Engine
  imports JsonParse Fnmatch Results Adapters
begin

text \<open>
  The translation engine, \<^verbatim>\<open>translation/engine.py\<close>: the deterministic proposals for the
  Akamai target in their order of authority, the doer that is asked when there is none, the policy
  on translation labels, and the judge gates every proposal passes before it becomes a candidate.

  The standard library's functions on whole texts are a record. A doer is a record of functions: a
  proposal, or the text of the exception it raises. Exceptions that the engine lets through are the
  left injection of its outcome, by the name of their type; the checks of the cancellation signal
  between its steps only end an invocation early, with no effect to undo, and are left to the
  worker, for which an invocation may raise anything.
\<close>

record decoders =
  json_message :: "string \<Rightarrow> string"
  float_text :: "string \<Rightarrow> string"
  unquote_text :: "string \<Rightarrow> string"
  parse_xml :: "string \<Rightarrow> string + xml_element"
  hex_sha256 :: "nat list \<Rightarrow> string"

definition decode_json :: "decoders \<Rightarrow> string \<Rightarrow> string + json" where
  "decode_json d t = (case json_loads (float_text d) t of Some j \<Rightarrow> Inr j | None \<Rightarrow> Inl (json_message d t))"

definition candidate_of :: "decoders \<Rightarrow> string \<Rightarrow> candidate" where
  "candidate_of d t = \<lparr>content_text = t, content_json = decode_json d t, content_xml = parse_xml d (strip t)\<rparr>"

record engine_failure =
  failure_reason :: string
  failure_text :: string
  failed_source :: string
  failed_llm :: bool

record engine_success =
  success_candidate :: primary_candidate
  success_source :: string
  success_llm :: bool

datatype engine_result = EngineFailure engine_failure | EngineSuccess engine_success

section \<open>Requests of the proof loop\<close>

record request_context =
  context_method :: string
  context_path :: string
  context_headers :: "(string \<times> string) list"
  context_body :: string

definition context_content_type :: "request_context \<Rightarrow> string" where
  "context_content_type c =
     (case find (\<lambda>(n, v). py_lower n = ''content-type'') (context_headers c) of None \<Rightarrow> [] | Some (n, v) \<Rightarrow> py_lower v)"

record doer =
  propose :: "proven_pattern \<Rightarrow> string \<Rightarrow> string \<Rightarrow> policy_snapshot option \<Rightarrow> requirements option \<Rightarrow> string + proposal"
  repair :: "(proven_pattern \<Rightarrow> string \<Rightarrow> string \<Rightarrow> policy_snapshot option \<Rightarrow> requirements option \<Rightarrow> proposal \<Rightarrow> string list
              \<Rightarrow> string + proposal) option"
  deterministic_proposal_source :: "string option"

record translation_task =
  task_pattern :: proven_pattern
  task_technology :: string
  task_context_id :: string
  task_adapter :: adapter
  task_doer :: doer
  task_snapshot :: "policy_snapshot option"
  task_requirements :: "requirements option"
  task_request :: "request_context option"
  task_policy :: translation_policy

section \<open>Content and policy\<close>

definition normalize_candidate_content :: "json \<Rightarrow> string checked" where
  "normalize_candidate_content content =
     (case content of
        JStr s \<Rightarrow> Inr s
      | JObj kvs \<Rightarrow> if finite_json content then Inr (json_text content)
                    else Inl ''Translation provider returned non-serializable candidate content.''
      | JArr xs \<Rightarrow> if finite_json content then Inr (json_text content)
                   else Inl ''Translation provider returned non-serializable candidate content.''
      | _ \<Rightarrow> Inl ''Translation provider returned unsupported candidate content type.'')"

definition failed :: "string \<Rightarrow> string \<Rightarrow> string \<Rightarrow> bool \<Rightarrow> engine_failure" where
  "failed reason detail source llm =
     \<lparr>failure_reason = reason, failure_text = detail, failed_source = source, failed_llm = llm\<rparr>"

definition proposal_policy_failure :: "proposal \<Rightarrow> translation_policy \<Rightarrow> (string \<times> string) option" where
  "proposal_policy_failure p policy =
     (if translation_label p = ''broader'' \<and> \<not> allow_broader_translation policy
      then Some (''unsupported-feature'', ''Translation is broader than the proven source semantics, and '' @
                 ''the current translation policy does not allow broader translations.'')
      else if translation_label p \<notin> set [''exact'', ''equivalent'', ''narrower'', ''broader'']
      then Some (''provider-failure'', ''Doer returned an invalid translation_label: '' @ repr_str (translation_label p))
      else if translation_label p = ''equivalent'' \<and> \<not> allow_equivalent_translation policy
      then Some (''unsupported-feature'', ''Translation policy does not allow equivalent translations.'')
      else if translation_label p = ''narrower'' \<and> \<not> allow_narrower_translation policy
      then Some (''unsupported-feature'', ''Translation policy does not allow narrower translations.'')
      else None)"

section \<open>The JSON body field\<close>

text \<open>The method and the content type of a feature are literals.\<close>

definition METHOD :: string where "METHOD = ''POST''"

definition CONTENT_TYPE :: string where "CONTENT_TYPE = ''application/json''"

definition feature_parameter :: "json_body_field_feature \<Rightarrow> string" where
  "feature_parameter f = join ''.'' (field_path f)"

definition json_body_field_rule :: "proven_pattern \<Rightarrow> json_body_field_feature \<Rightarrow> json" where
  "json_body_field_rule pattern f =
     (let parameter = feature_parameter f; mode = value_match_mode f;
          val = (if mode = ''field-present'' then [star_c]
                 else if mode = ''contains-token'' then star_c # feature_value f @ [star_c] else feature_value f)
      in JObj
        [(''name'', JStr (''JANUS-'' @ vulnerability_id pattern @ ''-JSON-Body-Field'')),
         (''description'', JStr (''Matches the proven JSON request field '' @ parameter @ ''.'')),
         (''operation'', JStr ''AND''),
         (''conditions'', JArr
           [JObj [(''type'', JStr ''requestMethodMatch''), (''positiveMatch'', JBool True), (''value'', JArr [JStr METHOD])],
            JObj [(''type'', JStr ''requestHeaderValueMatch''), (''positiveMatch'', JBool True), (''header'', JStr ''Content-Type''),
                  (''valueCase'', JBool False), (''valueWildcard'', JBool True),
                  (''value'', JArr [JStr (star_c # CONTENT_TYPE @ [star_c])])],
            JObj [(''type'', JStr ''argsPostJSONMatch''), (''positiveMatch'', JBool True), (''parameter'', JStr parameter),
                  (''valueCase'', JBool True), (''valueWildcard'', JBool (mode \<in> set [''contains-token'', ''field-present''])),
                  (''value'', JArr [JStr val])]]),
         (''tag'', JArr [JStr ''JANUS'', JStr ''json-body-field'', JStr ''virtual-patch''])])"

definition akamai_json_body_field_proposal :: "proven_pattern \<Rightarrow> proposal option" where
  "akamai_json_body_field_proposal pattern =
     (case json_body_feature pattern of
        None \<Rightarrow> None
      | Some f \<Rightarrow> Some
          \<lparr>candidate_content = json_body_field_rule pattern f,
           translation_label = (if value_match_mode f \<in> set [''exact'', ''field-present''] then ''equivalent'' else ''narrower''),
           justification = ''Mapped the uniquely corroborated Mitigation Check JSON field to an '' @
             ''Akamai-like JSON POST-argument condition that preserves the proven '' @ ''Defense Generation blocking semantics.'',
           translation_assumptions =
             [''The target supports dotted JSON field selection on argsPostJSONMatch.'',
              ''The recommended deny action is assigned at the security-policy binding.''],
           limitations =
             [''This is a shape-validated Akamai-like demo candidate, not tenant-validated configuration.'',
              ''Operator review and target-specific policy binding are required before deployment.''],
           answer_kind = ''construction''\<rparr>)"

definition json_condition_values :: "(string \<times> json) list \<Rightarrow> string list" where
  "json_condition_values c =
     (case get_or_null c ''value'' of
        JStr s \<Rightarrow> [s]
      | JArr xs \<Rightarrow> concat (map (\<lambda>j. case j of JStr s \<Rightarrow> [s] | _ \<Rightarrow> []) xs)
      | _ \<Rightarrow> [])"

text \<open>\<^verbatim>\<open>casefold\<close> on the modelled code points.\<close>

definition casefold :: "string \<Rightarrow> string" where
  "casefold s = concat (map (\<lambda>c. if ord_c c = 223 then ''ss'' else [lower_c c]) s)"

definition wildcard_match :: "string \<Rightarrow> string \<Rightarrow> bool \<Rightarrow> bool" where
  "wildcard_match actual pat case_sensitive =
     (if case_sensitive then fnmatchcase actual pat else fnmatchcase (casefold actual) (casefold pat))"

fun lookup_path :: "string list \<Rightarrow> json \<Rightarrow> json option" where
  "lookup_path [] j = Some j"
| "lookup_path (k # ks) (JObj kvs) = (case get kvs k of None \<Rightarrow> None | Some v \<Rightarrow> lookup_path ks v)"
| "lookup_path (k # ks) j = None"

definition is_true :: "(string \<times> json) list \<Rightarrow> string \<Rightarrow> bool" where
  "is_true c k = (get_or_null c k = JBool True)"

text \<open>The outcome of a condition on a document; \<open>None\<close> ends the evaluation with no match.\<close>

definition condition_outcome :: "json_body_field_feature \<Rightarrow> json \<Rightarrow> (string \<times> json) list \<Rightarrow> bool option" where
  "condition_outcome f document c =
     (let ty = get_or_null c ''type'' in
      if ty = JStr ''requestMethodMatch'' then Some (METHOD \<in> set (json_condition_values c))
      else if ty = JStr ''requestHeaderValueMatch''
      then (if py_lower (py_str (case get c ''header'' of None \<Rightarrow> JStr [] | Some h \<Rightarrow> h)) \<noteq> ''content-type'' then None
            else Some (list_ex (\<lambda>v. wildcard_match CONTENT_TYPE v (is_true c ''valueCase'')) (json_condition_values c)))
      else if ty = JStr ''argsPostJSONMatch''
      then (if get_or_null c ''parameter'' \<noteq> JStr (feature_parameter f) then None
            else (case lookup_path (field_path f) document of
                Some (JStr actual) \<Rightarrow>
                  Some (list_ex (\<lambda>v. if is_true c ''valueWildcard'' then wildcard_match actual v (is_true c ''valueCase'') else v = actual)
                    (json_condition_values c))
              | _ \<Rightarrow> None))
      else None)"

fun condition_outcomes :: "json_body_field_feature \<Rightarrow> json \<Rightarrow> json list \<Rightarrow> bool list option checked" where
  "condition_outcomes f document [] = Inr (Some [])"
| "condition_outcomes f document (JObj c # cs) =
     (case condition_outcome f document c of
        None \<Rightarrow> Inr None
      | Some b \<Rightarrow> bindR (condition_outcomes f document cs) (\<lambda>bs. Inr (map_option ((#) b) bs)))"
| "condition_outcomes f document (c # cs) = Inl ''AttributeError''"

text \<open>After the shape gate the conditions of a rule are a list of objects; a rule-set wrapper has no operation.\<close>

definition akamai_json_rule_matches :: "(string \<times> json) list \<Rightarrow> json_body_field_feature \<Rightarrow> json \<Rightarrow> bool checked" where
  "akamai_json_rule_matches rule f document =
     (if get_or_null rule ''operation'' \<noteq> JStr ''AND'' then Inr False
      else (case get rule ''conditions'' of
          None \<Rightarrow> Inr False
        | Some (JArr cs) \<Rightarrow> bindR (condition_outcomes f document cs) (\<lambda>outcomes.
            Inr (case outcomes of None \<Rightarrow> False | Some bs \<Rightarrow> bs \<noteq> [] \<and> list_all (\<lambda>b. b) bs))
        | Some _ \<Rightarrow> Inl ''TypeError''))"

definition nested_json_value :: "string list \<Rightarrow> string \<Rightarrow> json" where
  "nested_json_value path v = foldr (\<lambda>segment document. JObj [(segment, document)]) path (JStr v)"

definition malicious_value :: "json_body_field_feature \<Rightarrow> string" where
  "malicious_value f =
     (if value_match_mode f = ''field-present'' then ''janus-nonempty-proven-field''
      else if value_match_mode f = ''exact'' then feature_value f
      else ''janus-prefix '' @ feature_value f @ '' janus-suffix'')"

definition benign_document :: "json_body_field_feature \<Rightarrow> json" where
  "benign_document f =
     (if value_match_mode f = ''field-present'' then JObj [] else nested_json_value (field_path f) ''janus-benign-node-options'')"

definition akamai_json_body_semantic_errors :: "decoders \<Rightarrow> string \<Rightarrow> json_body_field_feature \<Rightarrow> string list checked" where
  "akamai_json_body_semantic_errors d content f =
     (case decode_json d content of
        Inl _ \<Rightarrow> Inl ''JSONDecodeError''
      | Inr (JObj rule) \<Rightarrow>
          bindR (akamai_json_rule_matches rule f (nested_json_value (field_path f) (malicious_value f))) (\<lambda>hit.
            if \<not> hit then Inr [''Akamai-like candidate does not match the proven malicious JSON field value'']
            else bindR (akamai_json_rule_matches rule f (benign_document f)) (\<lambda>benign_hit.
              Inr (if benign_hit then [''Akamai-like candidate also matches a benign JSON field value''] else [])))
      | Inr _ \<Rightarrow> Inl ''AttributeError'')"

section \<open>Literal rules and form bodies\<close>

definition eat_text :: "string \<Rightarrow> string \<Rightarrow> string option" where
  "eat_text w s = (if starts_with s w then Some (drop (length w) s) else None)"

definition eat_spaces :: "string \<Rightarrow> string option" where
  "eat_spaces s = (if s \<noteq> [] \<and> is_space (hd s) then Some (dropWhile is_space s) else None)"

text \<open>The places where a line starts, and the first of them that \<open>f\<close> accepts.\<close>

fun after_breaks :: "string \<Rightarrow> string list" where
  "after_breaks [] = []"
| "after_breaks (c # cs) = (if c = CHR 0x0A then cs # after_breaks cs else after_breaks cs)"

definition first_line :: "(string \<Rightarrow> 'a option) \<Rightarrow> string \<Rightarrow> 'a option" where
  "first_line f s = (case find (\<lambda>l. f l \<noteq> None) (s # after_breaks s) of None \<Rightarrow> None | Some l \<Rightarrow> f l)"

text \<open>\<^verbatim>\<open>_ANCHORED_LITERAL_ARGS_RULE\<close> at the start of a line: the argument and the literal.\<close>

definition argument_char :: "char \<Rightarrow> bool" where
  "argument_char c = (is_ascii_alnum c \<or> c \<in> set ''_.-'')"

definition literal_args_at :: "string \<Rightarrow> (string \<times> string) option" where
  "literal_args_at s =
     Option.bind (eat_text ''SecRule'' (dropWhile is_space s)) (\<lambda>s. Option.bind (eat_spaces s) (\<lambda>s.
     Option.bind (eat_text ''ARGS:'' s) (\<lambda>s.
       (let name = takeWhile argument_char s in
        if name = [] then None
        else Option.bind (eat_spaces (drop (length name) s)) (\<lambda>s. Option.bind (eat_text (dquote # ''@rx ^'') s) (\<lambda>s.
          (let body = takeWhile (\<lambda>c. c \<notin> set [dquote, bslash, CHR 0x0D, CHR 0x0A]) s in
           if length body < 2 \<or> last body \<noteq> CHR ''$'' then None
           else Option.bind (eat_text [dquote] (drop (length body) s)) (\<lambda>s. Option.bind (eat_spaces s) (\<lambda>s.
             if s \<noteq> [] \<and> hd s = dquote then Some (name, butlast body) else None)))))))))"

definition REGEX_META :: string where
  "REGEX_META = [CHR ''.'', bslash] @ ''^$*+?{}[]()|''"

definition stripped_literal :: "string \<Rightarrow> string" where
  "stripped_literal l = (if starts_with l ''(?:'' \<and> ends_with l '')'' then butlast (drop 3 l) else l)"

definition literal_values :: "string \<Rightarrow> string list" where
  "literal_values l = unique_list [l, quote l, quote_plus l, quote (quote l)]"

definition method_condition :: json where
  "method_condition =
     JObj [(''type'', JStr ''requestMethodMatch''), (''positiveMatch'', JBool True), (''value'', JArr [JStr ''POST''])]"

definition literal_rule :: "proven_pattern \<Rightarrow> string \<Rightarrow> string \<Rightarrow> json" where
  "literal_rule pattern parameter l = JObj
     [(''name'', JStr (''JANUS-'' @ vulnerability_id pattern @ ''-'' @ parameter @ ''-SQLi'')),
      (''description'', JStr (''Blocks the evidenced '' @ parameter @ '' SQL injection value and common '' @ ''form-encoding variants.'')),
      (''operation'', JStr ''AND''),
      (''conditions'', JArr
        [method_condition,
         JObj [(''type'', JStr ''argsPostMatch''), (''positiveMatch'', JBool True), (''parameter'', JStr parameter),
               (''valueCase'', JBool False), (''valueWildcard'', JBool False), (''value'', JArr (map JStr (literal_values l)))]]),
      (''tag'', JArr (map JStr [''JANUS'', vulnerability_id pattern, ''SQLi'', ''virtual-patch'']))]"

definition hardened_akamai_literal_proposal :: "proven_pattern \<Rightarrow> proposal option" where
  "hardened_akamai_literal_proposal pattern =
     (case first_line literal_args_at (pattern_summary pattern) of
        None \<Rightarrow> None
      | Some (parameter, body) \<Rightarrow>
          let l = stripped_literal body in
          if \<exists>c \<in> set l. c \<in> set REGEX_META then None
          else Some
            \<lparr>candidate_content = literal_rule pattern parameter l,
             translation_label = ''equivalent'',
             justification = ''Converted the anchored literal ModSecurity named-argument match '' @
               ''into explicit Akamai POST-argument values, including common form '' @ ''and double-encoding representations.'',
             translation_assumptions =
               [''The target Akamai policy supports parameter selection on argsPostMatch.'',
                ''The custom-rule action is assigned separately; recommended action: deny.''],
             limitations =
               [''The candidate has not been executed in an Akamai tenant.'',
                ''Coverage is limited to the evidenced literal and generated transport encodings.'',
                ''No authoritative endpoint path was available, so the rule is not path-scoped.''],
             answer_kind = ''construction''\<rparr>)"

text \<open>\<^verbatim>\<open>_REQUEST_BODY_RULE\<close> at the start of a line.\<close>

definition request_body_at :: "string \<Rightarrow> unit option" where
  "request_body_at s =
     Option.bind (eat_text ''SecRule'' (dropWhile is_space s)) (\<lambda>s. Option.bind (eat_spaces s) (\<lambda>s.
     Option.bind (eat_text ''REQUEST_BODY'' s) (\<lambda>s. Option.bind (eat_spaces s) (\<lambda>s.
       map_option (\<lambda>_. ()) (eat_text (dquote # ''@rx '') s)))))"

definition serialize_form :: "(string \<Rightarrow> string) \<Rightarrow> (string \<times> string) list \<Rightarrow> string" where
  "serialize_form encoder pairs = join ''&'' (map (\<lambda>(n, v). encoder n @ ''='' @ encoder v) pairs)"

definition form_values :: "string \<Rightarrow> (string \<times> string) list \<Rightarrow> string list" where
  "form_values body pairs =
     unique_list [body, serialize_form quote pairs, serialize_form quote_plus pairs, serialize_form (quote \<circ> quote) pairs]"

definition form_body_rule :: "proven_pattern \<Rightarrow> request_context \<Rightarrow> (string \<times> string) list \<Rightarrow> json" where
  "form_body_rule pattern rc pairs = JObj
     [(''name'', JStr (''JANUS-'' @ vulnerability_id pattern @ ''-Form-Body-Mitigation'')),
      (''description'', JStr ''Blocks the evidenced form body and common transport encodings.''),
      (''operation'', JStr ''AND''),
      (''conditions'', JArr
        ([method_condition]
         @ (if starts_with (context_path rc) ''/''
            then [JObj [(''type'', JStr ''pathMatch''), (''positiveMatch'', JBool True), (''value'', JArr [JStr (context_path rc)])]] else [])
         @ [JObj [(''type'', JStr ''argsPostMatch''), (''positiveMatch'', JBool True), (''valueCase'', JBool False),
                  (''valueWildcard'', JBool False), (''value'', JArr (map JStr (form_values (context_body rc) pairs)))]])),
      (''tag'', JArr (map JStr [''JANUS'', vulnerability_id pattern, ''form-body'', ''virtual-patch'']))]"

definition hardened_akamai_form_body_proposal :: "decoders \<Rightarrow> proven_pattern \<Rightarrow> request_context option \<Rightarrow> proposal option" where
  "hardened_akamai_form_body_proposal d pattern request =
     (case request of
        None \<Rightarrow> None
      | Some rc \<Rightarrow>
          if first_line request_body_at (pattern_summary pattern) = None then None
          else if py_upper (context_method rc) \<noteq> ''POST'' then None
          else if \<not> contains (context_content_type rc) ''application/x-www-form-urlencoded'' then None
          else
            let pairs = parse_qsl (unquote_text d) (context_body rc) in
            if pairs = [] then None
            else Some
              \<lparr>candidate_content = form_body_rule pattern rc pairs,
               translation_label = ''narrower'',
               justification = ''Converted the authoritative proven form body into explicit Akamai '' @
                 ''raw, URL-encoded, plus-space, and double-encoded values.'',
               translation_assumptions =
                 [''The target Akamai policy evaluates argsPostMatch values for form-urlencoded POST bodies.'',
                  ''The custom-rule action is assigned separately; recommended action: deny.''],
               limitations =
                 [''The candidate has not been executed in an Akamai tenant.'',
                  ''The explicit values are narrower than arbitrary source regex semantics.''],
               answer_kind = ''construction''\<rparr>)"

section \<open>The order of the deterministic sources\<close>

definition structured_jndi_compaction :: "proposal option \<Rightarrow> bool" where
  "structured_jndi_compaction compiled =
     (case compiled of None \<Rightarrow> False | Some p \<Rightarrow> list_ex (\<lambda>l. contains l ''JNDI branches were compacted'') (limitations p))"

definition akamai_deterministic_proposal ::
  "decoders \<Rightarrow> proven_pattern \<Rightarrow> requirements option \<Rightarrow> request_context option \<Rightarrow> proposal option \<times> string" where
  "akamai_deterministic_proposal d pattern reqs request =
     (let compiled = compile_akamai_custom_rule pattern reqs in
      if compiled \<noteq> None \<and> (json_body_feature pattern \<noteq> None \<or> structured_jndi_compaction compiled)
      then (compiled, ''deterministic-modsec-rule'')
      else (case akamai_json_body_field_proposal pattern of
          Some p \<Rightarrow> (Some p, ''deterministic-json-body-field'')
        | None \<Rightarrow>
            (let fallback = (if compiled \<noteq> None then (compiled, ''deterministic-modsec-rule'') else (None, ''none'')) in
             if reqs \<noteq> None then fallback
             else (case hardened_akamai_literal_proposal pattern of
                 Some p \<Rightarrow> (Some p, ''deterministic-anchored-literal'')
               | None \<Rightarrow> (case hardened_akamai_form_body_proposal d pattern request of
                     Some p \<Rightarrow> (Some p, ''deterministic-form-body'')
                   | None \<Rightarrow> fallback)))))"

section \<open>The requirements of the proof loop\<close>

text \<open>\<^verbatim>\<open>json.dumps(..., sort_keys=True)\<close> with the default separators and ASCII escapes.\<close>

definition escape_ascii :: "char \<Rightarrow> string" where
  "escape_ascii c =
     (let n = ord_c c in
      if n < 127 then escape_char c
      else [bslash, CHR ''u'', CHR ''0'', CHR ''0'', hex_digit_lower (n div 16), hex_digit_lower (n mod 16)])"

definition ascii_string :: "string \<Rightarrow> string" where
  "ascii_string s = [dquote] @ concat (map escape_ascii s) @ [dquote]"

definition float_constant :: "string \<Rightarrow> string" where
  "float_constant t = (if t = ''nan'' then ''NaN'' else if t = ''inf'' then ''Infinity'' else if t = ''-inf'' then ''-Infinity'' else t)"

fun ascii_text :: "json \<Rightarrow> string" where
  "ascii_text JNull = ''null''"
| "ascii_text (JBool b) = (if b then ''true'' else ''false'')"
| "ascii_text (JInt i) = dec_int i"
| "ascii_text (JFloat t) = float_constant t"
| "ascii_text (JStr s) = ascii_string s"
| "ascii_text (JArr xs) = ''['' @ join '', '' (map ascii_text xs) @ '']''"
| "ascii_text (JObj kvs) = ''{'' @ join '', '' (map (\<lambda>(k, v). ascii_string k @ '': '' @ ascii_text v) kvs) @ ''}''"

definition required_akamai_condition_types :: "requirements \<Rightarrow> string list \<times> string" where
  "required_akamai_condition_types r =
     (let location = py_lower (ascii_text (sort_keys (JObj (case mutation_location r of None \<Rightarrow> [] | Some kvs \<Rightarrow> kvs)))) in
      if contains location ''header'' then ([''requestHeaderValueMatch''], ''request-header'')
      else if contains location ''query'' then ([''uriQueryMatch''], ''query-string'')
      else if contains location ''cookie'' then ([''cookieMatch''], ''cookie'')
      else if contains location ''path'' then ([''pathMatch''], ''request-path'')
      else ([''argsPostMatch'', ''argsPostJSONMatch'', ''argsPostXMLMatch''], ''request-body''))"

definition value_covers :: "string \<Rightarrow> string \<Rightarrow> bool" where
  "value_covers configured required = (py_lower (strip_by (\<lambda>c. c = star_c) configured) = py_lower required)"

definition values_of_types :: "string list \<Rightarrow> json list \<Rightarrow> string list" where
  "values_of_types types conds =
     concat (map (\<lambda>j. case j of
         JObj c \<Rightarrow> if (case get_or_null c ''type'' of JStr t \<Rightarrow> t \<in> set types | _ \<Rightarrow> False) then json_condition_values c else []
       | _ \<Rightarrow> []) conds)"

definition akamai_semantic_errors :: "decoders \<Rightarrow> string \<Rightarrow> string \<Rightarrow> requirements \<Rightarrow> string list checked" where
  "akamai_semantic_errors d content lbl r =
     (if lbl \<notin> {''exact'', ''equivalent''} then Inr []
      else (case decode_json d content of
          Inl _ \<Rightarrow> Inl ''JSONDecodeError''
        | Inr (JObj rule) \<Rightarrow>
            (case get rule ''conditions'' of
               None \<Rightarrow> Inl ''KeyError''
             | Some (JArr conds) \<Rightarrow>
                 (case required_akamai_condition_types r of (types, component) \<Rightarrow>
                   (let vals = values_of_types types conds in Inr
                     (map (\<lambda>payload. ''Exact/equivalent Akamai translation does not preserve required '' @ component @ '' payload '' @
                               repr_str payload @ '' with a documented '' @ component @ '' condition'')
                        (filter (\<lambda>payload. \<not> list_ex (\<lambda>v. value_covers v payload) vals) (required_payloads r))
                      @ (case request_path r of
                           None \<Rightarrow> []
                         | Some p \<Rightarrow>
                             if list_ex (\<lambda>v. value_covers v p) (values_of_types [''pathMatch''] conds) then []
                             else [''Exact/equivalent Akamai translation does not preserve request path '' @ repr_str p @
                                   '' with a pathMatch condition'']))))
             | Some _ \<Rightarrow> Inl ''TypeError'')
        | Inr _ \<Rightarrow> Inl ''TypeError''))"

section \<open>The engine\<close>

definition content_digest :: "decoders \<Rightarrow> string \<Rightarrow> string" where
  "content_digest d content = ''sha256:'' @ hex_sha256 d (utf8 content)"

definition built_candidate :: "decoders \<Rightarrow> translation_task \<Rightarrow> proposal \<Rightarrow> string \<Rightarrow> string list \<Rightarrow> primary_candidate" where
  "built_candidate d i p content conflicts =
     (let pattern = task_pattern i; tech = task_technology i; hash = content_digest d content in
      \<lparr>candidate_id = ''control-candidate:'' @ vulnerability_id pattern @ '':'' @ tech @ '':'' @ take 16 (removeprefix hash ''sha256:''),
       cand_control_class = selected_control_class pattern, cand_technology = tech, cand_policy_context_id = task_context_id i,
       cand_artifact = candidate_artifact.make (adapter.artifact_type (task_adapter i)) content hash ''control-specific-mitigation-candidate'',
       cand_discriminator =
         \<lparr>source_discriminator_id = discriminator_id pattern, discriminator_translation = translation_label p,
          discriminator_justification = justification p, discriminator_evidence_refs = proof_record_ids pattern\<rparr>,
       cand_placement = \<lparr>policy_section = None, ordering_constraints = [], conflict_notes = conflicts\<rparr>,
       cand_impact_prior =
         \<lparr>prior_verdict = ''unknown'', prior_confidence = ''unknown'',
          prior_basis = ''Not measured by control-translation; inherited placeholder.'', prior_measured = False\<rparr>,
       cand_assumptions = translation_assumptions p, cand_limitations = limitations p, cand_provenance = proof_record_ids pattern,
       cand_metadata =
         (if tech = ''akamai-waf''
          then Some \<lparr>syntax_profile_id = ''janus-akamai-like-custom-rule-demo@1'', syntax_profile_family = ''akamai-like-custom-rule'',
                     semantic_relationship = Some (translation_label p)\<rparr>
          else None)\<rparr>)"

definition unsupported :: "string list \<Rightarrow> string \<Rightarrow> bool \<Rightarrow> engine_result" where
  "unsupported es source llm = EngineFailure (failed ''unsupported-feature'' (join ''; '' es) source llm)"

text \<open>The gates after the syntax gate: the JSON field, the requirements, conflicts; then the candidate.\<close>

definition judge_semantics :: "decoders \<Rightarrow> translation_task \<Rightarrow> proposal \<Rightarrow> string \<Rightarrow> string \<Rightarrow> bool \<Rightarrow> engine_result checked" where
  "judge_semantics d i p content source llm =
     (let akamai = (task_technology i = ''akamai-waf'') in
      bindR (case json_body_feature (task_pattern i) of
               Some f \<Rightarrow> if akamai \<and> source \<noteq> ''deterministic-modsec-rule'' then akamai_json_body_semantic_errors d content f else Inr []
             | None \<Rightarrow> Inr []) (\<lambda>field_errors.
      if field_errors \<noteq> [] then Inr (unsupported field_errors source llm)
      else bindR (case task_requirements i of
                    Some r \<Rightarrow> if akamai then akamai_semantic_errors d content (translation_label p) r else Inr []
                  | None \<Rightarrow> Inr []) (\<lambda>requirement_errors.
        if requirement_errors \<noteq> [] then Inr (unsupported requirement_errors source llm)
        else Inr (EngineSuccess
          \<lparr>success_candidate =
             built_candidate d i p content (detect_conflicts (task_adapter i) (candidate_of d content) (task_snapshot i)),
           success_source = source, success_llm = llm\<rparr>))))"

definition syntax_detail :: "syntax_result \<Rightarrow> string" where
  "syntax_detail res =
     (let detail = join ''; '' (errors res) in if detail = [] then ''Candidate failed syntax validation.'' else detail)"

definition syntax_gate :: "decoders \<Rightarrow> translation_task \<Rightarrow> string \<Rightarrow> syntax_result checked" where
  "syntax_gate d i content =
     (case validate_candidate (task_adapter i) (candidate_of d content) of Inl TypeError \<Rightarrow> Inl ''TypeError'' | Inr res \<Rightarrow> Inr res)"

definition provider_failure :: "string \<Rightarrow> string \<Rightarrow> bool \<Rightarrow> engine_result" where
  "provider_failure detail source llm = EngineFailure (failed ''provider-failure'' detail source llm)"

text \<open>The one repair that is asked of a doer.\<close>

definition judge_repair :: "decoders \<Rightarrow> translation_task \<Rightarrow> string + proposal \<Rightarrow> string \<Rightarrow> bool \<Rightarrow> engine_result checked" where
  "judge_repair d i repaired source llm =
     (case repaired of
        Inl detail \<Rightarrow> Inr (provider_failure detail source True)
      | Inr p \<Rightarrow>
          (case proposal_policy_failure p (task_policy i) of
             Some (reason, detail) \<Rightarrow> Inr (EngineFailure (failed reason detail source True))
           | None \<Rightarrow>
               (case normalize_candidate_content (candidate_content p) of
                  Inl detail \<Rightarrow> Inr (provider_failure detail source True)
                | Inr content \<Rightarrow>
                    bindR (syntax_gate d i content) (\<lambda>res.
                      if \<not> valid res
                      then Inr (provider_failure (''Translation provider produced invalid target candidate syntax '' @
                             ''after one repair attempt: '' @ syntax_detail res) source True)
                      else judge_semantics d i p content source llm))))"

definition judge :: "decoders \<Rightarrow> translation_task \<Rightarrow> proposal \<Rightarrow> string \<Rightarrow> bool \<Rightarrow> engine_result checked" where
  "judge d i p source from_doer =
     (case proposal_policy_failure p (task_policy i) of
        Some (reason, detail) \<Rightarrow> Inr (EngineFailure (failed reason detail source from_doer))
      | None \<Rightarrow>
          (case normalize_candidate_content (candidate_content p) of
             Inl detail \<Rightarrow> Inr (provider_failure detail source from_doer)
           | Inr content \<Rightarrow>
               bindR (syntax_gate d i content) (\<lambda>res.
                 if valid res then judge_semantics d i p content source from_doer
                 else (case (if from_doer then repair (task_doer i) else None) of
                     None \<Rightarrow> Inr (EngineFailure (failed ''unsupported-feature'' (syntax_detail res) source from_doer))
                   | Some f \<Rightarrow> judge_repair d i
                       (f (task_pattern i) (task_technology i) (adapter.artifact_type (task_adapter i)) (task_snapshot i)
                          (task_requirements i) p (errors res)) source from_doer))))"

text \<open>\<^verbatim>\<open>translate\<close> of the engine.\<close>

definition translate_pattern :: "decoders \<Rightarrow> translation_task \<Rightarrow> engine_result checked" where
  "translate_pattern d i =
     (let pattern = task_pattern i; tech = task_technology i; ad = task_adapter i; dr = task_doer i in
      case (if tech = ''akamai-waf'' then akamai_deterministic_proposal d pattern (task_requirements i) (task_request i) else (None, ''none'')) of
        (Some p, source) \<Rightarrow> judge d i p source False
      | (None, _) \<Rightarrow>
          if tech = ''akamai-waf'' \<and> has_authoritative_secrule (pattern_summary pattern)
          then Inr (EngineFailure (failed ''unsupported-feature''
                 (''The authoritative ModSecurity SecRule could not be compiled '' @
                  ''deterministically for Akamai; model fallback is disabled for '' @ ''authoritative executable source artifacts.'')
                 ''deterministic-modsec-rule'' False))
          else if \<not> supports_feature ad (discriminator_description pattern) (json_body_feature pattern \<noteq> None)
          then Inr (EngineFailure (failed ''unsupported-feature''
                 (tech @ '' adapter does not recognize a supported '' @ ''feature for discriminator: '' @ discriminator_description pattern)
                 ''none'' False))
          else (case propose dr pattern tech (adapter.artifact_type ad) (task_snapshot i) (task_requirements i) of
              Inl detail \<Rightarrow> Inr (provider_failure detail ''translation-doer'' True)
            | Inr p \<Rightarrow>
                (case deterministic_proposal_source dr of
                   Some source \<Rightarrow> judge d i p source False
                 | None \<Rightarrow> judge d i p ''translation-doer'' True)))"

end
