(* ===== verification/UpstreamField.thy ===== *)
theory UpstreamField
  imports Engine
begin

text \<open>
  The part of \<^verbatim>\<open>upstream.py\<close> that derives one JSON body field from the request a Mitigation
  Check has proven: the bounded traversal of the decoded body and the corroboration of a leaf by
  the Defense Generation discriminator and artifact. Bodies are those the interpreter's recursion
  limit lets it decode.
\<close>

section \<open>Texts\<close>

text \<open>Stripping of a string field by a contract model: Unicode white space, without the separators 28 to 31.\<close>

definition white_space :: "char \<Rightarrow> bool" where
  "white_space c = (let n = ord_c c in (9 \<le> n \<and> n \<le> 13) \<or> n = 32 \<or> n = 133 \<or> n = 160)"

definition trimmed :: "string \<Rightarrow> string" where
  "trimmed s = strip_by white_space s"

text \<open>\<^verbatim>\<open>s.replace(old, '')\<close>.\<close>

function remove_text :: "string \<Rightarrow> string \<Rightarrow> string" where
  "remove_text old [] = []"
| "remove_text old (c # cs) =
     (if old \<noteq> [] \<and> starts_with (c # cs) old then remove_text old (drop (length old) (c # cs)) else c # remove_text old cs)"
  by pat_completeness auto
termination by (relation "measure (\<lambda>(old, s). length s)") (auto simp: neq_Nil_conv)

definition path_char :: "char \<Rightarrow> bool" where
  "path_char c = (is_ascii_alnum c \<or> c \<in> set ''_-'')"

text \<open>
  A word at a position of a text, between characters that are none of a path segment; the first
  argument is the character before the position.
\<close>

definition word_here :: "char option \<Rightarrow> string \<Rightarrow> string \<Rightarrow> bool" where
  "word_here before w s =
     ((case before of None \<Rightarrow> True | Some c \<Rightarrow> \<not> path_char c) \<and> starts_with s w \<and> (case drop (length w) s of [] \<Rightarrow> True | c # _ \<Rightarrow> \<not> path_char c))"

fun word_in :: "char option \<Rightarrow> string \<Rightarrow> string \<Rightarrow> bool" where
  "word_in before w [] = word_here before w []"
| "word_in before w (c # cs) = (word_here before w (c # cs) \<or> word_in (Some c) w cs)"

text \<open>The case-insensitive search compares lower-case texts; removal keeps the characters of the text.\<close>

definition last_or :: "char option \<Rightarrow> string \<Rightarrow> char option" where
  "last_or before s = (if s = [] then before else Some (last s))"

function remove_words :: "char option \<Rightarrow> string \<Rightarrow> string \<Rightarrow> string" where
  "remove_words before w [] = []"
| "remove_words before w (c # cs) =
     (if w \<noteq> [] \<and> word_here before (py_lower w) (py_lower (c # cs))
      then remove_words (last_or before (take (length w) (c # cs))) w (drop (length w) (c # cs))
      else c # remove_words (Some c) w cs)"
  by pat_completeness auto
termination by (relation "measure (\<lambda>(before, w, s). length s)") (auto simp: neq_Nil_conv)

section \<open>Tokens\<close>

text \<open>\<^verbatim>\<open>_CORROBORATION_TOKEN\<close> at a position: the length of its match, if any.\<close>

definition token_length :: "string \<Rightarrow> nat option" where
  "token_length s =
     (let dashed = length (takeWhile path_char (drop 2 s)) in
      if starts_with s ''--'' \<and> 2 \<le> dashed then Some (2 + min 64 dashed)
      else if s \<noteq> [] \<and> is_ascii_alnum (hd s)
      then (let n = length (takeWhile (\<lambda>c. is_ascii_alnum c \<or> c \<in> set ''_.:+/-'') (tl s)) in
            if 2 \<le> n then Some (1 + min 127 n) else None)
      else None)"

lemma token_length_bounds: "token_length s = Some n \<Longrightarrow> 0 < n \<and> n \<le> length s"
proof -
  assume t: "token_length s = Some n"
  have "length (takeWhile P u) \<le> length u" for P and u :: string by (rule length_takeWhile_le)
  from this [of path_char "drop 2 s"] this [of "\<lambda>c. is_ascii_alnum c \<or> c \<in> set ''_.:+/-''" "tl s"] t
  show ?thesis by (auto simp: token_length_def Let_def split: if_splits)
qed

function tokens :: "string \<Rightarrow> string list" where
  "tokens [] = []"
| "tokens (c # cs) =
     (case token_length (c # cs) of
        Some n \<Rightarrow> take n (c # cs) # tokens (drop n (c # cs))
      | None \<Rightarrow> tokens cs)"
  by pat_completeness auto
termination by (relation "measure length") (auto dest!: token_length_bounds)

section \<open>The leaves of a body\<close>

record traversal =
  nodes_visited :: nat
  leaves :: "(string list \<times> string) list"
  exceeded :: bool

definition MAX_JSON_BODY_BYTES :: nat where "MAX_JSON_BODY_BYTES = 64 * 1024"
definition MAX_JSON_DEPTH :: nat where "MAX_JSON_DEPTH = 12"
definition MAX_JSON_LEAVES :: nat where "MAX_JSON_LEAVES = 256"
definition MAX_JSON_NODES :: nat where "MAX_JSON_NODES = 1024"

definition add_leaf :: "string list \<Rightarrow> string \<Rightarrow> traversal \<Rightarrow> traversal" where
  "add_leaf path v t =
     (if strip v \<noteq> [] \<and> length v \<le> 4096
      then t\<lparr>leaves := leaves t @ [(path, v)], exceeded := (MAX_JSON_LEAVES < length (leaves t) + 1)\<rparr>
      else t)"

fun visit :: "json \<Rightarrow> string list \<Rightarrow> nat \<Rightarrow> traversal \<Rightarrow> traversal" where
  "visit j path depth t =
     (let t = t\<lparr>nodes_visited := nodes_visited t + 1\<rparr> in
      if MAX_JSON_NODES < nodes_visited t then t\<lparr>exceeded := True\<rparr>
      else if MAX_JSON_DEPTH < depth then t
      else (case j of
          JObj kvs \<Rightarrow>
            fold (\<lambda>(k, child) t. if exceeded t \<or> \<not> safe_segment k then t else visit child (path @ [k]) (depth + 1) t) kvs t
        | JStr v \<Rightarrow> add_leaf path v t
        | _ \<Rightarrow> t))"

definition body_leaves :: "json \<Rightarrow> (string list \<times> string) list option" where
  "body_leaves document =
     (let t = visit document [] 0 \<lparr>nodes_visited = 0, leaves = [], exceeded = False\<rparr> in
      if exceeded t \<or> leaves t = [] then None else Some (leaves t))"

section \<open>Corroboration\<close>

definition evidence_mentions_path :: "string \<Rightarrow> string \<Rightarrow> string \<Rightarrow> bool" where
  "evidence_mentions_path source dotted_path terminal = (contains source dotted_path \<or> word_in None terminal source)"

text \<open>\<^verbatim>\<open>^\s*SecRule\s+REQUEST_BODY\s+"@rx\s+(...)"\s+"\<close>, up to the opening quote of the argument.\<close>

definition eat_word :: "string \<Rightarrow> string \<Rightarrow> string option" where
  "eat_word w s = (if starts_with (py_lower s) (py_lower w) then Some (drop (length w) s) else None)"

fun quoted_text :: "string \<Rightarrow> (string \<times> string) option" where
  "quoted_text [] = None"
| "quoted_text (c # cs) =
     (if c = dquote then Some ([], cs)
      else if c = bslash then
        (case cs of [] \<Rightarrow> None | d # ds \<Rightarrow> if d = CHR 0x0A then None else map_option (\<lambda>(t, r). (c # d # t, r)) (quoted_text ds))
      else map_option (\<lambda>(t, r). (c # t, r)) (quoted_text cs))"

definition request_body_rx :: "string \<Rightarrow> string option" where
  "request_body_rx line =
     Option.bind (eat_word ''SecRule'' (lstrip line)) (\<lambda>s1.
     Option.bind (eat_spaces s1) (\<lambda>s2.
     Option.bind (eat_word ''REQUEST_BODY'' s2) (\<lambda>s3.
     Option.bind (eat_spaces s3) (\<lambda>s4.
     Option.bind (eat_word (dquote # ''@rx'') s4) (\<lambda>s5.
     Option.bind (eat_spaces s5) (\<lambda>s6.
     Option.bind (quoted_text s6) (\<lambda>(expression, s7).
     Option.bind (eat_spaces s7) (\<lambda>s8.
       if starts_with s8 [dquote] then Some expression else None))))))))"

definition only_field :: "string \<Rightarrow> string \<Rightarrow> bool" where
  "only_field field expression =
     (word_in None (py_lower field) (py_lower expression)
      \<and> (let r = remove_text [squote] (remove_text [bslash, dquote] (remove_words None field (remove_text [bslash, CHR ''b''] expression)))
         in filter (\<lambda>c. \<not> (is_space c \<or> c \<in> set ''()?:|'')) r = []))"

definition artifact_blocks_json_field_presence :: "string \<Rightarrow> string \<Rightarrow> bool" where
  "artifact_blocks_json_field_presence artifact field =
     list_ex (\<lambda>line. \<not> starts_with (lstrip line) ''#'' \<and> (case request_body_rx line of None \<Rightarrow> False | Some e \<Rightarrow> only_field field e))
       (splitlines artifact)"

text \<open>The tokens of a value by their folded form: of equal ones the last.\<close>

definition shared_tokens :: "string list \<Rightarrow> string \<Rightarrow> string list" where
  "shared_tokens evidence v =
     (let ts = tokens v; folded = remdups (map casefold ts) in
      map (\<lambda>f. last (filter (\<lambda>t. casefold t = f) ts)) (filter (\<lambda>f. list_all (\<lambda>source. contains source f) evidence) folded))"

definition corroborate :: "string \<Rightarrow> string list \<Rightarrow> string list \<times> string \<Rightarrow> (string list \<times> string \<times> string) list" where
  "corroborate artifact evidence leaf =
     (case leaf of (path, v) \<Rightarrow>
        if \<not> list_all (\<lambda>source. evidence_mentions_path source (casefold (join ''.'' path)) (casefold (last path))) evidence then []
        else if list_all (\<lambda>source. contains source (casefold v)) evidence then [(path, v, ''exact'')]
        else (case shared_tokens evidence v of
            [t] \<Rightarrow> [(path, t, ''contains-token'')]
          | _ \<Rightarrow> if artifact_blocks_json_field_presence artifact (last path) then [(path, [star_c], ''field-present'')] else []))"

definition derived_json_field :: "decoders \<Rightarrow> request_context option \<Rightarrow> string \<Rightarrow> string \<Rightarrow> json_body_field_feature option" where
  "derived_json_field d context discriminator artifact =
     (case context of
        None \<Rightarrow> None
      | Some c \<Rightarrow>
          if py_upper (strip (context_method c)) \<noteq> ''POST'' then None
          else if py_lower (strip (fst (partition_c (context_content_type c) (CHR '';'')))) \<noteq> ''application/json'' then None
          else if MAX_JSON_BODY_BYTES < length (utf8 (context_body c)) then None
          else (case strict_loads (float_text d) (context_body c) of
              Some (JObj kvs) \<Rightarrow>
                (case body_leaves (JObj kvs) of
                   None \<Rightarrow> None
                 | Some found \<Rightarrow>
                     (case concat (map (corroborate artifact [casefold discriminator, casefold artifact]) found) of
                        [(path, v, mode)] \<Rightarrow> Some \<lparr>field_path = path, feature_value = trimmed v, value_match_mode = mode\<rparr>
                      | _ \<Rightarrow> None))
            | _ \<Rightarrow> None))"

end
