(* ===== verification/Upstream.thy ===== *)
theory Upstream
  imports UpstreamField Ordering
begin

text \<open>
  The resolution of the proof loop, \<^verbatim>\<open>upstream.py\<close>: three records are fetched by a resolver,
  checked for identity, state and lineage, and joined into the pattern, the qualification and the
  requirements of a translation. The resolver is a parameter; what it or a contract model raises is
  a value of \<open>upstream_error\<close>, with the name of the exception where the source does not convert it.
\<close>

datatype upstream_error = ResolutionError string | OperationCancelled | OtherError string

type_synonym 'a resolved = "upstream_error + 'a"

record upstream_record =
  rec_result_id :: string
  rec_terminal_state :: string
  rec_correlation_id :: "string option"
  rec_revision_id :: "string option"
  rec_request :: "(string \<times> json) list"
  rec_result :: "(string \<times> json) list"

definition opt_json :: "string option \<Rightarrow> json" where
  "opt_json v = (case v of None \<Rightarrow> JNull | Some s \<Rightarrow> JStr s)"

definition document :: "upstream_record \<Rightarrow> json" where
  "document r = JObj
     [(''result_id'', JStr (rec_result_id r)), (''terminal_state'', JStr (rec_terminal_state r)),
      (''correlation_id'', opt_json (rec_correlation_id r)), (''subject_record_revision_id'', opt_json (rec_revision_id r)),
      (''request'', JObj (rec_request r)), (''result'', JObj (rec_result r))]"

type_synonym resolver = "result_reference \<Rightarrow> upstream_input option \<Rightarrow> upstream_record option resolved"

record resolved_loop =
  loop_pattern :: proven_pattern
  loop_references :: upstream_result_references
  loop_qualification :: proof_loop_qualification
  loop_technology :: "string option"
  loop_policy_context_id :: "string option"
  loop_counterexample :: "bypass_counterexample option"
  loop_bypass_evidence :: "string list"
  loop_requirements :: "requirements option"
  loop_request :: "request_context option"

section \<open>Reading records\<close>

definition nonempty_str :: "json \<Rightarrow> string option" where
  "nonempty_str j = (case j of JStr s \<Rightarrow> if s = [] then None else Some s | _ \<Rightarrow> None)"

definition nonblank_str :: "json \<Rightarrow> string option" where
  "nonblank_str j = (case j of JStr s \<Rightarrow> if strip s = [] then None else Some s | _ \<Rightarrow> None)"

definition as_dict :: "json \<Rightarrow> (string \<times> json) list option" where
  "as_dict j = (case j of JObj kvs \<Rightarrow> Some kvs | _ \<Rightarrow> None)"

definition required_mapping :: "json \<Rightarrow> string \<Rightarrow> (string \<times> json) list resolved" where
  "required_mapping j msg = (case as_dict j of None \<Rightarrow> Inl (ResolutionError msg) | Some kvs \<Rightarrow> Inr kvs)"

definition required_string :: "json \<Rightarrow> string \<Rightarrow> string resolved" where
  "required_string j msg = (case nonblank_str j of None \<Rightarrow> Inl (ResolutionError msg) | Some s \<Rightarrow> Inr s)"

definition either :: "json \<Rightarrow> json \<Rightarrow> json" where
  "either a b = (if truthy a then a else b)"

text \<open>The texts under a key anywhere in a value; \<open>one_value\<close> is the only one of them.\<close>

fun values_under :: "string \<Rightarrow> json \<Rightarrow> string list" where
  "values_under key (JObj kvs) =
     concat (map (\<lambda>(k, v). (if k = key then (case nonempty_str v of Some s \<Rightarrow> [s] | None \<Rightarrow> []) else []) @ values_under key v) kvs)"
| "values_under key (JArr xs) = concat (map (values_under key) xs)"
| "values_under key j = []"

definition one_value :: "json \<Rightarrow> string \<Rightarrow> string option" where
  "one_value j key = (case remdups (values_under key j) of [s] \<Rightarrow> Some s | _ \<Rightarrow> None)"

datatype role = DefenseRole | MitigationRole | BypassRole

definition role_name :: "role \<Rightarrow> string" where
  "role_name r = (case r of DefenseRole \<Rightarrow> ''Defense Generation'' | MitigationRole \<Rightarrow> ''Mitigation Check'' | BypassRole \<Rightarrow> ''Bypass Validation'')"

definition required_one_value :: "json \<Rightarrow> string \<Rightarrow> role \<Rightarrow> string resolved" where
  "required_one_value j key role =
     (case one_value j key of
        None \<Rightarrow> Inl (ResolutionError (role_name role @ '' '' @ key @ '' is missing or ambiguous''))
      | Some s \<Rightarrow> Inr s)"

definition nested_str :: "(string \<times> json) list \<Rightarrow> string \<Rightarrow> string \<Rightarrow> string option" where
  "nested_str kvs outer key = Option.bind (as_dict (get_or_null kvs outer)) (\<lambda>inner. nonempty_str (get_or_null inner key))"

definition or_else :: "'a option \<Rightarrow> 'a option \<Rightarrow> 'a option" where
  "or_else a b = (case a of None \<Rightarrow> b | Some x \<Rightarrow> Some x)"

definition only_if :: "(string \<Rightarrow> bool) \<Rightarrow> string option \<Rightarrow> string option" where
  "only_if P v = (case v of None \<Rightarrow> None | Some s \<Rightarrow> if P s then Some s else None)"

definition role_vulnerability_id :: "role \<Rightarrow> upstream_record \<Rightarrow> string option" where
  "role_vulnerability_id role r =
     (case role of
        DefenseRole \<Rightarrow>
          or_else (nested_str (rec_result r) ''primary_candidate'' ''vulnerability_id'')
            (or_else (nonempty_str (get_or_null (rec_request r) ''vulnerability_id'')) (one_value (document r) ''vulnerability_id''))
      | BypassRole \<Rightarrow> only_if (\<lambda>s. starts_with s ''CVE-'') (nested_str (rec_result r) ''subject'' ''vulnerability_id'')
      | MitigationRole \<Rightarrow> one_value (document r) ''vulnerability_id'')"

definition role_candidate_id :: "role \<Rightarrow> upstream_record \<Rightarrow> string option" where
  "role_candidate_id role r =
     (case role of
        DefenseRole \<Rightarrow> nested_str (rec_result r) ''primary_candidate'' ''candidate_id''
      | BypassRole \<Rightarrow>
          or_else (nested_str (rec_result r) ''subject'' ''source_candidate_id'')
            (only_if (\<lambda>s. starts_with s ''candidate:'') (nested_str (rec_result r) ''subject'' ''vulnerability_id''))
      | MitigationRole \<Rightarrow> one_value (document r) ''candidate_id'')"

text \<open>Looking up an unhashable contract id in a set raises.\<close>

definition expected_capability :: "role \<Rightarrow> string" where
  "expected_capability role =
     (case role of DefenseRole \<Rightarrow> ''defense-generation'' | MitigationRole \<Rightarrow> ''mitigation-check'' | BypassRole \<Rightarrow> ''bypass-validation'')"

definition record_contracts :: "role \<Rightarrow> string list" where
  "record_contracts role =
     (case role of DefenseRole \<Rightarrow> [''defense-generation@1.0'', ''defense-generation-result@1.0'']
      | MitigationRole \<Rightarrow> [''mitigation-check@1.0''] | BypassRole \<Rightarrow> [''bypass-validation@1.0''])"

definition validate_record_identity :: "role \<Rightarrow> upstream_record \<Rightarrow> unit resolved" where
  "validate_record_identity role r =
     (let capability = get_or_null (rec_result r) ''capability''; contract = get_or_null (rec_result r) ''contract_id'' in
      if capability \<noteq> JNull \<and> capability \<noteq> JStr (expected_capability role)
      then Inl (ResolutionError (role_name role @ '' capability identity is invalid''))
      else (case contract of
          JNull \<Rightarrow> Inr ()
        | JStr s \<Rightarrow> if s \<in> set (record_contracts role) then Inr () else Inl (ResolutionError (role_name role @ '' result contract is unsupported''))
        | JArr _ \<Rightarrow> Inl (OtherError ''TypeError'')
        | JObj _ \<Rightarrow> Inl (OtherError ''TypeError'')
        | _ \<Rightarrow> Inl (ResolutionError (role_name role @ '' result contract is unsupported''))))"

fun preferred_string :: "(string \<times> json) list list \<Rightarrow> string \<Rightarrow> string option" where
  "preferred_string [] key = None"
| "preferred_string (kvs # others) key =
     or_else (nonempty_str (get_or_null kvs key))
       (or_else (nested_str kvs ''primary_candidate'' key)
       (or_else (nested_str kvs ''target_context'' key) (preferred_string others key)))"

text \<open>\<^verbatim>\<open>decode_json_object\<close> on the text of a cell.\<close>

definition decode_json_object :: "decoders \<Rightarrow> string option \<Rightarrow> string \<Rightarrow> (string \<times> json) list resolved" where
  "decode_json_object d cell lbl =
     (case cell of
        None \<Rightarrow> Inr []
      | Some t \<Rightarrow> (case decode_json d t of
            Inl _ \<Rightarrow> Inl (ResolutionError (lbl @ '' is not valid JSON''))
          | Inr (JObj kvs) \<Rightarrow> Inr kvs
          | Inr _ \<Rightarrow> Inl (ResolutionError (lbl @ '' must be a JSON object''))))"

section \<open>Request and requirements\<close>

definition string_pairs :: "(string \<times> json) list \<Rightarrow> (string \<times> string) list option" where
  "string_pairs kvs =
     (if list_all (\<lambda>(k, v). is_str v) kvs then Some (map (\<lambda>(k, v). (k, case v of JStr s \<Rightarrow> s | _ \<Rightarrow> [])) kvs) else None)"

definition mitigation_request_context :: "(string \<times> json) list \<Rightarrow> request_context option" where
  "mitigation_request_context result =
     (case get_or_null result ''test_basis'' of
        JObj basis \<Rightarrow>
          (case get_or_null basis ''request'' of
             JObj request \<Rightarrow>
               (case (nonempty_str (get_or_null request ''method''), nonempty_str (get_or_null request ''path''),
                      nonempty_str (get_or_null request ''body''), either (get_or_null request ''headers'') (JObj [])) of
                  (Some method, Some path, Some body, JObj headers) \<Rightarrow>
                    map_option (\<lambda>hs. \<lparr>context_method = method, context_path = path, context_headers = hs, context_body = body\<rparr>)
                      (string_pairs headers)
                | _ \<Rightarrow> None)
           | _ \<Rightarrow> None)
      | _ \<Rightarrow> None)"

definition first_nonblank :: "json list \<Rightarrow> string option" where
  "first_nonblank js = (case find (\<lambda>j. nonblank_str j \<noteq> None) js of None \<Rightarrow> None | Some j \<Rightarrow> nonblank_str j)"

definition nonempty_strings :: "json list \<Rightarrow> string list" where
  "nonempty_strings xs = concat (map (\<lambda>j. case nonempty_str j of Some s \<Rightarrow> [s] | None \<Rightarrow> []) xs)"

definition dict_or_empty :: "json \<Rightarrow> (string \<times> json) list" where
  "dict_or_empty j = (case as_dict j of None \<Rightarrow> [] | Some kvs \<Rightarrow> kvs)"

definition canonical_forms :: "(string \<times> json) list \<Rightarrow> string list" where
  "canonical_forms counterexample =
     (case get_or_null (dict_or_empty (get_or_null counterexample ''waf_observation'')) ''canonical_forms'' of
        JArr xs \<Rightarrow> nonempty_strings xs | _ \<Rightarrow> [])"

definition translation_requirements :: "json \<Rightarrow> json \<Rightarrow> requirements option" where
  "translation_requirements raw_counterexample feedback =
     (let ce = get_or_null (dict_or_empty raw_counterexample); fb = get_or_null (dict_or_empty feedback);
          r = \<lparr>original_payload = first_nonblank [fb ''original_payload'', ce ''original_payload''],
               bypass_payload = first_nonblank [fb ''bypass_payload'', ce ''payload'', fb ''counterexample_body'', ce ''counterexample_body''],
               post_waf_canonical_forms = canonical_forms (dict_or_empty raw_counterexample),
               effective_request = as_dict (ce ''effective_request''), mutation_location = as_dict (ce ''mutation_location''),
               bypass_variant_or_encoding =
                 first_nonblank [fb ''bypass_variant_or_encoding'', ce ''bypass_variant_or_encoding'', ce ''variant_family''],
               constraint_for_next_candidate = first_nonblank [fb ''constraint_for_next_candidate'', fb ''do_not_repeat'']\<rparr>
      in if required_payloads r \<noteq> [] \<or> bypass_variant_or_encoding r \<noteq> None \<or> constraint_for_next_candidate r \<noteq> None
            \<or> (effective_request r \<noteq> None \<and> effective_request r \<noteq> Some []) \<or> (mutation_location r \<noteq> None \<and> mutation_location r \<noteq> Some [])
         then Some r else None)"

section \<open>Contract models\<close>

text \<open>\<^verbatim>\<open>BypassCounterexample.model_validate\<close>.\<close>

definition str_field :: "(string \<times> json) list \<Rightarrow> string \<Rightarrow> string option" where
  "str_field kvs k = (case get kvs k of Some (JStr s) \<Rightarrow> Some s | _ \<Rightarrow> None)"

definition strings_field :: "(string \<times> json) list \<Rightarrow> string \<Rightarrow> string list option" where
  "strings_field kvs k =
     (case get kvs k of
        None \<Rightarrow> Some []
      | Some (JArr xs) \<Rightarrow> if list_all is_str xs then Some (map (\<lambda>j. case j of JStr s \<Rightarrow> s | _ \<Rightarrow> []) xs) else None
      | Some _ \<Rightarrow> None)"

definition validate_counterexample :: "json \<Rightarrow> bypass_counterexample option" where
  "validate_counterexample j =
     (case j of
        JObj kvs \<Rightarrow>
          (case (str_field kvs ''counterexample_id'', str_field kvs ''sample_ref'', str_field kvs ''variant_family'',
                 str_field kvs ''observed_behavior'', strings_field kvs ''evidence_refs'') of
             (Some i, Some s, Some v, Some b, Some refs) \<Rightarrow> Some
               \<lparr>counterexample_id = i, counterexample_sample_ref = s, counterexample_variant_family = v,
                counterexample_observed_behavior = b, counterexample_evidence_refs = refs\<rparr>
           | _ \<Rightarrow> None)
      | _ \<Rightarrow> None)"

text \<open>The pattern's model strips its strings and validates the proof lineage.\<close>

definition make_pattern :: "proven_pattern \<Rightarrow> proven_pattern resolved" where
  "make_pattern p =
     (let ids = map trimmed (proof_record_ids p) in
      case validate_proof_lineage ids of
        Inl _ \<Rightarrow> Inl (OtherError ''ValidationError'')
      | Inr _ \<Rightarrow> Inr
          \<lparr>proven_pattern_id = trimmed (proven_pattern_id p), vulnerability_id = trimmed (vulnerability_id p),
           selected_control_class = trimmed (selected_control_class p), discriminator_id = trimmed (discriminator_id p),
           discriminator_description = trimmed (discriminator_description p), pattern_summary = trimmed (pattern_summary p),
           proof_record_ids = ids, json_body_feature = json_body_feature p\<rparr>)"

section \<open>The join\<close>

record resolution =
  res_correlation :: "string option"
  res_revision :: "string option"
  res_routing :: routing_metadata
  res_expected_vulnerability :: "string option"
  res_expected_candidate :: "string option"
  res_locators :: "upstream_input list option"

definition given :: "string option \<Rightarrow> bool" where
  "given v = (v \<noteq> None \<and> v \<noteq> Some [])"

definition has_subject :: "resolution \<Rightarrow> bool" where
  "has_subject q = (given (res_expected_vulnerability q) \<and> given (res_expected_candidate q))"

definition role_capability :: "role \<Rightarrow> upstream_capability" where
  "role_capability role = (case role of DefenseRole \<Rightarrow> DefenseGeneration | MitigationRole \<Rightarrow> MitigationCheck | BypassRole \<Rightarrow> BypassValidation)"

definition role_reference :: "upstream_result_references \<Rightarrow> role \<Rightarrow> result_reference" where
  "role_reference refs role =
     (case role of DefenseRole \<Rightarrow> ref_defense_generation refs | MitigationRole \<Rightarrow> ref_mitigation_check refs
      | BypassRole \<Rightarrow> ref_bypass_validation refs)"

definition required_state :: "resolution \<Rightarrow> role \<Rightarrow> string" where
  "required_state q role =
     (case role of DefenseRole \<Rightarrow> ''candidate-produced'' | MitigationRole \<Rightarrow> ''blocked''
      | BypassRole \<Rightarrow> state_name (bypass_terminal_state (res_routing q)))"

definition fetch_record :: "resolver \<Rightarrow> upstream_result_references \<Rightarrow> resolution \<Rightarrow> role \<Rightarrow> upstream_record resolved" where
  "fetch_record fetch refs q role =
     (let locator = (case res_locators q of None \<Rightarrow> None | Some is \<Rightarrow> input_of (role_capability role) is); reference = role_reference refs role in
      if res_locators q \<noteq> None \<and> locator = None then Inl (ResolutionError (role_name role @ '' immutable locator is missing''))
      else (case fetch reference locator of
          Inl (OtherError _) \<Rightarrow> Inl (ResolutionError (role_name role @ '' result could not be fetched''))
        | Inl e \<Rightarrow> Inl e
        | Inr None \<Rightarrow> Inl (ResolutionError (role_name role @ '' result reference was not found''))
        | Inr (Some r) \<Rightarrow>
            if rec_result_id r \<noteq> ref_key reference then Inl (ResolutionError (role_name role @ '' result ID does not match its reference''))
            else if rec_terminal_state r \<noteq> required_state q role
            then Inl (ResolutionError (role_name role @ '' terminal state must be '' @ [squote] @ required_state q role @ [squote]))
            else bindR (validate_record_identity role r) (\<lambda>_. Inr r)))"

definition validate_lineage :: "resolution \<Rightarrow> role \<Rightarrow> upstream_record \<Rightarrow> unit resolved" where
  "validate_lineage q role r =
     (let correlation = one_value (document r) ''correlation_id''; revision = one_value (document r) ''subject_record_revision_id'' in
      if correlation \<noteq> None \<and> correlation \<noteq> res_correlation q
      then Inl (ResolutionError (role_name role @ '' correlation lineage could not be validated''))
      else if correlation = None \<and> \<not> has_subject q
      then Inl (ResolutionError (role_name role @ '' correlation lineage could not be validated''))
      else if given (res_revision q) \<and> revision \<noteq> None \<and> revision \<noteq> res_revision q
      then Inl (ResolutionError (role_name role @ '' subject lineage could not be validated''))
      else if revision = None \<and> \<not> has_subject q
      then Inl (ResolutionError (role_name role @ '' subject lineage could not be validated''))
      else Inr ())"

definition validate_subject :: "resolution \<Rightarrow> role \<Rightarrow> upstream_record \<Rightarrow> unit resolved" where
  "validate_subject q role r =
     (let vulnerability = role_vulnerability_id role r; cand = role_candidate_id role r in
      if given vulnerability \<and> vulnerability \<noteq> res_expected_vulnerability q
      then Inl (ResolutionError (role_name role @ '' vulnerability lineage does not match orchestration subject''))
      else if given cand \<and> cand \<noteq> res_expected_candidate q
      then Inl (ResolutionError (role_name role @ '' candidate lineage does not match orchestration subject''))
      else Inr ())"

type_synonym records = "(role \<times> upstream_record) list"

text \<open>The vulnerability and the candidate of the three records.\<close>

definition resolve_identity :: "resolution \<Rightarrow> upstream_record \<Rightarrow> records \<Rightarrow> (string \<times> string) resolved" where
  "resolve_identity q defense records =
     (if has_subject q
      then bindR (mapR (\<lambda>(role, r). validate_subject q role r) records) (\<lambda>_.
        if role_vulnerability_id DefenseRole defense = None then Inl (ResolutionError ''Defense Generation vulnerability_id is missing'')
        else if role_candidate_id DefenseRole defense = None then Inl (ResolutionError ''Defense Generation candidate_id is missing'')
        else Inr (the (res_expected_vulnerability q), the (res_expected_candidate q)))
      else bindR (mapR (\<lambda>(role, r). required_one_value (document r) ''vulnerability_id'' role) records) (\<lambda>vulnerabilities.
        bindR (mapR (\<lambda>(role, r). required_one_value (document r) ''candidate_id'' role) records) (\<lambda>candidates.
          if length (remdups vulnerabilities) \<noteq> 1 then Inl (ResolutionError ''upstream vulnerability lineage does not match'')
          else if length (remdups candidates) \<noteq> 1 then Inl (ResolutionError ''upstream candidate lineage does not match'')
          else Inr (hd vulnerabilities, hd candidates))))"

text \<open>The discriminator, the control class and the artifact of the Defense Generation record.\<close>

definition defense_candidate :: "upstream_record \<Rightarrow> (string \<times> string \<times> string) resolved" where
  "defense_candidate defense =
     bindR (required_mapping (get_or_null (rec_result defense) ''primary_candidate'') ''Defense Generation primary_candidate is missing'') (\<lambda>primary.
     bindR (required_string (either (get_or_null primary ''discriminator'') (get_or_null (rec_request defense) ''discriminator''))
              ''Defense Generation discriminator context is missing'') (\<lambda>discriminator.
     bindR (required_string (either (get_or_null primary ''selected_control_class'') (get_or_null (rec_request defense) ''selected_control_class''))
              ''Defense Generation selected control class is missing'') (\<lambda>control_class.
     bindR (required_string (get_or_null primary ''artifact_content'') ''Defense Generation candidate artifact content is missing'') (\<lambda>artifact.
       Inr (discriminator, control_class, artifact)))))"

definition bypass_counterexample_of :: "upstream_record \<Rightarrow> bypass_counterexample option resolved" where
  "bypass_counterexample_of bypass =
     (case get_or_null (rec_result bypass) ''bypass_counterexample'' of
        JNull \<Rightarrow> Inr None
      | j \<Rightarrow> (case validate_counterexample j of
            None \<Rightarrow> Inl (ResolutionError ''Bypass Validation counterexample contract is malformed'')
          | Some ce \<Rightarrow> Inr (Some ce)))"

definition bypass_evidence :: "upstream_record \<Rightarrow> bypass_counterexample option \<Rightarrow> string list" where
  "bypass_evidence bypass counterexample =
     (let own = (case counterexample of None \<Rightarrow> [] | Some ce \<Rightarrow> counterexample_evidence_refs ce @ [counterexample_sample_ref ce]);
          fed = (case get_or_null (dict_or_empty (get_or_null (rec_result bypass) ''feedback'')) ''evidence_refs'' of
                   JArr xs \<Rightarrow> nonempty_strings xs | _ \<Rightarrow> [])
      in sorted_texts (remdups (own @ fed)))"

definition qualification_of :: "routing_metadata \<Rightarrow> proof_loop_qualification" where
  "qualification_of m =
     (let cleared = (bypass_terminal_state m = NoBypassFound) in
      \<lparr>qual_validated = cleared, qual_bypass_cleared = cleared, qual_loop_exhausted = loop_exhausted m,
       qual_completed_iterations = completed_iterations m, qual_max_iterations = max_iterations m,
       qual_bypass_state = bypass_terminal_state m, qual_bypass_ref = bypass_result_ref m\<rparr>)"

definition assemble ::
  "decoders \<Rightarrow> upstream_result_references \<Rightarrow> resolution \<Rightarrow> upstream_record \<Rightarrow> upstream_record \<Rightarrow> upstream_record \<Rightarrow> string \<times> string
    \<Rightarrow> resolved_loop resolved" where
  "assemble d refs q defense mitigation bypass identity =
     bindR (defense_candidate defense) (\<lambda>(discriminator, control_class, artifact).
       (let context = mitigation_request_context (rec_result mitigation); cleared = (bypass_terminal_state (res_routing q) = NoBypassFound) in
        bindR (make_pattern
          \<lparr>proven_pattern_id = (if cleared then ''proven-pattern:'' else ''loop-exhausted-pattern:'') @ snd identity,
           vulnerability_id = fst identity, selected_control_class = control_class,
           discriminator_id = ''discriminator:'' @ snd identity, discriminator_description = discriminator,
           pattern_summary = artifact, proof_record_ids = [rec_result_id mitigation, rec_result_id bypass],
           json_body_feature = derived_json_field d context discriminator artifact\<rparr>) (\<lambda>pattern.
        bindR (bypass_counterexample_of bypass) (\<lambda>counterexample. Inr
          \<lparr>loop_pattern = pattern, loop_references = refs, loop_qualification = qualification_of (res_routing q),
           loop_technology = preferred_string [rec_result defense, rec_request defense] ''target_technology'',
           loop_policy_context_id = preferred_string [rec_result defense, rec_request defense] ''target_policy_context_id'',
           loop_counterexample = counterexample, loop_bypass_evidence = bypass_evidence bypass counterexample,
           loop_requirements =
             translation_requirements (get_or_null (rec_result bypass) ''bypass_counterexample'') (get_or_null (rec_result bypass) ''feedback''),
           loop_request = context\<rparr>))))"

definition resolve_proof_loop ::
  "decoders \<Rightarrow> resolver \<Rightarrow> upstream_result_references \<Rightarrow> resolution \<Rightarrow> resolved_loop resolved" where
  "resolve_proof_loop d fetch refs q =
     (if \<not> given (res_correlation q) then Inl (ResolutionError ''correlation_id is required for lineage validation'')
      else if \<not> given (res_revision q) \<and> \<not> has_subject q
      then Inl (ResolutionError (''subject_record_revision_id or an orchestration subject binding is required '' @ ''for lineage validation''))
      else bindR (fetch_record fetch refs q DefenseRole) (\<lambda>defense.
        bindR (fetch_record fetch refs q MitigationRole) (\<lambda>mitigation.
        bindR (fetch_record fetch refs q BypassRole) (\<lambda>bypass.
          (let records = [(DefenseRole, defense), (MitigationRole, mitigation), (BypassRole, bypass)] in
           bindR (mapR (\<lambda>(role, r). validate_lineage q role r) records) (\<lambda>_.
           bindR (resolve_identity q defense records) (\<lambda>identity.
             assemble d refs q defense mitigation bypass identity)))))))"

end
