(* ===== verification/Configuration.thy ===== *)
theory Configuration
  imports Complex_Main Callbacks
begin

text \<open>
  The settings of the service, \<^verbatim>\<open>config.py\<close>: the model, its computed properties, the list of
  configuration errors, and the reading of the environment. Python's \<^verbatim>\<open>int\<close> and
  \<^verbatim>\<open>float\<close> of a text are parameters; a float is a rational number, an infinity or not a number.
\<close>

section \<open>Floats\<close>

datatype py_float = Finite rat | PosInf | NegInf | NotANumber

definition float_le :: "py_float \<Rightarrow> py_float \<Rightarrow> bool" where
  "float_le x y =
     (case (x, y) of
        (NotANumber, _) \<Rightarrow> False | (_, NotANumber) \<Rightarrow> False
      | (NegInf, _) \<Rightarrow> True | (_, PosInf) \<Rightarrow> True
      | (Finite a, Finite b) \<Rightarrow> a \<le> b | _ \<Rightarrow> False)"

definition float_less :: "py_float \<Rightarrow> py_float \<Rightarrow> bool" where
  "float_less x y =
     (case (x, y) of
        (NotANumber, _) \<Rightarrow> False | (_, NotANumber) \<Rightarrow> False
      | (PosInf, _) \<Rightarrow> False | (_, NegInf) \<Rightarrow> False
      | (Finite a, Finite b) \<Rightarrow> a < b | _ \<Rightarrow> True)"

definition float_of_int :: "int \<Rightarrow> py_float" where
  "float_of_int n = Finite (of_int n)"

section \<open>Settings\<close>

record service_settings =
  run_mode :: string
  model_provider :: string
  model_name :: string
  openai_api_key :: "string option"
  azure_openai_endpoint :: "string option"
  azure_openai_api_key :: "string option"
  azure_openai_api_version :: "string option"
  att_inference_base_url :: "string option"
  att_inference_api_key :: "string option"
  model_request_timeout_seconds :: int
  enable_docs :: bool
  bind_host :: string
  bind_port :: int
  cors_allowed_origins :: "string list"
  persistence_backend :: string
  database_path :: string
  service_replica_count :: int
  cfg_server_hostname :: "string option"
  cfg_http_path :: "string option"
  cfg_auth_type :: string
  cfg_token :: "string option"
  cfg_client_id :: "string option"
  cfg_client_secret :: "string option"
  cfg_catalog :: string
  cfg_schema :: string
  cfg_results_table :: string
  require_upstream_reader_ready :: bool
  worker_poll_seconds :: py_float
  worker_lease_seconds :: int
  worker_heartbeat_seconds :: py_float
  worker_max_attempts :: int
  worker_shutdown_grace_seconds :: py_float
  capability_callback_token :: "string option"
  capability_callback_allowed_hosts :: "string list"
  capability_callback_timeout_seconds :: py_float
  capability_callback_poll_interval_seconds :: py_float
  default_target_technology :: string
  default_target_policy_context_id :: string
  workflow_lab_enabled :: bool
  workflow_lab_url :: "string option"
  workflow_lab_state_path :: string
  workflow_lab_timeout_seconds :: py_float
  workflow_lab_max_bytes :: int

definition is_live :: "service_settings \<Rightarrow> bool" where
  "is_live s = (py_lower (run_mode s) = ''live'')"

definition normalized_model_provider :: "service_settings \<Rightarrow> string" where
  "normalized_model_provider s = py_lower (strip (model_provider s))"

definition is_att_inference :: "service_settings \<Rightarrow> bool" where
  "is_att_inference s = (normalized_model_provider s \<in> set [''att'', ''att-inference''])"

definition normalized_persistence_backend :: "service_settings \<Rightarrow> string" where
  "normalized_persistence_backend s = py_lower (strip (persistence_backend s))"

definition normalized_databricks_auth_type :: "service_settings \<Rightarrow> string" where
  "normalized_databricks_auth_type s = py_lower (strip (cfg_auth_type s))"

definition present :: "string option \<Rightarrow> bool" where
  "present v = (v \<noteq> None \<and> v \<noteq> Some [])"

definition credentials_configured :: "service_settings \<Rightarrow> bool" where
  "credentials_configured s =
     (if is_att_inference s then present (att_inference_base_url s) \<and> present (att_inference_api_key s)
      else if normalized_model_provider s = ''azure-openai'' then present (azure_openai_endpoint s) \<and> present (azure_openai_api_key s)
      else present (openai_api_key s))"

section \<open>Errors\<close>

definition complain :: "bool \<Rightarrow> string \<Rightarrow> string list" where
  "complain b msg = (if b then [msg] else [])"

text \<open>After a netloc, a path is there exactly if the rest starts with a slash.\<close>

definition url_has_path :: "string \<Rightarrow> bool" where
  "url_has_path url = (let tail = snd (split_netloc (snd (split_scheme (clean_url url)))) in
     takeWhile (\<lambda>c. c \<notin> {CHR ''?'', CHR ''#''}) tail \<noteq> [])"

definition quoted_entry :: "string \<Rightarrow> string" where
  "quoted_entry origin = ''CORS_ALLOWED_ORIGINS entry '' @ [squote] @ origin @ [squote]"

definition origin_errors :: "(string \<Rightarrow> bool) \<Rightarrow> string \<Rightarrow> callback_error + string list" where
  "origin_errors bracketed_ok origin =
     (if origin = [star_c]
      then Inr [''CORS_ALLOWED_ORIGINS must name explicit origins, not '' @ [squote, star_c, squote] @ ''.'']
      else bindR (urlsplit bracketed_ok origin) (\<lambda>parsed.
        Inr (if u_scheme parsed \<notin> set [''http'', ''https''] \<or> u_netloc parsed = []
             then [quoted_entry origin @ '' must be a full '' @ ''http or https origin.'']
             else if url_has_path origin then [quoted_entry origin @ '' must not include a path.'']
             else [])))"

definition blank :: "string option \<Rightarrow> bool" where
  "blank v = (case v of None \<Rightarrow> True | Some s \<Rightarrow> strip s = [])"

definition databricks_errors :: "service_settings \<Rightarrow> string list" where
  "databricks_errors s =
     (let auth = normalized_databricks_auth_type s;
          required = [(''DATABRICKS_SERVER_HOSTNAME'', cfg_server_hostname s), (''DATABRICKS_HTTP_PATH'', cfg_http_path s),
            (''DATABRICKS_CATALOG'', Some (cfg_catalog s)), (''DATABRICKS_SCHEMA'', Some (cfg_schema s)),
            (''DATABRICKS_RESULTS_TABLE'', Some (cfg_results_table s))]
            @ (if auth = ''pat'' then [(''DATABRICKS_TOKEN'', cfg_token s)]
               else if auth = ''oauth-m2m''
               then [(''DATABRICKS_CLIENT_ID'', cfg_client_id s), (''DATABRICKS_CLIENT_SECRET'', cfg_client_secret s)]
               else []);
          missing_names = map fst (filter (\<lambda>(n, v). blank v) required)
      in complain (auth \<notin> set [''pat'', ''oauth-m2m''])
           (''DATABRICKS_AUTH_TYPE must be either '' @ [squote] @ ''oauth-m2m'' @ [squote] @ '' or '' @ [squote] @ ''pat'' @ [squote] @ ''.'')
         @ complain (missing_names \<noteq> [])
             (''Databricks persistence is missing required settings: '' @ join '', '' missing_names @ ''.''))"

definition live_errors :: "service_settings \<Rightarrow> string list" where
  "live_errors s =
     complain (normalized_model_provider s \<in> set [[], ''none'']) ''MODEL_PROVIDER is required when RUN_MODE=live.''
     @ complain (py_lower (strip (model_name s)) \<in> set [[], ''not-configured'']) ''MODEL_NAME is required when RUN_MODE=live.''
     @ complain (\<not> credentials_configured s)
         ''The selected live model provider is missing required credentials or endpoint settings.''"

definition configuration_errors :: "(string \<Rightarrow> bool) \<Rightarrow> service_settings \<Rightarrow> callback_error + string list" where
  "configuration_errors bracketed_ok s =
     (let mode = py_lower (strip (run_mode s)) in
      bindR (mapR (origin_errors bracketed_ok) (cors_allowed_origins s)) (\<lambda>origins. Inr
        (complain (mode \<notin> set [''fixture'', ''live''])
           (''RUN_MODE must be either '' @ [squote] @ ''fixture'' @ [squote] @ '' or '' @ [squote] @ ''live'' @ [squote] @ ''.'')
         @ complain (\<not> (1 \<le> bind_port s \<and> bind_port s \<le> 65535)) ''PORT must be between 1 and 65535.''
         @ concat origins
         @ complain (\<not> (1 \<le> model_request_timeout_seconds s \<and> model_request_timeout_seconds s \<le> 300))
             ''MODEL_REQUEST_TIMEOUT_SECONDS must be between 1 and 300.''
         @ complain (float_le (worker_poll_seconds s) (Finite 0)) ''WORKER_POLL_SECONDS must be greater than zero.''
         @ complain (worker_lease_seconds s < 2) ''WORKER_LEASE_SECONDS must be at least 2.''
         @ complain (\<not> (float_less (Finite 0) (worker_heartbeat_seconds s)
                        \<and> float_less (worker_heartbeat_seconds s) (float_of_int (worker_lease_seconds s))))
             ''WORKER_HEARTBEAT_SECONDS must be positive and shorter than the lease.''
         @ complain (worker_max_attempts s < 1) ''WORKER_MAX_ATTEMPTS must be at least 1.''
         @ complain (float_le (capability_callback_timeout_seconds s) (Finite 0))
             ''CAPABILITY_CALLBACK_TIMEOUT_SECONDS must be greater than zero.''
         @ complain (float_le (capability_callback_poll_interval_seconds s) (Finite 0))
             ''CAPABILITY_CALLBACK_POLL_INTERVAL_SECONDS must be greater than zero.''
         @ complain (normalized_persistence_backend s \<notin> set [''sqlite'', ''databricks''])
             (''PERSISTENCE_BACKEND must be either '' @ [squote] @ ''sqlite'' @ [squote] @ '' or '' @ [squote] @ ''databricks'' @ [squote] @ ''.'')
         @ complain (service_replica_count s \<noteq> 1) ''SERVICE_REPLICA_COUNT must be 1 while lifecycle state uses SQLite.''
         @ (if normalized_persistence_backend s = ''databricks'' then databricks_errors s else [])
         @ (if mode = ''live'' then live_errors s else []))))"

definition ready :: "(string \<Rightarrow> bool) \<Rightarrow> service_settings \<Rightarrow> bool" where
  "ready bracketed_ok s = (configuration_errors bracketed_ok s = Inr [])"

section \<open>The environment\<close>

type_synonym environment = "string \<Rightarrow> string option"

definition getenv :: "environment \<Rightarrow> string \<Rightarrow> string \<Rightarrow> string" where
  "getenv env name fallback = (case env name of None \<Rightarrow> fallback | Some v \<Rightarrow> v)"

definition env_or_none :: "environment \<Rightarrow> string \<Rightarrow> string option" where
  "env_or_none env name = (if present (env name) then env name else None)"

definition env_flag :: "environment \<Rightarrow> string \<Rightarrow> string \<Rightarrow> bool" where
  "env_flag env name fallback = (py_lower (strip (getenv env name fallback)) \<in> set [''1'', ''true'', ''yes'', ''on''])"

definition env_list :: "environment \<Rightarrow> string \<Rightarrow> string list" where
  "env_list env name = filter (\<lambda>item. strip item \<noteq> []) (py_split (getenv env name []) (CHR '',''))"

record number_readers =
  read_int :: "string \<Rightarrow> int option"
  read_float :: "string \<Rightarrow> py_float option"

definition get_settings :: "number_readers \<Rightarrow> environment \<Rightarrow> service_settings option" where
  "get_settings rd env =
     (case (read_int rd (getenv env ''MODEL_REQUEST_TIMEOUT_SECONDS'' ''60''), read_int rd (getenv env ''PORT'' ''8000''),
            read_int rd (getenv env ''SERVICE_REPLICA_COUNT'' ''1''), read_float rd (getenv env ''WORKER_POLL_SECONDS'' ''0.25''),
            read_int rd (getenv env ''WORKER_LEASE_SECONDS'' ''30''), read_float rd (getenv env ''WORKER_HEARTBEAT_SECONDS'' ''5''),
            read_int rd (getenv env ''WORKER_MAX_ATTEMPTS'' ''3''), read_float rd (getenv env ''WORKER_SHUTDOWN_GRACE_SECONDS'' ''2''),
            read_float rd (getenv env ''CAPABILITY_CALLBACK_TIMEOUT_SECONDS'' ''10''),
            read_float rd (getenv env ''CAPABILITY_CALLBACK_POLL_INTERVAL_SECONDS'' ''1''),
            read_float rd (getenv env ''WORKFLOW_LAB_TIMEOUT_SECONDS'' ''30''),
            read_int rd (getenv env ''WORKFLOW_LAB_MAX_BYTES'' ''268435456'')) of
        (Some timeout, Some prt, Some replicas, Some poll, Some lease, Some beat, Some tries, Some grace,
         Some callback_timeout, Some callback_poll, Some lab_timeout, Some lab_bytes) \<Rightarrow> Some
          \<lparr>run_mode = getenv env ''RUN_MODE'' ''fixture'', model_provider = getenv env ''MODEL_PROVIDER'' ''openai'',
           model_name = getenv env ''MODEL_NAME'' ''gpt-4o-mini'', openai_api_key = env_or_none env ''OPENAI_API_KEY'',
           azure_openai_endpoint = env_or_none env ''AZURE_OPENAI_ENDPOINT'', azure_openai_api_key = env_or_none env ''AZURE_OPENAI_API_KEY'',
           azure_openai_api_version = env_or_none env ''AZURE_OPENAI_API_VERSION'',
           att_inference_base_url = env_or_none env ''ATT_INFERENCE_BASE_URL'', att_inference_api_key = env_or_none env ''ATT_INFERENCE_API_KEY'',
           model_request_timeout_seconds = timeout, enable_docs = env_flag env ''ENABLE_DOCS'' ''true'',
           bind_host = getenv env ''HOST'' ''0.0.0.0'', bind_port = prt,
           cors_allowed_origins = map (\<lambda>origin. rstrip_by (\<lambda>c. c = CHR ''/'') (strip origin)) (env_list env ''CORS_ALLOWED_ORIGINS''),
           persistence_backend = getenv env ''PERSISTENCE_BACKEND'' ''sqlite'',
           database_path = getenv env ''DATABASE_PATH'' ''/app/data/control_translation.db'', service_replica_count = replicas,
           cfg_server_hostname = env_or_none env ''DATABRICKS_SERVER_HOSTNAME'', cfg_http_path = env_or_none env ''DATABRICKS_HTTP_PATH'',
           cfg_auth_type = getenv env ''DATABRICKS_AUTH_TYPE'' ''oauth-m2m'', cfg_token = env_or_none env ''DATABRICKS_TOKEN'',
           cfg_client_id = env_or_none env ''DATABRICKS_CLIENT_ID'', cfg_client_secret = env_or_none env ''DATABRICKS_CLIENT_SECRET'',
           cfg_catalog = getenv env ''DATABRICKS_CATALOG'' ''36889_janus_dev'', cfg_schema = getenv env ''DATABRICKS_SCHEMA'' ''control_translation'',
           cfg_results_table = getenv env ''DATABRICKS_RESULTS_TABLE'' ''control_translation_results'',
           require_upstream_reader_ready = env_flag env ''REQUIRE_UPSTREAM_READER_READY'' ''false'',
           worker_poll_seconds = poll, worker_lease_seconds = lease, worker_heartbeat_seconds = beat, worker_max_attempts = tries,
           worker_shutdown_grace_seconds = grace, capability_callback_token = env_or_none env ''CAPABILITY_CALLBACK_TOKEN'',
           capability_callback_allowed_hosts = map (\<lambda>h. py_lower (strip h)) (env_list env ''CAPABILITY_CALLBACK_ALLOWED_HOSTS''),
           capability_callback_timeout_seconds = callback_timeout, capability_callback_poll_interval_seconds = callback_poll,
           default_target_technology = getenv env ''DEFAULT_TARGET_TECHNOLOGY'' ''akamai-waf'',
           default_target_policy_context_id = getenv env ''DEFAULT_TARGET_POLICY_CONTEXT_ID'' ''akamai-policy:example:rev-17'',
           workflow_lab_enabled = env_flag env ''WORKFLOW_LAB_ENABLED'' ''false'', workflow_lab_url = env_or_none env ''WORKFLOW_LAB_URL'',
           workflow_lab_state_path = getenv env ''WORKFLOW_LAB_STATE_PATH'' ''/app/data/workflow-lab/control_translation.db'',
           workflow_lab_timeout_seconds = lab_timeout, workflow_lab_max_bytes = lab_bytes\<rparr>
      | _ \<Rightarrow> None)"

section \<open>Ready settings\<close>

lemma complain_Nil [simp]: "complain b msg = [] \<longleftrightarrow> \<not> b"
  by (simp add: complain_def)

text \<open>
  C38. A service that reports itself ready runs within the bounds its parts rely on: one replica, a
  lease of at least two seconds that outlasts a positive heartbeat, at least one attempt, a port and a
  model timeout in range, a store it knows; in live mode the provider, the model and its
  credentials are set.
\<close>

theorem ready_settings_in_bounds:
  assumes "ready bracketed_ok s"
  shows "service_replica_count s = 1 \<and> 2 \<le> worker_lease_seconds s \<and> float_less (Finite 0) (worker_heartbeat_seconds s) \<and>
    float_less (worker_heartbeat_seconds s) (float_of_int (worker_lease_seconds s)) \<and> 1 \<le> worker_max_attempts s \<and>
    1 \<le> bind_port s \<and> bind_port s \<le> 65535 \<and> 1 \<le> model_request_timeout_seconds s \<and> model_request_timeout_seconds s \<le> 300 \<and>
    normalized_persistence_backend s \<in> {''sqlite'', ''databricks''} \<and>
    (py_lower (strip (run_mode s)) = ''live'' \<longrightarrow> credentials_configured s \<and> normalized_model_provider s \<notin> {[], ''none''})"
  using assms by (auto simp: ready_def configuration_errors_def Let_def bindR_eq_Inr live_errors_def)

definition sample_readers :: number_readers where
  "sample_readers = \<lparr>read_int = (\<lambda>t. Some (int (nat_of_digits 0 t))), read_float = (\<lambda>t. Some (Finite 1))\<rparr>"

definition sample_environment :: environment where
  "sample_environment name =
     (if name = ''RUN_MODE'' then Some '' live '' else if name = ''OPENAI_API_KEY'' then Some ''k'' else None)"

definition sample_service :: service_settings where
  "sample_service = the (get_settings sample_readers sample_environment)"

lemma sample_service_fields:
  "run_mode sample_service = '' live ''" "service_replica_count sample_service = 1" "bind_port sample_service = 8000"
  "cors_allowed_origins sample_service = []" "model_request_timeout_seconds sample_service = 60"
  "worker_poll_seconds sample_service = Finite 1" "worker_lease_seconds sample_service = 30"
  "worker_heartbeat_seconds sample_service = Finite 1" "worker_max_attempts sample_service = 3"
  "capability_callback_timeout_seconds sample_service = Finite 1" "capability_callback_poll_interval_seconds sample_service = Finite 1"
  "persistence_backend sample_service = ''sqlite''" "model_provider sample_service = ''openai''"
  "model_name sample_service = ''gpt-4o-mini''" "openai_api_key sample_service = Some ''k''"
  by (simp_all add: sample_service_def get_settings_def sample_readers_def getenv_def sample_environment_def env_or_none_def
      env_list_def present_def py_split_def strip_by_def lstrip_by_def rstrip_by_def ord_c_def)

lemma sample_ready: "ready (\<lambda>t. True) sample_service"
proof -
  have t: "py_lower (strip '' live '') = ''live''" "py_lower (strip ''sqlite'') = ''sqlite''" "py_lower (strip ''openai'') = ''openai''"
    "py_lower (strip ''gpt-4o-mini'') = ''gpt-4o-mini''" by code_simp+
  show ?thesis
    by (simp add: ready_def configuration_errors_def Let_def sample_service_fields t complain_def float_le_def float_less_def
        float_of_int_def normalized_persistence_backend_def live_errors_def normalized_model_provider_def credentials_configured_def
        is_att_inference_def present_def)
qed

theorem ready_settings_in_bounds_witness:
  "worker_lease_seconds sample_service = 30 \<and> credentials_configured sample_service"
proof -
  have "py_lower (strip (run_mode sample_service)) = ''live''" unfolding sample_service_fields by code_simp
  with ready_settings_in_bounds [OF sample_ready] show ?thesis by (simp add: sample_service_fields)
qed

text \<open>
  A padded \<^verbatim>\<open>RUN_MODE\<close> passes as live and runs as fixture: the readiness check strips the mode
  before it compares, \<^verbatim>\<open>is_live\<close> does not, so the service reports itself ready for the live
  provider and translates with the fixture doer.
\<close>

theorem padded_live_mode_is_not_live:
  "\<exists>s. get_settings sample_readers sample_environment = Some s \<and> ready (\<lambda>t. True) s \<and>
     py_lower (strip (run_mode s)) = ''live'' \<and> \<not> is_live s"
proof -
  have "get_settings sample_readers sample_environment \<noteq> None"
    by (simp add: get_settings_def sample_readers_def)
  then have "get_settings sample_readers sample_environment = Some sample_service" by (auto simp: sample_service_def)
  moreover have "py_lower (strip (run_mode sample_service)) = ''live''" "\<not> is_live sample_service"
    unfolding is_live_def sample_service_fields by code_simp+
  ultimately show ?thesis using sample_ready by blast
qed

end
