(* ===== verification/Capability.thy ===== *)
theory Capability
  imports Upstream Configuration Publication
begin

text \<open>
  The orchestration of one invocation, \<^verbatim>\<open>capability.py\<close>: the gates in their order, the result and
  its envelope, the resolution of referenced records before it, and the answer to a bypass result
  that is submitted directly. The policy reader, the doer and the fresh identifiers are parameters; an
  exception that leaves a function is the left injection of its type's name.
\<close>

record capability_ids =
  result_uuid :: string
  run_uuid :: string
  correlation_uuid :: string
  produced_at :: nat

type_synonym policy_reader = "string \<Rightarrow> string \<Rightarrow> policy_snapshot option checked"

record runtime =
  rt_decoders :: decoders
  rt_settings :: service_settings
  rt_reader :: policy_reader
  rt_doer :: doer
  rt_ids :: capability_ids

record proof_context =
  pc_qualification :: "proof_loop_qualification option"
  pc_requirements :: "requirements option"
  pc_request :: "request_context option"

definition no_proof_context :: proof_context where
  "no_proof_context = \<lparr>pc_qualification = None, pc_requirements = None, pc_request = None\<rparr>"

definition TARGET_CONTROL_CLASSES :: "(string \<times> string) list" where
  "TARGET_CONTROL_CLASSES = [(''akamai-waf'', ''waf''), (''firewall-generic'', ''firewall''), (''edr-s1'', ''edr'')]"

section \<open>Fixture policies\<close>

definition fixture_snapshot :: "string \<Rightarrow> string \<Rightarrow> string \<Rightarrow> string list \<Rightarrow> string list \<Rightarrow> (string \<times> string) \<times> policy_snapshot" where
  "fixture_snapshot sid tech context ids summaries =
     ((tech, context), \<lparr>snapshot_id = sid, snapshot_technology = tech, snapshot_context_id = context, existing_rule_ids = ids,
                        existing_rule_summaries = summaries\<rparr>)"

definition FIXTURE_SNAPSHOTS :: "((string \<times> string) \<times> policy_snapshot) list" where
  "FIXTURE_SNAPSHOTS =
     [fixture_snapshot ''policy-snapshot:akamai:example:rev-17'' ''akamai-waf'' ''akamai-policy:example:rev-17''
        [''rule-1001'', ''rule-1002'']
        [''rule-1001: block known SQLi patterns in query string'', ''rule-1002: rate-limit login endpoint''],
      fixture_snapshot ''policy-snapshot:firewall:example:rev-4'' ''firewall-generic'' ''firewall-policy:example:rev-4''
        [''fw-rule-10'', ''fw-rule-11'']
        [''fw-rule-10: deny inbound on legacy management port'', ''fw-rule-11: allow outbound DNS''],
      fixture_snapshot ''policy-snapshot:firewall:dmz:rev-1'' ''firewall-generic'' ''firewall-policy:dmz:rev-1''
        [''fw-rule-30''] [''fw-rule-30: deny deprecated administration service from untrust''],
      fixture_snapshot ''policy-snapshot:edr:example:rev-1'' ''edr-s1'' ''edr-policy:example:rev-1''
        [''star-rule-20''] [''star-rule-20: detect suspicious script interpreter process chains'']]"

definition fixture_policy_reader :: policy_reader where
  "fixture_policy_reader tech context = Inr (map_of FIXTURE_SNAPSHOTS (tech, context))"

section \<open>Targets\<close>

definition or_default :: "string option \<Rightarrow> string \<Rightarrow> string" where
  "or_default v fallback = (if given v then the v else fallback)"

definition caller_target :: "control_translation_request \<Rightarrow> target_context" where
  "caller_target request =
     (case input_target request of None \<Rightarrow> target_context.make None None | Some t \<Rightarrow> t)"

definition with_effective_target_context :: "service_settings \<Rightarrow> control_translation_request \<Rightarrow> control_translation_request \<times> bool" where
  "with_effective_target_context s request =
     (let t = caller_target request in
      (request\<lparr>input_target := Some (target_context.make
          (Some (or_default (target_context.target_technology t) (default_target_technology s)))
          (Some (or_default (target_policy_context_id t) (default_target_policy_context_id s))))\<rparr>,
       target_context.target_technology t = None \<or> target_policy_context_id t = None))"

definition unsupported_target_detail :: "string \<Rightarrow> string" where
  "unsupported_target_detail tech =
     ''Target technology '' @ [squote] @ tech @ [squote] @ '' is outside configured coverage. '' @
     ''This deployment translates only to '' @ join '', '' (map fst ADAPTER_REGISTRY) @ ''.''"

section \<open>Results and envelopes\<close>

record outcome =
  out_state :: terminal_state
  out_reason :: reason_code
  out_detail :: string
  out_candidate :: "primary_candidate option"
  out_prose :: "string option"
  out_counterexample :: "bypass_counterexample option"
  out_bypass_refs :: "string list"

definition plain_outcome :: "terminal_state \<Rightarrow> reason_code \<Rightarrow> string \<Rightarrow> outcome" where
  "plain_outcome state code detail =
     \<lparr>out_state = state, out_reason = code, out_detail = detail, out_candidate = None, out_prose = None, out_counterexample = None,
      out_bypass_refs = []\<rparr>"

definition evidence_of :: "proven_pattern \<Rightarrow> string \<Rightarrow> outcome \<Rightarrow> evidence_binding list" where
  "evidence_of pattern tech out =
     (if out_candidate out \<noteq> None
      then [\<lparr>binding_claim = ''discriminator-preserved'', binding_evidence_refs = proof_record_ids pattern\<rparr>,
            \<lparr>binding_claim = ''target-feature-supported'', binding_evidence_refs = [tech]\<rparr>]
      else if out_bypass_refs out \<noteq> [] then [\<lparr>binding_claim = ''limitation'', binding_evidence_refs = out_bypass_refs out\<rparr>]
      else [])"

definition make_result ::
  "string \<Rightarrow> nat \<Rightarrow> result_subject \<Rightarrow> input_bindings \<Rightarrow> outcome \<Rightarrow> proof_loop_qualification option \<Rightarrow> evidence_binding list
    \<Rightarrow> translation_result" where
  "make_result rid produced subject bindings out qualification evidence =
     \<lparr>res_contract_id = ''control-translation@1.0'', res_result_id = rid, res_produced_at = produced, res_subject = subject,
      res_input_bindings = bindings, res_terminal_state = out_state out,
      res_outcome_reason = \<lparr>reason_code = out_reason out, reason_detail = out_detail out\<rparr>,
      res_qualification = qualification, res_counterexample = out_counterexample out, res_candidate = out_candidate out,
      res_evidence_bindings = evidence, res_prose_summary = or_default (out_prose out) (out_detail out),
      res_shared_version = False, res_profile_id = None, res_verification = None, res_accounting = None, res_target_artifacts = [],
      res_directives = [], res_mappings = []\<rparr>"

text \<open>The assertions of \<^verbatim>\<open>_build_result\<close> hold for a request with a pattern and an effective target.\<close>

definition build_result ::
  "capability_ids \<Rightarrow> control_translation_request \<Rightarrow> bool \<Rightarrow> proof_loop_qualification option \<Rightarrow> outcome \<Rightarrow> translation_result checked" where
  "build_result ids request defaults_used qualification out =
     (case (input_pattern request, Option.bind (input_target request) target_context.target_technology,
            Option.bind (input_target request) target_policy_context_id) of
        (Some pattern, Some tech, Some context) \<Rightarrow> Inr (make_result
          (''control-translation-result:'' @ vulnerability_id pattern @ '':'' @ tech @ '':'' @ result_uuid ids) (produced_at ids)
          \<lparr>rs_vulnerability_id = vulnerability_id pattern, rs_proven_pattern_id = proven_pattern_id pattern,
           rs_control_class = selected_control_class pattern\<rparr>
          \<lparr>ib_target_technology = tech, ib_policy_context_id = context, ib_poc_defaults_used = defaults_used,
           ib_policy_snapshot_id = current_policy_snapshot_id request,
           ib_translation_policy_id = translation_policy_id (input_policy request), ib_proof_record_ids = proof_record_ids pattern\<rparr>
          out qualification (evidence_of pattern tech out))
      | _ \<Rightarrow> Inl ''AssertionError'')"

definition inference_json :: "service_settings \<Rightarrow> bool \<Rightarrow> string \<Rightarrow> json" where
  "inference_json s llm source = JObj
     [(''execution_mode'', JStr (if is_live s then ''live'' else ''fixture'')), (''provider'', JStr (model_provider s)),
      (''model'', JStr (model_name s)), (''llm_invoked'', JBool (llm \<and> is_live s)), (''proposal_source'', JStr source),
      (''credentials_configured'', JBool (credentials_configured s))]"

definition make_envelope ::
  "service_settings \<Rightarrow> capability_ids \<Rightarrow> string option \<Rightarrow> bool \<Rightarrow> string \<Rightarrow> translation_result \<Rightarrow> result_envelope" where
  "make_envelope s ids correlation llm source result =
     \<lparr>re_run_id = run_uuid ids, re_result_id = res_result_id result, re_status = TERMINAL_STATE_TO_STATUS (res_terminal_state result),
      re_terminal_state = res_terminal_state result, re_request_id = None, re_correlation_id = or_default correlation (correlation_uuid ids),
      re_result_ref = \<lparr>rr_result_id = res_result_id result, rr_href = ''/v1/results/'' @ res_result_id result\<rparr>,
      re_upstream_refs = None, re_structured = result, re_prose = res_prose_summary result, re_reference_bundle = JObj [],
      re_provenance = ib_proof_record_ids (res_input_bindings result), re_confidence = JObj [], re_warnings = [],
      re_trace = [''terminal_state='' @ terminal_state_value (res_terminal_state result)], re_inference = inference_json s llm source\<rparr>"

definition insufficient_context_envelope ::
  "service_settings \<Rightarrow> capability_ids \<Rightarrow> string option \<Rightarrow> target_context option \<Rightarrow> bool \<Rightarrow> string \<Rightarrow> json \<Rightarrow> result_envelope" where
  "insufficient_context_envelope s ids correlation target defaults_used detail bundle =
     (let t = (case target of None \<Rightarrow> target_context.make None None | Some t \<Rightarrow> t);
          tech = or_default (target_context.target_technology t) (default_target_technology s);
          context = or_default (target_policy_context_id t) (default_target_policy_context_id s)
      in (make_envelope s ids correlation False ''none''
           (make_result (''control-translation-result:unknown:'' @ tech @ '':'' @ result_uuid ids) (produced_at ids)
              \<lparr>rs_vulnerability_id = ''unknown'', rs_proven_pattern_id = ''unresolved'', rs_control_class = ''unknown''\<rparr>
              \<lparr>ib_target_technology = tech, ib_policy_context_id = context, ib_poc_defaults_used = defaults_used,
               ib_policy_snapshot_id = None, ib_translation_policy_id = ''control-translation-policy:mvp1'', ib_proof_record_ids = []\<rparr>
              (plain_outcome InsufficientContext InsufficientPatternContext detail) None []))
         \<lparr>re_reference_bundle := bundle\<rparr>)"

text \<open>
  A call of a function whose parameters are all keyword-only: it runs if every keyword passed is a
  parameter and every parameter without a default is passed, and raises otherwise. The parameters of
  \<^verbatim>\<open>_insufficient_context_envelope\<close> follow, those without a default first; \<^verbatim>\<open>reference_bundle\<close>
  defaults to the empty bundle.
\<close>

definition keyword_call :: "string list \<Rightarrow> string list \<Rightarrow> string list \<Rightarrow> 'a \<Rightarrow> 'a checked" where
  "keyword_call required optional passed result =
     (if list_all (\<lambda>k. k \<in> set (required @ optional)) passed \<and> list_all (\<lambda>k. k \<in> set passed) required
      then Inr result else Inl ''TypeError'')"

definition INSUFFICIENT_REQUIRED :: "string list" where
  "INSUFFICIENT_REQUIRED = [''detail'', ''settings'', ''correlation_id'', ''target_context'', ''configured_poc_defaults_used'']"

definition INSUFFICIENT_OPTIONAL :: "string list" where
  "INSUFFICIENT_OPTIONAL = [''reference_bundle'']"

section \<open>Invocation\<close>

definition not_cleared :: "proof_context \<Rightarrow> bool" where
  "not_cleared pc = (case pc_qualification pc of None \<Rightarrow> False | Some q \<Rightarrow> \<not> qual_bypass_cleared q)"

definition exhausted_limitation :: "proof_context \<Rightarrow> string list" where
  "exhausted_limitation pc =
     (case pc_qualification pc of
        None \<Rightarrow> []
      | Some q \<Rightarrow>
          if qual_bypass_cleared q then []
          else [''PoC candidate loop exhausted after '' @ dec_nat (qual_completed_iterations q) @ '' iterations; '' @
                ''the latest Bypass Validation state was bypass-found. '' @ ''This candidate is not bypass-cleared.''])"

definition translated_prose :: "proof_context \<Rightarrow> proven_pattern \<Rightarrow> string \<Rightarrow> primary_candidate \<Rightarrow> string" where
  "translated_prose pc pattern tech c =
     ''Translated '' @ (if not_cleared pc then ''loop-exhausted candidate pattern'' else ''proven pattern'') @ '' '' @
     proven_pattern_id pattern @ '' into a '' @ candidate_artifact.artifact_type (cand_artifact c) @ '' candidate ('' @
     discriminator_translation (cand_discriminator c) @ '' translation) for '' @ tech @ ''.''"

text \<open>The outcome of a translation that was attempted.\<close>

definition engine_outcome :: "proof_context \<Rightarrow> proven_pattern \<Rightarrow> string \<Rightarrow> engine_result \<Rightarrow> outcome \<times> bool \<times> string" where
  "engine_outcome pc pattern tech r =
     (case r of
        EngineFailure f \<Rightarrow>
          ((if failure_reason f = ''provider-failure'' then plain_outcome Malfunction ProviderFailure (failure_text f)
            else plain_outcome CannotExpress UnsupportedFeature (failure_text f)), failed_llm f, failed_source f)
      | EngineSuccess s \<Rightarrow>
          (let c = (success_candidate s)\<lparr>cand_limitations := cand_limitations (success_candidate s) @ exhausted_limitation pc\<rparr> in
           ((if conflict_notes (cand_placement c) \<noteq> []
             then (plain_outcome ScopeDeclined PolicyConflict
                     (''Candidate conflicts with existing policy: '' @ join ''; '' (conflict_notes (cand_placement c))))\<lparr>out_candidate := Some c\<rparr>
             else (plain_outcome Translated RTranslated
                     (if not_cleared pc
                      then ''Translation succeeded via the PoC exhaustion route; the latest '' @
                           ''candidate remains bypass-found and is not bypass-cleared.''
                      else ''Translation succeeded.''))
                  \<lparr>out_candidate := Some c, out_prose := Some (translated_prose pc pattern tech c)\<rparr>),
            success_llm s, success_source s)))"

definition translation_task_of ::
  "runtime \<Rightarrow> proof_context \<Rightarrow> control_translation_request \<Rightarrow> proven_pattern \<Rightarrow> string \<Rightarrow> string \<Rightarrow> adapter \<Rightarrow> policy_snapshot
    \<Rightarrow> translation_task" where
  "translation_task_of rt pc request pattern tech context ad snapshot =
     \<lparr>task_pattern = pattern, task_technology = tech, task_context_id = context, task_adapter = ad, task_doer = rt_doer rt,
      task_snapshot = Some snapshot, task_requirements = pc_requirements pc, task_request = pc_request pc,
      task_policy = input_policy request\<rparr>"

text \<open>The gates before a translation: an outcome that ends the invocation, or the task.\<close>

definition admit ::
  "runtime \<Rightarrow> proof_context \<Rightarrow> control_translation_request \<Rightarrow> proven_pattern \<Rightarrow> string \<Rightarrow> string \<Rightarrow> (outcome + translation_task) checked" where
  "admit rt pc request pattern tech context =
     (case get_adapter tech of
        None \<Rightarrow> Inr (Inl (plain_outcome ScopeDeclined InvalidInput (unsupported_target_detail tech)))
      | Some ad \<Rightarrow>
          (case map_of TARGET_CONTROL_CLASSES tech of
             None \<Rightarrow> Inl ''KeyError''
           | Some expected \<Rightarrow>
               if py_lower (selected_control_class pattern) \<noteq> expected
               then Inr (Inl (plain_outcome ScopeDeclined InvalidInput
                 (''Selected control class '' @ [squote] @ selected_control_class pattern @ [squote] @ '' is not '' @
                  ''compatible with target technology '' @ [squote] @ tech @ [squote] @ '' '' @
                  ''(expected '' @ [squote] @ expected @ [squote] @ '').'')))
               else bindR (rt_reader rt tech context) (\<lambda>read.
                 case read of
                   None \<Rightarrow> Inr (Inl (plain_outcome InsufficientContext InsufficientPolicyContext
                     (''No current policy snapshot available for '' @ tech @ ''/'' @ context @ ''; '' @
                      ''cannot safely translate without reading current policy.'')))
                 | Some snapshot \<Rightarrow>
                     if current_policy_snapshot_id request \<noteq> None \<and> current_policy_snapshot_id request \<noteq> Some (snapshot_id snapshot)
                     then Inr (Inl (plain_outcome ScopeDeclined InvalidInput
                       (''Requested policy snapshot '' @ [squote] @ the (current_policy_snapshot_id request) @ [squote] @ '' '' @
                        ''does not match resolved snapshot '' @ [squote] @ snapshot_id snapshot @ [squote] @ ''.'')))
                     else Inr (Inr (translation_task_of rt pc request pattern tech context ad snapshot)))))"

definition decide ::
  "runtime \<Rightarrow> proof_context \<Rightarrow> control_translation_request \<Rightarrow> proven_pattern \<Rightarrow> string \<Rightarrow> string \<Rightarrow> (outcome \<times> bool \<times> string) checked" where
  "decide rt pc request pattern tech context =
     bindR (admit rt pc request pattern tech context) (\<lambda>gate.
       case gate of
         Inl out \<Rightarrow> Inr (out, False, ''none'')
       | Inr task \<Rightarrow> bindR (translate_pattern (rt_decoders rt) task) (\<lambda>r. Inr (engine_outcome pc pattern tech r)))"

text \<open>The call that answers a request without a pattern, with the keywords it passes.\<close>

definition without_pattern :: "runtime \<Rightarrow> string option \<Rightarrow> control_translation_request \<Rightarrow> bool \<Rightarrow> result_envelope checked" where
  "without_pattern rt correlation request defaults_used =
     keyword_call INSUFFICIENT_REQUIRED INSUFFICIENT_OPTIONAL
       [''detail'', ''settings'', ''correlation_id'', ''target_context'', ''configured_poc_defaults_used'', ''proof_loop_qualification'']
       (insufficient_context_envelope (rt_settings rt) (rt_ids rt) correlation (input_target request) defaults_used
          ''No proven pattern or upstream result references were supplied.'' (JObj []))"

definition invoke :: "runtime \<Rightarrow> string option \<Rightarrow> proof_context \<Rightarrow> control_translation_request \<Rightarrow> result_envelope checked" where
  "invoke rt correlation pc original =
     (case with_effective_target_context (rt_settings rt) original of (request, defaults_used) \<Rightarrow>
        (case input_pattern request of
           None \<Rightarrow> without_pattern rt correlation request defaults_used
         | Some pattern \<Rightarrow>
             (let t = the (input_target request); tech = the (target_context.target_technology t); context = the (target_policy_context_id t) in
              bindR (decide rt pc request pattern tech context) (\<lambda>(out, llm, source).
              bindR (build_result (rt_ids rt) request defaults_used (pc_qualification pc) out) (\<lambda>result.
                Inr (make_envelope (rt_settings rt) (rt_ids rt) correlation llm source result))))))"

text \<open>\<^verbatim>\<open>proof_loop_qualification\<close> is not a parameter of the function called.\<close>

lemma without_pattern_raises [simp]: "without_pattern rt correlation request defaults_used = Inl ''TypeError''"
  by (simp add: without_pattern_def keyword_call_def INSUFFICIENT_REQUIRED_def INSUFFICIENT_OPTIONAL_def)

section \<open>Referenced invocation\<close>

definition bind_request_context :: "request_envelope \<Rightarrow> result_envelope \<Rightarrow> result_envelope" where
  "bind_request_context request e =
     e\<lparr>re_request_id := env_request_id request, re_upstream_refs := env_upstream_refs request,
       re_reference_bundle := (case env_upstream_refs request of None \<Rightarrow> JObj [] | Some refs \<Rightarrow> upstream_refs_json refs)\<rparr>"

text \<open>The two calls with references pass keywords that the function has, so they run.\<close>

lemma reference_keywords_bind:
  "keyword_call INSUFFICIENT_REQUIRED INSUFFICIENT_OPTIONAL
     [''detail'', ''settings'', ''correlation_id'', ''target_context'', ''configured_poc_defaults_used'', ''reference_bundle''] x = Inr x"
  by (simp add: keyword_call_def INSUFFICIENT_REQUIRED_def INSUFFICIENT_OPTIONAL_def)

definition insufficient :: "runtime \<Rightarrow> request_envelope \<Rightarrow> upstream_result_references \<Rightarrow> string \<Rightarrow> result_envelope" where
  "insufficient rt request refs detail =
     bind_request_context request (insufficient_context_envelope (rt_settings rt) (rt_ids rt) (env_correlation_id request)
       (input_target (env_input request)) (input_target (env_input request) = None) detail (upstream_refs_json refs))"

definition resolution_of :: "request_envelope \<Rightarrow> routing_metadata \<Rightarrow> resolution" where
  "resolution_of request routing =
     \<lparr>res_correlation = env_correlation_id request, res_revision = env_revision_id request, res_routing = routing,
      res_expected_vulnerability = map_option subj_vulnerability_id (env_subject request),
      res_expected_candidate = map_option subj_candidate_id (env_subject request),
      res_locators = (case env_upstream_inputs request of
          None \<Rightarrow> None | Some is \<Rightarrow> if list_all is_strict_locator is then Some is else None)\<rparr>"

definition resolved_request :: "control_translation_request \<Rightarrow> resolved_loop \<Rightarrow> control_translation_request" where
  "resolved_request request l =
     (let t = caller_target request in
      request\<lparr>input_pattern := Some (loop_pattern l),
        input_target := Some (target_context.make
          (if given (target_context.target_technology t) then target_context.target_technology t else loop_technology l)
          (if given (target_policy_context_id t) then target_policy_context_id t else loop_policy_context_id l))\<rparr>)"

definition exhaustion_evidence :: "resolved_loop \<Rightarrow> result_envelope \<Rightarrow> result_envelope" where
  "exhaustion_evidence l e =
     (if qual_validated (loop_qualification l) then e
      else e\<lparr>re_structured := (re_structured e)
        \<lparr>res_counterexample := loop_counterexample l,
         res_evidence_bindings := res_evidence_bindings (re_structured e) @
           (if loop_bypass_evidence l = [] then [] else [\<lparr>binding_claim = ''limitation'', binding_evidence_refs = loop_bypass_evidence l\<rparr>])\<rparr>\<rparr>)"

definition invoke_envelope :: "runtime \<Rightarrow> resolver option \<Rightarrow> request_envelope \<Rightarrow> result_envelope checked" where
  "invoke_envelope rt fetch request =
     (case env_upstream_refs request of
        None \<Rightarrow> bindR (invoke rt (env_correlation_id request) no_proof_context (env_input request)) (\<lambda>e. Inr (bind_request_context request e))
      | Some refs \<Rightarrow>
          (case fetch of
             None \<Rightarrow> Inr (insufficient rt request refs ''Referenced upstream results cannot be fetched with the current configuration.'')
           | Some f \<Rightarrow>
               (case env_routing_metadata request of
                  None \<Rightarrow> Inl ''AttributeError''
                | Some routing \<Rightarrow>
                    (case resolve_proof_loop (rt_decoders rt) f refs (resolution_of request routing) of
                       Inl (ResolutionError detail) \<Rightarrow> Inr (insufficient rt request refs detail)
                     | Inl OperationCancelled \<Rightarrow> Inl ''OperationCancelled''
                     | Inl (OtherError e) \<Rightarrow> Inl e
                     | Inr l \<Rightarrow>
                         bindR (invoke rt (env_correlation_id request)
                            \<lparr>pc_qualification = Some (loop_qualification l), pc_requirements = loop_requirements l, pc_request = loop_request l\<rparr>
                            (resolved_request (env_input request) l)) (\<lambda>e.
                           Inr (bind_request_context request (exhaustion_evidence l e)))))))"

section \<open>A bypass result submitted directly\<close>

record direct_bypass_submission = direct_bypass_result +
  db_counterexample :: bypass_counterexample
  db_feedback_refs :: "string list"
  db_observed_failure :: string
  db_do_not_repeat :: string
  db_dump :: string

definition prior_check :: "'a direct_bypass_result_scheme \<Rightarrow> (string \<times> json) list" where
  "prior_check b = dict_or_empty (get_or_null (db_input_bindings b) ''prior_mitigation_check'')"

definition direct_correlation_id :: "'a direct_bypass_result_scheme \<Rightarrow> string" where
  "direct_correlation_id b = py_str (get_or_null (prior_check b) ''correlation_id'')"

definition direct_mitigation_id :: "'a direct_bypass_result_scheme \<Rightarrow> string" where
  "direct_mitigation_id b = py_str (get_or_null (prior_check b) ''result_id'')"

text \<open>\<^verbatim>\<open>CVE-\d{4}-\d+\<close> at a position and in a text, without regard to case.\<close>

definition cve_at :: "string \<Rightarrow> string option" where
  "cve_at s =
     (let year = take 4 (drop 4 s); number = takeWhile is_digit (drop 9 s) in
      if starts_with (py_lower s) ''cve-'' \<and> length year = 4 \<and> list_all is_digit year \<and> take 1 (drop 8 s) = ''-'' \<and> number \<noteq> []
      then Some (take 9 s @ number) else None)"

fun find_cve :: "string \<Rightarrow> string option" where
  "find_cve [] = None"
| "find_cve (c # cs) = (case cve_at (c # cs) of Some m \<Rightarrow> Some m | None \<Rightarrow> find_cve cs)"

definition limited :: "string \<Rightarrow> string option checked" where
  "limited s = (if bounded_text 1 255 (trimmed s) then Inr (Some (trimmed s)) else Inl ''ValidationError'')"

definition default_policy :: translation_policy where
  "default_policy =
     \<lparr>translation_policy_id = ''control-translation-policy:mvp1'', allow_narrower_translation = True, allow_equivalent_translation = True,
      allow_broader_translation = True\<rparr>"

definition normalize_direct_bypass_request :: "decoders \<Rightarrow> direct_bypass_submission \<Rightarrow> request_envelope checked" where
  "normalize_direct_bypass_request d b =
     (let source = db_vulnerability_id b; vulnerability = (case find_cve source of Some m \<Rightarrow> py_upper m | None \<Rightarrow> ''unknown'') in
      case make_pattern
        \<lparr>proven_pattern_id = ''bypass-found:'' @ source, vulnerability_id = vulnerability, selected_control_class = ''waf'',
         discriminator_id = source, discriminator_description = db_observed_failure b, pattern_summary = db_do_not_repeat b,
         proof_record_ids = [direct_mitigation_id b, db_result_id b], json_body_feature = None\<rparr> of
        Inl _ \<Rightarrow> Inl ''ValidationError''
      | Inr pattern \<Rightarrow>
          bindR (limited (db_result_id b)) (\<lambda>rid. bindR (limited (direct_correlation_id b)) (\<lambda>correlation. Inr
            \<lparr>env_contract_id = None,
             env_input = \<lparr>input_pattern = Some pattern, input_target = None, input_policy = default_policy, current_policy_snapshot_id = None\<rparr>,
             env_subject = Some \<lparr>subj_vulnerability_id = vulnerability, subj_candidate_id = trimmed source\<rparr>,
             env_upstream_inputs = None, env_routing_context = None, env_upstream_refs = None, env_routing_metadata = None,
             env_scope_config =
               [(''compatibility_input_contract'', JStr ''bypass-validation@1.0''), (''source_bypass_result_id'', JStr (db_result_id b)),
                (''source_bypass_result_sha256'', JStr (hex_sha256 d (utf8 (db_dump b))))],
             env_request_id = rid, env_correlation_id = correlation, env_idempotency_key = rid, env_revision_id = None,
             env_provenance = Some \<lparr>prov_caller = Some ''bypass-validation'', prov_source = Some ''direct-result-compatibility''\<rparr>,
             env_callback_url = None\<rparr>)))"

text \<open>\<^verbatim>\<open>DatabricksResultReference.model_validate\<close> on a dict: no other keys, text fields stripped.\<close>

definition text_or_none :: "(string \<times> json) list \<Rightarrow> string \<Rightarrow> string option option" where
  "text_or_none kvs k =
     (case get_or_null kvs k of JNull \<Rightarrow> Some None | JStr s \<Rightarrow> Some (Some (trimmed s)) | _ \<Rightarrow> None)"

definition parse_reference :: "(string \<times> json) list \<Rightarrow> result_reference checked" where
  "parse_reference kvs =
     (if \<not> list_all (\<lambda>(k, v). k \<in> set [''system'', ''catalog'', ''schema'', ''schema_name'', ''table'', ''contract_id'', ''namespace'', ''key'']) kvs
      then Inl ''ValidationError''
      else (case (get_or_null kvs ''system'', text_or_none kvs ''catalog'',
                  text_or_none kvs (if get kvs ''schema'' \<noteq> None then ''schema'' else ''schema_name''), text_or_none kvs ''table'',
                  text_or_none kvs ''contract_id'', text_or_none kvs ''namespace'', text_or_none kvs ''key'') of
          (JStr sys, Some catalog, Some schema, Some table, Some contract, Some namespace, Some (Some key)) \<Rightarrow>
            if sys \<notin> set [''databricks'', ''workflow-lab''] \<or> (get kvs ''schema'' \<noteq> None \<and> get kvs ''schema_name'' \<noteq> None)
            then Inl ''ValidationError''
            else (case validate_databricks_reference
                \<lparr>ref_system = (if sys = ''databricks'' then Databricks else WorkflowLab), ref_catalog = catalog, ref_schema = schema,
                 ref_table = table, ref_contract_id = contract, ref_namespace = namespace, ref_key = key\<rparr> of
                Inl _ \<Rightarrow> Inl ''ValidationError'' | Inr r \<Rightarrow> Inr r)
        | _ \<Rightarrow> Inl ''ValidationError''))"

definition bypass_detail :: string where
  "bypass_detail =
     ''Bypass Validation proved that this candidate is bypassable. '' @
     ''The direct result does not contain authoritative proof that the '' @
     ''orchestration candidate loop exhausted 10 iterations; start a new '' @
     ''generation cycle or submit the complete orchestration envelope.''"

definition decline_direct_bypass ::
  "runtime \<Rightarrow> request_envelope \<Rightarrow> direct_bypass_submission \<Rightarrow> result_envelope checked" where
  "decline_direct_bypass rt request b =
     (case with_effective_target_context (rt_settings rt) (env_input request) of (effective, defaults_used) \<Rightarrow>
        (let ce = db_counterexample b;
             refs = sorted_texts (remdups (counterexample_sample_ref ce # counterexample_evidence_refs ce @ db_feedback_refs b)) in
         bindR (build_result (rt_ids rt) effective defaults_used None
            ((plain_outcome ScopeDeclined BypassFoundRequiresRegeneration bypass_detail)
             \<lparr>out_counterexample := Some ce, out_bypass_refs := refs\<rparr>)) (\<lambda>result.
         bindR (parse_reference (dict_or_empty (get_or_null (prior_check b) ''result_ref''))) (\<lambda>mitigation.
           Inr ((bind_request_context request
                  (make_envelope (rt_settings rt) (rt_ids rt) (env_correlation_id request) False ''none'' result))
                \<lparr>re_reference_bundle := JObj [(''mitigation_check'', serialize_reference mitigation),
                   (''bypass_validation'', serialize_reference (db_result_ref b))]\<rparr>)))))"

end
