(* ===== verification/JsonRoundTrip.thy ===== *)
theory JsonRoundTrip
  imports JsonParse
begin

text \<open>
  Reading what \<^verbatim>\<open>json.dumps\<close> writes, the injectivity of the canonical text, and the fuel
  of the parser.
\<close>

section \<open>Characters\<close>

lemma hex_digits: "k < 16 \<Longrightarrow> is_hex (hex_digit_lower k) \<and> hex_val (hex_digit_lower k) = k"
  by (auto simp: hex_digit_lower_def is_hex_def hex_val_def ord_chr Let_def)

lemma takeWhile_stops: "(rest = [] \<or> \<not> P (hd rest)) \<Longrightarrow> takeWhile P (xs @ rest) = takeWhile P xs"
  by (induction xs) (auto split: if_splits, cases rest, auto)

section \<open>Strings\<close>

lemma hex4_control: "n < 32 \<Longrightarrow> hex4 [CHR ''0'', CHR ''0'', hex_digit_lower (n div 16), hex_digit_lower (n mod 16)] = Some n"
  using hex_digits [of "n div 16"] hex_digits [of "n mod 16"] by (simp add: hex4_def) (simp add: is_hex_def hex_val_def ord_c_def)

lemma special_ords: "ord_c dquote = 34" "ord_c bslash = 92" "ord_c (CHR ''u'') = 117"
  by (simp_all add: ord_c_def)

lemma scan_escaped: "scan_string (escape_char c @ s) = map_option (\<lambda>(t, r). (c # t, r)) (scan_string s)"
proof -
  consider "c = dquote \<or> c = bslash" | "c \<noteq> dquote" "c \<noteq> bslash" "ord_c c \<in> {8, 9, 10, 12, 13}"
    | "c \<noteq> dquote" "c \<noteq> bslash" "ord_c c < 32" "ord_c c \<notin> {8, 9, 10, 12, 13}" | "c \<noteq> dquote" "c \<noteq> bslash" "32 \<le> ord_c c" by linarith
  then show ?thesis
  proof cases
    case 2
    have "c = chr_c 8 \<or> c = chr_c 9 \<or> c = chr_c 10 \<or> c = chr_c 12 \<or> c = chr_c 13"
      using 2(3) by (metis chr_ord insert_iff singletonD)
    then show ?thesis using 2 by (elim disjE) (simp_all add: escape_char_def Let_def unescaped_def ord_chr)
  next
    case 3
    then have "escape_char c = [bslash, CHR ''u'', CHR ''0'', CHR ''0'', hex_digit_lower (ord_c c div 16), hex_digit_lower (ord_c c mod 16)]"
      by (simp add: escape_char_def Let_def)
    then show ?thesis using hex4_control [of "ord_c c"] 3(3) by simp
  qed (auto simp: escape_char_def Let_def unescaped_def)
qed

lemma scan_json_string: "scan_string (concat (map escape_char s) @ dquote # rest) = Some (s, rest)"
  by (induction s) (simp_all add: scan_escaped)

section \<open>Numbers\<close>

text \<open>What can follow a value: nothing that continues a number.\<close>

definition follow :: "string \<Rightarrow> bool" where
  "follow rest = (rest = [] \<or> hd rest \<in> set '',]}'')"

lemma follow_simps [simp]: "follow []" "follow (CHR '','' # s)" "follow (CHR '']'' # s)" "follow (CHR ''}'' # s)"
  by (simp_all add: follow_def)

lemma follow_digit: "follow rest \<Longrightarrow> rest = [] \<or> \<not> is_digit (hd rest)"
  by (auto simp: follow_def is_digit_def ord_c_def)

lemma digits_follow: "follow rest \<Longrightarrow> takeWhile is_digit (xs @ rest) = takeWhile is_digit xs"
  by (rule takeWhile_stops) (rule follow_digit)

lemma follow_cases: "follow rest \<Longrightarrow> rest = [] \<or> (\<exists>c cs. rest = c # cs \<and> c \<in> set '',]}'')"
  by (cases rest) (auto simp: follow_def)

lemma int_part_follow: "follow rest \<Longrightarrow> int_part (s @ rest) = int_part s"
  using follow_cases [of rest] digits_follow [of rest "tl s"]
  by (cases s) (auto simp: int_part_def is_digit_def ord_c_def)

lemma frac_part_follow: "follow rest \<Longrightarrow> frac_part (s @ rest) = frac_part s"
  using follow_cases [of rest] digits_follow [of rest "tl s"] by (cases s) (auto simp: frac_part_def)

lemma sign_part_follow: "follow rest \<Longrightarrow> sign_part (s @ rest) = sign_part s"
  using follow_cases [of rest] by (cases s) (auto simp: sign_part_def)

lemma sign_part_length: "length (sign_part s) \<le> length s"
  by (simp add: sign_part_def split: list.split)

lemma exp_part_follow: "follow rest \<Longrightarrow> exp_part (s @ rest) = exp_part s"
  using follow_cases [of rest] digits_follow [of rest "drop (length (sign_part (tl s))) (tl s)"]
    sign_part_follow [of rest "tl s"] sign_part_length [of "tl s"]
  by (cases s) (auto simp: exp_part_def Let_def)

lemma minus_part_follow: "follow rest \<Longrightarrow> minus_part (s @ rest) = minus_part s"
  using follow_cases [of rest] by (cases s) (auto simp: minus_part_def)

lemma part_lengths: "length (minus_part s) \<le> length s" "length (int_part s) \<le> length s" "length (frac_part s) \<le> length s"
    "length (exp_part s) \<le> length s"
proof -
  show "length (exp_part s) \<le> length s"
  proof (cases s)
    case (Cons c cs)
    have "length (takeWhile is_digit (drop (length (sign_part cs)) cs)) \<le> length cs - length (sign_part cs)"
      by (metis length_drop length_takeWhile_le)
    then show ?thesis using Cons sign_part_length [of cs] by (auto simp: exp_part_def Let_def)
  qed (simp add: exp_part_def)
qed (auto simp: minus_part_def int_part_def frac_part_def le_SucI length_takeWhile_le split: list.split)

lemma drop_prefix: "length p \<le> length s \<Longrightarrow> drop (length p) (s @ rest) = drop (length p) s @ rest"
  by simp

lemma scan_number_append:
  assumes "follow rest"
  shows "scan_number (s @ rest) = map_option (\<lambda>(j, r). (j, r @ rest)) (scan_number s)"
  unfolding scan_number_def Let_def minus_part_follow [OF assms] drop_prefix [OF part_lengths(1)]
    int_part_follow [OF assms] drop_prefix [OF part_lengths(2)] frac_part_follow [OF assms] drop_prefix [OF part_lengths(3)]
    exp_part_follow [OF assms] drop_prefix [OF part_lengths(4)]
  by (simp only: if_distrib [of "map_option _"] option.map prod.case cong: if_cong)

text \<open>Decimal digits.\<close>

lemma nat_of_digits_append: "nat_of_digits acc (xs @ ys) = nat_of_digits (nat_of_digits acc xs) ys"
  by (induction xs arbitrary: acc) simp_all

lemma digit_chr: "k < 10 \<Longrightarrow> is_digit (chr_c (48 + k)) \<and> ord_c (chr_c (48 + k)) = 48 + k"
  by (simp add: is_digit_def ord_chr Let_def)

lemma dec_digits_facts:
  "n < fuel \<Longrightarrow> nat_of_digits 0 (dec_digits fuel n) = n \<and> list_all is_digit (dec_digits fuel n) \<and> dec_digits fuel n \<noteq> []
     \<and> (hd (dec_digits fuel n) = CHR ''0'' \<longrightarrow> dec_digits fuel n = ''0'')"
proof (induction fuel n rule: dec_digits.induct)
  case (2 fuel n)
  show ?case
  proof (cases "n < 10")
    case True
    then have "chr_c (48 + n) = CHR ''0'' \<Longrightarrow> n = 0" using digit_chr [of n] by (auto simp: ord_c_def)
    then show ?thesis using True digit_chr [of n] by auto
  next
    case False
    then have "n div 10 < fuel" using 2(2) by auto
    then have IH: "nat_of_digits 0 (dec_digits fuel (n div 10)) = n div 10" "list_all is_digit (dec_digits fuel (n div 10))"
      "dec_digits fuel (n div 10) \<noteq> []" "hd (dec_digits fuel (n div 10)) = CHR ''0'' \<longrightarrow> dec_digits fuel (n div 10) = ''0''"
      using 2(1) False by auto
    have "dec_digits fuel (n div 10) \<noteq> ''0''" using IH(1) False by (auto simp: ord_c_def)
    then show ?thesis using IH digit_chr [of "n mod 10"] False by (simp add: nat_of_digits_append)
  qed
qed simp

lemma dec_nat_facts:
  "nat_of_digits 0 (dec_nat n) = n" "list_all is_digit (dec_nat n)" "dec_nat n \<noteq> []" "hd (dec_nat n) = CHR ''0'' \<Longrightarrow> dec_nat n = ''0''"
  using dec_digits_facts [of n "Suc n"] by (auto simp: dec_nat_def)

lemma int_part_dec: "int_part (dec_nat n) = dec_nat n"
proof (cases "dec_nat n")
  case (Cons c cs)
  have "takeWhile is_digit (dec_nat n) = dec_nat n" using dec_nat_facts(2) [of n] by (simp add: list_all_iff)
  then show ?thesis using Cons dec_nat_facts(4) [of n] by (auto simp: int_part_def)
qed (use dec_nat_facts(3) in simp)

lemma minus_part_dec: "minus_part (dec_nat n) = []"
  using dec_nat_facts(2,3) [of n] by (auto simp: minus_part_def is_digit_def ord_c_def split: list.split)

lemma minus_part_minus: "minus_part (CHR ''-'' # s) = ''-''"
  by (simp add: minus_part_def)

lemma scan_dec_int: "scan_number (dec_int i) = Some (JInt i, [])"
  by (cases "i < 0")
    (simp_all add: dec_int_def scan_number_def Let_def minus_part_dec minus_part_minus int_part_dec dec_nat_facts frac_part_def exp_part_def)

text \<open>A number is no other kind of value.\<close>

lemma scan_number_start:
  assumes "scan_number s \<noteq> None"
  shows "s \<noteq> []" and "is_digit (hd s) \<or> hd s = CHR ''-'' \<and> tl s \<noteq> [] \<and> is_digit (hd (tl s))"
proof -
  have start: "x \<noteq> [] \<and> is_digit (hd x)" if "int_part x \<noteq> []" for x
    using that by (auto simp: int_part_def is_digit_def ord_c_def split: list.splits if_splits)
  have i: "int_part (drop (length (minus_part s)) s) \<noteq> []" using assms by (auto simp: scan_number_def Let_def)
  then have "is_digit (hd s) \<or> hd s = CHR ''-'' \<and> tl s \<noteq> [] \<and> is_digit (hd (tl s))" "s \<noteq> []"
    using start [OF i] by (auto simp: minus_part_def split: list.splits if_splits)
  then show "s \<noteq> []" "is_digit (hd s) \<or> hd s = CHR ''-'' \<and> tl s \<noteq> [] \<and> is_digit (hd (tl s))" by blast+
qed

lemma digit_no_letter: "is_digit c \<Longrightarrow> c \<notin> set ''ntfNI-''"
  by (auto simp: is_digit_def ord_c_def)

lemma scan_number_no_constant:
  assumes "scan_number s \<noteq> None"
  shows "scan_constant s = None"
proof -
  obtain c cs where s: "s = c # cs" using scan_number_start(1) [OF assms] by (cases s) auto
  have c: "is_digit c \<or> c = CHR ''-'' \<and> (\<exists>d ds. cs = d # ds \<and> is_digit d)"
    using scan_number_start(2) [OF assms] s by (cases cs) auto
  then have "find (\<lambda>(t, j). starts_with s t) CONSTANTS = None"
  proof (elim disjE)
    assume "is_digit c"
    then show ?thesis using digit_no_letter [of c] s by (simp add: CONSTANTS_def)
  next
    assume "c = CHR ''-'' \<and> (\<exists>d ds. cs = d # ds \<and> is_digit d)"
    then obtain d ds where "c = CHR ''-''" "cs = d # ds" "is_digit d" by blast
    then show ?thesis using digit_no_letter [of d] s by (simp add: CONSTANTS_def)
  qed
  then show ?thesis by (simp add: scan_constant_def)
qed

lemma scan_atom_number:
  assumes "scan_number t = Some (j, [])" and "follow rest"
  shows "scan_atom (t @ rest) = Some (j, rest)"
  using scan_number_append [OF assms(2), of t] scan_number_no_constant [of "t @ rest"] assms(1) by (simp add: scan_atom_def)

section \<open>Values\<close>

text \<open>A value that can be written and read: its floats are texts that read as themselves, its keys distinct.\<close>

fun json_ok :: "(string \<Rightarrow> string) \<Rightarrow> json \<Rightarrow> bool" where
  "json_ok ft (JFloat t) = (scan_number t = Some (JFloat t, []) \<and> ft t = t)"
| "json_ok ft (JArr xs) = list_all (json_ok ft) xs"
| "json_ok ft (JObj kvs) = (distinct (map fst kvs) \<and> list_all (\<lambda>(k, v). json_ok ft v) kvs)"
| "json_ok ft j = True"

lemma json_string_append: "json_string s @ rest = dquote # concat (map escape_char s) @ dquote # rest"
  by (simp add: json_string_def)

text \<open>How the text of a value starts: never with a space or a closing bracket.\<close>

lemma dec_int_number: "scan_number (dec_int i) \<noteq> None"
  by (simp add: scan_dec_int)

lemma number_start:
  assumes "scan_number t \<noteq> None"
  shows "t \<noteq> []" and "\<not> json_space (hd t)" and "hd t \<notin> set [dquote, CHR ''['', CHR ''{'', CHR '']'', CHR ''}'']"
  using scan_number_start [OF assms] by (auto simp: json_space_def is_digit_def ord_c_def)

lemma json_text_start:
  assumes "json_ok ft j"
  shows "json_text j \<noteq> [] \<and> \<not> json_space (hd (json_text j)) \<and> hd (json_text j) \<notin> set '']}''"
proof (cases j)
  case (JFloat t)
  then show ?thesis using assms number_start [of t] by simp
next
  case (JInt i)
  then show ?thesis using number_start [OF dec_int_number, of i] by simp
qed (simp_all add: json_string_def json_space_def ord_c_def)

lemma skip_id: "s = [] \<or> \<not> json_space (hd s) \<Longrightarrow> skip s = s"
  by (cases s) (auto simp: skip_def)

lemma skip_text: "json_ok ft j \<Longrightarrow> skip (json_text j @ rest) = json_text j @ rest"
  using json_text_start [of ft j] by (intro skip_id) (cases "json_text j", auto)

lemma skip_delimiters [simp]: "skip (CHR '','' # s) = CHR '','' # s" "skip (CHR '']'' # s) = CHR '']'' # s" "skip (CHR ''}'' # s) = CHR ''}'' # s"
    "skip (CHR '':'' # s) = CHR '':'' # s" "skip (dquote # s) = dquote # s"
  by (simp_all add: skip_def json_space_def ord_c_def)

lemma dict_set_new: "k \<notin> fst ` set kvs \<Longrightarrow> dict_set k v kvs = kvs @ [(k, v)]"
  by (induction k v kvs rule: dict_set.induct) auto

lemma dict_of_distinct: "distinct (map fst kvs) \<Longrightarrow> dict_of kvs = kvs"
proof -
  have "fold (\<lambda>(k, v). dict_set k v) kvs d = d @ kvs" if "distinct (map fst (d @ kvs))" for d
    using that by (induction kvs arbitrary: d) (auto simp: dict_set_new)
  from this [of "[]"] show "distinct (map fst kvs) \<Longrightarrow> dict_of kvs = kvs" by (simp add: dict_of_def)
qed

section \<open>The round trip\<close>

text \<open>\<open>reads j\<close>: before anything that can follow it, the text of \<open>j\<close> is read as \<open>j\<close>.\<close>

definition reads :: "json \<Rightarrow> bool" where
  "reads j = (\<forall>rest n. follow rest \<longrightarrow> 2 * length (json_text j) < n \<longrightarrow> parse_value n (json_text j @ rest) = Some (j, rest))"

lemma readsD: "reads j \<Longrightarrow> follow rest \<Longrightarrow> 2 * length (json_text j) < n \<Longrightarrow> parse_value n (json_text j @ rest) = Some (j, rest)"
  by (simp add: reads_def)

lemma skip_join: "list_all (json_ok ft) xs \<Longrightarrow> xs \<noteq> [] \<Longrightarrow> skip (join '','' (map json_text xs) @ rest) = join '','' (map json_text xs) @ rest"
  by (cases xs; cases "tl xs") (auto simp: skip_text)

lemma parse_elements_text:
  assumes "list_all (reads) xs" and "list_all (json_ok ft) xs" and "xs \<noteq> []" and "2 * length (join '','' (map json_text xs)) + 1 < n"
  shows "parse_elements n (join '','' (map json_text xs) @ CHR '']'' # rest) = Some (xs, rest)"
  using assms
proof (induction xs arbitrary: n)
  case (Cons x xs)
  obtain m where n: "n = Suc m" using Cons.prems(4) by (cases n) auto
  show ?case
  proof (cases xs)
    case Nil
    then show ?thesis using Cons.prems n readsD [of x "CHR '']'' # rest" m] by simp
  next
    case (Cons y ys)
    let ?body = "join '','' (map json_text xs) @ CHR '']'' # rest"
    have whole: "join '','' (map json_text (x # xs)) @ CHR '']'' # rest = json_text x @ CHR '','' # ?body"
      using Cons by simp
    have first: "parse_value m (json_text x @ CHR '','' # ?body) = Some (x, CHR '','' # ?body)"
      using readsD [of x "CHR '','' # ?body" m] Cons.prems Cons n by simp
    have elements: "parse_elements m ?body = Some (xs, rest)"
      using Cons.prems Cons n by (intro Cons.IH) auto
    have "skip ?body = ?body" by (rule skip_join [of ft]) (use Cons.prems(2) Cons in auto)
    then show ?thesis unfolding whole n using first elements by simp
  qed
qed simp

abbreviation member_text :: "string \<times> json \<Rightarrow> string" where
  "member_text \<equiv> \<lambda>(k, v). json_string k @ '':'' @ json_text v"

lemma parse_members_text:
  assumes "list_all (\<lambda>(k, v). reads v) kvs" and "list_all (\<lambda>(k, v). json_ok ft v) kvs" and "kvs \<noteq> []"
    and "2 * length (join '','' (map member_text kvs)) + 1 < n"
  shows "parse_members n (join '','' (map member_text kvs) @ CHR ''}'' # rest) = Some (kvs, rest)"
  using assms
proof (induction kvs arbitrary: n)
  case (Cons kv kvs)
  obtain k v where kv: "kv = (k, v)" by (cases kv)
  obtain m where n: "n = Suc m" using Cons.prems(4) by (cases n) auto
  have ok: "json_ok ft v" "reads v" using Cons.prems kv by simp_all
  show ?case
  proof (cases kvs)
    case Nil
    have "parse_value m (json_text v @ CHR ''}'' # rest) = Some (v, CHR ''}'' # rest)"
      using readsD [OF ok(2), of "CHR ''}'' # rest" m] Cons.prems n kv Nil by (simp add: json_string_def)
    then show ?thesis using Nil kv n ok by (simp add: json_string_append scan_json_string skip_text)
  next
    case (Cons q qs)
    let ?body = "join '','' (map member_text kvs) @ CHR ''}'' # rest"
    have whole: "join '','' (map member_text (kv # kvs)) @ CHR ''}'' # rest = json_string k @ CHR '':'' # json_text v @ CHR '','' # ?body"
      using Cons kv by simp
    have first: "parse_value m (json_text v @ CHR '','' # ?body) = Some (v, CHR '','' # ?body)"
      using readsD [OF ok(2), of "CHR '','' # ?body" m] Cons.prems Cons n kv by (simp add: json_string_def)
    have members: "parse_members m ?body = Some (kvs, rest)"
      using Cons.prems Cons n kv by (intro Cons.IH) auto
    have "skip ?body = ?body" using Cons by (cases q; cases qs) (simp_all add: json_string_append)
    then show ?thesis unfolding whole n using first members kv ok by (simp add: json_string_append scan_json_string skip_text)
  qed
qed simp

lemma readsI:
  assumes "\<And>rest n. \<lbrakk>follow rest; 2 * length (json_text j) \<le> n\<rbrakk> \<Longrightarrow> parse_value (Suc n) (json_text j @ rest) = Some (j, rest)"
  shows "reads j"
  unfolding reads_def
proof (intro allI impI)
  fix rest n assume "follow rest" "2 * length (json_text j) < n"
  then show "parse_value n (json_text j @ rest) = Some (j, rest)" using assms [of rest "n - 1"] by (cases n) auto
qed

lemma reads_number:
  assumes "scan_number (json_text j) = Some (j, [])"
  shows "reads j"
proof (rule readsI)
  fix rest n assume "follow rest"
  moreover obtain c cs where "json_text j = c # cs" "c \<notin> set [dquote, CHR ''['', CHR ''{'']"
    using number_start [of "json_text j"] assms by (cases "json_text j") auto
  ultimately show "parse_value (Suc n) (json_text j @ rest) = Some (j, rest)"
    using scan_atom_number [OF assms, of rest] by simp
qed

lemma json_reads: "json_ok ft j \<Longrightarrow> reads j"
proof (induction j)
  case JNull
  show ?case by (rule readsI) (simp add: scan_atom_def scan_constant_def CONSTANTS_def)
next
  case (JBool b)
  show ?case by (rule readsI) (cases b; simp add: scan_atom_def scan_constant_def CONSTANTS_def)
next
  case (JInt i)
  show ?case by (rule reads_number) (simp add: scan_dec_int)
next
  case (JFloat t)
  then show ?case by (intro reads_number) simp
next
  case (JStr s)
  show ?case by (rule readsI) (simp add: json_string_append scan_json_string)
next
  case (JArr xs)
  then have ok: "list_all (json_ok ft) xs" and reads: "list_all (reads) xs" by (auto simp: list_all_iff)
  show ?case
  proof (rule readsI)
    fix rest n assume n: "2 * length (json_text (JArr xs)) \<le> n"
    show "parse_value (Suc n) (json_text (JArr xs) @ rest) = Some (JArr xs, rest)"
    proof (cases "xs = []")
      case False
      let ?body = "join '','' (map json_text xs) @ CHR '']'' # rest"
      obtain d ds where "?body = d # ds" "d \<noteq> CHR '']''"
        using False ok json_text_start [of ft "hd xs"] by (cases xs; cases "tl xs"; cases "json_text (hd xs)") auto
      moreover have "parse_elements n ?body = Some (xs, rest)"
        by (rule parse_elements_text [OF reads ok False]) (use n in simp)
      ultimately show ?thesis using skip_join [OF ok False, of "CHR '']'' # rest"] by simp
    qed simp
  qed
next
  case (JObj kvs)
  then have ok: "list_all (\<lambda>(k, v). json_ok ft v) kvs" and reads: "list_all (\<lambda>(k, v). reads v) kvs"
    by (auto simp: list_all_iff)
  show ?case
  proof (rule readsI)
    fix rest n assume n: "2 * length (json_text (JObj kvs)) \<le> n"
    show "parse_value (Suc n) (json_text (JObj kvs) @ rest) = Some (JObj kvs, rest)"
    proof (cases "kvs = []")
      case False
      let ?body = "join '','' (map member_text kvs) @ CHR ''}'' # rest"
      obtain ds where "?body = dquote # ds" using False by (cases kvs; cases "tl kvs") (auto simp: json_string_def)
      moreover have "parse_members n ?body = Some (kvs, rest)"
        by (rule parse_members_text [OF reads ok False]) (use n in simp)
      ultimately show ?thesis by simp
    qed simp
  qed
qed

text \<open>A value that can be written is itself when it is read.\<close>

lemma interpret_ok: "json_ok ft j \<Longrightarrow> interpret_raw ft j = j"
proof (induction j)
  case (JFloat t)
  have "scan_number ''NaN'' = None" "scan_number ''Infinity'' = None" "scan_number ''-Infinity'' = None" by code_simp+
  then show ?case using JFloat by (auto simp: float_value_def)
next
  case (JArr xs)
  then show ?case by (auto simp: list_all_iff intro: map_idI)
next
  case (JObj kvs)
  then have "map (\<lambda>(k, v). (k, interpret_raw ft v)) kvs = kvs" by (intro map_idI) (auto simp: list_all_iff)
  then show ?case using dict_of_distinct JObj.prems by simp
qed simp_all

text \<open>Whatever is written is read back.\<close>

lemma loads_dumps:
  assumes "json_ok ft j"
  shows "json_loads ft (json_text j) = Some j"
proof -
  have "parse_value (2 * length (json_text j) + 1) (json_text j @ []) = Some (j, [])"
    by (rule readsD [OF json_reads [OF assms]]) simp_all
  then have "raw_loads (json_text j) = Some j"
    using skip_text [OF assms, of "[]"] unfolding raw_loads_def append_Nil2
    by (simp only: option.case prod.case) (simp add: skip_def)
  then show ?thesis by (simp add: json_loads_def interpret_ok [OF assms])
qed

lemma json_text_inject: "json_ok ft i \<Longrightarrow> json_ok ft j \<Longrightarrow> json_text i = json_text j \<Longrightarrow> i = j"
  by (metis loads_dumps option.inject)

section \<open>Fuel\<close>

text \<open>Every scanner consumes what it reads.\<close>

lemma skip_length: "length (skip s) \<le> length s"
  by (simp add: skip_def length_dropWhile_le)

lemma scan_string_shorter: "scan_string s = Some (t, r) \<Longrightarrow> length r < length s"
proof (induction s arbitrary: t r rule: scan_string.induct)
  case (2 c cs)
  from 2(4) consider "r = cs" | es n t' where "cs = CHR ''u'' # es" "c = bslash" "hex4 (take 4 es) = Some n" "n < 256" "scan_string (drop 4 es) = Some (t', r)"
    | e es x t' where "cs = e # es" "c = bslash" "c \<noteq> dquote" "e \<noteq> CHR ''u''" "unescaped e = Some x" "scan_string es = Some (t', r)"
    | t' where "c \<noteq> dquote" "c \<noteq> bslash" "\<not> ord_c c < 32" "scan_string cs = Some (t', r)"
    by (auto split: if_splits list.splits option.splits prod.splits)
  then show ?case
  proof cases
    case (2 es n t')
    then have "length r < length (drop 4 es)" using "2.IH"(1) by simp
    then show ?thesis using 2 by simp
  next
    case (3 e es x t')
    then have "length r < length es" using "2.IH"(2) by simp
    then show ?thesis using 3 by simp
  next
    case (4 t')
    then have "length r < length cs" using "2.IH"(3) by simp
    then show ?thesis by simp
  qed simp
qed simp

lemma scan_number_shorter:
  assumes "scan_number s = Some (j, r)"
  shows "length r < length s"
proof -
  let ?s1 = "drop (length (minus_part s)) s"
  have i: "int_part ?s1 \<noteq> []" using assms by (auto simp: scan_number_def Let_def split: if_splits)
  have "length r \<le> length ?s1 - length (int_part ?s1)" using assms by (auto simp: scan_number_def Let_def split: if_splits)
  moreover have "0 < length (int_part ?s1)" "length (int_part ?s1) \<le> length ?s1" using i part_lengths(2) [of ?s1] by blast+
  moreover have "length ?s1 \<le> length s" by simp
  ultimately show ?thesis by linarith
qed

lemma scan_constant_shorter: "scan_constant s = Some (j, r) \<Longrightarrow> length r < length s"
  by (cases s) (auto simp: scan_constant_def CONSTANTS_def split: if_splits)

lemma scan_atom_shorter: "scan_atom s = Some (j, r) \<Longrightarrow> length r < length s"
  using scan_constant_shorter [of s j r] scan_number_shorter [of s j r] by (auto simp: scan_atom_def split: option.splits)

lemma skipped_shorter: "skip s = c # cs \<Longrightarrow> length cs < length s"
  using skip_length [of s] by simp

text \<open>The branches of the parser, with what each reads.\<close>

lemma parse_value_cases:
  assumes "parse_value (Suc n) s = Some (j, r)"
  obtains c cs t where "s = c # cs" "scan_string cs = Some (t, r)"
  | c cs d where "s = c # cs" "skip cs = d # r"
  | c cs ds vs where "s = c # cs" "skip cs = ds" "parse_elements n ds = Some (vs, r)"
  | c cs ds kvs where "s = c # cs" "skip cs = ds" "parse_members n ds = Some (kvs, r)"
  | "scan_atom s = Some (j, r)"
proof (cases s)
  case (Cons c cs)
  consider "c = dquote" | "c \<noteq> dquote" "c = CHR ''[''" | "c \<noteq> dquote" "c \<noteq> CHR ''[''" "c = CHR ''{''"
    | "c \<noteq> dquote" "c \<noteq> CHR ''[''" "c \<noteq> CHR ''{''" by blast
  then show ?thesis
  proof cases
    case 1
    then show ?thesis using assms Cons that(1) by auto
  next
    case 2
    then show ?thesis using assms Cons that(2,3) by (cases "skip cs") (auto split: if_splits)
  next
    case 3
    then show ?thesis using assms Cons that(2,4) by (cases "skip cs") (auto split: if_splits)
  next
    case 4
    then show ?thesis using assms Cons that(5) by simp
  qed
qed (use assms in simp)

lemma parse_elements_cases:
  assumes "parse_elements (Suc n) s = Some (vs, r)"
  obtains v u c where "parse_value n s = Some (v, u)" "skip u = c # r"
  | v u c cs vs' where "parse_value n s = Some (v, u)" "skip u = c # cs" "parse_elements n (skip cs) = Some (vs', r)"
  using assms by (auto split: list.splits if_splits option.splits)

lemma parse_members_cases:
  assumes "parse_members (Suc n) s = Some (kvs, r)"
  obtains q qs k t d ds v u c where "s = q # qs" "scan_string qs = Some (k, t)" "skip t = d # ds" "parse_value n (skip ds) = Some (v, u)" "skip u = c # r"
  | q qs k t d ds v u c cs kvs' where "s = q # qs" "scan_string qs = Some (k, t)" "skip t = d # ds" "parse_value n (skip ds) = Some (v, u)"
      "skip u = c # cs" "parse_members n (skip cs) = Some (kvs', r)"
  using assms by (auto split: list.splits if_splits option.splits)

lemma parse_shorter:
  "(\<forall>s j r. parse_value n s = Some (j, r) \<longrightarrow> length r < length s)
   \<and> (\<forall>s vs r. parse_elements n s = Some (vs, r) \<longrightarrow> length r < length s)
   \<and> (\<forall>s kvs r. parse_members n s = Some (kvs, r) \<longrightarrow> length r < length s)"
proof (induction n)
  case (Suc n)
  have val: "length r < length s" if "parse_value n s = Some (j, r)" for s j r using Suc that by blast
  have elements: "length r < length s" if "parse_elements n s = Some (vs, r)" for s vs r using Suc that by blast
  have members: "length r < length s" if "parse_members n s = Some (kvs, r)" for s kvs r using Suc that by blast
  have "length r < length s" if "parse_value (Suc n) s = Some (j, r)" for s j r
    using that
  proof (cases rule: parse_value_cases)
    case (1 c cs t) then show ?thesis using scan_string_shorter by fastforce
  next
    case (2 c cs d) then show ?thesis using skipped_shorter by fastforce
  next
    case (3 c cs ds vs) then show ?thesis using elements skip_length [of cs] by fastforce
  next
    case (4 c cs ds kvs) then show ?thesis using members skip_length [of cs] by fastforce
  next
    case 5 then show ?thesis by (rule scan_atom_shorter)
  qed
  moreover have "length r < length s" if "parse_elements (Suc n) s = Some (vs, r)" for s vs r
    using that
  proof (cases rule: parse_elements_cases)
    case (1 v u c) then show ?thesis using val [of s v u] skipped_shorter [of u c r] by simp
  next
    case (2 v u c cs vs')
    then show ?thesis using val [of s v u] skipped_shorter [of u c cs] skip_length [of cs] elements [of "skip cs" vs' r] by simp
  qed
  moreover have "length r < length s" if "parse_members (Suc n) s = Some (kvs, r)" for s kvs r
    using that
  proof (cases rule: parse_members_cases)
    case (1 q qs k t d ds v u c)
    then show ?thesis using scan_string_shorter [of qs k t] skipped_shorter [of t d ds] skip_length [of ds] val [of "skip ds" v u]
        skipped_shorter [of u c r] by simp
  next
    case (2 q qs k t d ds v u c cs kvs')
    then show ?thesis using scan_string_shorter [of qs k t] skipped_shorter [of t d ds] skip_length [of ds] val [of "skip ds" v u]
        skipped_shorter [of u c cs] skip_length [of cs] members [of "skip cs" kvs' r] by simp
  qed
  ultimately show ?case by blast
qed simp

lemma value_shorter: "parse_value n s = Some (j, r) \<Longrightarrow> length r < length s"
  using parse_shorter by blast

text \<open>With that much fuel, more changes nothing.\<close>

lemma parse_fuel:
  "(\<forall>s. 2 * length s + 1 \<le> n \<longrightarrow> parse_value (Suc n) s = parse_value n s)
   \<and> (\<forall>s. 2 * length s + 2 \<le> n \<longrightarrow> parse_elements (Suc n) s = parse_elements n s)
   \<and> (\<forall>s. 2 * length s + 2 \<le> n \<longrightarrow> parse_members (Suc n) s = parse_members n s)"
proof (induction n)
  case (Suc n)
  have val: "parse_value (Suc n) s = parse_value n s" if "2 * length s + 1 \<le> n" for s using Suc that by blast
  have elements: "parse_elements (Suc n) s = parse_elements n s" if "2 * length s + 2 \<le> n" for s using Suc that by blast
  have members: "parse_members (Suc n) s = parse_members n s" if "2 * length s + 2 \<le> n" for s using Suc that by blast
  have "parse_value (Suc (Suc n)) s = parse_value (Suc n) s" if n: "2 * length s + 1 \<le> Suc n" for s
  proof (cases s)
    case (Cons c cs)
    have "parse_elements (Suc n) (d # ds) = parse_elements n (d # ds)" "parse_members (Suc n) (d # ds) = parse_members n (d # ds)"
      if "skip cs = d # ds" for d ds
      using elements [of "d # ds"] members [of "d # ds"] skip_length [of cs] that n Cons by simp_all
    then show ?thesis unfolding Cons parse_value.simps by (simp split: list.split)
  qed simp
  moreover have "parse_elements (Suc (Suc n)) s = parse_elements (Suc n) s" if n: "2 * length s + 2 \<le> Suc n" for s
  proof (cases "parse_value n s")
    case None
    then show ?thesis using val [of s] n by simp
  next
    case (Some p)
    obtain v u where p: "p = (v, u)" by (cases p)
    have "parse_elements (Suc n) (skip cs) = parse_elements n (skip cs)" if "skip u = c # cs" for c cs
      using elements [of "skip cs"] value_shorter [of n s v u] skipped_shorter [OF that] skip_length [of cs] Some p n by simp
    moreover have "parse_value (Suc n) s = Some (v, u)" using val [of s] n Some p by simp
    ultimately show ?thesis using Some p unfolding parse_elements.simps by (simp split: list.split)
  qed
  moreover have "parse_members (Suc (Suc n)) s = parse_members (Suc n) s" if n: "2 * length s + 2 \<le> Suc n" for s
  proof (cases s)
    case (Cons q qs)
    have first: "parse_value (Suc n) (skip ds) = parse_value n (skip ds)"
      and later: "parse_value n (skip ds) = Some (v, u) \<Longrightarrow> skip u = c # cs \<Longrightarrow> parse_members (Suc n) (skip cs) = parse_members n (skip cs)"
      if "scan_string qs = Some (k, t)" "skip t = d # ds" for k t d ds v u c cs
    proof -
      have l: "length (skip ds) < length s" using scan_string_shorter [OF that(1)] skipped_shorter [OF that(2)] skip_length [of ds] Cons by simp
      then show "parse_value (Suc n) (skip ds) = parse_value n (skip ds)" using val [of "skip ds"] n by simp
      assume "parse_value n (skip ds) = Some (v, u)" "skip u = c # cs"
      then have "length (skip cs) < length s" using l value_shorter [of n "skip ds" v u] skipped_shorter [of u c cs] skip_length [of cs] by simp
      then show "parse_members (Suc n) (skip cs) = parse_members n (skip cs)" using members [of "skip cs"] n by simp
    qed
    show ?thesis
    proof (cases "scan_string qs")
      case None then show ?thesis using Cons by simp
    next
      case (Some kt)
      obtain k t where kt: "scan_string qs = Some (k, t)" using Some by (cases kt) auto
      show ?thesis
      proof (cases "skip t")
        case Nil then show ?thesis using Cons kt by simp
      next
        case skipped: (Cons d ds)
        note [simp] = first [OF kt skipped] later [OF kt skipped]
        show ?thesis unfolding Cons parse_members.simps(2) [of "Suc n" "q # qs"] parse_members.simps(2) [of n "q # qs"] kt skipped
            option.case prod.case list.case
          by (simp del: parse_value.simps parse_members.simps split: option.split list.split)
      qed
    qed
  qed simp
  ultimately show ?case by blast
qed simp

lemma loads_fuel_enough:
  assumes "2 * length s + 1 \<le> n"
  shows "parse_value n s = parse_value (2 * length s + 1) s"
  using assms by (induction n rule: dec_induct) (simp_all add: parse_fuel del: parse_value.simps)

end
