(* ===== verification/UpstreamFacts.thy ===== *)
theory UpstreamFacts
  imports Upstream JsonRoundTrip
begin

text \<open>
  Lemmas on the derivation of a JSON field: the leaves of a decoded body are values at their paths, a
  token is a plain part of its value, and the rule built from a feature decides on the field. Lemmas
  on the join: what a resolved loop has passed.
\<close>

section \<open>Decoded bodies\<close>

fun distinct_keys :: "json \<Rightarrow> bool" where
  "distinct_keys (JArr xs) = list_all distinct_keys xs"
| "distinct_keys (JObj kvs) = (distinct (map fst kvs) \<and> list_all (\<lambda>(k, v). distinct_keys v) kvs)"
| "distinct_keys j = True"

lemma keys_dict_set: "fst ` set (dict_set k v kvs) = insert k (fst ` set kvs)"
  by (induction k v kvs rule: dict_set.induct) auto

lemma dict_set_distinct: "distinct (map fst kvs) \<Longrightarrow> distinct (map fst (dict_set k v kvs))"
  by (induction k v kvs rule: dict_set.induct) (auto simp: keys_dict_set)

lemma dict_set_members: "set (dict_set k v kvs) \<subseteq> insert (k, v) (set kvs)"
  by (induction k v kvs rule: dict_set.induct) auto

lemma dict_of_props: "distinct (map fst (dict_of pairs)) \<and> set (dict_of pairs) \<subseteq> set pairs"
proof -
  have "distinct (map fst d) \<Longrightarrow> distinct (map fst (fold (\<lambda>(k, v). dict_set k v) ps d))
      \<and> set (fold (\<lambda>(k, v). dict_set k v) ps d) \<subseteq> set d \<union> set ps" for ps d
  proof (induction ps arbitrary: d)
    case (Cons p ps)
    obtain k v where p: "p = (k, v)" by (cases p)
    show ?case using Cons.IH [OF dict_set_distinct [OF Cons.prems], of k v] dict_set_members [of k v d] p by auto
  qed simp
  from this [of "[]" pairs] show ?thesis by (simp add: dict_of_def)
qed

lemma interpret_distinct: "distinct_keys (interpret_raw ft j)"
proof (induction j)
  case (JArr xs)
  then show ?case by (simp add: list_all_iff)
next
  case (JObj kvs)
  let ?ps = "map (\<lambda>(k, v). (k, interpret_raw ft v)) kvs"
  have "distinct_keys v" if "(k, v) \<in> set (dict_of ?ps)" for k v
    using JObj that dict_of_props [of ?ps] by fastforce
  then show ?case using dict_of_props [of ?ps] by (auto simp: list_all_iff)
qed simp_all

lemma strict_distinct: "strict_loads ft s = Some j \<Longrightarrow> distinct_keys j"
  by (auto simp: strict_loads_def interpret_distinct split: option.splits if_splits)

section \<open>Leaves\<close>

declare visit.simps [simp del]

lemma lookup_path_append: "lookup_path p root = Some j \<Longrightarrow> lookup_path (p @ q) root = lookup_path q j"
  by (induction p root rule: lookup_path.induct) (auto split: option.splits)

text \<open>A leaf of a document: a string at a path of segments, neither blank nor too long.\<close>

definition leaf_of :: "json \<Rightarrow> string list \<times> string \<Rightarrow> bool" where
  "leaf_of root leaf =
     (case leaf of (path, v) \<Rightarrow>
        lookup_path path root = Some (JStr v) \<and> list_all safe_segment path \<and> length path \<le> MAX_JSON_DEPTH \<and> strip v \<noteq> [])"

lemma add_leaf_leaves: "set (leaves (add_leaf path v t)) \<subseteq> set (leaves t) \<union> (if strip v \<noteq> [] then {(path, v)} else {})"
  by (auto simp: add_leaf_def)

lemma visit_leaves:
  assumes "lookup_path path root = Some j" "distinct_keys j" "list_all safe_segment path" "length path = depth"
    and "\<forall>l \<in> set (leaves t). leaf_of root l"
  shows "\<forall>l \<in> set (leaves (visit j path depth t)). leaf_of root l"
  using assms
proof (induction j path depth t rule: visit.induct)
  case (1 j path depth t)
  let ?t = "t\<lparr>nodes_visited := nodes_visited t + 1\<rparr>"
  show ?case
  proof (cases "MAX_JSON_NODES < nodes_visited ?t \<or> MAX_JSON_DEPTH < depth")
    case True
    then show ?thesis using "1.prems"(5) by (auto simp: visit.simps Let_def)
  next
    case False
    show ?thesis
    proof (cases j)
      case (JStr v)
      have "leaf_of root (path, v)" if "strip v \<noteq> []" using that JStr False "1.prems" by (simp add: leaf_of_def)
      then show ?thesis using False "1.prems"(5) add_leaf_leaves [of path v ?t] JStr
        by (auto simp: visit.simps Let_def split: if_splits)
    next
      case (JObj kvs)
      let ?step = "\<lambda>(k, child) t. if exceeded t \<or> \<not> safe_segment k then t else visit child (path @ [k]) (depth + 1) t"
      have "\<forall>l \<in> set (leaves (fold ?step ps u)). leaf_of root l"
        if "\<forall>l \<in> set (leaves u). leaf_of root l" "set ps \<subseteq> set kvs" for ps u
        using that
      proof (induction ps arbitrary: u)
        case (Cons p ps)
        obtain k child where p: "p = (k, child)" by (cases p)
        have "\<forall>l \<in> set (leaves (?step p u)). leaf_of root l"
        proof (cases "exceeded u \<or> \<not> safe_segment k")
          case True then show ?thesis using Cons.prems p by simp
        next
          case ok: False
          have "(k, child) \<in> set kvs" using Cons.prems p by simp
          moreover from this have "lookup_path (path @ [k]) root = Some child"
            using "1.prems"(1,2) lookup_path_append [OF "1.prems"(1), of "[k]"] JObj by (simp add: get_def)
          moreover from calculation have "distinct_keys child" using "1.prems"(2) JObj by (auto simp: list_all_iff)
          ultimately have "\<forall>l \<in> set (leaves (visit child (path @ [k]) (depth + 1) u)). leaf_of root l"
            using "1.IH" [OF refl _ _ JObj, of "(k, child)" k child u] False ok Cons.prems(1) "1.prems"(3,4) by simp
          then show ?thesis using ok p by simp
        qed
        then show ?case using Cons.IH [of "?step p u"] Cons.prems(2) by simp
      qed simp
      from this [of ?t kvs] show ?thesis using False "1.prems"(5) JObj by (simp add: visit.simps Let_def)
    qed (use False "1.prems"(5) in \<open>simp_all add: visit.simps Let_def\<close>)
  qed
qed

lemma body_leaf:
  assumes "body_leaves j = Some found" "distinct_keys j" "l \<in> set found"
  shows "leaf_of j l"
proof -
  have "\<forall>l \<in> set (leaves (visit j [] 0 \<lparr>nodes_visited = 0, leaves = [], exceeded = False\<rparr>)). leaf_of j l"
    by (rule visit_leaves) (use assms(2) in simp_all)
  then show ?thesis using assms(1,3) by (auto simp: body_leaves_def Let_def split: if_splits)
qed

section \<open>Tokens\<close>

definition token_char :: "char \<Rightarrow> bool" where
  "token_char c = (is_ascii_alnum c \<or> c \<in> set ''_.:+/-'')"

lemma path_char_token: "path_char c \<Longrightarrow> token_char c"
  by (auto simp: path_char_def token_char_def)

lemma take_takeWhile: "n \<le> length (takeWhile P s) \<Longrightarrow> list_all P (take n s)"
proof -
  assume "n \<le> length (takeWhile P s)"
  then have "take n s = take n (takeWhile P s)" by (metis (no_types) append_take_drop_id takeWhile_eq_take take_all_iff take_take min.absorb1)
  then show ?thesis by (metis (no_types) list_all_iff in_set_takeD set_takeWhileD)
qed

lemma token_chars:
  assumes "token_length s = Some n"
  shows "list_all token_char (take n s)"
proof (cases "starts_with s ''--'' \<and> 2 \<le> length (takeWhile path_char (drop 2 s))")
  case True
  then obtain u where s: "s = CHR ''-'' # CHR ''-'' # u"
    by (cases s rule: list.exhaust; cases "tl s") (auto split: if_splits)
  have n: "n = Suc (Suc (min 64 (length (takeWhile path_char u))))" using assms True s by (simp add: token_length_def)
  have "list_all path_char (take (min 64 (length (takeWhile path_char u))) u)" by (rule take_takeWhile) simp
  then show ?thesis using n s path_char_token by (auto simp: list_all_iff token_char_def)
next
  case False
  have p: "(\<lambda>c. is_ascii_alnum c \<or> c \<in> set ''_.:+/-'') = token_char" by (intro ext) (simp only: token_char_def)
  from False assms obtain c cs where a: "s = c # cs" "is_ascii_alnum c" "n = Suc (min 127 (length (takeWhile token_char cs)))"
    unfolding token_length_def p by (cases s) (auto simp: Let_def split: if_splits)
  have "list_all token_char (take (min 127 (length (takeWhile token_char cs))) cs)" by (rule take_takeWhile) simp
  then show ?thesis using a by (simp add: token_char_def)
qed

lemma contains_part: "contains (a @ t @ b) t"
  unfolding contains_iff by blast

lemma token_part: "t \<in> set (tokens v) \<Longrightarrow> contains v t \<and> list_all token_char t"
proof (induction v rule: tokens.induct)
  case (2 c cs)
  show ?case
  proof (cases "token_length (c # cs)")
    case None
    with 2 show ?thesis by simp
  next
    case (Some n)
    with 2 consider "t = take n (c # cs)" | "contains (drop n (c # cs)) t \<and> list_all token_char t" by auto
    then show ?thesis
    proof cases
      case 1
      then show ?thesis using token_chars [OF Some] contains_part [of "[]" t "drop n (c # cs)"] by simp
    next
      case 2
      then obtain a b where "drop n (c # cs) = a @ t @ b" unfolding contains_iff by blast
      then have "c # cs = (take n (c # cs) @ a) @ t @ b" by (metis append_assoc append_take_drop_id)
      then show ?thesis using 2 unfolding contains_iff by blast
    qed
  qed
qed simp

lemma token_plain: "list_all token_char t \<Longrightarrow> plain t"
  by (auto simp: plain_def list_all_iff token_char_def is_ascii_alnum_def is_ascii_alpha_def is_digit_def ord_c_def)

lemma token_trimmed: "list_all token_char t \<Longrightarrow> trimmed t = t"
proof -
  assume t: "list_all token_char t"
  have "\<not> white_space c" if "c \<in> set t" for c
    using t that by (auto simp: list_all_iff token_char_def white_space_def is_ascii_alnum_def is_ascii_alpha_def is_digit_def ord_c_def Let_def)
  then have "dropWhile white_space t = t" "dropWhile white_space (rev t) = rev t"
    using last_in_set [of t] by (auto simp: dropWhile_eq_self_iff hd_rev)
  then show "trimmed t = t" by (simp add: trimmed_def strip_by_def lstrip_by_def rstrip_by_def)
qed

lemma shared_token:
  assumes "t \<in> set (shared_tokens evidence v)"
  shows "t \<in> set (tokens v) \<and> list_all (\<lambda>source. contains source (casefold t)) evidence"
proof -
  from assms obtain f where f: "f \<in> set (map casefold (tokens v))" "list_all (\<lambda>source. contains source f) evidence"
    "t = last (filter (\<lambda>t. casefold t = f) (tokens v))"
    by (auto simp: shared_tokens_def Let_def)
  then have "filter (\<lambda>t. casefold t = f) (tokens v) \<noteq> []" by (auto simp: filter_empty_conv)
  from last_in_set [OF this] f show ?thesis by auto
qed

lemma shared_single: "[t] = shared_tokens evidence v \<Longrightarrow>
   t \<in> set (tokens v) \<and> list_all (\<lambda>source. contains source (casefold t)) evidence"
  using shared_token [of t evidence v] by (metis list.set_intros(1))

section \<open>The rule of a feature\<close>

lemma content_type_matches: "wildcard_match CONTENT_TYPE (star_c # CONTENT_TYPE @ [star_c]) False"
  by code_simp

lemma method_outcome:
  "condition_outcome f body [(''type'', JStr ''requestMethodMatch''), (''positiveMatch'', JBool True), (''value'', JArr [JStr METHOD])]
   = Some True"
  by (simp add: condition_outcome_def json_condition_values_def get_or_null_def get_def)

lemma header_outcome:
  "condition_outcome f body
     [(''type'', JStr ''requestHeaderValueMatch''), (''positiveMatch'', JBool True), (''header'', JStr ''Content-Type''),
      (''valueCase'', JBool False), (''valueWildcard'', JBool True), (''value'', JArr [JStr (star_c # CONTENT_TYPE @ [star_c])])]
   = Some True"
proof -
  have "py_lower ''Content-Type'' = ''content-type''" by code_simp
  then show ?thesis
    using content_type_matches
    by (simp add: condition_outcome_def json_condition_values_def get_or_null_def get_def is_true_def py_str_def)
qed

lemma field_outcome:
  "condition_outcome f body
     [(''type'', JStr ''argsPostJSONMatch''), (''positiveMatch'', JBool True), (''parameter'', JStr (feature_parameter f)),
      (''valueCase'', JBool True), (''valueWildcard'', JBool w), (''value'', JArr [JStr val])]
   = (case lookup_path (field_path f) body of
        Some (JStr actual) \<Rightarrow> Some (if w then fnmatchcase actual val else val = actual) | _ \<Rightarrow> None)"
  by (simp add: condition_outcome_def json_condition_values_def get_or_null_def get_def is_true_def wildcard_match_def
      split: option.split json.split)

lemma field_rule_matches:
  assumes "json_body_field_rule pattern f = JObj rule" "lookup_path (field_path f) body = Some (JStr actual)"
  shows "akamai_json_rule_matches rule f body = Inr
    (if value_match_mode f = ''field-present'' then True
     else if value_match_mode f = ''contains-token'' then fnmatchcase actual (star_c # feature_value f @ [star_c])
     else feature_value f = actual)"
proof -
  define w where "w \<longleftrightarrow> value_match_mode f \<in> set [''contains-token'', ''field-present'']"
  define val where "val = (if value_match_mode f = ''field-present'' then [star_c]
    else if value_match_mode f = ''contains-token'' then star_c # feature_value f @ [star_c] else feature_value f)"
  have rule: "get_or_null rule ''operation'' = JStr ''AND''" "get rule ''conditions'' = Some (JArr
     [JObj [(''type'', JStr ''requestMethodMatch''), (''positiveMatch'', JBool True), (''value'', JArr [JStr METHOD])],
      JObj [(''type'', JStr ''requestHeaderValueMatch''), (''positiveMatch'', JBool True), (''header'', JStr ''Content-Type''),
        (''valueCase'', JBool False), (''valueWildcard'', JBool True), (''value'', JArr [JStr (star_c # CONTENT_TYPE @ [star_c])])],
      JObj [(''type'', JStr ''argsPostJSONMatch''), (''positiveMatch'', JBool True), (''parameter'', JStr (feature_parameter f)),
        (''valueCase'', JBool True), (''valueWildcard'', JBool w), (''value'', JArr [JStr val])]])"
    using assms(1) unfolding json_body_field_rule_def Let_def w_def val_def by (auto simp: get_or_null_def get_def)
  have "akamai_json_rule_matches rule f body = Inr (if w then fnmatchcase actual val else val = actual)"
    unfolding akamai_json_rule_matches_def rule
    by (simp only: condition_outcomes.simps method_outcome header_outcome field_outcome assms(2) option.case json.case bindR_Inr
        option.map if_False simp_thms) simp
  then show ?thesis by (auto simp: w_def val_def fnmatch_star)
qed

section \<open>A derived field\<close>

text \<open>What one corroborated leaf says: its path in both pieces of evidence, and its value by mode.\<close>

definition corroborated :: "string \<Rightarrow> string \<Rightarrow> string list \<Rightarrow> string \<Rightarrow> string \<Rightarrow> string \<Rightarrow> bool" where
  "corroborated discriminator artifact path v picked mode =
     (list_all (\<lambda>source. evidence_mentions_path source (casefold (join ''.'' path)) (casefold (last path))) [casefold discriminator, casefold artifact]
      \<and> (mode = ''exact'' \<and> picked = v \<and> list_all (\<lambda>source. contains source (casefold v)) [casefold discriminator, casefold artifact]
         \<or> mode = ''contains-token'' \<and> picked \<in> set (tokens v)
             \<and> list_all (\<lambda>source. contains source (casefold picked)) [casefold discriminator, casefold artifact]
         \<or> mode = ''field-present'' \<and> picked = [star_c] \<and> artifact_blocks_json_field_presence artifact (last path)))"

lemma corroborate_item:
  assumes "(path', picked, mode) \<in> set (corroborate artifact [casefold discriminator, casefold artifact] (path, v))"
  shows "path' = path \<and> corroborated discriminator artifact path v picked mode"
  using assms
  by (auto simp: corroborate_def corroborated_def dest!: shared_single shared_single [OF sym] split: if_splits list.splits)

lemma derived_field:
  assumes "derived_json_field d context discriminator artifact = Some f"
  obtains c kvs v picked where "context = Some c" "py_upper (strip (context_method c)) = ''POST''"
    "length (utf8 (context_body c)) \<le> MAX_JSON_BODY_BYTES"
    "strict_loads (float_text d) (context_body c) = Some (JObj kvs)" "leaf_of (JObj kvs) (field_path f, v)"
    "feature_value f = trimmed picked" "corroborated discriminator artifact (field_path f) v picked (value_match_mode f)"
proof -
  let ?ev = "[casefold discriminator, casefold artifact]"
  from assms obtain c where c: "context = Some c" by (auto simp: derived_json_field_def split: option.splits)
  with assms have g: "py_upper (strip (context_method c)) = ''POST''" "length (utf8 (context_body c)) \<le> MAX_JSON_BODY_BYTES"
    by (auto simp: derived_json_field_def split: if_splits)
  from assms c obtain kvs found path v mode where k: "strict_loads (float_text d) (context_body c) = Some (JObj kvs)"
    "body_leaves (JObj kvs) = Some found" "concat (map (corroborate artifact ?ev) found) = [(path, v, mode)]"
    "f = \<lparr>field_path = path, feature_value = trimmed v, value_match_mode = mode\<rparr>"
    by (auto simp: derived_json_field_def split: if_splits option.splits json.splits list.splits prod.splits)
  have "(path, v, mode) \<in> set (concat (map (corroborate artifact ?ev) found))" unfolding k(3) by simp
  then obtain leaf where leaf: "leaf \<in> set found" "(path, v, mode) \<in> set (corroborate artifact ?ev leaf)" by auto
  obtain q w where l: "leaf = (q, w)" by (cases leaf)
  have "leaf_of (JObj kvs) (q, w)" using body_leaf [OF k(2) strict_distinct [OF k(1)] leaf(1)] l by simp
  moreover have "path = q \<and> corroborated discriminator artifact q w v mode" using corroborate_item leaf(2) l by simp
  ultimately show thesis using that [of c kvs w v] c g k(1,4) by simp
qed

section \<open>The join\<close>

lemma fetch_record_Inr:
  assumes "fetch_record fetch refs q role = Inr r"
  shows "(\<exists>locator. fetch (role_reference refs role) locator = Inr (Some r)) \<and> rec_result_id r = ref_key (role_reference refs role)
    \<and> rec_terminal_state r = required_state q role"
  using assms by (auto simp: fetch_record_def Let_def bindR_eq_Inr split: if_splits sum.splits upstream_error.splits option.splits)

lemma lineage_Inr:
  assumes "validate_lineage q role r = Inr ()"
  shows "one_value (document r) ''correlation_id'' = (if has_subject q then one_value (document r) ''correlation_id'' else res_correlation q)
    \<and> (one_value (document r) ''correlation_id'' \<in> {None, res_correlation q})"
  using assms by (auto simp: validate_lineage_def Let_def split: if_splits)

lemma subject_Inr:
  "validate_subject q role r = Inr () \<Longrightarrow>
     (given (role_vulnerability_id role r) \<longrightarrow> role_vulnerability_id role r = res_expected_vulnerability q)
     \<and> (given (role_candidate_id role r) \<longrightarrow> role_candidate_id role r = res_expected_candidate q)"
  by (auto simp: validate_subject_def Let_def split: if_splits)

lemma make_pattern_Inr:
  assumes "make_pattern p = Inr p'"
  shows "proof_record_ids p' = map trimmed (proof_record_ids p) \<and> json_body_feature p' = json_body_feature p
    \<and> vulnerability_id p' = trimmed (vulnerability_id p) \<and> proven_pattern_id p' = trimmed (proven_pattern_id p)
    \<and> pattern_summary p' = trimmed (pattern_summary p) \<and> distinct (proof_record_ids p')
    \<and> (\<exists>i \<in> set (proof_record_ids p'). starts_with i ''mitigation-check-result:'')
    \<and> (\<exists>i \<in> set (proof_record_ids p'). starts_with i ''bypass-validation-result:'')"
  using assms by (auto simp: make_pattern_def Let_def validate_proof_lineage_def list_ex_iff split: sum.splits if_splits)

lemma resolved_records:
  assumes "resolve_proof_loop d fetch refs q = Inr l"
  obtains defense mitigation bypass identity where
    "fetch_record fetch refs q DefenseRole = Inr defense" "fetch_record fetch refs q MitigationRole = Inr mitigation"
    "fetch_record fetch refs q BypassRole = Inr bypass" "validate_lineage q DefenseRole defense = Inr ()"
    "validate_lineage q MitigationRole mitigation = Inr ()" "validate_lineage q BypassRole bypass = Inr ()"
    "resolve_identity q defense [(DefenseRole, defense), (MitigationRole, mitigation), (BypassRole, bypass)] = Inr identity"
    "assemble d refs q defense mitigation bypass identity = Inr l" "given (res_correlation q)"
    "given (res_revision q) \<or> has_subject q"
  using assms by (auto simp: resolve_proof_loop_def Let_def bindR_eq_Inr split: if_splits)

lemma assembled:
  assumes "assemble d refs q defense mitigation bypass identity = Inr l"
  obtains discriminator control_class artifact where
    "defense_candidate defense = Inr (discriminator, control_class, artifact)"
    "loop_request l = mitigation_request_context (rec_result mitigation)"
    "json_body_feature (loop_pattern l) = derived_json_field d (loop_request l) discriminator artifact"
    "pattern_summary (loop_pattern l) = trimmed artifact"
    "vulnerability_id (loop_pattern l) = trimmed (fst identity)"
    "proven_pattern_id (loop_pattern l) = trimmed
      ((if bypass_terminal_state (res_routing q) = NoBypassFound then ''proven-pattern:'' else ''loop-exhausted-pattern:'') @ snd identity)"
    "proof_record_ids (loop_pattern l) = [trimmed (rec_result_id mitigation), trimmed (rec_result_id bypass)]"
    "distinct (proof_record_ids (loop_pattern l))"
    "\<exists>i \<in> set (proof_record_ids (loop_pattern l)). starts_with i ''mitigation-check-result:''"
    "\<exists>i \<in> set (proof_record_ids (loop_pattern l)). starts_with i ''bypass-validation-result:''"
    "loop_qualification l = qualification_of (res_routing q)" "loop_references l = refs"
    "loop_requirements l = translation_requirements (get_or_null (rec_result bypass) ''bypass_counterexample'') (get_or_null (rec_result bypass) ''feedback'')"
proof -
  from assms obtain discriminator control_class artifact where
    dc: "defense_candidate defense = Inr (discriminator, control_class, artifact)"
    by (auto simp: assemble_def bindR_eq_Inr)
  show thesis
    by (rule that [OF dc]; use assms dc in \<open>auto simp: assemble_def Let_def bindR_eq_Inr dest!: make_pattern_Inr\<close>)
qed

end
