(* ===== verification/EngineFacts.thy ===== *)
theory EngineFacts
  imports Engine CompilerFacts JsonRoundTrip
begin

text \<open>
  Lemmas on the judge gates of the engine: what a success has passed, which parts of it depend on
  the doer, and how a compiled rule fares.
\<close>

section \<open>What a success has passed\<close>

definition label_allowed :: "translation_policy \<Rightarrow> string \<Rightarrow> bool" where
  "label_allowed policy lbl =
     (lbl \<in> set [''exact'', ''equivalent'', ''narrower'', ''broader''] \<and> (lbl = ''broader'' \<longrightarrow> allow_broader_translation policy)
      \<and> (lbl = ''equivalent'' \<longrightarrow> allow_equivalent_translation policy) \<and> (lbl = ''narrower'' \<longrightarrow> allow_narrower_translation policy))"

lemma policy_failure_None: "proposal_policy_failure p policy = None \<longleftrightarrow> label_allowed policy (translation_label p)"
  by (auto simp: proposal_policy_failure_def label_allowed_def)

text \<open>The semantic gates a proposal from a source has to pass.\<close>

definition semantics_ok :: "decoders \<Rightarrow> translation_task \<Rightarrow> string \<Rightarrow> string \<Rightarrow> string \<Rightarrow> bool" where
  "semantics_ok d i lbl content source =
     ((\<forall>f. json_body_feature (task_pattern i) = Some f \<longrightarrow> task_technology i = ''akamai-waf'' \<longrightarrow> source \<noteq> ''deterministic-modsec-rule''
         \<longrightarrow> akamai_json_body_semantic_errors d content f = Inr [])
      \<and> (\<forall>r. task_requirements i = Some r \<longrightarrow> task_technology i = ''akamai-waf'' \<longrightarrow> akamai_semantic_errors d content lbl r = Inr []))"

lemma judge_semantics_success:
  assumes "judge_semantics d i p content source llm = Inr (EngineSuccess s)"
  shows "success_candidate s = built_candidate d i p content (detect_conflicts (task_adapter i) (candidate_of d content) (task_snapshot i))
    \<and> success_source s = source \<and> success_llm s = llm \<and> semantics_ok d i (translation_label p) content source"
  using assms by (auto simp: judge_semantics_def Let_def bindR_eq_Inr semantics_ok_def unsupported_def split: if_splits option.splits)

lemma judge_semantics_succeeds:
  assumes "semantics_ok d i (translation_label p) content source"
  shows "judge_semantics d i p content source llm = Inr (EngineSuccess
     \<lparr>success_candidate = built_candidate d i p content (detect_conflicts (task_adapter i) (candidate_of d content) (task_snapshot i)),
      success_source = source, success_llm = llm\<rparr>)"
  using assms by (auto simp: judge_semantics_def Let_def semantics_ok_def split: option.split)

text \<open>A candidate with the verdicts of all gates.\<close>

definition judged :: "decoders \<Rightarrow> translation_task \<Rightarrow> engine_success \<Rightarrow> bool" where
  "judged d i s =
     (let c = success_candidate s; content = content_ref (cand_artifact c); lbl = discriminator_translation (cand_discriminator c) in
      label_allowed (task_policy i) lbl
      \<and> (\<exists>res. validate_candidate (task_adapter i) (candidate_of d content) = Inr res \<and> valid res)
      \<and> semantics_ok d i lbl content (success_source s)
      \<and> content_hash (cand_artifact c) = ''sha256:'' @ hex_sha256 d (utf8 content)
      \<and> conflict_notes (cand_placement c) = detect_conflicts (task_adapter i) (candidate_of d content) (task_snapshot i)
      \<and> cand_provenance c = proof_record_ids (task_pattern i) \<and> cand_technology c = task_technology i)"

lemma built_fields [simp]:
  "content_ref (cand_artifact (built_candidate d i p content conflicts)) = content"
  "content_hash (cand_artifact (built_candidate d i p content conflicts)) = ''sha256:'' @ hex_sha256 d (utf8 content)"
  "discriminator_translation (cand_discriminator (built_candidate d i p content conflicts)) = translation_label p"
  "conflict_notes (cand_placement (built_candidate d i p content conflicts)) = conflicts"
  "cand_provenance (built_candidate d i p content conflicts) = proof_record_ids (task_pattern i)"
  "cand_technology (built_candidate d i p content conflicts) = task_technology i"
  "candidate_artifact.artifact_type (cand_artifact (built_candidate d i p content conflicts)) = adapter.artifact_type (task_adapter i)"
  by (simp_all add: built_candidate_def Let_def candidate_artifact.make_def content_digest_def)

lemma syntax_gate_Inr: "syntax_gate d i content = Inr res \<longleftrightarrow> validate_candidate (task_adapter i) (candidate_of d content) = Inr res"
  by (auto simp: syntax_gate_def split: sum.split adapter_exn.split)

lemma judged_semantics:
  assumes "judge_semantics d i p content source llm = Inr (EngineSuccess s)"
    and "proposal_policy_failure p (task_policy i) = None" and "syntax_gate d i content = Inr res" and "valid res"
  shows "judged d i s" and "success_source s = source" and "success_llm s = llm"
  using judge_semantics_success [OF assms(1)] assms(2-4)
  by (auto simp: judged_def Let_def policy_failure_None syntax_gate_Inr)

lemma judge_repair_judged:
  assumes "judge_repair d i repaired source llm = Inr (EngineSuccess s)"
  shows "judged d i s \<and> success_source s = source \<and> success_llm s = llm"
  using assms judged_semantics
  by (fastforce simp: judge_repair_def provider_failure_def bindR_eq_Inr split: sum.splits option.splits prod.splits if_splits)

lemma judge_judged:
  assumes "judge d i p source from_doer = Inr (EngineSuccess s)"
  shows "judged d i s \<and> success_source s = source \<and> success_llm s = from_doer"
  using assms judged_semantics judge_repair_judged
  by (fastforce simp: judge_def provider_failure_def bindR_eq_Inr split: sum.splits option.splits prod.splits if_splits)

lemma translate_judged:
  assumes "translate_pattern d i = Inr (EngineSuccess s)"
  shows "judged d i s"
  using assms judge_judged
  by (fastforce simp: translate_pattern_def Let_def failed_def provider_failure_def split: prod.splits option.splits sum.splits if_splits)

section \<open>The doer\<close>

lemma task_doer_fields:
  "task_pattern (i\<lparr>task_doer := dr\<rparr>) = task_pattern i" "task_technology (i\<lparr>task_doer := dr\<rparr>) = task_technology i"
  "task_context_id (i\<lparr>task_doer := dr\<rparr>) = task_context_id i" "task_adapter (i\<lparr>task_doer := dr\<rparr>) = task_adapter i"
  "task_snapshot (i\<lparr>task_doer := dr\<rparr>) = task_snapshot i" "task_requirements (i\<lparr>task_doer := dr\<rparr>) = task_requirements i"
  "task_request (i\<lparr>task_doer := dr\<rparr>) = task_request i" "task_policy (i\<lparr>task_doer := dr\<rparr>) = task_policy i"
  by simp_all

lemma judge_semantics_doer: "judge_semantics d (i\<lparr>task_doer := dr\<rparr>) = judge_semantics d i"
  by (intro ext) (simp only: judge_semantics_def built_candidate_def task_doer_fields)

lemma syntax_gate_doer: "syntax_gate d (i\<lparr>task_doer := dr\<rparr>) = syntax_gate d i"
  by (intro ext) (simp only: syntax_gate_def task_doer_fields)

text \<open>A proposal of the code is judged without the doer, and nothing about it is reported as a model's.\<close>

lemma judge_code: "judge d (i\<lparr>task_doer := dr\<rparr>) p source False = judge d i p source False"
  by (simp only: judge_def judge_semantics_doer syntax_gate_doer task_doer_fields if_False option.case)

definition result_llm :: "engine_result \<Rightarrow> bool" where
  "result_llm r = (case r of EngineFailure f \<Rightarrow> failed_llm f | EngineSuccess s \<Rightarrow> success_llm s)"

lemma judge_semantics_llm: "judge_semantics d i p content source llm = Inr r \<Longrightarrow> result_llm r = llm"
  by (auto simp: judge_semantics_def Let_def bindR_eq_Inr result_llm_def unsupported_def failed_def split: if_splits)

lemma judge_code_llm: "judge d i p source False = Inr r \<Longrightarrow> \<not> result_llm r"
  using judge_semantics_llm [of d i p _ source False r]
  by (auto simp: judge_def provider_failure_def failed_def bindR_eq_Inr result_llm_def split: sum.splits option.splits prod.splits if_splits)

section \<open>Compiled rules\<close>

text \<open>The text of a compiled rule is read back as the rule.\<close>

lemma condition_json_ok:
  assumes "wf_condition c"
  shows "json_ok ft (condition_json c)"
proof -
  have "c_selector c = Some (k, s) \<Longrightarrow> k = ''parameter'' \<or> k = ''header'' \<or> k = ''name''" for k s
    using assms by (simp add: wf_condition_def) blast
  then show ?thesis
    by (cases "c_selector c"; cases "c_match c")
      (auto simp: condition_json_def list.pred_map o_def list.pred_True split: prod.split)
qed

lemma rule_body_ok:
  assumes "\<forall>c \<in> set conds. wf_condition c"
  shows "json_ok ft (rule_body pattern rules conds is_chain)"
  using assms condition_json_ok by (simp add: rule_body_def list_all_iff)

lemma condition_json_finite: "finite_json (condition_json c)"
  by (cases "c_selector c"; cases "c_match c")
    (simp_all add: condition_json_def list.pred_map o_def list.pred_True split: prod.split)

lemma rule_body_finite: "finite_json (rule_body pattern rules conds is_chain)"
  by (simp add: rule_body_def list_all_iff condition_json_finite)

lemma compiled_ok:
  assumes "compile_akamai_custom_rule pattern reqs = Some p" and "synthetic_free pattern"
  shows "json_ok ft (candidate_content p)"
proof -
  obtain rules conds is_chain where c: "candidate_content p = rule_body pattern rules conds is_chain"
    "\<forall>c \<in> set conds. wf_condition c \<and> \<not> synthetic_header c"
    using compiled_conditions [OF assms(1)] assms(2) by (metis (no_types, lifting) list_all_iff sum.case(2) synthetic_free_def)
  show ?thesis unfolding c(1) using c(2) by (intro rule_body_ok) blast
qed

lemma compiled_content:
  assumes "compile_akamai_custom_rule pattern reqs = Some p" and "synthetic_free pattern"
  shows "normalize_candidate_content (candidate_content p) = Inr (json_text (candidate_content p))"
    and "decode_json d (json_text (candidate_content p)) = Inr (candidate_content p)"
    and "strip (json_text (candidate_content p)) \<noteq> []"
proof -
  obtain rules conds is_chain where c: "candidate_content p = rule_body pattern rules conds is_chain"
    "\<forall>c \<in> set conds. wf_condition c \<and> \<not> synthetic_header c"
    using compiled_conditions [OF assms(1)] assms(2) by (metis (no_types, lifting) list_all_iff sum.case(2) synthetic_free_def)
  then obtain kvs where kvs: "candidate_content p = JObj kvs" by (simp add: rule_body_def)
  show "normalize_candidate_content (candidate_content p) = Inr (json_text (candidate_content p))"
    using rule_body_finite [of pattern rules conds is_chain, folded c(1), unfolded kvs]
    unfolding normalize_candidate_content_def kvs by simp
  show "decode_json d (json_text (candidate_content p)) = Inr (candidate_content p)"
    using compiled_ok [OF assms] by (simp add: decode_json_def loads_dumps)
  have "\<exists>t. json_text (candidate_content p) = CHR ''{'' # t" using kvs by simp
  then show "strip (json_text (candidate_content p)) \<noteq> []"
    by (auto simp: strip_by_def lstrip_by_def rstrip_by_def is_space_def ord_c_def)
qed

text \<open>A compiled rule passes the syntax gate of the engine.\<close>

lemma compiled_gate:
  assumes "compile_akamai_custom_rule pattern reqs = Some p" and "synthetic_free pattern" and "task_adapter i = akamai_adapter"
  shows "syntax_gate d i (json_text (candidate_content p)) = Inr \<lparr>valid = True, errors = []\<rparr>"
  unfolding syntax_gate_Inr assms(3)
  by (rule compiled_rule_valid [OF assms(1,2)])
    (simp_all add: candidate_of_def compiled_content [OF assms(1,2)])

lemma compiled_judged:
  assumes "compile_akamai_custom_rule pattern reqs = Some p" and "synthetic_free pattern" and "task_adapter i = akamai_adapter"
    and "label_allowed (task_policy i) (translation_label p)"
    and "semantics_ok d i (translation_label p) (json_text (candidate_content p)) source"
  shows "judge d i p source False = Inr (EngineSuccess
     \<lparr>success_candidate = built_candidate d i p (json_text (candidate_content p))
        (detect_conflicts akamai_adapter (candidate_of d (json_text (candidate_content p))) (task_snapshot i)),
      success_source = source, success_llm = False\<rparr>)"
  using assms(4) compiled_content(1) [OF assms(1,2)] compiled_gate [OF assms(1-3)] judge_semantics_succeeds [OF assms(5)] assms(3)
  by (simp add: judge_def policy_failure_None [symmetric])

lemma compiled_accepted:
  assumes "compile_akamai_custom_rule pattern reqs = Some p" and "synthetic_free pattern" and "task_adapter i = akamai_adapter"
    and "label_allowed (task_policy i) (translation_label p)"
    and "semantics_ok d i (translation_label p) (json_text (candidate_content p)) source"
  shows "\<exists>s. judge d i p source False = Inr (EngineSuccess s) \<and> success_source s = source \<and> \<not> success_llm s \<and>
    content_ref (cand_artifact (success_candidate s)) = json_text (candidate_content p)"
  by (intro exI conjI, rule compiled_judged [OF assms]) simp_all

section \<open>Requirements of a compiled rule\<close>

text \<open>
  Requirements without a path, whose payloads have no star at an edge and whose location the compiler
  and the gate read alike.
\<close>

definition requirements_plain :: "requirements \<Rightarrow> bool" where
  "requirements_plain r =
     (list_all (\<lambda>q. strip_by (\<lambda>c. c = star_c) q = q) (required_payloads r)
      \<and> list_all (\<lambda>t. t \<in> set (fst (required_akamai_condition_types r))) (required_condition_types r)
      \<and> request_path r = None)"

lemma json_condition_values_of:
  "json_ok ft (condition_json c) \<Longrightarrow> condition_json c = JObj kvs \<Longrightarrow> json_condition_values kvs = c_value c"
  by (cases "c_selector c"; cases "c_match c")
    (auto simp: condition_json_def json_condition_values_def get_or_null_def get_def o_def split: prod.split)

lemma values_of_typesI:
  assumes "c \<in> set conds" and "c_type c \<in> set types" and "v \<in> set (c_value c)" and "json_ok ft (condition_json c)"
  shows "v \<in> set (values_of_types types (map condition_json conds))"
proof -
  obtain kvs where kvs: "condition_json c = JObj kvs" by (simp add: condition_json_def)
  then have "get_or_null kvs ''type'' = JStr (c_type c)"
    by (auto simp: condition_json_def get_or_null_def get_def)
  with kvs json_condition_values_of [OF assms(4) kvs] assms(1-3) show ?thesis
    by (auto simp: values_of_types_def intro!: bexI [of _ c])
qed

lemma compiled_requirements:
  assumes "compile_akamai_custom_rule pattern (Some r) = Some p" and "synthetic_free pattern" and "requirements_plain r"
  shows "akamai_semantic_errors d (json_text (candidate_content p)) lbl r = Inr []"
  using assms(1)
proof (cases rule: compile_Some)
  case (1 directives rules is_chain s conds nts)
  note c = 1(10)
  have a: "apply_requirements (s_conditions s) r = Inr (conds, nts)" using 1(8) by simp
  obtain kvs where kvs: "candidate_content p = JObj kvs" "get kvs ''conditions'' = Some (JArr (map condition_json conds))"
    using c by (auto simp: rule_body_def get_def)
  have ok: "json_ok (\<lambda>t. t) (condition_json c)" if "c \<in> set conds" for c
    using compiled_ok [OF assms(1,2), of "\<lambda>t. t"] that unfolding c by (simp add: rule_body_def list_all_iff)
  have "list_ex (\<lambda>v. value_covers v q) (values_of_types (fst (required_akamai_condition_types r)) (map condition_json conds))"
    if q: "q \<in> set (required_payloads r)" for q
  proof -
    from q have "required_payloads r \<noteq> []" by auto
    with apply_requirements_met [OF a] obtain c where
      m: "c \<in> set conds" "c_type c \<in> set (required_condition_types r)" "set (required_payloads r) \<subseteq> set (c_value c)"
      by blast
    then have "c_type c \<in> set (fst (required_akamai_condition_types r))"
      using assms(3) by (simp add: requirements_plain_def list_all_iff)
    from values_of_typesI [OF m(1) this _ ok [OF m(1)], of q] q m(3)
    have "q \<in> set (values_of_types (fst (required_akamai_condition_types r)) (map condition_json conds))" by blast
    moreover have "value_covers q q"
      using assms(3) q by (simp add: requirements_plain_def list_all_iff value_covers_def)
    ultimately show ?thesis by (auto simp: list_ex_iff)
  qed
  then have "filter (\<lambda>q. \<not> list_ex (\<lambda>v. value_covers v q)
      (values_of_types (fst (required_akamai_condition_types r)) (map condition_json conds))) (required_payloads r) = []"
    by (simp only: filter_empty_conv) blast
  moreover have "decode_json d (json_text (candidate_content p)) = Inr (JObj kvs)"
    using compiled_content(2) [OF assms(1,2), of d] by (simp only: kvs(1))
  moreover have "request_path r = None" using assms(3) by (simp add: requirements_plain_def)
  ultimately show ?thesis
    using kvs(2) by (cases "required_akamai_condition_types r") (simp add: akamai_semantic_errors_def Let_def)
qed

text \<open>The semantic gates of a compiled rule.\<close>

lemma compiled_semantics:
  assumes "compile_akamai_custom_rule pattern (task_requirements i) = Some p" and "synthetic_free pattern"
    and "pred_option requirements_plain (task_requirements i)"
  shows "semantics_ok d i (translation_label p) (json_text (candidate_content p)) ''deterministic-modsec-rule''"
  using assms compiled_requirements [of pattern _ p d] by (cases "task_requirements i") (auto simp: semantics_ok_def)

lemma deterministic_compiled:
  "akamai_deterministic_proposal d pattern reqs request = (Some p, ''deterministic-modsec-rule'')
   \<Longrightarrow> compile_akamai_custom_rule pattern reqs = Some p"
  by (auto simp: akamai_deterministic_proposal_def Let_def split: if_splits option.splits)

end
