(* ===== verification/EngineProps.thy ===== *)
theory EngineProps
  imports EngineFacts CompilerProps
begin

text \<open>
  The properties of the translation engine, with a concrete task that shows their hypotheses can
  hold.
\<close>

definition sample_decoders :: decoders where
  "sample_decoders =
     \<lparr>json_message = (\<lambda>t. ''bad''), float_text = (\<lambda>t. t), unquote_text = (\<lambda>t. t), parse_xml = (\<lambda>t. Inl ''bad''),
      hex_sha256 = (\<lambda>bs. replicate 64 CHR ''a'')\<rparr>"

definition sample_doer :: doer where
  "sample_doer = \<lparr>propose = (\<lambda>p t a s r. Inl ''no''), repair = None, deterministic_proposal_source = None\<rparr>"

definition sample_policy :: translation_policy where
  "sample_policy =
     \<lparr>translation_policy_id = ''t'', allow_narrower_translation = True, allow_equivalent_translation = True,
      allow_broader_translation = True\<rparr>"

definition sample_task :: "string \<Rightarrow> requirements option \<Rightarrow> translation_task" where
  "sample_task summary reqs =
     \<lparr>task_pattern = sample_pattern_for summary, task_technology = ''akamai-waf'', task_context_id = ''c'',
      task_adapter = akamai_adapter, task_doer = sample_doer, task_snapshot = None, task_requirements = reqs,
      task_request = None, task_policy = sample_policy\<rparr>"

section \<open>Gates\<close>

text \<open>
  C6. No candidate leaves the engine unjudged. Whatever made the proposal, the first answer or the
  repaired one, a success carries content that the target's syntax gate accepts and that passes
  the semantic gates, a label that the translation policy allows, the digest of exactly this
  content, all conflicts with the policy snapshot, and the proof records of the pattern.
\<close>

theorem engine_candidate_is_judged:
  assumes "translate_pattern d i = Inr (EngineSuccess s)"
  shows "judged d i s"
  by (rule translate_judged [OF assms])

text \<open>
  C18. An authoritative SecRule keeps the model out. For an Akamai target and a pattern whose summary
  contains a SecRule directive the outcome is the same for every doer, failures included, and it is never
  reported as a model's.
\<close>

theorem authoritative_rule_excludes_model:
  assumes "task_technology i = ''akamai-waf''" "has_authoritative_secrule (pattern_summary (task_pattern i))"
  shows "translate_pattern d (i\<lparr>task_doer := dr\<rparr>) = translate_pattern d i \<and>
    (\<forall>r. translate_pattern d i = Inr r \<longrightarrow> \<not> result_llm r)"
proof -
  obtain q source where q: "akamai_deterministic_proposal d (task_pattern i) (task_requirements i) (task_request i) = (q, source)"
    by fastforce
  show ?thesis
  proof (cases q)
    case (Some p)
    then have "translate_pattern d (i\<lparr>task_doer := e\<rparr>) = judge d i p source False" for e
      using assms(1) q by (simp add: translate_pattern_def Let_def judge_code)
    from this [of dr] this [of "task_doer i"] show ?thesis using judge_code_llm [of d i p source] by simp
  next
    case None
    then show ?thesis
      using assms q by (simp add: translate_pattern_def Let_def result_llm_def failed_def)
  qed
qed

theorem engine_candidate_is_judged_witness:
  "\<exists>s. translate_pattern sample_decoders (sample_task sample_rule None) = Inr (EngineSuccess s) \<and>
     judged sample_decoders (sample_task sample_rule None) s"
proof -
  have "case translate_pattern sample_decoders (sample_task sample_rule None) of
      Inr (EngineSuccess s) \<Rightarrow> True | _ \<Rightarrow> False" by code_simp
  then obtain s where s: "translate_pattern sample_decoders (sample_task sample_rule None) = Inr (EngineSuccess s)"
    by (auto split: sum.splits engine_result.splits)
  from engine_candidate_is_judged [OF this] s show ?thesis by blast
qed

theorem authoritative_rule_excludes_model_witness:
  "translate_pattern sample_decoders (sample_task sample_rule None \<lparr>task_doer := sample_doer\<lparr>deterministic_proposal_source := Some ''x''\<rparr>\<rparr>)
   = translate_pattern sample_decoders (sample_task sample_rule None)"
proof -
  have "has_authoritative_secrule (pattern_summary (task_pattern (sample_task sample_rule None)))" by code_simp
  from authoritative_rule_excludes_model [OF _ this, of sample_decoders] show ?thesis by (simp add: sample_task_def)
qed

section \<open>Compiled rules\<close>

text \<open>
  C36. A compiled rule that the policy can admit is translated. If for an Akamai task the engine takes
  the compiled rule as its proposal, the source names no synthetic header, the policy admits the label,
  and requirements, if any, are plain (no path, no star at the edge of a payload, and a location that
  compiler and gate read alike), then the engine succeeds: the candidate's content is the JSON text of
  the compiled rule, no gate rejects it, and no model is involved.
\<close>

theorem compiled_rule_translates:
  assumes "task_technology i = ''akamai-waf''" "task_adapter i = akamai_adapter"
    and "akamai_deterministic_proposal d (task_pattern i) (task_requirements i) (task_request i) = (Some p, ''deterministic-modsec-rule'')"
    and "synthetic_free (task_pattern i)" "label_allowed (task_policy i) (translation_label p)"
    and "pred_option requirements_plain (task_requirements i)"
  shows "\<exists>s. translate_pattern d i = Inr (EngineSuccess s) \<and> success_source s = ''deterministic-modsec-rule'' \<and> \<not> success_llm s \<and>
    content_ref (cand_artifact (success_candidate s)) = json_text (candidate_content p) \<and>
    json_loads (float_text d) (content_ref (cand_artifact (success_candidate s))) = Some (candidate_content p)"
proof -
  note c = deterministic_compiled [OF assms(3)]
  have "translate_pattern d i = judge d i p ''deterministic-modsec-rule'' False"
    using assms(1,3) by (simp add: translate_pattern_def Let_def)
  then obtain s where s: "translate_pattern d i = Inr (EngineSuccess s)" "success_source s = ''deterministic-modsec-rule''"
    "\<not> success_llm s" "content_ref (cand_artifact (success_candidate s)) = json_text (candidate_content p)"
    using compiled_accepted [OF c assms(4,2,5) compiled_semantics [OF c assms(4,6)]] by auto
  then show ?thesis using loads_dumps [OF compiled_ok [OF c assms(4)]] by auto
qed

theorem compiled_rule_translates_witness:
  "\<exists>s. translate_pattern sample_decoders (sample_task sample_rule (Some (sample_requirements\<lparr>effective_request := None\<rparr>))) =
     Inr (EngineSuccess s) \<and> \<not> success_llm s"
proof -
  let ?i = "sample_task sample_rule (Some (sample_requirements\<lparr>effective_request := None\<rparr>))"
  have "case akamai_deterministic_proposal sample_decoders (task_pattern ?i) (task_requirements ?i) (task_request ?i) of
      (Some p, source) \<Rightarrow> source = ''deterministic-modsec-rule'' \<and> label_allowed (task_policy ?i) (translation_label p)
    | _ \<Rightarrow> False" by code_simp
  then obtain p where p: "akamai_deterministic_proposal sample_decoders (task_pattern ?i) (task_requirements ?i) (task_request ?i) =
      (Some p, ''deterministic-modsec-rule'')" "label_allowed (task_policy ?i) (translation_label p)"
    by (auto split: prod.splits option.splits)
  have "requirements_plain (sample_requirements\<lparr>effective_request := None\<rparr>)" by code_simp
  then have "pred_option requirements_plain (task_requirements ?i)" by (simp add: sample_task_def)
  moreover have "synthetic_free (task_pattern ?i)" using sample_synthetic_free by (simp add: sample_task_def)
  moreover have "task_technology ?i = ''akamai-waf''" "task_adapter ?i = akamai_adapter" by (simp_all add: sample_task_def)
  ultimately show ?thesis using compiled_rule_translates [OF _ _ p(1)] p(2) by blast
qed

end
