(* ===== verification/UpstreamProps.thy ===== *)
theory UpstreamProps
  imports UpstreamFacts EngineProps
begin

text \<open>
  The properties of the upstream join: what a resolved proof loop rests on, and that the JSON field it
  derives blocks the request that was proven. Also the two inputs on which the join falls short.
\<close>

section \<open>Lineage\<close>

text \<open>
  C7. A resolved loop rests on three authoritative records. Each was handed out by the resolver for
  its reference, carries the referenced result id and the terminal state its role requires, and names
  no correlation id that differs from the command's as its only one; the pattern cites exactly the
  Mitigation Check and the Bypass Validation record, and calls itself proven only if the routing says
  that no bypass was found.
\<close>

theorem resolved_loop_is_proven:
  assumes "resolve_proof_loop d fetch refs q = Inr l"
  shows "\<exists>rs. (\<forall>role. (\<exists>locator. fetch (role_reference refs role) locator = Inr (Some (rs role)))
        \<and> rec_result_id (rs role) = ref_key (role_reference refs role) \<and> rec_terminal_state (rs role) = required_state q role
        \<and> one_value (document (rs role)) ''correlation_id'' \<in> {None, res_correlation q})
    \<and> proof_record_ids (loop_pattern l) = [trimmed (ref_key (ref_mitigation_check refs)), trimmed (ref_key (ref_bypass_validation refs))]
    \<and> (\<exists>i \<in> set (proof_record_ids (loop_pattern l)). starts_with i ''mitigation-check-result:'')
    \<and> (\<exists>i \<in> set (proof_record_ids (loop_pattern l)). starts_with i ''bypass-validation-result:'')
    \<and> (qual_bypass_cleared (loop_qualification l) \<longleftrightarrow> bypass_terminal_state (res_routing q) = NoBypassFound)"
  using assms
proof (rule resolved_records)
  fix defense mitigation bypass :: upstream_record and identity :: "string \<times> string"
  let ?rs = "case_role defense mitigation bypass"
  assume f: "fetch_record fetch refs q DefenseRole = Inr defense" "fetch_record fetch refs q MitigationRole = Inr mitigation"
      "fetch_record fetch refs q BypassRole = Inr bypass"
    and v: "validate_lineage q DefenseRole defense = Inr ()" "validate_lineage q MitigationRole mitigation = Inr ()"
      "validate_lineage q BypassRole bypass = Inr ()"
    and a: "assemble d refs q defense mitigation bypass identity = Inr l"
  have "fetch_record fetch refs q role = Inr (?rs role) \<and> validate_lineage q role (?rs role) = Inr ()" for role
    using f v by (cases role) simp_all
  then have r: "(\<exists>locator. fetch (role_reference refs role) locator = Inr (Some (?rs role)))
      \<and> rec_result_id (?rs role) = ref_key (role_reference refs role) \<and> rec_terminal_state (?rs role) = required_state q role
      \<and> one_value (document (?rs role)) ''correlation_id'' \<in> {None, res_correlation q}" for role
    using fetch_record_Inr lineage_Inr by blast
  have ids: "rec_result_id mitigation = ref_key (ref_mitigation_check refs)" "rec_result_id bypass = ref_key (ref_bypass_validation refs)"
    using r [of MitigationRole] r [of BypassRole] by (simp_all add: role_reference_def)
  show ?thesis
    using a
  proof (rule assembled)
    fix discriminator control_class artifact
    assume "proof_record_ids (loop_pattern l) = [trimmed (rec_result_id mitigation), trimmed (rec_result_id bypass)]"
      "\<exists>i \<in> set (proof_record_ids (loop_pattern l)). starts_with i ''mitigation-check-result:''"
      "\<exists>i \<in> set (proof_record_ids (loop_pattern l)). starts_with i ''bypass-validation-result:''"
      "loop_qualification l = qualification_of (res_routing q)"
    then show ?thesis using ids r by (intro exI [of _ ?rs]) (simp add: qualification_of_def Let_def)
  qed
qed

section \<open>The derived field\<close>

text \<open>
  C17. A derived JSON field is a value of the proven request that both pieces of Defense Generation
  evidence name. If a field is derived, the request is a bounded POST whose body reads strictly, without
  repeated keys, as an object with a nonblank string at the field's path, of at most twelve safe
  segments; the path is mentioned in discriminator and artifact, and so is the value (mode exact), or a token
  of it (contains-token), or the artifact is a rule on the mere presence of the field.
\<close>

theorem derived_field_is_corroborated:
  assumes "derived_json_field d context discriminator artifact = Some f"
  shows "\<exists>c kvs v picked. context = Some c \<and> py_upper (strip (context_method c)) = ''POST'' \<and>
    length (utf8 (context_body c)) \<le> 64 * 1024 \<and> strict_loads (float_text d) (context_body c) = Some (JObj kvs) \<and>
    lookup_path (field_path f) (JObj kvs) = Some (JStr v) \<and> strip v \<noteq> [] \<and>
    list_all safe_segment (field_path f) \<and> length (field_path f) \<le> 12 \<and> feature_value f = trimmed picked \<and>
    corroborated discriminator artifact (field_path f) v picked (value_match_mode f)"
  using assms
  by (rule derived_field) (auto simp: leaf_of_def MAX_JSON_DEPTH_def MAX_JSON_BODY_BYTES_def)

lemma derived_exact_value:
  assumes "derived_json_field d (Some c) discriminator artifact = Some f"
    and "strict_loads (float_text d) (context_body c) = Some body" "lookup_path (field_path f) body = Some (JStr v)"
    and "value_match_mode f = ''exact''"
  shows "feature_value f = trimmed v"
  using assms(1)
proof (rule derived_field)
  fix c' kvs w picked
  assume "Some c = Some c'" "strict_loads (float_text d) (context_body c') = Some (JObj kvs)" "leaf_of (JObj kvs) (field_path f, w)"
    "feature_value f = trimmed picked" "corroborated discriminator artifact (field_path f) w picked (value_match_mode f)"
  then show ?thesis using assms(2-4) by (simp add: leaf_of_def corroborated_def)
qed

text \<open>
  C16. The rule for a derived field blocks the request it was derived from: the conditions the engine
  builds for the field match the decoded body of the proven request, unless the mode is exact and the
  value has white space at an edge.
\<close>

theorem derived_rule_blocks_proven_request:
  assumes "derived_json_field d (Some c) discriminator artifact = Some f"
    and "strict_loads (float_text d) (context_body c) = Some body" "lookup_path (field_path f) body = Some (JStr v)"
    and "value_match_mode f = ''exact'' \<longrightarrow> trimmed v = v"
    and "json_body_field_rule pattern f = JObj rule"
  shows "akamai_json_rule_matches rule f body = Inr True"
  using assms(1)
proof (rule derived_field)
  fix c' kvs w picked
  assume c: "Some c = Some c'" "strict_loads (float_text d) (context_body c') = Some (JObj kvs)" "leaf_of (JObj kvs) (field_path f, w)"
    and p: "feature_value f = trimmed picked" "corroborated discriminator artifact (field_path f) w picked (value_match_mode f)"
  then have w: "w = v" using assms(2,3) by (simp add: leaf_of_def)
  have "fnmatchcase v (star_c # feature_value f @ [star_c])" if m: "value_match_mode f = ''contains-token''"
  proof -
    have t: "contains v picked" "list_all token_char picked" using p(2) m w token_part [of picked v] by (simp_all add: corroborated_def)
    then show ?thesis using p(1) token_trimmed [OF t(2)] fnmatch_contains [OF token_plain [OF t(2)], of v] by simp
  qed
  moreover have "feature_value f = v" if "value_match_mode f = ''exact''"
    using derived_exact_value [OF assms(1-3) that] assms(4) that by simp
  moreover have "value_match_mode f \<in> {''exact'', ''contains-token'', ''field-present''}"
    using p(2) by (auto simp: corroborated_def)
  ultimately show ?thesis using field_rule_matches [OF assms(5,3)] by auto
qed

section \<open>Sample records\<close>

definition sample_reference :: "string \<Rightarrow> result_reference" where
  "sample_reference k =
     \<lparr>ref_system = Databricks, ref_catalog = Some ''c'', ref_schema = Some ''s'', ref_table = Some ''t'', ref_contract_id = None,
      ref_namespace = None, ref_key = k\<rparr>"

definition sample_references :: upstream_result_references where
  "sample_references =
     \<lparr>ref_defense_generation = sample_reference ''dg'', ref_mitigation_check = sample_reference ''mitigation-check-result:m'',
      ref_bypass_validation = sample_reference ''bypass-validation-result:b''\<rparr>"

definition sample_resolution :: resolution where
  "sample_resolution =
     \<lparr>res_correlation = Some ''run'', res_revision = None,
      res_routing = \<lparr>loop_exhausted = False, completed_iterations = 1, max_iterations = 10, bypass_terminal_state = NoBypassFound,
        bypass_result_ref = sample_reference ''bypass-validation-result:b''\<rparr>,
      res_expected_vulnerability = Some ''CVE-1'', res_expected_candidate = Some ''candidate:1'', res_locators = None\<rparr>"

definition sample_artifact :: string where
  "sample_artifact = ''block field q with  xy  inside''"

text \<open>The Mitigation Check record's own correlation id is an argument.\<close>

definition sample_resolver :: "string \<Rightarrow> resolver" where
  "sample_resolver correlation reference locator =
     (if ref_key reference = ''dg'' then Inr (Some
        \<lparr>rec_result_id = ''dg'', rec_terminal_state = ''candidate-produced'', rec_correlation_id = Some ''run'', rec_revision_id = None,
         rec_request = [], rec_result = [(''primary_candidate'', JObj
           [(''vulnerability_id'', JStr ''CVE-1''), (''candidate_id'', JStr ''candidate:1''), (''discriminator'', JStr sample_artifact),
            (''selected_control_class'', JStr ''waf''), (''artifact_content'', JStr sample_artifact)])]\<rparr>)
      else if ref_key reference = ''mitigation-check-result:m'' then Inr (Some
        \<lparr>rec_result_id = ''mitigation-check-result:m'', rec_terminal_state = ''blocked'', rec_correlation_id = Some correlation,
         rec_revision_id = None, rec_request = [(''correlation_id'', JStr ''run'')],
         rec_result = []\<rparr>)
      else Inr (Some
        \<lparr>rec_result_id = ''bypass-validation-result:b'', rec_terminal_state = ''no-bypass-found'', rec_correlation_id = Some ''run'',
         rec_revision_id = None, rec_request = [], rec_result = []\<rparr>))"

lemma sample_resolves: "case resolve_proof_loop sample_decoders (sample_resolver ''run'') sample_references sample_resolution of
    Inr l \<Rightarrow> True | Inl _ \<Rightarrow> False"
  by code_simp

theorem resolved_loop_is_proven_witness:
  "\<exists>l. resolve_proof_loop sample_decoders (sample_resolver ''run'') sample_references sample_resolution = Inr l \<and>
     proof_record_ids (loop_pattern l) = [''mitigation-check-result:m'', ''bypass-validation-result:b'']"
proof -
  obtain l where l: "resolve_proof_loop sample_decoders (sample_resolver ''run'') sample_references sample_resolution = Inr l"
    using sample_resolves by (auto split: sum.splits)
  have "trimmed ''mitigation-check-result:m'' = ''mitigation-check-result:m''"
    "trimmed ''bypass-validation-result:b'' = ''bypass-validation-result:b''" by code_simp+
  with resolved_loop_is_proven [OF l] l show ?thesis
    by (auto simp: sample_references_def sample_reference_def)
qed

definition sample_context :: "string \<Rightarrow> request_context" where
  "sample_context val =
     \<lparr>context_method = ''POST'', context_path = ''/'', context_headers = [(''Content-Type'', ''application/json'')],
      context_body = json_text (JObj [(''q'', JStr val)])\<rparr>"

lemma sample_field_of:
  assumes "strict_loads (float_text d) (context_body (sample_context val)) = Some (JObj [(''q'', JStr val)])"
    and "length (utf8 (context_body (sample_context val))) \<le> 65536" "strip val \<noteq> []" "length val \<le> 4096"
    and "corroborate artifact [casefold discriminator, casefold artifact] ([''q''], val) = [(path, v, mode)]"
  shows "derived_json_field d (Some (sample_context val)) discriminator artifact =
    Some \<lparr>field_path = path, feature_value = trimmed v, value_match_mode = mode\<rparr>"
proof -
  have "safe_segment ''q''" "py_upper (strip ''POST'') = ''POST''" by code_simp+
  then have "body_leaves (JObj [(''q'', JStr val)]) = Some [([''q''], val)]"
    using assms(3,4) by (simp add: body_leaves_def visit.simps add_leaf_def Let_def MAX_JSON_NODES_def MAX_JSON_DEPTH_def MAX_JSON_LEAVES_def)
  moreover have "py_upper (strip (context_method (sample_context val))) = ''POST''"
    using \<open>py_upper (strip ''POST'') = ''POST''\<close> by (simp add: sample_context_def)
  moreover have "py_lower (strip (fst (partition_c (context_content_type (sample_context val)) (CHR '';'')))) = ''application/json''"
  proof -
    have "context_content_type (sample_context val) = ''application/json''"
      by (simp add: context_content_type_def sample_context_def, code_simp)
    moreover have "py_lower (strip (fst (partition_c ''application/json'' (CHR '';'')))) = ''application/json''" by code_simp
    ultimately show ?thesis by simp
  qed
  ultimately show ?thesis
    unfolding derived_json_field_def using assms(1,2,5) by (simp add: MAX_JSON_BODY_BYTES_def)
qed

lemma sample_bodies:
  "strict_loads (float_text sample_decoders) (context_body (sample_context ''xy'')) = Some (JObj [(''q'', JStr ''xy'')])"
  "strict_loads (float_text sample_decoders) (context_body (sample_context '' xy '')) = Some (JObj [(''q'', JStr '' xy '')])"
  by code_simp+

lemma sample_sizes:
  "length (utf8 (context_body (sample_context ''xy''))) = 10" "length (utf8 (context_body (sample_context '' xy ''))) = 12"
  by code_simp+

lemma sample_corroborated:
  "corroborate sample_artifact [casefold sample_artifact, casefold sample_artifact] ([''q''], ''xy'') = [([''q''], ''xy'', ''exact'')]"
  "corroborate sample_artifact [casefold sample_artifact, casefold sample_artifact] ([''q''], '' xy '') = [([''q''], '' xy '', ''exact'')]"
  by code_simp+

lemma sample_strips: "strip ''xy'' = ''xy''" "strip '' xy '' = ''xy''" "trimmed ''xy'' = ''xy''" "trimmed '' xy '' = ''xy''"
  by code_simp+

lemma sample_field: "derived_json_field sample_decoders (Some (sample_context ''xy'')) sample_artifact sample_artifact =
    Some \<lparr>field_path = [''q''], feature_value = ''xy'', value_match_mode = ''exact''\<rparr>"
  using sample_field_of [OF sample_bodies(1) _ _ _ sample_corroborated(1)] by (simp add: sample_sizes sample_strips)

lemma sample_padded_field: "derived_json_field sample_decoders (Some (sample_context '' xy '')) sample_artifact sample_artifact =
    Some \<lparr>field_path = [''q''], feature_value = ''xy'', value_match_mode = ''exact''\<rparr>"
  using sample_field_of [OF sample_bodies(2) _ _ _ sample_corroborated(2)] by (simp add: sample_sizes sample_strips)

theorem derived_field_is_corroborated_witness:
  "\<exists>v picked. trimmed picked = ''xy'' \<and> corroborated sample_artifact sample_artifact [''q''] v picked ''exact''"
  using derived_field_is_corroborated [OF sample_field] by simp metis

theorem derived_rule_blocks_proven_request_witness:
  "\<exists>rule. json_body_field_rule (sample_pattern_for []) \<lparr>field_path = [''q''], feature_value = ''xy'', value_match_mode = ''exact''\<rparr> = JObj rule \<and>
     akamai_json_rule_matches rule \<lparr>field_path = [''q''], feature_value = ''xy'', value_match_mode = ''exact''\<rparr>
       (JObj [(''q'', JStr ''xy'')]) = Inr True"
proof -
  obtain rule where
    r: "json_body_field_rule (sample_pattern_for []) \<lparr>field_path = [''q''], feature_value = ''xy'', value_match_mode = ''exact''\<rparr> = JObj rule"
    by (simp add: json_body_field_rule_def Let_def)
  with derived_rule_blocks_proven_request [OF sample_field sample_bodies(1) _ _ r, of "''xy''"] sample_strips
  show ?thesis by (simp add: get_def)
qed

section \<open>Departures\<close>

text \<open>
  C39. The contract model strips the value of an exact field, so a proven value with white space at an
  edge escapes its own rule. Whatever request, evidence and pattern a field of mode exact was derived
  from, if the decoded body of that request has at the field's path a value that stripping changes,
  the conditions the engine builds for the field do not match this body.
\<close>

theorem padded_value_escapes_its_rule:
  assumes "derived_json_field d (Some c) discriminator artifact = Some f"
    and "strict_loads (float_text d) (context_body c) = Some body" "lookup_path (field_path f) body = Some (JStr v)"
    and "value_match_mode f = ''exact''" "trimmed v \<noteq> v"
    and "json_body_field_rule pattern f = JObj rule"
  shows "akamai_json_rule_matches rule f body = Inr False"
  using field_rule_matches [OF assms(6,3)] derived_exact_value [OF assms(1-4)] assms(4,5) by auto

theorem padded_value_escapes_its_rule_witness:
  "\<exists>f rule. derived_json_field sample_decoders (Some (sample_context '' xy '')) sample_artifact sample_artifact = Some f \<and>
     json_body_field_rule (sample_pattern_for []) f = JObj rule \<and>
     akamai_json_rule_matches rule f (JObj [(''q'', JStr '' xy '')]) = Inr False"
proof -
  let ?f = "\<lparr>field_path = [''q''], feature_value = ''xy'', value_match_mode = ''exact''\<rparr>"
  obtain rule where r: "json_body_field_rule (sample_pattern_for []) ?f = JObj rule"
    by (simp add: json_body_field_rule_def Let_def)
  with padded_value_escapes_its_rule [OF sample_padded_field sample_bodies(2) _ _ _ r, of "'' xy ''"] sample_padded_field sample_strips
  show ?thesis by (intro exI [of _ ?f] exI [of _ rule]) (simp add: get_def)
qed

text \<open>
  A second correlation id inside a record disables the lineage check: a Mitigation Check record
  that states the correlation id of another run, and repeats the right one in its request, has no
  single correlation id, which the join accepts for an orchestration subject as if it had none.
\<close>

theorem ambiguous_correlation_accepted:
  "\<exists>l r. resolve_proof_loop sample_decoders (sample_resolver ''other'') sample_references sample_resolution = Inr l \<and>
     sample_resolver ''other'' (ref_mitigation_check sample_references) None = Inr (Some r) \<and>
     rec_correlation_id r = Some ''other'' \<and> res_correlation sample_resolution = Some ''run''"
proof -
  have "case resolve_proof_loop sample_decoders (sample_resolver ''other'') sample_references sample_resolution of
      Inr l \<Rightarrow> True | Inl _ \<Rightarrow> False" by code_simp
  then obtain l where "resolve_proof_loop sample_decoders (sample_resolver ''other'') sample_references sample_resolution = Inr l"
    by (auto split: sum.splits)
  moreover have "case sample_resolver ''other'' (ref_mitigation_check sample_references) None of
      Inr (Some r) \<Rightarrow> rec_correlation_id r = Some ''other'' | _ \<Rightarrow> False" by code_simp
  then obtain r where "sample_resolver ''other'' (ref_mitigation_check sample_references) None = Inr (Some r)"
    "rec_correlation_id r = Some ''other''" by (auto split: sum.splits option.splits)
  ultimately show ?thesis by (auto simp: sample_resolution_def)
qed

end
