(* ===== verification/CapabilityProps.thy ===== *)
theory CapabilityProps
  imports Capability UpstreamProps
begin

text \<open>
  The properties of an invocation: its envelope is consistent, a translated result has passed every
  gate, referenced records are resolved first, and a bypass result is never translated.
\<close>

section \<open>Outcomes\<close>

definition consistent_outcome :: "outcome \<Rightarrow> bool" where
  "consistent_outcome out =
     (out_reason out \<in> set (VALID_REASON_CODES_FOR_STATE (out_state out))
      \<and> (out_state out = Translated \<longleftrightarrow> (\<exists>c. out_candidate out = Some c \<and> conflict_notes (cand_placement c) = [])))"

lemma plain_outcome_fields [simp]:
  "out_state (plain_outcome state code detail) = state" "out_reason (plain_outcome state code detail) = code"
  "out_detail (plain_outcome state code detail) = detail" "out_candidate (plain_outcome state code detail) = None"
  by (simp_all add: plain_outcome_def)

lemma admit_outcome:
  "admit rt pc request pattern tech ctx = Inr (Inl out) \<Longrightarrow> consistent_outcome out \<and> out_candidate out = None"
  by (auto simp: admit_def consistent_outcome_def bindR_eq_Inr split: option.splits if_splits)

lemma engine_outcome_consistent: "consistent_outcome (fst (engine_outcome pc pattern tech r))"
  by (cases r) (auto simp: engine_outcome_def consistent_outcome_def Let_def)

lemma decide_consistent:
  assumes "decide rt pc request pattern tech ctx = Inr (out, llm, source)"
  shows "consistent_outcome out"
proof -
  from assms obtain gate where g: "admit rt pc request pattern tech ctx = Inr gate"
    "(case gate of Inl out \<Rightarrow> Inr (out, False, ''none'')
      | Inr task \<Rightarrow> bindR (translate_pattern (rt_decoders rt) task) (\<lambda>r. Inr (engine_outcome pc pattern tech r))) = Inr (out, llm, source)"
    by (auto simp: decide_def bindR_eq_Inr)
  show ?thesis
  proof (cases gate)
    case (Inl o') then show ?thesis using g admit_outcome by auto
  next
    case (Inr task)
    then obtain r where "engine_outcome pc pattern tech r = (out, llm, source)" using g by (auto simp: bindR_eq_Inr)
    then show ?thesis using engine_outcome_consistent [of pc pattern tech r] by simp
  qed
qed

text \<open>What an invocation that returns has decided.\<close>

definition effective_technology :: "runtime \<Rightarrow> control_translation_request \<Rightarrow> string" where
  "effective_technology rt request = or_default (target_context.target_technology (caller_target request)) (default_target_technology (rt_settings rt))"

definition effective_context :: "runtime \<Rightarrow> control_translation_request \<Rightarrow> string" where
  "effective_context rt request = or_default (target_policy_context_id (caller_target request)) (default_target_policy_context_id (rt_settings rt))"

definition with_target :: "runtime \<Rightarrow> control_translation_request \<Rightarrow> control_translation_request" where
  "with_target rt request = fst (with_effective_target_context (rt_settings rt) request)"

lemma with_target_fields [simp]:
  "input_pattern (with_target rt request) = input_pattern request"
  "input_policy (with_target rt request) = input_policy request"
  "current_policy_snapshot_id (with_target rt request) = current_policy_snapshot_id request"
  "input_target (with_target rt request) =
     Some (target_context.make (Some (effective_technology rt request)) (Some (effective_context rt request)))"
  by (simp_all add: with_target_def with_effective_target_context_def Let_def effective_technology_def effective_context_def)

lemma invoke_Inr:
  assumes "invoke rt correlation pc request = Inr e"
  obtains pattern out llm source result where "input_pattern request = Some pattern"
    "decide rt pc (with_target rt request) pattern (effective_technology rt request) (effective_context rt request) = Inr (out, llm, source)"
    "build_result (rt_ids rt) (with_target rt request) (snd (with_effective_target_context (rt_settings rt) request))
       (pc_qualification pc) out = Inr result"
    "e = make_envelope (rt_settings rt) (rt_ids rt) correlation llm source result"
proof -
  obtain defaults where w: "with_effective_target_context (rt_settings rt) request = (with_target rt request, defaults)"
    by (cases "with_effective_target_context (rt_settings rt) request") (simp add: with_target_def)
  obtain pattern where p: "input_pattern request = Some pattern"
    using assms unfolding invoke_def w by (auto split: option.splits)
  show thesis
    using assms that [OF p] unfolding invoke_def w
    by (auto simp: p Let_def bindR_eq_Inr target_context.make_def)
qed

lemma build_result_Inr:
  assumes "build_result ids request defaults_used qualification out = Inr result"
  shows "res_terminal_state result = out_state out \<and> reason_code (res_outcome_reason result) = out_reason out
    \<and> res_candidate result = out_candidate out \<and> res_qualification result = qualification \<and> \<not> res_shared_version result
    \<and> res_profile_id result = None \<and> res_verification result = None \<and> res_accounting result = None
    \<and> res_target_artifacts result = [] \<and> res_directives result = [] \<and> res_mappings result = []
    \<and> res_counterexample result = out_counterexample out
    \<and> (\<forall>p. input_pattern request = Some p \<longrightarrow> ib_proof_record_ids (res_input_bindings result) = proof_record_ids p
        \<and> res_subject result = \<lparr>rs_vulnerability_id = vulnerability_id p, rs_proven_pattern_id = proven_pattern_id p,
             rs_control_class = selected_control_class p\<rparr>)"
  using assms by (auto simp: build_result_def make_result_def split: option.splits)

text \<open>
  C19. The envelope of an invocation is consistent: its terminal state is that of the structured result,
  its status the one of the state, the reason code one that the contract allows for the state; the
  result is translated exactly if it carries a candidate without policy conflicts, it validates, and
  the provenance is that of the pattern.
\<close>

theorem invocation_is_consistent:
  assumes "invoke rt correlation pc request = Inr e"
  shows "re_terminal_state e = res_terminal_state (re_structured e) \<and> re_status e = TERMINAL_STATE_TO_STATUS (re_terminal_state e) \<and>
    reason_code (res_outcome_reason (re_structured e)) \<in> set (VALID_REASON_CODES_FOR_STATE (re_terminal_state e)) \<and>
    (re_terminal_state e = Translated \<longleftrightarrow>
       (\<exists>c. res_candidate (re_structured e) = Some c \<and> conflict_notes (cand_placement c) = [])) \<and>
    validate_result_envelope e = Inr e \<and>
    Some (re_provenance e) = map_option proof_record_ids (input_pattern request)"
  using assms
proof (rule invoke_Inr)
  fix pattern out llm source result
  assume p: "input_pattern request = Some pattern"
    and d: "decide rt pc (with_target rt request) pattern (effective_technology rt request) (effective_context rt request) = Inr (out, llm, source)"
    and b: "build_result (rt_ids rt) (with_target rt request) (snd (with_effective_target_context (rt_settings rt) request))
       (pc_qualification pc) out = Inr result"
    and e: "e = make_envelope (rt_settings rt) (rt_ids rt) correlation llm source result"
  show ?thesis
    using decide_consistent [OF d] build_result_Inr [OF b] p
    by (auto simp: e make_envelope_def consistent_outcome_def validate_result_envelope_def validate_v2_completeness_def)
qed

text \<open>
  C5. A translated result has passed every gate: the target has a registered adapter whose control class
  is the pattern's, the current policy was read for exactly the bound context and is the snapshot the
  request names, if it names one, the engine judged the candidate against it, and the candidate's text
  is the judged one.
\<close>

theorem translated_result_passed_gates:
  assumes "invoke rt correlation pc request = Inr e" "re_terminal_state e = Translated"
  shows "\<exists>ad snapshot pattern s c. get_adapter (effective_technology rt request) = Some ad \<and> input_pattern request = Some pattern \<and>
    map_of TARGET_CONTROL_CLASSES (effective_technology rt request) = Some (py_lower (selected_control_class pattern)) \<and>
    rt_reader rt (effective_technology rt request) (effective_context rt request) = Inr (Some snapshot) \<and>
    current_policy_snapshot_id request \<in> {None, Some (snapshot_id snapshot)} \<and>
    judged (rt_decoders rt) (translation_task_of rt pc (with_target rt request) pattern (effective_technology rt request)
      (effective_context rt request) ad snapshot) s \<and>
    res_candidate (re_structured e) = Some c \<and> cand_artifact c = cand_artifact (success_candidate s) \<and>
    conflict_notes (cand_placement c) = []"
  using assms(1)
proof (rule invoke_Inr)
  fix pattern out llm source result
  let ?tech = "effective_technology rt request" and ?ctx = "effective_context rt request"
  assume p: "input_pattern request = Some pattern"
    and d: "decide rt pc (with_target rt request) pattern ?tech ?ctx = Inr (out, llm, source)"
    and b: "build_result (rt_ids rt) (with_target rt request) (snd (with_effective_target_context (rt_settings rt) request))
       (pc_qualification pc) out = Inr result"
    and e: "e = make_envelope (rt_settings rt) (rt_ids rt) correlation llm source result"
  have t: "out_state out = Translated" "res_candidate (re_structured e) = out_candidate out"
    using assms(2) build_result_Inr [OF b] by (simp_all add: e make_envelope_def)
  obtain gate where g: "admit rt pc (with_target rt request) pattern ?tech ?ctx = Inr gate"
    "(case gate of Inl out \<Rightarrow> Inr (out, False, ''none'')
      | Inr task \<Rightarrow> bindR (translate_pattern (rt_decoders rt) task) (\<lambda>r. Inr (engine_outcome pc pattern ?tech r))) = Inr (out, llm, source)"
    using d by (auto simp: decide_def bindR_eq_Inr)
  have "\<exists>task. gate = Inr task"
    using g t admit_outcome [of rt pc "with_target rt request" pattern ?tech ?ctx out]
    by (cases gate) (auto simp: consistent_outcome_def)
  then obtain task where task: "gate = Inr task" ..
  with g obtain r where r: "translate_pattern (rt_decoders rt) task = Inr r" "engine_outcome pc pattern ?tech r = (out, llm, source)"
    by (auto simp: bindR_eq_Inr)
  with t obtain s where s: "r = EngineSuccess s" by (cases r) (auto simp: engine_outcome_def split: if_splits)
  obtain ad expected snapshot where a: "get_adapter ?tech = Some ad" "map_of TARGET_CONTROL_CLASSES ?tech = Some expected"
    "py_lower (selected_control_class pattern) = expected" "rt_reader rt ?tech ?ctx = Inr (Some snapshot)"
    "current_policy_snapshot_id request \<in> {None, Some (snapshot_id snapshot)}"
    "task = translation_task_of rt pc (with_target rt request) pattern ?tech ?ctx ad snapshot"
    using g(1) unfolding task by (auto simp: admit_def bindR_eq_Inr split: option.splits if_splits)
  have j: "judged (rt_decoders rt) task s" using r(1) unfolding s by (rule translate_judged)
  obtain c where c: "out_candidate out = Some c" "cand_artifact c = cand_artifact (success_candidate s)" "conflict_notes (cand_placement c) = []"
    using r(2) t(1) unfolding s by (auto simp: engine_outcome_def Let_def split: if_splits)
  show ?thesis
    by (rule exI [of _ ad], rule exI [of _ snapshot], rule exI [of _ pattern], rule exI [of _ s], rule exI [of _ c])
      (use a p j c t(2) in simp)
qed

section \<open>A sample invocation\<close>

definition sample_ids :: capability_ids where
  "sample_ids = \<lparr>result_uuid = ''u1'', run_uuid = ''u2'', correlation_uuid = ''u3'', produced_at = 0\<rparr>"

definition sample_runtime :: runtime where
  "sample_runtime =
     \<lparr>rt_decoders = sample_decoders, rt_settings = sample_service, rt_reader = fixture_policy_reader, rt_doer = sample_doer,
      rt_ids = sample_ids\<rparr>"

definition sample_input :: control_translation_request where
  "sample_input =
     \<lparr>input_pattern = Some (sample_pattern_for sample_rule), input_target = None, input_policy = sample_policy,
      current_policy_snapshot_id = None\<rparr>"

definition sample_snapshot :: policy_snapshot where
  "sample_snapshot = snd (hd FIXTURE_SNAPSHOTS)"

definition sample_invocation_task :: "proof_context \<Rightarrow> translation_task" where
  "sample_invocation_task pc = (sample_task sample_rule (pc_requirements pc))
     \<lparr>task_context_id := ''akamai-policy:example:rev-17'', task_snapshot := Some sample_snapshot, task_request := pc_request pc\<rparr>"

lemma sample_targets:
  "effective_technology sample_runtime sample_input = ''akamai-waf''"
  "effective_context sample_runtime sample_input = ''akamai-policy:example:rev-17''"
  by (simp_all add: effective_technology_def effective_context_def or_default_def given_def caller_target_def sample_input_def
      sample_runtime_def target_context.make_def sample_service_def get_settings_def sample_readers_def getenv_def sample_environment_def)

lemma sample_admitted:
  assumes "py_lower (selected_control_class pattern) = ''waf''" "current_policy_snapshot_id request = None" "input_policy request = sample_policy"
  shows "admit sample_runtime pc (with_target sample_runtime request) pattern ''akamai-waf'' ''akamai-policy:example:rev-17''
   = Inr (Inr (sample_invocation_task pc\<lparr>task_pattern := pattern\<rparr>))"
proof -
  have "fixture_policy_reader ''akamai-waf'' ''akamai-policy:example:rev-17'' = Inr (Some sample_snapshot)" by code_simp
  then show ?thesis
    using assms by (simp add: admit_def get_adapter_def ADAPTER_REGISTRY_def TARGET_CONTROL_CLASSES_def sample_runtime_def translation_task_of_def
        sample_invocation_task_def sample_task_def)
qed

text \<open>A request for the default target whose pattern the engine translates is answered by a translated result.\<close>

lemma sample_invokes:
  assumes p: "input_pattern request = Some pattern"
    and t: "effective_technology sample_runtime request = ''akamai-waf''" "effective_context sample_runtime request = ''akamai-policy:example:rev-17''"
    and a: "py_lower (selected_control_class pattern) = ''waf''" "current_policy_snapshot_id request = None" "input_policy request = sample_policy"
    and s: "translate_pattern sample_decoders (sample_invocation_task pc\<lparr>task_pattern := pattern\<rparr>) = Inr (EngineSuccess s)"
      "conflict_notes (cand_placement (success_candidate s)) = []"
  shows "\<exists>e. invoke sample_runtime correlation pc request = Inr e \<and> re_terminal_state e = Translated"
proof -
  obtain defaults where w: "with_effective_target_context (rt_settings sample_runtime) request = (with_target sample_runtime request, defaults)"
    by (cases "with_effective_target_context (rt_settings sample_runtime) request") (simp add: with_target_def)
  have d: "rt_decoders sample_runtime = sample_decoders" by (simp add: sample_runtime_def)
  show ?thesis
    unfolding invoke_def w
    by (simp add: p d t Let_def target_context.make_def decide_def sample_admitted [OF a] s engine_outcome_def build_result_def
        make_envelope_def make_result_def)
qed

lemma sample_translates:
  "\<exists>s. translate_pattern sample_decoders (sample_invocation_task pc) = Inr (EngineSuccess s) \<and>
     conflict_notes (cand_placement (success_candidate s)) = []"
  if "pc_requirements pc = None" "pc_request pc = None"
proof -
  have "sample_invocation_task pc = sample_invocation_task no_proof_context"
    using that by (simp add: sample_invocation_task_def no_proof_context_def)
  moreover have "case translate_pattern sample_decoders (sample_invocation_task no_proof_context) of
      Inr (EngineSuccess s) \<Rightarrow> conflict_notes (cand_placement (success_candidate s)) = [] | _ \<Rightarrow> False" by code_simp
  ultimately show ?thesis by (auto split: sum.splits engine_result.splits)
qed

lemma sample_invoked:
  assumes "pc_requirements pc = None" "pc_request pc = None"
  shows "\<exists>e. invoke sample_runtime correlation pc sample_input = Inr e \<and> re_terminal_state e = Translated"
proof -
  obtain s where s: "translate_pattern sample_decoders (sample_invocation_task pc) = Inr (EngineSuccess s)"
    "conflict_notes (cand_placement (success_candidate s)) = []" using sample_translates [OF assms] by blast
  have same: "sample_invocation_task pc\<lparr>task_pattern := sample_pattern_for sample_rule\<rparr> = sample_invocation_task pc"
    by (simp add: sample_invocation_task_def sample_task_def)
  have s1: "translate_pattern sample_decoders (sample_invocation_task pc\<lparr>task_pattern := sample_pattern_for sample_rule\<rparr>) =
    Inr (EngineSuccess s)" unfolding same by (rule s(1))
  have "py_lower (selected_control_class (sample_pattern_for sample_rule)) = ''waf''" by code_simp
  from sample_invokes [OF _ sample_targets this _ _ s1 s(2)] show ?thesis by (simp add: sample_input_def)
qed

theorem invocation_is_consistent_witness:
  "\<exists>e. invoke sample_runtime None no_proof_context sample_input = Inr e \<and> re_status e = Succeeded"
proof -
  obtain e where e: "invoke sample_runtime None no_proof_context sample_input = Inr e" "re_terminal_state e = Translated"
    using sample_invoked [of no_proof_context None] by (auto simp: no_proof_context_def)
  from invocation_is_consistent [OF e(1)] e show ?thesis by simp
qed

theorem translated_result_passed_gates_witness:
  "\<exists>e c. invoke sample_runtime None no_proof_context sample_input = Inr e \<and> res_candidate (re_structured e) = Some c"
proof -
  obtain e where e: "invoke sample_runtime None no_proof_context sample_input = Inr e" "re_terminal_state e = Translated"
    using sample_invoked [of no_proof_context None] by (auto simp: no_proof_context_def)
  from translated_result_passed_gates [OF e] e(1) show ?thesis by blast
qed

section \<open>Exhausted loops\<close>

text \<open>
  C21. A candidate of an exhausted loop always says so: if the last bypass validation found a bypass,
  every result that carries a candidate, translated or in conflict, states in the candidate's
  limitations that it is not bypass-cleared, and keeps the qualification.
\<close>

theorem exhausted_candidate_says_so:
  assumes "invoke rt correlation pc request = Inr e" "pc_qualification pc = Some q" "\<not> qual_bypass_cleared q"
  shows "res_qualification (re_structured e) = Some q \<and>
    (\<forall>c. res_candidate (re_structured e) = Some c \<longrightarrow>
      (\<exists>u. u @ ''This candidate is not bypass-cleared.'' \<in> set (cand_limitations c)))"
  using assms(1)
proof (rule invoke_Inr)
  fix pattern out llm source result
  let ?tech = "effective_technology rt request" and ?ctx = "effective_context rt request"
  assume d: "decide rt pc (with_target rt request) pattern ?tech ?ctx = Inr (out, llm, source)"
    and b: "build_result (rt_ids rt) (with_target rt request) (snd (with_effective_target_context (rt_settings rt) request))
       (pc_qualification pc) out = Inr result"
    and e: "e = make_envelope (rt_settings rt) (rt_ids rt) correlation llm source result"
  have "\<exists>u. u @ ''This candidate is not bypass-cleared.'' \<in> set (cand_limitations c)" if c: "out_candidate out = Some c" for c
  proof -
    obtain gate where g: "admit rt pc (with_target rt request) pattern ?tech ?ctx = Inr gate"
      "(case gate of Inl out \<Rightarrow> Inr (out, False, ''none'')
        | Inr task \<Rightarrow> bindR (translate_pattern (rt_decoders rt) task) (\<lambda>r. Inr (engine_outcome pc pattern ?tech r))) = Inr (out, llm, source)"
      using d by (auto simp: decide_def bindR_eq_Inr)
    obtain task where "gate = Inr task"
      using g c admit_outcome [of rt pc "with_target rt request" pattern ?tech ?ctx out] by (cases gate) auto
    with g obtain r where r: "engine_outcome pc pattern ?tech r = (out, llm, source)" by (auto simp: bindR_eq_Inr)
    with c obtain s where "r = EngineSuccess s" by (cases r) (auto simp: engine_outcome_def split: if_splits)
    with r c have "set (exhausted_limitation pc) \<subseteq> set (cand_limitations c)"
      by (auto simp: engine_outcome_def Let_def split: if_splits)
    moreover have "(''PoC candidate loop exhausted after '' @ dec_nat (qual_completed_iterations q) @ '' iterations; '' @
        ''the latest Bypass Validation state was bypass-found. '') @ ''This candidate is not bypass-cleared.'' \<in> set (exhausted_limitation pc)"
      using assms(2,3) by (simp add: exhausted_limitation_def)
    ultimately show ?thesis by blast
  qed
  then show ?thesis using build_result_Inr [OF b] assms(2) by (simp add: e make_envelope_def)
qed

definition sample_exhausted :: proof_context where
  "sample_exhausted = no_proof_context\<lparr>pc_qualification := Some
     \<lparr>qual_validated = False, qual_bypass_cleared = False, qual_loop_exhausted = True, qual_completed_iterations = 10,
      qual_max_iterations = 10, qual_bypass_state = BypassFound, qual_bypass_ref = sample_reference ''b''\<rparr>\<rparr>"

theorem exhausted_candidate_says_so_witness:
  "\<exists>e c. invoke sample_runtime None sample_exhausted sample_input = Inr e \<and> res_candidate (re_structured e) = Some c \<and>
     cand_limitations c \<noteq> []"
proof -
  obtain e where e: "invoke sample_runtime None sample_exhausted sample_input = Inr e" "re_terminal_state e = Translated"
    using sample_invoked [of sample_exhausted None] by (auto simp: sample_exhausted_def no_proof_context_def)
  have "\<exists>c. res_candidate (re_structured e) = Some c"
    using e by (auto elim!: invoke_Inr simp: make_envelope_def dest!: decide_consistent build_result_Inr simp: consistent_outcome_def)
  with exhausted_candidate_says_so [OF e(1)] e(1) show ?thesis
    by (force simp: sample_exhausted_def no_proof_context_def)
qed

section \<open>Referenced records\<close>

text \<open>
  C20. Referenced records are resolved before anything is translated. If an envelope with references
  returns, there are two cases. Either it is an insufficient-context decline without candidate, whose
  inference record says that no model was invoked. Or the resolution succeeded, and the answer is that of
  the invocation on the request in which the pattern is the resolved loop's, under the loop's
  qualification, requirements and proven request; the subject, the provenance and the qualification of
  the answer are those of the loop, and so is its counterexample unless the loop is validated. In both
  cases the answer is bound to the request and its references.
\<close>

theorem references_resolved_first:
  assumes "invoke_envelope rt fetch request = Inr e" "env_upstream_refs request = Some refs"
  shows "re_request_id e = env_request_id request \<and> re_upstream_refs e = Some refs \<and>
    (re_terminal_state e = InsufficientContext \<and> res_candidate (re_structured e) = None \<and> re_provenance e = [] \<and>
       re_inference e = inference_json (rt_settings rt) False ''none'' \<or>
     (\<exists>f routing l e'. fetch = Some f \<and> env_routing_metadata request = Some routing \<and>
        resolve_proof_loop (rt_decoders rt) f refs (resolution_of request routing) = Inr l \<and>
        input_pattern (resolved_request (env_input request) l) = Some (loop_pattern l) \<and>
        invoke rt (env_correlation_id request)
          \<lparr>pc_qualification = Some (loop_qualification l), pc_requirements = loop_requirements l, pc_request = loop_request l\<rparr>
          (resolved_request (env_input request) l) = Inr e' \<and>
        e = bind_request_context request (exhaustion_evidence l e') \<and>
        rs_proven_pattern_id (res_subject (re_structured e)) = proven_pattern_id (loop_pattern l) \<and>
        rs_vulnerability_id (res_subject (re_structured e)) = vulnerability_id (loop_pattern l) \<and>
        rs_control_class (res_subject (re_structured e)) = selected_control_class (loop_pattern l) \<and>
        re_provenance e = proof_record_ids (loop_pattern l) \<and> res_qualification (re_structured e) = Some (loop_qualification l) \<and>
        (\<not> qual_validated (loop_qualification l) \<longrightarrow> res_counterexample (re_structured e) = loop_counterexample l)))"
proof (cases "\<exists>detail. e = insufficient rt request refs detail")
  case True
  then show ?thesis
    using assms(2)
    by (auto simp: insufficient_def bind_request_context_def insufficient_context_envelope_def Let_def make_envelope_def make_result_def
        plain_outcome_def)
next
  case False
  with assms obtain f routing l e' where f: "fetch = Some f" "env_routing_metadata request = Some routing"
    "resolve_proof_loop (rt_decoders rt) f refs (resolution_of request routing) = Inr l"
    and i: "invoke rt (env_correlation_id request)
       \<lparr>pc_qualification = Some (loop_qualification l), pc_requirements = loop_requirements l, pc_request = loop_request l\<rparr>
       (resolved_request (env_input request) l) = Inr e'"
    and e: "e = bind_request_context request (exhaustion_evidence l e')"
    by (auto simp: invoke_envelope_def bindR_eq_Inr split: option.splits sum.splits upstream_error.splits)
  have p: "input_pattern (resolved_request (env_input request) l) = Some (loop_pattern l)"
    by (simp add: resolved_request_def Let_def)
  with i have "re_provenance e' = proof_record_ids (loop_pattern l) \<and> res_qualification (re_structured e') = Some (loop_qualification l)
      \<and> res_subject (re_structured e') = \<lparr>rs_vulnerability_id = vulnerability_id (loop_pattern l),
           rs_proven_pattern_id = proven_pattern_id (loop_pattern l), rs_control_class = selected_control_class (loop_pattern l)\<rparr>"
    by (auto elim!: invoke_Inr dest!: build_result_Inr simp: make_envelope_def)
  then show ?thesis
    using f p i assms(2) by (auto simp: e bind_request_context_def exhaustion_evidence_def)
qed

definition sample_envelope :: request_envelope where
  "sample_envelope =
     \<lparr>env_contract_id = None, env_input = sample_input, env_subject = None, env_upstream_inputs = None, env_routing_context = None,
      env_upstream_refs = Some sample_references, env_routing_metadata = Some (res_routing sample_resolution), env_scope_config = [],
      env_request_id = Some ''r'', env_correlation_id = None, env_idempotency_key = None, env_revision_id = None, env_provenance = None,
      env_callback_url = None\<rparr>"

text \<open>An envelope whose referenced Defense Generation artifact is the sample rule: the rule is translated.\<close>

definition sample_rule_resolver :: resolver where
  "sample_rule_resolver reference locator =
     (if ref_key reference = ''dg'' then Inr (Some
        \<lparr>rec_result_id = ''dg'', rec_terminal_state = ''candidate-produced'', rec_correlation_id = Some ''run'', rec_revision_id = None,
         rec_request = [], rec_result = [(''primary_candidate'', JObj
           [(''vulnerability_id'', JStr ''CVE-1''), (''candidate_id'', JStr ''candidate:1''), (''discriminator'', JStr ''x''),
            (''selected_control_class'', JStr ''waf''), (''artifact_content'', JStr sample_rule)])]\<rparr>)
      else sample_resolver ''run'' reference locator)"

definition sample_loop_pattern :: proven_pattern where
  "sample_loop_pattern =
     \<lparr>proven_pattern_id = ''proven-pattern:candidate:1'', vulnerability_id = ''CVE-1'', selected_control_class = ''waf'',
      discriminator_id = ''discriminator:candidate:1'', discriminator_description = ''x'', pattern_summary = sample_rule,
      proof_record_ids = [''mitigation-check-result:m'', ''bypass-validation-result:b''], json_body_feature = None\<rparr>"

definition sample_referenced :: request_envelope where
  "sample_referenced = sample_envelope\<lparr>env_correlation_id := Some ''run'',
     env_subject := Some \<lparr>subj_vulnerability_id = ''CVE-1'', subj_candidate_id = ''candidate:1''\<rparr>\<rparr>"

lemma sample_referenced_resolution:
  "env_input sample_referenced = sample_input" "env_correlation_id sample_referenced = Some ''run''"
  "env_upstream_refs sample_referenced = Some sample_references"
  "env_routing_metadata sample_referenced = Some (res_routing sample_resolution)"
  "resolution_of sample_referenced (res_routing sample_resolution) = sample_resolution"
  by (simp_all add: sample_referenced_def sample_envelope_def resolution_of_def sample_resolution_def)

lemma sample_rule_resolves:
  "\<exists>l. resolve_proof_loop sample_decoders sample_rule_resolver sample_references sample_resolution = Inr l \<and>
     loop_pattern l = sample_loop_pattern \<and> loop_technology l = None \<and> loop_policy_context_id l = None \<and>
     loop_requirements l = None \<and> loop_request l = None"
proof -
  have "case resolve_proof_loop sample_decoders sample_rule_resolver sample_references sample_resolution of
      Inr l \<Rightarrow> loop_pattern l = sample_loop_pattern \<and> loop_technology l = None \<and> loop_policy_context_id l = None \<and>
        loop_requirements l = None \<and> loop_request l = None
    | Inl _ \<Rightarrow> False" by code_simp
  then show ?thesis by (auto split: sum.splits)
qed

lemma sample_loop_translates:
  "\<exists>s. translate_pattern sample_decoders (sample_invocation_task pc\<lparr>task_pattern := sample_loop_pattern\<rparr>) = Inr (EngineSuccess s) \<and>
     conflict_notes (cand_placement (success_candidate s)) = []"
  if "pc_requirements pc = None" "pc_request pc = None"
proof -
  have "sample_invocation_task pc = sample_invocation_task no_proof_context"
    using that by (simp add: sample_invocation_task_def no_proof_context_def)
  moreover have "case translate_pattern sample_decoders (sample_invocation_task no_proof_context\<lparr>task_pattern := sample_loop_pattern\<rparr>) of
      Inr (EngineSuccess s) \<Rightarrow> conflict_notes (cand_placement (success_candidate s)) = [] | _ \<Rightarrow> False" by code_simp
  ultimately show ?thesis by (auto split: sum.splits engine_result.splits)
qed

lemma sample_referenced_translates:
  "\<exists>e. invoke_envelope sample_runtime (Some sample_rule_resolver) sample_referenced = Inr e \<and> re_terminal_state e = Translated"
proof -
  obtain l where l: "resolve_proof_loop sample_decoders sample_rule_resolver sample_references sample_resolution = Inr l"
    "loop_pattern l = sample_loop_pattern" "loop_technology l = None" "loop_policy_context_id l = None" "loop_requirements l = None"
    "loop_request l = None" using sample_rule_resolves by blast
  let ?pc = "\<lparr>pc_qualification = Some (loop_qualification l), pc_requirements = loop_requirements l, pc_request = loop_request l\<rparr>"
  let ?request = "resolved_request sample_input l"
  obtain s where s: "translate_pattern sample_decoders (sample_invocation_task ?pc\<lparr>task_pattern := sample_loop_pattern\<rparr>) = Inr (EngineSuccess s)"
    "conflict_notes (cand_placement (success_candidate s)) = []" using sample_loop_translates [of ?pc] l by auto
  have t: "effective_technology sample_runtime ?request = effective_technology sample_runtime sample_input"
    "effective_context sample_runtime ?request = effective_context sample_runtime sample_input"
    using l by (simp_all add: effective_technology_def effective_context_def resolved_request_def Let_def caller_target_def sample_input_def
        target_context.make_def)
  have "py_lower (selected_control_class sample_loop_pattern) = ''waf''" by code_simp
  then obtain e where "invoke sample_runtime (Some ''run'') ?pc ?request = Inr e" "re_terminal_state e = Translated"
    using sample_invokes [of ?request sample_loop_pattern ?pc s "Some ''run''"] l s t sample_targets
    by (auto simp: resolved_request_def Let_def sample_input_def)
  moreover have "rt_decoders sample_runtime = sample_decoders" by (simp add: sample_runtime_def)
  ultimately show ?thesis
    using l by (simp add: invoke_envelope_def sample_referenced_resolution bind_request_context_def exhaustion_evidence_def)
qed

theorem references_resolved_first_witness:
  "\<exists>e. invoke_envelope sample_runtime (Some sample_rule_resolver) sample_referenced = Inr e \<and> re_terminal_state e = Translated \<and>
     rs_proven_pattern_id (res_subject (re_structured e)) = ''proven-pattern:candidate:1'' \<and>
     re_provenance e = [''mitigation-check-result:m'', ''bypass-validation-result:b'']"
proof -
  obtain e where e: "invoke_envelope sample_runtime (Some sample_rule_resolver) sample_referenced = Inr e" "re_terminal_state e = Translated"
    using sample_referenced_translates by blast
  have d: "rt_decoders sample_runtime = sample_decoders" by (simp add: sample_runtime_def)
  from references_resolved_first [OF e(1) sample_referenced_resolution(3)] e(2)
  obtain l where "resolve_proof_loop sample_decoders sample_rule_resolver sample_references sample_resolution = Inr l"
    "rs_proven_pattern_id (res_subject (re_structured e)) = proven_pattern_id (loop_pattern l)"
    "re_provenance e = proof_record_ids (loop_pattern l)"
    by (auto simp: sample_referenced_resolution d)
  moreover from this(1) have "loop_pattern l = sample_loop_pattern" using sample_rule_resolves by auto
  ultimately show ?thesis using e by (simp add: sample_loop_pattern_def)
qed

section \<open>Bypass results\<close>

text \<open>
  C37. A bypass result submitted directly is never translated: whatever the settings and the request,
  an answer is a decline that asks for regeneration, without candidate. No model is called: the same
  answer is given with any other doer in place of the configured one, and its inference record says that
  no model was invoked and nothing proposed. Its evidence lists the sample and every reference of the
  counterexample and the feedback, once each.
\<close>

theorem direct_bypass_is_declined:
  assumes "decline_direct_bypass rt request b = Inr e"
  shows "re_terminal_state e = ScopeDeclined \<and> re_status e = Declined \<and> res_candidate (re_structured e) = None \<and>
    reason_code (res_outcome_reason (re_structured e)) = BypassFoundRequiresRegeneration \<and>
    res_counterexample (re_structured e) = Some (db_counterexample b) \<and>
    (\<forall>doer. decline_direct_bypass (rt\<lparr>rt_doer := doer\<rparr>) request b = Inr e) \<and>
    re_inference e = inference_json (rt_settings rt) False ''none'' \<and>
    (\<exists>refs. res_evidence_bindings (re_structured e) = [\<lparr>binding_claim = ''limitation'', binding_evidence_refs = refs\<rparr>] \<and> distinct refs \<and>
       set refs = insert (counterexample_sample_ref (db_counterexample b))
         (set (counterexample_evidence_refs (db_counterexample b)) \<union> set (db_feedback_refs b)))"
proof -
  let ?refs = "sorted_texts (remdups (counterexample_sample_ref (db_counterexample b) # counterexample_evidence_refs (db_counterexample b)
    @ db_feedback_refs b))"
  obtain effective defaults where w: "with_effective_target_context (rt_settings rt) (env_input request) = (effective, defaults)"
    by fastforce
  let ?out = "(plain_outcome ScopeDeclined BypassFoundRequiresRegeneration bypass_detail)
    \<lparr>out_counterexample := Some (db_counterexample b), out_bypass_refs := ?refs\<rparr>"
  from assms obtain result mitigation where b: "build_result (rt_ids rt) effective defaults None ?out = Inr result"
    and e: "e = (bind_request_context request
        (make_envelope (rt_settings rt) (rt_ids rt) (env_correlation_id request) False ''none'' result))
      \<lparr>re_reference_bundle := JObj [(''mitigation_check'', serialize_reference mitigation),
         (''bypass_validation'', serialize_reference (db_result_ref b))]\<rparr>"
    unfolding decline_direct_bypass_def w by (auto simp: Let_def bindR_eq_Inr simp del: remdups.simps)
  have "mset ?refs = mset (remdups (counterexample_sample_ref (db_counterexample b) # counterexample_evidence_refs (db_counterexample b)
      @ db_feedback_refs b))" by (rule mset_sorted_by)
  then have d: "distinct ?refs" by (metis distinct_remdups mset_eq_imp_distinct_iff)
  have s: "set ?refs = insert (counterexample_sample_ref (db_counterexample b))
      (set (counterexample_evidence_refs (db_counterexample b)) \<union> set (db_feedback_refs b))" by auto
  then have "?refs \<noteq> []" by (metis empty_not_insert list.set(1))
  then have "res_evidence_bindings result = [\<lparr>binding_claim = ''limitation'', binding_evidence_refs = ?refs\<rparr>]"
    using b by (auto simp: build_result_def make_result_def evidence_of_def simp del: remdups.simps split: option.splits)
  moreover have "decline_direct_bypass (rt\<lparr>rt_doer := doer\<rparr>) request b = Inr e" for doer
    using assms by (simp add: decline_direct_bypass_def del: remdups.simps)
  ultimately show ?thesis
    using build_result_Inr [OF b] d s
    by (simp add: e bind_request_context_def make_envelope_def del: remdups.simps)
qed

definition sample_bypass :: direct_bypass_submission where
  "sample_bypass =
     \<lparr>db_result_id = ''bypass-validation-result:r'', db_run_id = ''r'', db_result_ref = sample_reference ''bypass-validation-result:r'',
      db_fingerprint_id = ''f'', db_candidate_id = ''c'', db_vulnerability_id = ''CVE-2024-1'',
      db_input_bindings = [(''prior_mitigation_check'', JObj
        [(''contract_id'', JStr ''mitigation-check@1.0''), (''terminal_state'', JStr ''blocked''), (''match'', JBool True),
         (''result_id'', JStr ''mitigation-check-result:m''), (''result_ref'', JObj [(''key'', JStr ''mitigation-check-result:m'')]),
         (''correlation_id'', JStr ''run'')])],
      db_rejected_candidate_id = ''c'', db_counterexample =
        \<lparr>counterexample_id = ''x'', counterexample_sample_ref = ''s'', counterexample_variant_family = ''v'',
         counterexample_observed_behavior = ''b'', counterexample_evidence_refs = [''s'']\<rparr>,
      db_feedback_refs = [''t''], db_observed_failure = ''o'', db_do_not_repeat = ''n'', db_dump = ''d''\<rparr>"

definition sample_complete_bypass :: direct_bypass_submission where
  "sample_complete_bypass = sample_bypass\<lparr>db_input_bindings := [(''prior_mitigation_check'', JObj
     [(''result_ref'', JObj [(''system'', JStr ''databricks''), (''catalog'', JStr ''c''), (''schema'', JStr ''s''), (''table'', JStr ''t''),
        (''key'', JStr ''mitigation-check-result:m'')])])]\<rparr>"

lemma sample_declines:
  assumes "parse_reference (dict_or_empty (get_or_null (prior_check b) ''result_ref'')) = parsed"
  shows "case parsed of Inl m \<Rightarrow> decline_direct_bypass sample_runtime sample_envelope b = Inl m
    | Inr r \<Rightarrow> \<exists>e. decline_direct_bypass sample_runtime sample_envelope b = Inr e"
proof -
  obtain effective defaults where w: "with_effective_target_context (rt_settings sample_runtime) sample_input = (effective, defaults)"
    by fastforce
  then have "effective = with_target sample_runtime sample_input" by (simp add: with_target_def)
  moreover have "input_pattern sample_input \<noteq> None" by (simp add: sample_input_def)
  ultimately have r: "\<exists>result. build_result ids effective d q out = Inr result" for ids d q out
    by (auto simp: build_result_def target_context.make_def)
  have input: "env_input sample_envelope = sample_input" by (simp add: sample_envelope_def)
  let ?out = "(plain_outcome ScopeDeclined BypassFoundRequiresRegeneration bypass_detail)\<lparr>out_counterexample := Some (db_counterexample b),
    out_bypass_refs := sorted_texts (remdups (counterexample_sample_ref (db_counterexample b) # counterexample_evidence_refs (db_counterexample b)
      @ db_feedback_refs b))\<rparr>"
  obtain result where result: "build_result (rt_ids sample_runtime) effective defaults None ?out = Inr result" using r by blast
  show ?thesis
    unfolding decline_direct_bypass_def input w prod.case Let_def result bindR_Inr assms by (cases parsed) simp_all
qed

theorem direct_bypass_is_declined_witness:
  "\<exists>e. decline_direct_bypass sample_runtime sample_envelope sample_complete_bypass = Inr e \<and> re_status e = Declined"
proof -
  have "case parse_reference (dict_or_empty (get_or_null (prior_check sample_complete_bypass) ''result_ref'')) of Inr r \<Rightarrow> True | _ \<Rightarrow> False"
    by code_simp
  with sample_declines [OF refl, of sample_complete_bypass]
  obtain e where e: "decline_direct_bypass sample_runtime sample_envelope sample_complete_bypass = Inr e"
    by (auto split: sum.splits)
  from direct_bypass_is_declined [OF e] e show ?thesis by blast
qed

section \<open>Departures\<close>

text \<open>
  C40. No envelope with neither a pattern nor references is declined for insufficient context, as the code
  means it to be. Whatever the runtime, the resolver and the rest of the envelope, its invocation raises,
  because the call that should build the decline passes a keyword that is not a parameter of the function.
  The contract does not keep such envelopes out: without locators and routing it accepts every one of them.
\<close>

theorem missing_pattern_raises:
  assumes "input_pattern (env_input request) = None" "env_upstream_refs request = None"
  shows "invoke_envelope rt fetch request = Inl ''TypeError'' \<and>
    (env_upstream_inputs request = None \<and> env_routing_context request = None \<and> env_routing_metadata request = None \<longrightarrow>
       validate_envelope request = Inr request)"
  using assms
  by (simp add: invoke_envelope_def invoke_def with_effective_target_context_def Let_def validate_envelope_def check_opt_def
      validate_reference_routing_def locator_mode_def check_reference_routing_def)

theorem missing_pattern_raises_witness:
  "\<exists>request. env_request_id request = Some ''r'' \<and> validate_envelope request = Inr request \<and>
     invoke_envelope sample_runtime None request = Inl ''TypeError''"
proof -
  let ?request = "sample_envelope\<lparr>env_input := sample_input\<lparr>input_pattern := None\<rparr>, env_upstream_refs := None, env_routing_metadata := None\<rparr>"
  show ?thesis
    using missing_pattern_raises [of ?request sample_runtime None] by (intro exI [of _ ?request]) (simp add: sample_envelope_def)
qed

text \<open>
  A bypass result whose prior result reference has only its key is accepted by the contract; the decline
  parses the whole reference and raises.
\<close>

theorem partial_prior_reference_raises:
  "validate_direct_result (direct_bypass_result.truncate sample_bypass) = Inr (direct_bypass_result.truncate sample_bypass) \<and>
   decline_direct_bypass sample_runtime sample_envelope sample_bypass = Inl ''ValidationError''"
proof -
  have "parse_reference (dict_or_empty (get_or_null (prior_check sample_bypass) ''result_ref'')) = Inl ''ValidationError''" by code_simp
  from sample_declines [OF this] have "decline_direct_bypass sample_runtime sample_envelope sample_bypass = Inl ''ValidationError''" by simp
  moreover have "removeprefix ''bypass-validation-result:r'' ''bypass-validation-result:'' = ''r''" by code_simp
  ultimately show ?thesis
    by (simp add: validate_direct_result_def direct_bypass_result.truncate_def sample_bypass_def sample_reference_def get_or_null_def get_def)
qed

end
