(* ===== verification/SharedDocs.thy ===== *)
theory SharedDocs
  imports Upstream
begin

text \<open>
  The documents of the shared-contract profile, the first part of
  \<^verbatim>\<open>shared_contracts_v2.py\<close>: strict reading of authenticated bytes, canonical digests,
  indexed collections, typed references and the coverage of an obligation. Documents are JSON values
  that the code reads key by key; reading a value of the wrong kind raises Python's own exception,
  which is kept by the name of its type.

  The RFC 8785 serialiser (the text whose UTF-8 bytes it returns), the schema validator and the embedded files are parameters, as are the
  standard library's decoding of bytes, reading of an ISO date and comparison of an integer with a
  float: the record \<open>shared_library\<close>.
\<close>

datatype shared_error =
    SharedError (shared_code: string) (shared_detail: string)
  | PythonError string
  | TransportError string

type_synonym 'a shared = "shared_error + 'a"

type_synonym dict = "(string \<times> json) list"

definition refuse :: "string \<Rightarrow> string \<Rightarrow> 'a shared" where
  "refuse code detail = Inl (SharedError code detail)"

definition require :: "bool \<Rightarrow> string \<Rightarrow> string \<Rightarrow> unit shared" where
  "require ok code detail = (if ok then Inr () else refuse code detail)"

record shared_library =
  lib_decoders :: decoders
  bytes_text :: "nat list \<Rightarrow> string option"
  canonical_text :: "json \<Rightarrow> string option"
  schema_error :: "string \<Rightarrow> json \<Rightarrow> string option"
  embedded_file :: "string \<Rightarrow> nat list"
  read_instant :: "string \<Rightarrow> int option"
  write_instant :: "nat \<Rightarrow> string"
  int_equals_float :: "int \<Rightarrow> string \<Rightarrow> bool"

section \<open>Python values\<close>

text \<open>\<^verbatim>\<open>v[k]\<close>, \<^verbatim>\<open>v.get(k)\<close> and the iteration over \<^verbatim>\<open>v\<close>.\<close>

definition at_key :: "json \<Rightarrow> string \<Rightarrow> json shared" where
  "at_key j k =
     (case j of
        JObj kvs \<Rightarrow> (case get kvs k of Some v \<Rightarrow> Inr v | None \<Rightarrow> Inl (PythonError ''KeyError''))
      | _ \<Rightarrow> Inl (PythonError ''TypeError''))"

definition dot_get :: "json \<Rightarrow> string \<Rightarrow> json shared" where
  "dot_get j k = (case j of JObj kvs \<Rightarrow> Inr (get_or_null kvs k) | _ \<Rightarrow> Inl (PythonError ''AttributeError''))"

definition elements :: "json \<Rightarrow> json list shared" where
  "elements j =
     (case j of
        JArr xs \<Rightarrow> Inr xs
      | JObj kvs \<Rightarrow> Inr (map (\<lambda>(k, v). JStr k) kvs)
      | JStr s \<Rightarrow> Inr (map (\<lambda>c. JStr [c]) s)
      | _ \<Rightarrow> Inl (PythonError ''TypeError''))"

definition hashable :: "json \<Rightarrow> bool" where
  "hashable j = (case j of JArr _ \<Rightarrow> False | JObj _ \<Rightarrow> False | _ \<Rightarrow> True)"

definition need_hashable :: "json \<Rightarrow> json shared" where
  "need_hashable j = (if hashable j then Inr j else Inl (PythonError ''TypeError''))"

text \<open>The items at a key of a value, and the values of one key over a list of items.\<close>

definition items_at :: "json \<Rightarrow> string \<Rightarrow> json list shared" where
  "items_at j k = bindR (at_key j k) elements"

definition column :: "string \<Rightarrow> json list \<Rightarrow> json list shared" where
  "column k js = mapR (\<lambda>j. bindR (at_key j k) need_hashable) js"

text \<open>
  Equality of Python: numbers compare by value across their types, a dict does not depend on the
  order of its keys. A not-a-number differs from itself.
\<close>

definition as_int :: "json \<Rightarrow> int option" where
  "as_int j = (case j of JBool b \<Rightarrow> Some (if b then 1 else 0) | JInt i \<Rightarrow> Some i | _ \<Rightarrow> None)"

definition same_float :: "string \<Rightarrow> string \<Rightarrow> bool" where
  "same_float s t = (s \<noteq> ''nan'' \<and> (s = t \<or> {s, t} = {''0.0'', ''-0.0''}))"

definition same_scalar :: "shared_library \<Rightarrow> json \<Rightarrow> json \<Rightarrow> bool" where
  "same_scalar lib x y =
     (case (x, y) of
        (JNull, JNull) \<Rightarrow> True
      | (JStr s, JStr t) \<Rightarrow> s = t
      | (JFloat s, JFloat t) \<Rightarrow> same_float s t
      | (JFloat s, _) \<Rightarrow> (case as_int y of Some i \<Rightarrow> int_equals_float lib i s | None \<Rightarrow> False)
      | (_, JFloat t) \<Rightarrow> (case as_int x of Some i \<Rightarrow> int_equals_float lib i t | None \<Rightarrow> False)
      | _ \<Rightarrow> as_int x \<noteq> None \<and> as_int x = as_int y)"

fun py_equal :: "shared_library \<Rightarrow> json \<Rightarrow> json \<Rightarrow> bool" where
  "py_equal lib (JArr xs) y =
     (case y of JArr ys \<Rightarrow> length xs = length ys \<and> list_all (\<lambda>(f, y). f y) (zip (map (py_equal lib) xs) ys) | _ \<Rightarrow> False)"
| "py_equal lib (JObj kvs) y =
     (case y of
        JObj kvs' \<Rightarrow> length kvs = length kvs' \<and>
          list_all (\<lambda>(k, v). case get kvs' k of Some w \<Rightarrow> py_equal lib v w | None \<Rightarrow> False) kvs
      | _ \<Rightarrow> False)"
| "py_equal lib x y = same_scalar lib x y"

definition same_set :: "shared_library \<Rightarrow> json list \<Rightarrow> json list \<Rightarrow> bool" where
  "same_set lib xs ys =
     (list_all (\<lambda>x. list_ex (py_equal lib x) ys) xs \<and> list_all (\<lambda>y. list_ex (\<lambda>x. py_equal lib x y) xs) ys)"

definition strings :: "string list \<Rightarrow> json list" where
  "strings ss = map JStr ss"

section \<open>Bytes\<close>

text \<open>
  The first fault that strict reading meets: hooks run as values are completed, so nested values come
  before the keys of the object that holds them. A text that also has a later error of syntax reports
  that error here.
\<close>

datatype fault = ConstantFault | RepeatedKey string

fun repeated_key :: "string list \<Rightarrow> string list \<Rightarrow> string option" where
  "repeated_key seen [] = None"
| "repeated_key seen (k # ks) = (if k \<in> set seen then Some k else repeated_key (k # seen) ks)"

fun first_fault :: "json \<Rightarrow> fault option" where
  "first_fault (JFloat t) = (if t \<in> {''NaN'', ''Infinity'', ''-Infinity''} then Some ConstantFault else None)"
| "first_fault (JArr xs) = List.find (\<lambda>f. True) (List.map_filter (\<lambda>f. f) (map first_fault xs))"
| "first_fault (JObj kvs) =
     (case List.map_filter (\<lambda>f. f) (map (\<lambda>(k, v). first_fault v) kvs) of
        f # fs \<Rightarrow> Some f
      | [] \<Rightarrow> map_option RepeatedKey (repeated_key [] (map fst kvs)))"
| "first_fault j = None"

definition strict_json_bytes :: "shared_library \<Rightarrow> nat list \<Rightarrow> string \<Rightarrow> dict shared" where
  "strict_json_bytes lib raw context_name =
     (if raw = [] \<or> max_result_bytes < length raw
      then refuse ''invalid-result-size'' (context_name @ '' bytes are empty or exceed the bound'')
      else (case Option.bind (bytes_text lib raw) raw_loads of
          None \<Rightarrow> refuse ''invalid-json'' (context_name @ '' is not strict JSON'')
        | Some j \<Rightarrow>
            (case first_fault j of
               Some ConstantFault \<Rightarrow> refuse ''invalid-json'' (context_name @ '' is not strict JSON'')
             | Some (RepeatedKey k) \<Rightarrow> refuse ''duplicate-json-key'' (''duplicate JSON key: '' @ k)
             | None \<Rightarrow>
                 (case interpret_raw (float_text (lib_decoders lib)) j of
                    JObj kvs \<Rightarrow> Inr kvs
                  | _ \<Rightarrow> refuse ''invalid-json'' (context_name @ '' must be one JSON object'')))))"

definition canonical :: "shared_library \<Rightarrow> json \<Rightarrow> string shared" where
  "canonical lib j =
     (case canonical_text lib j of
        Some t \<Rightarrow> Inr t
      | None \<Rightarrow> refuse ''canonical-json-invalid'' ''value cannot be serialized under RFC 8785'')"

definition canonical_bytes :: "shared_library \<Rightarrow> json \<Rightarrow> nat list shared" where
  "canonical_bytes lib j = bindR (canonical lib j) (\<lambda>t. Inr (utf8 t))"

definition sha256_digest :: "shared_library \<Rightarrow> nat list \<Rightarrow> string" where
  "sha256_digest lib bs = ''sha256:'' @ hex_sha256 (lib_decoders lib) bs"

definition digest :: "shared_library \<Rightarrow> json \<Rightarrow> string shared" where
  "digest lib j = bindR (canonical_bytes lib j) (\<lambda>bs. Inr (sha256_digest lib bs))"

definition digest_without :: "shared_library \<Rightarrow> dict \<Rightarrow> string list \<Rightarrow> string shared" where
  "digest_without lib kvs names = digest lib (JObj (dict_without names kvs))"

section \<open>Locators\<close>

definition shared_terminal_state_from_cg :: "json \<Rightarrow> json" where
  "shared_terminal_state_from_cg j = (if j = JStr ''no-checkable-artifact'' then JStr ''no-checkable-signal'' else j)"

definition same_timestamp :: "shared_library \<Rightarrow> json \<Rightarrow> json \<Rightarrow> bool" where
  "same_timestamp lib x y =
     (case (x, y) of
        (JStr s, JStr t) \<Rightarrow> (case (read_instant lib s, read_instant lib t) of (Some a, Some b) \<Rightarrow> a = b | _ \<Rightarrow> False)
      | _ \<Rightarrow> False)"

text \<open>\<^verbatim>\<open>model_dump(mode="json", by_alias=True)\<close> of a locator, whose status is the literal completed.\<close>

definition locator_json :: "shared_library \<Rightarrow> upstream_input \<Rightarrow> dict" where
  "locator_json lib i =
     [(''capability'', JStr (capability_name (up_capability i))), (''contract_id'', JStr (up_contract_id i)),
      (''run_id'', JStr (up_run_id i)), (''result_id'', JStr (up_result_id i)), (''terminal_state'', JStr (up_terminal_state i)),
      (''status'', JStr ''completed''), (''request_id'', opt_json (up_request_id i)), (''correlation_id'', JStr (up_correlation_id i)),
      (''result_ref'', serialize_reference (up_result_ref i)), (''evidence_refs'', JArr (strings (up_evidence_refs i))),
      (''content_sha256'', opt_json (up_content_sha256 i)),
      (''size_bytes'', (case up_size_bytes i of Some n \<Rightarrow> JInt (int n) | None \<Rightarrow> JNull)),
      (''created_at'', (case up_created_at i of Some t \<Rightarrow> JStr (write_instant lib t) | None \<Rightarrow> JNull))]"

definition exact_fields :: "string list" where
  "exact_fields =
     [''capability'', ''contract_id'', ''request_id'', ''correlation_id'', ''run_id'', ''result_id'', ''terminal_state'', ''status'',
      ''result_ref'', ''content_sha256'', ''size_bytes'']"

definition same_locator_document :: "shared_library \<Rightarrow> json \<Rightarrow> upstream_input \<Rightarrow> bool" where
  "same_locator_document lib actual i =
     (case actual of
        JObj kvs \<Rightarrow>
          (let expected = locator_json lib i in
           list_all (\<lambda>f. py_equal lib (get_or_null kvs f) (get_or_null expected f)) exact_fields
           \<and> py_equal lib (case get kvs ''evidence_refs'' of Some v \<Rightarrow> v | None \<Rightarrow> JArr []) (get_or_null expected ''evidence_refs'')
           \<and> same_timestamp lib (get_or_null kvs ''created_at'') (get_or_null expected ''created_at''))
      | _ \<Rightarrow> False)"

section \<open>Collections\<close>

fun index_from :: "string \<Rightarrow> string \<Rightarrow> json list \<Rightarrow> (string \<times> dict) list \<Rightarrow> (string \<times> dict) list shared" where
  "index_from key code [] found = Inr (rev found)"
| "index_from key code (j # js) found =
     (case j of
        JObj kvs \<Rightarrow>
          (case get_or_null kvs key of
             JStr identity \<Rightarrow>
               if identity = [] \<or> identity \<in> set (map fst found) then refuse code (''duplicate or invalid '' @ key)
               else index_from key code js ((identity, kvs) # found)
           | _ \<Rightarrow> refuse code (''duplicate or invalid '' @ key))
      | _ \<Rightarrow> refuse code (''duplicate or invalid '' @ key))"

definition index_items :: "json \<Rightarrow> string \<Rightarrow> string \<Rightarrow> (string \<times> dict) list shared" where
  "index_items j key code =
     (case j of JArr xs \<Rightarrow> index_from key code xs [] | _ \<Rightarrow> refuse code (key @ '' collection is absent''))"

definition index_at :: "json \<Rightarrow> string \<Rightarrow> string \<Rightarrow> string \<Rightarrow> (string \<times> dict) list shared" where
  "index_at j k key code = bindR (at_key j k) (\<lambda>v. index_items v key code)"

definition ref_invalid :: string where
  "ref_invalid = ''typed reference is invented, duplicated, or has the wrong scope''"

definition ref_target :: "string \<Rightarrow> json \<Rightarrow> json \<Rightarrow> string option" where
  "ref_target kind scope j =
     (case j of
        JObj kvs \<Rightarrow>
          if set (keys kvs) = {''kind'', ''scope'', ''id''} \<and> get_or_null kvs ''kind'' = JStr kind \<and> get_or_null kvs ''scope'' = scope
          then (case get_or_null kvs ''id'' of JStr identity \<Rightarrow> Some identity | _ \<Rightarrow> None) else None
      | _ \<Rightarrow> None)"

fun ref_ids_from :: "string \<Rightarrow> json \<Rightarrow> string list \<Rightarrow> string \<Rightarrow> json list \<Rightarrow> string list \<Rightarrow> string list shared" where
  "ref_ids_from kind scope known code [] found = Inr (rev found)"
| "ref_ids_from kind scope known code (j # js) found =
     (case ref_target kind scope j of
        Some identity \<Rightarrow>
          if identity \<notin> set known \<or> identity \<in> set found then refuse code ref_invalid
          else ref_ids_from kind scope known code js (identity # found)
      | None \<Rightarrow> refuse code ref_invalid)"

definition ref_ids :: "string \<Rightarrow> json \<Rightarrow> string list \<Rightarrow> string \<Rightarrow> bool \<Rightarrow> json \<Rightarrow> string list shared" where
  "ref_ids kind scope known code allow_empty refs =
     (case refs of
        JArr xs \<Rightarrow> if xs = [] \<and> \<not> allow_empty then refuse code ''typed references must be a nonempty array''
                   else ref_ids_from kind scope known code xs []
      | _ \<Rightarrow> refuse code ''typed references must be a nonempty array'')"

end
