(* ===== verification/SharedPlan.thy ===== *)
theory SharedPlan
  imports SharedDocs Results
begin

text \<open>
  The translation half of \<^verbatim>\<open>shared_contracts_v2.py\<close>: every rule document of a verified
  candidate becomes Akamai rules, one for each Boolean alternative, bound to a route where the
  candidate is; the carrier bindings must account for the carriers of the rules exactly. The plan is
  built as a whole or refused.
\<close>

definition LEGACY_CT_PROFILE_ID :: string where "LEGACY_CT_PROFILE_ID = ''waf-standard@1''"
definition CT_PROFILE_ID :: string where "CT_PROFILE_ID = ''waf-standard@2''"
definition MC_RESOLVER_ID :: string where "MC_RESOLVER_ID = ''mc-approved-route-adapter''"
definition MC_PROFILE_BYTE_LENGTH :: nat where "MC_PROFILE_BYTE_LENGTH = 441"

definition MC_PROFILE_FILE_DIGEST :: string where
  "MC_PROFILE_FILE_DIGEST = ''sha256:a49bc4e962985f5bd6aa117228e44002a1a617e62544fb87757aa261d4a6f404''"

definition MC_RESOLVER_PROFILE_DIGEST :: string where
  "MC_RESOLVER_PROFILE_DIGEST = ''sha256:01f6033b5b09db48056adc8a0d47083f4020cf18d71913c69e283f644ec41a94''"

definition mc_profile_file :: string where "mc_profile_file = ''mc-http-route-profile-v2.json''"

record verified_join =
  vj_semantics :: dict
  vj_bundle :: dict
  vj_contents :: "(string \<times> nat list) list"
  vj_verification :: pre_translation_verification
  vj_accounting :: coverage_accounting
  vj_vulnerability_id :: string
  vj_profile_id :: string

record translation_plan =
  plan_proposal :: proposal
  plan_directives :: "target_directive list"
  plan_mappings :: "translation_mapping list"
  plan_description :: string
  plan_summary :: string
  plan_content :: string

definition cannot_express :: "string \<Rightarrow> 'a shared" where
  "cannot_express detail = refuse ''cannot-express'' detail"

section \<open>Carriers\<close>

definition CARRIER_CONDITION_TYPES :: "(string \<times> string) list" where
  "CARRIER_CONDITION_TYPES =
     [(''query'', ''uriQueryMatch''), (''header'', ''requestHeaderValueMatch''), (''cookie'', ''cookieMatch''),
      (''path'', ''pathMatch''), (''body'', ''argsPostMatch''), (''method'', ''requestMethodMatch'')]"

definition escape_path_payload :: "string \<Rightarrow> string" where
  "escape_path_payload s =
     concat (map (\<lambda>c. if quote_safe c \<or> c \<in> set ''$&+:-=@'' then [c] else concat (map pct_byte (utf8_bytes c))) s)"

definition named_carriers :: "(string \<times> string) list" where
  "named_carriers = [(''http-query'', ''query''), (''http-header'', ''header''), (''http-cookie'', ''cookie'')]"

definition semantic_carrier :: "dict \<Rightarrow> (string \<times> string) shared" where
  "semantic_carrier component =
     (case get_or_null component ''location'' of
        JObj location \<Rightarrow>
          bindR (need_hashable (get_or_null location ''kind'')) (\<lambda>kind.
            let named = (case kind of JStr k \<Rightarrow> map_of named_carriers k | _ \<Rightarrow> None) in
            case named of
              Some carrier \<Rightarrow>
                (case nonempty_str (get_or_null location ''name'') of
                   Some name \<Rightarrow> Inr (carrier, name)
                 | None \<Rightarrow> cannot_express ''named component selector is absent'')
            | None \<Rightarrow>
                if kind = JStr ''http-body-structured'' then
                  (if get_or_null location ''selector_type'' = JStr ''any-field'' then Inr (''body'', [star_c])
                   else (case nonempty_str (get_or_null location ''selector'') of
                       Some sel \<Rightarrow> Inr (''body'', sel)
                     | None \<Rightarrow> cannot_express ''structured body selector is absent''))
                else if kind = JStr ''http-body-raw'' then Inr (''body'', [])
                else if kind = JStr ''http-path'' then Inr (''path'', [])
                else if kind = JStr ''http-method'' then Inr (''method'', [])
                else cannot_express (''component location '' @ py_repr kind @ '' has no Akamai mapping''))
      | _ \<Rightarrow> cannot_express ''component location is absent'')"

definition same_carrier_binding :: "json \<times> json \<Rightarrow> string \<times> string \<Rightarrow> bool" where
  "same_carrier_binding actual expected =
     (fst actual = JStr (fst expected) \<and>
      (case snd actual of
         JStr name \<Rightarrow> if fst expected = ''header'' then casefold name = casefold (snd expected) else name = snd expected
       | _ \<Rightarrow> False))"

text \<open>A structured body component whose selector is any field: it binds to the wildcard of the body.\<close>

definition any_field :: "dict \<Rightarrow> bool" where
  "any_field location =
     (get_or_null location ''kind'' = JStr ''http-body-structured'' \<and> get_or_null location ''selector_type'' = JStr ''any-field'')"

section \<open>Rules\<close>

type_synonym carrier_key = "string \<times> string \<times> string"

definition condition_type :: "string \<Rightarrow> string \<Rightarrow> json \<Rightarrow> string" where
  "condition_type carrier name kind =
     (if kind = JStr ''http-body-structured'' then ''argsPostJSONMatch''
      else if carrier = ''header'' \<and> name = [star_c] then ''requestHeaderMatch''
      else the (map_of CARRIER_CONDITION_TYPES carrier))"

definition selector_field :: "string \<Rightarrow> string \<Rightarrow> dict" where
  "selector_field carrier name =
     (if carrier = ''header'' \<and> name \<noteq> [star_c] then [(''header'', JStr name)]
      else if carrier \<in> {''query'', ''body''} \<and> name \<noteq> [] \<and> name \<noteq> [star_c] then [(''parameter'', JStr name)]
      else if carrier = ''cookie'' \<and> name \<noteq> [star_c] then [(''cookieName'', JStr name)] else [])"

definition rule_condition :: "dict \<Rightarrow> string \<Rightarrow> carrier_key \<Rightarrow> string \<Rightarrow> json list \<Rightarrow> json list \<Rightarrow> json" where
  "rule_condition location rule_id key pat flags steps =
     (let (carrier, name, component_id) = key; kind = get_or_null location ''kind'' in
      JObj ([(''type'', JStr (condition_type carrier name kind)), (''positiveMatch'', JBool True),
             (''valueCase'', JBool (JStr ''i'' \<notin> set flags)), (''valueWildcard'', JBool False), (''value'', JArr [JStr pat]),
             (''matchOperator'', JStr ''regex''), (''sourceRuleId'', JStr rule_id), (''sourceComponentId'', JStr component_id),
             (''sourceCarrier'', JStr carrier), (''sourceSelector'', JStr name), (''sourceLocationKind'', kind),
             (''transformations'', JArr steps)]
        @ (if get_or_null location ''selector_type'' = JNull then [] else [(''sourceSelectorType'', get_or_null location ''selector_type'')])
        @ selector_field carrier name))"

definition bad_rule :: "dict \<Rightarrow> string \<times> string \<Rightarrow> string \<Rightarrow> string" where
  "bad_rule rule expected artifact =
     ''DG rule '' @ py_repr (get_or_null rule ''rule_id'') @ '' in '' @ artifact @ '' cannot map without semantic loss '' @
     ''(carrier='' @ py_repr (get_or_null rule ''carrier'') @ '', name='' @ py_repr (get_or_null rule ''name'') @
     '', component='' @ py_repr (get_or_null rule ''component_id'') @ '', '' @
     ''expected_carrier='' @ repr_str (fst expected) @ '', expected_name='' @ repr_str (snd expected) @ '')''"

text \<open>Only the flag of a case-insensitive match is known; looking up an unhashable flag raises.\<close>

definition check_flags :: "string \<Rightarrow> json list \<Rightarrow> unit shared" where
  "check_flags msg flags =
     (case find (\<lambda>f. f \<noteq> JStr ''i'') flags of
        None \<Rightarrow> Inr ()
      | Some f \<Rightarrow> if hashable f then cannot_express msg else Inl (PythonError ''TypeError''))"

definition component_condition :: "dict \<Rightarrow> dict \<Rightarrow> string \<Rightarrow> string list \<Rightarrow> (json \<times> carrier_key \<times> string) shared" where
  "component_condition rule component artifact seen =
     bindR (semantic_carrier component) (\<lambda>expected.
     bindR (at_key (JObj component) ''location'') (\<lambda>loc.
       let location = (case loc of JObj kvs \<Rightarrow> kvs | _ \<Rightarrow> []);
           carrier = get_or_null rule ''carrier''; name = get_or_null rule ''name'';
           msg = bad_rule rule expected artifact;
           bound = same_carrier_binding (carrier, name) expected
             \<or> (any_field location \<and> carrier = JStr ''body'' \<and> name = JStr [star_c])
       in case nonempty_str (get_or_null rule ''rule_id'') of
         None \<Rightarrow> cannot_express msg
       | Some rule_id \<Rightarrow>
           if rule_id \<in> set seen then cannot_express msg
           else if \<not> hashable carrier then Inl (PythonError ''TypeError'')
           else (case (carrier, name, nonempty_str (get_or_null rule ''component_id''), nonempty_str (get_or_null rule ''pattern''),
                       get_or_null rule ''flags'') of
               (JStr c, JStr n, Some component_id, Some pat, JArr flags) \<Rightarrow>
                 if map_of CARRIER_CONDITION_TYPES c = None \<or> \<not> bound then cannot_express msg
                 else bindR (check_flags msg flags) (\<lambda>_.
                   case get_or_null rule ''transformations'' of
                     JArr steps \<Rightarrow>
                       if list_ex (\<lambda>s. nonempty_str s = None) steps then cannot_express msg
                       else Inr (rule_condition location rule_id (c, n, component_id) pat flags steps, (c, n, component_id), rule_id)
                   | _ \<Rightarrow> cannot_express msg)
             | _ \<Rightarrow> cannot_express msg)))"

section \<open>Routes\<close>

definition source_input_route :: "dict \<Rightarrow> dict option" where
  "source_input_route item =
     (case get_or_null item ''input'' of
        JObj v \<Rightarrow>
          (let method = nonempty_str (get_or_null v ''method'') in
           if get_or_null v ''modality'' = JStr ''http-request-template'' then
             (case (method, nonempty_str (get_or_null v ''path_key'')) of
                (Some m, Some k) \<Rightarrow> Some [(''kind'', JStr ''opaque-path-key''), (''method'', JStr m), (''path_key'', JStr k)]
              | _ \<Rightarrow> None)
           else if get_or_null v ''modality'' = JStr ''http-request'' then
             (case (method, nonempty_str (get_or_null v ''path'')) of
                (Some m, Some p) \<Rightarrow> Some ([(''kind'', JStr ''rendered-http-route''), (''method'', JStr m), (''path'', JStr p)]
                  @ json_of_opt ''scheme'' (nonempty_str (get_or_null v ''scheme''))
                  @ json_of_opt ''authority'' (nonempty_str (get_or_null v ''authority'')))
              | _ \<Rightarrow> None)
           else None)
      | _ \<Rightarrow> None)"

definition legacy_routes :: dict where
  "legacy_routes =
     [(''inventory-item-detail'',
       JObj [(''scheme'', JStr ''https''), (''authority'', JStr ''approved-mc-target.internal''), (''path'', JStr ''/inventory/items/42'')])]"

definition profile_routes :: "shared_library \<Rightarrow> string \<Rightarrow> dict shared" where
  "profile_routes lib profile_id =
     (if profile_id = LEGACY_CT_PROFILE_ID then Inr legacy_routes
      else if profile_id \<noteq> CT_PROFILE_ID then cannot_express ''unapproved route profile''
      else let raw = embedded_file lib mc_profile_file in
        if length raw \<noteq> MC_PROFILE_BYTE_LENGTH \<or> sha256_digest lib raw \<noteq> MC_PROFILE_FILE_DIGEST
        then refuse ''mc-profile-integrity-failed'' ''embedded route profile bytes differ''
        else bindR (strict_json_bytes lib raw ''waf-standard@2 profile'') (\<lambda>profile.
             if get_or_null profile ''profile_id'' \<noteq> JStr CT_PROFILE_ID \<or> get_or_null profile ''resolver_id'' \<noteq> JStr MC_RESOLVER_ID
             then refuse ''mc-profile-integrity-failed'' ''embedded route profile identity differs''
             else bindR (digest lib (JObj profile)) (\<lambda>profile_digest.
               case get_or_null profile ''routes'' of
                 JObj routes \<Rightarrow>
                   if profile_digest \<noteq> MC_RESOLVER_PROFILE_DIGEST
                   then refuse ''mc-profile-integrity-failed'' ''embedded route profile identity differs'' else Inr routes
               | _ \<Rightarrow> refuse ''mc-profile-integrity-failed'' ''embedded route profile identity differs'')))"

text \<open>The path of a route, before a payload is appended, and its conditions.\<close>

definition route_path :: "shared_library \<Rightarrow> string \<Rightarrow> string \<Rightarrow> dict \<Rightarrow> json shared" where
  "route_path lib profile_id alternative route =
     (if get_or_null route ''kind'' = JStr ''opaque-path-key'' then
        bindR (profile_routes lib profile_id) (\<lambda>routes.
        bindR (need_hashable (get_or_null route ''path_key'')) (\<lambda>key.
          case (case key of JStr k \<Rightarrow> get_or_null routes k | _ \<Rightarrow> JNull) of
            JObj target \<Rightarrow> Inr (get_or_null target ''path'')
          | _ \<Rightarrow> cannot_express (''route alternative '' @ alternative @ '' uses an unknown path_key'')))
      else if get_or_null route ''kind'' = JStr ''rendered-http-route'' then Inr (get_or_null route ''path'')
      else cannot_express (''route alternative '' @ alternative @ '' has an unknown route kind''))"

definition rendered_path :: "string \<Rightarrow> string option \<Rightarrow> string" where
  "rendered_path path payload =
     (case payload of None \<Rightarrow> path | Some p \<Rightarrow> rstrip_by (\<lambda>c. c = CHR ''/'') path @ ''/'' @ escape_path_payload p)"

definition exact_condition :: "string \<Rightarrow> string \<Rightarrow> dict \<Rightarrow> dict" where
  "exact_condition kind val route =
     [(''type'', JStr kind), (''positiveMatch'', JBool True), (''valueCase'', JBool True), (''valueWildcard'', JBool False),
      (''value'', JArr [JStr val]), (''matchOperator'', JStr ''exact''), (''sourceRoute'', JObj route)]"

definition resolved_route_conditions ::
  "shared_library \<Rightarrow> string \<Rightarrow> string \<Rightarrow> dict \<Rightarrow> string option \<Rightarrow> (dict \<times> dict) shared" where
  "resolved_route_conditions lib profile_id alternative route payload =
     bindR (route_path lib profile_id alternative route) (\<lambda>path.
       case (nonempty_str path, nonempty_str (get_or_null route ''method'')) of
         (Some p, Some m) \<Rightarrow> Inr (exact_condition ''pathMatch'' (rendered_path p payload) route, exact_condition ''requestMethodMatch'' m route)
       | _ \<Rightarrow> cannot_express (''route alternative '' @ alternative @ '' is incomplete''))"

section \<open>Rule documents\<close>

record rule_table =
  table_conditions :: "(string \<times> json) list"
  table_carriers :: "carrier_key list"
  table_rule_ids :: "string list"

definition add_rule :: "(string \<times> dict) list \<Rightarrow> string \<Rightarrow> json \<Rightarrow> rule_table \<Rightarrow> rule_table shared" where
  "add_rule components artifact j t =
     (case j of
        JObj rule \<Rightarrow>
          (case nonempty_str (get_or_null rule ''component_id'') of
             None \<Rightarrow> cannot_express (''DG rule in '' @ artifact @ '' cannot map without semantic loss'')
           | Some component_id \<Rightarrow>
               if component_id \<in> set (map fst (table_conditions t))
               then cannot_express (''DG rule in '' @ artifact @ '' cannot map without semantic loss'')
               else (case map_of components component_id of
                   None \<Rightarrow> cannot_express (''DG rule in '' @ artifact @ '' has no semantic component'')
                 | Some component \<Rightarrow>
                     bindR (component_condition rule component artifact (table_rule_ids t)) (\<lambda>(condition, key, rule_id).
                       if key \<in> set (table_carriers t)
                       then cannot_express (''DG artifact '' @ artifact @ '' repeats carrier binding '' @ fst key @ ''/'' @ fst (snd key))
                       else Inr \<lparr>table_conditions = table_conditions t @ [(component_id, condition)],
                                 table_carriers = table_carriers t @ [key], table_rule_ids = rule_id # table_rule_ids t\<rparr>)))
      | _ \<Rightarrow> cannot_express (''DG artifact '' @ artifact @ '' has a malformed rule''))"

fun add_rules :: "(string \<times> dict) list \<Rightarrow> string \<Rightarrow> json list \<Rightarrow> rule_table \<Rightarrow> rule_table shared" where
  "add_rules components artifact [] t = Inr t"
| "add_rules components artifact (j # js) t = bindR (add_rule components artifact j t) (add_rules components artifact js)"

text \<open>The rule of one alternative; its description says how it is bound.\<close>

definition alternative_rule :: "dict \<Rightarrow> string \<Rightarrow> nat \<Rightarrow> string \<Rightarrow> string \<Rightarrow> json list \<Rightarrow> json" where
  "alternative_rule doc artifact n binding alternative conditions =
     JObj [(''name'', JStr (''janus-'' @ py_str (case get doc ''rule_set_id'' of Some v \<Rightarrow> v | None \<Rightarrow> JStr artifact) @ ''-'' @ dec_nat n)),
           (''description'', JStr (''One '' @ binding @ '' Boolean alternative from a verified DG WAF rule set.'')),
           (''operation'', JStr ''AND''), (''conditions'', JArr conditions), (''sourceArtifactId'', JStr artifact),
           (''sourceRuleSetId'', get_or_null doc ''rule_set_id''), (''sourceAlternativeId'', JStr alternative),
           (''sourceAction'', get_or_null doc ''action''),
           (''fastLoopNegativeMaterials'', (case get doc ''fast_loop_negative_materials'' of Some v \<Rightarrow> v | None \<Rightarrow> JArr []))]"

text \<open>The conditions of listed components; \<open>None\<close> when one of them has no rule.\<close>

definition known_components :: "(string \<times> json) list \<Rightarrow> json list \<Rightarrow> string list option shared" where
  "known_components conditions ids =
     (case find (\<lambda>j. \<not> (case j of JStr s \<Rightarrow> s \<in> set (map fst conditions) | _ \<Rightarrow> False)) ids of
        None \<Rightarrow> Inr (Some (map (\<lambda>j. case j of JStr s \<Rightarrow> s | _ \<Rightarrow> []) ids))
      | Some j \<Rightarrow> if hashable j then Inr None else Inl (PythonError ''TypeError''))"

definition conditions_of :: "(string \<times> json) list \<Rightarrow> string list \<Rightarrow> json list" where
  "conditions_of conditions ids = map (\<lambda>i. the (map_of conditions i)) ids"

fun independent_rules ::
  "shared_library \<Rightarrow> dict \<Rightarrow> string \<Rightarrow> (string \<times> json) list \<Rightarrow> nat \<Rightarrow> string list \<Rightarrow> json list \<Rightarrow> (string \<times> json) list shared" where
  "independent_rules lib doc artifact conditions n seen [] = Inr []"
| "independent_rules lib doc artifact conditions n seen (j # js) =
     bindR (canonical lib j) (\<lambda>key.
       case j of
         JArr ids \<Rightarrow>
           if ids = [] \<or> key \<in> set seen then cannot_express ''DG endpoint-independent coverage alternative is invalid''
           else bindR (known_components conditions ids) (\<lambda>known.
             case known of
               None \<Rightarrow> cannot_express ''DG endpoint-independent coverage alternative is invalid''
             | Some cs \<Rightarrow>
                 (let alternative = ''endpoint-independent:'' @ dec_nat n in
                  bindR (independent_rules lib doc artifact conditions (Suc n) (key # seen) js) (\<lambda>others.
                    Inr ((alternative, alternative_rule doc artifact n ''endpoint-independent'' alternative (conditions_of conditions cs))
                         # others))))
       | _ \<Rightarrow> cannot_express ''DG endpoint-independent coverage alternative is invalid'')"

section \<open>Route-bound alternatives\<close>

definition component_kind :: "dict \<Rightarrow> json" where
  "component_kind component = (case get_or_null component ''location'' of JObj l \<Rightarrow> get_or_null l ''kind'' | _ \<Rightarrow> JNull)"

definition routed_by :: "shared_library \<Rightarrow> dict \<Rightarrow> dict \<Rightarrow> bool" where
  "routed_by lib route item = (case source_input_route item of None \<Rightarrow> False | Some r \<Rightarrow> py_equal lib (JObj r) (JObj route))"

text \<open>The references of a component to inputs on the route.\<close>

definition on_route :: "shared_library \<Rightarrow> (string \<times> dict) list \<Rightarrow> dict \<Rightarrow> json \<Rightarrow> bool shared" where
  "on_route lib inputs route ref =
     bindR (dot_get ref ''id'') (\<lambda>j. bindR (need_hashable j) (\<lambda>j. Inr
       (case j of JStr i \<Rightarrow> (case map_of inputs i of Some item \<Rightarrow> routed_by lib route item | None \<Rightarrow> False) | _ \<Rightarrow> False)))"

definition refs_on_route :: "shared_library \<Rightarrow> (string \<times> dict) list \<Rightarrow> dict \<Rightarrow> dict \<Rightarrow> json list shared" where
  "refs_on_route lib inputs route component =
     bindR (items_at (JObj component) ''input_refs'') (\<lambda>refs.
     bindR (mapR (on_route lib inputs route) refs) (\<lambda>flags. Inr (map fst (filter snd (zip refs flags)))))"

definition route_payload :: "(string \<times> dict) list \<Rightarrow> json \<Rightarrow> json" where
  "route_payload inputs ref =
     (case ref of
        JObj kvs \<Rightarrow>
          (case Option.bind (nonempty_str (get_or_null kvs ''id'')) (map_of inputs) of
             Some item \<Rightarrow> (case get_or_null item ''input'' of JObj v \<Rightarrow> get_or_null v ''path_payload'' | _ \<Rightarrow> JNull)
           | None \<Rightarrow> JNull)
      | _ \<Rightarrow> JNull)"

fun collect_payloads :: "bool \<Rightarrow> json list \<Rightarrow> string list \<Rightarrow> string list shared" where
  "collect_payloads opaque [] found = Inr found"
| "collect_payloads opaque (j # js) found =
     (if opaque \<and> nonempty_str j = None then cannot_express ''template path component has no exact authenticated path_payload''
      else collect_payloads opaque js (case j of JStr s \<Rightarrow> if s \<in> set found then found else found @ [s] | _ \<Rightarrow> found))"

definition path_component :: "(string \<times> dict) list \<Rightarrow> string \<Rightarrow> bool" where
  "path_component components i = (case map_of components i of Some c \<Rightarrow> component_kind c = JStr ''http-path'' | None \<Rightarrow> False)"

fun bind_components ::
  "shared_library \<Rightarrow> (string \<times> dict) list \<Rightarrow> (string \<times> dict) list \<Rightarrow> (string \<times> json) list \<Rightarrow> (string \<times> dict) list
    \<Rightarrow> dict \<Rightarrow> string list \<Rightarrow> string list \<Rightarrow> string list shared" where
  "bind_components lib components inputs conditions bindings route [] payloads = Inr payloads"
| "bind_components lib components inputs conditions bindings route (i # is) payloads =
     (case map_of components i of
        None \<Rightarrow> cannot_express ''DG route alternative references an unknown component''
      | Some component \<Rightarrow>
          if i \<notin> set (map fst conditions) then cannot_express ''DG route alternative references an unknown component''
          else bindR (refs_on_route lib inputs route component) (\<lambda>refs.
            if \<not> py_equal lib (get_or_null (the (map_of bindings i)) ''input_refs'') (JArr refs) \<or> refs = []
            then cannot_express ''DG route binding differs from authenticated CG inputs''
            else bindR (if path_component components i
                        then collect_payloads (get_or_null route ''kind'' = JStr ''opaque-path-key'') (map (route_payload inputs) refs) payloads
                        else Inr payloads)
                   (bind_components lib components inputs conditions bindings route is)))"

text \<open>The rules of one alternative, one for each path payload; the first has number \<open>n\<close>, the variant number \<open>k\<close>.\<close>

definition with_path_components :: "json list \<Rightarrow> dict \<Rightarrow> dict" where
  "with_path_components paths condition =
     (if paths = [] then condition else condition @ [(''sourcePathComponents'', JArr paths)])"

fun variant_rules ::
  "shared_library \<Rightarrow> string \<Rightarrow> dict \<Rightarrow> string \<Rightarrow> string \<Rightarrow> dict \<Rightarrow> json list \<Rightarrow> json list \<Rightarrow> bool \<Rightarrow> nat \<Rightarrow> nat
    \<Rightarrow> string option list \<Rightarrow> (string \<times> json) list shared" where
  "variant_rules lib profile_id doc artifact alternative route paths others many n k [] = Inr []"
| "variant_rules lib profile_id doc artifact alternative route paths others many n k (payload # payloads) =
     bindR (resolved_route_conditions lib profile_id alternative route payload) (\<lambda>(path, method).
     bindR (variant_rules lib profile_id doc artifact alternative route paths others many (Suc n) (Suc k) payloads) (\<lambda>rules. Inr
       (((if many then alternative @ '':path-payload:'' @ dec_nat k else alternative),
         alternative_rule doc artifact n ''route-bound'' alternative (JObj (with_path_components paths path) # JObj method # others))
        # rules)))"

record routed_rules =
  routed :: "(string \<times> json) list"
  routed_alternatives :: "string list"
  routed_coverage :: "string list"

definition same_ids :: "string list \<Rightarrow> json list \<Rightarrow> string list option shared" where
  "same_ids known ids =
     (if list_ex (\<lambda>j. \<not> hashable j) ids then Inl (PythonError ''TypeError'')
      else if set (strings known) = set ids then Inr (Some (map (\<lambda>j. case j of JStr s \<Rightarrow> s | _ \<Rightarrow> []) ids)) else Inr None)"

definition add_route ::
  "shared_library \<Rightarrow> string \<Rightarrow> dict \<Rightarrow> string \<Rightarrow> (string \<times> dict) list \<Rightarrow> (string \<times> dict) list \<Rightarrow> (string \<times> json) list
    \<Rightarrow> string list \<Rightarrow> json \<Rightarrow> routed_rules \<Rightarrow> routed_rules shared" where
  "add_route lib profile_id doc artifact components inputs conditions coverage j t =
     (case j of
        JObj bound \<Rightarrow>
          (case (nonempty_str (get_or_null bound ''alternative_id''), get_or_null bound ''component_ids'') of
             (Some alternative, JArr ids) \<Rightarrow>
               if alternative \<in> set (routed_alternatives t) \<or> ids = [] then cannot_express ''DG route alternative differs from coverage''
               else bindR (canonical lib (JArr ids)) (\<lambda>key.
                 case (get_or_null bound ''route'', get_or_null bound ''component_bindings'') of
                   (JObj route, JArr bs) \<Rightarrow>
                     if key \<notin> set coverage then cannot_express ''DG route alternative differs from coverage''
                     else bindR (index_items (JArr bs) ''component_id'' ''route-component-bindings-invalid'') (\<lambda>bindings.
                       bindR (same_ids (map fst bindings) ids) (\<lambda>same.
                         case same of
                           None \<Rightarrow> cannot_express ''DG route component binding is incomplete''
                         | Some cs \<Rightarrow>
                             bindR (bind_components lib components inputs conditions bindings route cs []) (\<lambda>payloads.
                             let variants = (if payloads = [] then [None] else map Some payloads);
                                 paths = conditions_of conditions (filter (path_component components) cs);
                                 others = conditions_of conditions (filter (\<lambda>i. \<not> path_component components i) cs) in
                             bindR (variant_rules lib profile_id doc artifact alternative route paths others (length variants \<noteq> 1)
                                      (length (routed t)) 0 variants) (\<lambda>rules.
                             Inr \<lparr>routed = routed t @ rules, routed_alternatives = alternative # routed_alternatives t,
                                  routed_coverage = key # routed_coverage t\<rparr>))))
                 | _ \<Rightarrow> cannot_express ''DG route alternative differs from coverage'')
           | _ \<Rightarrow> cannot_express ''DG route alternative differs from coverage'')
      | _ \<Rightarrow> cannot_express ''DG route alternative is malformed'')"

fun add_routes ::
  "shared_library \<Rightarrow> string \<Rightarrow> dict \<Rightarrow> string \<Rightarrow> (string \<times> dict) list \<Rightarrow> (string \<times> dict) list \<Rightarrow> (string \<times> json) list
    \<Rightarrow> string list \<Rightarrow> json list \<Rightarrow> routed_rules \<Rightarrow> routed_rules shared" where
  "add_routes lib profile_id doc artifact components inputs conditions coverage [] t = Inr t"
| "add_routes lib profile_id doc artifact components inputs conditions coverage (j # js) t =
     bindR (add_route lib profile_id doc artifact components inputs conditions coverage j t)
       (add_routes lib profile_id doc artifact components inputs conditions coverage js)"

definition route_bound_rules ::
  "shared_library \<Rightarrow> string \<Rightarrow> dict \<Rightarrow> string \<Rightarrow> dict \<Rightarrow> (string \<times> dict) list \<Rightarrow> (string \<times> json) list \<Rightarrow> json list \<Rightarrow> json list
    \<Rightarrow> (string \<times> json) list shared" where
  "route_bound_rules lib profile_id doc artifact semantics components conditions coverage routes =
     bindR (index_at (JObj semantics) ''test_inputs'' ''input_id'' ''semantics-inputs-invalid'') (\<lambda>inputs.
     bindR (mapR (canonical lib) coverage) (\<lambda>keys.
     bindR (add_routes lib profile_id doc artifact components inputs conditions keys routes
              \<lparr>routed = [], routed_alternatives = [], routed_coverage = []\<rparr>) (\<lambda>t.
       if set (routed_coverage t) \<noteq> set keys then cannot_express ''DG route alternatives do not cover every Boolean alternative''
       else Inr (routed t))))"

definition nonempty_list :: "json \<Rightarrow> json list option" where
  "nonempty_list j = (case j of JArr xs \<Rightarrow> if xs = [] then None else Some xs | _ \<Rightarrow> None)"

definition translate_rule_document ::
  "shared_library \<Rightarrow> dict \<Rightarrow> string \<Rightarrow> dict \<Rightarrow> string \<Rightarrow> ((string \<times> json) list \<times> carrier_key list) shared" where
  "translate_rule_document lib doc artifact semantics profile_id =
     (let mode = get_or_null doc ''placement_mode''; independent = (mode \<in> {JNull, JStr []}) in
      case nonempty_list (get_or_null doc ''rules'') of
        None \<Rightarrow> cannot_express (''DG artifact '' @ artifact @ '' has no expressible WAF rules'')
      | Some rules \<Rightarrow>
          bindR (need_hashable mode) (\<lambda>_.
          if \<not> independent \<and> mode \<noteq> JStr ''route-bound-v1''
          then cannot_express (''DG artifact '' @ artifact @ '' uses an unknown placement mode'')
          else (case nonempty_list (get_or_null doc ''coverage_alternatives'') of
              None \<Rightarrow> cannot_express (''DG artifact '' @ artifact @ '' lacks Boolean alternatives'')
            | Some coverage \<Rightarrow>
                if \<not> independent \<and> nonempty_list (get_or_null doc ''route_bound_alternatives'') = None
                then cannot_express (''DG artifact '' @ artifact @ '' lacks route-bound alternatives'')
                else
                  bindR (index_at (JObj semantics) ''components'' ''component_id'' ''components-invalid'') (\<lambda>components.
                  bindR (add_rules components artifact rules \<lparr>table_conditions = [], table_carriers = [], table_rule_ids = []\<rparr>) (\<lambda>t.
                  bindR (if independent then independent_rules lib doc artifact (table_conditions t) 0 [] coverage
                         else route_bound_rules lib profile_id doc artifact semantics components (table_conditions t) coverage
                                (the (nonempty_list (get_or_null doc ''route_bound_alternatives'')))) (\<lambda>translated.
                  Inr (translated, table_carriers t)))))))"

section \<open>Carrier bindings\<close>

definition bound_component :: "(string \<times> dict) list option \<Rightarrow> json \<Rightarrow> dict option shared" where
  "bound_component components j =
     (case components of
        None \<Rightarrow> Inr None
      | Some cs \<Rightarrow> bindR (need_hashable j) (\<lambda>j. Inr (case j of JStr i \<Rightarrow> map_of cs i | _ \<Rightarrow> None)))"

definition carrier_binding ::
  "(string \<times> dict) list option \<Rightarrow> string \<Rightarrow> carrier_key list \<Rightarrow> json \<Rightarrow> (dict \<times> carrier_key) shared" where
  "carrier_binding components artifact seen j =
     (case j of
        JObj b \<Rightarrow>
          (let carrier = get_or_null b ''carrier''; name = get_or_null b ''name'';
               lossy = ''DG carrier binding in '' @ artifact @ '' cannot map without semantic loss'' in
           bindR (bound_component components (get_or_null b ''component_id'')) (\<lambda>component.
           bindR (case component of None \<Rightarrow> Inr None | Some c \<Rightarrow> bindR (semantic_carrier c) (\<lambda>e. Inr (Some e))) (\<lambda>expected.
           bindR (need_hashable carrier) (\<lambda>_.
             let wildcard = (case component of None \<Rightarrow> False
                   | Some c \<Rightarrow> (case get_or_null c ''location'' of JObj l \<Rightarrow> any_field l | _ \<Rightarrow> False)
                               \<and> carrier = JStr ''body'' \<and> name = JStr [star_c])
             in case (carrier, name, nonempty_str (get_or_null b ''component_id'')) of
                 (JStr c, JStr n, Some i) \<Rightarrow>
                   (case map_of CARRIER_CONDITION_TYPES c of
                      None \<Rightarrow> cannot_express lossy
                    | Some kind \<Rightarrow>
                        if (case expected of Some e \<Rightarrow> \<not> same_carrier_binding (carrier, name) e \<and> \<not> wildcard
                            | None \<Rightarrow> c \<in> {''header'', ''cookie''} \<and> n = [])
                        then cannot_express lossy
                        else if (c, n, i) \<in> set seen
                        then cannot_express (''DG artifact '' @ artifact @ '' repeats carrier binding '' @ c @ ''/'' @ n)
                        else Inr ([(''carrier'', JStr c), (''selector'', JStr n), (''sourceComponentId'', JStr i),
                                   (''targetConditionType'', JStr kind)], (c, n, i)))
               | _ \<Rightarrow> cannot_express lossy))))
      | _ \<Rightarrow> cannot_express (''DG artifact '' @ artifact @ '' has a malformed carrier binding''))"

fun carrier_bindings ::
  "(string \<times> dict) list option \<Rightarrow> string \<Rightarrow> carrier_key list \<Rightarrow> json list \<Rightarrow> (dict list \<times> carrier_key list) shared" where
  "carrier_bindings components artifact seen [] = Inr ([], seen)"
| "carrier_bindings components artifact seen (j # js) =
     bindR (carrier_binding components artifact seen j) (\<lambda>(translated, key).
     bindR (carrier_bindings components artifact (seen @ [key]) js) (\<lambda>(others, all_keys). Inr (translated # others, all_keys)))"

definition translate_carrier_document :: "dict \<Rightarrow> string \<Rightarrow> dict option \<Rightarrow> (json \<times> carrier_key list) shared" where
  "translate_carrier_document doc artifact semantics =
     (case nonempty_list (get_or_null doc ''carrier_bindings'') of
        None \<Rightarrow> cannot_express (''DG artifact '' @ artifact @ '' has no expressible carrier bindings'')
      | Some bindings \<Rightarrow>
          bindR (case semantics of
                   None \<Rightarrow> Inr None
                 | Some s \<Rightarrow> bindR (index_at (JObj s) ''components'' ''component_id'' ''components-invalid'') (\<lambda>cs. Inr (Some cs))) (\<lambda>components.
          bindR (carrier_bindings components artifact [] bindings) (\<lambda>(translated, all_keys).
          Inr (JObj [(''configurationType'', JStr ''akamai-carrier-bindings''), (''sourceArtifactId'', JStr artifact),
                     (''sourceRuleSetId'', get_or_null doc ''rule_set_id''), (''carrierBindings'', JArr (map JObj translated)),
                     (''claimRule'', get_or_null doc ''claim_rule'')], all_keys))))"

section \<open>The plan\<close>

text \<open>The artifacts of the candidate in their order, an integer by the schema.\<close>

definition order_key :: "dict \<Rightarrow> int" where
  "order_key artifact = (case as_int (get_or_null artifact ''order'') of Some n \<Rightarrow> n | None \<Rightarrow> 0)"

definition in_order :: "(string \<times> dict) list \<Rightarrow> (string \<times> dict) list shared" where
  "in_order artifacts =
     bindR (mapR (\<lambda>(i, a). at_key (JObj a) ''order'') artifacts) (\<lambda>orders.
       if list_all (\<lambda>j. as_int j \<noteq> None) orders then Inr (sort_key (\<lambda>(i, a). order_key a) artifacts)
       else Inl (PythonError ''TypeError''))"

record plan_parts =
  part_rules :: "json list"
  part_rule_carriers :: "carrier_key list"
  part_binding_carriers :: "carrier_key list"

definition add_artifact :: "shared_library \<Rightarrow> verified_join \<Rightarrow> string \<Rightarrow> plan_parts \<Rightarrow> plan_parts shared" where
  "add_artifact lib v i parts =
     (case map_of (vj_contents v) i of
        None \<Rightarrow> Inl (PythonError ''KeyError'')
      | Some raw \<Rightarrow>
          bindR (strict_json_bytes lib raw (''DG artifact '' @ i)) (\<lambda>doc.
            if ''rules'' \<in> set (keys doc) then
              bindR (translate_rule_document lib doc i (vj_semantics v) (vj_profile_id v)) (\<lambda>(rules, carriers).
                Inr (parts\<lparr>part_rules := part_rules parts @ map snd rules, part_rule_carriers := part_rule_carriers parts @ carriers\<rparr>))
            else if ''carrier_bindings'' \<in> set (keys doc) then
              bindR (translate_carrier_document doc i (Some (vj_semantics v))) (\<lambda>(_, carriers).
                Inr (parts\<lparr>part_binding_carriers := part_binding_carriers parts @ carriers\<rparr>))
            else cannot_express (''DG artifact '' @ i @ '' has no lossless Akamai mapping'')))"

fun add_artifacts :: "shared_library \<Rightarrow> verified_join \<Rightarrow> string list \<Rightarrow> plan_parts \<Rightarrow> plan_parts shared" where
  "add_artifacts lib v [] parts = Inr parts"
| "add_artifacts lib v (i # is) parts = bindR (add_artifact lib v i parts) (add_artifacts lib v is)"

fun check_rules :: "shared_library \<Rightarrow> nat \<Rightarrow> json list \<Rightarrow> unit shared" where
  "check_rules lib n [] = Inr ()"
| "check_rules lib n (rule # rules) =
     bindR (canonical lib rule) (\<lambda>content.
       case akamai_validate_syntax (candidate_of (lib_decoders lib) content) of
         Inl _ \<Rightarrow> Inl (PythonError ''TypeError'')
       | Inr res \<Rightarrow>
           if valid res then check_rules lib (Suc n) rules
           else cannot_express (''translated Akamai rule '' @ dec_nat n @ '' is invalid: '' @ join ''; '' (errors res)))"

text \<open>A string field of a pydantic model.\<close>

definition model_text :: "json \<Rightarrow> string shared" where
  "model_text j = (case nonempty_str j of Some s \<Rightarrow> Inr s | None \<Rightarrow> Inl (PythonError ''ValidationError''))"

definition model_string :: "json \<Rightarrow> string shared" where
  "model_string j = (case j of JStr s \<Rightarrow> Inr s | _ \<Rightarrow> Inl (PythonError ''ValidationError''))"

definition model_bool :: "json \<Rightarrow> bool shared" where
  "model_bool j = (case j of JBool b \<Rightarrow> Inr b | _ \<Rightarrow> Inl (PythonError ''ValidationError''))"

definition translated_directive :: "string list \<Rightarrow> string \<Rightarrow> json \<Rightarrow> target_directive shared" where
  "translated_directive sources target j =
     bindR (dot_get j ''artifact_ref'') (\<lambda>source_ref.
     bindR (need_hashable (case source_ref of JObj kvs \<Rightarrow> get_or_null kvs ''id'' | _ \<Rightarrow> JNull)) (\<lambda>source.
     bindR (at_key j ''directive_id'') (\<lambda>i.
       if source \<notin> set (strings sources)
       then cannot_express (''DG directive '' @ py_str i @ '' does not map to an emitted artifact'')
       else bindR (at_key j ''kind'') (\<lambda>kind. bindR (at_key j ''value'') (\<lambda>val. bindR (at_key j ''required'') (\<lambda>required.
            bindR (model_text i) (\<lambda>source_id. bindR (model_text kind) (\<lambda>kind. bindR (model_text val) (\<lambda>val. bindR (model_bool required) (\<lambda>required.
            Inr \<lparr>td_directive_id = ''akamai-'' @ py_str i @ ''-0'', td_source_directive_id = source_id, td_target_artifact_id = target,
                 td_kind = kind, td_value = val, td_required = required\<rparr>))))))))))"

definition obligation_mapping :: "json \<Rightarrow> string list \<Rightarrow> string list \<Rightarrow> string \<Rightarrow> json \<Rightarrow> translation_mapping shared" where
  "obligation_mapping scope sources directives target j =
     bindR (at_key j ''artifact_refs'') (\<lambda>refs.
     bindR (ref_ids ''artifact'' scope sources ''obligation-artifacts-invalid'' False refs) (\<lambda>source_ids.
     bindR (at_key j ''directive_refs'') (\<lambda>refs.
     bindR (ref_ids ''directive'' scope directives ''obligation-directives-invalid'' True refs) (\<lambda>_.
     bindR (at_key j ''obligation_id'') (\<lambda>i.
       if source_ids = [] then cannot_express (''obligation '' @ py_str i @ '' has no applicable target alternative'')
       else bindR (model_text i) (\<lambda>i. Inr \<lparr>tm_obligation_id = i, tm_target_artifact_ids = [target]\<rparr>))))))"

definition component_description :: "json \<Rightarrow> string shared" where
  "component_description j =
     bindR (dot_get j ''description'') (\<lambda>_.
       case j of
         JObj kvs \<Rightarrow> (case get kvs ''description'' of None \<Rightarrow> Inr [] | Some (JStr s) \<Rightarrow> Inr s
                     | Some v \<Rightarrow> if truthy v then Inl (PythonError ''TypeError'') else Inr [])
       | _ \<Rightarrow> Inr [])"

definition check_plan_target :: "string \<Rightarrow> unit shared" where
  "check_plan_target technology =
     (if technology = ''akamai-waf'' then Inr ()
      else cannot_express (''shared WAF profile cannot map to target technology '' @ technology))"

text \<open>Every rule of the candidate, each accepted by the adapter, and the text of them all.\<close>

definition plan_rules :: "shared_library \<Rightarrow> verified_join \<Rightarrow> (string \<times> dict) list \<Rightarrow> json list shared" where
  "plan_rules lib v sources =
     bindR (in_order sources) (\<lambda>ordered.
     bindR (add_artifacts lib v (map fst ordered) \<lparr>part_rules = [], part_rule_carriers = [], part_binding_carriers = []\<rparr>) (\<lambda>parts.
       if part_rules parts = [] \<or> set (part_binding_carriers parts) \<noteq> set (part_rule_carriers parts)
       then cannot_express ''complete DG carrier bindings do not exactly match executable WAF rule carriers''
       else bindR (check_rules lib 0 (part_rules parts)) (\<lambda>_. Inr (part_rules parts))))"

definition fixed_proposal :: "string \<Rightarrow> string list \<Rightarrow> proposal" where
  "fixed_proposal content limits =
     \<lparr>candidate_content = JStr content, translation_label = ''equivalent'',
      justification = ''Every verified DG Boolean alternative, carrier, selector, pattern, and ordered transformation is preserved without fixture route narrowing.'',
      translation_assumptions = [], limitations = limits, answer_kind = []\<rparr>"

definition build_waf_translation_plan :: "shared_library \<Rightarrow> verified_join \<Rightarrow> string \<Rightarrow> translation_plan shared" where
  "build_waf_translation_plan lib v technology =
     bindR (check_plan_target technology) (\<lambda>_.
     bindR (at_key (JObj (vj_bundle v)) ''primary_candidate'') (\<lambda>candidate.
     bindR (index_at candidate ''artifacts'' ''artifact_id'' ''candidate-artifacts-invalid'') (\<lambda>sources.
     bindR (plan_rules lib v sources) (\<lambda>rules.
     bindR (canonical lib (JObj [(''rules'', JArr rules)])) (\<lambda>content.
     bindR (case shared_waf_primary_artifact_id (sha256_digest lib (utf8 content)) of
              Inl _ \<Rightarrow> Inl (PythonError ''ValueError'') | Inr i \<Rightarrow> Inr i) (\<lambda>target.
     bindR (case candidate of JObj kvs \<Rightarrow> (case get kvs ''limitations'' of None \<Rightarrow> Inr [] | Some v \<Rightarrow> elements v) | _ \<Rightarrow> Inr []) (\<lambda>limits.
     bindR (mapR model_string limits) (\<lambda>limits.
     bindR (index_at candidate ''directives'' ''directive_id'' ''candidate-directives-invalid'') (\<lambda>directives.
     bindR (mapR (\<lambda>(i, d). translated_directive (map fst sources) target (JObj d)) directives) (\<lambda>translated.
     bindR (items_at candidate ''obligation_mappings'') (\<lambda>ms.
     bindR (at_key (JObj (vj_bundle v)) ''bundle_id'') (\<lambda>scope.
     bindR (mapR (obligation_mapping scope (map fst sources) (map fst directives) target) ms) (\<lambda>mappings.
     bindR (bindR (items_at (JObj (vj_semantics v)) ''obligations'') (column ''obligation_id'')) (\<lambda>required.
       if set (strings (map tm_obligation_id mappings)) \<noteq> set required
       then cannot_express ''not every required obligation has one target mapping''
       else
         bindR (items_at (JObj (vj_semantics v)) ''components'') (\<lambda>components.
         bindR (mapR component_description components) (\<lambda>descriptions.
         bindR (at_key candidate ''candidate_id'') (\<lambda>candidate_id.
         bindR (canonical lib (JObj [(''candidate_bundle_id'', scope), (''candidate_id'', candidate_id),
                  (''source_artifact_ids'', JArr (strings (map fst sources)))])) (\<lambda>summary.
         Inr \<lparr>plan_proposal = fixed_proposal content limits, plan_directives = translated, plan_mappings = mappings,
              plan_description = ''WAF regex matching across query, header, cookie, path, body, and method carriers: '' @
                join ''; '' (filter (\<lambda>s. s \<noteq> []) descriptions),
              plan_summary = summary, plan_content = content\<rparr>))))))))))))))))))"

end
