(* ===== verification/SharedJoin.thy ===== *)
theory SharedJoin
  imports SharedPlan
begin

text \<open>
  The verification of a Check Generation result and of the candidate bundle of Defense Generation that
  binds it, in \<^verbatim>\<open>shared_contracts_v2.py\<close>: identity and digests, the partition of the source
  members, the coverage of each obligation and the exact contents of each artifact.
\<close>

definition AMS_SCHEMA_ID :: string where
  "AMS_SCHEMA_ID = ''https://schemas.janus.internal/contracts/attack-match-semantics/attack-match-semantics-2.0.schema.json''"

definition BUNDLE_SCHEMA_ID :: string where
  "BUNDLE_SCHEMA_ID = ''https://schemas.janus.internal/contracts/candidate-bundle/candidate-bundle-1.0.schema.json''"

section \<open>Reading\<close>

definition dict_at :: "json \<Rightarrow> string \<Rightarrow> dict shared" where
  "dict_at j k = bindR (at_key j k) (\<lambda>v. case v of JObj kvs \<Rightarrow> Inr kvs | _ \<Rightarrow> Inl (PythonError ''AttributeError''))"

text \<open>\<^verbatim>\<open>set(d.get(k, []))\<close>\<close>

definition set_at :: "dict \<Rightarrow> string \<Rightarrow> json list shared" where
  "set_at kvs k = (case get kvs k of None \<Rightarrow> Inr [] | Some v \<Rightarrow> bindR (elements v) (mapR need_hashable))"

text \<open>\<^verbatim>\<open>for k, v in items: check(k, v)\<close>\<close>

fun check_each :: "('a \<Rightarrow> unit shared) \<Rightarrow> 'a list \<Rightarrow> unit shared" where
  "check_each f [] = Inr ()"
| "check_each f (x # xs) = bindR (f x) (\<lambda>_. check_each f xs)"

lemma check_each_cong [fundef_cong]:
  "xs = ys \<Longrightarrow> (\<And>x. x \<in> set ys \<Longrightarrow> f x = g x) \<Longrightarrow> check_each f xs = check_each g ys"
  by (induction xs arbitrary: ys) auto

lemma check_each_Inr: "check_each f xs = Inr u \<longleftrightarrow> (\<forall>x \<in> set xs. f x = Inr ())"
  by (induction xs) (auto simp: bindR_eq_Inr)

definition validate_schema :: "shared_library \<Rightarrow> string \<Rightarrow> json \<Rightarrow> unit shared" where
  "validate_schema lib schema_id doc =
     (case schema_error lib schema_id doc of None \<Rightarrow> Inr () | Some e \<Rightarrow> refuse ''schema-invalid'' (schema_id @ '' at '' @ e))"

definition same_keys :: "(string \<times> 'a) list \<Rightarrow> (string \<times> 'b) list \<Rightarrow> bool" where
  "same_keys xs ys = (set (map fst xs) = set (map fst ys))"

section \<open>Result-internal contents\<close>

fun replace_pair :: "char \<Rightarrow> char \<Rightarrow> char \<Rightarrow> string \<Rightarrow> string" where
  "replace_pair a b c (x # y # s) = (if x = a \<and> y = b then c # replace_pair a b c s else x # replace_pair a b c (y # s))"
| "replace_pair a b c s = s"

definition pointer_token :: "string \<Rightarrow> string" where
  "pointer_token s = replace_pair (CHR ''~'') (CHR ''0'') (CHR ''~'') (replace_pair (CHR ''~'') (CHR ''1'') (CHR ''/'') s)"

text \<open>\<^verbatim>\<open>int(text)\<close>: surrounding white space, a sign, and single underscores between digits.\<close>

definition py_int :: "string \<Rightarrow> int option" where
  "py_int t =
     (let s = strip t; signed = (s \<noteq> [] \<and> hd s \<in> {CHR ''-'', CHR ''+''}); body = (if signed then tl s else s);
          parts = py_split body (CHR ''_'')
      in if list_all (\<lambda>p. p \<noteq> [] \<and> list_all is_digit p) parts
         then Some ((if signed \<and> hd s = CHR ''-'' then - 1 else 1) * int (nat_of_digits 0 (concat parts)))
         else None)"

definition child_of :: "json \<Rightarrow> string \<Rightarrow> json option" where
  "child_of j token =
     (case j of
        JArr xs \<Rightarrow>
          (case py_int token of
             None \<Rightarrow> None
           | Some i \<Rightarrow> (let n = (if i < 0 then int (length xs) + i else i) in
                        if 0 \<le> n \<and> n < int (length xs) then Some (xs ! nat n) else None))
      | JObj kvs \<Rightarrow> get kvs token
      | _ \<Rightarrow> None)"

definition resolve_pointer :: "json \<Rightarrow> string \<Rightarrow> json option" where
  "resolve_pointer j pointer =
     fold (\<lambda>raw found. Option.bind found (\<lambda>v. child_of v (pointer_token raw)))
       (py_split (removeprefix pointer ''/'') (CHR ''/'')) (Some j)"

definition resolve_result_internal_content :: "shared_library \<Rightarrow> dict \<Rightarrow> dict \<Rightarrow> nat list shared" where
  "resolve_result_internal_content lib enclosing locator =
     (case get_or_null locator ''uri'' of
        JStr uri \<Rightarrow>
          if \<not> starts_with uri ''janus-result-internal:''
          then refuse ''result-internal-locator-invalid'' ''CG artifact locator is not result-internal''
          else (let body = removeprefix uri ''janus-result-internal:''; (identity, pointer) = partition_c body (CHR ''#'') in
            if CHR ''#'' \<notin> set body \<or> JStr (unquote_text (lib_decoders lib) identity) \<noteq> get_or_null enclosing ''result_id''
               \<or> \<not> starts_with pointer ''/''
            then refuse ''result-internal-locator-invalid'' ''CG artifact locator identity or pointer differs''
            else (case resolve_pointer (JObj enclosing) pointer of
                None \<Rightarrow> refuse ''result-internal-locator-invalid'' ''CG artifact locator does not resolve exactly''
              | Some v \<Rightarrow>
                  bindR (case v of JStr s \<Rightarrow> Inr (utf8 s) | _ \<Rightarrow> canonical_bytes lib v) (\<lambda>content.
                    if get_or_null locator ''immutable'' \<noteq> JBool True
                       \<or> \<not> py_equal lib (get_or_null locator ''byte_length'') (JInt (int (length content)))
                       \<or> get_or_null locator ''digest'' \<noteq> JStr (sha256_digest lib content)
                    then refuse ''result-internal-locator-integrity-failed'' ''CG artifact locator bytes differ''
                    else Inr content)))
      | _ \<Rightarrow> refuse ''result-internal-locator-invalid'' ''CG artifact locator is not result-internal'')"

section \<open>Coverage\<close>

text \<open>
  The source members of a coverage reference. The groups on the way to a reference are \<open>visiting\<close>; a
  group among them is a cycle, so the walk ends.
\<close>

function coverage_walk ::
  "(string \<times> dict) list \<Rightarrow> (string \<times> dict) list \<Rightarrow> json \<Rightarrow> string list \<Rightarrow> json \<Rightarrow> json list shared" where
  "coverage_walk components groups scope visiting ref =
     bindR (dot_get ref ''scope'') (\<lambda>ref_scope.
     bindR (dot_get ref ''kind'') (\<lambda>kind.
     bindR (dot_get ref ''id'') (\<lambda>identity.
       if ref_scope \<noteq> scope then refuse ''coverage-scope-mismatch'' ''coverage scope differs''
       else if kind = JStr ''component'' then
         (case map_of components (py_str identity) of
            None \<Rightarrow> refuse ''coverage-reference-invalid'' ''unknown coverage component''
          | Some component \<Rightarrow> bindR (items_at (JObj component) ''source_member_refs'') (column ''id''))
       else if kind \<noteq> JStr ''coverage-group'' then refuse ''coverage-reference-invalid'' ''invalid or cyclic coverage group''
       else bindR (need_hashable identity) (\<lambda>identity.
         case (case identity of JStr i \<Rightarrow> if i \<in> set visiting then None else map_option (Pair i) (map_of groups i) | _ \<Rightarrow> None) of
           None \<Rightarrow> refuse ''coverage-reference-invalid'' ''invalid or cyclic coverage group''
         | Some (i, grp) \<Rightarrow>
             bindR (items_at (JObj grp) ''member_refs'') (\<lambda>children.
             bindR (mapR (\<lambda>child. coverage_walk components groups scope (i # visiting) child) children) (\<lambda>parts.
             bindR (bindR (items_at (JObj grp) ''source_member_refs'') (column ''id'')) (\<lambda>declared.
               if set (concat parts) \<noteq> set declared then refuse ''coverage-ancestry-mismatch'' ''coverage source ancestry differs''
               else Inr (concat parts))))))))"
  by pat_completeness auto

lemma coverage_walk_decreases:
  assumes "i \<notin> set visiting" "map_of groups i = Some (grp :: dict)"
  shows "card (set (map fst groups) - insert i (set visiting)) < card (set (map fst groups) - set visiting)"
proof (rule psubset_card_mono)
  have "i \<in> set (map fst groups)" using assms(2) by (auto dest!: map_of_SomeD intro: rev_image_eqI)
  then show "set (map fst groups) - insert i (set visiting) \<subset> set (map fst groups) - set visiting" using assms(1) by auto
qed simp

termination coverage_walk
  by (relation "measure (\<lambda>(components, groups, scope, visiting, ref). card (set (map fst groups) - set visiting))")
    (auto dest: coverage_walk_decreases split: json.splits if_splits simp del: set_map)

declare coverage_walk.simps [simp del]

definition coverage_members :: "json \<Rightarrow> dict \<Rightarrow> json list shared" where
  "coverage_members ref semantics =
     bindR (index_at (JObj semantics) ''components'' ''component_id'' ''components-invalid'') (\<lambda>components.
     bindR (at_key (JObj semantics) ''coverage'') (\<lambda>coverage.
     bindR (index_at coverage ''groups'' ''group_id'' ''coverage-invalid'') (\<lambda>groups.
     bindR (at_key (JObj semantics) ''semantics_id'') (\<lambda>scope.
     coverage_walk components groups scope [] ref))))"

section \<open>Check Generation\<close>

record cg_index =
  cg_scope :: json
  cg_members :: "(string \<times> dict) list"
  cg_outer_members :: "(string \<times> dict) list"
  cg_membership :: "(string \<times> dict) list"
  cg_artifacts :: "(string \<times> dict) list"
  cg_outer_artifacts :: "(string \<times> dict) list"
  cg_inputs :: "(string \<times> dict) list"
  cg_outer_inputs :: "(string \<times> dict) list"
  cg_obligations :: "(string \<times> dict) list"

definition SOURCE_DIGEST_PROFILE :: string where
  "SOURCE_DIGEST_PROFILE = ''rfc8785-sha256-exclude-content_digest-v1''"

definition cg_identity :: "shared_library \<Rightarrow> dict \<Rightarrow> unit shared" where
  "cg_identity lib cg =
     (if get_or_null cg ''contract_id'' \<noteq> JStr ''check-generation@2.1'' \<or> \<not> truthy (get_or_null cg ''result_id'')
      then refuse ''cg-identity-invalid'' ''expected final check-generation@2.1 result''
      else if ''content_digest'' \<notin> set (keys cg) \<and> ''digest_profile'' \<notin> set (keys cg) then Inr ()
      else if get_or_null cg ''digest_profile'' \<noteq> JStr SOURCE_DIGEST_PROFILE
      then refuse ''cg-content-digest-mismatch'' ''CG final content digest differs''
      else bindR (digest_without lib cg [''content_digest'']) (\<lambda>expected.
        require (get_or_null cg ''content_digest'' = JStr expected) ''cg-content-digest-mismatch'' ''CG final content digest differs''))"

definition cg_semantics :: "shared_library \<Rightarrow> dict \<Rightarrow> dict shared" where
  "cg_semantics lib cg =
     (case get_or_null cg ''attack_match_semantics'' of
        JObj semantics \<Rightarrow>
          bindR (validate_schema lib AMS_SCHEMA_ID (JObj semantics)) (\<lambda>_.
          bindR (digest_without lib semantics [''semantics_digest'']) (\<lambda>expected.
            if get_or_null semantics ''semantics_digest'' \<noteq> JStr expected
            then refuse ''semantics-digest-mismatch'' ''embedded semantics digest differs'' else Inr semantics))
      | _ \<Rightarrow> refuse ''semantics-absent'' ''CG semantics are absent'')"

definition source_projection :: "shared_library \<Rightarrow> dict \<Rightarrow> string shared" where
  "source_projection lib cg =
     bindR (mapR (\<lambda>k. bindR (at_key (JObj cg) k) (\<lambda>v. Inr (k, v))) [''artifacts'', ''input_membership'', ''member_results'', ''test_inputs''])
       (\<lambda>projection. digest lib (JObj projection))"

definition cg_binding :: "shared_library \<Rightarrow> dict \<Rightarrow> dict \<Rightarrow> dict shared" where
  "cg_binding lib cg semantics =
     bindR (at_key (JObj semantics) ''source_binding'') (\<lambda>source.
     bindR (dict_at source ''check_generation'') (\<lambda>binding.
     bindR (source_projection lib cg) (\<lambda>projection.
       if \<not> py_equal lib (get_or_null binding ''contract_id'') (get_or_null cg ''contract_id'')
          \<or> \<not> py_equal lib (get_or_null binding ''result_id'') (get_or_null cg ''result_id'')
          \<or> \<not> py_equal lib (get_or_null binding ''revision'') (get_or_null cg ''revision'')
          \<or> get_or_null binding ''source_projection_digest'' \<noteq> JStr projection
       then refuse ''source-projection-mismatch'' ''CG source projection or identity differs'' else Inr binding)))"

definition read_cg :: "dict \<Rightarrow> dict \<Rightarrow> cg_index shared" where
  "read_cg cg semantics =
     bindR (at_key (JObj semantics) ''source_binding'') (\<lambda>source.
     bindR (index_at source ''members'' ''member_id'' ''source-members-invalid'') (\<lambda>members.
     bindR (index_at (JObj cg) ''member_results'' ''member_id'' ''cg-members-invalid'') (\<lambda>outer_members.
     bindR (index_at source ''artifacts'' ''artifact_id'' ''source-artifacts-invalid'') (\<lambda>artifacts.
     bindR (index_at (JObj cg) ''artifacts'' ''artifact_id'' ''cg-artifacts-invalid'') (\<lambda>outer_artifacts.
     bindR (index_at (JObj semantics) ''test_inputs'' ''input_id'' ''semantics-inputs-invalid'') (\<lambda>inputs.
     bindR (index_at (JObj cg) ''test_inputs'' ''input_id'' ''cg-inputs-invalid'') (\<lambda>outer_inputs.
     bindR (index_at (JObj semantics) ''obligations'' ''obligation_id'' ''obligations-invalid'') (\<lambda>obligations.
     bindR (dot_get (case get cg ''input_membership'' of None \<Rightarrow> JObj [] | Some v \<Rightarrow> v) ''members'') (\<lambda>declared.
     bindR (index_items declared ''member_id'' ''cg-input-membership-invalid'') (\<lambda>membership.
     bindR (at_key (JObj semantics) ''semantics_id'') (\<lambda>scope.
     Inr \<lparr>cg_scope = scope, cg_members = members, cg_outer_members = outer_members, cg_membership = membership,
          cg_artifacts = artifacts, cg_outer_artifacts = outer_artifacts, cg_inputs = inputs, cg_outer_inputs = outer_inputs,
          cg_obligations = obligations\<rparr>)))))))))))"

definition cg_complete :: "shared_library \<Rightarrow> dict \<Rightarrow> cg_index \<Rightarrow> unit shared" where
  "cg_complete lib binding x =
     (if \<not> same_keys (cg_members x) (cg_outer_members x) \<or> \<not> same_keys (cg_members x) (cg_membership x)
         \<or> \<not> same_keys (cg_artifacts x) (cg_outer_artifacts x) \<or> \<not> set (map fst (cg_inputs x)) \<subseteq> set (map fst (cg_outer_inputs x))
      then refuse ''cg-completeness-mismatch'' ''CG embedded and outer identity sets differ''
      else require (py_equal lib (get_or_null binding ''member_count'') (JInt (int (length (cg_members x))))
                    \<and> py_equal lib (get_or_null binding ''artifact_count'') (JInt (int (length (cg_artifacts x)))))
             ''cg-count-mismatch'' ''CG source binding counts differ'')"

definition same_field :: "shared_library \<Rightarrow> dict \<Rightarrow> dict \<Rightarrow> string \<Rightarrow> bool" where
  "same_field lib x y k = py_equal lib (get_or_null x k) (get_or_null y k)"

definition check_member :: "shared_library \<Rightarrow> cg_index \<Rightarrow> string \<times> dict \<Rightarrow> unit shared" where
  "check_member lib x entry =
     (let (i, member) = entry; outer = the (map_of (cg_outer_members x) i); declared = the (map_of (cg_membership x) i) in
      if \<not> same_field lib member outer ''signal_id'' \<or> \<not> same_field lib member outer ''affected_artifact_id''
         \<or> \<not> py_equal lib (get_or_null member ''terminal_state'') (shared_terminal_state_from_cg (get_or_null outer ''terminal_state''))
         \<or> \<not> same_field lib member declared ''signal_id'' \<or> \<not> same_field lib member declared ''affected_artifact_id''
      then refuse ''cg-member-identity-mismatch'' (''CG member differs: '' @ i)
      else bindR (ref_ids ''source-artifact'' (cg_scope x) (map fst (cg_artifacts x)) ''source-member-artifacts-invalid'' True
                    (get_or_null member ''artifact_refs'')) (\<lambda>refs.
        bindR (set_at outer ''artifact_refs'') (\<lambda>outer_refs.
          if set (strings refs) \<noteq> set outer_refs
          then refuse ''cg-member-cardinality-invalid'' (''CG member artifact cardinality differs: '' @ i)
          else bindR (bindR (at_key (JObj member) ''terminal_state'') need_hashable) (\<lambda>state.
            require (refs \<noteq> [] \<longleftrightarrow> state \<in> {JStr ''verified'', JStr ''signal-produced''})
              ''cg-member-cardinality-invalid'' (''CG member artifact cardinality differs: '' @ i)))))"

definition expected_content :: "dict \<Rightarrow> json" where
  "expected_content outer =
     (case get_or_null outer ''check_artifact'' of
        JObj check \<Rightarrow> get_or_null check ''candidate''
      | _ \<Rightarrow> (case get_or_null outer ''mitigation_checkable_signal'' of JObj signal \<Rightarrow> get_or_null signal ''stimulus'' | _ \<Rightarrow> JNull))"

definition artifact_content_matches :: "shared_library \<Rightarrow> dict \<Rightarrow> dict \<Rightarrow> dict \<Rightarrow> bool shared" where
  "artifact_content_matches lib cg outer content =
     (if starts_with (py_str (case get content ''uri'' of None \<Rightarrow> JStr [] | Some v \<Rightarrow> v)) ''janus-result-internal:'' then
        bindR (resolve_result_internal_content lib cg content) (\<lambda>resolved.
          if expected_content outer = JNull then Inr False
          else bindR (canonical_bytes lib (expected_content outer)) (\<lambda>bs. Inr (resolved = bs)))
      else Inr (py_equal lib (get_or_null outer ''content_hash'') (get_or_null content ''digest'')))"

definition check_source_artifact :: "shared_library \<Rightarrow> dict \<Rightarrow> cg_index \<Rightarrow> string \<times> dict \<Rightarrow> unit shared" where
  "check_source_artifact lib cg x entry =
     (let (i, artifact) = entry; outer = the (map_of (cg_outer_artifacts x) i) in
      bindR (at_key (JObj artifact) ''member_refs'') (\<lambda>refs.
      bindR (ref_ids ''source-member'' (cg_scope x) (map fst (cg_members x)) ''source-artifact-members-invalid'' False refs) (\<lambda>ids.
        case get_or_null artifact ''content'' of
          JObj content \<Rightarrow>
            bindR (artifact_content_matches lib cg outer content) (\<lambda>matches.
            bindR (set_at outer ''member_ids'') (\<lambda>outer_ids.
            bindR (set_at artifact ''signal_ids'') (\<lambda>signals.
            bindR (set_at outer ''signal_ids'') (\<lambda>outer_signals.
            bindR (set_at artifact ''affected_artifact_ids'') (\<lambda>affected.
            bindR (set_at outer ''affected_artifact_ids'') (\<lambda>outer_affected.
              require (set (strings ids) = set outer_ids \<and> same_field lib artifact outer ''artifact_kind''
                       \<and> same_set lib signals outer_signals \<and> same_set lib affected outer_affected \<and> matches)
                ''cg-artifact-lineage-mismatch'' (''CG artifact differs: '' @ i)))))))
        | _ \<Rightarrow> refuse ''cg-artifact-lineage-mismatch'' (''CG artifact content is absent: '' @ i))))"

text \<open>The members an input represents, after its lineage was compared.\<close>

definition input_members :: "cg_index \<Rightarrow> string \<times> dict \<Rightarrow> string list shared" where
  "input_members x entry =
     (let (i, item) = entry; outer = the (map_of (cg_outer_inputs x) i) in
      bindR (at_key (JObj item) ''source_member_refs'') (\<lambda>refs.
      bindR (ref_ids ''source-member'' (cg_scope x) (map fst (cg_members x)) ''input-members-invalid'' False refs) (\<lambda>ids.
      bindR (at_key (JObj item) ''source_artifact_ref'') (\<lambda>ref.
      bindR (ref_ids ''source-artifact'' (cg_scope x) (map fst (cg_artifacts x)) ''input-artifact-invalid'' False (JArr [ref])) (\<lambda>source.
      bindR (set_at outer ''member_ids'') (\<lambda>outer_ids.
        if set (strings ids) \<noteq> set outer_ids \<or> strings source \<noteq> [get_or_null outer ''artifact_id'']
        then refuse ''cg-input-lineage-mismatch'' (''CG test input differs: '' @ i) else Inr ids))))))"

definition unsupported_of :: "cg_index \<Rightarrow> json \<Rightarrow> (string list \<times> string list) shared" where
  "unsupported_of x item =
     bindR (at_key item ''source_member_refs'') (\<lambda>refs.
     bindR (ref_ids ''source-member'' (cg_scope x) (map fst (cg_members x)) ''unsupported-members-invalid'' True refs) (\<lambda>ids.
     bindR (case item of JObj kvs \<Rightarrow> Inr (case get kvs ''source_input_refs'' of None \<Rightarrow> JArr [] | Some v \<Rightarrow> v)
            | _ \<Rightarrow> Inl (PythonError ''AttributeError'')) (\<lambda>refs.
     bindR (ref_ids ''test-input'' (cg_scope x) (map fst (cg_outer_inputs x)) ''unsupported-inputs-invalid'' True refs) (\<lambda>inputs.
     Inr (ids, inputs)))))"

definition cg_partitions :: "dict \<Rightarrow> cg_index \<Rightarrow> unit shared" where
  "cg_partitions semantics x =
     bindR (mapR (input_members x) (cg_inputs x)) (\<lambda>represented.
     bindR (items_at (JObj semantics) ''unsupported_dimensions'') (\<lambda>dimensions.
     bindR (mapR (unsupported_of x) dimensions) (\<lambda>unsupported.
       let r = set (concat represented); u = set (concat (map fst unsupported)); ui = set (concat (map snd unsupported)) in
       if r \<inter> u \<noteq> {} \<or> r \<union> u \<noteq> set (map fst (cg_members x))
       then refuse ''source-member-partition-incomplete'' ''represented and unsupported source members are not a complete disjoint partition''
       else require (set (map fst (cg_inputs x)) \<inter> ui = {} \<and> set (map fst (cg_inputs x)) \<union> ui = set (map fst (cg_outer_inputs x)))
              ''cg-input-partition-incomplete'' ''represented and unsupported CG inputs are not a complete disjoint partition'')))"

definition check_obligation :: "dict \<Rightarrow> cg_index \<Rightarrow> string \<times> dict \<Rightarrow> unit shared" where
  "check_obligation semantics x entry =
     bindR (at_key (JObj (snd entry)) ''coverage_ref'') (\<lambda>ref.
     bindR (coverage_members ref semantics) (\<lambda>_.
     bindR (at_key (JObj (snd entry)) ''required_input_refs'') (\<lambda>refs.
     bindR (ref_ids ''test-input'' (cg_scope x) (map fst (cg_inputs x)) ''obligation-inputs-invalid'' False refs) (\<lambda>_. Inr ()))))"

definition validate_cg :: "shared_library \<Rightarrow> dict \<Rightarrow> dict shared" where
  "validate_cg lib cg =
     bindR (cg_identity lib cg) (\<lambda>_.
     bindR (cg_semantics lib cg) (\<lambda>semantics.
     bindR (cg_binding lib cg semantics) (\<lambda>binding.
     bindR (read_cg cg semantics) (\<lambda>x.
     bindR (cg_complete lib binding x) (\<lambda>_.
     bindR (check_each (check_member lib x) (cg_members x)) (\<lambda>_.
     bindR (check_each (check_source_artifact lib cg x) (cg_artifacts x)) (\<lambda>_.
     bindR (cg_partitions semantics x) (\<lambda>_.
     bindR (require (list_all (\<lambda>(i, o'). get_or_null o' ''required'' = JBool True) (cg_obligations x)) ''optional-obligation''
              ''all shared-contract obligations must be required'') (\<lambda>_.
     bindR (check_each (check_obligation semantics x) (cg_obligations x)) (\<lambda>_.
     Inr semantics))))))))))"

section \<open>The candidate bundle\<close>

definition artifact_bytes :: "shared_library \<Rightarrow> (string \<times> nat list) list option \<Rightarrow> string \<Rightarrow> json \<Rightarrow> nat list shared" where
  "artifact_bytes lib exact i v =
     (case Option.bind exact (\<lambda>m. map_of m i) of Some raw \<Rightarrow> Inr raw | None \<Rightarrow> canonical_bytes lib v)"

definition artifact_content ::
  "shared_library \<Rightarrow> (string \<times> dict) list \<Rightarrow> (string \<times> nat list) list option \<Rightarrow> string \<times> json \<Rightarrow> (string \<times> nat list) shared" where
  "artifact_content lib artifacts exact entry =
     (let (i, v) = entry in
      bindR (artifact_bytes lib exact i v) (\<lambda>raw.
      bindR (strict_json_bytes lib raw (''candidate artifact '' @ i)) (\<lambda>decoded.
        if \<not> py_equal lib (JObj decoded) v
        then refuse ''candidate-artifact-integrity-failed'' (''candidate artifact decodes differently: '' @ i)
        else bindR (dict_at (JObj (the (map_of artifacts i))) ''content'') (\<lambda>locator.
          if get_or_null locator ''digest'' \<noteq> JStr (sha256_digest lib raw)
             \<or> \<not> py_equal lib (get_or_null locator ''byte_length'') (JInt (int (length raw)))
             \<or> get_or_null locator ''immutable'' \<noteq> JBool True
          then refuse ''candidate-artifact-integrity-failed'' (''candidate artifact differs: '' @ i) else Inr (i, raw)))))"

definition resolve_artifact_contents ::
  "shared_library \<Rightarrow> dict \<Rightarrow> json \<Rightarrow> (string \<times> nat list) list option \<Rightarrow> (string \<times> nat list) list shared" where
  "resolve_artifact_contents lib dg candidate exact =
     (case get_or_null dg ''candidate_artifact_contents'' of
        JObj raw \<Rightarrow>
          bindR (index_at candidate ''artifacts'' ''artifact_id'' ''candidate-artifacts-invalid'') (\<lambda>artifacts.
            if \<not> same_keys raw artifacts
            then refuse ''candidate-artifact-partition-incomplete'' ''candidate artifact content set differs''
            else mapR (artifact_content lib artifacts exact) raw)
      | _ \<Rightarrow> refuse ''candidate-artifacts-absent'' ''DG result has no candidate_artifact_contents'')"

definition bundle_identity :: "shared_library \<Rightarrow> dict \<Rightarrow> dict \<Rightarrow> unit shared" where
  "bundle_identity lib bundle candidate =
     (if get_or_null candidate ''selected_control_class'' \<noteq> JStr ''waf''
      then refuse ''candidate-control-class-invalid'' ''WAF-first requires a WAF candidate''
      else bindR (digest_without lib candidate [''candidate_digest'']) (\<lambda>expected.
        if get_or_null candidate ''candidate_digest'' \<noteq> JStr expected
        then refuse ''candidate-digest-mismatch'' ''candidate digest differs''
        else bindR (digest lib (JObj (dict_set ''primary_candidate'' (JObj (dict_without [''candidate_digest''] candidate))
                          (dict_without [''bundle_digest''] bundle)))) (\<lambda>expected.
          require (get_or_null bundle ''bundle_digest'' = JStr expected) ''bundle-digest-mismatch'' ''bundle digest differs'')))"

definition bound_document :: "dict \<Rightarrow> json" where
  "bound_document decoded =
     (case (case get decoded ''run_result'' of Some v \<Rightarrow> v | None \<Rightarrow> JObj decoded) of
        JObj kvs \<Rightarrow> JObj (dict_without [''_verified_characterization_revision_id''] kvs) | j \<Rightarrow> j)"

definition bundle_binding :: "shared_library \<Rightarrow> dict \<Rightarrow> dict \<Rightarrow> dict \<Rightarrow> nat list option \<Rightarrow> unit shared" where
  "bundle_binding lib bundle semantics cg cg_raw =
     bindR (dict_at (JObj bundle) ''semantics_binding'') (\<lambda>binding.
       if list_ex (\<lambda>k. \<not> same_field lib binding semantics k) [''contract_id'', ''semantics_id'', ''semantics_revision'', ''semantics_digest'']
       then refuse ''bound-semantics-mismatch'' ''DG semantics binding differs''
       else bindR (at_key (JObj binding) ''locator'') (\<lambda>locator.
         bindR (case cg_raw of Some (b # bs) \<Rightarrow> Inr (b # bs) | _ \<Rightarrow> canonical_bytes lib (JObj cg)) (\<lambda>exact.
         bindR (strict_json_bytes lib exact ''bound CG result'') (\<lambda>decoded.
           if \<not> py_equal lib (bound_document decoded) (JObj cg)
           then refuse ''bound-cg-locator-mismatch'' ''DG bound CG bytes decode differently''
           else bindR (dot_get locator ''digest'') (\<lambda>locator_digest.
                bindR (dot_get locator ''byte_length'') (\<lambda>byte_length.
                require (locator_digest = JStr (sha256_digest lib exact) \<and> py_equal lib byte_length (JInt (int (length exact))))
                  ''bound-cg-locator-mismatch'' ''DG does not bind the exact CG final result''))))))"

record bundle_index =
  bx_scope :: json
  bx_artifacts :: "(string \<times> dict) list"
  bx_directives :: "(string \<times> dict) list"
  bx_groups :: "(string \<times> dict) list"
  bx_mappings :: "(string \<times> dict) list"
  bx_obligations :: "(string \<times> dict) list"
  bx_members :: "(string \<times> dict) list"

definition application_modes :: "(string \<times> json) list" where
  "application_modes =
     [(''apply'', JStr ''all-or-nothing''), (''rollback'', JStr ''all-or-nothing''), (''remove'', JStr ''all-or-nothing''),
      (''readback'', JStr ''verify-every-artifact-or-rollback'')]"

definition check_application :: "json \<Rightarrow> dict \<Rightarrow> (string \<times> dict) list \<Rightarrow> unit shared" where
  "check_application scope bundle artifacts =
     bindR (dict_at (JObj bundle) ''application_unit'') (\<lambda>unit.
     bindR (at_key (JObj unit) ''artifact_refs'') (\<lambda>refs.
     bindR (ref_ids ''artifact'' scope (map fst artifacts) ''application-unit-invalid'' False refs) (\<lambda>ids.
       require (set ids = set (map fst artifacts) \<and> list_all (\<lambda>(k, v). get_or_null unit k = v) application_modes)
         ''application-unit-incomplete'' ''DG complete application unit differs'')))"

definition check_placement :: "bundle_index \<Rightarrow> string \<times> dict \<Rightarrow> unit shared" where
  "check_placement x entry =
     (let (i, artifact) = entry; known = map fst (bx_artifacts x) in
      bindR (at_key (JObj artifact) ''application_group_ref'') (\<lambda>ref.
      bindR (ref_ids ''atomic-group'' (bx_scope x) (map fst (bx_groups x)) ''artifact-atomic-group-invalid'' False (JArr [ref])) (\<lambda>group_ids.
      bindR (at_key (JObj artifact) ''depends_on'') (\<lambda>refs.
      bindR (ref_ids ''artifact'' (bx_scope x) known ''artifact-dependency-invalid'' True refs) (\<lambda>_.
      bindR (at_key (JObj (the (map_of (bx_groups x) (hd group_ids)))) ''artifact_refs'') (\<lambda>refs.
      bindR (ref_ids ''artifact'' (bx_scope x) known ''atomic-group-artifacts-invalid'' False refs) (\<lambda>members.
        require (i \<in> set members) ''artifact-atomic-group-invalid'' ''artifact is absent from its atomic group'')))))))"

definition check_mapping :: "shared_library \<Rightarrow> dict \<Rightarrow> bundle_index \<Rightarrow> json \<Rightarrow> string \<times> dict \<Rightarrow> unit shared" where
  "check_mapping lib semantics x semantics_id entry =
     (let (i, mapping) = entry; obligation = the (map_of (bx_obligations x) i) in
      bindR (at_key (JObj obligation) ''coverage_ref'') (\<lambda>ref.
        if get_or_null mapping ''coverage'' \<noteq> JStr ''exact'' \<or> \<not> py_equal lib (get_or_null mapping ''semantics_refs'') (JArr [ref])
        then refuse ''obligation-semantics-mismatch'' (''DG semantics mapping differs: '' @ i)
        else
          bindR (at_key (JObj mapping) ''source_member_refs'') (\<lambda>refs.
          bindR (ref_ids ''source-member'' semantics_id (map fst (bx_members x)) ''obligation-members-invalid'' False refs) (\<lambda>ids.
          bindR (coverage_members ref semantics) (\<lambda>covered.
            if set (strings ids) \<noteq> set covered
            then refuse ''obligation-source-ancestry-mismatch'' (''DG source-member mapping differs: '' @ i)
            else
              bindR (at_key (JObj mapping) ''artifact_refs'') (\<lambda>refs.
              bindR (ref_ids ''artifact'' (bx_scope x) (map fst (bx_artifacts x)) ''obligation-artifacts-invalid'' False refs) (\<lambda>_.
              bindR (at_key (JObj mapping) ''directive_refs'') (\<lambda>refs.
              bindR (ref_ids ''directive'' (bx_scope x) (map fst (bx_directives x)) ''obligation-directives-invalid'' False refs) (\<lambda>_.
              Inr ())))))))))"

definition attestation_of :: "dict \<Rightarrow> dict \<Rightarrow> dict shared" where
  "attestation_of bundle candidate =
     mapR (\<lambda>(source, k). bindR (at_key (JObj source) k) (\<lambda>v. Inr (k, v)))
       (map (Pair bundle) [''bundle_id'', ''bundle_revision'', ''bundle_digest'']
        @ map (Pair candidate) [''candidate_id'', ''candidate_revision'', ''candidate_digest''])"

definition bundle_order :: "shared_library \<Rightarrow> json \<Rightarrow> nat \<Rightarrow> unit shared" where
  "bundle_order lib candidate n =
     bindR (items_at candidate ''artifacts'') (\<lambda>items.
     bindR (mapR (\<lambda>item. dot_get item ''order'') items) (\<lambda>orders.
       require (py_equal lib (JArr orders) (JArr (map (\<lambda>i. JInt (int i)) [0..<n])))
         ''candidate-artifact-order-invalid'' ''candidate artifact order is not contiguous''))"

definition validate_bundle ::
  "shared_library \<Rightarrow> dict \<Rightarrow> dict \<Rightarrow> dict \<Rightarrow> nat list option \<Rightarrow> dict \<Rightarrow> (string \<times> nat list) list option
    \<Rightarrow> (dict \<times> (string \<times> nat list) list) shared" where
  "validate_bundle lib bundle semantics cg cg_raw dg exact =
     bindR (validate_schema lib BUNDLE_SCHEMA_ID (JObj bundle)) (\<lambda>_.
     bindR (dict_at (JObj bundle) ''primary_candidate'') (\<lambda>candidate.
     bindR (bundle_identity lib bundle candidate) (\<lambda>_.
     bindR (bundle_binding lib bundle semantics cg cg_raw) (\<lambda>_.
     bindR (index_at (JObj candidate) ''artifacts'' ''artifact_id'' ''candidate-artifacts-invalid'') (\<lambda>artifacts.
     bindR (index_at (JObj candidate) ''directives'' ''directive_id'' ''candidate-directives-invalid'') (\<lambda>directives.
     bindR (bundle_order lib (JObj candidate) (length artifacts)) (\<lambda>_.
     bindR (resolve_artifact_contents lib dg (JObj candidate) exact) (\<lambda>contents.
     bindR (at_key (JObj bundle) ''bundle_id'') (\<lambda>scope.
     bindR (check_application scope bundle artifacts) (\<lambda>_.
     bindR (index_at (JObj bundle) ''atomic_groups'' ''atomic_group_id'' ''atomic-groups-invalid'') (\<lambda>groups.
     bindR (index_at (JObj semantics) ''obligations'' ''obligation_id'' ''obligations-invalid'') (\<lambda>obligations.
     let x = \<lparr>bx_scope = scope, bx_artifacts = artifacts, bx_directives = directives, bx_groups = groups, bx_mappings = [],
              bx_obligations = obligations, bx_members = []\<rparr> in
     bindR (check_each (check_placement x) artifacts) (\<lambda>_.
     bindR (index_at (JObj candidate) ''obligation_mappings'' ''obligation_id'' ''candidate-mappings-invalid'') (\<lambda>mappings.
     bindR (require (same_keys mappings obligations) ''obligation-id-incomplete'' ''DG mapping IDs differ from required CG IDs'') (\<lambda>_.
     bindR (at_key (JObj semantics) ''source_binding'') (\<lambda>source.
     bindR (index_at source ''members'' ''member_id'' ''source-members-invalid'') (\<lambda>members.
     bindR (at_key (JObj semantics) ''semantics_id'') (\<lambda>semantics_id.
     bindR (check_each (check_mapping lib semantics (x\<lparr>bx_mappings := mappings, bx_members := members\<rparr>) semantics_id) mappings) (\<lambda>_.
     bindR (attestation_of bundle candidate) (\<lambda>attestation.
     Inr (attestation, contents)))))))))))))))))))))"

end
