(* ===== verification/SharedChecks.thy ===== *)
theory SharedChecks
  imports SharedJoin
begin

text \<open>
  The verification of a Mitigation Check result in \<^verbatim>\<open>shared_contracts_v2.py\<close>: it applied the
  whole candidate, and blocked every required case of every obligation, on the request that the approved
  route renders.
\<close>

section \<open>Accounting\<close>

definition accounting_document :: "coverage_accounting \<Rightarrow> json" where
  "accounting_document a = JObj
     [(''required_obligation_count'', JInt (int (required_obligation_count a))),
      (''accounted_obligation_count'', JInt (int (accounted_obligation_count a))),
      (''unaccounted_required_obligation_count'', JInt (int (unaccounted_required_obligation_count a))),
      (''source_member_count'', JInt (int (source_member_count a))),
      (''represented_source_member_count'', JInt (int (represented_source_member_count a))),
      (''unsupported_source_member_count'', JInt (int (unsupported_source_member_count a))),
      (''unaccounted_source_member_count'', JInt (int (unaccounted_source_member_count a))),
      (''required_work_item_count'', JInt (int (required_work_item_count a))),
      (''disposed_work_item_count'', JInt (int (disposed_work_item_count a))),
      (''unaccounted_required_work_item_count'', JInt (int (unaccounted_required_work_item_count a)))]"

text \<open>The ids in the source member references of a list of items.\<close>

definition member_ids :: "json list \<Rightarrow> json list shared" where
  "member_ids items =
     bindR (mapR (\<lambda>item. bindR (items_at item ''source_member_refs'') (column ''id'')) items) (\<lambda>parts. Inr (concat parts))"

definition accounting :: "dict \<Rightarrow> nat \<Rightarrow> nat \<Rightarrow> coverage_accounting shared" where
  "accounting semantics required_work disposed_work =
     bindR (at_key (JObj semantics) ''source_binding'') (\<lambda>source.
     bindR (bindR (items_at source ''members'') (column ''member_id'')) (\<lambda>members.
     bindR (bindR (items_at (JObj semantics) ''test_inputs'') member_ids) (\<lambda>represented.
     bindR (bindR (items_at (JObj semantics) ''unsupported_dimensions'') member_ids) (\<lambda>unsupported.
       if set represented \<inter> set unsupported \<noteq> {} \<or> set represented \<union> set unsupported \<noteq> set members
       then refuse ''source-member-partition-incomplete'' ''source member partition differs''
       else if required_work < disposed_work
       then refuse ''coverage-accounting-invalid'' ''disposed work exceeds required work''
       else bindR (items_at (JObj semantics) ''obligations'') (\<lambda>obligations. Inr
         \<lparr>required_obligation_count = length obligations, accounted_obligation_count = length obligations,
          unaccounted_required_obligation_count = 0, source_member_count = length (remdups members),
          represented_source_member_count = length (remdups represented),
          unsupported_source_member_count = length (remdups unsupported), unaccounted_source_member_count = 0,
          required_work_item_count = required_work, disposed_work_item_count = disposed_work,
          unaccounted_required_work_item_count = required_work - disposed_work\<rparr>)))))"

section \<open>Templates\<close>

definition template_invalid :: "string \<Rightarrow> 'a shared" where
  "template_invalid detail = refuse ''mc-template-resolution-invalid'' detail"

definition resolved_path :: "json \<Rightarrow> json \<Rightarrow> json shared" where
  "resolved_path route payload =
     bindR (at_key route ''path'') (\<lambda>path.
       if payload = JNull then Inr path
       else (case nonempty_str payload of
           None \<Rightarrow> template_invalid ''MC template path_payload is invalid''
         | Some p \<Rightarrow>
             (case path of
                JStr s \<Rightarrow> Inr (JStr (rstrip_by (\<lambda>c. c = CHR ''/'') s @ ''/'' @ escape_path_payload p))
              | _ \<Rightarrow> Inl (PythonError ''AttributeError''))))"

definition expected_template_resolution :: "dict \<Rightarrow> string \<Rightarrow> string \<Rightarrow> string \<Rightarrow> json \<Rightarrow> dict shared" where
  "expected_template_resolution item resolver profile_id profile_digest route =
     bindR (dict_at (JObj item) ''input'') (\<lambda>template.
     bindR (resolved_path route (get_or_null template ''path_payload'')) (\<lambda>path.
     bindR (at_key route ''scheme'') (\<lambda>scheme.
     bindR (at_key route ''authority'') (\<lambda>authority.
     bindR (at_key (JObj item) ''input_id'') (\<lambda>input_id.
     bindR (at_key (JObj template) ''path_key'') (\<lambda>path_key.
     Inr [(''template_id'', input_id), (''path_key'', path_key), (''resolver_id'', JStr resolver), (''profile_id'', JStr profile_id),
          (''resolver_profile_digest'', JStr profile_digest),
          (''rendered_request'', JObj (dict_set ''path'' path (dict_set ''authority'' authority (dict_set ''scheme'' scheme
             (dict_set ''modality'' (JStr ''http-request'') (dict_without [''path_key'', ''path_payload''] template))))))]))))))"

section \<open>Mitigation Check\<close>

definition evidence_fields :: "string list" where
  "evidence_fields = [''blocked'', ''status_code'', ''reached_app'', ''matched_rule_id'', ''detail'']"

definition blocked_evidence :: "shared_library \<Rightarrow> dict \<Rightarrow> bool" where
  "blocked_evidence lib e =
     (get_or_null e ''blocked'' = JBool True \<and> py_equal lib (get_or_null e ''status_code'') (JInt 403)
      \<and> ''reached_app'' \<notin> set (keys e) \<and> nonempty_str (get_or_null e ''matched_rule_id'') \<noteq> None)"

definition passed_evidence :: "dict \<Rightarrow> bool" where
  "passed_evidence e =
     (''blocked'' \<notin> set (keys e) \<and> (case get_or_null e ''status_code'' of JInt n \<Rightarrow> 100 \<le> n \<and> n \<le> 599 | _ \<Rightarrow> False)
      \<and> get_or_null e ''reached_app'' = JBool True \<and> ''matched_rule_id'' \<notin> set (keys e))"

definition validate_mc_evidence :: "shared_library \<Rightarrow> dict \<Rightarrow> string \<Rightarrow> unit shared" where
  "validate_mc_evidence lib case_result obligation =
     bindR (at_key (JObj case_result) ''disposition'') (\<lambda>disposition.
       case get_or_null case_result ''evidence'' of
         JObj e \<Rightarrow>
           if e = [] \<or> \<not> set (keys e) \<subseteq> set evidence_fields
           then refuse ''mc-case-evidence-invalid'' (''MC evidence differs: '' @ obligation)
           else if nonempty_str (get_or_null e ''detail'') = None
           then refuse ''mc-case-evidence-invalid'' (''MC evidence detail is absent: '' @ obligation)
           else require (if disposition = JStr ''blocked'' then blocked_evidence lib e
                         else if disposition = JStr ''not-blocked'' then passed_evidence e else set (keys e) = {''detail''})
                  ''mc-case-evidence-invalid'' (''MC evidence contradicts disposition: '' @ obligation)
       | _ \<Rightarrow> refuse ''mc-case-evidence-invalid'' (''MC evidence differs: '' @ obligation))"

definition mc_routes :: "shared_library \<Rightarrow> string \<Rightarrow> string \<Rightarrow> json shared" where
  "mc_routes lib profile_id profile_digest =
     (if profile_id \<noteq> CT_PROFILE_ID then Inr (JObj legacy_routes)
      else let raw = embedded_file lib mc_profile_file in
        if length raw \<noteq> MC_PROFILE_BYTE_LENGTH \<or> sha256_digest lib raw \<noteq> MC_PROFILE_FILE_DIGEST
        then refuse ''mc-profile-integrity-failed'' ''embedded waf-standard@2 profile bytes differ''
        else bindR (strict_json_bytes lib raw ''waf-standard@2 profile'') (\<lambda>profile.
          if get_or_null profile ''profile_id'' \<noteq> JStr CT_PROFILE_ID \<or> get_or_null profile ''resolver_id'' \<noteq> JStr MC_RESOLVER_ID
          then refuse ''mc-profile-integrity-failed'' ''embedded waf-standard@2 profile identity differs''
          else bindR (digest lib (JObj profile)) (\<lambda>actual.
            if actual \<noteq> profile_digest
            then refuse ''mc-profile-integrity-failed'' ''embedded waf-standard@2 profile identity differs''
            else Inr (case get profile ''routes'' of None \<Rightarrow> JObj [] | Some v \<Rightarrow> v))))"

definition validate_mc_resolution :: "shared_library \<Rightarrow> dict \<Rightarrow> dict \<Rightarrow> string \<Rightarrow> string \<Rightarrow> string \<Rightarrow> unit shared" where
  "validate_mc_resolution lib case_result item obligation profile_id profile_digest =
     bindR (dict_at (JObj item) ''input'') (\<lambda>template.
       let resolution = get_or_null case_result ''resolution'' in
       if get_or_null template ''modality'' \<noteq> JStr ''http-request-template''
       then (if resolution = JNull then Inr ()
             else template_invalid (''MC invented a template resolution: '' @ obligation))
       else
         bindR (mc_routes lib profile_id profile_digest) (\<lambda>routes.
         bindR (need_hashable (get_or_null template ''path_key'')) (\<lambda>key.
         bindR (case key of JStr k \<Rightarrow> dot_get routes k | _ \<Rightarrow> dot_get routes []) (\<lambda>route.
           if \<not> is_str key \<or> route = JNull then template_invalid (''MC accepted an unknown path key: '' @ obligation)
           else bindR (expected_template_resolution item MC_RESOLVER_ID profile_id profile_digest route) (\<lambda>expected.
             if py_equal lib resolution (JObj expected) then Inr ()
             else template_invalid (''MC template resolution differs: '' @ obligation))))))"

definition case_fields :: "string list" where
  "case_fields = [''input_id'', ''disposition'', ''resolution'', ''evidence'']"

definition blocked_case :: "dict \<Rightarrow> bool" where
  "blocked_case c =
     (set (keys c) \<subseteq> set case_fields \<and> {''input_id'', ''disposition'', ''evidence''} \<subseteq> set (keys c)
      \<and> get_or_null c ''disposition'' = JStr ''blocked'')"

definition check_case ::
  "shared_library \<Rightarrow> (string \<times> dict) list \<Rightarrow> string \<Rightarrow> string \<Rightarrow> string \<Rightarrow> string \<times> dict \<Rightarrow> unit shared" where
  "check_case lib inputs obligation profile_id profile_digest entry =
     bindR (validate_mc_evidence lib (snd entry) obligation) (\<lambda>_.
       case map_of inputs (fst entry) of
         None \<Rightarrow> Inl (PythonError ''KeyError'')
       | Some item \<Rightarrow> validate_mc_resolution lib (snd entry) item obligation profile_id profile_digest)"

text \<open>The number of cases of an obligation, all of them blocked.\<close>

definition obligation_cases ::
  "shared_library \<Rightarrow> (string \<times> dict) list \<Rightarrow> (string \<times> dict) list \<Rightarrow> string \<Rightarrow> string \<Rightarrow> string \<times> dict \<Rightarrow> nat shared" where
  "obligation_cases lib inputs results profile_id profile_digest entry =
     (let (i, obligation) = entry in
      bindR (index_items (get_or_null (the (map_of results i)) ''case_results'') ''input_id'' ''mc-case-results-invalid'') (\<lambda>cases.
      bindR (bindR (items_at (JObj obligation) ''required_input_refs'') (column ''id'')) (\<lambda>expected.
        if set (strings (map fst cases)) \<noteq> set expected \<or> \<not> list_all (\<lambda>(_, c). blocked_case c) cases
        then refuse ''mc-translation-outcome-invalid'' (''MC required cases must all be blocked: '' @ i)
        else bindR (check_each (check_case lib inputs i profile_id profile_digest) cases) (\<lambda>_. Inr (length cases)))))"

definition VERIFICATIONS :: "string list" where
  "VERIFICATIONS = [''physical-and-logical-sha256-verified'', ''workflow-lab-physical-and-logical-sha256-verified'']"

type_synonym locators = "upstream_capability \<Rightarrow> upstream_input"

definition check_mc_identity :: "shared_library \<Rightarrow> dict \<Rightarrow> locators \<Rightarrow> string \<Rightarrow> unit shared" where
  "check_mc_identity lib mc locs profile_id =
     (if list_ex (\<lambda>(k, v). get_or_null mc k \<noteq> JStr v)
           [(''capability'', ''mitigation-check''), (''contract_id'', ''mitigation-check@1.0''), (''terminal_state'', ''blocked''),
            (''status'', ''completed''), (''profile_id'', profile_id)]
      then refuse ''mc-identity-invalid'' ''MC identity, state, or profile differs''
      else if get_or_null mc ''match'' \<noteq> JBool True
      then refuse ''mc-aggregate-outcome-invalid'' ''MC blocked aggregate must report match true''
      else (case get_or_null mc ''input_provenance'' of
          JObj p \<Rightarrow>
            if get_or_null p ''route_policy'' \<noteq> JStr ''shared-attack-contracts-v2''
            then refuse ''mc-chain-provenance-mismatch'' ''MC chain provenance differs''
            else bindR (need_hashable (get_or_null p ''verification'')) (\<lambda>verification.
              if verification \<notin> set (strings VERIFICATIONS)
              then refuse ''mc-chain-provenance-mismatch'' ''MC chain provenance differs''
              else if \<not> same_locator_document lib (get_or_null p ''check_result'') (locs CheckGeneration)
              then refuse ''mc-chain-provenance-mismatch'' ''MC check_result differs''
              else require (same_locator_document lib (get_or_null p ''defense_result'') (locs DefenseGeneration))
                     ''mc-chain-provenance-mismatch'' ''MC defense_result differs'')
        | _ \<Rightarrow> refuse ''mc-chain-provenance-mismatch'' ''MC chain provenance differs''))"

definition check_mc_application :: "shared_library \<Rightarrow> dict \<Rightarrow> dict \<Rightarrow> unit shared" where
  "check_mc_application lib mc bundle =
     bindR (at_key (JObj bundle) ''application_unit'') (\<lambda>unit.
     bindR (bindR (items_at unit ''artifact_refs'') (mapR (\<lambda>r. at_key r ''id''))) (\<lambda>ids.
     bindR (at_key unit ''application_unit_id'') (\<lambda>unit_id.
       require (py_equal lib (get_or_null mc ''application_unit'')
                  (JObj [(''application_unit_id'', unit_id), (''artifact_ids'', JArr ids), (''readback_verified'', JBool True)]))
         ''mc-application-attestation-mismatch'' ''MC complete application unit differs'')))"

definition validate_mc ::
  "shared_library \<Rightarrow> dict \<Rightarrow> dict \<Rightarrow> dict \<Rightarrow> locators \<Rightarrow> string \<Rightarrow> string \<Rightarrow> unit shared" where
  "validate_mc lib mc semantics bundle locs profile_id profile_digest =
     bindR (check_mc_identity lib mc locs profile_id) (\<lambda>_.
     bindR (check_mc_application lib mc bundle) (\<lambda>_.
     bindR (index_at (JObj semantics) ''obligations'' ''obligation_id'' ''obligations-invalid'') (\<lambda>obligations.
     bindR (index_items (get_or_null mc ''obligation_results'') ''obligation_id'' ''mc-obligation-results-invalid'') (\<lambda>results.
     bindR (require (same_keys results obligations) ''mc-obligation-accounting-invalid'' ''MC obligation IDs differ'') (\<lambda>_.
     bindR (index_at (JObj semantics) ''test_inputs'' ''input_id'' ''semantics-inputs-invalid'') (\<lambda>inputs.
     bindR (mapR (obligation_cases lib inputs results profile_id profile_digest) obligations) (\<lambda>counts.
     bindR (accounting semantics (sum_list counts) (sum_list counts)) (\<lambda>a.
     require (py_equal lib (get_or_null mc ''accounting'') (accounting_document a)) ''mc-accounting-invalid'' ''MC CoverageAccounting differs''))))))))"

end
