(* ===== verification/SharedBypass.thy ===== *)
theory SharedBypass
  imports SharedChecks
begin

text \<open>
  The Bypass Validation profiles of \<^verbatim>\<open>shared_contracts_v2.py\<close> and the work they require: for
  each input and component of an obligation the transformations a campaign must have tried, the labels of
  its grammar, and the attributions of the third profile that name approved challenges.
\<close>

definition bv_invalid :: "string \<Rightarrow> 'a shared" where
  "bv_invalid detail = refuse ''bv-dimension-invalid'' detail"

section \<open>Texts\<close>

function split_text :: "string \<Rightarrow> string \<Rightarrow> string list" where
  "split_text sep [] = [[]]"
| "split_text sep (c # cs) =
     (if sep \<noteq> [] \<and> starts_with (c # cs) sep then [] # split_text sep (drop (length sep) (c # cs))
      else (case split_text sep cs of [] \<Rightarrow> [[c]] | p # ps \<Rightarrow> (c # p) # ps))"
  by pat_completeness auto
termination by (relation "measure (\<lambda>(sep, s). length s)") auto

text \<open>\<^verbatim>\<open>rpartition\<close>: the text before the last separator, if there is one, and the text after it.\<close>

definition rpartition_c :: "string \<Rightarrow> char \<Rightarrow> string option \<times> string" where
  "rpartition_c s c =
     (let after = rev (takeWhile (\<lambda>x. x \<noteq> c) (rev s)) in
      (if c \<in> set s then Some (take (length s - length after - 1) s) else None, after))"

definition is_decimal :: "string \<Rightarrow> bool" where
  "is_decimal s = (s \<noteq> [] \<and> list_all is_digit s)"

text \<open>\<^verbatim>\<open>isdigit\<close> also holds of the superscripts, which \<^verbatim>\<open>int\<close> does not read.\<close>

definition is_digits :: "string \<Rightarrow> bool" where
  "is_digits s = (s \<noteq> [] \<and> list_all (\<lambda>c. is_digit c \<or> ord_c c \<in> {178, 179, 185}) s)"

definition longest :: "string list \<Rightarrow> string" where
  "longest ss = foldl (\<lambda>best s. if length best < length s then s else best) (hd ss) (tl ss)"

section \<open>Profiles\<close>

definition BV_RESOLVER_ID :: string where "BV_RESOLVER_ID = ''bv-approved-route-adapter''"

definition LEGACY_BV_PROFILE_FILE_DIGEST :: string where
  "LEGACY_BV_PROFILE_FILE_DIGEST = ''sha256:e32674808bc8691021f26683aaa44bdd313a25875ea57168ddb4e0a2a6c1e2bc''"
definition LEGACY_BV_RESOLVER_PROFILE_DIGEST :: string where
  "LEGACY_BV_RESOLVER_PROFILE_DIGEST = ''sha256:46f4d0dd59e1464acc1ef19ef68d0134a4be554cc203da653192f057aa82e577''"
definition BV_PROFILE_FILE_DIGEST :: string where
  "BV_PROFILE_FILE_DIGEST = ''sha256:9373f61caafa9fcede696e9c01e7d146235994b35faed4c9ada147b3f78396a6''"
definition BV_RESOLVER_PROFILE_DIGEST :: string where
  "BV_RESOLVER_PROFILE_DIGEST = ''sha256:749b4773b1f479e0b5ce00868a99a148076be87952640b41408d9dd3dc3f14f9''"

definition LEGACY_MC_RESOLVER_PROFILE_DIGEST :: string where
  "LEGACY_MC_RESOLVER_PROFILE_DIGEST = ''sha256:e28f9574b07194222a317dfc4f03293beafb6e3613b87452a4191652fd6b6b1a''"

record profile_file =
  pf_name :: string
  pf_length :: nat
  pf_digest :: string
  pf_profile_digest :: string

definition bv_profile_files :: "(string \<times> profile_file) list" where
  "bv_profile_files =
     [(''waf-bypass@2'', \<lparr>pf_name = ''bv-http-route-profile.json'', pf_length = 3745, pf_digest = LEGACY_BV_PROFILE_FILE_DIGEST,
                          pf_profile_digest = LEGACY_BV_RESOLVER_PROFILE_DIGEST\<rparr>),
      (''waf-bypass@3'', \<lparr>pf_name = ''bv-http-route-profile-v3.json'', pf_length = 6251, pf_digest = BV_PROFILE_FILE_DIGEST,
                          pf_profile_digest = BV_RESOLVER_PROFILE_DIGEST\<rparr>)]"

text \<open>The profiles that belong to a profile of Control Translation.\<close>

definition expected_profiles :: "string \<Rightarrow> (string \<times> string \<times> string \<times> string) shared" where
  "expected_profiles profile_id =
     (if profile_id = LEGACY_CT_PROFILE_ID
      then Inr (LEGACY_CT_PROFILE_ID, LEGACY_MC_RESOLVER_PROFILE_DIGEST, ''waf-bypass@2'', LEGACY_BV_RESOLVER_PROFILE_DIGEST)
      else if profile_id = CT_PROFILE_ID
      then Inr (CT_PROFILE_ID, MC_RESOLVER_PROFILE_DIGEST, ''waf-bypass@3'', BV_RESOLVER_PROFILE_DIGEST)
      else refuse ''ct-profile-invalid'' ''unapproved Control Translation profile'')"

definition expected_manifest :: "string \<Rightarrow> profile_file \<Rightarrow> json" where
  "expected_manifest profile_id f = JObj
     [(''manifest_version'', JInt 1), (''profile_id'', JStr profile_id), (''resolver_id'', JStr BV_RESOLVER_ID),
      (''registry_id'', JStr ''janus-approved-test-routes''), (''relative_path'', JStr (pf_name f)), (''sha256'', JStr (pf_digest f)),
      (''byte_length'', JInt (int (pf_length f))), (''resolver_profile_digest'', JStr (pf_profile_digest f))]"

definition bv_integrity :: "string \<Rightarrow> 'a shared" where
  "bv_integrity detail = refuse ''bv-profile-integrity-failed'' detail"

definition bv_profile :: "shared_library \<Rightarrow> string \<Rightarrow> dict shared" where
  "bv_profile lib profile_id =
     (case map_of bv_profile_files profile_id of
        None \<Rightarrow> bv_integrity ''unapproved embedded BV profile''
      | Some f \<Rightarrow>
          bindR (if profile_id = ''waf-bypass@3'' then
                   bindR (strict_json_bytes lib (embedded_file lib ''manifest-v3.json'') ''waf-bypass@3 manifest'') (\<lambda>manifest.
                     if py_equal lib (JObj manifest) (expected_manifest profile_id f) then Inr ()
                     else bv_integrity ''embedded waf-bypass@3 manifest metadata differs'')
                 else Inr ()) (\<lambda>_.
          let raw = embedded_file lib (pf_name f); differs = ''embedded '' @ profile_id @ '' profile identity differs'' in
          if length raw \<noteq> pf_length f \<or> sha256_digest lib raw \<noteq> pf_digest f
          then bv_integrity (''embedded '' @ profile_id @ '' profile bytes differ'')
          else bindR (strict_json_bytes lib raw (profile_id @ '' profile'')) (\<lambda>profile.
            if get_or_null profile ''profile_id'' \<noteq> JStr profile_id \<or> get_or_null profile ''resolver_id'' \<noteq> JStr BV_RESOLVER_ID
            then bv_integrity differs
            else bindR (digest lib (JObj profile)) (\<lambda>actual.
              if actual \<noteq> pf_profile_digest f \<or> \<not> is_obj (get_or_null profile ''routes'')
                 \<or> \<not> is_obj (get_or_null profile ''bypass_dimensions'')
              then bv_integrity differs else Inr profile))))"

section \<open>Components\<close>

function component_walk :: "(string \<times> dict) list \<Rightarrow> string list \<Rightarrow> json \<Rightarrow> json list shared" where
  "component_walk groups visiting ref =
     bindR (dot_get ref ''kind'') (\<lambda>kind.
     bindR (dot_get ref ''id'') (\<lambda>identity.
       if kind = JStr ''component'' then bindR (at_key ref ''id'') (\<lambda>i. Inr [i])
       else if kind \<noteq> JStr ''coverage-group'' then refuse ''coverage-reference-invalid'' ''invalid or cyclic coverage group''
       else bindR (need_hashable identity) (\<lambda>identity.
         case (case identity of JStr i \<Rightarrow> if i \<in> set visiting then None else map_option (Pair i) (map_of groups i) | _ \<Rightarrow> None) of
           None \<Rightarrow> refuse ''coverage-reference-invalid'' ''invalid or cyclic coverage group''
         | Some (i, grp) \<Rightarrow>
             bindR (items_at (JObj grp) ''member_refs'') (\<lambda>children.
             bindR (mapR (\<lambda>child. component_walk groups (i # visiting) child) children) (\<lambda>parts. Inr (concat parts))))))"
  by pat_completeness auto

termination component_walk
  by (relation "measure (\<lambda>(groups, visiting, ref). card (set (map fst groups) - set visiting))")
    (auto dest: coverage_walk_decreases split: json.splits if_splits simp del: set_map)

declare component_walk.simps [simp del]

definition coverage_component_ids :: "json \<Rightarrow> dict \<Rightarrow> json list shared" where
  "coverage_component_ids ref semantics =
     bindR (at_key (JObj semantics) ''coverage'') (\<lambda>coverage.
     bindR (index_at coverage ''groups'' ''group_id'' ''coverage-invalid'') (\<lambda>groups.
     bindR (component_walk groups [] ref) (\<lambda>ids. Inr (unique_list ids))))"

definition CARRIERS :: "(string \<times> string) list" where
  "CARRIERS =
     [(''http-query'', ''query''), (''http-header'', ''header''), (''http-cookie'', ''cookie''), (''http-method'', ''method''),
      (''http-body-raw'', ''body-raw''), (''http-body-structured'', ''body-json''), (''http-path'', ''path'')]"

definition component_location :: "dict \<Rightarrow> dict shared" where
  "component_location component = dict_at (JObj component) ''location''"

definition component_carrier :: "dict \<Rightarrow> string shared" where
  "component_carrier component =
     bindR (component_location component) (\<lambda>location.
     bindR (need_hashable (get_or_null location ''kind'')) (\<lambda>kind. Inr
       (case (case kind of JStr k \<Rightarrow> map_of CARRIERS k | _ \<Rightarrow> None) of Some c \<Rightarrow> c | None \<Rightarrow> ''unsupported'')))"

definition named_kinds :: "string list" where
  "named_kinds = [''http-query'', ''http-header'', ''http-cookie'']"

definition component_target_label :: "dict \<Rightarrow> string shared" where
  "component_target_label component =
     bindR (component_location component) (\<lambda>location.
     bindR (at_key (JObj location) ''kind'') (\<lambda>kind.
       let k = py_str kind in
       if k \<in> set named_kinds then
         bindR (at_key (JObj location) ''name'') (\<lambda>name.
           Inr (k @ '':'' @ py_str name @ '':'' @ py_str (case get location ''occurrence'' of None \<Rightarrow> JInt 0 | Some v \<Rightarrow> v)))
       else if k = ''http-body-structured'' then
         (if get_or_null location ''selector_type'' = JStr ''any-field'' then Inr ''http-body-structured:*''
          else bindR (at_key (JObj location) ''selector'') (\<lambda>sel. Inr (k @ '':'' @ py_str sel)))
       else if k = ''http-path'' then Inr ''http-path:path-payload'' else Inr k))"

definition component_target_label_matches :: "dict \<Rightarrow> string \<Rightarrow> bool shared" where
  "component_target_label_matches component lab =
     bindR (component_location component) (\<lambda>location.
     bindR (at_key (JObj location) ''kind'') (\<lambda>kind.
       let k = py_str kind; prefix = k @ '':'' in
       if k \<in> set named_kinds \<and> get_or_null location ''name'' = JStr [star_c]
       then (case rpartition_c (removeprefix lab prefix) (CHR '':'') of
           (Some name, occurrence) \<Rightarrow> Inr (starts_with lab prefix \<and> name \<noteq> [] \<and> is_decimal occurrence)
         | _ \<Rightarrow> Inr False)
       else if k = ''http-body-structured'' \<and> get_or_null location ''selector_type'' = JStr ''any-field''
       then Inr (starts_with lab ''http-body-structured:/'')
       else bindR (component_target_label component) (\<lambda>expected. Inr (lab = expected))))"

section \<open>Grammars\<close>

definition slot_domain :: "dict \<Rightarrow> json list shared" where
  "slot_domain slot =
     (case get_or_null slot ''allowed_domain'' of
        JNull \<Rightarrow> Inr [get_or_null slot ''sample'']
      | JObj domain \<Rightarrow>
          if get_or_null domain ''kind'' = JStr ''enum''
          then (case nonempty_list (get_or_null domain ''values'') of
              Some vs \<Rightarrow> Inr vs
            | None \<Rightarrow> refuse ''grammar-enum-invalid'' ''grammar enum domain is invalid'')
          else Inr [get_or_null slot ''sample'']
      | _ \<Rightarrow> Inl (PythonError ''AttributeError''))"

definition slot_of :: "(string \<times> dict) list \<Rightarrow> json \<Rightarrow> string option shared" where
  "slot_of slots segment =
     (case segment of
        JObj kvs \<Rightarrow>
          (case get_or_null kvs ''slot_ref'' of
             JObj ref \<Rightarrow>
               bindR (need_hashable (get_or_null ref ''id'')) (\<lambda>i. Inr
                 (case i of JStr s \<Rightarrow> if s \<in> set (map fst slots) then Some s else None | _ \<Rightarrow> None))
           | _ \<Rightarrow> Inr None)
      | _ \<Rightarrow> Inr None)"

definition segment_kind :: "json \<Rightarrow> string \<Rightarrow> bool" where
  "segment_kind segment k = (case segment of JObj kvs \<Rightarrow> get_or_null kvs ''kind'' = JStr k | _ \<Rightarrow> False)"

definition segment_text :: "(string \<times> dict) list \<Rightarrow> (string \<times> json) list \<Rightarrow> json \<Rightarrow> string shared" where
  "segment_text slots overrides segment =
     (if segment_kind segment ''literal''
      then (case segment of JObj kvs \<Rightarrow> Inr (case get kvs ''value'' of None \<Rightarrow> [] | Some v \<Rightarrow> py_str v) | _ \<Rightarrow> Inr [])
      else bindR (slot_of slots segment) (\<lambda>slot.
        case slot of
          None \<Rightarrow> refuse ''grammar-slot-ref-invalid'' ''grammar slot reference differs''
        | Some s \<Rightarrow> Inr (py_str (the (map_of overrides s)))))"

definition render_grammar :: "(string \<times> dict) list \<Rightarrow> json list \<Rightarrow> (string \<times> json) list \<Rightarrow> json shared" where
  "render_grammar slots segments overrides =
     bindR (case segments of [segment] \<Rightarrow> if segment_kind segment ''slot'' then slot_of slots segment else Inr None | _ \<Rightarrow> Inr None) (\<lambda>single.
       case single of
         Some s \<Rightarrow> Inr (the (map_of overrides s))
       | None \<Rightarrow> bindR (mapR (segment_text slots overrides) segments) (\<lambda>parts. Inr (JStr (concat parts))))"

fun product_labels ::
  "shared_library \<Rightarrow> (string \<times> dict) list \<Rightarrow> json list \<Rightarrow> nat \<Rightarrow> string list \<Rightarrow> json list list \<Rightarrow> string list shared" where
  "product_labels lib slots segments n seen [] = Inr []"
| "product_labels lib slots segments n seen (combination # combinations) =
     (let overrides = zip (map fst slots) combination in
      bindR (render_grammar slots segments overrides) (\<lambda>rendered.
      bindR (canonical lib rendered) (\<lambda>key.
        if key \<in> set seen then product_labels lib slots segments (Suc n) seen combinations
        else bindR (product_labels lib slots segments (Suc n) (key # seen) combinations) (\<lambda>labs. Inr
          ((if list_all (\<lambda>(s, v). py_equal lib v (get_or_null (the (map_of slots s)) ''sample'')) overrides then ''grammar:sample''
            else ''grammar:product:'' @ dec_nat n) # labs)))))"

definition expected_grammar_labels :: "shared_library \<Rightarrow> dict \<Rightarrow> string list shared" where
  "expected_grammar_labels lib component =
     (case get_or_null component ''grammar'' of
        JObj grammar \<Rightarrow>
          (case (get_or_null grammar ''segments'', nonempty_list (get_or_null grammar ''slots'')) of
             (JArr segments, Some raw) \<Rightarrow>
               bindR (index_items (JArr raw) ''slot_id'' ''grammar-slots-invalid'') (\<lambda>slots.
               bindR (mapR (\<lambda>(_, slot). slot_domain slot) slots) (\<lambda>domains.
               product_labels lib slots segments 0 [] (product_lists domains)))
           | _ \<Rightarrow> Inr [''grammar:exact''])
      | _ \<Rightarrow> Inr [''grammar:exact''])"

section \<open>Required work\<close>

record dimension =
  dim_carrier :: string
  dim_transformation :: string
  dim_input :: json
  dim_component :: json

definition operations :: "json list \<Rightarrow> string shared" where
  "operations steps =
     bindR (mapR (\<lambda>step. bindR (at_key step ''operation'') (\<lambda>op. case op of JStr s \<Rightarrow> Inr s | _ \<Rightarrow> Inl (PythonError ''TypeError''))) steps)
       (\<lambda>ops. Inr (join '':'' ops))"

definition third_profile :: "string \<Rightarrow> bool" where
  "third_profile profile_id = (profile_id = ''waf-bypass@3'')"

text \<open>The chain joins the component's own transformations when their last stage is its first one.\<close>

definition stage_meets :: "shared_library \<Rightarrow> json list \<Rightarrow> json list \<Rightarrow> bool shared" where
  "stage_meets lib steps chn =
     (if steps = [] \<or> chn = [] then Inr False
      else bindR (dot_get (last steps) ''output_stage'') (\<lambda>out. bindR (dot_get (hd chn) ''input_stage'') (\<lambda>inp. Inr (py_equal lib out inp))))"

fun bypass_labels :: "shared_library \<Rightarrow> string \<Rightarrow> json list \<Rightarrow> nat \<Rightarrow> json list \<Rightarrow> string list shared" where
  "bypass_labels lib carrier steps n [] = Inr []"
| "bypass_labels lib carrier steps n (chn # chns) =
     bindR (elements chn) (\<lambda>links.
     bindR (operations links) (\<lambda>ops.
     bindR (stage_meets lib steps links) (\<lambda>meets.
     bindR (bypass_labels lib carrier steps (Suc n) chns) (\<lambda>others.
       let lab = ''bv:'' @ carrier @ '':'' @ dec_nat n @ '':'' @ ops in
       Inr (lab # (if meets then [''cg+'' @ lab] else []) @ others)))))"

definition chain_labels :: "shared_library \<Rightarrow> dict \<Rightarrow> string \<Rightarrow> string \<Rightarrow> json list \<Rightarrow> string list shared" where
  "chain_labels lib profile profile_id carrier steps =
     bindR (if steps \<noteq> [] then
              (if third_profile profile_id then Inr [''baseline:authenticated-source'']
               else bindR (operations steps) (\<lambda>ops. Inr [''cg:'' @ ops]))
            else Inr (if third_profile profile_id then [''baseline:identity''] else [])) (\<lambda>base.
     bindR (dict_at (JObj profile) ''bypass_dimensions'') (\<lambda>dimensions.
     bindR (case get dimensions carrier of None \<Rightarrow> Inr [] | Some v \<Rightarrow> elements v) (\<lambda>chns.
     bindR (bypass_labels lib carrier steps 0 chns) (\<lambda>labs.
       Inr (if base @ labs = [] then [''baseline:identity''] else base @ labs)))))"

definition AUTHENTICATED_SOURCE :: string where
  "AUTHENTICATED_SOURCE = ''source:authenticated-representation''"

definition dimension_label :: "json \<Rightarrow> string \<Rightarrow> string \<Rightarrow> string \<Rightarrow> string" where
  "dimension_label component_id carrier grammar_label chain_label =
     (if grammar_label = ''grammar:exact'' then chain_label
      else if grammar_label = AUTHENTICATED_SOURCE
      then ''challenge:'' @ AUTHENTICATED_SOURCE @ ''|component:'' @ py_str component_id @ ''|carrier:'' @ carrier @
           ''|transformation:'' @ chain_label
      else grammar_label @ ''|'' @ chain_label)"

definition component_at :: "(string \<times> dict) list \<Rightarrow> json \<Rightarrow> dict shared" where
  "component_at components j =
     bindR (need_hashable j) (\<lambda>j. case (case j of JStr i \<Rightarrow> map_of components i | _ \<Rightarrow> None) of
        Some c \<Rightarrow> Inr c | None \<Rightarrow> Inl (PythonError ''KeyError''))"

definition component_dimensions ::
  "shared_library \<Rightarrow> dict \<Rightarrow> string \<Rightarrow> (string \<times> dict) list \<Rightarrow> json \<Rightarrow> json \<Rightarrow> dimension list shared" where
  "component_dimensions lib profile profile_id components input_id component_id =
     bindR (component_at components component_id) (\<lambda>component.
     bindR (bindR (items_at (JObj component) ''input_refs'') (column ''id'')) (\<lambda>input_ids.
     bindR (need_hashable input_id) (\<lambda>input_id.
       if input_id \<notin> set input_ids then Inr []
       else
         bindR (component_carrier component) (\<lambda>carrier.
         bindR (items_at (JObj component) ''transformations'') (\<lambda>steps.
         bindR (chain_labels lib profile profile_id carrier steps) (\<lambda>chns.
         bindR (if third_profile profile_id \<and> steps \<noteq> [] then Inr [AUTHENTICATED_SOURCE]
                else if third_profile profile_id then expected_grammar_labels lib component else Inr [''grammar:exact'']) (\<lambda>grammars.
         Inr (concat (map (\<lambda>g. map (\<lambda>c. \<lparr>dim_carrier = carrier, dim_transformation = dimension_label component_id carrier g c,
                                            dim_input = input_id, dim_component = component_id\<rparr>) chns) grammars))))))))) "

definition expected_bv_dimensions :: "shared_library \<Rightarrow> dict \<Rightarrow> dict \<Rightarrow> string \<Rightarrow> dimension list shared" where
  "expected_bv_dimensions lib obligation semantics profile_id =
     bindR (bv_profile lib profile_id) (\<lambda>profile.
     bindR (index_at (JObj semantics) ''components'' ''component_id'' ''components-invalid'') (\<lambda>components.
     bindR (at_key (JObj obligation) ''coverage_ref'') (\<lambda>ref.
     bindR (coverage_component_ids ref semantics) (\<lambda>component_ids.
     bindR (items_at (JObj obligation) ''required_input_refs'') (\<lambda>refs.
     bindR (mapR (\<lambda>r. at_key r ''id'') refs) (\<lambda>input_ids.
     bindR (mapR (\<lambda>i. mapR (component_dimensions lib profile profile_id components i) component_ids) input_ids) (\<lambda>dims.
     Inr (concat (concat dims)))))))))"

section \<open>Attributions of the third profile\<close>

text \<open>The chains a campaign may name for an authenticated representation, and for a challenge.\<close>

definition after_bar :: "string \<Rightarrow> string" where
  "after_bar s = snd (partition_c s (CHR ''|''))"

definition source_chains :: "string list \<Rightarrow> string list" where
  "source_chains producers =
     map (\<lambda>l. if starts_with l ''grammar:'' then after_bar l else l) producers @ [''baseline:authenticated-source'']"

definition challenge_chain :: "string \<Rightarrow> string" where
  "challenge_chain l =
     (if starts_with l ''grammar:'' then after_bar l
      else (let fs = py_split l (CHR ''|'') in
        if starts_with l (''challenge:'' @ AUTHENTICATED_SOURCE @ ''|'') \<and> length fs = 4 \<and> starts_with (fs ! 3) ''transformation:''
        then removeprefix (fs ! 3) ''transformation:'' else l))"

definition in_array :: "shared_library \<Rightarrow> json \<Rightarrow> dict \<Rightarrow> string \<Rightarrow> bool shared" where
  "in_array lib x kvs k =
     bindR (case get kvs k of None \<Rightarrow> Inr [] | Some v \<Rightarrow> elements v) (\<lambda>ys. Inr (list_ex (py_equal lib x) ys))"

definition matching_slots :: "json list \<Rightarrow> string \<Rightarrow> (string \<times> dict) list" where
  "matching_slots slots suffix =
     List.map_filter (\<lambda>j. case j of
        JObj slot \<Rightarrow>
          (case get_or_null slot ''slot_id'' of
             JStr i \<Rightarrow> if suffix = i \<or> starts_with suffix (i @ '':'') then Some (i, slot) else None
           | _ \<Rightarrow> None)
      | _ \<Rightarrow> None) slots"

text \<open>The ordinal after the name of a slot: absent, or decimal and below the bound of the challenge.\<close>

definition challenge_ordinal :: "dict \<Rightarrow> string \<Rightarrow> nat option shared" where
  "challenge_ordinal challenge suffix =
     (if suffix = [] then Inr None
      else let raw = removeprefix suffix '':'' in
        if \<not> is_decimal raw then bv_invalid ''BV challenge ordinal is malformed''
        else (case as_int (case get challenge ''maximum_values'' of None \<Rightarrow> JInt 0 | Some v \<Rightarrow> v) of
            None \<Rightarrow> Inl (PythonError ''TypeError'')
          | Some bound \<Rightarrow>
              if bound \<le> int (nat_of_digits 0 raw) then bv_invalid ''BV challenge ordinal exceeds its profile bound''
              else Inr (Some (nat_of_digits 0 raw))))"

definition check_challenge_transformation ::
  "shared_library \<Rightarrow> dict \<Rightarrow> dict \<Rightarrow> nat option \<Rightarrow> string list \<Rightarrow> string \<Rightarrow> unit shared" where
  "check_challenge_transformation lib actual challenge ordinal producers transformation =
     (if get_or_null actual ''supported'' = JBool False
      then require (transformation = ''unsupported'') ''bv-dimension-invalid'' ''BV unsupported challenge attribution differs''
      else if ordinal = None then bv_invalid ''BV supported challenge has no bounded ordinal''
      else if get_or_null challenge ''strategy'' = JStr ''representation''
      then require (transformation = ''authenticated-encode-'' @ py_str (get_or_null challenge ''codec'')) ''bv-dimension-invalid''
             ''BV representation challenge transformation differs''
      else require (transformation \<in> set (map challenge_chain producers)) ''bv-dimension-invalid''
             ''BV challenge transformation is not producer-derived'')"

definition check_challenge ::
  "shared_library \<Rightarrow> dict \<Rightarrow> string \<Rightarrow> dict \<Rightarrow> string list \<Rightarrow> (string \<times> dict) list \<Rightarrow> string \<Rightarrow> string \<Rightarrow> unit shared" where
  "check_challenge lib actual carrier component producers challenges lab transformation =
     (let ids = filter (\<lambda>i. starts_with lab (i @ '':'')) (map fst challenges) in
      if ids = [] then bv_invalid ''BV challenge attribution is not profile-approved''
      else (let challenge_id = longest ids; challenge = the (map_of challenges challenge_id) in
        bindR (in_array lib (JStr carrier) challenge ''carriers'') (\<lambda>approved.
          if \<not> approved then bv_invalid ''BV challenge carrier is not profile-approved''
          else (case (case get_or_null component ''grammar'' of JObj g \<Rightarrow> get_or_null g ''slots'' | _ \<Rightarrow> JNull) of
              JArr slots \<Rightarrow>
                (let suffix = drop (length challenge_id + 1) lab; matching = matching_slots slots suffix in
                 if matching = [] then bv_invalid ''BV challenge names an unknown component slot''
                 else (let slot_id = longest (map fst matching); slot = the (map_of matching slot_id) in
                   bindR (challenge_ordinal challenge (drop (length slot_id) suffix)) (\<lambda>ordinal.
                   bindR (in_array lib (get_or_null slot ''value_type'') challenge ''value_types'') (\<lambda>typed.
                   bindR (case get_or_null slot ''allowed_domain'' of
                            JObj domain \<Rightarrow> if typed then in_array lib (get_or_null domain ''kind'') challenge ''domain_kinds'' else Inr False
                          | _ \<Rightarrow> Inr False) (\<lambda>applicable.
                     if \<not> applicable then bv_invalid ''BV challenge is inapplicable to its declared slot''
                     else check_challenge_transformation lib actual challenge ordinal producers transformation)))))
            | _ \<Rightarrow> bv_invalid ''BV challenge component has no declared slots''))))"

definition v3_challenge_attribution ::
  "shared_library \<Rightarrow> string \<Rightarrow> dict \<Rightarrow> string \<Rightarrow> string \<Rightarrow> dict \<Rightarrow> string list \<Rightarrow> (string \<times> dict) list \<Rightarrow> unit shared" where
  "v3_challenge_attribution lib attribution actual component_id carrier component producers challenges =
     (let fs = py_split attribution (CHR ''|'');
          misshapen = bv_invalid (''BV challenge attribution shape differs: '' @ attribution) in
      if length fs \<notin> {4, 5} \<or> \<not> starts_with (fs ! 0) ''challenge:'' \<or> fs ! 1 \<noteq> ''component:'' @ component_id
         \<or> fs ! 2 \<noteq> ''carrier:'' @ carrier \<or> \<not> starts_with (fs ! 3) ''transformation:''
      then misshapen
      else bindR (if length fs = 5 then component_target_label_matches component (removeprefix (fs ! 4) ''target:'') else Inr True) (\<lambda>ok.
        if \<not> ok then misshapen
        else (let lab = removeprefix (fs ! 0) ''challenge:''; transformation = removeprefix (fs ! 3) ''transformation:'' in
          if lab = AUTHENTICATED_SOURCE
          then require (transformation \<in> set (source_chains producers)) ''bv-dimension-invalid''
                 ''BV authenticated source representation has an unexpected transformation''
          else check_challenge lib actual carrier component producers challenges lab transformation)))"

end
