(* ===== verification/SharedCampaign.thy ===== *)
theory SharedCampaign
  imports SharedBypass
begin

text \<open>
  The verification of a Bypass Validation result in \<^verbatim>\<open>shared_contracts_v2.py\<close>: every campaign
  tried the work its obligation requires, each dimension has the evidence of its disposition, no
  bypass was found, and the accounting of attempts, families and resolutions is exact.
\<close>

section \<open>Challenge targets\<close>

fun pointer_escapes :: "string \<Rightarrow> bool" where
  "pointer_escapes [] = True"
| "pointer_escapes (c # cs) =
     ((c = CHR ''~'' \<longrightarrow> (case cs of d # _ \<Rightarrow> d \<in> {CHR ''0'', CHR ''1''} | [] \<Rightarrow> False)) \<and> pointer_escapes cs)"

text \<open>The occurrence number of a named target; the code reads what \<^verbatim>\<open>isdigit\<close> accepts with \<^verbatim>\<open>int\<close>.\<close>

definition canonical_number :: "string \<Rightarrow> bool shared" where
  "canonical_number s =
     (if \<not> is_digits s then Inr False
      else if \<not> is_decimal s then Inl (PythonError ''ValueError'')
      else Inr (dec_nat (nat_of_digits 0 s) = s))"

definition named_target :: "string \<Rightarrow> string \<Rightarrow> string \<Rightarrow> bool shared" where
  "named_target kind target carrier =
     (if \<not> starts_with target (kind @ '':'') then Inr False
      else (case rpartition_c (removeprefix target (kind @ '':'')) (CHR '':'') of
          (Some name, occurrence) \<Rightarrow>
            if name = [] then Inr False
            else bindR (canonical_number occurrence) (\<lambda>ok. Inr (ok \<and> Some carrier = map_of CARRIERS kind))
        | _ \<Rightarrow> Inr False))"

definition validate_v3_challenge_target :: "string \<Rightarrow> string \<Rightarrow> dict \<Rightarrow> unit shared" where
  "validate_v3_challenge_target field carrier component =
     (if \<not> starts_with field ''target:'' then bv_invalid ''BV challenge target attribution is malformed''
      else (let target = removeprefix field ''target:'' in
        case get_or_null component ''location'' of
          JObj location \<Rightarrow>
            (let kind = get_or_null location ''kind'' in
             if kind = JStr ''http-path'' \<and> carrier = ''path'' \<and> target = ''http-path:path-payload'' then Inr ()
             else bindR (need_hashable kind) (\<lambda>_.
               bindR (case kind of
                        JStr k \<Rightarrow> if k \<in> set named_kinds \<and> get_or_null location ''name'' = JStr [star_c]
                                  then named_target k target carrier else Inr False
                      | _ \<Rightarrow> Inr False) (\<lambda>named.
                 require (named \<or> (any_field location \<and> carrier = ''body-json'' \<and> starts_with target ''http-body-structured:/''
                                   \<and> pointer_escapes (removeprefix target ''http-body-structured:'')))
                   ''bv-dimension-invalid'' ''BV challenge target attribution differs'')))
        | _ \<Rightarrow> bv_invalid ''BV challenge component location is absent''))"

section \<open>Dimensions of the third profile\<close>

type_synonym work_target = "json \<times> json \<times> string"

definition target_of :: "dimension \<Rightarrow> work_target" where
  "target_of d = (dim_input d, dim_component d, dim_carrier d)"

definition producers_of :: "dimension list \<Rightarrow> work_target \<Rightarrow> string list" where
  "producers_of expected target = map dim_transformation (filter (\<lambda>d. target_of d = target) expected)"

record v3_state =
  seen_dimensions :: "string list"
  seen_attributions :: "(work_target \<times> string) list"
  observed_producers :: "(work_target \<times> string) list"
  observed_sources :: "work_target list"

definition split_target :: "string \<Rightarrow> string \<times> string option" where
  "split_target attribution =
     (if contains attribution ''|target:''
      then (case rpartition_c attribution (CHR ''|'') of (Some base, field) \<Rightarrow> (base, Some field) | _ \<Rightarrow> (attribution, None))
      else (attribution, None))"

definition check_attribution ::
  "shared_library \<Rightarrow> dict \<Rightarrow> dict \<Rightarrow> string list \<Rightarrow> (string \<times> dict) list \<Rightarrow> string \<Rightarrow> string \<Rightarrow> string \<Rightarrow> string \<Rightarrow> string
    \<Rightarrow> v3_state \<Rightarrow> v3_state shared" where
  "check_attribution lib actual component producers challenges obligation input_id component_id carrier attribution st =
     (let target = (JStr input_id, JStr component_id, carrier); (base, field) = split_target attribution in
      if (target, attribution) \<in> set (seen_attributions st)
      then bv_invalid (''BV attribution is duplicated across dimensions: '' @ obligation)
      else
        bindR (case field of Some f \<Rightarrow> validate_v3_challenge_target f carrier component | None \<Rightarrow> Inr ()) (\<lambda>_.
        let st = st\<lparr>seen_attributions := (target, attribution) # seen_attributions st\<rparr> in
        if base \<in> set producers then Inr (st\<lparr>observed_producers := (target, base) # observed_producers st\<rparr>)
        else bindR (v3_challenge_attribution lib base actual component_id carrier component producers challenges) (\<lambda>_.
          Inr (if starts_with attribution (''challenge:'' @ AUTHENTICATED_SOURCE @ ''|'')
               then st\<lparr>observed_sources := target # observed_sources st\<rparr> else st))))"

fun fold_checks :: "('a \<Rightarrow> 's \<Rightarrow> 's shared) \<Rightarrow> 'a list \<Rightarrow> 's \<Rightarrow> 's shared" where
  "fold_checks f [] st = Inr st"
| "fold_checks f (x # xs) st = bindR (f x st) (fold_checks f xs)"

definition check_v3_dimension ::
  "shared_library \<Rightarrow> (string \<times> dict) list \<Rightarrow> dimension list \<Rightarrow> (string \<times> dict) list \<Rightarrow> dict \<Rightarrow> string \<Rightarrow> json \<Rightarrow> v3_state
    \<Rightarrow> v3_state shared" where
  "check_v3_dimension lib components expected challenges obligation i j st =
     (case j of
        JObj actual \<Rightarrow>
          (case (nonempty_str (get_or_null actual ''input_id''), nonempty_str (get_or_null actual ''component_id''),
                 nonempty_str (get_or_null actual ''carrier'')) of
             (Some input_id, Some component_id, Some carrier) \<Rightarrow>
               (let producers = producers_of expected (JStr input_id, JStr component_id, carrier) in
                if producers = [] then bv_invalid (''BV dimension is unreachable from its obligation: '' @ i)
                else
                  bindR (component_at components (JStr component_id)) (\<lambda>component.
                  bindR (bindR (items_at (JObj obligation) ''required_input_refs'') (column ''id'')) (\<lambda>required.
                  bindR (bindR (items_at (JObj component) ''input_refs'') (column ''id'')) (\<lambda>own.
                  bindR (component_carrier component) (\<lambda>expected_carrier.
                    if JStr input_id \<notin> set required \<or> JStr input_id \<notin> set own \<or> carrier \<noteq> expected_carrier
                    then bv_invalid (''BV dimension input, component, or carrier differs: '' @ i)
                    else (case nonempty_str (get_or_null actual ''transformation'') of
                        None \<Rightarrow> bv_invalid (''BV dimension label is absent: '' @ i)
                      | Some transformation \<Rightarrow>
                          bindR (canonical lib (JObj [(''carrier'', JStr carrier), (''transformation'', JStr transformation),
                                   (''input_id'', JStr input_id), (''component_id'', JStr component_id)])) (\<lambda>key.
                            let attributions = split_text ''||attribution:'' transformation in
                            if key \<in> set (seen_dimensions st) then bv_invalid (''BV dimension is duplicated: '' @ i)
                            else if [] \<in> set attributions \<or> \<not> distinct attributions
                            then bv_invalid (''BV dimension attributions are invalid: '' @ i)
                            else if get_or_null actual ''supported'' = JBool False
                                    \<and> list_ex (\<lambda>a. \<not> starts_with a ''challenge:'') attributions
                            then bv_invalid (''BV unsupported label is not an approved challenge: '' @ i)
                            else fold_checks
                              (check_attribution lib actual component producers challenges i input_id component_id carrier)
                              attributions (st\<lparr>seen_dimensions := key # seen_dimensions st\<rparr>))))))))
           | _ \<Rightarrow> bv_invalid (''BV dimension identity fields are absent: '' @ i))
      | _ \<Rightarrow> bv_invalid (''BV dimension is malformed: '' @ i))"

text \<open>The producers of a target were all observed, or a transformed component's authenticated source was.\<close>

definition baseline_done :: "(string \<times> dict) list \<Rightarrow> dimension list \<Rightarrow> v3_state \<Rightarrow> work_target \<Rightarrow> bool shared" where
  "baseline_done components expected st target =
     bindR (component_at components (fst (snd target))) (\<lambda>component.
       let transformed = truthy (get_or_null component ''transformations'');
           complete = (set (map snd (filter (\<lambda>(t, p). t = target) (observed_producers st))) = set (producers_of expected target)) in
       Inr (complete \<or> (transformed \<and> target \<in> set (observed_sources st))))"

definition validate_bv_v3_dimensions ::
  "shared_library \<Rightarrow> json list \<Rightarrow> dict \<Rightarrow> dict \<Rightarrow> string \<Rightarrow> unit shared" where
  "validate_bv_v3_dimensions lib dimensions obligation semantics i =
     bindR (index_at (JObj semantics) ''components'' ''component_id'' ''components-invalid'') (\<lambda>components.
     bindR (expected_bv_dimensions lib obligation semantics ''waf-bypass@3'') (\<lambda>expected.
     bindR (bv_profile lib ''waf-bypass@3'') (\<lambda>profile.
       case get_or_null profile ''positive_challenges'' of
         JArr listed \<Rightarrow>
           bindR (index_items (JArr listed) ''challenge_id'' ''bv-profile-integrity-failed'') (\<lambda>challenges.
           bindR (fold_checks (check_v3_dimension lib components expected challenges obligation i) dimensions
                    \<lparr>seen_dimensions = [], seen_attributions = [], observed_producers = [], observed_sources = []\<rparr>) (\<lambda>st.
           bindR (mapR (baseline_done components expected st) (unique_list (map target_of expected))) (\<lambda>dones.
             require (list_all (\<lambda>b. b) dones) ''bv-dimension-invalid''
               (''BV campaign omitted required producer baseline work: '' @ i))))
       | _ \<Rightarrow> bv_integrity ''embedded waf-bypass@3 challenges are absent'')))"

section \<open>Resolutions\<close>

definition mutable_fields :: "(string \<times> string) list" where
  "mutable_fields =
     [(''http-query'', ''query''), (''http-header'', ''headers''), (''http-cookie'', ''cookies''), (''http-method'', ''method''),
      (''http-path'', ''path''), (''http-body-raw'', ''body''), (''http-body-structured'', ''body'')]"

definition bv_template_invalid :: "string \<Rightarrow> 'a shared" where
  "bv_template_invalid detail = refuse ''bv-template-resolution-invalid'' detail"

definition check_rendered :: "shared_library \<Rightarrow> dict \<Rightarrow> json \<Rightarrow> json \<Rightarrow> string \<Rightarrow> unit shared" where
  "check_rendered lib expected rendered kind i =
     (let path = (kind = JStr ''http-path'') in
      case rendered of
        JObj actual \<Rightarrow>
          if set (keys actual) \<noteq> set (keys expected) \<union> (if path then {''path_payload''} else {})
          then bv_template_invalid (''BV rendered request shape differs: '' @ i)
          else bindR (need_hashable kind) (\<lambda>kind.
            case (case kind of JStr k \<Rightarrow> map_of mutable_fields k | _ \<Rightarrow> None) of
              None \<Rightarrow> bv_template_invalid (''BV changed a nonselected template field: '' @ i)
            | Some field \<Rightarrow>
                if list_all (\<lambda>(k, v). k = field \<or> (path \<and> k = ''path_payload'') \<or> py_equal lib (get_or_null actual k) v) expected
                then Inr () else bv_template_invalid (''BV changed a nonselected template field: '' @ i))
      | _ \<Rightarrow> bv_template_invalid (''BV rendered request shape differs: '' @ i))"

definition validate_bv_resolution ::
  "shared_library \<Rightarrow> json \<Rightarrow> dict \<Rightarrow> dict \<Rightarrow> string \<Rightarrow> string \<Rightarrow> string \<Rightarrow> unit shared" where
  "validate_bv_resolution lib resolution item component i profile_id profile_digest =
     bindR (bv_profile lib profile_id) (\<lambda>profile.
     bindR (dict_at (JObj item) ''input'') (\<lambda>template.
     bindR (dict_at (JObj profile) ''routes'') (\<lambda>routes.
     bindR (need_hashable (get_or_null template ''path_key'')) (\<lambda>key.
       case (case key of JStr k \<Rightarrow> get_or_null routes k | _ \<Rightarrow> JNull) of
         JObj route \<Rightarrow>
           bindR (expected_template_resolution item BV_RESOLVER_ID profile_id profile_digest (JObj route)) (\<lambda>base.
             case resolution of
               JObj r \<Rightarrow>
                 if set (keys r) \<noteq> set (keys base)
                    \<or> \<not> list_all (\<lambda>(k, v). k = ''rendered_request'' \<or> py_equal lib (get_or_null r k) v) base
                 then bv_template_invalid (''BV template resolution identity differs: '' @ i)
                 else bindR (dict_at (JObj base) ''rendered_request'') (\<lambda>expected.
                      bindR (component_location component) (\<lambda>location.
                      check_rendered lib expected (get_or_null r ''rendered_request'') (get_or_null location ''kind'') i))
             | _ \<Rightarrow> bv_template_invalid (''BV template resolution identity differs: '' @ i))
       | _ \<Rightarrow> bv_template_invalid (''BV accepted an unknown path key: '' @ i)))))"

section \<open>Campaigns\<close>

record dimension_outcome =
  done_transformation :: string
  done_family :: "string option"
  done_attempt :: "string option"
  done_template :: "(dict \<times> dict) option"

definition DIMENSION_FIELDS :: "string list" where
  "DIMENSION_FIELDS =
     [''carrier'', ''transformation'', ''input_id'', ''component_id'', ''family'', ''wire_value_sha256'', ''wire_value_size_bytes'',
      ''baseline_value_sha256'', ''wire_encoding_chain'', ''supported'', ''detail'', ''attempt_id'', ''disposition'']"

definition as_expected :: "shared_library \<Rightarrow> dict \<Rightarrow> dimension \<Rightarrow> bool" where
  "as_expected lib actual d =
     list_all (\<lambda>(k, v). py_equal lib (get_or_null actual k) v)
       [(''carrier'', JStr (dim_carrier d)), (''transformation'', JStr (dim_transformation d)), (''input_id'', dim_input d),
        (''component_id'', dim_component d)]"

definition wire_evidence :: "dict \<Rightarrow> bool" where
  "wire_evidence actual =
     ((case get_or_null actual ''wire_value_sha256'' of JStr s \<Rightarrow> sha256_pattern s | _ \<Rightarrow> False)
      \<and> (case get_or_null actual ''baseline_value_sha256'' of JStr s \<Rightarrow> sha256_pattern s | _ \<Rightarrow> False)
      \<and> (case get_or_null actual ''wire_value_size_bytes'' of JInt n \<Rightarrow> 0 \<le> n | _ \<Rightarrow> False)
      \<and> (case get_or_null actual ''wire_encoding_chain'' of JArr steps \<Rightarrow> list_all (\<lambda>s. nonempty_str s \<noteq> None) steps | _ \<Rightarrow> False))"

definition template_of ::
  "(string \<times> dict) list \<Rightarrow> (string \<times> dict) list \<Rightarrow> dict \<Rightarrow> (dict \<times> dict) option shared" where
  "template_of inputs components actual =
     bindR (bindR (at_key (JObj actual) ''input_id'') (component_at inputs)) (\<lambda>item.
     bindR (dict_at (JObj item) ''input'') (\<lambda>template.
       if get_or_null template ''modality'' \<noteq> JStr ''http-request-template'' then Inr None
       else bindR (bindR (at_key (JObj actual) ''component_id'') (component_at components)) (\<lambda>component. Inr (Some (item, component)))))"

text \<open>A dimension that was executed, with the request template it must have resolved.\<close>

definition executed_dimension ::
  "(string \<times> dict) list \<Rightarrow> (string \<times> dict) list \<Rightarrow> string \<Rightarrow> dict \<Rightarrow> string option \<Rightarrow> string \<Rightarrow> dimension_outcome shared" where
  "executed_dimension inputs components i actual family transformation =
     (let differs = bv_invalid (''BV supported dimension evidence differs: '' @ i) in
      case nonempty_str (get_or_null actual ''attempt_id'') of
        None \<Rightarrow> differs
      | Some attempt \<Rightarrow>
          bindR (need_hashable (get_or_null actual ''disposition'')) (\<lambda>disposition.
            if disposition \<notin> set (strings [''blocked'', ''bypassed'', ''safety-stop'']) \<or> get_or_null actual ''detail'' \<noteq> JNull then differs
            else if \<not> wire_evidence actual then bv_invalid (''BV wire-value evidence differs: '' @ i)
            else if family = Some ''encoding''
                    \<and> (get_or_null actual ''wire_encoding_chain'' = JArr []
                       \<or> get_or_null actual ''wire_value_sha256'' = get_or_null actual ''baseline_value_sha256'')
            then bv_invalid (''BV encoding dimension is an identity/no-op: '' @ i)
            else if disposition = JStr ''bypassed''
            then refuse ''bv-translation-outcome-invalid'' (''BV no-bypass aggregate contains a bypassed dimension: '' @ i)
            else bindR (template_of inputs components actual) (\<lambda>template. Inr
              \<lparr>done_transformation = transformation, done_family = family, done_attempt = Some attempt, done_template = template\<rparr>)))"

definition dimension_done ::
  "shared_library \<Rightarrow> (string \<times> dict) list \<Rightarrow> (string \<times> dict) list \<Rightarrow> string \<Rightarrow> json \<times> dimension option \<Rightarrow> dimension_outcome shared" where
  "dimension_done lib inputs components i entry =
     (case fst entry of
        JObj actual \<Rightarrow>
          if \<not> set (keys actual) \<subseteq> set DIMENSION_FIELDS \<or> (case snd entry of Some d \<Rightarrow> \<not> as_expected lib actual d | None \<Rightarrow> False)
          then bv_invalid (''BV dimension is bogus or out of order: '' @ i)
          else
            bindR (bindR (at_key (JObj actual) ''transformation'') (\<lambda>v. case v of JStr s \<Rightarrow> Inr s | _ \<Rightarrow> Inl (PythonError ''TypeError''))) (\<lambda>transformation.
            let family = nonempty_str (get_or_null actual ''family''); supported = get_or_null actual ''supported'' in
            if get_or_null actual ''family'' \<noteq> JNull \<and> family = None then bv_invalid (''BV governed family is invalid: '' @ i)
            else if supported = JBool True then executed_dimension inputs components i actual family transformation
            else if supported = JBool False
            then (if get_or_null actual ''attempt_id'' \<noteq> JNull \<or> get_or_null actual ''disposition'' \<noteq> JNull
                     \<or> nonempty_str (get_or_null actual ''detail'') = None
                  then bv_invalid (''BV unsupported dimension evidence differs: '' @ i)
                  else Inr \<lparr>done_transformation = transformation, done_family = family, done_attempt = None, done_template = None\<rparr>)
            else bv_invalid (''BV dimension support state is absent: '' @ i))
      | _ \<Rightarrow> bv_invalid (''BV dimension is bogus or out of order: '' @ i))"

record campaign_totals =
  total_outcomes :: "dimension_outcome list"
  total_resolutions :: "json list"

definition attempts_of :: "dimension_outcome list \<Rightarrow> string list" where
  "attempts_of outs = List.map_filter done_attempt outs"

definition planned_dimensions ::
  "shared_library \<Rightarrow> dict \<Rightarrow> dict \<Rightarrow> string \<Rightarrow> string \<Rightarrow> json \<Rightarrow> (json \<times> dimension option) list shared" where
  "planned_dimensions lib obligation semantics profile_id i listed =
     bindR (expected_bv_dimensions lib obligation semantics profile_id) (\<lambda>expected.
       case nonempty_list listed of
         None \<Rightarrow> refuse ''bv-empty-campaign'' (''BV campaign has no attempted dimensions: '' @ i)
       | Some dimensions \<Rightarrow>
           if third_profile profile_id
           then bindR (validate_bv_v3_dimensions lib dimensions obligation semantics i) (\<lambda>_. Inr (map (\<lambda>j. (j, None)) dimensions))
           else if length dimensions \<noteq> length expected
           then refuse ''bv-empty-campaign'' (''BV campaign has no attempted dimensions: '' @ i)
           else Inr (zip dimensions (map Some expected)))"

definition bundle_mapping :: "dict \<Rightarrow> string \<Rightarrow> json shared" where
  "bundle_mapping bundle i =
     bindR (at_key (JObj bundle) ''primary_candidate'') (\<lambda>candidate.
     bindR (items_at candidate ''obligation_mappings'') (\<lambda>ms.
     bindR (mapR (\<lambda>m. bindR (at_key m ''obligation_id'') (\<lambda>v. Inr (v = JStr i))) ms) (\<lambda>flags.
       case find snd (zip ms flags) of None \<Rightarrow> Inl (PythonError ''StopIteration'') | Some (m, _) \<Rightarrow> Inr m)))"

definition check_campaign ::
  "shared_library \<Rightarrow> dict \<Rightarrow> dict \<Rightarrow> (string \<times> dict) list \<Rightarrow> (string \<times> dict) list \<Rightarrow> (string \<times> dict) list \<Rightarrow> string \<Rightarrow> string
    \<Rightarrow> string \<times> dict \<Rightarrow> campaign_totals \<Rightarrow> campaign_totals shared" where
  "check_campaign lib semantics bundle obligations inputs components profile_id profile_digest entry totals =
     (let (i, campaign) = entry in
      bindR (planned_dimensions lib (the (map_of obligations i)) semantics profile_id i (get_or_null campaign ''attempted_dimensions'')) (\<lambda>planned.
      bindR (mapR (dimension_done lib inputs components i) planned) (\<lambda>outs.
        let attempts = attempts_of outs; templates = List.map_filter done_template outs in
        if \<not> py_equal lib (get_or_null campaign ''attempt_refs'') (JArr (strings attempts))
        then refuse ''bv-attempt-accounting-invalid'' (''BV attempts do not bind dimensions: '' @ i)
        else if \<not> distinct attempts \<or> set attempts \<inter> set (attempts_of (total_outcomes totals)) \<noteq> {}
        then refuse ''bv-attempt-accounting-invalid'' (''BV attempt IDs are not globally unique: '' @ i)
        else (case get_or_null campaign ''resolution_refs'' of
            JArr resolutions \<Rightarrow>
              if length resolutions \<noteq> length templates
              then bv_template_invalid (''BV resolutions do not bind template attempts: '' @ i)
              else
                bindR (check_each (\<lambda>(r, item, component). validate_bv_resolution lib r item component i profile_id profile_digest)
                         (zip resolutions templates)) (\<lambda>_.
                  if get_or_null campaign ''disposition'' \<noteq> JStr ''no-bypass''
                  then refuse ''bv-translation-outcome-invalid'' (''BV required campaign must report no-bypass: '' @ i)
                  else bindR (bundle_mapping bundle i) (\<lambda>mapping.
                    if \<not> py_equal lib (get_or_null campaign ''candidate_mapping'') mapping
                    then refuse ''bv-candidate-mapping-mismatch'' (''BV candidate mapping differs: '' @ i)
                    else Inr \<lparr>total_outcomes = total_outcomes totals @ outs, total_resolutions = total_resolutions totals @ resolutions\<rparr>))
          | _ \<Rightarrow> bv_template_invalid (''BV resolutions do not bind template attempts: '' @ i)))))"

section \<open>Bypass Validation\<close>

definition check_bv_identity :: "shared_library \<Rightarrow> dict \<Rightarrow> dict \<Rightarrow> locators \<Rightarrow> string \<Rightarrow> unit shared" where
  "check_bv_identity lib bv attestation locs profile_id =
     (if get_or_null bv ''contract_id'' \<noteq> JStr ''bypass-validation@2.0'' \<or> get_or_null bv ''profile_id'' \<noteq> JStr profile_id
         \<or> get_or_null bv ''terminal_state'' \<noteq> JStr ''no-bypass-found''
      then refuse ''bv-identity-invalid'' ''BV identity, state, or profile differs''
      else if \<not> py_equal lib (get_or_null bv ''candidate_attestation'') (JObj attestation)
      then refuse ''bv-candidate-attestation-mismatch'' ''BV candidate attestation differs''
      else (case get_or_null bv ''input_bindings'' of
          JObj bindings \<Rightarrow>
            require ((case get_or_null bindings ''shared_contract_locators'' of
                        JArr [cg, dg, mc] \<Rightarrow> same_locator_document lib cg (locs CheckGeneration)
                          \<and> same_locator_document lib dg (locs DefenseGeneration) \<and> same_locator_document lib mc (locs MitigationCheck)
                      | _ \<Rightarrow> False)
                     \<and> get_or_null bindings ''bypass_profile_id'' = JStr profile_id
                     \<and> nonempty_str (get_or_null bindings ''validation_substrate_id'') \<noteq> None)
              ''bv-chain-provenance-mismatch'' ''BV does not bind exact CG, DG, and MC locators''
        | _ \<Rightarrow> refuse ''bv-chain-provenance-mismatch'' ''BV input bindings are absent''))"

text \<open>Values without repetition, by their canonical form.\<close>

fun unique_canonical :: "shared_library \<Rightarrow> string list \<Rightarrow> json list \<Rightarrow> json list shared" where
  "unique_canonical lib seen [] = Inr []"
| "unique_canonical lib seen (j # js) =
     bindR (canonical lib j) (\<lambda>key.
       if key \<in> set seen then unique_canonical lib seen js
       else bindR (unique_canonical lib (key # seen) js) (\<lambda>others. Inr (j # others)))"

definition ENABLED_FAMILIES :: "string list" where
  "ENABLED_FAMILIES = [''baseline'', ''case-normalization'', ''encoding'', ''semantic-domain'']"

definition sorted_set :: "string list \<Rightarrow> json" where
  "sorted_set ss = JArr (strings (sorted_texts (remdups ss)))"

definition families :: "(dimension_outcome \<Rightarrow> bool) \<Rightarrow> dimension_outcome list \<Rightarrow> string list" where
  "families P outs = List.map_filter done_family (filter P outs)"

definition was_executed :: "dimension_outcome \<Rightarrow> bool" where
  "was_executed d = (done_attempt d \<noteq> None)"

definition governed_families :: "dimension_outcome list \<Rightarrow> (string \<times> json) list" where
  "governed_families outs =
     (let planned = families (\<lambda>_. True) outs; executed = families was_executed outs in
      [(''variant_families_requested'', JArr (strings ENABLED_FAMILIES)), (''variant_families_enabled'', JArr (strings ENABLED_FAMILIES)),
       (''variant_families_planned'', sorted_set planned), (''variant_families_generated'', sorted_set executed),
       (''variant_families_executed'', sorted_set executed), (''variant_families_budget_skipped'', JArr []),
       (''variant_families_unsupported'', sorted_set (families (\<lambda>d. \<not> was_executed d) outs)),
       (''variant_families_out_of_scope'', sorted_set (filter (\<lambda>f. f \<notin> set planned) ENABLED_FAMILIES))])"

definition check_search_bounds :: "shared_library \<Rightarrow> json \<Rightarrow> dimension_outcome list \<Rightarrow> unit shared" where
  "check_search_bounds lib bounds outs =
     (let governed = (families (\<lambda>_. True) outs \<noteq> []);
          attempted = (if governed then families was_executed outs else map done_transformation outs) in
      case bounds of
        JObj b \<Rightarrow>
          if \<not> py_equal lib (get_or_null b ''attempt_budget'') (JInt (int (length outs)))
             \<or> \<not> py_equal lib (get_or_null b ''attempts_executed'') (JInt (int (length (filter was_executed outs))))
             \<or> \<not> py_equal lib (get_or_null b ''variant_families_attempted'') (sorted_set attempted)
          then refuse ''bv-attempt-accounting-invalid'' ''BV search bounds differ from authenticated campaign dimensions''
          else require (governed \<longrightarrow> list_all (\<lambda>(k, v). py_equal lib (get_or_null b k) v) (governed_families outs))
                 ''bv-attempt-accounting-invalid'' ''BV governed family accounting differs from authenticated dimensions''
      | _ \<Rightarrow> refuse ''bv-attempt-accounting-invalid'' ''BV search bounds differ from authenticated campaign dimensions'')"

text \<open>
  The checks of counterexamples and feedback that follow the refusal of a nonempty list hold of two empty
  lists, and each dimension was executed or is unsupported, so all planned work is disposed of.
\<close>

definition validate_bv ::
  "shared_library \<Rightarrow> dict \<Rightarrow> dict \<Rightarrow> dict \<Rightarrow> dict \<Rightarrow> locators \<Rightarrow> string \<Rightarrow> string \<Rightarrow> coverage_accounting shared" where
  "validate_bv lib bv semantics attestation bundle locs profile_id profile_digest =
     bindR (check_bv_identity lib bv attestation locs profile_id) (\<lambda>_.
     bindR (index_at (JObj semantics) ''obligations'' ''obligation_id'' ''obligations-invalid'') (\<lambda>obligations.
     bindR (index_items (get_or_null bv ''campaign_results'') ''obligation_id'' ''bv-campaign-results-invalid'') (\<lambda>campaigns.
     bindR (require (same_keys campaigns obligations) ''bv-campaign-accounting-invalid''
              ''BV campaign IDs differ from required obligations'') (\<lambda>_.
     bindR (index_at (JObj semantics) ''test_inputs'' ''input_id'' ''semantics-inputs-invalid'') (\<lambda>inputs.
     bindR (index_at (JObj semantics) ''components'' ''component_id'' ''components-invalid'') (\<lambda>components.
     bindR (fold_checks (check_campaign lib semantics bundle obligations inputs components profile_id profile_digest) campaigns
              \<lparr>total_outcomes = [], total_resolutions = []\<rparr>) (\<lambda>totals.
     bindR (require (get_or_null bv ''counterexamples'' = JArr [] \<and> get_or_null bv ''feedback'' = JArr []) ''bv-translation-outcome-invalid''
              ''BV no-bypass aggregate cannot contain counterexamples or feedback'') (\<lambda>_.
     bindR (unique_canonical lib [] (total_resolutions totals)) (\<lambda>resolutions.
     bindR (if py_equal lib (get_or_null bv ''resolutions'') (JArr resolutions) then Inr ()
            else bv_template_invalid ''BV top-level resolutions differ from campaign resolutions'') (\<lambda>_.
     let outs = total_outcomes totals in
     bindR (check_search_bounds lib (get_or_null bv ''search_bounds'') outs) (\<lambda>_.
     bindR (accounting semantics (length outs) (length outs)) (\<lambda>a.
       if py_equal lib (get_or_null bv ''accounting'') (accounting_document a) then Inr a
       else refuse ''bv-accounting-invalid'' ''BV CoverageAccounting differs''))))))))))))"

end
