(* ===== verification/SharedInvoke.thy ===== *)
theory SharedInvoke
  imports SharedCampaign Capability
begin

text \<open>
  The four-result join of \<^verbatim>\<open>shared_contracts_v2.py\<close> and the invocation of
  \<^verbatim>\<open>capability.py\<close> on it: each record is authenticated against its immutable locator, the four
  results are verified together, and only then is the plan built and judged by the engine.
\<close>

section \<open>Records\<close>

record authenticated_record = upstream_record +
  rec_raw_result :: "nat list option"
  rec_payload_raw_result :: "nat list option"
  rec_artifact_raw_results :: "(string \<times> nat list) list option"
  rec_authenticated :: "nat list option"
  rec_authenticated_sha256 :: "string option"
  rec_authenticated_size :: "nat option"

definition record_document :: "shared_library \<Rightarrow> authenticated_record \<Rightarrow> string \<Rightarrow> dict shared" where
  "record_document lib r context_name =
     (case rec_raw_result r of
        Some raw \<Rightarrow>
          bindR (strict_json_bytes lib raw context_name) (\<lambda>doc.
            if py_equal lib (JObj doc) (JObj (rec_result r)) then Inr doc
            else refuse ''decoded-result-mismatch'' (context_name @ '' decoded object differs from authenticated bytes''))
      | None \<Rightarrow> bindR (canonical_bytes lib (JObj (rec_result r))) (\<lambda>raw. strict_json_bytes lib raw context_name))"

definition same_strings :: "dict \<Rightarrow> (string \<times> string) list \<Rightarrow> bool" where
  "same_strings kvs expected = list_all (\<lambda>(k, v). get_or_null kvs k = JStr v) expected"

text \<open>The run result of Check Generation and the temporal context around it, of either form.\<close>

definition cg_canonical :: "dict \<Rightarrow> bool" where
  "cg_canonical doc = same_strings doc [(''capability'', ''check-generation''), (''contract_id'', ''check-generation-result@1.0'')]"

definition cg_context :: "dict \<Rightarrow> (dict \<times> dict) shared" where
  "cg_context doc =
     (if cg_canonical doc then
        (case get_or_null doc ''run_result'' of
           JObj run \<Rightarrow> Inr
             ([(''request_id'', get_or_null doc ''request_id''), (''correlation_id'', get_or_null doc ''correlation_id''),
               (''upstream_result_refs'', get_or_null doc ''upstream_result_refs''),
               (''inherited_evidence_refs'', either (get_or_null doc ''evidence_refs'') (JArr [])), (''new_evidence_refs'', JArr []),
               (''result_created_at'', get_or_null doc ''created_at'')], run)
         | _ \<Rightarrow> refuse ''cg-wrapper-invalid'' ''CG canonical result is incomplete'')
      else if \<not> same_strings doc [(''contract_type'', ''check-generation-persisted-result''), (''contract_version'', ''1.0'')]
      then refuse ''cg-wrapper-identity-invalid'' ''expected authenticated Check Generation result''
      else (case (get_or_null doc ''temporal_context'', get_or_null doc ''run_result'') of
          (JObj context_fields, JObj run) \<Rightarrow> Inr (context_fields, run)
        | _ \<Rightarrow> refuse ''cg-wrapper-invalid'' ''CG wrapper is incomplete''))"

definition is_array_field :: "dict \<Rightarrow> string \<Rightarrow> bool" where
  "is_array_field kvs k = is_arr (case get kvs k of None \<Rightarrow> JArr [] | Some v \<Rightarrow> v)"

definition cg_payload :: "dict \<Rightarrow> upstream_input \<Rightarrow> dict shared" where
  "cg_payload doc i =
     bindR (cg_context doc) (\<lambda>(temporal, run).
       if get_or_null doc ''result_id'' \<noteq> JStr (up_result_id i)
       then refuse ''cg-wrapper-identity-invalid'' ''CG wrapper result identity differs''
       else if get_or_null temporal ''correlation_id'' \<noteq> JStr (up_correlation_id i)
               \<or> get_or_null temporal ''request_id'' \<noteq> opt_json (up_request_id i)
       then refuse ''cg-wrapper-identity-invalid'' ''CG temporal identity differs''
       else if get_or_null run ''run_id'' \<noteq> JStr (up_run_id i)
       then refuse ''locator-identity-mismatch'' ''check-generation payload identity differs''
       else if \<not> is_array_field temporal ''inherited_evidence_refs'' \<or> \<not> is_array_field temporal ''new_evidence_refs''
       then refuse ''cg-wrapper-invalid'' ''CG temporal context is incomplete''
       else (case get_or_null temporal ''upstream_result_refs'' of
           JArr [JObj _] \<Rightarrow>
             if get_or_null doc (if cg_canonical doc then ''content_sha256'' else ''temporal_result_content_sha256'')
                \<noteq> opt_json (up_content_sha256 i)
             then refuse ''outer-locator-integrity-failed'' ''CG wrapper digest differs'' else Inr run
         | JArr [_] \<Rightarrow> refuse ''cg-wrapper-invalid'' ''CG upstream lineage is invalid''
         | _ \<Rightarrow> refuse ''cg-wrapper-invalid'' ''CG temporal context is incomplete''))"

definition plain_payload :: "shared_library \<Rightarrow> dict \<Rightarrow> upstream_input \<Rightarrow> dict shared" where
  "plain_payload lib doc i =
     (let name = capability_name (up_capability i); bypass = (up_capability i = BypassValidation) in
      if \<not> same_strings doc ([(''run_id'', up_run_id i), (''result_id'', up_result_id i)]
            @ (if bypass then [] else [(''correlation_id'', up_correlation_id i)]))
      then refuse ''locator-identity-mismatch'' (name @ '' payload identity differs'')
      else if \<not> bypass \<and> (get_or_null doc ''content_sha256'' \<noteq> opt_json (up_content_sha256 i)
              \<or> \<not> py_equal lib (get_or_null doc ''size_bytes'') (get_or_null (locator_json lib i) ''size_bytes''))
      then refuse ''outer-locator-integrity-failed'' (name @ '' advertised integrity differs'')
      else Inr doc)"

text \<open>The bytes the producer authenticated are the ones the locator was issued for.\<close>

definition authenticated_as :: "shared_library \<Rightarrow> authenticated_record \<Rightarrow> upstream_input \<Rightarrow> bool" where
  "authenticated_as lib r i =
     (case rec_authenticated r of
        None \<Rightarrow> False
      | Some bs \<Rightarrow> rec_authenticated_sha256 r = Some (sha256_digest lib bs) \<and> rec_authenticated_size r = Some (length bs)
          \<and> up_content_sha256 i = Some (sha256_digest lib bs) \<and> up_size_bytes i = Some (length bs))"

definition verify_locator :: "shared_library \<Rightarrow> authenticated_record \<Rightarrow> upstream_input \<Rightarrow> dict shared" where
  "verify_locator lib r i =
     (let name = capability_name (up_capability i) in
      bindR (record_document lib r (name @ '' result'')) (\<lambda>doc.
        if rec_result_id r \<noteq> up_result_id i \<or> rec_terminal_state r \<noteq> up_terminal_state i
           \<or> rec_correlation_id r \<noteq> Some (up_correlation_id i) \<or> ref_key (up_result_ref i) \<noteq> up_result_id i
        then refuse ''locator-identity-mismatch'' (name @ '' result identity differs'')
        else bindR (if up_capability i = CheckGeneration then cg_payload doc i else plain_payload lib doc i) (\<lambda>payload.
          if authenticated_as lib r i then Inr payload
          else refuse ''outer-locator-integrity-failed''
                 (name @ '' producer-authenticated bytes differ from the immutable locator''))))"

section \<open>The join\<close>

type_synonym four_records = "upstream_capability \<Rightarrow> authenticated_record"

definition check_dg :: "shared_library \<Rightarrow> dict \<Rightarrow> upstream_input \<Rightarrow> dict shared" where
  "check_dg lib dg cg_locator =
     (if \<not> same_strings dg [(''capability'', ''defense-generation''), (''contract_id'', ''defense-generation-result@1.0''),
                           (''terminal_state'', ''candidate-produced''), (''status'', ''completed'')]
      then refuse ''dg-identity-invalid'' ''DG identity or state differs''
      else bindR (case get dg ''upstream_result_refs'' of None \<Rightarrow> Inr [] | Some v \<Rightarrow> elements v) (\<lambda>refs.
        case filter (\<lambda>j. case j of JObj kvs \<Rightarrow> get_or_null kvs ''capability'' = JStr ''check-generation'' | _ \<Rightarrow> False) refs of
          [binding] \<Rightarrow>
            if \<not> same_locator_document lib binding cg_locator
            then refuse ''dg-cg-lineage-mismatch'' ''DG does not bind exact CG locator''
            else (case get_or_null dg ''candidate_bundle'' of
                JObj bundle \<Rightarrow> Inr bundle
              | _ \<Rightarrow> refuse ''candidate-bundle-absent'' ''DG candidate_bundle is absent'')
        | _ \<Rightarrow> refuse ''dg-cg-lineage-mismatch'' ''DG does not bind exact CG locator''))"

definition subject_vulnerability :: "dict \<Rightarrow> string option" where
  "subject_vulnerability doc =
     (case get_or_null doc ''subject'' of JObj kvs \<Rightarrow> nonempty_str (get_or_null kvs ''vulnerability_id'') | _ \<Rightarrow> None)"

definition join_vulnerability :: "dict list \<Rightarrow> string shared" where
  "join_vulnerability docs =
     (case remdups (List.map_filter subject_vulnerability docs) of
        [] \<Rightarrow> Inr ''unknown''
      | [v] \<Rightarrow> Inr v
      | _ \<Rightarrow> refuse ''vulnerability-lineage-mismatch'' ''upstream vulnerability lineage differs'')"

text \<open>
  The code verifies the locators in the order of a set: which of several faulty records is reported
  first is not determined, and here follows the order of the capabilities.
\<close>

definition verify_four_result_join :: "shared_library \<Rightarrow> four_records \<Rightarrow> locators \<Rightarrow> string \<Rightarrow> verified_join shared" where
  "verify_four_result_join lib rs locs profile_id =
     bindR (verify_locator lib (rs CheckGeneration) (locs CheckGeneration)) (\<lambda>cg.
     bindR (verify_locator lib (rs DefenseGeneration) (locs DefenseGeneration)) (\<lambda>dg.
     bindR (verify_locator lib (rs MitigationCheck) (locs MitigationCheck)) (\<lambda>mc.
     bindR (verify_locator lib (rs BypassValidation) (locs BypassValidation)) (\<lambda>bv.
     let correlation = up_correlation_id (locs CheckGeneration) in
     bindR (require (up_correlation_id (locs DefenseGeneration) = correlation \<and> up_correlation_id (locs MitigationCheck) = correlation
              \<and> up_correlation_id (locs BypassValidation) = correlation)
              ''correlation-lineage-mismatch'' ''upstream correlation lineage differs'') (\<lambda>_.
     bindR (validate_cg lib cg) (\<lambda>semantics.
     bindR (check_dg lib dg (locs CheckGeneration)) (\<lambda>bundle.
     bindR (validate_bundle lib bundle semantics cg (rec_payload_raw_result (rs CheckGeneration)) dg
              (rec_artifact_raw_results (rs DefenseGeneration))) (\<lambda>(attestation, contents).
     bindR (join_vulnerability [cg, dg, mc, bv]) (\<lambda>vulnerability.
     bindR (expected_profiles profile_id) (\<lambda>(mc_profile, mc_digest, bv_profile_id, bv_digest).
     bindR (validate_mc lib mc semantics bundle locs mc_profile mc_digest) (\<lambda>_.
     bindR (validate_bv lib bv semantics attestation bundle locs bv_profile_id bv_digest) (\<lambda>a.
     bindR (items_at (JObj semantics) ''obligations'') (\<lambda>obligations.
     let n = length obligations in
     Inr \<lparr>vj_semantics = semantics, vj_bundle = bundle, vj_contents = contents,
          vj_verification = \<lparr>ptv_required_obligation_count = n, ptv_dg_mapping_count = n, ptv_mc_disposition_count = n,
                             ptv_bv_campaign_count = n\<rparr>,
          vj_accounting = a, vj_vulnerability_id = vulnerability, vj_profile_id = profile_id\<rparr>)))))))))))))"

text \<open>A resolver of authenticated records; it may itself refuse with a shared-contract error.\<close>

datatype fetch_error = FetchResolution string | FetchCancelled | FetchShared shared_error | FetchOther string

type_synonym shared_resolver = "result_reference \<Rightarrow> upstream_input \<Rightarrow> fetch_error + authenticated_record option"

definition fetch_capability :: "shared_resolver \<Rightarrow> locators \<Rightarrow> upstream_capability \<Rightarrow> authenticated_record shared" where
  "fetch_capability fetch locs c =
     (case fetch (up_result_ref (locs c)) (locs c) of
        Inl (FetchResolution msg) \<Rightarrow> refuse ''upstream-resolution-failed'' msg
      | Inl FetchCancelled \<Rightarrow> Inl (PythonError ''OperationCancelled'')
      | Inl (FetchShared e) \<Rightarrow> Inl e
      | Inl (FetchOther _) \<Rightarrow> Inl (TransportError (capability_name c @ '' result could not be fetched''))
      | Inr None \<Rightarrow> refuse ''upstream-result-absent'' (capability_name c @ '' result was not found'')
      | Inr (Some r) \<Rightarrow> Inr r)"

text \<open>\<^verbatim>\<open>{item.capability: item}\<close>: a later locator of a capability replaces an earlier one.\<close>

definition locators_of :: "shared_v2_request \<Rightarrow> locators" where
  "locators_of r c = the (find (\<lambda>i. up_capability i = c) (rev (v2_upstream_inputs r)))"

definition resolve_and_verify :: "shared_library \<Rightarrow> shared_resolver \<Rightarrow> shared_v2_request \<Rightarrow> verified_join shared" where
  "resolve_and_verify lib fetch request =
     (let locs = locators_of request in
      bindR (fetch_capability fetch locs CheckGeneration) (\<lambda>cg.
      bindR (fetch_capability fetch locs DefenseGeneration) (\<lambda>dg.
      bindR (fetch_capability fetch locs MitigationCheck) (\<lambda>mc.
      bindR (fetch_capability fetch locs BypassValidation) (\<lambda>bv.
      verify_four_result_join lib
        (\<lambda>c. case c of CheckGeneration \<Rightarrow> cg | DefenseGeneration \<Rightarrow> dg | MitigationCheck \<Rightarrow> mc | BypassValidation \<Rightarrow> bv)
        locs (profile_value (v2_profile_id request)))))))"

section \<open>The invocation\<close>

text \<open>The envelope of the profile also sets its own contract id.\<close>

record shared_envelope = result_envelope +
  re_contract_id :: string

definition SHARED_CONTRACT :: string where "SHARED_CONTRACT = ''control-translation@2.0''"

definition SHARED_SOURCE :: string where "SHARED_SOURCE = ''deterministic-shared-contract-v2''"

definition fixed_doer :: "proposal \<Rightarrow> doer" where
  "fixed_doer p = \<lparr>propose = (\<lambda>_ _ _ _ _. Inr p), repair = None, deterministic_proposal_source = Some SHARED_SOURCE\<rparr>"

definition shared_target :: "service_settings \<Rightarrow> shared_v2_request \<Rightarrow> target_context" where
  "shared_target s request =
     (let t = (case v2_target_context request of Some t \<Rightarrow> t | None \<Rightarrow> target_context.make None None) in
      target_context.make (Some (or_default (target_context.target_technology t) (default_target_technology s)))
        (Some (or_default (target_policy_context_id t) (default_target_policy_context_id s))))"

definition shared_proof_ids :: "shared_v2_request \<Rightarrow> string list" where
  "shared_proof_ids request = map up_result_id (v2_upstream_inputs request)"

definition shared_pattern :: "shared_v2_request \<Rightarrow> verified_join \<Rightarrow> proven_pattern shared" where
  "shared_pattern request v =
     bindR (bindR (at_key (JObj (vj_semantics v)) ''semantics_id'') model_string) (\<lambda>sid.
     bindR (at_key (JObj (vj_bundle v)) ''primary_candidate'') (\<lambda>candidate.
     bindR (bindR (at_key candidate ''intent'') model_string) (\<lambda>intent.
       case make_pattern
          \<lparr>proven_pattern_id = sid, vulnerability_id = vj_vulnerability_id v, selected_control_class = ''waf'', discriminator_id = sid,
           discriminator_description = ''verified complete WAF carrier semantics'', pattern_summary = intent,
           proof_record_ids = shared_proof_ids request, json_body_feature = None\<rparr> of
         Inl _ \<Rightarrow> Inl (PythonError ''ValidationError'')
       | Inr p \<Rightarrow> Inr p)))"

definition shared_request :: "service_settings \<Rightarrow> shared_v2_request \<Rightarrow> proven_pattern \<Rightarrow> control_translation_request" where
  "shared_request s request pattern =
     \<lparr>input_pattern = Some pattern, input_target = Some (shared_target s request), input_policy = default_policy,
      current_policy_snapshot_id = None\<rparr>"

text \<open>The fields of the profile on a structured result, and those of a complete translation.\<close>

definition profile_fields :: "shared_v2_request \<Rightarrow> verified_join \<Rightarrow> translation_result \<Rightarrow> translation_result" where
  "profile_fields request v r =
     r\<lparr>res_contract_id := SHARED_CONTRACT, res_shared_version := True, res_profile_id := Some (v2_profile_id request),
       res_verification := Some (vj_verification v), res_accounting := Some (vj_accounting v)\<rparr>"

definition shared_candidate :: "shared_library \<Rightarrow> verified_join \<Rightarrow> translation_plan \<Rightarrow> primary_candidate \<Rightarrow> primary_candidate" where
  "shared_candidate lib v plan c =
     (let hash = hex_sha256 (lib_decoders lib) (utf8 (plan_content plan)) in
      c\<lparr>candidate_id := ''control-candidate:'' @ vj_vulnerability_id v @ '':akamai-waf:'' @ take 16 hash,
        cand_artifact := (cand_artifact c)\<lparr>candidate_artifact.artifact_type := ''akamai-waf-rule-set'', content_ref := plan_content plan,
                            content_hash := ''sha256:'' @ hash\<rparr>,
        cand_discriminator := (cand_discriminator c)\<lparr>discriminator_translation := ''exact'',
          discriminator_justification := ''Every authenticated route-bound Boolean alternative is '' @
            ''emitted as an AND rule; the atomic rule set combines '' @ ''alternatives with OR.''\<rparr>\<rparr>)"

definition complete_translation ::
  "shared_library \<Rightarrow> verified_join \<Rightarrow> translation_plan \<Rightarrow> translation_result \<Rightarrow> translation_result shared" where
  "complete_translation lib v plan r =
     (if res_terminal_state r \<noteq> Translated then Inr r
      else (case res_candidate r of
          None \<Rightarrow> cannot_express ''translated shared-v2 result has no primary candidate''
        | Some c \<Rightarrow> Inr
            (r\<lparr>res_candidate := Some (shared_candidate lib v plan c),
               res_prose_summary := ''Translated the complete verified route-bound WAF grammar into '' @ ''an atomic Akamai custom-rule set.'',
               res_target_artifacts := [], res_directives := plan_directives plan, res_mappings := plan_mappings plan\<rparr>)))"

definition mark_deterministic :: "string list \<Rightarrow> json \<Rightarrow> json" where
  "mark_deterministic proof_ids inference =
     (case inference of
        JObj kvs \<Rightarrow> JObj (fold (\<lambda>(k, v). dict_set k v)
          [(''provider'', JStr ''deterministic-code''), (''model'', JNull), (''llm_invoked'', JBool False),
           (''proposal_from_doer'', JBool False), (''proposal_source'', JStr SHARED_SOURCE),
           (''actor'', JObj [(''type'', JStr ''deterministic-code''), (''identity'', JStr ''control-translation.shared-contract-v2''),
                             (''version'', JStr ''2.0'')]),
           (''provenance'', JObj [(''source'', JStr ''verified-four-result-join''), (''upstream_result_ids'', JArr (strings proof_ids))])] kvs)
      | j \<Rightarrow> j)"

definition shared_bundle :: "shared_library \<Rightarrow> shared_v2_request \<Rightarrow> json" where
  "shared_bundle lib request = JObj
     [(''shared_contract_version'', JStr ''2.0''), (''profile_id'', JStr (profile_value (v2_profile_id request))),
      (''upstream_inputs'', JObj (fold (\<lambda>i. dict_set (capability_name (up_capability i)) (JObj (locator_json lib i)))
         (v2_upstream_inputs request) []))]"

text \<open>Marking an envelope, binding it to the request, and validating the whole of it.\<close>

definition bind_shared_context :: "shared_library \<Rightarrow> shared_v2_request \<Rightarrow> result_envelope \<Rightarrow> shared_envelope shared" where
  "bind_shared_context lib request e =
     (let marked = e\<lparr>re_inference := mark_deterministic (shared_proof_ids request) (re_inference e),
                     re_request_id := Some (v2_request_id request), re_reference_bundle := shared_bundle lib request,
                     re_provenance := shared_proof_ids request\<rparr> in
      case validate_result_envelope marked of
        Inl _ \<Rightarrow> Inl (PythonError ''ValidationError'')
      | Inr accepted \<Rightarrow> Inr (result_envelope.extend accepted (shared_envelope.fields SHARED_CONTRACT)))"

definition python_errors :: "'a checked \<Rightarrow> 'a shared" where
  "python_errors m = (case m of Inl e \<Rightarrow> Inl (PythonError e) | Inr x \<Rightarrow> Inr x)"

text \<open>The decline of a verified join that the profile cannot express.\<close>

definition shared_decline ::
  "shared_library \<Rightarrow> runtime \<Rightarrow> shared_v2_request \<Rightarrow> verified_join \<Rightarrow> proven_pattern \<Rightarrow> string \<Rightarrow> shared_envelope shared" where
  "shared_decline lib rt request v pattern detail =
     (case with_effective_target_context (rt_settings rt) (shared_request (rt_settings rt) request pattern) of
        (effective, defaults) \<Rightarrow>
          bindR (python_errors (build_result (rt_ids rt) effective defaults None (plain_outcome CannotExpress UnsupportedFeature detail))) (\<lambda>r.
          bind_shared_context lib request
            (make_envelope (rt_settings rt) (rt_ids rt) (Some (v2_correlation_id request)) False SHARED_SOURCE (profile_fields request v r))))"

definition shared_translation ::
  "shared_library \<Rightarrow> runtime \<Rightarrow> shared_v2_request \<Rightarrow> verified_join \<Rightarrow> proven_pattern \<Rightarrow> translation_plan \<Rightarrow> shared_envelope shared" where
  "shared_translation lib rt request v pattern plan =
     bindR (python_errors (invoke (rt\<lparr>rt_doer := fixed_doer (plan_proposal plan)\<rparr>) (Some (v2_correlation_id request)) no_proof_context
              (shared_request (rt_settings rt) request
                (pattern\<lparr>discriminator_description := plan_description plan, pattern_summary := plan_summary plan\<rparr>)))) (\<lambda>e.
     bindR (complete_translation lib v plan (profile_fields request v (re_structured e))) (\<lambda>r.
     bindR (python_errors (validate_v2_completeness r)) (\<lambda>r.
     bind_shared_context lib request (e\<lparr>re_structured := r\<rparr>))))"

definition invoke_shared_contract_v2 ::
  "shared_library \<Rightarrow> runtime \<Rightarrow> shared_resolver option \<Rightarrow> shared_v2_request \<Rightarrow> shared_envelope shared" where
  "invoke_shared_contract_v2 lib rt fetch request =
     (case fetch of
        None \<Rightarrow> refuse ''upstream-resolution-failed'' ''v2 upstream results cannot be fetched with the current configuration''
      | Some f \<Rightarrow>
          bindR (resolve_and_verify lib f request) (\<lambda>v.
          bindR (shared_pattern request v) (\<lambda>pattern.
            case build_waf_translation_plan lib v (the (target_context.target_technology (shared_target (rt_settings rt) request))) of
              Inl (SharedError code detail) \<Rightarrow>
                if code = ''cannot-express'' then shared_decline lib rt request v pattern detail else Inl (SharedError code detail)
            | Inl e \<Rightarrow> Inl e
            | Inr plan \<Rightarrow> shared_translation lib rt request v pattern plan)))"

end
