(* ===== verification/SharedFacts.thy ===== *)
theory SharedFacts
  imports SharedInvoke
begin

text \<open>
  The lemmas of the shared-contract profile: what indexed collections and typed references are once they
  were accepted, what a coverage reference leads down to, and what each verification has established.
\<close>

lemma bindR_InrE: "bindR m f = Inr y \<Longrightarrow> (\<And>x. m = Inr x \<Longrightarrow> f x = Inr y \<Longrightarrow> P) \<Longrightarrow> P"
  by (auto simp: bindR_eq_Inr)

lemma refuse_Inr [simp]: "refuse code detail \<noteq> Inr x" "cannot_express detail \<noteq> Inr x" "bv_invalid detail \<noteq> Inr x"
    "bv_template_invalid detail \<noteq> Inr x" "template_invalid detail \<noteq> Inr x" "bv_integrity detail \<noteq> Inr x"
  by (simp_all add: refuse_def cannot_express_def bv_invalid_def bv_template_invalid_def template_invalid_def bv_integrity_def)

lemma require_Inr [simp]: "require ok code detail = Inr u \<longleftrightarrow> ok"
  by (simp add: require_def)

lemma mapR_Inr: "mapR f xs = Inr ys \<longleftrightarrow> list_all2 (\<lambda>x y. f x = Inr y) xs ys"
  by (induction xs arbitrary: ys) (auto simp: bindR_eq_Inr list_all2_Cons1)

lemma mapR_each: "mapR f xs = Inr ys \<Longrightarrow> x \<in> set xs \<Longrightarrow> \<exists>y. f x = Inr y"
  by (auto simp: mapR_Inr list_all2_conv_all_nth in_set_conv_nth)

lemma mapR_result: "mapR f xs = Inr ys \<Longrightarrow> y \<in> set ys \<Longrightarrow> \<exists>x. f x = Inr y"
  by (auto simp: mapR_Inr list_all2_conv_all_nth in_set_conv_nth)

section \<open>Collections\<close>

lemma index_from_Inr:
  "index_from key code js found = Inr xs \<Longrightarrow> distinct (map fst found) \<Longrightarrow>
   \<exists>ys. xs = rev found @ ys \<and> js = map (\<lambda>(i, d). JObj d) ys \<and> distinct (map fst xs) \<and>
     (\<forall>(i, d) \<in> set ys. i \<noteq> [] \<and> get_or_null d key = JStr i)"
proof (induction key code js found arbitrary: xs rule: index_from.induct)
  case (1 key code found)
  then show ?case by (auto simp: rev_map [symmetric])
next
  case (2 key code j js found)
  obtain kvs i where j: "j = JObj kvs" "get_or_null kvs key = JStr i" "i \<noteq> []" "i \<notin> set (map fst found)"
    "index_from key code js ((i, kvs) # found) = Inr xs"
    using 2(2) by (auto split: json.splits if_splits)
  obtain ys where "xs = rev ((i, kvs) # found) @ ys" "js = map (\<lambda>(i, d). JObj d) ys" "distinct (map fst xs)"
    "\<forall>(i, d) \<in> set ys. i \<noteq> [] \<and> get_or_null d key = JStr i"
    using 2(1) [OF j(1,2) _ j(5)] j(3,4) 2(3) by auto
  then show ?case using j by (intro exI [of _ "(i, kvs) # ys"]) auto
qed

lemma index_items_Inr:
  assumes "index_items j key code = Inr xs"
  shows "j = JArr (map (\<lambda>(i, d). JObj d) xs) \<and> distinct (map fst xs) \<and> (\<forall>(i, d) \<in> set xs. i \<noteq> [] \<and> get_or_null d key = JStr i)"
  using assms index_from_Inr [of key code _ "[]" xs] by (auto simp: index_items_def split: json.splits)

lemma index_at_items:
  assumes "index_at j k key code = Inr xs"
  shows "at_key j k = Inr (JArr (map (\<lambda>(i, d). JObj d) xs)) \<and> distinct (map fst xs)
    \<and> (\<forall>(i, d) \<in> set xs. i \<noteq> [] \<and> get_or_null d key = JStr i)"
  using assms unfolding index_at_def by (auto elim!: bindR_InrE dest!: index_items_Inr)

lemma index_column:
  assumes "index_at j k key code = Inr xs"
  shows "items_at j k = Inr (map (\<lambda>(i, d). JObj d) xs)" "column key (map (\<lambda>(i, d). JObj d) xs) = Inr (strings (map fst xs))"
proof -
  show "items_at j k = Inr (map (\<lambda>(i, d). JObj d) xs)"
    using index_at_items [OF assms] by (simp add: items_at_def elements_def)
  have "get d key = Some (JStr i)" if "(i, d) \<in> set xs" for i d
    using index_at_items [OF assms] that by (fastforce simp: get_or_null_def split: option.splits)
  then show "column key (map (\<lambda>(i, d). JObj d) xs) = Inr (strings (map fst xs))"
    unfolding column_def mapR_Inr
    by (auto simp: strings_def list_all2_map1 list_all2_map2 at_key_def need_hashable_def hashable_def intro!: list.rel_refl_strong)
qed

lemma ref_ids_from_keeps: "ref_ids_from kind scope known code js found = Inr ids \<Longrightarrow> set found \<subseteq> set ids"
proof (induction js arbitrary: found)
  case (Cons j js)
  then obtain i where "ref_ids_from kind scope known code js (i # found) = Inr ids" by (auto split: option.splits if_splits)
  from Cons(1) [OF this] show ?case by simp
qed auto

lemma ref_ids_from_Inr:
  "ref_ids_from kind scope known code js found = Inr ids \<Longrightarrow> distinct found \<Longrightarrow>
   distinct ids \<and> set ids \<subseteq> set found \<union> set known \<and> length ids = length found + length js
   \<and> (\<forall>j \<in> set js. \<exists>i \<in> set ids. ref_target kind scope j = Some i)"
proof (induction js arbitrary: found)
  case (Cons j js)
  then obtain i where i: "ref_target kind scope j = Some i" "i \<in> set known" "i \<notin> set found"
    "ref_ids_from kind scope known code js (i # found) = Inr ids" by (auto split: option.splits if_splits)
  from ref_ids_from_keeps [OF i(4)] Cons(1) [OF i(4)] Cons(3) i show ?case by auto
qed auto

lemma ref_ids_Inr:
  assumes "ref_ids kind scope known code allow_empty refs = Inr ids"
  shows "distinct ids \<and> set ids \<subseteq> set known \<and> (allow_empty \<or> ids \<noteq> [])"
  using assms ref_ids_from_Inr [of kind scope known code _ "[]" ids]
  by (fastforce simp: ref_ids_def split: json.splits if_splits)

section \<open>Coverage\<close>

text \<open>The component references below a coverage reference.\<close>

inductive leads_down :: "(string \<times> dict) list \<Rightarrow> json \<Rightarrow> json \<Rightarrow> bool" for groups where
  down_component: "dot_get ref ''kind'' = Inr (JStr ''component'') \<Longrightarrow> leads_down groups ref ref"
| down_group: "dot_get ref ''kind'' = Inr (JStr ''coverage-group'') \<Longrightarrow> dot_get ref ''id'' = Inr (JStr i) \<Longrightarrow>
    map_of groups i = Some grp \<Longrightarrow> items_at (JObj grp) ''member_refs'' = Inr children \<Longrightarrow> child \<in> set children \<Longrightarrow>
    leads_down groups child leaf \<Longrightarrow> leads_down groups ref leaf"

inductive_cases leads_downE: "leads_down groups ref leaf"

definition leaf_members :: "(string \<times> dict) list \<Rightarrow> json \<Rightarrow> json set" where
  "leaf_members components leaf =
     {m. \<exists>i c ms. dot_get leaf ''id'' = Inr i \<and> map_of components (py_str i) = Some c \<and>
        bindR (items_at (JObj c) ''source_member_refs'') (column ''id'') = Inr ms \<and> m \<in> set ms}"

lemma coverage_walk_Inr:
  "coverage_walk components groups scope visiting ref = Inr ids \<Longrightarrow>
   set ids = (\<Union>leaf \<in> {leaf. leads_down groups ref leaf}. leaf_members components leaf)"
proof (induction components groups scope visiting ref arbitrary: ids rule: coverage_walk.induct)
  case (1 components groups scope visiting ref)
  from 1(2) obtain ref_scope kind identity where r: "dot_get ref ''scope'' = Inr ref_scope" "dot_get ref ''kind'' = Inr kind"
    "dot_get ref ''id'' = Inr identity" "ref_scope = scope"
    by (subst (asm) coverage_walk.simps) (auto elim!: bindR_InrE split: if_splits)
  show ?case
  proof (cases "kind = JStr ''component''")
    case True
    have "leads_down groups ref leaf \<longleftrightarrow> leaf = ref" for leaf
      using r(2) True by (auto elim: leads_downE intro: down_component)
    moreover have "\<exists>c. map_of components (py_str identity) = Some c \<and>
        bindR (items_at (JObj c) ''source_member_refs'') (column ''id'') = Inr ids"
      using 1(2) r True by (subst (asm) coverage_walk.simps) (auto split: option.splits)
    ultimately show ?thesis using r(3) by (auto simp: leaf_members_def)
  next
    case False
    obtain i grp children parts where g: "kind = JStr ''coverage-group''" "identity = JStr i" "i \<notin> set visiting"
      "map_of groups i = Some grp" "items_at (JObj grp) ''member_refs'' = Inr children"
      "mapR (\<lambda>child. coverage_walk components groups scope (i # visiting) child) children = Inr parts" "ids = concat parts"
      using 1(2) r False
      by (subst (asm) coverage_walk.simps)
        (auto elim!: bindR_InrE simp: need_hashable_def split: if_splits json.splits option.splits)
    have parts: "list_all2 (\<lambda>child part. set part = (\<Union>leaf \<in> {leaf. leads_down groups child leaf}. leaf_members components leaf)) children parts"
      using g(6) unfolding mapR_Inr
    proof (rule list.rel_mono_strong)
      fix child part assume "coverage_walk components groups scope (i # visiting) child = Inr part"
      then show "set part = (\<Union>leaf \<in> {leaf. leads_down groups child leaf}. leaf_members components leaf)"
        using 1(1) [OF r(1-3) _ False] g r(4) by (simp add: need_hashable_def hashable_def)
    qed
    have "leads_down groups ref leaf \<longleftrightarrow> (\<exists>child \<in> set children. leads_down groups child leaf)" for leaf
      by (subst leads_down.simps) (use r(2,3) g(1,2,4,5) in auto)
    moreover have "set (concat parts) = (\<Union>child \<in> set children. \<Union>leaf \<in> {leaf. leads_down groups child leaf}. leaf_members components leaf)"
      using parts by (induction children parts rule: list_all2_induct) auto
    ultimately show ?thesis using g(7) by auto
  qed
qed

lemma coverage_members_Inr:
  assumes "coverage_members ref semantics = Inr ids"
  obtains components groups coverage where
    "index_at (JObj semantics) ''components'' ''component_id'' ''components-invalid'' = Inr components"
    "at_key (JObj semantics) ''coverage'' = Inr coverage" "index_at coverage ''groups'' ''group_id'' ''coverage-invalid'' = Inr groups"
    "set ids = (\<Union>leaf \<in> {leaf. leads_down groups ref leaf}. leaf_members components leaf)"
  using assms unfolding coverage_members_def by (auto elim!: bindR_InrE dest!: coverage_walk_Inr)

section \<open>The plan\<close>

definition rule_conditions :: "json \<Rightarrow> json list" where
  "rule_conditions rule =
     (case rule of JObj kvs \<Rightarrow> (case get_or_null kvs ''conditions'' of JArr cs \<Rightarrow> cs | _ \<Rightarrow> []) | _ \<Rightarrow> [])"

lemma alternative_rule_conditions [simp]: "rule_conditions (alternative_rule doc artifact n binding alternative cs) = cs"
  by (simp add: rule_conditions_def alternative_rule_def get_or_null_def get_def)

text \<open>The condition of a component is the regex condition of the document's rule for it.\<close>

definition condition_for :: "json \<Rightarrow> string \<times> json \<Rightarrow> bool" where
  "condition_for j entry =
     (\<exists>rule pat cs. j = JObj rule \<and> get_or_null rule ''component_id'' = JStr (fst entry) \<and> get_or_null rule ''pattern'' = JStr pat \<and>
        snd entry = JObj cs \<and> get cs ''value'' = Some (JArr [JStr pat]) \<and> get cs ''matchOperator'' = Some (JStr ''regex'') \<and>
        get cs ''sourceComponentId'' = Some (JStr (fst entry)))"

lemma nonempty_str_Some: "nonempty_str j = Some s \<longleftrightarrow> j = JStr s \<and> s \<noteq> []"
  by (auto simp: nonempty_str_def split: json.splits)

lemma check_flags_Inr: "check_flags msg flags = Inr u \<longleftrightarrow> find (\<lambda>f. f \<noteq> JStr ''i'') flags = None"
  by (auto simp: check_flags_def split: option.splits)

lemma rule_condition_for:
  assumes "get_or_null rule ''component_id'' = JStr i" "get_or_null rule ''pattern'' = JStr pat"
  shows "condition_for (JObj rule) (i, rule_condition location rule_id (c, n, i) pat flags steps)"
  using assms by (simp add: condition_for_def rule_condition_def get_def Let_def)

lemma component_condition_Inr:
  assumes "component_condition rule component artifact seen = Inr (condition, key, rule_id)"
    "nonempty_str (get_or_null rule ''component_id'') = Some i"
  shows "condition_for (JObj rule) (i, condition) \<and> snd (snd key) = i"
proof -
  let ?n = "nonempty_str (get_or_null rule ''pattern'')"
  have i: "get_or_null rule ''component_id'' = JStr i" using assms(2) by (simp add: nonempty_str_Some)
  obtain expected loc where "at_key (JObj component) ''location'' = Inr loc" "semantic_carrier component = Inr expected"
    using assms(1) unfolding component_condition_def by (elim bindR_InrE) simp
  then obtain location c n pat flags steps where "?n = Some pat"
    "condition = rule_condition location rule_id (c, n, i) pat flags steps" "key = (c, n, i)"
    using assms unfolding component_condition_def
    by (simp add: Let_def split: option.splits if_splits json.splits) (auto elim!: bindR_InrE split: json.splits if_splits)
  then show ?thesis using rule_condition_for [OF i] by (simp add: nonempty_str_Some)
qed

lemma add_rule_Inr:
  assumes "add_rule components artifact j t = Inr t'"
  shows "\<exists>entry. table_conditions t' = table_conditions t @ [entry] \<and> condition_for j entry \<and>
    fst entry \<notin> set (map fst (table_conditions t)) \<and> table_carriers t' = table_carriers t @ [hd (rev (table_carriers t'))] \<and>
    snd (snd (last (table_carriers t'))) = fst entry"
proof -
  obtain rule i component condition key rule_id where r: "j = JObj rule" "nonempty_str (get_or_null rule ''component_id'') = Some i"
    "i \<notin> set (map fst (table_conditions t))" "component_condition rule component artifact (table_rule_ids t) = Inr (condition, key, rule_id)"
    "t' = \<lparr>table_conditions = table_conditions t @ [(i, condition)], table_carriers = table_carriers t @ [key],
           table_rule_ids = rule_id # table_rule_ids t\<rparr>"
    using assms unfolding add_rule_def by (auto elim!: bindR_InrE split: json.splits option.splits if_splits)
  with component_condition_Inr [OF r(4,2)] show ?thesis by (intro exI [of _ "(i, condition)"]) simp
qed

lemma add_rules_Inr:
  "add_rules components artifact js t = Inr t' \<Longrightarrow> distinct (map fst (table_conditions t)) \<Longrightarrow>
   \<exists>new. table_conditions t' = table_conditions t @ new \<and> list_all2 condition_for js new \<and> distinct (map fst (table_conditions t'))"
proof (induction js arbitrary: t)
  case (Cons j js)
  obtain t1 where t1: "add_rule components artifact j t = Inr t1" "add_rules components artifact js t1 = Inr t'"
    using Cons(2) by (auto simp: bindR_eq_Inr)
  obtain entry where e: "table_conditions t1 = table_conditions t @ [entry]" "condition_for j entry"
    "fst entry \<notin> set (map fst (table_conditions t))" using add_rule_Inr [OF t1(1)] by blast
  then have "distinct (map fst (table_conditions t1))" using Cons(3) by simp
  from Cons(1) [OF t1(2) this] obtain new where "table_conditions t' = table_conditions t1 @ new" "list_all2 condition_for js new"
    "distinct (map fst (table_conditions t'))" by blast
  then show ?case using e by (intro exI [of _ "entry # new"]) simp
qed simp

lemma known_components_Inr:
  assumes "known_components conditions ids = Inr (Some cs)"
  shows "ids = strings cs \<and> set cs \<subseteq> set (map fst conditions)"
proof -
  have f: "find (\<lambda>j. \<not> (case j of JStr s \<Rightarrow> s \<in> set (map fst conditions) | _ \<Rightarrow> False)) ids = None"
    and cs: "cs = map (\<lambda>j. case j of JStr s \<Rightarrow> s | _ \<Rightarrow> []) ids"
    using assms by (auto simp: known_components_def simp del: set_map split: option.splits if_splits)
  have "\<exists>s. j = JStr s \<and> s \<in> set (map fst conditions)" if "j \<in> set ids" for j
    using f that unfolding find_None_iff by (cases j) auto
  then have "list_all (\<lambda>j. \<exists>s. j = JStr s \<and> s \<in> set (map fst conditions)) ids"
    unfolding list_all_iff by (intro ballI)
  then have "ids = strings (map (\<lambda>j. case j of JStr s \<Rightarrow> s | _ \<Rightarrow> []) ids)
      \<and> set (map (\<lambda>j. case j of JStr s \<Rightarrow> s | _ \<Rightarrow> []) ids) \<subseteq> set (map fst conditions)"
    unfolding strings_def by (induction ids) (auto simp del: set_map)
  then show ?thesis unfolding cs .
qed

lemma independent_rules_Inr:
  "independent_rules lib doc artifact conditions n seen js = Inr rules \<Longrightarrow>
   \<exists>idss. js = map (JArr \<circ> strings) idss \<and> list_all (\<lambda>ids. ids \<noteq> [] \<and> set ids \<subseteq> set (map fst conditions)) idss \<and>
     map (rule_conditions \<circ> snd) rules = map (conditions_of conditions) idss"
proof (induction js arbitrary: n seen rules)
  case (Cons j js)
  then obtain key ids cs others where j: "j = JArr ids" "ids \<noteq> []" "known_components conditions ids = Inr (Some cs)"
    "independent_rules lib doc artifact conditions (Suc n) (key # seen) js = Inr others"
    "map (rule_conditions \<circ> snd) rules = conditions_of conditions cs # map (rule_conditions \<circ> snd) others"
    by (auto elim!: bindR_InrE simp: Let_def split: json.splits if_splits option.splits)
  from Cons(1) [OF j(4)] obtain idss where "js = map (JArr \<circ> strings) idss"
    "list_all (\<lambda>ids. ids \<noteq> [] \<and> set ids \<subseteq> set (map fst conditions)) idss"
    "map (rule_conditions \<circ> snd) others = map (conditions_of conditions) idss" by blast
  then show ?case using j known_components_Inr [OF j(3)]
    by (intro exI [of _ "cs # idss"]) (simp add: strings_def o_def)
qed simp

lemma nonempty_list_Some: "nonempty_list j = Some xs \<longleftrightarrow> j = JArr xs \<and> xs \<noteq> []"
  by (auto simp: nonempty_list_def split: json.splits)

lemma nonempty_list_JArr [simp]: "nonempty_list (JArr xs) = (if xs = [] then None else Some xs)"
  by (simp add: nonempty_list_def)

text \<open>What a translated rule document consists of.\<close>

lemma translate_rule_document_Inr:
  assumes "translate_rule_document lib doc artifact semantics profile_id = Inr (rules, carriers)"
  obtains listed coverage components conditions where
    "get_or_null doc ''rules'' = JArr listed" "get_or_null doc ''coverage_alternatives'' = JArr coverage" "coverage \<noteq> []"
    "list_all2 condition_for listed conditions" "distinct (map fst conditions)"
    "if get_or_null doc ''placement_mode'' \<in> {JNull, JStr []}
     then independent_rules lib doc artifact conditions 0 [] coverage = Inr rules
     else (\<exists>routes. get_or_null doc ''route_bound_alternatives'' = JArr routes \<and>
             route_bound_rules lib profile_id doc artifact semantics components conditions coverage routes = Inr rules)"
proof -
  from assms obtain listed coverage components t where "get_or_null doc ''rules'' = JArr listed"
    "get_or_null doc ''coverage_alternatives'' = JArr coverage" "coverage \<noteq> []"
    "add_rules components artifact listed \<lparr>table_conditions = [], table_carriers = [], table_rule_ids = []\<rparr> = Inr t"
    "if get_or_null doc ''placement_mode'' \<in> {JNull, JStr []}
     then independent_rules lib doc artifact (table_conditions t) 0 [] coverage = Inr rules
     else (\<exists>routes. get_or_null doc ''route_bound_alternatives'' = JArr routes \<and>
             route_bound_rules lib profile_id doc artifact semantics components (table_conditions t) coverage routes = Inr rules)"
    unfolding translate_rule_document_def
    by (auto elim!: bindR_InrE simp: Let_def nonempty_list_Some split: option.splits if_splits)
  with that add_rules_Inr [OF this(4)] show thesis by auto
qed

text \<open>The rules of a plan, each accepted by the adapter, and what the plan says of the obligations.\<close>

definition accepted_by_akamai :: "shared_library \<Rightarrow> string \<Rightarrow> bool" where
  "accepted_by_akamai lib content =
     (case akamai_validate_syntax (candidate_of (lib_decoders lib) content) of Inr res \<Rightarrow> valid res | Inl _ \<Rightarrow> False)"

lemma check_rules_Cons:
  "check_rules lib n (rule # rules) = Inr u \<longleftrightarrow>
     (\<exists>content. canonical lib rule = Inr content \<and> accepted_by_akamai lib content) \<and> check_rules lib (Suc n) rules = Inr u"
  unfolding accepted_by_akamai_def by (cases "canonical lib rule") (auto split: sum.splits)

lemma check_rules_Inr:
  "check_rules lib n rules = Inr u \<longleftrightarrow> (\<forall>rule \<in> set rules. \<exists>content. canonical lib rule = Inr content \<and> accepted_by_akamai lib content)"
  by (induction rules arbitrary: n) (simp_all add: check_rules_Cons del: check_rules.simps(2))

lemma plan_rules_Inr:
  assumes "plan_rules lib v sources = Inr rules"
  shows "rules \<noteq> [] \<and> (\<forall>rule \<in> set rules. \<exists>content. canonical lib rule = Inr content \<and> accepted_by_akamai lib content)"
  using assms unfolding plan_rules_def by (elim bindR_InrE) (auto elim!: bindR_InrE simp: check_rules_Inr split: if_splits)

lemma obligation_mapping_Inr: "obligation_mapping scope sources directives target j = Inr m \<Longrightarrow> tm_target_artifact_ids m = [target]"
  unfolding obligation_mapping_def by (auto elim!: bindR_InrE split: if_splits)

lemma translated_directive_Inr: "translated_directive sources target j = Inr d \<Longrightarrow> td_target_artifact_id d = target"
  unfolding translated_directive_def by (auto elim!: bindR_InrE split: if_splits)

lemma unless_InrE: "(if c then cannot_express d else m) = Inr y \<Longrightarrow> (\<not> c \<Longrightarrow> m = Inr y \<Longrightarrow> P) \<Longrightarrow> P"
  by (simp split: if_splits)

lemma build_plan_Inr:
  assumes "build_waf_translation_plan lib v technology = Inr plan"
  obtains sources rules scope target directives ms obligations required where
    "technology = ''akamai-waf''" "plan_rules lib v sources = Inr rules" "canonical lib (JObj [(''rules'', JArr rules)]) = Inr (plan_content plan)"
    "mapR (\<lambda>(i, d). translated_directive (map fst sources) target (JObj d)) directives = Inr (plan_directives plan)"
    "mapR (obligation_mapping scope (map fst sources) (map fst directives) target) ms = Inr (plan_mappings plan)"
    "items_at (JObj (vj_semantics v)) ''obligations'' = Inr obligations" "column ''obligation_id'' obligations = Inr required"
    "set (strings (map tm_obligation_id (plan_mappings plan))) = set required"
proof -
  have "technology = ''akamai-waf''"
    using assms unfolding build_waf_translation_plan_def check_plan_target_def by (elim bindR_InrE) (simp split: if_splits)
  note found = that [OF this]
  from assms show thesis
    unfolding build_waf_translation_plan_def
    apply (elim bindR_InrE unless_InrE)
    apply (drule Inr_inject)
    apply hypsubst
    apply (rule found)
    apply (simp_all only: translation_plan.simps not_not)
    done
qed

section \<open>The verified results\<close>

text \<open>What verification establishes of a case of Mitigation Check, and of all cases of an obligation.\<close>

definition case_blocked :: "shared_library \<Rightarrow> dict \<Rightarrow> bool" where
  "case_blocked lib c =
     (get_or_null c ''disposition'' = JStr ''blocked'' \<and>
      (case get_or_null c ''evidence'' of JObj e \<Rightarrow> blocked_evidence lib e | _ \<Rightarrow> False))"

lemma validate_mc_evidence_Inr:
  assumes "validate_mc_evidence lib c obligation = Inr u" "get_or_null c ''disposition'' = JStr ''blocked''"
  shows "case_blocked lib c"
proof -
  have "at_key (JObj c) ''disposition'' = Inr (JStr ''blocked'')"
    using assms by (auto simp: validate_mc_evidence_def at_key_def get_or_null_def split: option.splits)
  then show ?thesis
    using assms by (auto simp: validate_mc_evidence_def case_blocked_def split: json.splits if_splits)
qed

definition all_blocked :: "shared_library \<Rightarrow> dict \<Rightarrow> dict \<Rightarrow> bool" where
  "all_blocked lib obligation result =
     (case (get_or_null result ''case_results'', bindR (items_at (JObj obligation) ''required_input_refs'') (column ''id'')) of
        (JArr cases, Inr required) \<Rightarrow>
          list_all (\<lambda>i. list_ex (\<lambda>c. case c of JObj kvs \<Rightarrow> get_or_null kvs ''input_id'' = i | _ \<Rightarrow> False) cases) required
          \<and> list_all (\<lambda>c. case c of JObj kvs \<Rightarrow> case_blocked lib kvs \<and> get_or_null kvs ''input_id'' \<in> set required | _ \<Rightarrow> False) cases
      | _ \<Rightarrow> False)"

lemma obligation_cases_Inr:
  assumes "obligation_cases lib inputs results profile_id profile_digest (i, obligation) = Inr n"
  shows "all_blocked lib obligation (the (map_of results i))"
proof -
  obtain cases required where
    c: "index_items (get_or_null (the (map_of results i)) ''case_results'') ''input_id'' ''mc-case-results-invalid'' = Inr cases"
    and r: "bindR (items_at (JObj obligation) ''required_input_refs'') (column ''id'') = Inr required"
    and same: "set (strings (map fst cases)) = set required" "list_all (\<lambda>(_, c). blocked_case c) cases"
    and each: "check_each (check_case lib inputs i profile_id profile_digest) cases = Inr ()"
    using assms unfolding obligation_cases_def Let_def prod.case
    by (elim bindR_InrE) (simp split: if_splits; elim bindR_InrE; simp)
  have k: "get_or_null d ''input_id'' = JStr k" if "(k, d) \<in> set cases" for k d
    using index_items_Inr [OF c] that by auto
  have "case_blocked lib d" if "(k, d) \<in> set cases" for k d
  proof (rule validate_mc_evidence_Inr)
    show "get_or_null d ''disposition'' = JStr ''blocked''"
      using same(2) that unfolding list_all_iff by (auto simp: blocked_case_def)
    show "validate_mc_evidence lib d i = Inr ()"
      using each that unfolding check_each_Inr check_case_def by (auto simp: bindR_eq_Inr)
  qed
  with k have blocked: "list_all (\<lambda>c. case c of JObj kvs \<Rightarrow> case_blocked lib kvs \<and> get_or_null kvs ''input_id'' \<in> set required | _ \<Rightarrow> False)
      (map (\<lambda>(i, d). JObj d) cases)"
    unfolding list_all_iff same(1) [symmetric] strings_def by force
  have "\<exists>c \<in> set (map (\<lambda>(i, d). JObj d) cases). case c of JObj kvs \<Rightarrow> get_or_null kvs ''input_id'' = j | _ \<Rightarrow> False"
    if "j \<in> set required" for j
  proof -
    from that obtain k' d where "(k', d) \<in> set cases" "j = JStr k'" unfolding same(1) [symmetric] strings_def by auto
    with k show ?thesis by (intro bexI [of _ "JObj d"]) auto
  qed
  then have "list_all (\<lambda>i. list_ex (\<lambda>c. case c of JObj kvs \<Rightarrow> get_or_null kvs ''input_id'' = i | _ \<Rightarrow> False)
      (map (\<lambda>(i, d). JObj d) cases)) required"
    unfolding list_all_iff list_ex_iff by (intro ballI)
  with blocked index_items_Inr [OF c] r show ?thesis unfolding all_blocked_def by simp
qed

lemma validate_mc_Inr:
  assumes "validate_mc lib mc semantics bundle locs profile_id profile_digest = Inr u"
  obtains obligations results where
    "index_at (JObj semantics) ''obligations'' ''obligation_id'' ''obligations-invalid'' = Inr obligations"
    "index_items (get_or_null mc ''obligation_results'') ''obligation_id'' ''mc-obligation-results-invalid'' = Inr results"
    "set (map fst results) = set (map fst obligations)"
    "\<forall>(i, obligation) \<in> set obligations. all_blocked lib obligation (the (map_of results i))"
proof -
  from assms obtain obligations results inputs counts where
    o: "index_at (JObj semantics) ''obligations'' ''obligation_id'' ''obligations-invalid'' = Inr obligations"
       "index_items (get_or_null mc ''obligation_results'') ''obligation_id'' ''mc-obligation-results-invalid'' = Inr results"
       "same_keys results obligations"
    and counts: "mapR (obligation_cases lib inputs results profile_id profile_digest) obligations = Inr counts"
    unfolding validate_mc_def by (elim bindR_InrE) simp
  have "all_blocked lib obligation (the (map_of results i))" if "(i, obligation) \<in> set obligations" for i obligation
    using mapR_each [OF counts that] obligation_cases_Inr by blast
  then have "\<forall>(i, obligation) \<in> set obligations. all_blocked lib obligation (the (map_of results i))" by auto
  with that o show thesis by (simp add: same_keys_def)
qed

text \<open>A record is authentic for a locator.\<close>

definition authentic :: "shared_library \<Rightarrow> authenticated_record \<Rightarrow> upstream_input \<Rightarrow> bool" where
  "authentic lib r i =
     (rec_result_id r = up_result_id i \<and> rec_terminal_state r = up_terminal_state i \<and>
      rec_correlation_id r = Some (up_correlation_id i) \<and> ref_key (up_result_ref i) = up_result_id i \<and> authenticated_as lib r i)"

lemma verify_locator_Inr: "verify_locator lib r i = Inr payload \<Longrightarrow> authentic lib r i"
  unfolding verify_locator_def Let_def authentic_def by (elim bindR_InrE) (auto elim!: bindR_InrE split: if_splits)

lemma fetch_capability_Inr: "fetch_capability fetch locs c = Inr r \<longleftrightarrow> fetch (up_result_ref (locs c)) (locs c) = Inr (Some r)"
  by (auto simp: fetch_capability_def split: sum.splits fetch_error.splits option.splits)

lemma verify_four_result_join_Inr:
  assumes "verify_four_result_join lib rs locs profile_id = Inr v"
  shows "authentic lib (rs c) (locs c)" "up_correlation_id (locs c) = up_correlation_id (locs CheckGeneration)"
proof -
  obtain cg dg mc bv where "verify_locator lib (rs CheckGeneration) (locs CheckGeneration) = Inr cg"
    "verify_locator lib (rs DefenseGeneration) (locs DefenseGeneration) = Inr dg"
    "verify_locator lib (rs MitigationCheck) (locs MitigationCheck) = Inr mc"
    "verify_locator lib (rs BypassValidation) (locs BypassValidation) = Inr bv"
    and same: "up_correlation_id (locs DefenseGeneration) = up_correlation_id (locs CheckGeneration) \<and>
      up_correlation_id (locs MitigationCheck) = up_correlation_id (locs CheckGeneration) \<and>
      up_correlation_id (locs BypassValidation) = up_correlation_id (locs CheckGeneration)"
    using assms unfolding verify_four_result_join_def Let_def by (elim bindR_InrE) simp
  then show "authentic lib (rs c) (locs c)" by (cases c) (auto dest: verify_locator_Inr)
  show "up_correlation_id (locs c) = up_correlation_id (locs CheckGeneration)" using same by (cases c) auto
qed

lemma resolve_and_verify_Inr:
  assumes "resolve_and_verify lib fetch request = Inr v"
  shows "\<exists>r. fetch (up_result_ref (locators_of request c)) (locators_of request c) = Inr (Some r) \<and> authentic lib r (locators_of request c)"
    "up_correlation_id (locators_of request c) = up_correlation_id (locators_of request CheckGeneration)"
proof -
  let ?locs = "locators_of request"
  obtain cg dg mc bv where f: "fetch_capability fetch ?locs CheckGeneration = Inr cg" "fetch_capability fetch ?locs DefenseGeneration = Inr dg"
    "fetch_capability fetch ?locs MitigationCheck = Inr mc" "fetch_capability fetch ?locs BypassValidation = Inr bv"
    and j: "verify_four_result_join lib
        (\<lambda>c. case c of CheckGeneration \<Rightarrow> cg | DefenseGeneration \<Rightarrow> dg | MitigationCheck \<Rightarrow> mc | BypassValidation \<Rightarrow> bv)
        ?locs (profile_value (v2_profile_id request)) = Inr v"
    using assms unfolding resolve_and_verify_def Let_def by (elim bindR_InrE) simp
  from verify_four_result_join_Inr [OF j, of c] f show
    "\<exists>r. fetch (up_result_ref (?locs c)) (?locs c) = Inr (Some r) \<and> authentic lib r (?locs c)"
    "up_correlation_id (?locs c) = up_correlation_id (?locs CheckGeneration)"
    unfolding fetch_capability_Inr by (cases c; auto)+
qed

lemma invoke_shared_contract_v2_Inr:
  assumes "invoke_shared_contract_v2 lib rt fetch request = Inr e"
  obtains f v where "fetch = Some f" "resolve_and_verify lib f request = Inr v"
  using assms unfolding invoke_shared_contract_v2_def by (auto elim!: bindR_InrE split: option.splits)

section \<open>Campaigns\<close>

lemma fold_checks_keeps:
  "fold_checks f xs st = Inr st' \<Longrightarrow> P st \<Longrightarrow> (\<And>x s s'. x \<in> set xs \<Longrightarrow> f x s = Inr s' \<Longrightarrow> P s \<Longrightarrow> P s') \<Longrightarrow> P st'"
proof (induction xs arbitrary: st)
  case (Cons x xs)
  then obtain s where "f x st = Inr s" "fold_checks f xs s = Inr st'" by (auto elim: bindR_InrE)
  with Cons show ?case by (metis list.set_intros)
qed simp

text \<open>The state of the walk over dimensions: nothing is counted twice, and only required work is observed.\<close>

definition work_invariant :: "dimension list \<Rightarrow> v3_state \<Rightarrow> bool" where
  "work_invariant expected st =
     (distinct (seen_dimensions st) \<and> distinct (seen_attributions st) \<and>
      (\<forall>(target, p) \<in> set (observed_producers st). p \<in> set (producers_of expected target)))"

lemma check_attribution_keeps:
  assumes "check_attribution lib actual component (producers_of expected (JStr input_id, JStr component_id, carrier)) challenges
      obligation input_id component_id carrier attribution st = Inr st'" "work_invariant expected st"
  shows "work_invariant expected st'"
  using assms unfolding check_attribution_def Let_def work_invariant_def
  by (auto elim!: bindR_InrE split: prod.splits if_splits)

lemma check_v3_dimension_keeps:
  assumes "check_v3_dimension lib components expected challenges obligation i j st = Inr st'" "work_invariant expected st"
  shows "work_invariant expected st'"
proof -
  from assms(1) obtain actual input_id component_id carrier component key attributions where
    f: "fold_checks (check_attribution lib actual component (producers_of expected (JStr input_id, JStr component_id, carrier))
          challenges i input_id component_id carrier) attributions (st\<lparr>seen_dimensions := key # seen_dimensions st\<rparr>) = Inr st'"
    and new: "key \<notin> set (seen_dimensions st)"
    unfolding check_v3_dimension_def Let_def
    by (auto elim!: bindR_InrE split: json.splits option.splits if_splits)
  from f show ?thesis
  proof (rule fold_checks_keeps)
    show "work_invariant expected (st\<lparr>seen_dimensions := key # seen_dimensions st\<rparr>)"
      using assms(2) new by (simp add: work_invariant_def)
  qed (rule check_attribution_keeps)
qed

text \<open>The attempts of the campaigns that were accepted.\<close>

lemma check_campaign_Inr:
  assumes "check_campaign lib semantics bundle obligations inputs components profile_id profile_digest (i, campaign) totals = Inr totals'"
  obtains planned outs where
    "planned_dimensions lib (the (map_of obligations i)) semantics profile_id i (get_or_null campaign ''attempted_dimensions'') = Inr planned"
    "mapR (dimension_done lib inputs components i) planned = Inr outs"
    "total_outcomes totals' = total_outcomes totals @ outs" "distinct (attempts_of outs)"
    "set (attempts_of outs) \<inter> set (attempts_of (total_outcomes totals)) = {}" "get_or_null campaign ''disposition'' = JStr ''no-bypass''"
  using assms unfolding check_campaign_def Let_def prod.case
  by (auto elim!: bindR_InrE split: json.splits if_splits)

lemma fold_checks_each: "fold_checks f xs st = Inr st' \<Longrightarrow> x \<in> set xs \<Longrightarrow> \<exists>s s'. f x s = Inr s'"
  by (induction xs arbitrary: st) (auto simp: bindR_eq_Inr)

lemma planned_dimensions_Inr:
  assumes "planned_dimensions lib obligation semantics profile_id i listed = Inr planned"
  shows "listed = JArr (map fst planned) \<and> planned \<noteq> []"
  using assms unfolding planned_dimensions_def nonempty_list_def
  by (auto elim!: bindR_InrE simp: o_def split: json.splits if_splits)

definition not_bypassed :: "json \<Rightarrow> bool" where
  "not_bypassed j =
     (case j of JObj actual \<Rightarrow> get_or_null actual ''disposition'' \<in> {JNull, JStr ''blocked'', JStr ''safety-stop''} | _ \<Rightarrow> False)"

lemma executed_dimension_Inr:
  assumes "executed_dimension inputs components i actual family transformation = Inr out"
  shows "not_bypassed (JObj actual)"
  using assms unfolding executed_dimension_def Let_def not_bypassed_def
  by (auto elim!: bindR_InrE simp: need_hashable_def strings_def split: option.splits if_splits)

lemma dimension_done_Inr:
  assumes "dimension_done lib inputs components i entry = Inr out"
  shows "not_bypassed (fst entry)"
proof -
  obtain actual where a: "fst entry = JObj actual"
    using assms unfolding dimension_done_def by (auto split: json.splits)
  then have "get_or_null actual ''disposition'' = JNull \<or>
      (\<exists>family transformation. executed_dimension inputs components i actual family transformation = Inr out)"
    using assms unfolding dimension_done_def Let_def by (auto elim!: bindR_InrE split: if_splits)
  then show ?thesis unfolding a by (auto simp: not_bypassed_def dest: executed_dimension_Inr)
qed

lemma campaign_not_bypassed:
  assumes "check_campaign lib semantics bundle obligations inputs components profile_id profile_digest (i, campaign) totals = Inr totals'"
  shows "get_or_null campaign ''disposition'' = JStr ''no-bypass'' \<and>
    (\<exists>ds. get_or_null campaign ''attempted_dimensions'' = JArr ds \<and> ds \<noteq> [] \<and> list_all not_bypassed ds)"
proof -
  from assms obtain planned outs where
    p: "planned_dimensions lib (the (map_of obligations i)) semantics profile_id i (get_or_null campaign ''attempted_dimensions'') = Inr planned"
    and d: "mapR (dimension_done lib inputs components i) planned = Inr outs" "get_or_null campaign ''disposition'' = JStr ''no-bypass''"
    by (rule check_campaign_Inr)
  have "list_all not_bypassed (map fst planned)"
    using mapR_each [OF d(1)] dimension_done_Inr unfolding list_all_iff set_map by blast
  then show ?thesis using planned_dimensions_Inr [OF p] d(2) by (intro conjI exI [of _ "map fst planned"]) auto
qed

lemma campaign_attempts_distinct:
  assumes "check_campaign lib semantics bundle obligations inputs components profile_id profile_digest entry totals = Inr totals'"
    "distinct (attempts_of (total_outcomes totals))"
  shows "distinct (attempts_of (total_outcomes totals'))"
proof -
  obtain i campaign where e: "entry = (i, campaign)" by (cases entry)
  from assms(1) [unfolded e] obtain outs where "total_outcomes totals' = total_outcomes totals @ outs" "distinct (attempts_of outs)"
    "set (attempts_of outs) \<inter> set (attempts_of (total_outcomes totals)) = {}" by (rule check_campaign_Inr)
  moreover have "attempts_of (xs @ ys) = attempts_of xs @ attempts_of ys" for xs ys
    by (simp add: attempts_of_def List.map_filter_def)
  ultimately show ?thesis using assms(2) by auto
qed

end
