(* ===== verification/SharedProps.thy ===== *)
theory SharedProps
  imports SharedFacts
begin

text \<open>
  The properties of the shared-contract profile: what the coverage of an obligation denotes, that the
  rules of a plan match exactly when a Boolean alternative of the design does, and what the
  verification of the four results has established before anything is translated.
\<close>

section \<open>Coverage\<close>

text \<open>
  C27. The members a coverage reference stands for are the source members of exactly the components
  below it, through any depth of groups.
\<close>

lemma coverage_walk_collects:
  assumes "coverage_walk components groups scope [] ref = Inr ids"
  shows "set ids = (\<Union>leaf \<in> {leaf. leads_down groups ref leaf}. leaf_members components leaf)"
  using assms by (rule coverage_walk_Inr)

definition example_ref :: "string \<Rightarrow> string \<Rightarrow> json" where
  "example_ref kind i = JObj [(''kind'', JStr kind), (''scope'', JStr ''s''), (''id'', JStr i)]"

definition example_members :: "string list \<Rightarrow> json" where
  "example_members ms = JArr (map (\<lambda>m. JObj [(''id'', JStr m)]) ms)"

definition example_components :: "(string \<times> dict) list" where
  "example_components = [(''c1'', [(''source_member_refs'', example_members [''m1''])]),
     (''c2'', [(''source_member_refs'', example_members [''m2'', ''m3''])])]"

definition example_groups :: "(string \<times> dict) list" where
  "example_groups =
     [(''top'', [(''member_refs'', JArr [example_ref ''component'' ''c1'', example_ref ''coverage-group'' ''low'']),
                 (''source_member_refs'', example_members [''m1'', ''m2'', ''m3''])]),
      (''low'', [(''member_refs'', JArr [example_ref ''component'' ''c2'']), (''source_member_refs'', example_members [''m2'', ''m3''])])]"

lemma coverage_walk_collects_witness:
  "set (strings [''m1'', ''m2'', ''m3'']) =
     (\<Union>leaf \<in> {leaf. leads_down example_groups (example_ref ''coverage-group'' ''top'') leaf}. leaf_members example_components leaf)"
proof (rule coverage_walk_collects)
  show "coverage_walk example_components example_groups (JStr ''s'') [] (example_ref ''coverage-group'' ''top'')
      = Inr (strings [''m1'', ''m2'', ''m3''])"
    by (simp add: coverage_walk.simps example_components_def example_groups_def example_ref_def example_members_def dot_get_def
          at_key_def items_at_def elements_def column_def need_hashable_def hashable_def get_or_null_def get_def py_str_def strings_def insert_commute)
qed

section \<open>Rules\<close>

text \<open>
  C10. Without placement mode, the rules of a document together match exactly the requests that one of its Boolean
  alternatives matches: some translated rule holds in all its conditions iff some alternative holds in the conditions of
  all its components, each of which is the regex condition of the design's own rule for the component.
  No alternative is empty, so no rule matches everything.
\<close>

lemma independent_rules_equal_alternatives:
  assumes "translate_rule_document lib doc artifact semantics profile_id = Inr (rules, carriers)"
    "get_or_null doc ''placement_mode'' = JNull"
  shows "\<exists>listed conditions idss.
    get_or_null doc ''rules'' = JArr listed \<and> list_all2 condition_for listed conditions \<and> distinct (map fst conditions) \<and>
    get_or_null doc ''coverage_alternatives'' = JArr (map (JArr \<circ> strings) idss) \<and> [] \<notin> set idss \<and>
    (\<forall>holds. (\<exists>rule \<in> set rules. \<forall>c \<in> set (rule_conditions (snd rule)). holds c)
       = (\<exists>ids \<in> set idss. \<forall>i \<in> set ids. \<exists>c. (i, c) \<in> set conditions \<and> holds c))"
proof -
  from assms(1) obtain listed coverage conditions where d: "get_or_null doc ''rules'' = JArr listed"
    "get_or_null doc ''coverage_alternatives'' = JArr coverage" "list_all2 condition_for listed conditions"
    "distinct (map fst conditions)" "independent_rules lib doc artifact conditions 0 [] coverage = Inr rules"
    by (rule translate_rule_document_Inr) (simp add: assms(2))
  obtain idss where i: "coverage = map (JArr \<circ> strings) idss"
    "list_all (\<lambda>ids. ids \<noteq> [] \<and> set ids \<subseteq> set (map fst conditions)) idss"
    "map (rule_conditions \<circ> snd) rules = map (conditions_of conditions) idss"
    using independent_rules_Inr [OF d(5)] by blast
  have "(\<exists>rule \<in> set rules. \<forall>c \<in> set (rule_conditions (snd rule)). holds c)
      = (\<exists>ids \<in> set idss. \<forall>i \<in> set ids. \<exists>c. (i, c) \<in> set conditions \<and> holds c)" for holds
  proof -
    have "(\<exists>rule \<in> set rules. \<forall>c \<in> set (rule_conditions (snd rule)). holds c)
        = (\<exists>cs \<in> set (map (rule_conditions \<circ> snd) rules). \<forall>c \<in> set cs. holds c)" by simp
    also have "\<dots> = (\<exists>ids \<in> set idss. \<forall>i \<in> set ids. holds (the (map_of conditions i)))"
      unfolding i(3) by (simp add: conditions_of_def)
    also have "\<dots> = (\<exists>ids \<in> set idss. \<forall>i \<in> set ids. \<exists>c. (i, c) \<in> set conditions \<and> holds c)"
    proof (rule bex_cong [OF refl], rule ball_cong [OF refl])
      fix ids i' assume "ids \<in> set idss" "i' \<in> set ids"
      then have "i' \<in> set (map fst conditions)" using i(2) unfolding list_all_iff by blast
      then obtain c where "(i', c) \<in> set conditions" by auto
      then show "holds (the (map_of conditions i')) = (\<exists>c. (i', c) \<in> set conditions \<and> holds c)"
        using d(4) by (auto simp: map_of_is_SomeI dest: eq_key_imp_eq_value)
    qed
    finally show ?thesis .
  qed
  moreover have "[] \<notin> set idss" using i(2) by (auto simp: list_all_iff)
  ultimately show ?thesis using d(1-4) i(1) by (intro exI [of _ listed] exI [of _ conditions] exI [of _ idss]) simp
qed

definition example_rule :: "string \<Rightarrow> string \<Rightarrow> string \<Rightarrow> json" where
  "example_rule rule_id component name = JObj
     [(''rule_id'', JStr rule_id), (''component_id'', JStr component), (''carrier'', JStr ''query''), (''name'', JStr name),
      (''pattern'', JStr ''^[0-9]+$''), (''flags'', JArr [JStr ''i'']), (''transformations'', JArr [JStr ''url-decode''])]"

definition example_component :: "string \<Rightarrow> string \<Rightarrow> json" where
  "example_component i name = JObj
     [(''component_id'', JStr i), (''location'', JObj [(''kind'', JStr ''http-query''), (''name'', JStr name)])]"

definition example_document :: dict where
  "example_document =
     [(''rule_set_id'', JStr ''rs''), (''rules'', JArr [example_rule ''r1'' ''c1'' ''q'', example_rule ''r2'' ''c2'' ''p'']),
      (''coverage_alternatives'', JArr [JArr (strings [''c1'', ''c2'']), JArr (strings [''c2''])])]"

definition example_semantics :: dict where
  "example_semantics = [(''components'', JArr [example_component ''c1'' ''q'', example_component ''c2'' ''p''])]"

definition example_decoders :: decoders where
  "example_decoders =
     \<lparr>json_message = (\<lambda>t. ''bad''), float_text = (\<lambda>t. t), unquote_text = (\<lambda>t. t), parse_xml = (\<lambda>t. Inl ''bad''),
      hex_sha256 = (\<lambda>bs. replicate 64 CHR ''a'')\<rparr>"

definition example_library :: shared_library where
  "example_library =
     \<lparr>lib_decoders = example_decoders, bytes_text = (\<lambda>bs. Some (map (\<lambda>n. char_of n) bs)),
      canonical_text = (\<lambda>j. Some (json_text j)), schema_error = (\<lambda>_ _. None), embedded_file = (\<lambda>_. []),
      read_instant = (\<lambda>_. Some 0), write_instant = (\<lambda>_. ''2026-01-01T00:00:00Z''), int_equals_float = (\<lambda>_ _. False)\<rparr>"

lemma example_rules:
  "\<not> isl (translate_rule_document example_library example_document ''a1'' example_semantics ''p'')"
  by code_simp

lemma independent_rules_equal_alternatives_witness:
  "\<exists>(rules :: (string \<times> json) list) listed conditions idss.
    get_or_null example_document ''rules'' = JArr listed \<and> list_all2 condition_for listed conditions \<and> distinct (map fst conditions) \<and>
    get_or_null example_document ''coverage_alternatives'' = JArr (map (JArr \<circ> strings) idss) \<and> [] \<notin> set idss \<and>
    (\<forall>holds. (\<exists>rule \<in> set rules. \<forall>c \<in> set (rule_conditions (snd rule)). holds c)
       = (\<exists>ids \<in> set idss. \<forall>i \<in> set ids. \<exists>c. (i, c) \<in> set conditions \<and> holds c))"
proof -
  obtain rules carriers where e: "translate_rule_document example_library example_document ''a1'' example_semantics ''p'' = Inr (rules, carriers)"
    using example_rules by (cases "translate_rule_document example_library example_document ''a1'' example_semantics ''p''") auto
  show ?thesis
    by (rule exI [of _ rules], rule independent_rules_equal_alternatives [OF e]) (simp add: example_document_def get_or_null_def get_def)
qed

section \<open>Verification\<close>

text \<open>
  C11. A Mitigation Check result is accepted only when it reports on exactly the obligations of the semantics, and
  for each of them on exactly the required inputs, every one of them blocked: the request never reached the
  application, the status is 403 and a rule is named.
\<close>

lemma accepted_check_blocks_every_case:
  assumes "validate_mc lib mc semantics bundle locs profile_id profile_digest = Inr u"
  shows "\<exists>obligations results.
    items_at (JObj semantics) ''obligations'' = Inr (map JObj obligations) \<and>
    get_or_null mc ''obligation_results'' = JArr (map JObj results) \<and> length results = length obligations \<and>
    (\<forall>obligation \<in> set obligations. \<exists>result \<in> set results.
       get_or_null result ''obligation_id'' = get_or_null obligation ''obligation_id'' \<and> all_blocked lib obligation result)"
proof -
  from assms obtain obligations results where
    o: "index_at (JObj semantics) ''obligations'' ''obligation_id'' ''obligations-invalid'' = Inr obligations"
    and r: "index_items (get_or_null mc ''obligation_results'') ''obligation_id'' ''mc-obligation-results-invalid'' = Inr results"
    and same: "set (map fst results) = set (map fst obligations)"
    and all: "\<forall>(i, obligation) \<in> set obligations. all_blocked lib obligation (the (map_of results i))"
    by (rule validate_mc_Inr)
  note items = index_at_items [OF o] index_items_Inr [OF r]
  have "items_at (JObj semantics) ''obligations'' = Inr (map JObj (map snd obligations))"
    using index_column(1) [OF o] by (simp add: case_prod_beta')
  moreover have "get_or_null mc ''obligation_results'' = JArr (map JObj (map snd results))"
    using items(2) by (simp add: case_prod_beta')
  moreover have "length (map snd results) = length (map snd obligations)"
    using same items distinct_card [of "map fst results"] distinct_card [of "map fst obligations"] by simp
  moreover have "\<exists>result \<in> set (map snd results).
      get_or_null result ''obligation_id'' = get_or_null obligation ''obligation_id'' \<and> all_blocked lib obligation result"
    if "obligation \<in> set (map snd obligations)" for obligation
  proof -
    from that obtain i where i: "(i, obligation) \<in> set obligations" by auto
    then have "i \<in> set (map fst results)" using same by force
    then obtain result where "(i, result) \<in> set results" by auto
    with i bspec [OF all i] items show ?thesis by (intro bexI [of _ result]) (force simp: map_of_is_SomeI)+
  qed
  ultimately show ?thesis by blast
qed

definition example_reference :: result_reference where
  "example_reference =
     \<lparr>ref_system = WorkflowLab, ref_catalog = None, ref_schema = None, ref_table = None, ref_contract_id = Some ''k'',
      ref_namespace = Some ''n'', ref_key = ''id''\<rparr>"

definition example_locator :: "upstream_capability \<Rightarrow> upstream_input" where
  "example_locator c =
     \<lparr>up_capability = c, up_contract_id = ''k'', up_run_id = ''r'', up_result_id = ''id'', up_terminal_state = ''s'', up_request_id = None,
      up_correlation_id = ''corr'', up_result_ref = example_reference, up_evidence_refs = [''e''], up_content_sha256 = None,
      up_size_bytes = Some 10, up_created_at = Some 0\<rparr>"

definition example_obligation :: json where
  "example_obligation = JObj [(''obligation_id'', JStr ''o1''), (''required_input_refs'', JArr [JObj [(''id'', JStr ''i1'')]])]"

definition example_inputs :: json where
  "example_inputs = JArr [JObj [(''input_id'', JStr ''i1''), (''source_member_refs'', example_members [''m1'']),
     (''input'', JObj [(''modality'', JStr ''http-request'')])]]"

definition checked_semantics :: dict where
  "checked_semantics =
     [(''obligations'', JArr [example_obligation]), (''test_inputs'', example_inputs), (''unsupported_dimensions'', JArr []),
      (''source_binding'', JObj [(''members'', JArr [JObj [(''member_id'', JStr ''m1'')]])])]"

definition checked_bundle :: dict where
  "checked_bundle =
     [(''application_unit'', JObj [(''application_unit_id'', JStr ''u''), (''artifact_refs'', JArr [JObj [(''id'', JStr ''a1'')]])])]"

definition checked_case :: json where
  "checked_case = JObj
     [(''input_id'', JStr ''i1''), (''disposition'', JStr ''blocked''),
      (''evidence'', JObj [(''blocked'', JBool True), (''status_code'', JInt 403), (''matched_rule_id'', JStr ''rule''),
                           (''detail'', JStr ''denied'')])]"

definition example_accounting :: json where
  "example_accounting = accounting_document
     \<lparr>required_obligation_count = 1, accounted_obligation_count = 1, unaccounted_required_obligation_count = 0, source_member_count = 1,
      represented_source_member_count = 1, unsupported_source_member_count = 0, unaccounted_source_member_count = 0,
      required_work_item_count = 1, disposed_work_item_count = 1, unaccounted_required_work_item_count = 0\<rparr>"

definition example_check :: dict where
  "example_check =
     [(''capability'', JStr ''mitigation-check''), (''contract_id'', JStr ''mitigation-check@1.0''), (''terminal_state'', JStr ''blocked''),
      (''status'', JStr ''completed''), (''profile_id'', JStr ''waf-standard@1''), (''match'', JBool True),
      (''input_provenance'', JObj [(''route_policy'', JStr ''shared-attack-contracts-v2''),
         (''verification'', JStr ''physical-and-logical-sha256-verified''),
         (''check_result'', JObj (locator_json example_library (example_locator CheckGeneration))),
         (''defense_result'', JObj (locator_json example_library (example_locator DefenseGeneration)))]),
      (''application_unit'', JObj [(''application_unit_id'', JStr ''u''), (''artifact_ids'', JArr [JStr ''a1'']),
         (''readback_verified'', JBool True)]),
      (''obligation_results'', JArr [JObj [(''obligation_id'', JStr ''o1''), (''case_results'', JArr [checked_case])]]),
      (''accounting'', example_accounting)]"

lemma accepted_check_blocks_every_case_witness:
  "\<exists>obligations results.
    items_at (JObj checked_semantics) ''obligations'' = Inr (map JObj obligations) \<and>
    get_or_null example_check ''obligation_results'' = JArr (map JObj results) \<and> length results = length obligations \<and>
    (\<forall>obligation \<in> set obligations. \<exists>result \<in> set results.
       get_or_null result ''obligation_id'' = get_or_null obligation ''obligation_id'' \<and> all_blocked example_library obligation result)"
proof (rule accepted_check_blocks_every_case)
  show "validate_mc example_library example_check checked_semantics checked_bundle example_locator ''waf-standard@1'' ''d'' = Inr ()"
    by code_simp
qed

text \<open>
  C8. Nothing is translated from an unauthenticated join: unless the resolver returned, for every one of the four
  capabilities, a record whose identity, state and correlation are those of its locator, whose bytes have the digest and
  the size the locator was issued for, and all four share one correlation, the invocation ends in an error.
\<close>

lemma unauthenticated_join_is_refused:
  assumes "\<not> ((\<exists>r. fetch (up_result_ref (locators_of request c)) (locators_of request c) = Inr (Some r) \<and>
                authentic lib r (locators_of request c)) \<and>
           up_correlation_id (locators_of request c) = up_correlation_id (locators_of request CheckGeneration))"
  shows "\<exists>e. invoke_shared_contract_v2 lib rt (Some fetch) request = Inl e"
proof (cases "invoke_shared_contract_v2 lib rt (Some fetch) request")
  case (Inr e)
  then obtain v where "resolve_and_verify lib fetch request = Inr v" by (rule invoke_shared_contract_v2_Inr) simp
  from resolve_and_verify_Inr [OF this, of c] assms show ?thesis by blast
qed simp

definition example_record :: authenticated_record where
  "example_record =
     \<lparr>rec_result_id = ''id'', rec_terminal_state = ''s'', rec_correlation_id = Some ''corr'', rec_revision_id = None, rec_request = [],
      rec_result = [], rec_raw_result = None, rec_payload_raw_result = None, rec_artifact_raw_results = None,
      rec_authenticated = Some [1, 2], rec_authenticated_sha256 = Some ''forged'', rec_authenticated_size = Some 2\<rparr>"

definition example_v2_request :: shared_v2_request where
  "example_v2_request =
     \<lparr>v2_profile_id = WafStandard2, v2_request_id = ''q'', v2_correlation_id = ''corr'',
      v2_upstream_inputs = map example_locator [CheckGeneration, DefenseGeneration, MitigationCheck, BypassValidation],
      v2_target_context = None, v2_provenance = \<lparr>prov_caller = None, prov_source = None\<rparr>\<rparr>"

lemma unauthenticated_join_is_refused_witness:
  "\<forall>rt. \<exists>e. invoke_shared_contract_v2 example_library rt (Some (\<lambda>_ _. Inr (Some example_record))) example_v2_request = Inl e"
proof
  fix rt
  show "\<exists>e. invoke_shared_contract_v2 example_library rt (Some (\<lambda>_ _. Inr (Some example_record))) example_v2_request = Inl e"
    by (rule unauthenticated_join_is_refused [of _ _ MitigationCheck])
      (simp add: authentic_def authenticated_as_def example_record_def sha256_digest_def)
qed

text \<open>
  A challenge target whose occurrence is a superscript digit is not refused as a bad attribution: the code accepts it
  with \<^verbatim>\<open>isdigit\<close> and then fails to read it with \<^verbatim>\<open>int\<close>, so Python's own error leaves the verification.
\<close>

lemma superscript_occurrence_raises:
  "map (\<lambda>c. validate_v3_challenge_target (''target:http-query:q:'' @ [char_of (c :: nat)]) ''query''
       [(''location'', JObj [(''kind'', JStr ''http-query''), (''name'', JStr [star_c])])]) [50, 120, 178, 179, 185]
   = [Inr (), bv_invalid ''BV challenge target attribution differs'', Inl (PythonError ''ValueError''),
      Inl (PythonError ''ValueError''), Inl (PythonError ''ValueError'')]"
  by code_simp

section \<open>Campaigns\<close>






























end
