(* ===== verification/SharedPlanProps.thy ===== *)
theory SharedPlanProps
  imports SharedFacts JsonRoundTrip
begin

text \<open>
  What a complete translation plan of the shared-contract profile is made of: rules that the adapter of the
  target accepted, and mappings that account for every obligation.
\<close>

text \<open>
  C9. A plan is built only for Akamai, and only from rules that the Akamai adapter accepts one by one: its content is the
  canonical text of exactly those rules, at least one. Its mappings name exactly the obligations of the semantics, and every mapping
  and every directive points at the one target artifact.
\<close>

lemma plan_is_complete:
  assumes "build_waf_translation_plan lib v technology = Inr plan"
  shows "technology = ''akamai-waf'' \<and>
    (\<exists>rules target obligations required. rules \<noteq> [] \<and> canonical lib (JObj [(''rules'', JArr rules)]) = Inr (plan_content plan) \<and>
      (\<forall>rule \<in> set rules. \<exists>content. canonical lib rule = Inr content \<and> accepted_by_akamai lib content) \<and>
      items_at (JObj (vj_semantics v)) ''obligations'' = Inr obligations \<and> column ''obligation_id'' obligations = Inr required \<and>
      set (strings (map tm_obligation_id (plan_mappings plan))) = set required \<and>
      (\<forall>m \<in> set (plan_mappings plan). tm_target_artifact_ids m = [target]) \<and>
      (\<forall>d \<in> set (plan_directives plan). td_target_artifact_id d = target))"
proof -
  from assms obtain sources rules scope target directives ms obligations required where p: "technology = ''akamai-waf''"
    "plan_rules lib v sources = Inr rules" "canonical lib (JObj [(''rules'', JArr rules)]) = Inr (plan_content plan)"
    "mapR (\<lambda>(i, d). translated_directive (map fst sources) target (JObj d)) directives = Inr (plan_directives plan)"
    "mapR (obligation_mapping scope (map fst sources) (map fst directives) target) ms = Inr (plan_mappings plan)"
    "items_at (JObj (vj_semantics v)) ''obligations'' = Inr obligations" "column ''obligation_id'' obligations = Inr required"
    "set (strings (map tm_obligation_id (plan_mappings plan))) = set required"
    by (rule build_plan_Inr)
  have "\<forall>m \<in> set (plan_mappings plan). tm_target_artifact_ids m = [target]"
    using mapR_result [OF p(5)] obligation_mapping_Inr by blast
  moreover have "\<forall>d \<in> set (plan_directives plan). td_target_artifact_id d = target"
    using mapR_result [OF p(4)] translated_directive_Inr by (fastforce split: prod.splits)
  ultimately show ?thesis using p plan_rules_Inr [OF p(2)] by blast
qed

definition plan_rule :: json where
  "plan_rule = JObj
     [(''rule_id'', JStr ''r1''), (''component_id'', JStr ''c1''), (''carrier'', JStr ''query''), (''name'', JStr ''q''),
      (''pattern'', JStr ''^[0-9]+$''), (''flags'', JArr [JStr ''i'']), (''transformations'', JArr [JStr ''url-decode''])]"

definition plan_component :: json where
  "plan_component = JObj
     [(''component_id'', JStr ''c1''), (''location'', JObj [(''kind'', JStr ''http-query''), (''name'', JStr ''q'')])]"

definition plan_decoders :: decoders where
  "plan_decoders =
     \<lparr>json_message = (\<lambda>t. ''bad''), float_text = (\<lambda>t. t), unquote_text = (\<lambda>t. t), parse_xml = (\<lambda>t. Inl ''bad''),
      hex_sha256 = (\<lambda>bs. replicate 64 CHR ''a'')\<rparr>"

definition plan_document :: dict where
  "plan_document =
     [(''rule_set_id'', JStr ''rs''), (''rules'', JArr [plan_rule]),
      (''coverage_alternatives'', JArr [JArr (strings [''c1''])])]"

definition plan_bindings :: dict where
  "plan_bindings =
     [(''carrier_bindings'', JArr [JObj [(''component_id'', JStr ''c1''), (''carrier'', JStr ''query''), (''name'', JStr ''q'')]])]"

definition plan_library :: shared_library where
  "plan_library =
     \<lparr>lib_decoders = plan_decoders,
      bytes_text = (\<lambda>bs. Some (json_text (JObj (if bs = [49] then plan_document else plan_bindings)))),
      canonical_text = (\<lambda>j. Some (json_text j)), schema_error = (\<lambda>_ _. None), embedded_file = (\<lambda>_. []),
      read_instant = (\<lambda>_. Some 0), write_instant = (\<lambda>_. ''2026-01-01T00:00:00Z''), int_equals_float = (\<lambda>_ _. False)\<rparr>"

definition plan_candidate :: dict where
  "plan_candidate =
     [(''candidate_id'', JStr ''k''),
      (''artifacts'', JArr [JObj [(''artifact_id'', JStr ''a1''), (''order'', JInt 0)], JObj [(''artifact_id'', JStr ''a2''), (''order'', JInt 1)]]),
      (''directives'', JArr []),
      (''obligation_mappings'', JArr [JObj [(''obligation_id'', JStr ''o1''),
         (''artifact_refs'', JArr [JObj [(''kind'', JStr ''artifact''), (''scope'', JStr ''b''), (''id'', JStr ''a1'')]]), (''directive_refs'', JArr [])]])]"

definition plan_join :: verified_join where
  "plan_join =
     \<lparr>vj_semantics = [(''components'', JArr [plan_component]), (''obligations'', JArr [JObj [(''obligation_id'', JStr ''o1'')]])],
      vj_bundle = [(''bundle_id'', JStr ''b''), (''primary_candidate'', JObj plan_candidate)],
      vj_contents = [(''a1'', [49]), (''a2'', [50])],
      vj_verification = \<lparr>ptv_required_obligation_count = 1, ptv_dg_mapping_count = 1, ptv_mc_disposition_count = 1, ptv_bv_campaign_count = 1\<rparr>,
      vj_accounting =
        \<lparr>required_obligation_count = 1, accounted_obligation_count = 1, unaccounted_required_obligation_count = 0, source_member_count = 0,
         represented_source_member_count = 0, unsupported_source_member_count = 0, unaccounted_source_member_count = 0,
         required_work_item_count = 0, disposed_work_item_count = 0, unaccounted_required_work_item_count = 0\<rparr>,
      vj_vulnerability_id = ''v'', vj_profile_id = ''p''\<rparr>"

lemma raw_text:
  assumes "json_ok ft j"
  shows "raw_loads (json_text j) = Some j"
proof -
  have "parse_value (2 * length (json_text j) + 1) (json_text j @ []) = Some (j, [])"
    by (rule readsD [OF json_reads [OF assms]]) simp_all
  then show ?thesis
    using skip_text [OF assms, of "[]"] unfolding raw_loads_def append_Nil2
    by (simp only: option.case prod.case) (simp add: skip_def)
qed

lemma plan_parsed:
  "strict_json_bytes plan_library [49] name = Inr plan_document" "strict_json_bytes plan_library [50] name = Inr plan_bindings"
proof -
  have "json_ok (\<lambda>t. t) (JObj plan_document)" "json_ok (\<lambda>t. t) (JObj plan_bindings)"
    and "first_fault (JObj plan_document) = None" "first_fault (JObj plan_bindings) = None" by code_simp+
  then show "strict_json_bytes plan_library [49] name = Inr plan_document" "strict_json_bytes plan_library [50] name = Inr plan_bindings"
    by (simp_all add: strict_json_bytes_def plan_library_def plan_decoders_def max_result_bytes_def raw_text interpret_ok
          del: json_text.simps first_fault.simps interpret_raw.simps json_ok.simps)
qed

definition planned :: "(string \<times> json) list \<times> carrier_key list" where
  "planned = (case translate_rule_document plan_library plan_document ''a1'' (vj_semantics plan_join) ''p'' of Inr r \<Rightarrow> r | Inl _ \<Rightarrow> ([], []))"

lemma planned_document: "translate_rule_document plan_library plan_document ''a1'' (vj_semantics plan_join) ''p'' = Inr planned"
proof -
  have "\<not> isl (translate_rule_document plan_library plan_document ''a1'' (vj_semantics plan_join) ''p'')" by code_simp
  then show ?thesis by (auto simp: planned_def split: sum.splits)
qed

lemma planned_shape: "fst planned \<noteq> [] \<and> set (snd planned) = {(''query'', ''q'', ''c1'')}"
  by code_simp

lemma planned_bindings:
  "case translate_carrier_document plan_bindings ''a2'' (Some (vj_semantics plan_join)) of Inr (_, cs) \<Rightarrow> cs = [(''query'', ''q'', ''c1'')] | Inl _ \<Rightarrow> False"
  by code_simp

lemma planned_ok: "list_all (\<lambda>(i, rule). json_ok (\<lambda>t. t) rule \<and>
    (case rule of JObj d \<Rightarrow> akamai_document_errors d = Inr [] | _ \<Rightarrow> False)) (fst planned)"
  by code_simp

definition plan_digest :: string where
  "plan_digest = ''sha256:'' @ replicate 64 CHR ''a''"

definition plan_sources :: "(string \<times> dict) list" where
  "plan_sources =
     [(''a1'', [(''artifact_id'', JStr ''a1''), (''order'', JInt 0)]), (''a2'', [(''artifact_id'', JStr ''a2''), (''order'', JInt 1)])]"

lemma planned_accepted:
  assumes "rule \<in> set (map snd (fst planned))"
  shows "\<exists>content. canonical plan_library rule = Inr content \<and> accepted_by_akamai plan_library content"
proof -
  have ok: "json_ok (\<lambda>t. t) rule" and doc: "case rule of JObj d \<Rightarrow> akamai_document_errors d = Inr [] | _ \<Rightarrow> False"
    using assms planned_ok by (auto simp: list_all_iff)
  have "decode_json plan_decoders (json_text rule) = Inr rule"
    using loads_dumps [OF ok] by (simp add: decode_json_def plan_decoders_def)
  then have "accepted_by_akamai plan_library (json_text rule)"
    using doc by (auto simp: accepted_by_akamai_def plan_library_def candidate_of_def akamai_validate_syntax_def of_errors_def
        split: json.splits)
  then show ?thesis by (simp add: canonical_def plan_library_def)
qed

lemma planned_rules: "plan_rules plan_library plan_join plan_sources = Inr (map snd (fst planned))"
proof -
  obtain bound cs where b: "translate_carrier_document plan_bindings ''a2'' (Some (vj_semantics plan_join)) = Inr (bound, cs)" "cs = [(''query'', ''q'', ''c1'')]"
    using planned_bindings by (auto split: sum.splits)
  have c: "map_of (vj_contents plan_join) ''a1'' = Some [49]" "map_of (vj_contents plan_join) ''a2'' = Some [50]" "vj_profile_id plan_join = ''p''"
    by (simp_all add: plan_join_def)
  have k: "''rules'' \<in> set (keys plan_document)" "''rules'' \<notin> set (keys plan_bindings)" "''carrier_bindings'' \<in> set (keys plan_bindings)"
    by code_simp+
  have o: "in_order plan_sources = Inr plan_sources" by code_simp
  have a: "add_artifacts plan_library plan_join (map fst plan_sources) \<lparr>part_rules = [], part_rule_carriers = [], part_binding_carriers = []\<rparr>
      = Inr \<lparr>part_rules = map snd (fst planned), part_rule_carriers = snd planned, part_binding_carriers = cs\<rparr>"
    using b(1) by (simp add: plan_sources_def add_artifact_def c k plan_parsed planned_document case_prod_beta)
  have r: "check_rules plan_library 0 (map snd (fst planned)) = Inr ()"
    unfolding check_rules_Inr by (intro ballI) (rule planned_accepted)
  show ?thesis unfolding plan_rules_def using planned_shape b(2) by (simp add: o a r)
qed

lemma plan_built: "\<not> isl (build_waf_translation_plan plan_library plan_join ''akamai-waf'')"
proof -
  have digest: "sha256_digest plan_library bs = plan_digest" for bs
    by (simp add: sha256_digest_def plan_library_def plan_decoders_def plan_digest_def)
  have "\<not> isl (shared_waf_primary_artifact_id plan_digest)" by code_simp
  then obtain t where t: "shared_waf_primary_artifact_id plan_digest = Inr t"
    by (cases "shared_waf_primary_artifact_id plan_digest") auto
  have dumped: "canonical plan_library j = Inr (json_text j)" for j by (simp add: canonical_def plan_library_def)
  have parts: "at_key (JObj (vj_bundle plan_join)) ''primary_candidate'' = Inr (JObj plan_candidate)"
    "index_at (JObj plan_candidate) ''artifacts'' ''artifact_id'' ''candidate-artifacts-invalid'' = Inr plan_sources"
    "get plan_candidate ''limitations'' = None"
    "index_at (JObj plan_candidate) ''directives'' ''directive_id'' ''candidate-directives-invalid'' = Inr []"
    "at_key (JObj (vj_bundle plan_join)) ''bundle_id'' = Inr (JStr ''b'')"
    "at_key (JObj plan_candidate) ''candidate_id'' = Inr (JStr ''k'')"
    "bindR (items_at (JObj (vj_semantics plan_join)) ''obligations'') (column ''obligation_id'') = Inr [JStr ''o1'']"
    "bindR (items_at (JObj (vj_semantics plan_join)) ''components'') (mapR component_description) = Inr [[]]"
    by code_simp+
  have mapped: "bindR (items_at (JObj plan_candidate) ''obligation_mappings'') (mapR (obligation_mapping (JStr ''b'') [''a1'', ''a2''] [] t))
      = Inr [\<lparr>tm_obligation_id = ''o1'', tm_target_artifact_ids = [t]\<rparr>]"
    by code_simp
  obtain ms where m: "items_at (JObj plan_candidate) ''obligation_mappings'' = Inr ms"
    "mapR (obligation_mapping (JStr ''b'') [''a1'', ''a2''] [] t) ms = Inr [\<lparr>tm_obligation_id = ''o1'', tm_target_artifact_ids = [t]\<rparr>]"
    using mapped by (auto simp: bindR_eq_Inr)
  obtain cs where c: "items_at (JObj (vj_semantics plan_join)) ''components'' = Inr cs" "mapR component_description cs = Inr [[]]"
    using parts(8) by (auto simp: bindR_eq_Inr)
  have ids: "map fst plan_sources = [''a1'', ''a2'']" by (simp add: plan_sources_def)
  show ?thesis
    unfolding build_waf_translation_plan_def
    by (simp add: check_plan_target_def parts(1-6) planned_rules dumped digest t ids m c parts(7) strings_def del: json_text.simps)
qed

lemma plan_is_complete_witness:
  "\<exists>(plan :: translation_plan) rules target obligations required. rules \<noteq> [] \<and>
      canonical plan_library (JObj [(''rules'', JArr rules)]) = Inr (plan_content plan) \<and>
      (\<forall>rule \<in> set rules. \<exists>content. canonical plan_library rule = Inr content \<and> accepted_by_akamai plan_library content) \<and>
      items_at (JObj (vj_semantics plan_join)) ''obligations'' = Inr obligations \<and> column ''obligation_id'' obligations = Inr required \<and>
      set (strings (map tm_obligation_id (plan_mappings plan))) = set required \<and>
      (\<forall>m \<in> set (plan_mappings plan). tm_target_artifact_ids m = [target]) \<and>
      (\<forall>d \<in> set (plan_directives plan). td_target_artifact_id d = target)"
proof -
  obtain plan where "build_waf_translation_plan plan_library plan_join ''akamai-waf'' = Inr plan"
    using plan_built by (cases "build_waf_translation_plan plan_library plan_join ''akamai-waf''") auto
  from plan_is_complete [OF this, THEN conjunct2] show ?thesis by (rule exI [of _ plan])
qed

end
