(* ===== verification/Spec2Isabelle.thy ===== *)
theory Spec2Isabelle
  imports CompilerProps CallbackProps WorkerProps RequestProps CapabilityProps SharedProps SharedPlanProps
begin

text \<open>
  Verification development of the control-translation service, the Python package
  \<^verbatim>\<open>src/control_translation\<close>. The service takes a mitigation that an upstream proof loop has
  validated (a ModSecurity rule with the bypass payloads it must stop) and translates it into a rule
  of a deployed control: a web application firewall, an endpoint agent or a network firewall. A
  request is validated, queued in a durable store, claimed by a worker under a lease, translated,
  checked by the adapter of its target, published, and its caller woken up by a callback.

  The development follows that path. Every definition is a function of the code's inputs and, where
  the code keeps state, of the state before; errors are values of a sum type, and an operation that
  raises leaves the state as the code's transaction does.

  \<^bold>\<open>Texts and data.\<close> Theory \<open>Prelude\<close> has the generic lemmas on lists and results,
  \<open>PyString\<close> the string methods of Python on ASCII texts, \<open>Ordering\<close> the order of texts and
  sorting, \<open>Json\<close> the values of \<^verbatim>\<open>json.loads\<close>. \<open>JsonParse\<close> reads a text as
  \<^verbatim>\<open>json.loads\<close> does, its plain form and the strict one of \<^verbatim>\<open>upstream.py\<close> that
  refuses repeated keys; its fuel is twice the length of the text plus one, which
  \<open>loads_fuel_enough\<close> shows to suffice. \<open>JsonRoundTrip\<close> shows that it reads back what
  \<open>JsonText\<close> writes. \<open>Fnmatch\<close> has \<^verbatim>\<open>fnmatchcase\<close> and its laws.

  \<^bold>\<open>The compiler\<close>, \<^verbatim>\<open>translation/modsec_akamai.py\<close>. \<open>SecRule\<close> splits and parses
  directives (\<^verbatim>\<open>_split_directives\<close>, \<^verbatim>\<open>_tokenize\<close>, \<^verbatim>\<open>_parse_secrule\<close>).
  \<open>Regex\<close> is the recursive-descent translator \<^verbatim>\<open>_RegexTranslator\<close> from regular expressions
  to glob values, method by method. It is written with fuel, the length of the source plus two:
  \<open>parse_fuel_enough\<close> shows that no parse runs out of it, since each nested call consumes a
  character. \<open>Conditions\<close> has the operators, the compaction of structured JNDI patterns, the
  transport encodings and the assembly of a condition; \<open>Compiler\<close> the requirements of the proof
  loop, the names and labels, and \<^verbatim>\<open>compile_akamai_custom_rule\<close>.

  The meaning of what is translated is defined independently: \<open>RegexSem\<close> gives the language of the
  regex syntax the translator accepts, and the language of a glob value. \<open>RegexSound\<close> and
  \<open>RegexCorrect\<close> show by induction over the parse that the values of a translation without aligned
  ladders match every subject the source finds, and exactly those when no generalisation was recorded;
  this is for patterns of the supported grammar with one branch under an anchor, and exactness excludes
  possessive quantifiers and an optional dot: the exceptions are shown by examples.
  \<open>ConditionFacts\<close>, \<open>CompilerFacts\<close> and \<open>CompilerProps\<close> carry this through the conditions to
  the compiled rule, its label and the adapter's gate.

  \<^bold>\<open>The adapters.\<close> \<open>Adapters\<close> models the syntax and conflict gates of
  \<^verbatim>\<open>adapters/\<close>, their registry and the gates of \<^verbatim>\<open>translation/\<close> that call them. A
  candidate carries what \<^verbatim>\<open>json.loads\<close> and \<^verbatim>\<open>ElementTree.fromstring\<close> make of it.

  \<^bold>\<open>The engine\<close>, \<^verbatim>\<open>translation/engine.py\<close>. \<open>Engine\<close> has the deterministic
  proposals (the compiler, a literal argument rule, a form body, a derived JSON field), the policy on
  labels, and \<^verbatim>\<open>translate\<close> with every judge gate in the order of the code. The translation
  doer is a parameter, a record of its proposal and its optional repair; the XML reader, the percent
  decoder, SHA-256 and the text of a float are the record \<open>decoders\<close>. \<open>EngineFacts\<close> shows that an outcome
  of the judge passed each gate; \<open>EngineProps\<close> that every candidate did, that an
  authoritative rule excludes the doer, and that a compiled rule is translated if its source names no
  synthetic header, the policy admits its label and its requirements are plain. The
  cancellation checks between the steps only raise, and are not modelled.

  \<^bold>\<open>The upstream join\<close>, \<^verbatim>\<open>upstream.py\<close>. \<open>Upstream\<close> resolves the records of
  Defense Generation, Mitigation Check and Bypass Validation, checks their identity and lineage, and
  assembles the proven pattern, its qualification and the requirements of the loop;
  \<open>UpstreamField\<close> derives the JSON field of the proven request that both pieces of evidence name.
  The resolver that fetches a record is a parameter. The traversal of a body recurses on the
  value, within the code's limits on depth and nodes, and needs no fuel. \<open>UpstreamFacts\<close> and \<open>UpstreamProps\<close>
  show what a resolved loop rests on and that the rule for a derived field blocks the proven request,
  unless the value is exact and padded with white space, when it never does.

  \<^bold>\<open>The capability\<close>, \<^verbatim>\<open>capability.py\<close>. \<open>Capability\<close> is the composition: the
  effective target, the gates before the engine, the outcome of the engine as a terminal state, the
  result and its envelope, the envelope with references, and the direct bypass compatibility path.
  Policy reader, doer and fresh identifiers are the record \<open>runtime\<close>; the fixture reader of
  \<^verbatim>\<open>policy_reader/fixtures.py\<close> is modelled. \<open>CapabilityProps\<close> shows that envelopes are
  consistent, that a translated result passed every gate, and that references are resolved first. A
  call by keyword binds its names to the parameters of the function, so that the one call whose keyword
  is not a parameter raises.
  \<open>Configuration\<close> (\<^verbatim>\<open>config.py\<close>) reads the settings from an environment and computes the
  configuration errors and readiness; the readers of numbers are parameters.

  \<^bold>\<open>The shared-contract profile\<close>, \<^verbatim>\<open>shared_contracts_v2.py\<close> and its wrapper in
  \<^verbatim>\<open>capability.py\<close>. The code reads its documents key by key, so they stay JSON values: a wrong
  type is Python's own exception, by name, beside the refusals with a code. \<open>SharedDocs\<close> has the strict reading
  of bytes, digests, locators, indexed collections and typed references; \<open>SharedPlan\<close> the translation of
  rule and carrier documents and the plan; \<open>SharedJoin\<close> the verification of Check Generation and of
  the candidate bundle; \<open>SharedChecks\<close> that of Mitigation Check; \<open>SharedBypass\<close> and
  \<open>SharedCampaign\<close> the work a Bypass Validation must have done and its campaigns; \<open>SharedInvoke\<close>
  the authentication of the four records, their join and the invocation. The walks over coverage groups end since a group is
  visited once on each path. RFC 8785, the decoding of bytes, the schema validator, the embedded files, and the reading of instants
  are the record \<open>shared_library\<close>. Two orders are simplified: locators are verified in the order of
  the capabilities where the code iterates over a set, and strict reading reports a later syntax error before a repeated key.
  \<open>SharedFacts\<close> shows what each accepted part has established; \<open>SharedProps\<close> that
  nothing unauthenticated is translated, that translated rules match what the design's alternatives match, and
  that accepted results blocked every case and found no bypass; \<open>SharedPlanProps\<close> that a plan consists of
  rules the adapter accepts and accounts for every obligation.

  \<^bold>\<open>The contracts.\<close> \<open>Requests\<close> and \<open>Results\<close> hold the models of
  \<^verbatim>\<open>contracts.py\<close> and \<^verbatim>\<open>terminal.py\<close> as records, each validator as a function that
  returns the model (normalised, where the source assigns to \<^verbatim>\<open>self\<close>) or the message of its
  error. \<open>RequestProps\<close> shows what an accepted request is bound to.

  \<^bold>\<open>The durable store\<close>, \<^verbatim>\<open>persistence/sqlite.py\<close> over the schema of
  \<^verbatim>\<open>persistence/migrations.py\<close>. \<open>LifecycleStore\<close> has the tables of runs and of callback
  deliveries and every operation on them as one transaction; \<open>ResultStore\<close> the tables of immutable
  results. \<open>LifecycleFacts\<close> has the lemmas of the single operations, \<open>LifecycleSteps\<close> the step
  relation of any number of workers, callers and dispatchers on one store, its invariant and
  reachable sample stores; \<open>LifecycleProps\<close> refines the steps of one run to an abstract machine
  and shows the fencing of stale workers, \<open>LifecycleContract\<close> the promises to the callers, and
  \<open>ResultProps\<close> those of the result tables.

  \<^bold>\<open>Publication and workers\<close>, \<^verbatim>\<open>lifecycle.py\<close>. \<open>JsonText\<close> is the
  canonical text of a JSON value and its bytes; \<open>Publication\<close> builds the canonical result of a
  run, its artifacts, integrity fields and completion (\<^verbatim>\<open>build_lifecycle_result\<close>).
  \<open>PublicationFacts\<close> and \<open>PublicationProps\<close> show that what is published verifies and is
  complete. \<open>Worker\<close> has the attempt, its failure handling and the heartbeat as programs of
  atomic calls on a repository. \<open>WorkerSafety\<close> states the laws of the repository as the locale
  \<open>run_store\<close> and shows, inside it, that every program is safe in any fleet of interleaved
  attempts; \<open>WorkerStore\<close> interprets the locale on the durable store together with the result
  tables; \<open>WorkerRun\<close> bounds the calls of a program (seventeen for an attempt) and follows the undisturbed
  execution; \<open>WorkerProps\<close> has the guarantees.

  \<^bold>\<open>The callbacks\<close>, \<^verbatim>\<open>callbacks.py\<close>. \<open>Callbacks\<close> validates the submission headers
  and models the dispatcher over the \<^verbatim>\<open>CallbackRepository\<close> protocol, a record of operations.
  \<open>CallbackProps\<close> states the protocol's laws as the locale \<open>delivery_outbox\<close>, proves the
  dispatcher's guarantees inside it, and interprets it on the durable store.

  \<^bold>\<open>Time and randomness.\<close> An instant is a natural number, an argument of each operation; the
  store compares ISO texts in UTC, whose order is that of the instants. The jitter of the back-off and
  the answer of the HTTP client are arguments.

  \<^bold>\<open>Not modelled.\<close> Python strings beyond ASCII case mapping; XML parsing, number parsing and
  pydantic's reading of a document into a model; connection handling, file permissions and schema
  migration; the HTTP client and the dispatcher's thread; the routes of \<^verbatim>\<open>api.py\<close>; the
  schema catalog of \<^verbatim>\<open>shared_contracts_v2.py\<close> and its JSON Schema validator;
  the SQL readers of upstream results and the Databricks store, which talk to a remote warehouse; the
  language-model client of the agent and its prompts; diagnostics, the demonstration pages and the
  constant sample records of \<^verbatim>\<open>providers/fixtures.py\<close>.
\<close>

section \<open>The regex translator always answers\<close>

text \<open>
  C28. Termination: the regex translator, which is written with fuel, never runs out of it: on
  every source it returns a result or declines with a message.
\<close>

theorem regex_translator_total:
  "(\<exists>r. translate source = Inr r) \<or> (\<exists>m. translate source = Inl (Unsupported m))"
proof (cases "translate source")
  case (Inl e)
  then show ?thesis using translate_total [of source] by (cases e) auto
qed auto

end
